(* ===== verification/Js_Prelude.thy ===== *)
theory Js_Prelude
  imports Complex_Main "HOL-Library.AList"
begin

text \<open>
  The JavaScript values the TypeScript sources compute with, shared by every component.

  \<^item> A string is a \<^typ>\<open>string\<close>: a list of code units below 256 (all text the modelled
    code inspects is ASCII).
  \<^item> A number is a \<^verbatim>\<open>jsnum\<close>: NaN, an infinity or an exact rational; the rounding of
    binary64 is not modelled, so the statements are about values that a double holds exactly
    (amounts, counts, ports, times).
  \<^item> A \<open>Map\<close> or an object with string keys is an association list in insertion order;
    \<^const>\<open>AList.update\<close> overwrites in place and appends a new key at the end, as
    \<open>Map.set\<close> does.
  \<^item> A thrown error is the left injection of a sum type.
\<close>

named_theorems js_defs "definitions of the JavaScript library functions, for evaluation"
named_theorems js_facts "facts about the JavaScript library functions"

section \<open>Characters and decimal digits\<close>

abbreviation char_code :: "char \<Rightarrow> nat" where
  "char_code c \<equiv> of_char c"

definition is_digit :: "char \<Rightarrow> bool" where
  [js_defs]: "is_digit c \<longleftrightarrow> 48 \<le> char_code c \<and> char_code c \<le> 57"

definition digit_val :: "char \<Rightarrow> nat" where
  [js_defs]: "digit_val c = char_code c - 48"

definition digit_char :: "nat \<Rightarrow> char" where
  "digit_char n = char_of (48 + n)"

text \<open>White space as \<open>trim\<close>, \<open>parseInt\<close> and the regular expression class \<open>\s\<close> see it.\<close>

definition is_ws :: "char \<Rightarrow> bool" where
  [js_defs]: "is_ws c \<longleftrightarrow> char_code c \<in> {9, 10, 11, 12, 13, 32, 160}"

lemma digit_char_eval [js_defs]:
  "digit_char 0 = CHR ''0''" "digit_char (Suc 0) = CHR ''1''" "digit_char 2 = CHR ''2''"
  "digit_char 3 = CHR ''3''" "digit_char 4 = CHR ''4''" "digit_char 5 = CHR ''5''"
  "digit_char 6 = CHR ''6''" "digit_char 7 = CHR ''7''" "digit_char 8 = CHR ''8''"
  "digit_char 9 = CHR ''9''"
  by (simp_all add: digit_char_def char_of_def bit_0)

lemma char_code_char_of [simp]: "n < 256 \<Longrightarrow> char_code (char_of n) = n"
  by (simp add: of_char_of)

lemma digit_char_facts [js_facts]:
  assumes "n < 10"
  shows "is_digit (digit_char n)" "digit_val (digit_char n) = n" "\<not> is_ws (digit_char n)"
  using assms by (auto simp: is_digit_def digit_val_def digit_char_def is_ws_def)

lemma is_digit_not_ws: "is_digit c \<Longrightarrow> \<not> is_ws c"
  by (auto simp: is_digit_def is_ws_def)

section \<open>Rendering and reading numbers\<close>

text \<open>\<open>String(n)\<close> of a non-negative integer.\<close>

fun js_itoa :: "nat \<Rightarrow> string" where
  "js_itoa n = (if n < 10 then [digit_char n] else js_itoa (n div 10) @ [digit_char (n mod 10)])"

declare js_itoa.simps [simp del, js_defs]

definition js_int_to_string :: "int \<Rightarrow> string" where
  "js_int_to_string i = (if i < 0 then CHR ''-'' # js_itoa (nat (- i)) else js_itoa (nat i))"

definition dec_value :: "string \<Rightarrow> nat" where
  [js_defs]: "dec_value ds = foldl (\<lambda>a c. 10 * a + digit_val c) 0 ds"

lemma js_itoa_nonempty [simp, js_facts]: "js_itoa n \<noteq> []"
  by (subst js_itoa.simps) simp

lemma js_itoa_digits [js_facts]: "list_all is_digit (js_itoa n)"
proof (induction n rule: js_itoa.induct)
  case (1 n)
  then show ?case
    by (subst js_itoa.simps) (auto simp: digit_char_facts)
qed

lemma dec_value_snoc: "dec_value (xs @ [c]) = 10 * dec_value xs + digit_val c"
  by (simp add: dec_value_def)

lemma dec_value_itoa [simp, js_facts]: "dec_value (js_itoa n) = n"
proof (induction n rule: js_itoa.induct)
  case (1 n)
  show ?case
  proof (cases "n < 10")
    case True
    then show ?thesis
      by (subst js_itoa.simps) (simp add: dec_value_def digit_char_facts)
  next
    case False
    with 1 show ?thesis
      by (subst js_itoa.simps) (simp add: dec_value_snoc digit_char_facts)
  qed
qed

lemma js_itoa_inject: "js_itoa m = js_itoa n \<longleftrightarrow> m = n"
  by (metis dec_value_itoa)

lemma length_itoa_le: "n < 10 ^ k \<Longrightarrow> 0 < k \<Longrightarrow> length (js_itoa n) \<le> k"
proof (induction k arbitrary: n)
  case 0
  then show ?case by simp
next
  case (Suc k)
  show ?case
  proof (cases "n < 10")
    case True
    then show ?thesis by (subst js_itoa.simps) simp
  next
    case False
    with Suc.prems have "n div 10 < 10 ^ k" "0 < k"
      by (auto intro: Nat.gr0I)
    with Suc.IH have "length (js_itoa (n div 10)) \<le> k" by blast
    with False show ?thesis by (subst js_itoa.simps) simp
  qed
qed

lemma itoa_no_leading_zero: "0 < n \<Longrightarrow> hd (js_itoa n) \<noteq> CHR ''0''"
proof (induction n rule: js_itoa.induct)
  case (1 n)
  show ?case
  proof (cases "n < 10")
    case True
    have "digit_val (digit_char n) = n" using True by (rule digit_char_facts)
    then have "digit_char n \<noteq> CHR ''0''" using "1.prems" by (auto simp: digit_val_def)
    with True show ?thesis by (subst js_itoa.simps) simp
  next
    case False
    then have "0 < n div 10" by simp
    with False "1.IH" show ?thesis by (subst js_itoa.simps) simp
  qed
qed

section \<open>Hexadecimal digits\<close>

definition hex_char :: "nat \<Rightarrow> char" where
  "hex_char n = (if n < 10 then char_of (48 + n) else char_of (55 + n))"

definition hex_digit :: "char \<Rightarrow> nat option" where
  [js_defs]: "hex_digit c =
     (let k = char_code c in
      if 48 \<le> k \<and> k \<le> 57 then Some (k - 48)
      else if 65 \<le> k \<and> k \<le> 70 then Some (k - 55)
      else if 97 \<le> k \<and> k \<le> 102 then Some (k - 87)
      else None)"

lemma hex_char_eval [js_defs]:
  "hex_char 0 = CHR ''0''" "hex_char (Suc 0) = CHR ''1''" "hex_char 2 = CHR ''2''"
  "hex_char 3 = CHR ''3''" "hex_char 4 = CHR ''4''" "hex_char 5 = CHR ''5''"
  "hex_char 6 = CHR ''6''" "hex_char 7 = CHR ''7''" "hex_char 8 = CHR ''8''"
  "hex_char 9 = CHR ''9''" "hex_char 10 = CHR ''A''" "hex_char 11 = CHR ''B''"
  "hex_char 12 = CHR ''C''" "hex_char 13 = CHR ''D''" "hex_char 14 = CHR ''E''"
  "hex_char 15 = CHR ''F''"
  by (simp_all add: hex_char_def char_of_def bit_0)

lemma hex_digit_hex_char [simp, js_facts]: "n < 16 \<Longrightarrow> hex_digit (hex_char n) = Some n"
  by (auto simp: hex_digit_def hex_char_def Let_def)

lemma hex_digit_bound: "hex_digit c = Some v \<Longrightarrow> v < 16"
  by (auto simp: hex_digit_def Let_def split: if_splits)

lemma hex_char_not_ws [simp]: "n < 16 \<Longrightarrow> \<not> is_ws (hex_char n)"
  by (auto simp: is_ws_def hex_char_def)

lemma hex_char_inject: "m < 16 \<Longrightarrow> n < 16 \<Longrightarrow> hex_char m = hex_char n \<longleftrightarrow> m = n"
  by (metis hex_digit_hex_char option.inject)

text \<open>
  \<open>parseInt(s, radix)\<close> for the radixes 10 and 16: leading white space, an optional sign, for
  radix 16 an optional \<open>0x\<close>, then the longest run of digits; \<^const>\<open>None\<close> is NaN.
\<close>

definition radix_digit :: "nat \<Rightarrow> char \<Rightarrow> nat option" where
  [js_defs]: "radix_digit radix c =
     (case hex_digit c of None \<Rightarrow> None | Some v \<Rightarrow> if v < radix then Some v else None)"

definition radix_ok :: "nat \<Rightarrow> char \<Rightarrow> bool" where
  [js_defs]: "radix_ok radix c = (case radix_digit radix c of None \<Rightarrow> False | Some _ \<Rightarrow> True)"

definition split_sign :: "string \<Rightarrow> int \<times> string" where
  [js_defs]: "split_sign s =
     (case s of [] \<Rightarrow> (1, s)
      | c # r \<Rightarrow> if c = CHR ''-'' then (-1, r) else if c = CHR ''+'' then (1, r) else (1, s))"

definition js_parseInt :: "nat \<Rightarrow> string \<Rightarrow> int option" where
  [js_defs]: "js_parseInt radix s =
     (let (sg, s1) = split_sign (dropWhile is_ws s);
          s2 = (if radix = 16 \<and> (take 2 s1 = ''0x'' \<or> take 2 s1 = ''0X'') then drop 2 s1 else s1);
          ds = takeWhile (radix_ok radix) s2
      in if ds = [] then None
         else Some (sg * foldl (\<lambda>a c. int radix * a + int (the (radix_digit radix c))) 0 ds))"

lemma radix_digit_10: "is_digit c \<Longrightarrow> radix_digit 10 c = Some (digit_val c)"
  by (auto simp: radix_digit_def hex_digit_def is_digit_def digit_val_def Let_def)

lemma foldl_dec_value:
  assumes "list_all is_digit ds"
  shows "foldl (\<lambda>a c. 10 * a + int (the (radix_digit 10 c))) (int k) ds
     = int (foldl (\<lambda>a c. 10 * a + digit_val c) k ds)"
  using assms
proof (induction ds arbitrary: k)
  case Nil
  then show ?case by simp
next
  case (Cons c ds)
  have eq: "10 * int k + int (the (radix_digit 10 c)) = int (10 * k + digit_val c)"
    using Cons.prems by (simp add: radix_digit_10)
  show ?case
    using Cons.IH [of "10 * k + digit_val c"] Cons.prems by (simp only: foldl_Cons eq) simp
qed

lemma dropWhile_Cons_hd: "s \<noteq> [] \<Longrightarrow> \<not> P (hd s) \<Longrightarrow> dropWhile P s = s"
  by (cases s) auto

lemma split_sign_digit: "s \<noteq> [] \<Longrightarrow> is_digit (hd s) \<Longrightarrow> split_sign s = (1, s)"
  by (cases s) (auto simp: split_sign_def is_digit_def)

lemma takeWhile_all_digits:
  "list_all is_digit s \<Longrightarrow> takeWhile (radix_ok 10) s = s"
  by (rule takeWhile_eq_all_conv [THEN iffD2]) (auto simp: list_all_iff radix_ok_def radix_digit_10)

lemma parseInt_digits [js_facts]:
  assumes "s \<noteq> []" "list_all is_digit s"
  shows "js_parseInt 10 s = Some (int (dec_value s))"
proof -
  have hd: "is_digit (hd s)" using assms by (cases s) auto
  then have ws: "dropWhile is_ws s = s"
    using assms(1) by (intro dropWhile_Cons_hd) (auto dest: is_digit_not_ws)
  show ?thesis
    using assms(1) foldl_dec_value [OF assms(2), of 0]
    unfolding js_parseInt_def ws split_sign_digit [OF assms(1) hd]
    by (simp add: Let_def takeWhile_all_digits [OF assms(2)] dec_value_def)
qed

section \<open>Padding, slicing, splitting\<close>

definition js_padStart :: "nat \<Rightarrow> char \<Rightarrow> string \<Rightarrow> string" where
  [js_defs]: "js_padStart n c s = replicate (n - length s) c @ s"

definition js_padEnd :: "nat \<Rightarrow> char \<Rightarrow> string \<Rightarrow> string" where
  [js_defs]: "js_padEnd n c s = s @ replicate (n - length s) c"

lemma length_padStart [simp]: "length (js_padStart n c s) = max n (length s)"
  by (simp add: js_padStart_def)

lemma length_padEnd [simp]: "length (js_padEnd n c s) = max n (length s)"
  by (simp add: js_padEnd_def)

lemma padStart_id [simp]: "n \<le> length s \<Longrightarrow> js_padStart n c s = s"
  by (simp add: js_padStart_def)

lemma dec_value_zeros: "dec_value (replicate k (CHR ''0'') @ s) = dec_value s"
  by (induction k) (simp_all add: dec_value_def digit_val_def)

lemma dec_value_padStart [simp]: "dec_value (js_padStart n (CHR ''0'') s) = dec_value s"
  by (simp add: js_padStart_def dec_value_zeros)

lemma padStart_digits: "list_all is_digit s \<Longrightarrow> list_all is_digit (js_padStart n (CHR ''0'') s)"
  by (auto simp: js_padStart_def list_all_iff is_digit_def in_set_replicate)

text \<open>
  \<open>s.slice(a, b)\<close> of a string, an array or a typed array: a negative index counts from the
  end, an index past the end is the end.
\<close>

definition js_rel_index :: "nat \<Rightarrow> int \<Rightarrow> nat" where
  [js_defs]: "js_rel_index n i = (if i < 0 then nat (int n + i) else min n (nat i))"

definition js_slice :: "'a list \<Rightarrow> int \<Rightarrow> int \<Rightarrow> 'a list" where
  [js_defs]: "js_slice xs a b =
     (let s = js_rel_index (length xs) a; e = js_rel_index (length xs) b
      in take (e - s) (drop s xs))"

lemma js_slice_nat: "js_slice xs (int a) (int b) = take (b - a) (drop a xs)"
  by (auto simp: js_slice_def js_rel_index_def Let_def min_def)

lemma js_slice_mid:
  "js_slice (pre @ mid @ post) (int (length pre)) (int (length pre + length mid)) = mid"
  using js_slice_nat [of "pre @ mid @ post" "length pre" "length pre + length mid"] by simp

text \<open>\<open>s.slice(-n)\<close>: the last \<open>n\<close> code units, for a positive \<open>n\<close>.\<close>

definition js_last :: "nat \<Rightarrow> 'a list \<Rightarrow> 'a list" where
  [js_defs]: "js_last n xs = drop (length xs - n) xs"

lemma js_last_slice: "0 < n \<Longrightarrow> js_last n xs = js_slice xs (- int n) (int (length xs))"
  by (auto simp: js_last_def js_slice_def js_rel_index_def Let_def nat_diff_distrib')

definition js_trimEnd :: "string \<Rightarrow> string" where
  [js_defs]: "js_trimEnd s = rev (dropWhile is_ws (rev s))"

definition js_trim :: "string \<Rightarrow> string" where
  [js_defs]: "js_trim s = js_trimEnd (dropWhile is_ws s)"

lemma trimEnd_pad:
  assumes "s = [] \<or> \<not> is_ws (last s)"
  shows "js_trimEnd (s @ replicate k (CHR '' '')) = s"
proof -
  have sp: "is_ws (CHR '' '')" by (simp add: is_ws_def)
  have "dropWhile is_ws (replicate k (CHR '' '') @ rev s) = dropWhile is_ws (rev s)"
    by (induction k) (simp_all add: sp)
  moreover have "dropWhile is_ws (rev s) = rev s"
    using assms by (cases s rule: rev_cases) auto
  ultimately show ?thesis by (simp add: js_trimEnd_def)
qed

fun js_split :: "char \<Rightarrow> string \<Rightarrow> string list" where
  "js_split c [] = [[]]"
| "js_split c (x # xs) =
     (if x = c then [] # js_split c xs
      else (case js_split c xs of [] \<Rightarrow> [[x]] | y # ys \<Rightarrow> (x # y) # ys))"

lemma js_split_nonempty [simp]: "js_split c s \<noteq> []"
  by (induction s) (auto split: list.splits)

lemma js_split_plain [js_facts]: "c \<notin> set s \<Longrightarrow> js_split c s = [s]"
  by (induction s) auto

lemma js_split_append [js_facts]:
  "c \<notin> set s \<Longrightarrow> js_split c (s @ c # r) = s # js_split c r"
  by (induction s) auto

definition js_startsWith :: "string \<Rightarrow> string \<Rightarrow> bool" where
  [js_defs]: "js_startsWith s p \<longleftrightarrow> take (length p) s = p"

lemma js_startsWith_append [simp]: "js_startsWith (p @ s) p"
  by (simp add: js_startsWith_def)

definition js_upper_char :: "char \<Rightarrow> char" where
  [js_defs]: "js_upper_char c =
     (if 97 \<le> char_code c \<and> char_code c \<le> 122 then char_of (char_code c - 32) else c)"

definition js_toUpperCase :: "string \<Rightarrow> string" where
  [js_defs]: "js_toUpperCase s = map js_upper_char s"

lemma hex_char_upper [simp]: "n < 16 \<Longrightarrow> js_upper_char (hex_char n) = hex_char n"
  by (auto simp: js_upper_char_def hex_char_def)

text \<open>An optional value with a default, \<open>x ?? d\<close>.\<close>

definition js_default :: "'a option \<Rightarrow> 'a \<Rightarrow> 'a" where
  [js_defs, simp]: "js_default x d = (case x of Some v \<Rightarrow> v | None \<Rightarrow> d)"

text \<open>Sequencing of computations that may throw.\<close>

definition sum_bind :: "'e + 'a \<Rightarrow> ('a \<Rightarrow> 'e + 'b) \<Rightarrow> 'e + 'b" where
  [js_defs]: "sum_bind r f = (case r of Inl e \<Rightarrow> Inl e | Inr x \<Rightarrow> f x)"

lemma sum_bind_simps [simp]: "sum_bind (Inl e) f = Inl e" "sum_bind (Inr x) f = f x"
  by (simp_all add: sum_bind_def)

lemma sum_bind_Inr: "sum_bind r f = Inr y \<longleftrightarrow> (\<exists>x. r = Inr x \<and> f x = Inr y)"
  by (cases r) simp_all

section \<open>Association lists as Maps\<close>

lemma map_of_update [simp]: "map_of (AList.update k v al) = (map_of al)(k \<mapsto> v)"
  by (rule ext) (simp add: AList.update_conv')

lemma distinct_update [simp]:
  "distinct (map fst al) \<Longrightarrow> distinct (map fst (AList.update k v al))"
  by (rule AList.distinct_update)

lemma update_conv_map:
  "distinct (map fst al) \<Longrightarrow> k \<in> fst ` set al \<Longrightarrow>
   AList.update k v al = map (\<lambda>p. if fst p = k then (k, v) else p) al"
proof (induction al)
  case Nil
  then show ?case by simp
next
  case (Cons p al)
  show ?case
  proof (cases "fst p = k")
    case True
    then have "\<forall>q \<in> set al. fst q \<noteq> k" using Cons.prems(1) by (force simp: image_iff)
    then have "map (\<lambda>p. if fst p = k then (k, v) else p) al = al" by (simp add: map_idI)
    with True show ?thesis by (cases p) simp
  next
    case False
    with Cons show ?thesis by (cases p) auto
  qed
qed

lemma set_alist_update: "set (AList.update k v al) \<subseteq> insert (k, v) (set al)"
  by (induction al) auto

lemma sum_alist_update:
  fixes f :: "'v \<Rightarrow> int"
  shows "map_of al k = Some v0 \<Longrightarrow>
   sum_list (map f (map snd (AList.update k v al))) = sum_list (map f (map snd al)) - f v0 + f v"
  by (induction al) (auto split: if_splits)

lemma map_fst_update_existing:
  "k \<in> fst ` set al \<Longrightarrow> map fst (AList.update k v al) = map fst al"
  by (induction al) auto

end
