(* ===== verification/Js_Number.thy ===== *)
theory Js_Number
  imports Js_Prelude
begin

text \<open>
  JavaScript numbers and their conversions: \<open>Number(s)\<close> of a string, \<open>Number.isInteger\<close>, the
  comparisons (false on NaN) and \<open>BigInt(n)\<close> (a \<open>RangeError\<close> unless \<open>n\<close> is an integer).
\<close>

datatype jsnum = JNaN | JPosInf | JNegInf | JNum rat

definition js_int :: "int \<Rightarrow> jsnum" where
  "js_int i = JNum (of_int i)"

fun js_lt :: "jsnum \<Rightarrow> jsnum \<Rightarrow> bool" where
  "js_lt JNaN _ = False"
| "js_lt _ JNaN = False"
| "js_lt (JNum a) (JNum b) = (a < b)"
| "js_lt JNegInf b = (b \<noteq> JNegInf)"
| "js_lt a JPosInf = (a \<noteq> JPosInf)"
| "js_lt _ _ = False"

fun js_le :: "jsnum \<Rightarrow> jsnum \<Rightarrow> bool" where
  "js_le JNaN _ = False"
| "js_le _ JNaN = False"
| "js_le (JNum a) (JNum b) = (a \<le> b)"
| "js_le JNegInf _ = True"
| "js_le _ JPosInf = True"
| "js_le _ _ = False"

fun js_add :: "jsnum \<Rightarrow> jsnum \<Rightarrow> jsnum" where
  "js_add (JNum a) (JNum b) = JNum (a + b)"
| "js_add JNaN _ = JNaN"
| "js_add _ JNaN = JNaN"
| "js_add JPosInf JNegInf = JNaN"
| "js_add JNegInf JPosInf = JNaN"
| "js_add JPosInf _ = JPosInf"
| "js_add _ JPosInf = JPosInf"
| "js_add _ _ = JNegInf"

text \<open>The integer a number is, if it is one: the guard \<open>Number.isInteger\<close> and the conversion
  \<open>BigInt\<close> succeed exactly when this is \<^const>\<open>Some\<close>.\<close>

definition js_to_int :: "jsnum \<Rightarrow> int option" where
  "js_to_int n =
     (case n of JNum q \<Rightarrow> if of_int \<lfloor>q\<rfloor> = q then Some \<lfloor>q\<rfloor> else None | _ \<Rightarrow> None)"

definition js_isInteger :: "jsnum \<Rightarrow> bool" where
  "js_isInteger n \<longleftrightarrow> js_to_int n \<noteq> None"

lemma js_to_int_js_int [simp]: "js_to_int (js_int i) = Some i"
  by (simp add: js_to_int_def js_int_def)

lemma js_isInteger_js_int [simp]: "js_isInteger (js_int i)"
  by (simp add: js_isInteger_def)

lemma js_to_int_Some: "js_to_int n = Some i \<longleftrightarrow> n = js_int i"
  by (auto simp: js_to_int_def js_int_def split: jsnum.splits if_splits)

lemma js_lt_int [simp]: "js_lt (js_int a) (js_int b) \<longleftrightarrow> a < b"
  by (simp add: js_int_def)

lemma js_le_int [simp]: "js_le (js_int a) (js_int b) \<longleftrightarrow> a \<le> b"
  by (simp add: js_int_def)

lemma js_add_int [simp]: "js_add (js_int a) (js_int b) = js_int (a + b)"
  by (simp add: js_int_def)

lemma js_int_inject [simp]: "js_int a = js_int b \<longleftrightarrow> a = b"
  by (simp add: js_int_def)

section \<open>Number(s)\<close>

text \<open>The exponent part of a decimal literal, absent, or \<open>e\<close> with an optional sign.\<close>

definition js_exponent :: "string \<Rightarrow> int option" where
  [js_defs]: "js_exponent s =
     (case s of [] \<Rightarrow> Some 0
      | c # r \<Rightarrow>
          if c = CHR ''e'' \<or> c = CHR ''E''
          then (let (sg, ds) = split_sign r
                in if ds \<noteq> [] \<and> list_all is_digit ds then Some (sg * int (dec_value ds)) else None)
          else None)"

definition js_fraction :: "string \<Rightarrow> string \<times> string" where
  [js_defs]: "js_fraction s =
     (case s of [] \<Rightarrow> ([], [])
      | c # r \<Rightarrow> if c = CHR ''.'' then (takeWhile is_digit r, dropWhile is_digit r) else ([], s))"

definition js_decimal :: "string \<Rightarrow> rat option" where
  [js_defs]: "js_decimal s =
     (let ip = takeWhile is_digit s;
          (fp, r) = js_fraction (dropWhile is_digit s)
      in if ip = [] \<and> fp = [] then None
         else (case js_exponent r of None \<Rightarrow> None
               | Some e \<Rightarrow> Some (of_nat (dec_value (ip @ fp)) * 10 powi (e - int (length fp)))))"

definition js_radix_literal :: "nat \<Rightarrow> string \<Rightarrow> jsnum" where
  [js_defs]: "js_radix_literal radix ds =
     (if ds \<noteq> [] \<and> list_all (radix_ok radix) ds
      then JNum (of_nat (foldl (\<lambda>a c. radix * a + the (radix_digit radix c)) 0 ds)) else JNaN)"

definition js_Number :: "string \<Rightarrow> jsnum" where
  [js_defs]: "js_Number s0 =
     (let s = js_trim s0; p = take 2 s in
      if s = [] then JNum 0
      else if p = ''0x'' \<or> p = ''0X'' then js_radix_literal 16 (drop 2 s)
      else if p = ''0o'' \<or> p = ''0O'' then js_radix_literal 8 (drop 2 s)
      else if p = ''0b'' \<or> p = ''0B'' then js_radix_literal 2 (drop 2 s)
      else (let (sg, r) = split_sign s in
            if r = ''Infinity'' then (if sg = - 1 then JNegInf else JPosInf)
            else (case js_decimal r of None \<Rightarrow> JNaN | Some q \<Rightarrow> JNum (of_int sg * q))))"

lemma js_decimal_digits:
  assumes "s \<noteq> []" "list_all is_digit s"
  shows "js_decimal s = Some (of_nat (dec_value s))"
proof -
  have tw: "takeWhile is_digit s = s" and dw: "dropWhile is_digit s = []"
    using assms(2) by (simp_all add: takeWhile_eq_all_conv list_all_iff)
  show ?thesis
    unfolding js_decimal_def js_fraction_def js_exponent_def tw dw
    using assms(1) by (simp add: Let_def)
qed

lemma js_trim_digits:
  assumes "s \<noteq> []" "list_all is_digit s"
  shows "js_trim s = s"
proof -
  have "is_digit (hd s)" "is_digit (last s)"
    using assms by (auto simp: list_all_iff)
  then have "\<not> is_ws (hd s)" "\<not> is_ws (last s)" by (auto dest: is_digit_not_ws)
  then have "dropWhile is_ws s = s" "js_trimEnd s = s"
    using assms(1) trimEnd_pad [of s 0] by (auto intro: dropWhile_Cons_hd)
  then show ?thesis by (simp add: js_trim_def)
qed

lemma digits_prefix2:
  assumes "list_all is_digit s" "\<not> is_digit x"
  shows "take 2 s \<noteq> [c, x]"
proof
  assume "take 2 s = [c, x]"
  then have "x \<in> set s" by (metis in_set_takeD list.set_intros(1,2))
  with assms show False by (simp add: list_all_iff)
qed

text \<open>A non-empty run of decimal digits is read as the number it denotes, leading zeros or not.\<close>

lemma js_Number_digits [js_facts]:
  assumes ne: "s \<noteq> []" and dig: "list_all is_digit s"
  shows "js_Number s = JNum (of_nat (dec_value s))"
proof -
  have nd: "\<not> is_digit CHR ''x''" "\<not> is_digit CHR ''X''" "\<not> is_digit CHR ''o''"
    "\<not> is_digit CHR ''O''" "\<not> is_digit CHR ''b''" "\<not> is_digit CHR ''B''" "\<not> is_digit CHR ''I''"
    by (simp_all add: is_digit_def)
  have hd: "is_digit (hd s)" using assms by (cases s) auto
  then have inf: "s \<noteq> ''Infinity''" using nd by auto
  show ?thesis
    unfolding js_Number_def js_trim_digits [OF ne dig]
    using ne inf digits_prefix2 [OF dig nd(1)] digits_prefix2 [OF dig nd(2)]
      digits_prefix2 [OF dig nd(3)] digits_prefix2 [OF dig nd(4)]
      digits_prefix2 [OF dig nd(5)] digits_prefix2 [OF dig nd(6)]
    by (simp add: Let_def split_sign_digit [OF ne hd] js_decimal_digits [OF ne dig])
qed

lemma js_Number_itoa [simp]: "js_Number (js_itoa n) = js_int (int n)"
  by (simp add: js_Number_digits js_itoa_digits js_int_def)

lemma js_Number_empty: "js_Number [] = js_int 0"
  by (simp add: js_Number_def js_trim_def js_trimEnd_def js_int_def)

end
