(* ===== verification/Xfs_Core.thy ===== *)
theory Xfs_Core
  imports Js_Number
begin

text \<open>
  The data contracts of \<^verbatim>\<open>packages/xfs-core\<close>: result codes, service classes and states, the
  command and event codes generated from the XFS contract with their event classes, the payloads
  and replies of the five device classes, and the command and response envelopes.

  Every enum is a datatype with a function into its wire code. The payload of a command is
  unknown to the router and each device reads it through an unchecked cast; \<open>xfs_payload\<close> holds,
  for one payload object, what each of those casts reads from it. The message of a thrown
  \<open>Error\<close> is represented by the constructor that builds it. Wall-clock time stamps and durations
  are left out.
\<close>

section \<open>Codes\<close>

datatype XfsResult =
    SUCCESS | ERR_CANCEL | ERR_DEV_NOT_READY | ERR_HARDWARE_ERROR | ERR_INVALID_HSERVICE
  | ERR_INTERNAL_ERROR | ERR_TIMEOUT | ERR_USER_ERROR | ERR_UNSUPP_COMMAND
  | ERR_SERVICE_NOT_FOUND | ERR_LOCKED | ERR_NOT_STARTED

fun xfs_result_code :: "XfsResult \<Rightarrow> int" where
  "xfs_result_code SUCCESS = 0"
| "xfs_result_code ERR_CANCEL = - 1"
| "xfs_result_code ERR_DEV_NOT_READY = - 2"
| "xfs_result_code ERR_HARDWARE_ERROR = - 3"
| "xfs_result_code ERR_INVALID_HSERVICE = - 4"
| "xfs_result_code ERR_INTERNAL_ERROR = - 5"
| "xfs_result_code ERR_TIMEOUT = - 6"
| "xfs_result_code ERR_USER_ERROR = - 7"
| "xfs_result_code ERR_UNSUPP_COMMAND = - 8"
| "xfs_result_code ERR_SERVICE_NOT_FOUND = - 9"
| "xfs_result_code ERR_LOCKED = - 10"
| "xfs_result_code ERR_NOT_STARTED = - 11"

lemma xfs_result_code_inject: "xfs_result_code a = xfs_result_code b \<Longrightarrow> a = b"
  by (cases a; cases b) simp_all

datatype XfsServiceClass = IDC | PIN | CDM | PTR | SIU | TTU

datatype XfsServiceState = CLOSED | OPEN | LOCKED | BUSY | ERROR

datatype XfsEventClass = SRVE | USRE | EXEE | SYSE

text \<open>A switch over code strings is a search for the command with that code.\<close>

definition code_lookup :: "('c \<Rightarrow> string) \<Rightarrow> 'c list \<Rightarrow> string \<Rightarrow> 'c option" where
  "code_lookup code cs s = find (\<lambda>c. code c = s) cs"

lemma code_lookup_Some: "code_lookup code cs s = Some c \<Longrightarrow> code c = s"
  by (auto simp: code_lookup_def find_Some_iff)

datatype cdm_cmd =
    CDM_DISPENSE | CDM_PRESENT | CDM_REJECT | CDM_RETRACT | CDM_COUNT | CDM_CASH_UNIT_INFO
  | CDM_START_EXCHANGE | CDM_END_EXCHANGE | CDM_RESET

fun cdm_cmd_code :: "cdm_cmd \<Rightarrow> string" where
  "cdm_cmd_code CDM_DISPENSE = ''WFS_CMD_CDM_DISPENSE''"
| "cdm_cmd_code CDM_PRESENT = ''WFS_CMD_CDM_PRESENT''"
| "cdm_cmd_code CDM_REJECT = ''WFS_CMD_CDM_REJECT''"
| "cdm_cmd_code CDM_RETRACT = ''WFS_CMD_CDM_RETRACT''"
| "cdm_cmd_code CDM_COUNT = ''WFS_CMD_CDM_COUNT''"
| "cdm_cmd_code CDM_CASH_UNIT_INFO = ''WFS_CMD_CDM_CASH_UNIT_INFO''"
| "cdm_cmd_code CDM_START_EXCHANGE = ''WFS_CMD_CDM_START_EXCHANGE''"
| "cdm_cmd_code CDM_END_EXCHANGE = ''WFS_CMD_CDM_END_EXCHANGE''"
| "cdm_cmd_code CDM_RESET = ''WFS_CMD_CDM_RESET''"

definition cdm_cmd_of :: "string \<Rightarrow> cdm_cmd option" where
  "cdm_cmd_of = code_lookup cdm_cmd_code
     [CDM_DISPENSE, CDM_PRESENT, CDM_REJECT, CDM_RETRACT, CDM_COUNT, CDM_CASH_UNIT_INFO,
      CDM_START_EXCHANGE, CDM_END_EXCHANGE, CDM_RESET]"

lemma cdm_cmd_of_code [simp]: "cdm_cmd_of (cdm_cmd_code c) = Some c"
  by (cases c) (simp_all add: cdm_cmd_of_def code_lookup_def)

lemma cdm_cmd_of_iff: "cdm_cmd_of s = Some c \<longleftrightarrow> s = cdm_cmd_code c"
  by (metis cdm_cmd_of_code cdm_cmd_of_def code_lookup_Some)

datatype cdm_evt =
    CDM_CASH_UNIT_THRESHOLD | CDM_SAFE_DOOR_OPEN | CDM_SAFE_DOOR_CLOSED | CDM_NOTES_PRESENTED
  | CDM_NOTES_TAKEN | CDM_JAM | CDM_EXCHANGE_STATE_CHANGED

fun cdm_evt_code :: "cdm_evt \<Rightarrow> string" where
  "cdm_evt_code CDM_CASH_UNIT_THRESHOLD = ''WFS_SRVE_CDM_CASHUNITTHRESHOLD''"
| "cdm_evt_code CDM_SAFE_DOOR_OPEN = ''WFS_SRVE_CDM_SAFEDOOROPEN''"
| "cdm_evt_code CDM_SAFE_DOOR_CLOSED = ''WFS_SRVE_CDM_SAFEDOORCLOSED''"
| "cdm_evt_code CDM_NOTES_PRESENTED = ''WFS_EXEE_CDM_NOTESPRESENTED''"
| "cdm_evt_code CDM_NOTES_TAKEN = ''WFS_SRVE_CDM_ITEMSTAKEN''"
| "cdm_evt_code CDM_JAM = ''WFS_SRVE_CDM_MEDIADETECTED''"
| "cdm_evt_code CDM_EXCHANGE_STATE_CHANGED = ''WFS_SRVE_CDM_EXCHANGESTATECHANGED''"

fun cdm_evt_class :: "cdm_evt \<Rightarrow> XfsEventClass" where
  "cdm_evt_class CDM_NOTES_PRESENTED = EXEE"
| "cdm_evt_class _ = SRVE"

datatype idc_cmd =
    IDC_READ_RAW_DATA | IDC_READ_TRACK | IDC_WRITE_TRACK | IDC_EJECT_CARD | IDC_RETAIN_CARD
  | IDC_RESET_COUNT | IDC_RESET | IDC_CHIP_IO | IDC_CHIP_POWER

fun idc_cmd_code :: "idc_cmd \<Rightarrow> string" where
  "idc_cmd_code IDC_READ_RAW_DATA = ''WFS_CMD_IDC_READ_RAW_DATA''"
| "idc_cmd_code IDC_READ_TRACK = ''WFS_CMD_IDC_READ_TRACK''"
| "idc_cmd_code IDC_WRITE_TRACK = ''WFS_CMD_IDC_WRITE_TRACK''"
| "idc_cmd_code IDC_EJECT_CARD = ''WFS_CMD_IDC_EJECT_CARD''"
| "idc_cmd_code IDC_RETAIN_CARD = ''WFS_CMD_IDC_RETAIN_CARD''"
| "idc_cmd_code IDC_RESET_COUNT = ''WFS_CMD_IDC_RESET_COUNT''"
| "idc_cmd_code IDC_RESET = ''WFS_CMD_IDC_RESET''"
| "idc_cmd_code IDC_CHIP_IO = ''WFS_CMD_IDC_CHIP_IO''"
| "idc_cmd_code IDC_CHIP_POWER = ''WFS_CMD_IDC_CHIP_POWER''"

definition idc_cmd_of :: "string \<Rightarrow> idc_cmd option" where
  "idc_cmd_of = code_lookup idc_cmd_code
     [IDC_READ_RAW_DATA, IDC_READ_TRACK, IDC_WRITE_TRACK, IDC_EJECT_CARD, IDC_RETAIN_CARD,
      IDC_RESET_COUNT, IDC_RESET, IDC_CHIP_IO, IDC_CHIP_POWER]"

lemma idc_cmd_of_code [simp]: "idc_cmd_of (idc_cmd_code c) = Some c"
  by (cases c) (simp_all add: idc_cmd_of_def code_lookup_def)

lemma idc_cmd_of_iff: "idc_cmd_of s = Some c \<longleftrightarrow> s = idc_cmd_code c"
  by (metis idc_cmd_of_code idc_cmd_of_def code_lookup_Some)

datatype idc_evt =
    IDC_MEDIA_INSERTED | IDC_MEDIA_REMOVED | IDC_MEDIA_RETAINED | IDC_INVALID_TRACK_DATA
  | IDC_INVALID_MEDIA

fun idc_evt_code :: "idc_evt \<Rightarrow> string" where
  "idc_evt_code IDC_MEDIA_INSERTED = ''WFS_SRVE_IDC_MEDIAINSERTED''"
| "idc_evt_code IDC_MEDIA_REMOVED = ''WFS_SRVE_IDC_MEDIAREMOVED''"
| "idc_evt_code IDC_MEDIA_RETAINED = ''WFS_SRVE_IDC_MEDIARETAINED''"
| "idc_evt_code IDC_INVALID_TRACK_DATA = ''WFS_EXEE_IDC_INVALIDTRACKDATA''"
| "idc_evt_code IDC_INVALID_MEDIA = ''WFS_EXEE_IDC_INVALIDMEDIA''"

fun idc_evt_class :: "idc_evt \<Rightarrow> XfsEventClass" where
  "idc_evt_class IDC_MEDIA_INSERTED = SRVE"
| "idc_evt_class IDC_MEDIA_REMOVED = SRVE"
| "idc_evt_class IDC_MEDIA_RETAINED = SRVE"
| "idc_evt_class IDC_INVALID_TRACK_DATA = EXEE"
| "idc_evt_class IDC_INVALID_MEDIA = EXEE"

datatype pin_cmd =
    PIN_GET_PIN | PIN_GET_PINBLOCK | PIN_GET_DATA | PIN_RESET | PIN_IMPORT_KEY
  | PIN_GET_KEY_DETAIL

fun pin_cmd_code :: "pin_cmd \<Rightarrow> string" where
  "pin_cmd_code PIN_GET_PIN = ''WFS_CMD_PIN_GET_PIN''"
| "pin_cmd_code PIN_GET_PINBLOCK = ''WFS_CMD_PIN_GET_PINBLOCK''"
| "pin_cmd_code PIN_GET_DATA = ''WFS_CMD_PIN_GET_DATA''"
| "pin_cmd_code PIN_RESET = ''WFS_CMD_PIN_RESET''"
| "pin_cmd_code PIN_IMPORT_KEY = ''WFS_CMD_PIN_IMPORT_KEY''"
| "pin_cmd_code PIN_GET_KEY_DETAIL = ''WFS_CMD_PIN_GET_KEY_DETAIL''"

definition pin_cmd_of :: "string \<Rightarrow> pin_cmd option" where
  "pin_cmd_of = code_lookup pin_cmd_code
     [PIN_GET_PIN, PIN_GET_PINBLOCK, PIN_GET_DATA, PIN_RESET, PIN_IMPORT_KEY,
      PIN_GET_KEY_DETAIL]"

lemma pin_cmd_of_code [simp]: "pin_cmd_of (pin_cmd_code c) = Some c"
  by (cases c) (simp_all add: pin_cmd_of_def code_lookup_def)

lemma pin_cmd_of_iff: "pin_cmd_of s = Some c \<longleftrightarrow> s = pin_cmd_code c"
  by (metis pin_cmd_of_code pin_cmd_of_def code_lookup_Some)

datatype pin_evt = PIN_KEY | PIN_ENTER_DATA | PIN_DATA_READY

fun pin_evt_code :: "pin_evt \<Rightarrow> string" where
  "pin_evt_code PIN_KEY = ''WFS_EXEE_PIN_KEY''"
| "pin_evt_code PIN_ENTER_DATA = ''WFS_EXEE_PIN_ENTERDATA''"
| "pin_evt_code PIN_DATA_READY = ''WFS_EXEE_PIN_DATAREADY''"

fun pin_evt_class :: "pin_evt \<Rightarrow> XfsEventClass" where
  "pin_evt_class PIN_KEY = EXEE"
| "pin_evt_class PIN_ENTER_DATA = EXEE"
| "pin_evt_class PIN_DATA_READY = EXEE"

datatype ptr_cmd = PTR_PRINT_FORM | PTR_RAW_DATA | PTR_CUT_PAPER | PTR_RESET

fun ptr_cmd_code :: "ptr_cmd \<Rightarrow> string" where
  "ptr_cmd_code PTR_PRINT_FORM = ''WFS_CMD_PTR_PRINT_FORM''"
| "ptr_cmd_code PTR_RAW_DATA = ''WFS_CMD_PTR_RAW_DATA''"
| "ptr_cmd_code PTR_CUT_PAPER = ''WFS_CMD_PTR_CUT_PAPER''"
| "ptr_cmd_code PTR_RESET = ''WFS_CMD_PTR_RESET''"

definition ptr_cmd_of :: "string \<Rightarrow> ptr_cmd option" where
  "ptr_cmd_of = code_lookup ptr_cmd_code [PTR_PRINT_FORM, PTR_RAW_DATA, PTR_CUT_PAPER, PTR_RESET]"

lemma ptr_cmd_of_code [simp]: "ptr_cmd_of (ptr_cmd_code c) = Some c"
  by (cases c) (simp_all add: ptr_cmd_of_def code_lookup_def)

lemma ptr_cmd_of_iff: "ptr_cmd_of s = Some c \<longleftrightarrow> s = ptr_cmd_code c"
  by (metis ptr_cmd_of_code ptr_cmd_of_def code_lookup_Some)

datatype ptr_evt = PTR_PAPER_THRESHOLD | PTR_MEDIA_PRESENTED | PTR_MEDIA_TAKEN

fun ptr_evt_code :: "ptr_evt \<Rightarrow> string" where
  "ptr_evt_code PTR_PAPER_THRESHOLD = ''WFS_SRVE_PTR_PAPERTHRESHOLD''"
| "ptr_evt_code PTR_MEDIA_PRESENTED = ''WFS_SRVE_PTR_MEDIAPRESENTED''"
| "ptr_evt_code PTR_MEDIA_TAKEN = ''WFS_SRVE_PTR_MEDIATAKEN''"

fun ptr_evt_class :: "ptr_evt \<Rightarrow> XfsEventClass" where
  "ptr_evt_class PTR_PAPER_THRESHOLD = SRVE"
| "ptr_evt_class PTR_MEDIA_PRESENTED = SRVE"
| "ptr_evt_class PTR_MEDIA_TAKEN = SRVE"

datatype siu_cmd =
    SIU_ENABLE_EVENTS | SIU_DISABLE_EVENTS | SIU_SET_INDICATOR | SIU_GET_SENSOR_STATUS | SIU_RESET

fun siu_cmd_code :: "siu_cmd \<Rightarrow> string" where
  "siu_cmd_code SIU_ENABLE_EVENTS = ''WFS_CMD_SIU_ENABLE_EVENTS''"
| "siu_cmd_code SIU_DISABLE_EVENTS = ''WFS_CMD_SIU_DISABLE_EVENTS''"
| "siu_cmd_code SIU_SET_INDICATOR = ''WFS_CMD_SIU_SET_INDICATOR''"
| "siu_cmd_code SIU_GET_SENSOR_STATUS = ''WFS_CMD_SIU_GET_SENSOR_STATUS''"
| "siu_cmd_code SIU_RESET = ''WFS_CMD_SIU_RESET''"

definition siu_cmd_of :: "string \<Rightarrow> siu_cmd option" where
  "siu_cmd_of = code_lookup siu_cmd_code
     [SIU_ENABLE_EVENTS, SIU_DISABLE_EVENTS, SIU_SET_INDICATOR, SIU_GET_SENSOR_STATUS, SIU_RESET]"

lemma siu_cmd_of_code [simp]: "siu_cmd_of (siu_cmd_code c) = Some c"
  by (cases c) (simp_all add: siu_cmd_of_def code_lookup_def)

lemma siu_cmd_of_iff: "siu_cmd_of s = Some c \<longleftrightarrow> s = siu_cmd_code c"
  by (metis siu_cmd_of_code siu_cmd_of_def code_lookup_Some)

datatype siu_evt =
    SIU_PORT_STATUS | SIU_CABINET_STATUS | SIU_SAFE_DOOR | SIU_TAMPER_SENSOR | SIU_OPERATOR_SWITCH

fun siu_evt_code :: "siu_evt \<Rightarrow> string" where
  "siu_evt_code SIU_PORT_STATUS = ''WFS_SRVE_SIU_PORT_STATUS''"
| "siu_evt_code SIU_CABINET_STATUS = ''WFS_USRE_SIU_CABINET_STATUS''"
| "siu_evt_code SIU_SAFE_DOOR = ''WFS_USRE_SIU_SAFE_DOOR''"
| "siu_evt_code SIU_TAMPER_SENSOR = ''WFS_USRE_SIU_TAMPER_SENSOR''"
| "siu_evt_code SIU_OPERATOR_SWITCH = ''WFS_USRE_SIU_OPERATOR_SWITCH''"

fun siu_evt_class :: "siu_evt \<Rightarrow> XfsEventClass" where
  "siu_evt_class SIU_PORT_STATUS = SRVE"
| "siu_evt_class SIU_CABINET_STATUS = USRE"
| "siu_evt_class SIU_SAFE_DOOR = USRE"
| "siu_evt_class SIU_TAMPER_SENSOR = USRE"
| "siu_evt_class SIU_OPERATOR_SWITCH = USRE"

datatype event_code =
  CdmEvt cdm_evt | IdcEvt idc_evt | PinEvt pin_evt | PtrEvt ptr_evt | SiuEvt siu_evt

fun event_code_string :: "event_code \<Rightarrow> string" where
  "event_code_string (CdmEvt e) = cdm_evt_code e"
| "event_code_string (IdcEvt e) = idc_evt_code e"
| "event_code_string (PinEvt e) = pin_evt_code e"
| "event_code_string (PtrEvt e) = ptr_evt_code e"
| "event_code_string (SiuEvt e) = siu_evt_code e"

fun event_code_class :: "event_code \<Rightarrow> XfsEventClass" where
  "event_code_class (CdmEvt e) = cdm_evt_class e"
| "event_code_class (IdcEvt e) = idc_evt_class e"
| "event_code_class (PinEvt e) = pin_evt_class e"
| "event_code_class (PtrEvt e) = ptr_evt_class e"
| "event_code_class (SiuEvt e) = siu_evt_class e"

section \<open>Device data\<close>

datatype CashUnitStatus = CU_OK | CU_LOW | CU_EMPTY | CU_JAMMED | CU_INOPERATIVE

datatype CdmMixType = MIN_NOTES | MAX_NOTES | CUSTOM

record CashUnit =
  cu_unitId :: string
  cu_denomination :: int
  cu_currency :: string
  cu_status :: CashUnitStatus
  cu_count :: int
  cu_initialCount :: int
  cu_maximum :: int
  cu_minimum :: int
  cu_rejectCount :: int

text \<open>A dispense mix, from denomination key to count, in the order \<open>Object.entries\<close> lists it.\<close>

type_synonym mix = "(string \<times> int) list"

record CdmDispensePayload =
  dp_amount :: jsnum
  dp_currency :: string
  dp_mixType :: CdmMixType
  dp_customMix :: "(string \<times> jsnum) list option"
  dp_present :: bool

datatype PinBlockFormat = ISO0 | ISO1 | ISO3 | ANSI

record PinGetPinPayload =
  ps_minLen :: int
  ps_maxLen :: int
  ps_autoEnd :: bool
  ps_activeKeys :: "string list"
  ps_activeFDKs :: "string list"
  ps_terminateKeys :: "string list"

record PinGetPinBlockPayload =
  pb_keyName :: string
  pb_format :: "PinBlockFormat option"
  pb_pan :: string

record PtrPrintFormPayload =
  pf_formName :: string
  pf_fields :: "(string \<times> string) list"
  pf_mediaType :: string
  pf_cut :: bool

datatype SiuSensorId = CABINET_DOOR | SAFE_DOOR | TAMPER | OPERATOR_SWITCH

instantiation SiuSensorId :: enum
begin

definition enum_SiuSensorId :: "SiuSensorId list" where
  "enum_SiuSensorId = [CABINET_DOOR, SAFE_DOOR, TAMPER, OPERATOR_SWITCH]"

definition enum_all_SiuSensorId :: "(SiuSensorId \<Rightarrow> bool) \<Rightarrow> bool" where
  "enum_all_SiuSensorId P \<longleftrightarrow> P CABINET_DOOR \<and> P SAFE_DOOR \<and> P TAMPER \<and> P OPERATOR_SWITCH"

definition enum_ex_SiuSensorId :: "(SiuSensorId \<Rightarrow> bool) \<Rightarrow> bool" where
  "enum_ex_SiuSensorId P \<longleftrightarrow> P CABINET_DOOR \<or> P SAFE_DOOR \<or> P TAMPER \<or> P OPERATOR_SWITCH"

instance
proof
  show u: "(UNIV :: SiuSensorId set) = set enum_class.enum"
    by (auto simp: enum_SiuSensorId_def intro: SiuSensorId.exhaust)
  show "distinct (enum_class.enum :: SiuSensorId list)"
    by (simp add: enum_SiuSensorId_def)
  show "enum_class.enum_all P = Ball UNIV P" for P :: "SiuSensorId \<Rightarrow> bool"
    by (simp only: u) (simp add: enum_SiuSensorId_def enum_all_SiuSensorId_def)
  show "enum_class.enum_ex P = Bex UNIV P" for P :: "SiuSensorId \<Rightarrow> bool"
    by (simp only: u) (simp add: enum_SiuSensorId_def enum_ex_SiuSensorId_def)
qed

end

datatype SiuSensorState = S_CLOSED | S_OPEN | S_TAMPERED | S_UNKNOWN

datatype SiuIndicatorId = POWER | READY | FAULT | SERVICE

instantiation SiuIndicatorId :: enum
begin

definition enum_SiuIndicatorId :: "SiuIndicatorId list" where
  "enum_SiuIndicatorId = [POWER, READY, FAULT, SERVICE]"

definition enum_all_SiuIndicatorId :: "(SiuIndicatorId \<Rightarrow> bool) \<Rightarrow> bool" where
  "enum_all_SiuIndicatorId P \<longleftrightarrow> P POWER \<and> P READY \<and> P FAULT \<and> P SERVICE"

definition enum_ex_SiuIndicatorId :: "(SiuIndicatorId \<Rightarrow> bool) \<Rightarrow> bool" where
  "enum_ex_SiuIndicatorId P \<longleftrightarrow> P POWER \<or> P READY \<or> P FAULT \<or> P SERVICE"

instance
proof
  show u: "(UNIV :: SiuIndicatorId set) = set enum_class.enum"
    by (auto simp: enum_SiuIndicatorId_def intro: SiuIndicatorId.exhaust)
  show "distinct (enum_class.enum :: SiuIndicatorId list)"
    by (simp add: enum_SiuIndicatorId_def)
  show "enum_class.enum_all P = Ball UNIV P" for P :: "SiuIndicatorId \<Rightarrow> bool"
    by (simp only: u) (simp add: enum_SiuIndicatorId_def enum_all_SiuIndicatorId_def)
  show "enum_class.enum_ex P = Bex UNIV P" for P :: "SiuIndicatorId \<Rightarrow> bool"
    by (simp only: u) (simp add: enum_SiuIndicatorId_def enum_ex_SiuIndicatorId_def)
qed

end

datatype SiuIndicatorState = I_OFF | I_ON | I_BLINKING

datatype SiuOperatorMode = NORMAL | SUPERVISOR | MAINTENANCE

record xfs_payload =
  pl_dispense :: CdmDispensePayload
  pl_pinSpec :: PinGetPinPayload
  pl_pinBlock :: PinGetPinBlockPayload
  pl_print :: PtrPrintFormPayload
  pl_rawData :: string
  pl_indicator :: "(string \<times> string) option"

datatype xfs_reply =
    R_Empty
  | R_Ok
  | R_Dispense mix int
  | R_Present int
  | R_CashUnitInfo "CashUnit list" int
  | R_Count int int
  | R_Track string string string string string "string option"
  | R_Raw string string
  | R_Chip string string
  | R_PinLength nat
  | R_Data string
  | R_PinBlock string PinBlockFormat string
  | R_Keys "string list"
  | R_Receipt string
  | R_Printed bool
  | R_Sensors "SiuSensorId \<Rightarrow> SiuSensorState" "SiuIndicatorId \<Rightarrow> SiuIndicatorState" SiuOperatorMode

datatype ev_payload =
    EP_Pan "string option"
  | EP_Amount int
  | EP_Unit CashUnit
  | EP_Jam string CashUnitStatus
  | EP_Key string
  | EP_Enter string int int
  | EP_Length nat
  | EP_Level int
  | EP_Receipt string string
  | EP_ReceiptId string
  | EP_Port SiuSensorId SiuSensorState SiuSensorState
  | EP_Mode SiuOperatorMode

section \<open>Errors, events and envelopes\<close>

datatype dev_error =
    InjectedError int
  | UnsupportedCommand XfsServiceClass string
  | UnknownHService string
  | InvalidAmount jsnum
  | NoActiveCassette jsnum
  | InsufficientNotes string int int
  | CannotDispense int
  | InvalidDenom string
  | InvalidCount string
  | CustomMixSum int int
  | NoCashToPresent
  | NothingToRetract
  | UnknownCassette string
  | ReplenishOutOfRange int
  | NoCardInReader
  | NoCardToEject
  | NoCardToRetain
  | NoPinBuffered
  | KeyNotFound string
  | InvalidPinLength nat
  | XorLengthMismatch
  | EntryCancelled string
  | OutOfPaper
  | UnknownIndicator "string option"
  | InvalidIndicatorState string

record xfs_event =
  ev_hService :: string
  ev_serviceClass :: XfsServiceClass
  ev_eventCode :: event_code
  ev_eventClass :: XfsEventClass
  ev_payload :: ev_payload

text \<open>
  What a synchronous call on a device makes visible, in order: events on the bus, and promises
  of earlier calls that it settles (each call that stays pending is known by a number).
\<close>

datatype dev_output =
    Emit xfs_event
  | Resolve nat xfs_reply
  | Reject nat dev_error

datatype outcome = Done xfs_reply | Failed dev_error | Pending

record XfsCommand =
  cmd_hService :: string
  cmd_serviceClass :: XfsServiceClass
  cmd_commandCode :: string
  cmd_requestId :: string
  cmd_timeoutMs :: int
  cmd_payload :: xfs_payload
  cmd_sessionId :: "string option"

record XfsResponse =
  rsp_requestId :: string
  rsp_hService :: string
  rsp_result :: int
  rsp_payload :: "xfs_reply option"
  rsp_errorDetail :: "dev_error option"

definition xfsSuccess :: "XfsCommand \<Rightarrow> xfs_reply \<Rightarrow> XfsResponse" where
  "xfsSuccess c p =
     \<lparr>rsp_requestId = cmd_requestId c, rsp_hService = cmd_hService c,
      rsp_result = xfs_result_code SUCCESS, rsp_payload = Some p, rsp_errorDetail = None\<rparr>"

definition xfsError :: "XfsCommand \<Rightarrow> XfsResult \<Rightarrow> dev_error \<Rightarrow> XfsResponse" where
  "xfsError c r e =
     \<lparr>rsp_requestId = cmd_requestId c, rsp_hService = cmd_hService c,
      rsp_result = xfs_result_code r, rsp_payload = None, rsp_errorDetail = Some e\<rparr>"

lemma xfs_envelope_simps [simp]:
  "rsp_result (xfsSuccess c p) = 0"
  "rsp_payload (xfsSuccess c p) = Some p"
  "rsp_errorDetail (xfsSuccess c p) = None"
  "rsp_requestId (xfsSuccess c p) = cmd_requestId c"
  "rsp_hService (xfsSuccess c p) = cmd_hService c"
  "rsp_result (xfsError c r e) = xfs_result_code r"
  "rsp_payload (xfsError c r e) = None"
  "rsp_errorDetail (xfsError c r e) = Some e"
  "rsp_requestId (xfsError c r e) = cmd_requestId c"
  "rsp_hService (xfsError c r e) = cmd_hService c"
  by (simp_all add: xfsSuccess_def xfsError_def)

section \<open>Payloads\<close>

text \<open>The empty payload object \<open>{}\<close>, for the commands that read nothing from it, and the
  dispense request the ATM application builds.\<close>

definition xfs_no_payload :: xfs_payload where
  "xfs_no_payload =
     \<lparr>pl_dispense = \<lparr>dp_amount = JNaN, dp_currency = [], dp_mixType = MIN_NOTES,
                      dp_customMix = None, dp_present = False\<rparr>,
      pl_pinSpec = \<lparr>ps_minLen = 0, ps_maxLen = 0, ps_autoEnd = False, ps_activeKeys = [],
                     ps_activeFDKs = [], ps_terminateKeys = []\<rparr>,
      pl_pinBlock = \<lparr>pb_keyName = [], pb_format = None, pb_pan = []\<rparr>,
      pl_print = \<lparr>pf_formName = [], pf_fields = [], pf_mediaType = [], pf_cut = False\<rparr>,
      pl_rawData = [], pl_indicator = None\<rparr>"

definition dispense_payload :: "jsnum \<Rightarrow> xfs_payload" where
  "dispense_payload amount =
     xfs_no_payload\<lparr>pl_dispense := \<lparr>dp_amount = amount, dp_currency = ''IDR'',
       dp_mixType = MIN_NOTES, dp_customMix = None, dp_present = True\<rparr>\<rparr>"

end
