(* ===== verification/Virtual_Device.thy ===== *)
theory Virtual_Device
  imports Xfs_Core
begin

text \<open>
  The base class of the virtual devices
  (\<^verbatim>\<open>packages/xfs-devices/src/base/virtual-device.base.ts\<close>): service state, the one-shot
  injected error, the response delay and the emission of events. A device class extends the
  record \<open>vdev\<close> as the TypeScript class extends \<open>VirtualDeviceBase\<close>. The delay itself is
  an \<open>await\<close> at the start of every command; it is where a command can be overtaken by another,
  and each command runs without interruption after it.

  The locale \<open>xfs_device\<close> is the contract every device's \<open>executeCommand\<close> keeps; the theories
  of the five devices interpret it.
\<close>

record vdev =
  vd_serviceClass :: XfsServiceClass
  vd_hService :: string
  vd_state :: XfsServiceState
  vd_injectedError :: "int option"
  vd_responseDelayMs :: int

definition vd_init :: "XfsServiceClass \<Rightarrow> string \<Rightarrow> vdev" where
  "vd_init sc hs =
     \<lparr>vd_serviceClass = sc, vd_hService = hs, vd_state = CLOSED, vd_injectedError = None,
      vd_responseDelayMs = 200\<rparr>"

definition vd_open :: "'a vdev_scheme \<Rightarrow> 'a vdev_scheme" where
  "vd_open d = d\<lparr>vd_state := OPEN\<rparr>"

definition vd_close :: "'a vdev_scheme \<Rightarrow> 'a vdev_scheme" where
  "vd_close d = d\<lparr>vd_state := CLOSED\<rparr>"

definition vd_reset :: "'a vdev_scheme \<Rightarrow> 'a vdev_scheme" where
  "vd_reset d = d\<lparr>vd_state := OPEN, vd_injectedError := None\<rparr>"

definition vd_injectError :: "int \<Rightarrow> 'a vdev_scheme \<Rightarrow> 'a vdev_scheme" where
  "vd_injectError e d = d\<lparr>vd_injectedError := Some e\<rparr>"

definition vd_clearError :: "'a vdev_scheme \<Rightarrow> 'a vdev_scheme" where
  "vd_clearError d = d\<lparr>vd_injectedError := None\<rparr>"

definition vd_setResponseDelay :: "int \<Rightarrow> 'a vdev_scheme \<Rightarrow> 'a vdev_scheme" where
  "vd_setResponseDelay ms d = d\<lparr>vd_responseDelayMs := max 0 (min ms 30000)\<rparr>"

definition vd_emit :: "'a vdev_scheme \<Rightarrow> event_code \<Rightarrow> XfsEventClass \<Rightarrow> ev_payload \<Rightarrow> dev_output" where
  "vd_emit d code cls p =
     Emit \<lparr>ev_hService = vd_hService d, ev_serviceClass = vd_serviceClass d,
           ev_eventCode = code, ev_eventClass = cls, ev_payload = p\<rparr>"

definition vd_checkInjectedError :: "'a vdev_scheme \<Rightarrow> int option \<times> 'a vdev_scheme" where
  "vd_checkInjectedError d =
     (case vd_injectedError d of
        Some err \<Rightarrow> (Some err, d\<lparr>vd_injectedError := None\<rparr>)
      | None \<Rightarrow> (None, d))"

named_theorems vd_defs "definitions of the base class operations"

lemmas vd_op_defs [vd_defs] =
  vd_open_def vd_close_def vd_reset_def vd_injectError_def vd_clearError_def
  vd_setResponseDelay_def vd_checkInjectedError_def

lemma truncate_simps [simp]:
  "vd_injectedError (vdev.truncate d) = vd_injectedError d"
  "vd_state (vdev.truncate d) = vd_state d"
  "vd_hService (vdev.truncate d) = vd_hService d"
  "vd_serviceClass (vdev.truncate d) = vd_serviceClass d"
  by (simp_all add: vdev.truncate_def)

text \<open>The delay an operator sets stays within \<open>0..30000\<close>.\<close>

lemma setResponseDelay_bounds:
  "0 \<le> vd_responseDelayMs (vd_setResponseDelay ms d)
   \<and> vd_responseDelayMs (vd_setResponseDelay ms d) \<le> 30000"
  by (auto simp: vd_defs)

text \<open>An event is well labelled when it carries its device's identity and the event class that
  the contract assigns to its code.\<close>

definition event_ok :: "string \<Rightarrow> XfsServiceClass \<Rightarrow> dev_output \<Rightarrow> bool" where
  "event_ok hs sc out \<longleftrightarrow>
     (case out of Emit e \<Rightarrow>
        ev_hService e = hs \<and> ev_serviceClass e = sc
        \<and> ev_eventClass e = event_code_class (ev_eventCode e)
      | _ \<Rightarrow> True)"

lemma event_ok_emit [simp]:
  "event_ok hs sc (vd_emit d code cls p) \<longleftrightarrow>
     vd_hService d = hs \<and> vd_serviceClass d = sc \<and> cls = event_code_class code"
  by (auto simp: event_ok_def vd_emit_def)

lemma event_ok_settle [simp]: "event_ok hs sc (Resolve k r)" "event_ok hs sc (Reject k e)"
  by (simp_all add: event_ok_def)

text \<open>How many events with a given code a list of outputs holds.\<close>

definition evt_count :: "event_code \<Rightarrow> dev_output list \<Rightarrow> nat" where
  "evt_count code outs =
     length (filter (\<lambda>out. case out of Emit e \<Rightarrow> ev_eventCode e = code | _ \<Rightarrow> False) outs)"

lemma evt_count_simps [simp]:
  "evt_count code [] = 0"
  "evt_count code (vd_emit d c cls p # outs) = (if c = code then 1 else 0) + evt_count code outs"
  "evt_count code (Resolve k r # outs) = evt_count code outs"
  "evt_count code (Reject k e # outs) = evt_count code outs"
  "evt_count code (outs @ outs') = evt_count code outs + evt_count code outs'"
  by (simp_all add: evt_count_def vd_emit_def)

section \<open>A run of commands\<close>

type_synonym 'd executor = "'d \<Rightarrow> string \<Rightarrow> xfs_payload \<Rightarrow> outcome \<times> 'd \<times> dev_output list"

fun exec_run :: "'d executor \<Rightarrow> 'd \<Rightarrow> (string \<times> xfs_payload) list \<Rightarrow> outcome list \<times> 'd" where
  "exec_run exec d [] = ([], d)"
| "exec_run exec d ((c, p) # cs) =
     (let (oc, d', _) = exec d c p; (ocs, d'') = exec_run exec d' cs in (oc # ocs, d''))"

lemma exec_run_step:
  "fst (exec_run exec d (cp # cs)) =
     fst (exec d (fst cp) (snd cp))
       # fst (exec_run exec (fst (snd (exec d (fst cp) (snd cp)))) cs)"
  "snd (exec_run exec d (cp # cs)) = snd (exec_run exec (fst (snd (exec d (fst cp) (snd cp)))) cs)"
  by (cases cp; simp add: Let_def split: prod.split)+

fun injected_outcome :: "outcome \<Rightarrow> bool" where
  "injected_outcome (Failed (InjectedError _)) = True"
| "injected_outcome _ = False"

section \<open>The contract of a device\<close>

locale xfs_device =
  fixes exec :: "'d executor"
    and base :: "'d \<Rightarrow> vdev"
    and clear :: "'d \<Rightarrow> 'd"
    and reset_code :: string
  assumes reset_runs: "fst (exec d reset_code p) = Done R_Empty"
    and reset_cleans: "vd_injectedError (base (fst (snd (exec d reset_code p)))) = None"
    and reset_opens: "vd_state (base (fst (snd (exec d reset_code p)))) = OPEN"
    and injected_fails: "vd_injectedError (base d) = Some e \<Longrightarrow> c \<noteq> reset_code \<Longrightarrow>
      exec d c p = (Failed (InjectedError e), clear d, [])"
    and clear_cleans: "vd_injectedError (base (clear d)) = None"
    and clean_kept: "vd_injectedError (base d) = None \<Longrightarrow>
      vd_injectedError (base (fst (snd (exec d c p)))) = None"
    and clean_no_injection: "vd_injectedError (base d) = None \<Longrightarrow>
      \<not> injected_outcome (fst (exec d c p))"
    and identity_kept: "vd_hService (base (fst (snd (exec d c p)))) = vd_hService (base d)"
      "vd_serviceClass (base (fst (snd (exec d c p)))) = vd_serviceClass (base d)"
    and events_labelled: "out \<in> set (snd (snd (exec d c p))) \<Longrightarrow>
      event_ok (vd_hService (base d)) (vd_serviceClass (base d)) out"
begin

text \<open>Whatever the command, no injected error survives it: the injection is one-shot.\<close>

lemma exec_clean: "vd_injectedError (base (fst (snd (exec d c p)))) = None"
proof (cases "vd_injectedError (base d)")
  case None
  then show ?thesis by (rule clean_kept)
next
  case (Some e)
  then show ?thesis
    using injected_fails [OF Some, of c p] reset_cleans [of d p] clear_cleans [of d]
    by (cases "c = reset_code") simp_all
qed

text \<open>In any run of commands at most the first one fails by injection.\<close>

lemma run_clean_no_injection:
  "vd_injectedError (base d) = None \<Longrightarrow> filter injected_outcome (fst (exec_run exec d cs)) = []"
proof (induction cs arbitrary: d)
  case Nil
  then show ?case by simp
next
  case (Cons cp cs)
  show ?case
    using clean_no_injection [OF Cons.prems] Cons.IH [OF exec_clean]
    by (simp add: exec_run_step)
qed

lemma injection_one_shot:
  "length (filter injected_outcome (fst (exec_run exec d cs))) \<le> 1"
  using run_clean_no_injection [OF exec_clean]
  by (cases cs) (simp_all add: exec_run_step)

text \<open>The command after an injected failure behaves as if nothing had been injected.\<close>

lemma after_injection:
  "vd_injectedError (base d) = Some e \<Longrightarrow> c \<noteq> reset_code \<Longrightarrow>
   exec_run exec d ((c, p) # cs) =
     (Failed (InjectedError e) # fst (exec_run exec (clear d) cs), snd (exec_run exec (clear d) cs))"
  by (simp add: injected_fails Let_def split: prod.split)

end

end
