(* ===== verification/Cdm_Device.thy ===== *)
theory Cdm_Device
  imports Virtual_Device
begin

text \<open>
  The cash dispenser (\<^verbatim>\<open>packages/xfs-devices/src/cdm/cdm.service.ts\<close>): cassettes, the choice
  of a note mix, dispensing, presenting and retracting. \<open>cdm_units\<close> is the Map from unit id to
  cassette in insertion order; \<open>cdm_presented\<close> is the cash waiting to be taken;
  \<open>cdm_takeTimer\<close> says that the three-second take timer is armed, and \<open>cdm_take_timeout\<close> is
  its firing.
\<close>

record cdm_dev = vdev +
  cdm_units :: "(string \<times> CashUnit) list"
  cdm_presented :: "(int \<times> mix) option"
  cdm_takeTimer :: bool

section \<open>Cassettes\<close>

definition cdm_default_units :: "CashUnit list" where
  "cdm_default_units =
    [\<lparr>cu_unitId = ''CASS1'', cu_denomination = 100000, cu_currency = ''IDR'', cu_status = CU_OK,
      cu_count = 500, cu_initialCount = 500, cu_maximum = 2500, cu_minimum = 50,
      cu_rejectCount = 0\<rparr>,
     \<lparr>cu_unitId = ''CASS2'', cu_denomination = 50000, cu_currency = ''IDR'', cu_status = CU_OK,
      cu_count = 1000, cu_initialCount = 1000, cu_maximum = 2500, cu_minimum = 100,
      cu_rejectCount = 0\<rparr>,
     \<lparr>cu_unitId = ''CASS3'', cu_denomination = 20000, cu_currency = ''IDR'', cu_status = CU_OK,
      cu_count = 500, cu_initialCount = 500, cu_maximum = 2500, cu_minimum = 50,
      cu_rejectCount = 0\<rparr>,
     \<lparr>cu_unitId = ''REJECT'', cu_denomination = 0, cu_currency = ''IDR'', cu_status = CU_OK,
      cu_count = 0, cu_initialCount = 0, cu_maximum = 300, cu_minimum = 0,
      cu_rejectCount = 0\<rparr>]"

definition cdm_loadCassettes :: "CashUnit list \<Rightarrow> cdm_dev \<Rightarrow> cdm_dev" where
  "cdm_loadCassettes us d =
     d\<lparr>cdm_units := fold (\<lambda>u m. AList.update (cu_unitId u) u m) us []\<rparr>"

definition cdm_init :: cdm_dev where
  "cdm_init =
     vd_open (cdm_loadCassettes cdm_default_units
       (vdev.extend (vd_init CDM ''CDM30'')
          \<lparr>cdm_units = [], cdm_presented = None, cdm_takeTimer = False\<rparr>))"

definition cdm_getUnits :: "cdm_dev \<Rightarrow> CashUnit list" where
  "cdm_getUnits d = map snd (cdm_units d)"

text \<open>Writing a cassette's fields writes the entry the Map holds for it.\<close>

definition cdm_put :: "CashUnit \<Rightarrow> cdm_dev \<Rightarrow> cdm_dev" where
  "cdm_put u d = d\<lparr>cdm_units := AList.update (cu_unitId u) u (cdm_units d)\<rparr>"

definition cdm_level_status :: "int \<Rightarrow> int \<Rightarrow> CashUnitStatus" where
  "cdm_level_status n minimum = (if n = 0 then CU_EMPTY else if n \<le> minimum then CU_LOW else CU_OK)"

definition cdm_replenishCassette :: "string \<Rightarrow> int \<Rightarrow> cdm_dev \<Rightarrow> (dev_error + CashUnit) \<times> cdm_dev" where
  "cdm_replenishCassette unitId newCount d =
     (case map_of (cdm_units d) unitId of
        None \<Rightarrow> (Inl (UnknownCassette unitId), d)
      | Some u \<Rightarrow>
          if newCount < 0 \<or> cu_maximum u < newCount
          then (Inl (ReplenishOutOfRange (cu_maximum u)), d)
          else (let u' = u\<lparr>cu_count := newCount,
                           cu_status := cdm_level_status newCount (cu_minimum u)\<rparr>
                in (Inr u', cdm_put u' d)))"

definition cdm_simulateJam :: "string \<Rightarrow> cdm_dev \<Rightarrow> (dev_error + unit) \<times> cdm_dev \<times> dev_output list" where
  "cdm_simulateJam unitId d =
     (case map_of (cdm_units d) unitId of
        None \<Rightarrow> (Inl (UnknownCassette unitId), d, [])
      | Some u \<Rightarrow>
          (Inr (), cdm_put (u\<lparr>cu_status := CU_JAMMED\<rparr>) d,
           [vd_emit d (CdmEvt CDM_JAM) SRVE (EP_Jam unitId CU_JAMMED)]))"

definition cdm_clearJam :: "string \<Rightarrow> cdm_dev \<Rightarrow> (dev_error + unit) \<times> cdm_dev" where
  "cdm_clearJam unitId d =
     (case map_of (cdm_units d) unitId of
        None \<Rightarrow> (Inl (UnknownCassette unitId), d)
      | Some u \<Rightarrow>
          (Inr (), cdm_put (u\<lparr>cu_status := cdm_level_status (cu_count u) (cu_minimum u)\<rparr>) d))"

section \<open>Choosing the mix\<close>

text \<open>
  Setting a property of the mix object: an existing key keeps its place, and since the keys are
  integer-like the entries stay in ascending numeric order.
\<close>

fun mix_put :: "int \<Rightarrow> int \<Rightarrow> mix \<Rightarrow> mix" where
  "mix_put d v [] = [(js_int_to_string d, v)]"
| "mix_put d v ((k, w) # r) =
     (if k = js_int_to_string d then (k, v) # r
      else if js_lt (js_int d) (js_Number k) then (js_int_to_string d, v) # (k, w) # r
      else (k, w) # mix_put d v r)"

text \<open>
  How many notes of a cassette the greedy loop takes. \<open>Math.floor(remaining / 0)\<close> is infinite
  for a positive remainder and NaN for 0, so a cassette of denomination 0 gives all its notes or
  none.
\<close>

definition cdm_take :: "CashUnit \<Rightarrow> int \<Rightarrow> int" where
  "cdm_take u remaining =
     (if cu_denomination u = 0 then (if remaining = 0 then 0 else cu_count u)
      else min (cu_count u) (remaining div cu_denomination u))"

fun min_notes_loop :: "CashUnit list \<Rightarrow> mix \<Rightarrow> int \<Rightarrow> mix \<times> int" where
  "min_notes_loop [] m remaining = (m, remaining)"
| "min_notes_loop (u # us) m remaining =
     (let take = cdm_take u remaining;
          m' = (if 0 < take then mix_put (cu_denomination u) take m else m);
          r' = (if 0 < take then remaining - take * cu_denomination u else remaining)
      in if r' = 0 then (m', r') else min_notes_loop us m' r')"

definition cdm_usable :: "CashUnit \<Rightarrow> bool" where
  "cdm_usable u \<longleftrightarrow>
     cu_unitId u \<noteq> ''REJECT'' \<and> cu_status u \<noteq> CU_JAMMED \<and> cu_status u \<noteq> CU_INOPERATIVE
     \<and> 0 < cu_count u"

definition cdm_spendable :: "cdm_dev \<Rightarrow> CashUnit list" where
  "cdm_spendable d = sort_key (\<lambda>u. - cu_denomination u) (filter cdm_usable (cdm_getUnits d))"

definition cdm_calculateMinNotesMix :: "cdm_dev \<Rightarrow> int \<Rightarrow> dev_error + mix" where
  "cdm_calculateMinNotesMix d amount =
     (let (m, remaining) = min_notes_loop (cdm_spendable d) [] amount
      in if 0 < remaining then Inl (CannotDispense remaining) else Inr m)"

fun custom_mix_sum :: "(string \<times> jsnum) list \<Rightarrow> int \<Rightarrow> dev_error + (int \<times> mix)" where
  "custom_mix_sum [] acc = Inr (acc, [])"
| "custom_mix_sum ((k, n) # r) acc =
     (case js_to_int (js_Number k) of
        None \<Rightarrow> Inl (InvalidDenom k)
      | Some denom \<Rightarrow>
          if denom \<le> 0 then Inl (InvalidDenom k)
          else (case js_to_int n of
                  None \<Rightarrow> Inl (InvalidCount k)
                | Some c \<Rightarrow>
                    if c < 0 then Inl (InvalidCount k)
                    else (case custom_mix_sum r (acc + denom * c) of
                            Inl e \<Rightarrow> Inl e
                          | Inr (s, m) \<Rightarrow> Inr (s, (k, c) # m))))"

definition cdm_validateCustomMix :: "int \<Rightarrow> (string \<times> jsnum) list \<Rightarrow> dev_error + mix" where
  "cdm_validateCustomMix amount cm =
     (case custom_mix_sum cm 0 of
        Inl e \<Rightarrow> Inl e
      | Inr (s, m) \<Rightarrow> if s \<noteq> amount then Inl (CustomMixSum s amount) else Inr m)"

section \<open>Dispensing\<close>

definition cdm_findSpendable :: "jsnum \<Rightarrow> CashUnit list \<Rightarrow> CashUnit option" where
  "cdm_findSpendable denom us =
     find (\<lambda>u. js_int (cu_denomination u) = denom \<and> cu_unitId u \<noteq> ''REJECT''
               \<and> cu_status u \<noteq> CU_JAMMED) us"

fun cdm_preflight :: "CashUnit list \<Rightarrow> mix \<Rightarrow> dev_error option" where
  "cdm_preflight us [] = None"
| "cdm_preflight us ((k, needed) # r) =
     (case cdm_findSpendable (js_Number k) us of
        None \<Rightarrow> Some (NoActiveCassette (js_Number k))
      | Some u \<Rightarrow>
          if cu_count u < needed then Some (InsufficientNotes (cu_unitId u) needed (cu_count u))
          else cdm_preflight us r)"

definition cdm_deduct_unit :: "CashUnit \<Rightarrow> int \<Rightarrow> CashUnit" where
  "cdm_deduct_unit u n =
     (let c = cu_count u - n
      in u\<lparr>cu_count := c,
           cu_status := (if c = 0 then CU_EMPTY else if c \<le> cu_minimum u then CU_LOW
                         else cu_status u)\<rparr>)"

text \<open>The deduction loop; the preflight loop has found a cassette for every entry.\<close>

fun cdm_deduct :: "cdm_dev \<Rightarrow> mix \<Rightarrow> cdm_dev \<times> dev_output list" where
  "cdm_deduct d [] = (d, [])"
| "cdm_deduct d ((k, n) # r) =
     (case cdm_findSpendable (js_Number k) (cdm_getUnits d) of
        None \<Rightarrow> (d, [])
      | Some u \<Rightarrow>
          (let u' = cdm_deduct_unit u n;
               evs = (if cu_status u' \<noteq> CU_OK
                      then [vd_emit d (CdmEvt CDM_CASH_UNIT_THRESHOLD) SRVE (EP_Unit u')] else []);
               (d', evs') = cdm_deduct (cdm_put u' d) r
           in (d', evs @ evs')))"

definition cdm_present :: "cdm_dev \<Rightarrow> outcome \<times> cdm_dev \<times> dev_output list" where
  "cdm_present d =
     (case cdm_presented d of
        None \<Rightarrow> (Failed NoCashToPresent, d, [])
      | Some (amount, _) \<Rightarrow>
          (Done (R_Present amount), d\<lparr>cdm_takeTimer := True\<rparr>,
           [vd_emit d (CdmEvt CDM_NOTES_PRESENTED) EXEE (EP_Amount amount)]))"

definition cdm_take_timeout :: "cdm_dev \<Rightarrow> cdm_dev \<times> dev_output list" where
  "cdm_take_timeout d =
     (case cdm_presented d of
        Some (amount, _) \<Rightarrow>
          (d\<lparr>cdm_presented := None, cdm_takeTimer := False\<rparr>,
           [vd_emit d (CdmEvt CDM_NOTES_TAKEN) SRVE (EP_Amount amount)])
      | None \<Rightarrow> (d\<lparr>cdm_takeTimer := False\<rparr>, []))"

definition cdm_choose_mix :: "cdm_dev \<Rightarrow> int \<Rightarrow> CdmDispensePayload \<Rightarrow> dev_error + mix" where
  "cdm_choose_mix d amount p =
     (case (dp_mixType p, dp_customMix p) of
        (CUSTOM, Some cm) \<Rightarrow> cdm_validateCustomMix amount cm
      | _ \<Rightarrow> cdm_calculateMinNotesMix d amount)"

definition cdm_dispense :: "CdmDispensePayload \<Rightarrow> cdm_dev \<Rightarrow> outcome \<times> cdm_dev \<times> dev_output list" where
  "cdm_dispense p d =
     (case js_to_int (dp_amount p) of
        None \<Rightarrow> (Failed (InvalidAmount (dp_amount p)), d, [])
      | Some amount \<Rightarrow>
          if amount \<le> 0 then (Failed (InvalidAmount (dp_amount p)), d, [])
          else
            (case cdm_choose_mix d amount p of
               Inl e \<Rightarrow> (Failed e, d, [])
             | Inr m \<Rightarrow>
                 (case cdm_preflight (cdm_getUnits d) m of
                    Some e \<Rightarrow> (Failed e, d, [])
                  | None \<Rightarrow>
                      (let (d1, evs) = cdm_deduct d m;
                           d2 = d1\<lparr>cdm_presented := Some (amount, m)\<rparr>
                       in if dp_present p
                          then (let (_, d3, evs') = cdm_present d2
                                in (Done (R_Dispense m amount), d3, evs @ evs'))
                          else (Done (R_Dispense m amount), d2, evs)))))"

definition mix_notes :: "mix \<Rightarrow> int" where
  "mix_notes m = sum_list (map snd m)"

definition cdm_retract :: "cdm_dev \<Rightarrow> outcome \<times> cdm_dev \<times> dev_output list" where
  "cdm_retract d =
     (case cdm_presented d of
        None \<Rightarrow> (Failed NothingToRetract, d, [])
      | Some (_, m) \<Rightarrow>
          (let d1 = d\<lparr>cdm_takeTimer := False\<rparr>;
               d2 = (case map_of (cdm_units d) ''REJECT'' of
                       Some u \<Rightarrow> cdm_put (u\<lparr>cu_count := cu_count u + mix_notes m\<rparr>) d1
                     | None \<Rightarrow> d1)
           in (Done R_Empty, d2\<lparr>cdm_presented := None\<rparr>, [])))"

definition cdm_getCashUnitInfo :: "cdm_dev \<Rightarrow> xfs_reply" where
  "cdm_getCashUnitInfo d =
     (let us = cdm_getUnits d
      in R_CashUnitInfo us
           (sum_list (map (\<lambda>u. max 0 (cu_initialCount u - cu_count u) * cu_denomination u) us)))"

definition cdm_loaded_units :: "cdm_dev \<Rightarrow> CashUnit list" where
  "cdm_loaded_units d = filter (\<lambda>u. cu_unitId u \<noteq> ''REJECT'') (cdm_getUnits d)"

definition cdm_total_amount :: "cdm_dev \<Rightarrow> int" where
  "cdm_total_amount d = sum_list (map (\<lambda>u. cu_count u * cu_denomination u) (cdm_loaded_units d))"

definition cdm_total_notes :: "cdm_dev \<Rightarrow> int" where
  "cdm_total_notes d = sum_list (map cu_count (cdm_loaded_units d))"

definition cdm_count :: "cdm_dev \<Rightarrow> xfs_reply" where
  "cdm_count d = R_Count (cdm_total_amount d) (cdm_total_notes d)"

definition cdm_executeCommand :: "cdm_dev executor" where
  "cdm_executeCommand d commandCode payload =
     (if cdm_cmd_of commandCode = Some CDM_RESET
      then (Done R_Empty, vd_reset (d\<lparr>cdm_takeTimer := False, cdm_presented := None\<rparr>), [])
      else
        (case vd_checkInjectedError d of
           (Some e, d') \<Rightarrow> (Failed (InjectedError e), d', [])
         | (None, d') \<Rightarrow>
             (case cdm_cmd_of commandCode of
                Some CDM_DISPENSE \<Rightarrow> cdm_dispense (pl_dispense payload) d'
              | Some CDM_PRESENT \<Rightarrow> cdm_present d'
              | Some CDM_RETRACT \<Rightarrow> cdm_retract d'
              | Some CDM_REJECT \<Rightarrow> cdm_retract d'
              | Some CDM_CASH_UNIT_INFO \<Rightarrow> (Done (cdm_getCashUnitInfo d'), d', [])
              | Some CDM_COUNT \<Rightarrow> (Done (cdm_count d'), d', [])
              | Some CDM_START_EXCHANGE \<Rightarrow> (Done R_Ok, d', [])
              | Some CDM_END_EXCHANGE \<Rightarrow> (Done R_Ok, d', [])
              | _ \<Rightarrow> (Failed (UnsupportedCommand CDM commandCode), d', []))))"

end
