(* ===== verification/Cdm_Props.thy ===== *)
theory Cdm_Props
  imports Cdm_Device
begin

text \<open>
  Correctness of the cash dispenser: the structural invariant of the cassette Map, the value and
  note accounting of dispensing and retracting, the greedy mix, and the device contract.
\<close>

section \<open>The cassette Map\<close>

definition cdm_wf :: "cdm_dev \<Rightarrow> bool" where
  "cdm_wf d \<longleftrightarrow> distinct (map fst (cdm_units d)) \<and> (\<forall>(k, u) \<in> set (cdm_units d). cu_unitId u = k)"

definition cdm_nonneg :: "cdm_dev \<Rightarrow> bool" where
  "cdm_nonneg d \<longleftrightarrow> (\<forall>u \<in> set (cdm_getUnits d). 0 \<le> cu_count u)"

text \<open>What dispensing leaves alone in a cassette: its identity, denomination and jam state.\<close>

definition cdm_shape :: "CashUnit list \<Rightarrow> (string \<times> int \<times> bool) list" where
  "cdm_shape us = map (\<lambda>u. (cu_unitId u, cu_denomination u, cu_status u = CU_JAMMED)) us"

lemma cdm_init_units: "cdm_getUnits cdm_init = cdm_default_units"
  by (simp add: cdm_init_def cdm_getUnits_def vd_open_def cdm_loadCassettes_def
      cdm_default_units_def vdev.defs vd_init_def)

lemma cdm_wf_init: "cdm_wf cdm_init"
  by (simp add: cdm_wf_def cdm_init_def vd_open_def cdm_loadCassettes_def
      cdm_default_units_def vdev.defs vd_init_def)

lemma cdm_wf_lookup:
  "cdm_wf d \<Longrightarrow> u \<in> set (cdm_getUnits d) \<Longrightarrow> map_of (cdm_units d) (cu_unitId u) = Some u"
  by (auto simp: cdm_wf_def cdm_getUnits_def intro: map_of_is_SomeI)

lemma cdm_wf_lookup_id:
  assumes "cdm_wf d" "map_of (cdm_units d) k = Some u"
  shows "cu_unitId u = k" "u \<in> set (cdm_getUnits d)"
  using assms map_of_SomeD [OF assms(2)]
  by (auto simp: cdm_wf_def cdm_getUnits_def image_iff intro: rev_bexI)

lemma cdm_units_put [simp]: "cdm_units (cdm_put u d) = AList.update (cu_unitId u) u (cdm_units d)"
  by (simp add: cdm_put_def)

lemma cdm_put_other [simp]:
  "cdm_presented (cdm_put u d) = cdm_presented d"
  "cdm_takeTimer (cdm_put u d) = cdm_takeTimer d"
  "vd_injectedError (cdm_put u d) = vd_injectedError d"
  "vd_hService (cdm_put u d) = vd_hService d"
  "vd_serviceClass (cdm_put u d) = vd_serviceClass d"
  "vd_state (cdm_put u d) = vd_state d"
  by (simp_all add: cdm_put_def)

lemma getUnits_cong: "cdm_units d = cdm_units d' \<Longrightarrow> cdm_getUnits d = cdm_getUnits d'"
  by (simp add: cdm_getUnits_def)

lemma cdm_getUnits_put:
  assumes "cdm_wf d" "u \<in> set (cdm_getUnits d)" "cu_unitId u' = cu_unitId u"
  shows "cdm_getUnits (cdm_put u' d)
    = map (\<lambda>v. if cu_unitId v = cu_unitId u then u' else v) (cdm_getUnits d)"
proof -
  have "cu_unitId u \<in> fst ` set (cdm_units d)"
    using cdm_wf_lookup [OF assms(1,2)] by (force dest: map_of_SomeD)
  then have "AList.update (cu_unitId u') u' (cdm_units d)
      = map (\<lambda>p. if fst p = cu_unitId u then (cu_unitId u, u') else p) (cdm_units d)"
    using assms(1,3) by (simp add: update_conv_map cdm_wf_def)
  then show ?thesis using assms(1) by (auto simp: cdm_getUnits_def cdm_wf_def)
qed

lemma cdm_wf_put: "cdm_wf d \<Longrightarrow> cdm_wf (cdm_put u d)"
  using set_alist_update [of "cu_unitId u" u "cdm_units d"]
  by (auto simp: cdm_wf_def)

lemma sum_put:
  fixes f :: "CashUnit \<Rightarrow> int"
  assumes "cdm_wf d" "u \<in> set (cdm_getUnits d)" "cu_unitId u' = cu_unitId u"
  shows "sum_list (map f (cdm_getUnits (cdm_put u' d)))
    = sum_list (map f (cdm_getUnits d)) - f u + f u'"
  using sum_alist_update [OF cdm_wf_lookup [OF assms(1,2)], of f u'] assms(3)
  by (simp add: cdm_getUnits_def)

section \<open>Deduction\<close>

lemma findSpendable_SomeD:
  assumes "cdm_findSpendable k us = Some u"
  shows "u \<in> set us" "js_int (cu_denomination u) = k" "cu_unitId u \<noteq> ''REJECT''"
    "cu_status u \<noteq> CU_JAMMED"
  using assms by (auto simp: cdm_findSpendable_def find_Some_iff)

lemma findSpendable_shape:
  "cdm_shape us = cdm_shape us' \<Longrightarrow>
   (cdm_findSpendable k us = None) = (cdm_findSpendable k us' = None)"
proof (induction us arbitrary: us')
  case Nil
  then show ?case by (simp add: cdm_shape_def)
next
  case (Cons u us)
  then obtain v vs where "us' = v # vs" by (cases us') (simp_all add: cdm_shape_def)
  with Cons show ?case by (auto simp: cdm_shape_def cdm_findSpendable_def)
qed

lemma deduct_unit_simps [simp]:
  "cu_unitId (cdm_deduct_unit u n) = cu_unitId u"
  "cu_denomination (cdm_deduct_unit u n) = cu_denomination u"
  "cu_count (cdm_deduct_unit u n) = cu_count u - n"
  "cu_initialCount (cdm_deduct_unit u n) = cu_initialCount u"
  "cu_minimum (cdm_deduct_unit u n) = cu_minimum u"
  "cu_maximum (cdm_deduct_unit u n) = cu_maximum u"
  by (simp_all add: cdm_deduct_unit_def Let_def)

lemma deduct_unit_jam:
  "cu_status u \<noteq> CU_JAMMED \<Longrightarrow> cu_status (cdm_deduct_unit u n) \<noteq> CU_JAMMED"
  by (simp add: cdm_deduct_unit_def Let_def)

lemma shape_put_deduct:
  assumes "cdm_wf d" "u \<in> set (cdm_getUnits d)" "cu_status u \<noteq> CU_JAMMED"
  shows "cdm_shape (cdm_getUnits (cdm_put (cdm_deduct_unit u n) d)) = cdm_shape (cdm_getUnits d)"
proof -
  have "v = u" if "v \<in> set (cdm_getUnits d)" "cu_unitId v = cu_unitId u" for v
    using cdm_wf_lookup [OF assms(1,2)] cdm_wf_lookup [OF assms(1) that(1)] that(2) by simp
  then show ?thesis
    using assms by (auto simp: cdm_getUnits_put cdm_shape_def deduct_unit_jam)
qed

lemma cdm_deduct_frame:
  "cdm_presented (fst (cdm_deduct d m)) = cdm_presented d
   \<and> cdm_takeTimer (fst (cdm_deduct d m)) = cdm_takeTimer d
   \<and> vd_injectedError (fst (cdm_deduct d m)) = vd_injectedError d
   \<and> vd_hService (fst (cdm_deduct d m)) = vd_hService d
   \<and> vd_serviceClass (fst (cdm_deduct d m)) = vd_serviceClass d
   \<and> vd_state (fst (cdm_deduct d m)) = vd_state d"
proof (induction m arbitrary: d)
  case Nil
  then show ?case by simp
next
  case (Cons kc m)
  then show ?case by (cases kc) (simp add: Let_def split_def split: option.split)
qed

lemmas cdm_deduct_frame_simps [simp] =
  cdm_deduct_frame [THEN conjunct1]
  cdm_deduct_frame [THEN conjunct2, THEN conjunct1]
  cdm_deduct_frame [THEN conjunct2, THEN conjunct2, THEN conjunct1]
  cdm_deduct_frame [THEN conjunct2, THEN conjunct2, THEN conjunct2, THEN conjunct1]
  cdm_deduct_frame [THEN conjunct2, THEN conjunct2, THEN conjunct2, THEN conjunct2, THEN conjunct1]
  cdm_deduct_frame [THEN conjunct2, THEN conjunct2, THEN conjunct2, THEN conjunct2, THEN conjunct2]

lemma cdm_deduct_step:
  "cdm_findSpendable (js_Number k) (cdm_getUnits d) = Some u \<Longrightarrow>
   fst (cdm_deduct d ((k, n) # m)) = fst (cdm_deduct (cdm_put (cdm_deduct_unit u n) d) m)"
  by (simp add: Let_def split: prod.split)

lemma cdm_wf_deduct: "cdm_wf d \<Longrightarrow> cdm_wf (fst (cdm_deduct d m))"
proof (induction m arbitrary: d)
  case Nil
  then show ?case by simp
next
  case (Cons kc m)
  then show ?case by (cases kc) (simp add: Let_def split_def cdm_wf_put split: option.split)
qed

text \<open>The value of a mix and the value the cassettes hold.\<close>

definition key_denom :: "string \<Rightarrow> int" where
  "key_denom k = (case js_to_int (js_Number k) of Some v \<Rightarrow> v | None \<Rightarrow> 0)"

definition mix_value :: "mix \<Rightarrow> int" where
  "mix_value m = sum_list (map (\<lambda>(k, c). key_denom k * c) m)"

lemma mix_value_simps [simp]:
  "mix_value [] = 0" "mix_value ((k, c) # m) = key_denom k * c + mix_value m"
  by (simp_all add: mix_value_def)

lemma mix_notes_simps [simp]:
  "mix_notes [] = 0" "mix_notes ((k, c) # m) = c + mix_notes m"
  by (simp_all add: mix_notes_def)

definition unit_amount :: "CashUnit \<Rightarrow> int" where
  "unit_amount u = (if cu_unitId u \<noteq> ''REJECT'' then cu_count u * cu_denomination u else 0)"

definition unit_notes :: "CashUnit \<Rightarrow> int" where
  "unit_notes u = (if cu_unitId u \<noteq> ''REJECT'' then cu_count u else 0)"

lemma cdm_total_amount_sum: "cdm_total_amount d = sum_list (map unit_amount (cdm_getUnits d))"
  unfolding cdm_total_amount_def cdm_loaded_units_def unit_amount_def
  by (simp add: sum_list_map_filter')

lemma cdm_total_notes_sum: "cdm_total_notes d = sum_list (map unit_notes (cdm_getUnits d))"
  unfolding cdm_total_notes_def cdm_loaded_units_def unit_notes_def
  by (simp add: sum_list_map_filter')

lemma preflight_found:
  "cdm_preflight us m = None \<Longrightarrow> (k, c) \<in> set m \<Longrightarrow>
   \<exists>u. cdm_findSpendable (js_Number k) us = Some u \<and> c \<le> cu_count u"
  by (induction us m rule: cdm_preflight.induct) (auto split: option.splits if_splits)

text \<open>Once every entry has a cassette, the deduction takes exactly the mix out of the machine.\<close>

lemma cdm_deduct_value:
  assumes "cdm_wf d"
    and "\<And>k c. (k, c) \<in> set m \<Longrightarrow> cdm_findSpendable (js_Number k) (cdm_getUnits d) \<noteq> None"
  shows "cdm_total_amount (fst (cdm_deduct d m)) = cdm_total_amount d - mix_value m
    \<and> cdm_total_notes (fst (cdm_deduct d m)) = cdm_total_notes d - mix_notes m"
  using assms
proof (induction m arbitrary: d)
  case Nil
  then show ?case by simp
next
  case (Cons kc m)
  obtain k c where kc: "kc = (k, c)" by (cases kc)
  from Cons.prems(2) [of k c] kc obtain u
    where u: "cdm_findSpendable (js_Number k) (cdm_getUnits d) = Some u" by auto
  note D = findSpendable_SomeD [OF u]
  let ?d = "cdm_put (cdm_deduct_unit u c) d"
  have denom: "key_denom k = cu_denomination u" by (simp add: key_denom_def D(2) [symmetric])
  have found: "cdm_findSpendable (js_Number k') (cdm_getUnits ?d) \<noteq> None" if "(k', c') \<in> set m" for k' c'
    using Cons.prems(2) [of k' c'] that
      findSpendable_shape [OF shape_put_deduct [OF Cons.prems(1) D(1,4)]] by auto
  have IH: "cdm_total_amount (fst (cdm_deduct ?d m)) = cdm_total_amount ?d - mix_value m
      \<and> cdm_total_notes (fst (cdm_deduct ?d m)) = cdm_total_notes ?d - mix_notes m"
    using Cons.IH [OF cdm_wf_put [OF Cons.prems(1)]] found by blast
  have "cdm_total_amount ?d = cdm_total_amount d - key_denom k * c"
    using D(3) by (simp add: cdm_total_amount_sum sum_put [OF Cons.prems(1) D(1)] unit_amount_def
        denom algebra_simps)
  moreover have "cdm_total_notes ?d = cdm_total_notes d - c"
    using D(3) by (simp add: cdm_total_notes_sum sum_put [OF Cons.prems(1) D(1)] unit_notes_def)
  ultimately show ?case using IH cdm_deduct_step [OF u, of c m] kc by simp
qed

section \<open>Counts stay non-negative\<close>

text \<open>
  A mix is sound when no two of its keys read as the same number (the strings \<open>100000\<close> and
  \<open>1e5\<close> do) and no count is negative.
\<close>

definition mix_ok :: "mix \<Rightarrow> bool" where
  "mix_ok m \<longleftrightarrow> distinct (map (\<lambda>kc. js_Number (fst kc)) m) \<and> (\<forall>kc \<in> set m. 0 \<le> snd kc)"

lemma findSpendable_put:
  assumes "cdm_wf d" "u \<in> set (cdm_getUnits d)" "cu_unitId u' = cu_unitId u"
    and "cu_denomination u' = cu_denomination u" "js_int (cu_denomination u) \<noteq> k"
  shows "cdm_findSpendable k (cdm_getUnits (cdm_put u' d)) = cdm_findSpendable k (cdm_getUnits d)"
proof -
  have same: "v = u" if "v \<in> set (cdm_getUnits d)" "cu_unitId v = cu_unitId u" for v
    using cdm_wf_lookup [OF assms(1,2)] cdm_wf_lookup [OF assms(1) that(1)] that(2) by simp
  have "cdm_findSpendable k (map (\<lambda>v. if cu_unitId v = cu_unitId u then u' else v) us)
      = cdm_findSpendable k us" if "set us \<subseteq> set (cdm_getUnits d)" for us
    using that
  proof (induction us)
    case Nil
    then show ?case by simp
  next
    case (Cons v us)
    then show ?case
      using same [of v] assms(4,5) by (auto simp: cdm_findSpendable_def)
  qed
  then show ?thesis using assms(1-3) by (simp add: cdm_getUnits_put)
qed

lemma preflight_iff:
  "cdm_preflight us m = None \<longleftrightarrow>
   (\<forall>kc \<in> set m. \<exists>u. cdm_findSpendable (js_Number (fst kc)) us = Some u \<and> snd kc \<le> cu_count u)"
  by (induction us m rule: cdm_preflight.induct) (auto split: option.splits)

lemma cdm_deduct_nonneg:
  assumes "cdm_wf d" "cdm_nonneg d" "mix_ok m" "cdm_preflight (cdm_getUnits d) m = None"
  shows "cdm_nonneg (fst (cdm_deduct d m))"
  using assms
proof (induction m arbitrary: d)
  case Nil
  then show ?case by simp
next
  case (Cons kc m)
  obtain k c where kc: "kc = (k, c)" by (cases kc)
  obtain u where u: "cdm_findSpendable (js_Number k) (cdm_getUnits d) = Some u"
    and c: "c \<le> cu_count u"
    using preflight_found [OF Cons.prems(4), of k c] kc by auto
  note D = findSpendable_SomeD [OF u]
  let ?d = "cdm_put (cdm_deduct_unit u c) d"
  have "cdm_nonneg ?d"
    using Cons.prems(2) c D(1) by (auto simp: cdm_nonneg_def cdm_getUnits_put [OF Cons.prems(1) D(1)])
  moreover have "cdm_preflight (cdm_getUnits ?d) m = None"
  proof (subst preflight_iff, rule ballI)
    fix q assume q: "q \<in> set m"
    have "js_int (cu_denomination u) \<noteq> js_Number (fst q)"
      using Cons.prems(3) q D(2) kc by (force simp: mix_ok_def)
    then have "cdm_findSpendable (js_Number (fst q)) (cdm_getUnits ?d)
        = cdm_findSpendable (js_Number (fst q)) (cdm_getUnits d)"
      by (intro findSpendable_put [OF Cons.prems(1) D(1)]) simp_all
    then show "\<exists>v. cdm_findSpendable (js_Number (fst q)) (cdm_getUnits ?d) = Some v
        \<and> snd q \<le> cu_count v"
      using Cons.prems(4) q by (auto simp: preflight_iff)
  qed
  moreover have "mix_ok m" using Cons.prems(3) by (simp add: mix_ok_def)
  ultimately show ?case
    using Cons.IH [OF cdm_wf_put [OF Cons.prems(1)]] cdm_deduct_step [OF u, of c m] kc by simp
qed

section \<open>The greedy mix\<close>

lemma key_denom_string [simp]: "0 \<le> d \<Longrightarrow> key_denom (js_int_to_string d) = d"
  by (simp add: key_denom_def js_int_to_string_def)

lemma js_Number_int_string [simp]: "0 \<le> d \<Longrightarrow> js_Number (js_int_to_string d) = js_int d"
  by (simp add: js_int_to_string_def)

lemma mix_put_keys: "fst ` set (mix_put d v m) = insert (js_int_to_string d) (fst ` set m)"
  by (induction d v m rule: mix_put.induct) auto

lemma mix_put_fresh:
  "js_int_to_string d \<notin> fst ` set m \<Longrightarrow> 0 \<le> d \<Longrightarrow>
   mix_value (mix_put d v m) = mix_value m + d * v
   \<and> set (mix_put d v m) = insert (js_int_to_string d, v) (set m)
   \<and> (distinct (map fst m) \<longrightarrow> distinct (map fst (mix_put d v m)))"
  by (induction d v m rule: mix_put.induct) (auto simp: image_iff)

text \<open>Invariant of the loop: every key is a denomination already visited, and the value of the
  mix and the remainder make up the amount.\<close>

definition greedy_inv :: "int set \<Rightarrow> mix \<Rightarrow> bool" where
  "greedy_inv D m \<longleftrightarrow> distinct (map fst m) \<and> fst ` set m \<subseteq> js_int_to_string ` D
     \<and> (\<forall>kc \<in> set m. 0 < snd kc)"

lemma greedy_inv_mono: "greedy_inv D m \<Longrightarrow> D \<subseteq> E \<Longrightarrow> greedy_inv E m"
  by (force simp: greedy_inv_def)

lemma int_string_inj: "0 \<le> a \<Longrightarrow> 0 \<le> b \<Longrightarrow> js_int_to_string a = js_int_to_string b \<Longrightarrow> a = b"
  by (metis key_denom_string)

lemma greedy_inv_mix_ok:
  assumes "greedy_inv D m" "\<forall>d \<in> D. 0 \<le> d"
  shows "mix_ok m"
proof -
  have "inj_on js_Number (js_int_to_string ` D)"
    using assms(2) by (auto intro!: inj_onI)
  then have "inj_on js_Number (set (map fst m))"
    using assms(1) by (auto simp: greedy_inv_def intro: inj_on_subset)
  then have "distinct (map js_Number (map fst m))"
    using assms(1) unfolding greedy_inv_def by (blast intro: distinct_map [THEN iffD2])
  then show ?thesis using assms(1) by (auto simp: mix_ok_def greedy_inv_def comp_def intro: less_imp_le)
qed

lemma min_notes_loop_inv:
  assumes "min_notes_loop us m r = (m', r')" "0 \<le> r" "greedy_inv D m" "\<forall>d \<in> D. 0 \<le> d"
    and "\<forall>u \<in> set us. 0 < cu_denomination u \<and> cu_denomination u \<notin> D"
    and "distinct (map cu_denomination us)"
  shows "mix_value m' + r' = mix_value m + r \<and> 0 \<le> r'
    \<and> greedy_inv (D \<union> cu_denomination ` set us) m'"
  using assms
proof (induction us arbitrary: m r D)
  case Nil
  then show ?case by simp
next
  case (Cons u us)
  let ?t = "cdm_take u r" and ?d = "cu_denomination u"
  let ?m = "if 0 < ?t then mix_put ?d ?t m else m" and ?r = "if 0 < ?t then r - ?t * ?d else r"
  have d: "0 < ?d" "?d \<notin> D" using Cons.prems(5) by simp_all
  have "?t \<le> r div ?d" using d by (simp add: cdm_take_def)
  then have "?t * ?d \<le> r div ?d * ?d" using d(1) by (intro mult_right_mono) simp_all
  also have "\<dots> \<le> r" using d(1) pos_mod_sign [of ?d r] by (simp add: minus_mod_eq_div_mult [symmetric])
  finally have "?t * ?d \<le> r" .
  then have r: "0 \<le> ?r" using Cons.prems(2) by simp
  have fresh: "js_int_to_string ?d \<notin> fst ` set m"
    using Cons.prems(3,4) d int_string_inj [of ?d] by (force simp: greedy_inv_def)
  note P = mix_put_fresh [OF fresh less_imp_le [OF d(1)], of ?t]
  have val: "mix_value ?m + ?r = mix_value m + r" using P by (simp add: algebra_simps)
  have inv: "greedy_inv (insert ?d D) ?m"
    using Cons.prems(3) P mix_put_keys [of ?d ?t m] by (auto simp: greedy_inv_def)
  show ?case
  proof (cases "?r = 0")
    case True
    with Cons.prems(1) have "m' = ?m" "r' = 0" by (simp_all add: Let_def)
    moreover have "greedy_inv (insert ?d (D \<union> cu_denomination ` set us)) ?m"
      by (rule greedy_inv_mono [OF inv]) auto
    ultimately show ?thesis using val True by simp
  next
    case False
    then have "min_notes_loop us ?m ?r = (m', r')" using Cons.prems(1) by (simp add: Let_def)
    moreover have "\<forall>v \<in> set us. 0 < cu_denomination v \<and> cu_denomination v \<notin> insert ?d D"
      using Cons.prems(5,6) by (force simp: image_iff)
    ultimately show ?thesis
      using Cons.IH [of ?m ?r "insert ?d D"] r inv Cons.prems(4,6) d val by simp
  qed
qed

section \<open>The machine invariant\<close>

text \<open>
  The cassettes form a Map, no count is negative, no two note cassettes hold the same
  denomination, denominations are positive, and the cash presented, if any, is a sound mix.
\<close>

definition cdm_denoms_ok :: "CashUnit list \<Rightarrow> bool" where
  "cdm_denoms_ok us \<longleftrightarrow>
     distinct (map cu_denomination (filter (\<lambda>u. cu_unitId u \<noteq> ''REJECT'') us))
     \<and> (\<forall>u \<in> set us. cu_unitId u \<noteq> ''REJECT'' \<longrightarrow> 0 < cu_denomination u)"

definition cdm_ok :: "cdm_dev \<Rightarrow> bool" where
  "cdm_ok d \<longleftrightarrow> cdm_wf d \<and> cdm_nonneg d \<and> cdm_denoms_ok (cdm_getUnits d)
     \<and> (case cdm_presented d of None \<Rightarrow> True | Some (_, m) \<Rightarrow> mix_ok m)"

definition cdm_keys_ok :: "CdmDispensePayload \<Rightarrow> bool" where
  "cdm_keys_ok p \<longleftrightarrow>
     (case (dp_mixType p, dp_customMix p) of
        (CUSTOM, Some cm) \<Rightarrow> distinct (map (\<lambda>kn. js_Number (fst kn)) cm)
      | _ \<Rightarrow> True)"

lemma cdm_ok_init: "cdm_ok cdm_init"
  using cdm_wf_init
  by (simp add: cdm_ok_def cdm_nonneg_def cdm_denoms_ok_def cdm_init_units)
    (simp add: cdm_default_units_def cdm_init_def vd_open_def cdm_loadCassettes_def vdev.defs)

lemma denoms_shape:
  "cdm_shape us = cdm_shape us' \<Longrightarrow> cdm_denoms_ok us = cdm_denoms_ok us'"
proof -
  assume eq: "cdm_shape us = cdm_shape us'"
  have K: "map (\<lambda>u. (cu_unitId u, cu_denomination u)) us
      = map (\<lambda>u. (cu_unitId u, cu_denomination u)) us'"
    using arg_cong [OF eq, of "map (\<lambda>(i, d, _). (i, d))"] by (simp add: cdm_shape_def comp_def)
  have F: "map cu_denomination (filter (\<lambda>u. cu_unitId u \<noteq> ''REJECT'') vs)
      = map snd (filter (\<lambda>p. fst p \<noteq> ''REJECT'') (map (\<lambda>u. (cu_unitId u, cu_denomination u)) vs))" for vs
    by (induction vs) auto
  have A: "(\<forall>u \<in> set vs. cu_unitId u \<noteq> ''REJECT'' \<longrightarrow> 0 < cu_denomination u)
      = (\<forall>p \<in> set (map (\<lambda>u. (cu_unitId u, cu_denomination u)) vs). fst p \<noteq> ''REJECT'' \<longrightarrow> 0 < snd p)" for vs
    by auto
  show ?thesis unfolding cdm_denoms_ok_def F A K ..
qed

lemma cdm_deduct_shape:
  assumes "cdm_wf d"
    and "\<And>k c. (k, c) \<in> set m \<Longrightarrow> cdm_findSpendable (js_Number k) (cdm_getUnits d) \<noteq> None"
  shows "cdm_shape (cdm_getUnits (fst (cdm_deduct d m))) = cdm_shape (cdm_getUnits d)"
  using assms
proof (induction m arbitrary: d)
  case Nil
  then show ?case by simp
next
  case (Cons kc m)
  obtain k c where kc: "kc = (k, c)" by (cases kc)
  from Cons.prems(2) [of k c] kc obtain u
    where u: "cdm_findSpendable (js_Number k) (cdm_getUnits d) = Some u" by auto
  note D = findSpendable_SomeD [OF u]
  let ?d = "cdm_put (cdm_deduct_unit u c) d"
  note S = shape_put_deduct [OF Cons.prems(1) D(1,4), of c]
  have "cdm_findSpendable (js_Number k') (cdm_getUnits ?d) \<noteq> None" if "(k', c') \<in> set m" for k' c'
    using Cons.prems(2) [of k' c'] that findSpendable_shape [OF S] by auto
  then have "cdm_shape (cdm_getUnits (fst (cdm_deduct ?d m))) = cdm_shape (cdm_getUnits ?d)"
    using Cons.IH [OF cdm_wf_put [OF Cons.prems(1)]] by blast
  then show ?case using S cdm_deduct_step [OF u, of c m] kc by simp
qed

lemma spendable_denoms:
  assumes "cdm_denoms_ok (cdm_getUnits d)"
  shows "distinct (map cu_denomination (cdm_spendable d))"
    and "\<forall>u \<in> set (cdm_spendable d). 0 < cu_denomination u"
proof -
  let ?us = "cdm_getUnits d"
  have sub: "filter cdm_usable ?us = filter cdm_usable (filter (\<lambda>u. cu_unitId u \<noteq> ''REJECT'') ?us)"
    unfolding filter_filter by (rule filter_cong) (auto simp: cdm_usable_def)
  have I: "inj_on cu_denomination (set (filter (\<lambda>u. cu_unitId u \<noteq> ''REJECT'') ?us))"
    and D: "distinct (filter (\<lambda>u. cu_unitId u \<noteq> ''REJECT'') ?us)"
    using assms by (simp_all only: cdm_denoms_ok_def distinct_map)
  have "distinct (map cu_denomination (filter cdm_usable ?us))"
    unfolding sub distinct_map
    by (rule conjI [OF distinct_filter [OF D] inj_on_subset [OF I]]) auto
  then show "distinct (map cu_denomination (cdm_spendable d))"
    by (simp add: cdm_spendable_def distinct_map)
  show "\<forall>u \<in> set (cdm_spendable d). 0 < cu_denomination u"
    using assms by (auto simp: cdm_spendable_def cdm_denoms_ok_def cdm_usable_def)
qed

lemma min_notes_mix:
  assumes "cdm_calculateMinNotesMix d amount = Inr m" "0 < amount" "cdm_denoms_ok (cdm_getUnits d)"
  shows "mix_value m = amount \<and> mix_ok m"
proof -
  obtain r where run: "min_notes_loop (cdm_spendable d) [] amount = (m, r)" and r: "\<not> 0 < r"
    using assms(1) by (auto simp: cdm_calculateMinNotesMix_def Let_def split: prod.splits if_splits)
  note sp = spendable_denoms [OF assms(3)]
  have "mix_value m + r = mix_value [] + amount \<and> 0 \<le> r
      \<and> greedy_inv ({} \<union> cu_denomination ` set (cdm_spendable d)) m"
    using sp assms(2) by (intro min_notes_loop_inv [OF run]) (auto simp: greedy_inv_def)
  then show ?thesis
    using r sp(2) greedy_inv_mix_ok [of "cu_denomination ` set (cdm_spendable d)" m] by force
qed

lemma custom_mix_sum_spec:
  "custom_mix_sum cm acc = Inr (s, m) \<Longrightarrow>
   s = acc + mix_value m \<and> map fst m = map fst cm \<and> (\<forall>kc \<in> set m. 0 \<le> snd kc)"
proof (induction cm arbitrary: acc m)
  case Nil
  then show ?case by simp
next
  case (Cons kn cm)
  obtain k n where kn: "kn = (k, n)" by (cases kn)
  from Cons.prems kn obtain denom c m'
    where D: "js_to_int (js_Number k) = Some denom" "js_to_int n = Some c" "0 \<le> c"
      "custom_mix_sum cm (acc + denom * c) = Inr (s, m')" "m = (k, c) # m'"
    by (auto split: option.splits if_splits sum.splits)
  show ?case using Cons.IH [OF D(4)] D kn by (simp add: key_denom_def)
qed

lemma choose_mix_ok:
  assumes "cdm_choose_mix d amount p = Inr m" "0 < amount" "cdm_denoms_ok (cdm_getUnits d)"
  shows "mix_value m = amount" "cdm_keys_ok p \<Longrightarrow> mix_ok m"
proof -
  have "mix_value m = amount \<and> (cdm_keys_ok p \<longrightarrow> mix_ok m)"
  proof (cases "\<exists>cm. dp_mixType p = CUSTOM \<and> dp_customMix p = Some cm")
    case True
    then obtain cm where cm: "dp_mixType p = CUSTOM" "dp_customMix p = Some cm" by blast
    then obtain s where s: "custom_mix_sum cm 0 = Inr (s, m)" "s = amount"
      using assms(1)
      by (auto simp: cdm_choose_mix_def cdm_validateCustomMix_def split: sum.splits if_splits)
    note S = custom_mix_sum_spec [OF s(1)]
    have "map (\<lambda>kn. js_Number (fst kn)) m = map (\<lambda>kn. js_Number (fst kn)) cm"
      using arg_cong [OF conjunct1 [OF conjunct2 [OF S]], of "map js_Number"] by (simp add: comp_def)
    then show ?thesis using S s(2) cm by (simp add: mix_ok_def cdm_keys_ok_def)
  next
    case False
    then have "cdm_calculateMinNotesMix d amount = Inr m"
      using assms(1)
      by (auto simp: cdm_choose_mix_def split: CdmMixType.splits option.splits)
    then show ?thesis using min_notes_mix assms(2,3) by blast
  qed
  then show "mix_value m = amount" "cdm_keys_ok p \<Longrightarrow> mix_ok m" by simp_all
qed

section \<open>Dispensing\<close>

text \<open>What a successful DISPENSE went through.\<close>

lemma cdm_dispense_DoneD:
  assumes "cdm_dispense p d = (Done r, d', evs)"
  obtains amount m where
    "js_to_int (dp_amount p) = Some amount" "0 < amount" "cdm_choose_mix d amount p = Inr m"
    "cdm_preflight (cdm_getUnits d) m = None" "r = R_Dispense m amount"
    "cdm_units d' = cdm_units (fst (cdm_deduct d m))" "cdm_presented d' = Some (amount, m)"
    "cdm_takeTimer d' = (dp_present p \<or> cdm_takeTimer d)"
    "vdev.truncate d' = vdev.truncate (fst (cdm_deduct d m))"
  using assms
  by (auto simp: cdm_dispense_def cdm_present_def Let_def split_def vdev.truncate_def vd_emit_def
      split: option.splits if_splits sum.splits)

lemma cdm_dispense_FailedD:
  assumes "cdm_dispense p d = (Failed e, d', evs)"
  shows "d' = d" "evs = []"
  using assms
  by (auto simp: cdm_dispense_def Let_def split_def split: option.splits if_splits sum.splits)

lemma cdm_dispense_not_pending: "fst (cdm_dispense p d) \<noteq> Pending"
  by (auto simp: cdm_dispense_def Let_def split_def split: option.splits if_splits sum.splits)

lemma units_totals:
  "cdm_units d = cdm_units d' \<Longrightarrow> cdm_total_amount d = cdm_total_amount d'
   \<and> cdm_total_notes d = cdm_total_notes d'"
  by (simp add: cdm_total_amount_sum cdm_total_notes_sum cdm_getUnits_def)

lemma dispense_ok:
  assumes "cdm_ok d" "cdm_keys_ok p" "cdm_dispense p d = (Done r, d', evs)"
  shows "cdm_ok d'"
proof -
  obtain amount m where D: "0 < amount" "cdm_choose_mix d amount p = Inr m"
    "cdm_preflight (cdm_getUnits d) m = None"
    "cdm_units d' = cdm_units (fst (cdm_deduct d m))" "cdm_presented d' = Some (amount, m)"
    using cdm_dispense_DoneD [OF assms(3)] by metis
  have ok: "cdm_wf d" "cdm_nonneg d" "cdm_denoms_ok (cdm_getUnits d)" using assms(1) by (simp_all add: cdm_ok_def)
  have m: "mix_ok m" using choose_mix_ok(2) [OF D(2,1) ok(3) assms(2)] .
  have found: "cdm_findSpendable (js_Number k) (cdm_getUnits d) \<noteq> None" if "(k, c) \<in> set m" for k c
    using preflight_found [OF D(3) that] by auto
  show ?thesis
    using cdm_wf_deduct [OF ok(1), of m] cdm_deduct_nonneg [OF ok(1,2) m D(3)] m
      denoms_shape [OF cdm_deduct_shape [OF ok(1) found]] ok(3) D(4,5)
    by (simp add: cdm_ok_def cdm_wf_def cdm_nonneg_def cdm_getUnits_def)
qed

lemma deduct_accounting:
  assumes "cdm_ok d" "cdm_dispense p d = (Done r, d', evs)"
  obtains amount m where "js_to_int (dp_amount p) = Some amount" "0 < amount"
    "r = R_Dispense m amount" "cdm_presented d' = Some (amount, m)" "mix_value m = amount"
    "cdm_total_amount d' = cdm_total_amount d - amount"
    "cdm_total_notes d' = cdm_total_notes d - mix_notes m"
    "map_of (cdm_units d') ''REJECT'' = map_of (cdm_units d) ''REJECT''"
proof -
  obtain amount m where D: "js_to_int (dp_amount p) = Some amount" "0 < amount"
    "cdm_choose_mix d amount p = Inr m" "cdm_preflight (cdm_getUnits d) m = None"
    "r = R_Dispense m amount"
    "cdm_units d' = cdm_units (fst (cdm_deduct d m))" "cdm_presented d' = Some (amount, m)"
    using cdm_dispense_DoneD [OF assms(2)] by metis
  have ok: "cdm_wf d" "cdm_denoms_ok (cdm_getUnits d)" using assms(1) by (simp_all add: cdm_ok_def)
  have found: "cdm_findSpendable (js_Number k) (cdm_getUnits d) \<noteq> None" if "(k, c) \<in> set m" for k c
    using preflight_found [OF D(4) that] by auto
  have reject: "map_of (cdm_units (fst (cdm_deduct d m))) ''REJECT'' = map_of (cdm_units d) ''REJECT''" for d
  proof (induction m arbitrary: d)
    case Nil
    then show ?case by simp
  next
    case (Cons kc m)
    then show ?case
      by (cases kc) (auto simp: Let_def split_def dest: findSpendable_SomeD split: option.split)
  qed
  have "cdm_total_amount d' = cdm_total_amount d - mix_value m
      \<and> cdm_total_notes d' = cdm_total_notes d - mix_notes m"
    using cdm_deduct_value [OF ok(1) found] units_totals [OF D(6)] by simp
  then show thesis
    using that [OF D(1,2,5,7)] choose_mix_ok(1) [OF D(3,2) ok(2)] reject D(6) by simp
qed

section \<open>Retracting and the other commands\<close>

lemma cdm_retract_cases:
  "cdm_retract d =
    (case cdm_presented d of
       None \<Rightarrow> (Failed NothingToRetract, d, [])
     | Some (_, m) \<Rightarrow>
        (Done R_Empty,
         (case map_of (cdm_units d) ''REJECT'' of
            Some u \<Rightarrow> cdm_put (u\<lparr>cu_count := cu_count u + mix_notes m\<rparr>)
                        (d\<lparr>cdm_takeTimer := False, cdm_presented := None\<rparr>)
          | None \<Rightarrow> d\<lparr>cdm_takeTimer := False, cdm_presented := None\<rparr>), []))"
  by (auto simp: cdm_retract_def Let_def cdm_put_def split: option.splits)

lemma denoms_put:
  assumes "cdm_wf d" "map_of (cdm_units d) k = Some u" "cdm_denoms_ok (cdm_getUnits d)"
    and "cu_unitId u' = cu_unitId u" "cu_denomination u' = cu_denomination u"
  shows "cdm_denoms_ok (cdm_getUnits (cdm_put u' d))"
proof -
  note L = cdm_wf_lookup_id [OF assms(1,2)]
  have same: "v = u" if "v \<in> set (cdm_getUnits d)" "cu_unitId v = cu_unitId u" for v
    using cdm_wf_lookup [OF assms(1) that(1)] that(2) L(1) assms(2) by simp
  let ?f = "\<lambda>v. if cu_unitId v = cu_unitId u then u' else v"
  have "map cu_denomination (filter (\<lambda>u. cu_unitId u \<noteq> ''REJECT'') (map ?f us))
      = map cu_denomination (filter (\<lambda>u. cu_unitId u \<noteq> ''REJECT'') us)"
    if "set us \<subseteq> set (cdm_getUnits d)" for us
    using that by (induction us) (auto simp: assms(4,5) dest!: same)
  then show ?thesis
    using assms(3,4,5) L(2) unfolding cdm_denoms_ok_def cdm_getUnits_put [OF assms(1) L(2) assms(4)]
    by (auto dest: same)
qed

lemma ok_put:
  assumes "cdm_ok d" "map_of (cdm_units d) k = Some u"
    and "cu_unitId u' = cu_unitId u" "cu_denomination u' = cu_denomination u" "0 \<le> cu_count u'"
  shows "cdm_ok (cdm_put u' d)"
proof -
  have ok: "cdm_wf d" "cdm_nonneg d" "cdm_denoms_ok (cdm_getUnits d)" using assms(1) by (simp_all add: cdm_ok_def)
  note L = cdm_wf_lookup_id [OF ok(1) assms(2)]
  have "cdm_nonneg (cdm_put u' d)"
    using ok(2) assms(5) by (auto simp: cdm_nonneg_def cdm_getUnits_put [OF ok(1) L(2) assms(3)])
  then show ?thesis
    using assms(1) cdm_wf_put [OF ok(1), of u'] denoms_put [OF ok(1) assms(2) ok(3) assms(3,4)]
    by (simp add: cdm_ok_def)
qed

lemma mix_notes_nonneg: "mix_ok m \<Longrightarrow> 0 \<le> mix_notes m"
  by (force simp: mix_ok_def mix_notes_def intro!: sum_list_nonneg)

lemma ok_frame:
  "cdm_ok d \<Longrightarrow> cdm_units d' = cdm_units d \<Longrightarrow>
   cdm_presented d' = cdm_presented d \<or> cdm_presented d' = None \<Longrightarrow> cdm_ok d'"
  by (auto simp: cdm_ok_def cdm_wf_def cdm_nonneg_def cdm_getUnits_def)

lemma retract_ok:
  assumes "cdm_ok d"
  shows "cdm_ok (fst (snd (cdm_retract d)))"
proof (cases "cdm_presented d")
  case None
  with assms show ?thesis by (simp add: cdm_retract_cases)
next
  case (Some am)
  let ?d = "d\<lparr>cdm_takeTimer := False, cdm_presented := None\<rparr>"
  have d: "cdm_ok ?d" by (rule ok_frame [OF assms]) simp_all
  have m: "0 \<le> mix_notes (snd am)"
    using assms Some by (auto simp: cdm_ok_def intro: mix_notes_nonneg split: prod.splits)
  show ?thesis
  proof (cases "map_of (cdm_units d) ''REJECT''")
    case None
    then show ?thesis using Some d by (simp add: cdm_retract_cases split: prod.split)
  next
    case (Some u)
    have "0 \<le> cu_count u"
      using assms cdm_wf_lookup_id(2) [of d] Some by (auto simp: cdm_ok_def cdm_nonneg_def)
    then have "cdm_ok (cdm_put (u\<lparr>cu_count := cu_count u + mix_notes (snd am)\<rparr>) ?d)"
      using Some m by (intro ok_put [OF d, of "''REJECT''"]) simp_all
    then show ?thesis
      using Some \<open>cdm_presented d = Some am\<close> by (cases am) (simp add: cdm_retract_cases)
  qed
qed

lemma checkInjected_cdm [simp]:
  "cdm_units (snd (vd_checkInjectedError d)) = cdm_units d"
  "cdm_presented (snd (vd_checkInjectedError d)) = cdm_presented d"
  "cdm_takeTimer (snd (vd_checkInjectedError d)) = cdm_takeTimer d"
  "vd_hService (snd (vd_checkInjectedError d)) = vd_hService d"
  "vd_serviceClass (snd (vd_checkInjectedError d)) = vd_serviceClass d"
  by (simp_all add: vd_checkInjectedError_def split: option.split)

lemma checkInjected_None:
  "vd_injectedError d = None \<Longrightarrow> vd_checkInjectedError d = (None, d)"
  "vd_injectedError d = Some e \<Longrightarrow> vd_checkInjectedError d = (Some e, vd_clearError d)"
  by (simp_all add: vd_defs)

lemma cdm_exec_split:
  obtains
    (reset) "cdm_cmd_of c = Some CDM_RESET"
      "cdm_executeCommand d c pl =
        (Done R_Empty, vd_reset (d\<lparr>cdm_takeTimer := False, cdm_presented := None\<rparr>), [])"
  | (injected) e where "cdm_cmd_of c \<noteq> Some CDM_RESET" "vd_injectedError d = Some e"
      "cdm_executeCommand d c pl = (Failed (InjectedError e), vd_clearError d, [])"
  | (dispense) "cdm_cmd_of c = Some CDM_DISPENSE" "vd_injectedError d = None"
      "cdm_executeCommand d c pl = cdm_dispense (pl_dispense pl) d"
  | (present) "cdm_cmd_of c = Some CDM_PRESENT" "vd_injectedError d = None"
      "cdm_executeCommand d c pl = cdm_present d"
  | (retract) "cdm_cmd_of c = Some CDM_RETRACT \<or> cdm_cmd_of c = Some CDM_REJECT"
      "vd_injectedError d = None" "cdm_executeCommand d c pl = cdm_retract d"
  | (other) oc where
      "cdm_cmd_of c \<notin> {Some CDM_RESET, Some CDM_DISPENSE, Some CDM_RETRACT, Some CDM_REJECT}"
      "vd_injectedError d = None" "cdm_executeCommand d c pl = (oc, d, [])"
      "oc \<noteq> Pending" "\<not> injected_outcome oc"
proof (cases "cdm_cmd_of c = Some CDM_RESET")
  case True
  then show thesis using reset by (simp add: cdm_executeCommand_def)
next
  case False
  show thesis
  proof (cases "vd_injectedError d")
    case (Some e)
    then show thesis using injected False by (simp add: cdm_executeCommand_def checkInjected_None)
  next
    case None
    show thesis
    proof (cases "cdm_cmd_of c")
      case None
      then show thesis using other [of "Failed (UnsupportedCommand CDM c)"] \<open>vd_injectedError d = None\<close>
        by (simp add: cdm_executeCommand_def checkInjected_None)
    next
      case (Some x)
      then show thesis
        using False None dispense present retract other
        by (cases x) (auto simp: cdm_executeCommand_def checkInjected_None cdm_getCashUnitInfo_def
            cdm_count_def Let_def)
    qed
  qed
qed

lemma cdm_present_facts:
  "cdm_units (fst (snd (cdm_present d))) = cdm_units d"
  "cdm_presented (fst (snd (cdm_present d))) = cdm_presented d"
  "vdev.truncate (fst (snd (cdm_present d))) = vdev.truncate d"
  "fst (cdm_present d) = Failed e \<Longrightarrow> snd (cdm_present d) = (d, [])"
  "fst (cdm_present d) \<noteq> Pending"
  "\<not> injected_outcome (fst (cdm_present d))"
  "vd_hService (fst (snd (cdm_present d))) = vd_hService d"
  "vd_serviceClass (fst (snd (cdm_present d))) = vd_serviceClass d"
  "vd_injectedError (fst (snd (cdm_present d))) = vd_injectedError d"
  "out \<in> set (snd (snd (cdm_present d))) \<Longrightarrow> event_ok (vd_hService d) (vd_serviceClass d) out"
  by (auto simp: cdm_present_def vdev.truncate_def split: option.splits)

lemma cdm_retract_facts:
  "vdev.truncate (fst (snd (cdm_retract d))) = vdev.truncate d"
  "fst (cdm_retract d) = Failed e \<Longrightarrow> snd (cdm_retract d) = (d, [])"
  "fst (cdm_retract d) \<noteq> Pending"
  "\<not> injected_outcome (fst (cdm_retract d))"
  "snd (snd (cdm_retract d)) = []"
  "vd_hService (fst (snd (cdm_retract d))) = vd_hService d"
  "vd_serviceClass (fst (snd (cdm_retract d))) = vd_serviceClass d"
  "vd_injectedError (fst (snd (cdm_retract d))) = vd_injectedError d"
  by (auto simp: cdm_retract_cases vdev.truncate_def cdm_put_def split: option.splits)

section \<open>Properties of the dispenser\<close>

lemma cdm_exec_ok:
  assumes "cdm_ok d" "cdm_keys_ok (pl_dispense pl)"
  shows "cdm_ok (fst (snd (cdm_executeCommand d c pl)))"
proof (cases rule: cdm_exec_split [where c = c and d = d and pl = pl])
  case reset
  then show ?thesis by (simp add: vd_reset_def ok_frame [OF assms(1)])
next
  case (injected e)
  then show ?thesis by (simp add: vd_clearError_def ok_frame [OF assms(1)])
next
  case dispense
  obtain oc d' evs where run: "cdm_dispense (pl_dispense pl) d = (oc, d', evs)" by (metis prod_cases3)
  show ?thesis
  proof (cases oc)
    case (Failed e)
    with run have "d' = d" using cdm_dispense_FailedD(1) by blast
    then show ?thesis using dispense run assms(1) by simp
  qed (use dispense dispense_ok [OF assms] run cdm_dispense_not_pending [of "pl_dispense pl" d] in auto)
next
  case present
  then show ?thesis by (simp add: cdm_present_facts ok_frame [OF assms(1)])
next
  case retract
  then show ?thesis using retract_ok [OF assms(1)] by simp
next
  case (other oc)
  then show ?thesis using assms(1) by simp
qed

text \<open>Every command preserves the machine invariant (cassettes form a Map, no negative count,
  distinct positive denominations, sound presented cash), whatever its payload, as long as a
  custom mix does not name one denomination by two strings.\<close>

theorem cdm_ok_executeCommand:
  assumes "cdm_ok d" "cdm_keys_ok (pl_dispense pl)"
  shows "cdm_ok (fst (snd (cdm_executeCommand d c pl)))"
  using cdm_exec_ok [OF assms] .

lemma cdm_exec_dispense:
  assumes "cdm_ok d"
    and "cdm_executeCommand d (cdm_cmd_code CDM_DISPENSE) pl = (Done r, d', evs)"
  shows "\<exists>amount m. js_to_int (dp_amount (pl_dispense pl)) = Some amount \<and> 0 < amount
    \<and> r = R_Dispense m amount \<and> cdm_presented d' = Some (amount, m) \<and> mix_value m = amount
    \<and> cdm_total_amount d' = cdm_total_amount d - amount
    \<and> cdm_total_notes d' = cdm_total_notes d - mix_notes m"
proof (cases rule: cdm_exec_split [where c = "cdm_cmd_code CDM_DISPENSE" and d = d and pl = pl])
  case dispense
  then have "cdm_dispense (pl_dispense pl) d = (Done r, d', evs)" using assms(2) by simp
  from deduct_accounting [OF assms(1) this] show ?thesis by metis
qed (use assms(2) in \<open>auto simp: cdm_executeCommand_def checkInjected_None cdm_cmd_of_code
  simp del: cdm_cmd_code.simps\<close>)

lemma cdm_exec_failed:
  assumes "cdm_executeCommand d c pl = (Failed e, d', evs)"
  shows "d' = vd_clearError d \<and> evs = []"
proof (cases rule: cdm_exec_split [where c = c and d = d and pl = pl])
  case dispense
  then have "cdm_dispense (pl_dispense pl) d = (Failed e, d', evs)" using assms by simp
  from cdm_dispense_FailedD [OF this] show ?thesis using dispense(2) by (simp add: vd_clearError_def)
next
  case present
  then have "cdm_present d = (Failed e, d', evs)" using assms by simp
  then show ?thesis using cdm_present_facts(4) [of d e] present(2) by (simp add: vd_clearError_def)
next
  case retract
  then have "cdm_retract d = (Failed e, d', evs)" using assms by simp
  then show ?thesis using cdm_retract_facts(2) [of d e] retract(2) by (simp add: vd_clearError_def)
qed (use assms in \<open>simp_all add: vd_clearError_def\<close>)

text \<open>Every note in the machine: in the cassettes, the reject bin included, and presented.\<close>

definition cdm_presented_notes :: "cdm_dev \<Rightarrow> int" where
  "cdm_presented_notes d = (case cdm_presented d of None \<Rightarrow> 0 | Some (_, m) \<Rightarrow> mix_notes m)"

definition cdm_all_notes :: "cdm_dev \<Rightarrow> int" where
  "cdm_all_notes d = sum_list (map cu_count (cdm_getUnits d)) + cdm_presented_notes d"

lemma deduct_count:
  assumes "cdm_wf d"
    and "\<And>k c. (k, c) \<in> set m \<Longrightarrow> cdm_findSpendable (js_Number k) (cdm_getUnits d) \<noteq> None"
  shows "sum_list (map cu_count (cdm_getUnits (fst (cdm_deduct d m))))
    = sum_list (map cu_count (cdm_getUnits d)) - mix_notes m"
  using assms
proof (induction m arbitrary: d)
  case Nil
  then show ?case by simp
next
  case (Cons kc m)
  obtain k c where kc: "kc = (k, c)" by (cases kc)
  from Cons.prems(2) [of k c] kc obtain u
    where u: "cdm_findSpendable (js_Number k) (cdm_getUnits d) = Some u" by auto
  note D = findSpendable_SomeD [OF u]
  let ?d = "cdm_put (cdm_deduct_unit u c) d"
  have found: "cdm_findSpendable (js_Number k') (cdm_getUnits ?d) \<noteq> None" if "(k', c') \<in> set m" for k' c'
    using Cons.prems(2) [of k' c'] that
      findSpendable_shape [OF shape_put_deduct [OF Cons.prems(1) D(1,4)]] by auto
  have "sum_list (map cu_count (cdm_getUnits (fst (cdm_deduct ?d m))))
      = sum_list (map cu_count (cdm_getUnits ?d)) - mix_notes m"
    using Cons.IH [OF cdm_wf_put [OF Cons.prems(1)]] found by blast
  then show ?case
    using cdm_deduct_step [OF u, of c m] kc by (simp add: sum_put [OF Cons.prems(1) D(1)])
qed

text \<open>A command that fails leaves the dispenser as it was (only a pending injected error is
  consumed) and emits nothing: a refused dispense deducts no note.\<close>

theorem cdm_failure_atomic:
  assumes "cdm_executeCommand d c pl = (Failed e, d', evs)"
  shows "d' = vd_clearError d \<and> evs = []"
  using cdm_exec_failed [OF assms] .

text \<open>C14: a dispense that succeeds takes exactly the requested value out of the cassettes: the
  reply and the presented cash carry the same mix, the mix is worth the amount, and the total
  value of the loaded cassettes falls by the amount.\<close>

theorem cdm_dispense_conserves:
  assumes "cdm_ok d"
    and "cdm_executeCommand d (cdm_cmd_code CDM_DISPENSE) pl = (Done r, d', evs)"
  shows "\<exists>amount m. js_to_int (dp_amount (pl_dispense pl)) = Some amount \<and> 0 < amount
    \<and> r = R_Dispense m amount \<and> cdm_presented d' = Some (amount, m) \<and> mix_value m = amount
    \<and> cdm_total_amount d' = cdm_total_amount d - amount
    \<and> cdm_total_notes d' = cdm_total_notes d - mix_notes m"
  using cdm_exec_dispense [OF assms] .

lemma dispense_all_notes:
  assumes "cdm_wf d" "cdm_dispense p d = (oc, d', evs)"
  shows "cdm_all_notes d' = cdm_all_notes d - (case oc of Done r \<Rightarrow> cdm_presented_notes d | _ \<Rightarrow> 0)"
proof (cases oc)
  case (Done r)
  then obtain amount m where D: "cdm_preflight (cdm_getUnits d) m = None"
    "cdm_units d' = cdm_units (fst (cdm_deduct d m))" "cdm_presented d' = Some (amount, m)"
    using cdm_dispense_DoneD [of p d r d' evs] assms(2) by metis
  have "cdm_findSpendable (js_Number k) (cdm_getUnits d) \<noteq> None" if "(k, c) \<in> set m" for k c
    using preflight_found [OF D(1) that] by auto
  from deduct_count [OF assms(1) this] show ?thesis
    using D(2,3) Done getUnits_cong [OF D(2)] by (simp add: cdm_all_notes_def cdm_presented_notes_def)
next
  case (Failed e)
  then show ?thesis using cdm_dispense_FailedD(1) [of p d e d' evs] assms(2) by simp
next
  case Pending
  then show ?thesis using cdm_dispense_not_pending [of p d] assms(2) by simp
qed

lemma retract_all_notes:
  assumes "cdm_wf d"
  shows "cdm_all_notes (fst (snd (cdm_retract d)))
    = cdm_all_notes d - (if map_of (cdm_units d) ''REJECT'' = None then cdm_presented_notes d else 0)"
proof (cases "cdm_presented d")
  case None
  then show ?thesis by (simp add: cdm_retract_cases cdm_presented_notes_def)
next
  case (Some am)
  let ?d = "d\<lparr>cdm_takeTimer := False, cdm_presented := None\<rparr>"
  have wf: "cdm_wf ?d" and us: "cdm_getUnits ?d = cdm_getUnits d"
    using assms(1) by (simp_all add: cdm_wf_def cdm_getUnits_def)
  show ?thesis
  proof (cases "map_of (cdm_units d) ''REJECT''")
    case None
    then show ?thesis using Some us by (cases am) (simp add: cdm_retract_cases cdm_all_notes_def cdm_presented_notes_def)
  next
    case (Some u)
    note L = cdm_wf_lookup_id [OF assms(1) Some]
    show ?thesis
      using \<open>cdm_presented d = Some am\<close> Some L
      by (cases am) (simp add: cdm_retract_cases cdm_all_notes_def cdm_presented_notes_def sum_put [OF wf] us)
  qed
qed

text \<open>The notes a command drops from the accounts of the machine: those that are presented, when the
  command forgets them.\<close>

definition cdm_dropped :: "cdm_dev \<Rightarrow> string \<Rightarrow> outcome \<Rightarrow> int" where
  "cdm_dropped d c oc =
     (case (cdm_cmd_of c, oc) of
        (Some CDM_RESET, _) \<Rightarrow> cdm_presented_notes d
      | (Some CDM_DISPENSE, Done r) \<Rightarrow> cdm_presented_notes d
      | (Some CDM_RETRACT, Done r) \<Rightarrow> if map_of (cdm_units d) ''REJECT'' = None then cdm_presented_notes d else 0
      | (Some CDM_REJECT, Done r) \<Rightarrow> if map_of (cdm_units d) ''REJECT'' = None then cdm_presented_notes d else 0
      | _ \<Rightarrow> 0)"

text \<open>C17: the number of notes in the machine, in the cassettes, the reject bin and presented together, is
  exact for every command: it never grows, and falls only when a RESET, or a dispense that succeeds,
  finds cash presented and forgets it, or when that cash is retracted in a machine without a reject
  bin. Everything else moves notes: what leaves the cassettes is presented, what is retracted lands in
  the reject bin.\<close>

theorem cdm_notes_conserved:
  assumes "cdm_wf d" "cdm_executeCommand d c pl = (oc, d', evs)"
  shows "cdm_all_notes d' = cdm_all_notes d - cdm_dropped d c oc"
proof (cases rule: cdm_exec_split [where c = c and d = d and pl = pl])
  case reset
  then show ?thesis
    using assms(2) by (auto simp: cdm_all_notes_def cdm_dropped_def cdm_presented_notes_def cdm_getUnits_def vd_reset_def)
next
  case injected
  then show ?thesis
    using assms(2) by (auto simp: cdm_all_notes_def cdm_dropped_def cdm_presented_notes_def cdm_getUnits_def
      vd_clearError_def split: option.splits cdm_cmd.splits)
next
  case dispense
  then show ?thesis
    using dispense_all_notes [OF assms(1), of "pl_dispense pl" oc d' evs] assms(2)
    by (simp add: cdm_dropped_def split: outcome.split)
next
  case present
  then have "d' = fst (snd (cdm_present d))" using assms(2) by (metis fst_conv snd_conv)
  then show ?thesis
    using present(1) by (simp add: cdm_all_notes_def cdm_dropped_def cdm_presented_notes_def cdm_present_facts
      getUnits_cong [OF cdm_present_facts(1)])
next
  case retract
  then have d': "d' = fst (snd (cdm_retract d))" "oc = fst (cdm_retract d)" using assms(2) by (metis fst_conv snd_conv)+
  have "cdm_presented_notes d = 0" if "\<nexists>r. oc = Done r"
    using that d'(2) by (cases "cdm_presented d") (auto simp: cdm_retract_cases cdm_presented_notes_def)
  then show ?thesis using retract_all_notes [OF assms(1)] retract(1) d'(1)
    by (auto simp: cdm_dropped_def split: outcome.split)
next
  case other
  then show ?thesis using assms(2) by (auto simp: cdm_dropped_def split: option.splits cdm_cmd.splits)
qed

section \<open>The contract of the dispenser\<close>

lemma cdm_deduct_events:
  "out \<in> set (snd (cdm_deduct d m)) \<Longrightarrow> event_ok (vd_hService d) (vd_serviceClass d) out"
proof (induction m arbitrary: d)
  case Nil
  then show ?case by simp
next
  case (Cons kc m)
  obtain k c where "kc = (k, c)" by (cases kc)
  with Cons.prems show ?case
    by (auto simp: Let_def split_def dest: Cons.IH split: option.splits if_splits)
qed

lemma custom_mix_sum_err: "custom_mix_sum cm acc = Inl e \<Longrightarrow> \<not> injected_outcome (Failed e)"
  by (induction cm acc rule: custom_mix_sum.induct) (auto split: option.splits if_splits sum.splits)

lemma choose_mix_err: "cdm_choose_mix d a p = Inl e \<Longrightarrow> \<not> injected_outcome (Failed e)"
  by (auto simp: cdm_choose_mix_def cdm_validateCustomMix_def cdm_calculateMinNotesMix_def
      split: CdmMixType.splits option.splits sum.splits if_splits prod.splits
      dest: custom_mix_sum_err)

lemma preflight_err: "cdm_preflight us m = Some e \<Longrightarrow> \<not> injected_outcome (Failed e)"
  by (induction us m rule: cdm_preflight.induct) (auto split: option.splits if_splits)

lemma cdm_dispense_facts:
  "vd_hService (fst (snd (cdm_dispense p d))) = vd_hService d"
  "vd_serviceClass (fst (snd (cdm_dispense p d))) = vd_serviceClass d"
  "vd_injectedError (fst (snd (cdm_dispense p d))) = vd_injectedError d"
  "\<not> injected_outcome (fst (cdm_dispense p d))"
  "out \<in> set (snd (snd (cdm_dispense p d))) \<Longrightarrow>
   event_ok (vd_hService d) (vd_serviceClass d) out"
  by (auto simp: cdm_dispense_def cdm_present_def Let_def split_def
      dest: choose_mix_err preflight_err cdm_deduct_events split: option.splits sum.splits if_splits)

interpretation cdm: xfs_device cdm_executeCommand vdev.truncate vd_clearError "cdm_cmd_code CDM_RESET"
proof unfold_locales
  fix d :: cdm_dev and p c e out
  show "fst (cdm_executeCommand d (cdm_cmd_code CDM_RESET) p) = Done R_Empty"
    "vd_injectedError (vdev.truncate (fst (snd (cdm_executeCommand d (cdm_cmd_code CDM_RESET) p)))) = None"
    "vd_state (vdev.truncate (fst (snd (cdm_executeCommand d (cdm_cmd_code CDM_RESET) p)))) = OPEN"
    by (simp_all add: cdm_executeCommand_def vd_reset_def del: cdm_cmd_code.simps)
  show "vd_injectedError (vdev.truncate d) = Some e \<Longrightarrow> c \<noteq> cdm_cmd_code CDM_RESET \<Longrightarrow>
      cdm_executeCommand d c p = (Failed (InjectedError e), vd_clearError d, [])"
    by (auto simp: cdm_executeCommand_def checkInjected_None cdm_cmd_of_def dest: code_lookup_Some)
  show "vd_injectedError (vdev.truncate (vd_clearError d)) = None" by (simp add: vd_clearError_def)
  note cases = cdm_exec_split [where c = c and d = d and pl = p]
  show "vd_injectedError (vdev.truncate (fst (snd (cdm_executeCommand d c p)))) = None"
    if "vd_injectedError (vdev.truncate d) = None"
    using that
    by (rule_tac cases) (auto simp: vd_defs cdm_dispense_facts cdm_present_facts cdm_retract_facts)
  show "\<not> injected_outcome (fst (cdm_executeCommand d c p))"
    if "vd_injectedError (vdev.truncate d) = None"
    using that by (rule_tac cases) (auto simp: cdm_dispense_facts cdm_present_facts cdm_retract_facts)
  show "vd_hService (vdev.truncate (fst (snd (cdm_executeCommand d c p)))) = vd_hService (vdev.truncate d)"
    by (rule cases) (simp_all add: vd_defs cdm_dispense_facts cdm_present_facts cdm_retract_facts)
  show "vd_serviceClass (vdev.truncate (fst (snd (cdm_executeCommand d c p)))) = vd_serviceClass (vdev.truncate d)"
    by (rule cases) (simp_all add: vd_defs cdm_dispense_facts cdm_present_facts cdm_retract_facts)
  show "event_ok (vd_hService (vdev.truncate d)) (vd_serviceClass (vdev.truncate d)) out"
    if "out \<in> set (snd (snd (cdm_executeCommand d c p)))"
    using that by (rule_tac cases) (auto dest: cdm_dispense_facts(5) cdm_present_facts(10) simp: cdm_retract_facts)
qed

section \<open>Which amounts the standard load can pay\<close>

lemma js_itoa_eval_denoms:
  "js_int_to_string 100000 = ''100000''" "js_int_to_string 50000 = ''50000''"
  "js_int_to_string 20000 = ''20000''"
  by (simp_all add: js_int_to_string_def js_defs)

lemma mix_put_notes:
  "js_int_to_string d \<notin> fst ` set m \<Longrightarrow> mix_notes (mix_put d v m) = mix_notes m + v"
  by (induction d v m rule: mix_put.induct) (auto simp: image_iff)

text \<open>The greedy search when no cassette runs short: the remainder after each cassette is taken
  modulo its denomination.\<close>

fun ample :: "CashUnit list \<Rightarrow> int \<Rightarrow> bool" where
  "ample [] r = True"
| "ample (u # us) r \<longleftrightarrow> 0 < cu_denomination u \<and> r div cu_denomination u \<le> cu_count u
     \<and> ample us (r mod cu_denomination u)"

fun greedy_rest :: "CashUnit list \<Rightarrow> int \<Rightarrow> int" where
  "greedy_rest [] r = r"
| "greedy_rest (u # us) r = greedy_rest us (r mod cu_denomination u)"

fun greedy_notes :: "CashUnit list \<Rightarrow> int \<Rightarrow> int" where
  "greedy_notes [] r = 0"
| "greedy_notes (u # us) r = r div cu_denomination u + greedy_notes us (r mod cu_denomination u)"

lemma greedy_zero: "greedy_rest us 0 = 0" "greedy_notes us 0 = 0"
  by (induction us) simp_all

lemma ample_loop:
  assumes "ample us r" "0 \<le> r" "distinct (map cu_denomination us)"
    and "\<forall>u \<in> set us. js_int_to_string (cu_denomination u) \<notin> fst ` set m"
  shows "snd (min_notes_loop us m r) = greedy_rest us r
    \<and> mix_notes (fst (min_notes_loop us m r)) = mix_notes m + greedy_notes us r"
  using assms
proof (induction us arbitrary: m r)
  case Nil
  then show ?case by simp
next
  case (Cons u us)
  let ?d = "cu_denomination u" and ?n = "r div cu_denomination u"
  let ?m = "if 0 < ?n then mix_put ?d ?n m else m"
  have d: "0 < ?d" and n: "?n \<le> cu_count u" "0 \<le> ?n"
    using Cons.prems(1,2) by (simp_all add: pos_imp_zdiv_nonneg_iff)
  have take: "cdm_take u r = ?n" using d n by (simp add: cdm_take_def)
  have rest: "(if 0 < ?n then r - ?n * ?d else r) = r mod ?d"
  proof (cases "0 < ?n")
    case True
    then show ?thesis by (simp add: minus_div_mult_eq_mod)
  next
    case False
    then have "?n = 0" using n(2) by simp
    then show ?thesis using minus_div_mult_eq_mod [of r ?d] by simp
  qed
  have nn: "mix_notes ?m = mix_notes m + ?n"
    using mix_put_notes [of ?d m ?n] Cons.prems(4) n(2) by auto
  have step: "min_notes_loop (u # us) m r
      = (if r mod ?d = 0 then (?m, r mod ?d) else min_notes_loop us ?m (r mod ?d))"
    by (simp only: min_notes_loop.simps Let_def take rest)
  have denoms: "0 < cu_denomination v" if "ample vs q" "v \<in> set vs" for v vs q
    using that by (induction vs q rule: ample.induct) auto
  have fresh: "\<forall>v \<in> set us. js_int_to_string (cu_denomination v) \<notin> fst ` set ?m"
  proof
    fix v assume v: "v \<in> set us"
    then have "0 < cu_denomination v" "cu_denomination v \<noteq> ?d"
      using Cons.prems(1,3) denoms [of us "r mod ?d" v] by (auto simp: image_iff)
    then show "js_int_to_string (cu_denomination v) \<notin> fst ` set ?m"
      using int_string_inj [of "cu_denomination v" ?d] d v Cons.prems(4) mix_put_keys [of ?d ?n m]
      by auto
  qed
  show ?case
  proof (cases "r mod ?d = 0")
    case True
    then show ?thesis using step nn by (simp add: greedy_zero)
  next
    case False
    have "snd (min_notes_loop us ?m (r mod ?d)) = greedy_rest us (r mod ?d)
        \<and> mix_notes (fst (min_notes_loop us ?m (r mod ?d))) = mix_notes ?m + greedy_notes us (r mod ?d)"
      using Cons.prems(1,3) d fresh by (intro Cons.IH) simp_all
    then show ?thesis using step nn False by (simp del: min_notes_loop.simps)
  qed
qed

lemma mod_div_bound:
  fixes x :: int
  assumes "0 < n" "0 < m"
  shows "x mod m div n \<le> (m - 1) div n"
  using assms pos_mod_bound [OF assms(2), of x] by (intro zdiv_mono1) simp_all

text \<open>With note cassettes of 100000, 50000 and 20000 and enough notes in each, the minimum
  notes search succeeds exactly on the amounts whose remainder modulo 50000 is a multiple of
  20000, and otherwise reports that remainder; 60000 and 80000 are refused although three or four
  notes of 20000 would pay them.\<close>

theorem cdm_greedy_standard:
  assumes "cdm_spendable d = [a, b, c]"
    and "cu_denomination a = 100000" "cu_denomination b = 50000" "cu_denomination c = 20000"
    and "0 < amount" "amount div 100000 \<le> cu_count a" "1 \<le> cu_count b" "2 \<le> cu_count c"
  shows "(case cdm_calculateMinNotesMix d amount of
      Inr m \<Rightarrow> amount mod 50000 mod 20000 = 0 \<and> mix_notes m
        = amount div 100000 + amount mod 100000 div 50000 + amount mod 50000 div 20000
    | Inl e \<Rightarrow> amount mod 50000 mod 20000 \<noteq> 0 \<and> e = CannotDispense (amount mod 50000 mod 20000))"
proof -
  have q: "amount mod 100000 div 50000 \<le> 1" "amount mod 50000 div 20000 \<le> 2"
    using mod_div_bound [of 50000 100000 amount] mod_div_bound [of 20000 50000 amount] by simp_all
  have m: "amount mod 100000 mod 50000 = amount mod 50000" by (rule mod_mod_cancel) simp
  have "ample [a, b, c] amount"
    unfolding ample.simps assms(2-4) m
    by (simp only: assms(6) order_trans [OF q(1) assms(7)] order_trans [OF q(2) assms(8)]
        zero_less_numeral simp_thms)
  from ample_loop [OF this, of "[]"] assms(2-5)
  have R: "snd (min_notes_loop [a, b, c] [] amount) = amount mod 50000 mod 20000"
    and N: "mix_notes (fst (min_notes_loop [a, b, c] [] amount))
      = amount div 100000 + amount mod 100000 div 50000 + amount mod 50000 div 20000"
    by (simp_all only: mod_mod_cancel greedy_rest.simps greedy_notes.simps m) simp_all
  obtain m r where run: "min_notes_loop [a, b, c] [] amount = (m, r)" by fastforce
  have r: "amount mod 50000 mod 20000 = r" using R run by simp
  have "0 \<le> r" unfolding r [symmetric] by simp
  then show ?thesis
    unfolding cdm_calculateMinNotesMix_def assms(1) run r using N [symmetric] run
    by (cases "0 < r") (simp_all add: Let_def del: min_notes_loop.simps)
qed


section \<open>Witnesses\<close>

lemma js_Number_denoms:
  "js_Number ''100000'' = js_int 100000" "js_Number ''50000'' = js_int 50000"
  "js_Number ''20000'' = js_int 20000"
  by (simp_all add: js_defs js_int_def)

lemma cdm_init_base:
  "vd_injectedError cdm_init = None" "cdm_presented cdm_init = None"
  "map_of (cdm_units cdm_init) ''REJECT'' \<noteq> None"
  by (simp_all add: cdm_init_def vd_open_def cdm_loadCassettes_def cdm_default_units_def
      vdev.defs vd_init_def)

lemma cdm_init_spendable:
  "cdm_spendable cdm_init = [cdm_default_units ! 0, cdm_default_units ! 1, cdm_default_units ! 2]"
  by (simp add: cdm_spendable_def cdm_init_units cdm_default_units_def cdm_usable_def)

lemma cdm_init_mix:
  "cdm_calculateMinNotesMix cdm_init 370000 = Inr [(''20000'', 1), (''50000'', 1), (''100000'', 3)]"
  by (simp add: cdm_calculateMinNotesMix_def cdm_init_spendable cdm_default_units_def
      cdm_take_def js_itoa_eval_denoms js_Number_denoms)

lemma cdm_init_exec:
  "fst (cdm_executeCommand cdm_init (cdm_cmd_code CDM_DISPENSE) (dispense_payload (js_int 370000)))
   = Done (R_Dispense [(''20000'', 1), (''50000'', 1), (''100000'', 3)] 370000)"
  by (simp add: cdm_executeCommand_def vd_checkInjectedError_def cdm_init_base dispense_payload_def
      cdm_dispense_def cdm_choose_mix_def cdm_init_mix cdm_init_units js_Number_denoms
      cdm_findSpendable_def cdm_default_units_def split_def Let_def
      del: cdm_cmd_code.simps cdm_deduct.simps)

lemma cdm_ok_executeCommand_witness:
  "cdm_ok (fst (snd (cdm_executeCommand cdm_init (cdm_cmd_code CDM_DISPENSE)
     (dispense_payload (js_int 370000)))))"
  by (rule cdm_ok_executeCommand [OF cdm_ok_init]) (simp add: cdm_keys_ok_def dispense_payload_def)

lemma cdm_dispense_conserves_witness:
  "cdm_total_amount (fst (snd (cdm_executeCommand cdm_init (cdm_cmd_code CDM_DISPENSE)
     (dispense_payload (js_int 370000))))) = cdm_total_amount cdm_init - 370000"
proof -
  obtain d' evs where "cdm_executeCommand cdm_init (cdm_cmd_code CDM_DISPENSE)
      (dispense_payload (js_int 370000))
      = (Done (R_Dispense [(''20000'', 1), (''50000'', 1), (''100000'', 3)] 370000), d', evs)"
    by (metis cdm_init_exec prod.collapse)
  from cdm_dispense_conserves [OF cdm_ok_init this] this show ?thesis
    by (auto simp: dispense_payload_def simp del: cdm_cmd_code.simps)
qed

lemma cdm_failure_atomic_witness:
  "fst (snd (cdm_executeCommand cdm_init (cdm_cmd_code CDM_PRESENT) xfs_no_payload))
   = vd_clearError cdm_init"
proof -
  have "cdm_executeCommand cdm_init (cdm_cmd_code CDM_PRESENT) xfs_no_payload
    = (Failed NoCashToPresent, cdm_init, [])"
    by (simp add: cdm_executeCommand_def checkInjected_None cdm_init_base cdm_present_def
        del: cdm_cmd_code.simps)
  from cdm_failure_atomic [OF this] this show ?thesis by simp
qed

lemma cdm_notes_conserved_witness:
  "let (oc, d, evs) = cdm_executeCommand cdm_init (cdm_cmd_code CDM_DISPENSE) 
       (dispense_payload (js_int 370000))
   in cdm_all_notes d = 2000"
proof -
  obtain oc d evs where X: "cdm_executeCommand cdm_init (cdm_cmd_code CDM_DISPENSE) (dispense_payload (js_int 370000)) = (oc, d, evs)"
    by (metis prod_cases3)
  have "cdm_all_notes cdm_init = 2000" "cdm_presented_notes cdm_init = 0"
    by (simp_all add: cdm_all_notes_def cdm_presented_notes_def cdm_init_base cdm_init_units cdm_default_units_def)
  then have "cdm_all_notes d = 2000"
    using cdm_notes_conserved [OF cdm_wf_init X] by (auto simp: cdm_dropped_def split: option.splits cdm_cmd.splits outcome.splits)
  then show ?thesis by (simp add: X del: cdm_cmd_code.simps)
qed

lemma cdm_greedy_standard_witness:
  "cdm_calculateMinNotesMix cdm_init 60000 = Inl (CannotDispense 10000)"
proof -
  have "case cdm_calculateMinNotesMix cdm_init 60000 of
      Inr m \<Rightarrow> 60000 mod 50000 mod 20000 = (0::int) \<and> mix_notes m
        = 60000 div 100000 + 60000 mod 100000 div 50000 + 60000 mod 50000 div 20000
    | Inl e \<Rightarrow> 60000 mod 50000 mod 20000 \<noteq> (0::int) \<and> e = CannotDispense (60000 mod 50000 mod 20000)"
    by (rule cdm_greedy_standard [OF cdm_init_spendable]) (simp_all add: cdm_default_units_def)
  then show ?thesis by (auto split: sum.splits)
qed

end
