(* ===== verification/Js_Bytes.thy ===== *)
theory Js_Bytes
  imports Js_Prelude
begin

text \<open>
  Node's \<open>Buffer\<close> as far as the sources use it: a buffer is a list of octets (naturals below
  256), with the UTF-8, hexadecimal and base64 conversions, and the JSON text of strings.
\<close>

section \<open>UTF-8 and base64\<close>

text \<open>\<open>Buffer.from(s)\<close>: the UTF-8 encoding; a code unit below 256 takes one or two octets.\<close>

definition js_utf8 :: "string \<Rightarrow> nat list" where
  "js_utf8 s = concat (map (\<lambda>c. let k = char_code c in
     if k < 128 then [k] else [192 + k div 64, 128 + k mod 64]) s)"

definition b64_char :: "nat \<Rightarrow> char" where
  "b64_char n =
     (if n < 26 then char_of (65 + n) else if n < 52 then char_of (71 + n)
      else if n < 62 then char_of (n - 4) else if n = 62 then CHR ''+'' else CHR ''/'')"

fun js_base64 :: "nat list \<Rightarrow> string" where
  "js_base64 [] = []"
| "js_base64 [a] = [b64_char (a div 4), b64_char (a mod 4 * 16), CHR ''='', CHR ''='']"
| "js_base64 [a, b] =
     [b64_char (a div 4), b64_char (a mod 4 * 16 + b div 16), b64_char (b mod 16 * 4), CHR ''='']"
| "js_base64 (a # b # c # r) =
     [b64_char (a div 4), b64_char (a mod 4 * 16 + b div 16), b64_char (b mod 16 * 4 + c div 64),
      b64_char (c mod 64)] @ js_base64 r"

section \<open>Hexadecimal\<close>

text \<open>\<open>Buffer.from(s, 'hex')\<close> stops at the first pair that is not two hexadecimal digits.\<close>

fun js_hex_decode :: "string \<Rightarrow> nat list" where
  "js_hex_decode (a # b # r) =
     (case (hex_digit a, hex_digit b) of
        (Some x, Some y) \<Rightarrow> (16 * x + y) # js_hex_decode r
      | _ \<Rightarrow> [])"
| "js_hex_decode _ = []"

text \<open>\<open>toString('hex').toUpperCase()\<close>.\<close>

definition js_hex_encode :: "nat list \<Rightarrow> string" where
  "js_hex_encode bs = concat (map (\<lambda>b. [hex_char (b div 16), hex_char (b mod 16)]) bs)"

lemma js_hex_decode_encode [simp]:
  "\<forall>b \<in> set bs. b < 256 \<Longrightarrow> js_hex_decode (js_hex_encode bs) = bs"
  by (induction bs) (simp_all add: js_hex_encode_def less_mult_imp_div_less)

lemma length_hex_decode:
  "list_all (\<lambda>c. hex_digit c \<noteq> None) s \<Longrightarrow> length (js_hex_decode s) = length s div 2"
  by (induction s rule: js_hex_decode.induct) auto

text \<open>\<open>parseInt(c, 16)\<close> of one character, where NaN counts as 0 under the bit operations.\<close>

definition hex_nibble :: "char \<Rightarrow> nat" where
  "hex_nibble c = (case hex_digit c of Some v \<Rightarrow> v | None \<Rightarrow> 0)"

lemma hex_nibble_bound: "hex_nibble c < 16"
  by (auto simp: hex_nibble_def dest: hex_digit_bound split: option.split)

lemma hex_nibble_hex_char [simp]: "n < 16 \<Longrightarrow> hex_nibble (hex_char n) = n"
  by (simp add: hex_nibble_def)

lemma hex_char_nibble: "hex_digit c \<noteq> None \<Longrightarrow> js_upper_char c = c \<Longrightarrow> hex_char (hex_nibble c) = c"
  by (auto simp: hex_nibble_def hex_char_def hex_digit_def js_upper_char_def Let_def
      split: if_splits)

section \<open>Numbers in base 36\<close>

definition digit36 :: "nat \<Rightarrow> char" where
  "digit36 n = (if n < 10 then char_of (48 + n) else char_of (55 + n))"

text \<open>\<open>n.toString(36).toUpperCase()\<close>.\<close>

fun js_base36 :: "nat \<Rightarrow> string" where
  "js_base36 n = (if n < 36 then [digit36 n] else js_base36 (n div 36) @ [digit36 (n mod 36)])"

declare js_base36.simps [simp del]

section \<open>JSON\<close>

definition json_escape :: "char \<Rightarrow> string" where
  "json_escape c =
     (let k = char_code c in
      if k = 34 then [char_of (92::nat), char_of (34::nat)]
      else if k = 92 then [char_of (92::nat), char_of (92::nat)]
      else if k = 8 then char_of (92::nat) # ''b''
      else if k = 9 then char_of (92::nat) # ''t''
      else if k = 10 then char_of (92::nat) # ''n''
      else if k = 12 then char_of (92::nat) # ''f''
      else if k = 13 then char_of (92::nat) # ''r''
      else if k < 32 then char_of (92::nat) # ''u00'' @
        [char_of (48 + k div 16),
         if k mod 16 < 10 then char_of (48 + k mod 16) else char_of (87 + k mod 16)]
      else [c])"

definition json_string :: "string \<Rightarrow> string" where
  "json_string s = [char_of (34::nat)] @ concat (map json_escape s) @ [char_of (34::nat)]"

definition js_newline :: string where
  "js_newline = [char_of (10::nat)]"

fun js_join :: "string \<Rightarrow> string list \<Rightarrow> string" where
  "js_join sep [] = []"
| "js_join sep [x] = x"
| "js_join sep (x # y # r) = x @ sep @ js_join sep (y # r)"

text \<open>\<open>JSON.stringify(o, null, 2)\<close> of an object whose values are already rendered, at a nesting
  depth.\<close>

definition json_object :: "nat \<Rightarrow> (string \<times> string) list \<Rightarrow> string" where
  "json_object depth kvs =
     (if kvs = [] then ''{}''
      else ''{'' @ js_newline
        @ js_join ('','' @ js_newline)
            (map (\<lambda>(k, v). replicate (2 * Suc depth) (CHR '' '') @ json_string k @ '': '' @ v) kvs)
        @ js_newline @ replicate (2 * depth) (CHR '' '') @ ''}'')"

end
