(* ===== verification/Idc_Device.thy ===== *)
theory Idc_Device
  imports Virtual_Device Js_Bytes
begin

text \<open>
  The card reader (\<^verbatim>\<open>packages/xfs-devices/src/idc/idc.service.ts\<close>): insertion of a card by the
  operator, reading, ejecting and retaining it. The invariant is that a card is held exactly
  when a card is stored.
\<close>

record idc_card =
  ic_pan :: string
  ic_cardholderName :: string
  ic_expiryDate :: string
  ic_track1 :: string
  ic_track2 :: string
  ic_pinHash :: string
  ic_chipData :: "string option"
  ic_issuer :: string

record idc_dev = vdev +
  idc_currentCard :: "idc_card option"
  idc_cardHeld :: bool

definition idc_init :: idc_dev where
  "idc_init =
     vd_open (vdev.extend (vd_init IDC ''IDC30'') \<lparr>idc_currentCard = None, idc_cardHeld = False\<rparr>)"

text \<open>The reply of \<open>insertCard\<close> is its \<open>inserted\<close> flag.\<close>

definition idc_insertCard :: "idc_card \<Rightarrow> idc_dev \<Rightarrow> bool \<times> idc_dev \<times> dev_output list" where
  "idc_insertCard crd d =
     (if idc_cardHeld d then (False, d, [])
      else (True, d\<lparr>idc_currentCard := Some crd, idc_cardHeld := True\<rparr>,
            [vd_emit d (IdcEvt IDC_MEDIA_INSERTED) SRVE (EP_Pan (Some (ic_pan crd)))]))"

definition idc_hasCard :: "idc_dev \<Rightarrow> bool" where
  "idc_hasCard d = idc_cardHeld d"

definition idc_getCurrentPinHash :: "idc_dev \<Rightarrow> string option" where
  "idc_getCurrentPinHash d = map_option ic_pinHash (idc_currentCard d)"

definition idc_readTrack :: "idc_dev \<Rightarrow> outcome \<times> idc_dev \<times> dev_output list" where
  "idc_readTrack d =
     (case idc_currentCard d of
        None \<Rightarrow> (Failed NoCardInReader, d, [])
      | Some c \<Rightarrow>
          (Done (R_Track (ic_track1 c) (ic_track2 c) (ic_pan c) (ic_cardholderName c)
                   (ic_expiryDate c) (ic_chipData c)), d, []))"

definition idc_readRawData :: "idc_dev \<Rightarrow> outcome \<times> idc_dev \<times> dev_output list" where
  "idc_readRawData d =
     (case idc_currentCard d of
        None \<Rightarrow> (Failed NoCardInReader, d, [])
      | Some c \<Rightarrow>
          (Done (R_Raw (js_base64 (js_utf8 (ic_track1 c))) (js_base64 (js_utf8 (ic_track2 c)))),
           d, []))"

definition idc_ejectCard :: "idc_dev \<Rightarrow> outcome \<times> idc_dev \<times> dev_output list" where
  "idc_ejectCard d =
     (if \<not> idc_cardHeld d then (Failed NoCardToEject, d, [])
      else (Done R_Empty, d\<lparr>idc_currentCard := None, idc_cardHeld := False\<rparr>,
            [vd_emit d (IdcEvt IDC_MEDIA_REMOVED) SRVE
               (EP_Pan (map_option ic_pan (idc_currentCard d)))]))"

definition idc_retainCard :: "idc_dev \<Rightarrow> outcome \<times> idc_dev \<times> dev_output list" where
  "idc_retainCard d =
     (if \<not> idc_cardHeld d then (Failed NoCardToRetain, d, [])
      else (Done R_Empty, d\<lparr>idc_currentCard := None, idc_cardHeld := False\<rparr>,
            [vd_emit d (IdcEvt IDC_MEDIA_RETAINED) SRVE
               (EP_Pan (map_option ic_pan (idc_currentCard d)))]))"

definition idc_chipOperation :: xfs_reply where
  "idc_chipOperation = R_Chip ''9000'' ''success''"

definition idc_executeCommand :: "idc_dev executor" where
  "idc_executeCommand d commandCode payload =
     (if idc_cmd_of commandCode = Some IDC_RESET
      then (Done R_Empty, (vd_reset d)\<lparr>idc_currentCard := None, idc_cardHeld := False\<rparr>, [])
      else
        (case vd_checkInjectedError d of
           (Some e, d') \<Rightarrow> (Failed (InjectedError e), d', [])
         | (None, d') \<Rightarrow>
             (case idc_cmd_of commandCode of
                Some IDC_READ_TRACK \<Rightarrow> idc_readTrack d'
              | Some IDC_READ_RAW_DATA \<Rightarrow> idc_readRawData d'
              | Some IDC_EJECT_CARD \<Rightarrow> idc_ejectCard d'
              | Some IDC_RETAIN_CARD \<Rightarrow> idc_retainCard d'
              | Some IDC_CHIP_IO \<Rightarrow> (Done idc_chipOperation, d', [])
              | Some IDC_CHIP_POWER \<Rightarrow> (Done idc_chipOperation, d', [])
              | _ \<Rightarrow> (Failed (UnsupportedCommand IDC commandCode), d', []))))"

section \<open>The contract and the invariant\<close>

lemmas idc_cmd_defs =
  idc_readTrack_def idc_readRawData_def idc_ejectCard_def idc_retainCard_def
  idc_chipOperation_def

interpretation idc: xfs_device idc_executeCommand vdev.truncate vd_clearError "idc_cmd_code IDC_RESET"
  by unfold_locales
    (auto simp: idc_executeCommand_def idc_cmd_defs vd_defs idc_cmd_of_iff [of _ IDC_RESET]
      simp del: idc_cmd_code.simps split: option.splits if_splits idc_cmd.splits)

definition idc_ok :: "idc_dev \<Rightarrow> bool" where
  "idc_ok d \<longleftrightarrow> (idc_cardHeld d \<longleftrightarrow> idc_currentCard d \<noteq> None)"

text \<open>Everything that can happen to the reader: a card is inserted, or a command is executed.\<close>

datatype idc_op = IdcInsert idc_card | IdcExec string xfs_payload

fun idc_step :: "idc_op \<Rightarrow> idc_dev \<Rightarrow> idc_dev \<times> dev_output list" where
  "idc_step (IdcInsert crd) d = snd (idc_insertCard crd d)"
| "idc_step (IdcExec c p) d = snd (idc_executeCommand d c p)"

fun idc_run :: "idc_op list \<Rightarrow> idc_dev \<Rightarrow> idc_dev \<times> dev_output list" where
  "idc_run [] d = (d, [])"
| "idc_run (op # ops) d =
     (let (d', out) = idc_step op d; (d'', outs) = idc_run ops d' in (d'', out @ outs))"

lemma idc_ok_init: "idc_ok idc_init"
  by (simp add: idc_ok_def idc_init_def vd_open_def vdev.defs)

text \<open>Whatever is inserted and executed, the reader holds a card exactly when it stores one, so
  reading a held card never fails for want of data and an empty reader discloses no PIN hash.\<close>

theorem idc_run_ok:
  assumes "idc_ok d"
  shows "idc_ok (fst (idc_run ops d))
    \<and> (idc_hasCard (fst (idc_run ops d)) \<longleftrightarrow> idc_getCurrentPinHash (fst (idc_run ops d)) \<noteq> None)"
proof -
  have step: "idc_ok (fst (idc_step op d))" if "idc_ok d" for op d
    using that by (cases op) (auto simp: idc_ok_def idc_insertCard_def idc_executeCommand_def
        idc_cmd_defs vd_defs split: option.splits idc_cmd.splits)
  have "idc_ok (fst (idc_run ops d))"
    using assms by (induction ops arbitrary: d) (auto simp: Let_def split_def step)
  then show ?thesis by (auto simp: idc_ok_def idc_hasCard_def idc_getCurrentPinHash_def)
qed

fun idc_is_reset :: "idc_op \<Rightarrow> bool" where
  "idc_is_reset (IdcExec c p) \<longleftrightarrow> idc_cmd_of c = Some IDC_RESET"
| "idc_is_reset (IdcInsert _) \<longleftrightarrow> False"

text \<open>Cards are neither duplicated nor lost: over any run without RESET, the cards announced as
  inserted are the cards announced as removed or retained, and the one still in the reader.\<close>

theorem idc_card_balance:
  assumes "idc_ok d" "\<forall>op \<in> set ops. \<not> idc_is_reset op" "idc_run ops d = (d', outs)"
  shows "evt_count (IdcEvt IDC_MEDIA_INSERTED) outs + (if idc_hasCard d then 1 else 0)
    = evt_count (IdcEvt IDC_MEDIA_REMOVED) outs + evt_count (IdcEvt IDC_MEDIA_RETAINED) outs
      + (if idc_hasCard d' then 1 else 0)"
  using assms(2,3)
proof (induction ops arbitrary: d d' outs)
  case Nil
  then show ?case by simp
next
  case (Cons op ops)
  obtain d1 o1 where s: "idc_step op d = (d1, o1)" by (cases "idc_step op d")
  obtain d2 o2 where r: "idc_run ops d1 = (d2, o2)" by (cases "idc_run ops d1")
  have "evt_count (IdcEvt IDC_MEDIA_INSERTED) o1 + (if idc_hasCard d then 1 else 0)
      = evt_count (IdcEvt IDC_MEDIA_REMOVED) o1 + evt_count (IdcEvt IDC_MEDIA_RETAINED) o1
        + (if idc_hasCard d1 then 1 else 0)"
    using s Cons.prems(1)
    by (cases op) (auto simp: idc_hasCard_def idc_insertCard_def idc_executeCommand_def
        idc_cmd_defs vd_defs split: option.splits idc_cmd.splits)
  moreover have "d' = d2" "outs = o1 @ o2" using Cons.prems(2) s r by simp_all
  ultimately show ?case using Cons.IH [OF _ r] Cons.prems(1) by simp
qed

definition idc_sample :: idc_card where
  "idc_sample = \<lparr>ic_pan = ''4111111111111111'', ic_cardholderName = ''A'', ic_expiryDate = ''2812'',
     ic_track1 = [], ic_track2 = [], ic_pinHash = ''h'', ic_chipData = None, ic_issuer = ''VISA''\<rparr>"

lemma idc_run_ok_witness:
  "idc_ok (fst (idc_run [IdcInsert idc_sample, IdcInsert idc_sample] idc_init))"
  using idc_run_ok [OF idc_ok_init] by blast

lemma idc_card_balance_witness:
  "evt_count (IdcEvt IDC_MEDIA_INSERTED)
     (snd (idc_run [IdcInsert idc_sample, IdcExec (idc_cmd_code IDC_EJECT_CARD) xfs_no_payload] idc_init)) = 1"
proof -
  let ?ops = "[IdcInsert idc_sample, IdcExec (idc_cmd_code IDC_EJECT_CARD) xfs_no_payload]"
  have e: "\<not> idc_hasCard idc_init" "\<not> idc_hasCard (fst (idc_run ?ops idc_init))"
    "evt_count (IdcEvt IDC_MEDIA_REMOVED) (snd (idc_run ?ops idc_init)) = 1"
    "evt_count (IdcEvt IDC_MEDIA_RETAINED) (snd (idc_run ?ops idc_init)) = 0"
    by (simp_all add: idc_hasCard_def idc_init_def vd_defs vd_init_def vdev.defs idc_insertCard_def
        idc_executeCommand_def idc_ejectCard_def Let_def del: idc_cmd_code.simps)
  show ?thesis
    using idc_card_balance [OF idc_ok_init _ prod.collapse [symmetric], of ?ops] e
    by (simp del: idc_cmd_code.simps idc_run.simps)
qed

end
