(* ===== verification/Siu_Device.thy ===== *)
theory Siu_Device
  imports Virtual_Device
begin

text \<open>
  Sensors and indicators (\<^verbatim>\<open>packages/xfs-devices/src/siu/siu.service.ts\<close>): the operator console
  drives sensors and the mode, commands drive the indicators and switch event reporting.
\<close>

record siu_dev = vdev +
  siu_sensors :: "SiuSensorId \<Rightarrow> SiuSensorState"
  siu_indicators :: "SiuIndicatorId \<Rightarrow> SiuIndicatorState"
  siu_operatorMode :: SiuOperatorMode
  siu_eventsEnabled :: bool

definition siu_defaultSensors :: "SiuSensorId \<Rightarrow> SiuSensorState" where
  "siu_defaultSensors = (\<lambda>_. S_CLOSED)"

fun siu_defaultIndicators :: "SiuIndicatorId \<Rightarrow> SiuIndicatorState" where
  "siu_defaultIndicators POWER = I_ON"
| "siu_defaultIndicators READY = I_ON"
| "siu_defaultIndicators FAULT = I_OFF"
| "siu_defaultIndicators SERVICE = I_OFF"

definition siu_init :: siu_dev where
  "siu_init =
     vd_open (vdev.extend (vd_init SIU ''SIU30'')
       \<lparr>siu_sensors = siu_defaultSensors, siu_indicators = siu_defaultIndicators,
        siu_operatorMode = NORMAL, siu_eventsEnabled = True\<rparr>)"

fun siu_specificEvent :: "SiuSensorId \<Rightarrow> siu_evt" where
  "siu_specificEvent CABINET_DOOR = SIU_CABINET_STATUS"
| "siu_specificEvent SAFE_DOOR = SIU_SAFE_DOOR"
| "siu_specificEvent TAMPER = SIU_TAMPER_SENSOR"
| "siu_specificEvent OPERATOR_SWITCH = SIU_OPERATOR_SWITCH"

text \<open>The reply of \<open>setSensor\<close> is its \<open>changed\<close> flag.\<close>

definition siu_setSensor ::
  "SiuSensorId \<Rightarrow> SiuSensorState \<Rightarrow> siu_dev \<Rightarrow> bool \<times> siu_dev \<times> dev_output list" where
  "siu_setSensor sid st d =
     (let prev = siu_sensors d sid in
      if prev = st then (False, d, [])
      else
        (let d1 = d\<lparr>siu_sensors := (siu_sensors d)(sid := st)\<rparr>;
             d2 = (if sid = OPERATOR_SWITCH
                   then d1\<lparr>siu_operatorMode := (if st = S_OPEN then SUPERVISOR else NORMAL)\<rparr>
                   else d1)
         in (True, d2,
             if siu_eventsEnabled d2
             then [vd_emit d2 (SiuEvt SIU_PORT_STATUS) SRVE (EP_Port sid st prev),
                   vd_emit d2 (SiuEvt (siu_specificEvent sid)) USRE (EP_Port sid st prev)]
             else [])))"

definition siu_setOperatorMode :: "SiuOperatorMode \<Rightarrow> siu_dev \<Rightarrow> siu_dev \<times> dev_output list" where
  "siu_setOperatorMode mode d =
     (d\<lparr>siu_operatorMode := mode\<rparr>,
      if siu_eventsEnabled d then [vd_emit d (SiuEvt SIU_OPERATOR_SWITCH) USRE (EP_Mode mode)]
      else [])"

fun siu_indicator_name :: "SiuIndicatorId \<Rightarrow> string" where
  "siu_indicator_name POWER = ''POWER''"
| "siu_indicator_name READY = ''READY''"
| "siu_indicator_name FAULT = ''FAULT''"
| "siu_indicator_name SERVICE = ''SERVICE''"

fun siu_state_name :: "SiuIndicatorState \<Rightarrow> string" where
  "siu_state_name I_OFF = ''OFF''"
| "siu_state_name I_ON = ''ON''"
| "siu_state_name I_BLINKING = ''BLINKING''"

definition siu_handleSetIndicator ::
  "(string \<times> string) option \<Rightarrow> siu_dev \<Rightarrow> outcome \<times> siu_dev \<times> dev_output list" where
  "siu_handleSetIndicator p d =
     (case p of
        None \<Rightarrow> (Failed (UnknownIndicator None), d, [])
      | Some (iname, sname) \<Rightarrow>
          (case code_lookup siu_indicator_name [POWER, READY, FAULT, SERVICE] iname of
             None \<Rightarrow> (Failed (UnknownIndicator (Some iname)), d, [])
           | Some i \<Rightarrow>
               (case code_lookup siu_state_name [I_OFF, I_ON, I_BLINKING] sname of
                  None \<Rightarrow> (Failed (InvalidIndicatorState sname), d, [])
                | Some s \<Rightarrow> (Done R_Empty, d\<lparr>siu_indicators := (siu_indicators d)(i := s)\<rparr>, []))))"

definition siu_handleGetSensorStatus :: "siu_dev \<Rightarrow> xfs_reply" where
  "siu_handleGetSensorStatus d = R_Sensors (siu_sensors d) (siu_indicators d) (siu_operatorMode d)"

definition siu_executeCommand :: "siu_dev executor" where
  "siu_executeCommand d commandCode payload =
     (if siu_cmd_of commandCode = Some SIU_RESET
      then (Done R_Empty,
            (vd_reset d)\<lparr>siu_sensors := siu_defaultSensors, siu_indicators := siu_defaultIndicators,
                         siu_operatorMode := NORMAL, siu_eventsEnabled := True\<rparr>, [])
      else
        (case vd_checkInjectedError d of
           (Some e, d') \<Rightarrow> (Failed (InjectedError e), d', [])
         | (None, d') \<Rightarrow>
             (case siu_cmd_of commandCode of
                Some SIU_ENABLE_EVENTS \<Rightarrow> (Done R_Empty, d'\<lparr>siu_eventsEnabled := True\<rparr>, [])
              | Some SIU_DISABLE_EVENTS \<Rightarrow> (Done R_Empty, d'\<lparr>siu_eventsEnabled := False\<rparr>, [])
              | Some SIU_SET_INDICATOR \<Rightarrow> siu_handleSetIndicator (pl_indicator payload) d'
              | Some SIU_GET_SENSOR_STATUS \<Rightarrow> (Done (siu_handleGetSensorStatus d'), d', [])
              | _ \<Rightarrow> (Failed (UnsupportedCommand SIU commandCode), d', []))))"

section \<open>The contract\<close>

interpretation siu: xfs_device siu_executeCommand vdev.truncate vd_clearError "siu_cmd_code SIU_RESET"
  by unfold_locales
    (auto simp: siu_executeCommand_def siu_handleSetIndicator_def siu_handleGetSensorStatus_def
      vd_defs siu_cmd_of_iff [of _ SIU_RESET]
      simp del: siu_cmd_code.simps split: option.splits if_splits siu_cmd.splits)

section \<open>Sensors, mode and events over a run\<close>

datatype siu_op =
  SiuSensor SiuSensorId SiuSensorState | SiuMode SiuOperatorMode | SiuExec string xfs_payload

fun siu_step :: "siu_op \<Rightarrow> siu_dev \<Rightarrow> siu_dev \<times> dev_output list" where
  "siu_step (SiuSensor i s) d = snd (siu_setSensor i s d)"
| "siu_step (SiuMode m) d = siu_setOperatorMode m d"
| "siu_step (SiuExec c p) d = snd (siu_executeCommand d c p)"

fun siu_run :: "siu_op list \<Rightarrow> siu_dev \<Rightarrow> siu_dev \<times> dev_output list" where
  "siu_run [] d = (d, [])"
| "siu_run (op # ops) d =
     (let (d', out) = siu_step op d; (d'', outs) = siu_run ops d' in (d'', out @ outs))"

definition siu_mode_ok :: "siu_dev \<Rightarrow> bool" where
  "siu_mode_ok d \<longleftrightarrow>
     siu_operatorMode d = (if siu_sensors d OPERATOR_SWITCH = S_OPEN then SUPERVISOR else NORMAL)"

lemma siu_mode_ok_init: "siu_mode_ok siu_init"
  by (simp add: siu_mode_ok_def siu_init_def siu_defaultSensors_def vd_open_def vdev.defs)

lemma siu_exec_sensors:
  "siu_sensors (fst (snd (siu_executeCommand d c p)))
     = (if siu_cmd_of c = Some SIU_RESET then siu_defaultSensors else siu_sensors d)"
  "siu_operatorMode (fst (snd (siu_executeCommand d c p)))
     = (if siu_cmd_of c = Some SIU_RESET then NORMAL else siu_operatorMode d)"
  "snd (snd (siu_executeCommand d c p)) = []"
  by (auto simp: siu_executeCommand_def siu_handleSetIndicator_def vd_defs
      split: option.splits siu_cmd.splits)

text \<open>Unless the mode is forced from the console, the operator mode follows the operator
  switch: SUPERVISOR exactly while the switch sensor reads OPEN, NORMAL otherwise.\<close>

theorem siu_mode_follows_switch:
  assumes "siu_mode_ok d" "\<forall>op \<in> set ops. \<forall>m. op \<noteq> SiuMode m"
  shows "siu_mode_ok (fst (siu_run ops d))"
proof -
  have step: "siu_mode_ok (fst (siu_step op d))" if "siu_mode_ok d" "\<forall>m. op \<noteq> SiuMode m" for op d
    using that by (cases op) (auto simp: siu_mode_ok_def siu_setSensor_def Let_def siu_exec_sensors
        siu_defaultSensors_def)
  show ?thesis
    using assms by (induction ops arbitrary: d) (auto simp: Let_def split_def step)
qed

text \<open>What a client learns from the port status events: each one overwrites the reading of one
  sensor.\<close>

fun siu_replay :: "dev_output list \<Rightarrow> (SiuSensorId \<Rightarrow> SiuSensorState) \<Rightarrow> SiuSensorId \<Rightarrow> SiuSensorState" where
  "siu_replay [] s = s"
| "siu_replay (Emit e # outs) s =
     siu_replay outs
       (case (ev_eventCode e, ev_payload e) of
          (SiuEvt SIU_PORT_STATUS, EP_Port i st prev) \<Rightarrow> s(i := st)
        | _ \<Rightarrow> s)"
| "siu_replay (_ # outs) s = siu_replay outs s"

lemma siu_replay_append: "siu_replay (xs @ ys) s = siu_replay ys (siu_replay xs s)"
  by (induction xs s rule: siu_replay.induct) simp_all

fun siu_audible :: "siu_op \<Rightarrow> bool" where
  "siu_audible (SiuExec c p) \<longleftrightarrow> siu_cmd_of c \<noteq> Some SIU_RESET \<and> siu_cmd_of c \<noteq> Some SIU_DISABLE_EVENTS"
| "siu_audible _ \<longleftrightarrow> True"

lemma siu_step_replay:
  assumes "siu_eventsEnabled d" "siu_audible op"
  shows "siu_eventsEnabled (fst (siu_step op d))
    \<and> siu_replay (snd (siu_step op d)) (siu_sensors d) = siu_sensors (fst (siu_step op d))"
proof (cases op)
  case (SiuSensor i s)
  then show ?thesis using assms
    by (cases i) (auto simp: siu_setSensor_def Let_def vd_emit_def fun_upd_idem)
next
  case (SiuMode m)
  then show ?thesis using assms by (simp add: siu_setOperatorMode_def vd_emit_def)
next
  case (SiuExec c p)
  then have "siu_eventsEnabled (fst (siu_step op d))"
    using assms by (auto simp: siu_executeCommand_def siu_handleSetIndicator_def vd_defs
        split: option.splits siu_cmd.splits)
  then show ?thesis using SiuExec assms by (simp add: siu_exec_sensors)
qed

text \<open>While events stay enabled and the device is not reset, the events report every sensor
  change: replaying the port status events over the readings at the start gives the readings at
  the end.\<close>

theorem siu_events_complete:
  assumes "siu_eventsEnabled d" "\<forall>op \<in> set ops. siu_audible op"
  shows "siu_replay (snd (siu_run ops d)) (siu_sensors d) = siu_sensors (fst (siu_run ops d))"
  using assms
proof (induction ops arbitrary: d)
  case Nil
  then show ?case by simp
next
  case (Cons op ops)
  then show ?case
    using siu_step_replay [of d op] by (simp add: Let_def split_def siu_replay_append)
qed

lemma siu_init_enabled: "siu_eventsEnabled siu_init"
  by (simp add: siu_init_def vd_open_def vdev.defs)

lemma siu_mode_follows_switch_witness:
  "siu_mode_ok (fst (siu_run [SiuSensor OPERATOR_SWITCH S_OPEN, SiuSensor SAFE_DOOR S_OPEN] siu_init))"
  by (rule siu_mode_follows_switch [OF siu_mode_ok_init]) simp

lemma siu_events_complete_witness:
  "siu_replay (snd (siu_run [SiuSensor TAMPER S_TAMPERED] siu_init)) (siu_sensors siu_init) TAMPER
   = S_TAMPERED"
  using siu_events_complete [OF siu_init_enabled, of "[SiuSensor TAMPER S_TAMPERED]"]
  by (simp add: siu_setSensor_def Let_def siu_init_def vd_defs vd_init_def vdev.defs
      siu_defaultSensors_def)

end
