(* ===== verification/Ptr_Device.thy ===== *)
theory Ptr_Device
  imports Virtual_Device Js_Bytes
begin

text \<open>
  The receipt printer (\<^verbatim>\<open>packages/xfs-devices/src/ptr/ptr.service.ts\<close>): form rendering, the paper
  level and the rolling history of receipts. The clock enters as a parameter: the milliseconds of
  \<open>Date.now()\<close> and the texts of \<open>toISOString()\<close> and \<open>toLocaleString('id-ID')\<close>. \<open>ptr_takeTimers\<close>
  holds the receipts whose two-second take timer is armed; each firing reports one of them.
\<close>

record clock =
  ck_now :: nat
  ck_iso :: string
  ck_locale :: string

record PrintedReceipt =
  pr_receiptId :: string
  pr_timestamp :: string
  pr_content :: string

record ptr_dev = vdev +
  ptr_paperLevel :: int
  ptr_history :: "PrintedReceipt list"
  ptr_takeTimers :: "string list"

definition ptr_paperThreshold :: int where
  "ptr_paperThreshold = 50"

definition ptr_HISTORY_LIMIT :: nat where
  "ptr_HISTORY_LIMIT = 200"

definition ptr_init :: ptr_dev where
  "ptr_init =
     vd_open (vdev.extend (vd_init PTR ''PTR30'')
       \<lparr>ptr_paperLevel = 1000, ptr_history = [], ptr_takeTimers = []\<rparr>)"

definition ptr_replenishPaper :: "ptr_dev \<Rightarrow> ptr_dev" where
  "ptr_replenishPaper d = d\<lparr>ptr_paperLevel := 1000\<rparr>"

definition ptr_record :: "PrintedReceipt \<Rightarrow> ptr_dev \<Rightarrow> ptr_dev" where
  "ptr_record r d =
     (let h = ptr_history d @ [r]
      in d\<lparr>ptr_history := (if ptr_HISTORY_LIMIT < length h then tl h else h)\<rparr>)"

definition ptr_field :: "(string \<times> string) list \<Rightarrow> string \<Rightarrow> string \<Rightarrow> string" where
  "ptr_field flds k dflt = js_default (map_of flds k) dflt"

definition ptr_receipt_lines :: "string \<Rightarrow> (string \<times> string) list \<Rightarrow> string list" where
  "ptr_receipt_lines now flds =
     [''===================================='',
      ''    '' @ ptr_field flds ''bankName'' ''ZEGEN BANK'',
      ''===================================='',
      now,
      ''ATM:   '' @ ptr_field flds ''atmId'' ''ATM001'',
      ''Trace: '' @ ptr_field flds ''traceNo'' ''000000'',
      [],
      ''Transaction: '' @ ptr_field flds ''txnType'' ''WITHDRAWAL'',
      ''Card:        ****'' @ ptr_field flds ''cardLast4'' ''0000'',
      ''Account:     '' @ ptr_field flds ''account'' ''-'',
      [],
      ''Amount:      Rp '' @ ptr_field flds ''amount'' ''0'',
      ''Fee:         Rp '' @ ptr_field flds ''fee'' ''0'',
      ''------------------------------------'',
      ''Total:       Rp '' @ ptr_field flds ''total'' ''0'',
      [],
      ''Balance:     Rp '' @ ptr_field flds ''balance'' ''***'',
      [],
      ''Thank you for banking with us.'',
      ''===================================='']"

definition ptr_renderForm :: "clock \<Rightarrow> PtrPrintFormPayload \<Rightarrow> string" where
  "ptr_renderForm ck p =
     (let flds = pf_fields p; now = ck_locale ck;
          obj = (\<lambda>depth. json_object depth (map (\<lambda>(k, v). (k, json_string v)) flds))
      in if pf_formName p = ''RECEIPT'' then js_join js_newline (ptr_receipt_lines now flds)
         else if pf_formName p = ''STATEMENT'' \<or> pf_formName p = ''JOURNAL''
         then json_object 0 [(''form'', json_string (pf_formName p)), (''at'', json_string now),
                             (''fields'', obj 1)]
         else obj 0)"

definition ptr_printForm ::
  "clock \<Rightarrow> PtrPrintFormPayload \<Rightarrow> ptr_dev \<Rightarrow> outcome \<times> ptr_dev \<times> dev_output list" where
  "ptr_printForm ck p d =
     (if ptr_paperLevel d \<le> 0 then (Failed OutOfPaper, d, [])
      else
        (let content = ptr_renderForm ck p;
             rid = ''RCPT'' @ js_base36 (ck_now ck);
             d1 = ptr_record \<lparr>pr_receiptId = rid, pr_timestamp = ck_iso ck, pr_content = content\<rparr> d;
             d2 = d1\<lparr>ptr_paperLevel := ptr_paperLevel d1 - 1\<rparr>;
             evs = (if ptr_paperLevel d2 \<le> ptr_paperThreshold
                    then [vd_emit d2 (PtrEvt PTR_PAPER_THRESHOLD) SRVE (EP_Level (ptr_paperLevel d2))]
                    else [])
         in (Done (R_Receipt rid), d2\<lparr>ptr_takeTimers := ptr_takeTimers d2 @ [rid]\<rparr>,
             evs @ [vd_emit d2 (PtrEvt PTR_MEDIA_PRESENTED) SRVE (EP_Receipt rid content)])))"

text \<open>The oldest armed timer fires first: all run for the same two seconds.\<close>

definition ptr_take_timeout :: "ptr_dev \<Rightarrow> ptr_dev \<times> dev_output list" where
  "ptr_take_timeout d =
     (case ptr_takeTimers d of
        [] \<Rightarrow> (d, [])
      | rid # rest \<Rightarrow>
          (d\<lparr>ptr_takeTimers := rest\<rparr>,
           [vd_emit d (PtrEvt PTR_MEDIA_TAKEN) SRVE (EP_ReceiptId rid)]))"

definition ptr_printRaw ::
  "clock \<Rightarrow> string \<Rightarrow> ptr_dev \<Rightarrow> outcome \<times> ptr_dev \<times> dev_output list" where
  "ptr_printRaw ck data d =
     (if ptr_paperLevel d \<le> 0 then (Failed OutOfPaper, d, [])
      else
        (let rid = ''RAW'' @ js_base36 (ck_now ck);
             d1 = ptr_record \<lparr>pr_receiptId = rid, pr_timestamp = ck_iso ck, pr_content = data\<rparr> d
         in (Done (R_Printed True), d1\<lparr>ptr_paperLevel := ptr_paperLevel d1 - 1\<rparr>, [])))"

definition ptr_executeCommand :: "clock \<Rightarrow> ptr_dev executor" where
  "ptr_executeCommand ck d commandCode payload =
     (if ptr_cmd_of commandCode = Some PTR_RESET then (Done R_Empty, vd_reset d, [])
      else
        (case vd_checkInjectedError d of
           (Some e, d') \<Rightarrow> (Failed (InjectedError e), d', [])
         | (None, d') \<Rightarrow>
             (case ptr_cmd_of commandCode of
                Some PTR_PRINT_FORM \<Rightarrow> ptr_printForm ck (pl_print payload) d'
              | Some PTR_RAW_DATA \<Rightarrow> ptr_printRaw ck (pl_rawData payload) d'
              | Some PTR_CUT_PAPER \<Rightarrow> (Done R_Empty, d', [])
              | _ \<Rightarrow> (Failed (UnsupportedCommand PTR commandCode), d', []))))"

section \<open>The contract\<close>

lemma ptr_record_frame [simp]:
  "ptr_paperLevel (ptr_record r d) = ptr_paperLevel d"
  "ptr_takeTimers (ptr_record r d) = ptr_takeTimers d"
  "vd_hService (ptr_record r d) = vd_hService d"
  "vd_serviceClass (ptr_record r d) = vd_serviceClass d"
  "vd_injectedError (ptr_record r d) = vd_injectedError d"
  by (simp_all add: ptr_record_def Let_def)

interpretation ptr: xfs_device "ptr_executeCommand ck" vdev.truncate vd_clearError "ptr_cmd_code PTR_RESET"
  for ck
  by unfold_locales
    (auto simp: ptr_executeCommand_def ptr_printForm_def ptr_printRaw_def Let_def
      vd_defs ptr_cmd_of_iff [of _ PTR_RESET]
      simp del: ptr_cmd_code.simps split: option.splits if_splits ptr_cmd.splits)

section \<open>Paper and history over a run\<close>

datatype ptr_op = PtrExec clock string xfs_payload | PtrReplenish | PtrTimer

fun ptr_step :: "ptr_op \<Rightarrow> ptr_dev \<Rightarrow> ptr_dev" where
  "ptr_step (PtrExec ck c p) d = fst (snd (ptr_executeCommand ck d c p))"
| "ptr_step PtrReplenish d = ptr_replenishPaper d"
| "ptr_step PtrTimer d = fst (ptr_take_timeout d)"

text \<open>The receipt a step prints, if it prints one.\<close>

fun ptr_printed :: "ptr_op \<Rightarrow> ptr_dev \<Rightarrow> PrintedReceipt list" where
  "ptr_printed (PtrExec ck c p) d =
     (case fst (ptr_executeCommand ck d c p) of
        Done (R_Receipt rid) \<Rightarrow>
          [\<lparr>pr_receiptId = rid, pr_timestamp = ck_iso ck, pr_content = ptr_renderForm ck (pl_print p)\<rparr>]
      | Done (R_Printed _) \<Rightarrow>
          [\<lparr>pr_receiptId = ''RAW'' @ js_base36 (ck_now ck), pr_timestamp = ck_iso ck,
            pr_content = pl_rawData p\<rparr>]
      | _ \<Rightarrow> [])"
| "ptr_printed _ d = []"

fun ptr_run :: "ptr_op list \<Rightarrow> ptr_dev \<Rightarrow> PrintedReceipt list \<times> ptr_dev" where
  "ptr_run [] d = ([], d)"
| "ptr_run (op # ops) d =
     (let (rs, d') = ptr_run ops (ptr_step op d) in (ptr_printed op d @ rs, d'))"

definition ptr_ok :: "ptr_dev \<Rightarrow> bool" where
  "ptr_ok d \<longleftrightarrow> 0 \<le> ptr_paperLevel d \<and> ptr_paperLevel d \<le> 1000
     \<and> length (ptr_history d) \<le> ptr_HISTORY_LIMIT"

lemma ptr_ok_init: "ptr_ok ptr_init"
  by (simp add: ptr_ok_def ptr_init_def vd_open_def vdev.defs)

lemma js_last_snoc:
  "0 < n \<Longrightarrow> js_last n (xs @ [x])
     = (if n < length (js_last n xs @ [x]) then tl (js_last n xs @ [x]) else js_last n xs @ [x])"
  by (auto simp: js_last_def tl_drop drop_Suc [symmetric] Suc_diff_le not_less min_def)

lemma ptr_step_history:
  "ptr_history (ptr_step op d)
     = (case ptr_printed op d of
          [] \<Rightarrow> ptr_history d
        | r # _ \<Rightarrow> if ptr_HISTORY_LIMIT < length (ptr_history d @ [r]) then tl (ptr_history d @ [r])
                  else ptr_history d @ [r])
   \<and> length (ptr_printed op d) \<le> 1"
  by (cases op) (auto simp: ptr_executeCommand_def ptr_printForm_def ptr_printRaw_def Let_def
      ptr_record_def ptr_replenishPaper_def ptr_take_timeout_def vd_defs
      split: option.splits ptr_cmd.splits list.splits)

text \<open>The history is the rolling window it is meant to be: after any run from a printer whose
  history holds the last 200 of some receipts, it holds the last 200 of those and all receipts
  printed since, oldest first.\<close>

theorem ptr_history_window:
  assumes "ptr_history d = js_last ptr_HISTORY_LIMIT rs" "ptr_run ops d = (rs', d')"
  shows "ptr_history d' = js_last ptr_HISTORY_LIMIT (rs @ rs')"
  using assms
proof (induction ops arbitrary: d rs rs')
  case Nil
  then show ?case by simp
next
  case (Cons op ops)
  obtain rs2 where r: "ptr_run ops (ptr_step op d) = (rs2, d')" "rs' = ptr_printed op d @ rs2"
    using Cons.prems(2) by (auto simp: Let_def split: prod.splits)
  have "ptr_history (ptr_step op d) = js_last ptr_HISTORY_LIMIT (rs @ ptr_printed op d)"
    using ptr_step_history [of op d] Cons.prems(1) js_last_snoc [of ptr_HISTORY_LIMIT rs]
    by (cases "ptr_printed op d") (auto simp: ptr_HISTORY_LIMIT_def)
  from Cons.IH [OF this r(1)] r(2) show ?case by simp
qed

text \<open>The printer never prints without paper and never exceeds its bounds: the paper level
  stays within 0..1000 and the history within 200 entries, and each command lowers the level by
  the number of receipts it prints.\<close>

theorem ptr_paper_accounting:
  assumes "ptr_ok d"
  shows "ptr_ok (ptr_step op d)
    \<and> ptr_paperLevel (ptr_step op d)
      = (if op = PtrReplenish then 1000 else ptr_paperLevel d - int (length (ptr_printed op d)))"
  using assms
  by (cases op) (auto simp: ptr_ok_def ptr_executeCommand_def ptr_printForm_def ptr_printRaw_def
      Let_def ptr_record_def ptr_replenishPaper_def ptr_take_timeout_def vd_defs
      split: option.splits ptr_cmd.splits list.splits)

definition ptr_sample_clock :: clock where
  "ptr_sample_clock = \<lparr>ck_now = 0, ck_iso = ''1970'', ck_locale = ''1/1/1970''\<rparr>"

lemma ptr_init_facts: "ptr_history ptr_init = []" "ptr_paperLevel ptr_init = 1000"
  "vd_injectedError ptr_init = None"
  by (simp_all add: ptr_init_def vd_open_def vd_init_def vdev.defs)

lemma ptr_history_window_witness:
  "ptr_history (snd (ptr_run [PtrExec ptr_sample_clock (ptr_cmd_code PTR_RAW_DATA)
      (xfs_no_payload\<lparr>pl_rawData := ''hi''\<rparr>)] ptr_init))
   = [\<lparr>pr_receiptId = ''RAW0'', pr_timestamp = ''1970'', pr_content = ''hi''\<rparr>]"
proof -
  let ?op = "PtrExec ptr_sample_clock (ptr_cmd_code PTR_RAW_DATA) (xfs_no_payload\<lparr>pl_rawData := ''hi''\<rparr>)"
  have "fst (ptr_run [?op] ptr_init) = [\<lparr>pr_receiptId = ''RAW0'', pr_timestamp = ''1970'', pr_content = ''hi''\<rparr>]"
    by (simp add: ptr_executeCommand_def vd_checkInjectedError_def ptr_init_facts ptr_printRaw_def
        ptr_sample_clock_def js_base36.simps digit36_def char_of_def bit_0 Let_def
        del: ptr_cmd_code.simps)
  then show ?thesis
    using ptr_history_window [of ptr_init "[]", OF _ prod.collapse [symmetric], of "[?op]"]
    by (simp add: ptr_init_facts js_last_def ptr_HISTORY_LIMIT_def del: ptr_cmd_code.simps ptr_run.simps)
qed

lemma ptr_paper_accounting_witness:
  "ptr_paperLevel (ptr_step (PtrExec ptr_sample_clock (ptr_cmd_code PTR_CUT_PAPER) xfs_no_payload)
     ptr_init) = 1000"
  using ptr_paper_accounting [OF ptr_ok_init,
      of "PtrExec ptr_sample_clock (ptr_cmd_code PTR_CUT_PAPER) xfs_no_payload"]
  by (simp add: ptr_init_facts ptr_executeCommand_def vd_checkInjectedError_def
      del: ptr_cmd_code.simps)

end
