(* ===== verification/Pin_Device.thy ===== *)
theory Pin_Device
  imports Virtual_Device Js_Bytes
begin

text \<open>
  The PIN pad (\<^verbatim>\<open>packages/xfs-devices/src/pin/pin.service.ts\<close>): buffered PIN and data entry driven
  by key presses, and the ISO 9564 format 0 PIN block.

  GET_PIN and GET_DATA return a promise that a later key press, timeout, reset or superseding
  entry settles. The \<open>k\<close>-th promise is called ticket \<open>k\<close>: \<open>pin_tickets\<close> counts those issued,
  the active entry carries its own, and an output \<open>Resolve k\<close> or \<open>Reject k\<close> settles it. The
  entry timer is armed exactly while an entry is active, so its firing is \<open>pin_timeout\<close>.

  Triple DES is Node's: the parameter \<open>tdes\<close> maps a 24-octet key and a block to a block.
\<close>

datatype pin_mode = M_PIN | M_DATA

record EntrySpec =
  en_spec :: PinGetPinPayload
  en_mode :: pin_mode
  en_ticket :: nat

record pin_dev = vdev +
  pin_buffer :: string
  pin_active :: "EntrySpec option"
  pin_tickets :: nat

definition pin_keyStore :: "(string \<times> string) list" where
  "pin_keyStore =
     [(''TPK'', ''0123456789ABCDEF0123456789ABCDEF''),
      (''TMK'', ''FEDCBA9876543210FEDCBA9876543210'')]"

definition pin_init :: pin_dev where
  "pin_init =
     vd_open (vdev.extend (vd_init PIN ''PIN30'')
       \<lparr>pin_buffer = [], pin_active = None, pin_tickets = 0\<rparr>)"

section \<open>Entry\<close>

definition pin_cancelEntry :: "string \<Rightarrow> pin_dev \<Rightarrow> pin_dev \<times> dev_output list" where
  "pin_cancelEntry reason d =
     (case pin_active d of
        None \<Rightarrow> (d, [])
      | Some a \<Rightarrow>
          (d\<lparr>pin_active := None, pin_buffer := []\<rparr>, [Reject (en_ticket a) (EntryCancelled reason)]))"

definition pin_terminateEntry :: "pin_dev \<Rightarrow> pin_dev \<times> dev_output list" where
  "pin_terminateEntry d =
     (case pin_active d of
        None \<Rightarrow> (d, [])
      | Some a \<Rightarrow>
          (let d1 = d\<lparr>pin_active := None\<rparr>;
               n = length (pin_buffer d1);
               ev = vd_emit d1 (PinEvt PIN_DATA_READY) EXEE (EP_Length n)
           in case en_mode a of
                M_PIN \<Rightarrow> (d1, [ev, Resolve (en_ticket a) (R_PinLength n)])
              | M_DATA \<Rightarrow>
                  (d1\<lparr>pin_buffer := []\<rparr>, [ev, Resolve (en_ticket a) (R_Data (pin_buffer d1))])))"

definition pin_beginEntry ::
  "pin_mode \<Rightarrow> string \<Rightarrow> PinGetPinPayload \<Rightarrow> pin_dev \<Rightarrow> outcome \<times> pin_dev \<times> dev_output list" where
  "pin_beginEntry mode label spec d =
     (let (d1, outs) = pin_cancelEntry ''superseded'' d;
          d2 = d1\<lparr>pin_buffer := [],
                  pin_active := Some \<lparr>en_spec = spec, en_mode = mode, en_ticket = pin_tickets d1\<rparr>,
                  pin_tickets := Suc (pin_tickets d1)\<rparr>
      in (Pending, d2,
          outs @ [vd_emit d2 (PinEvt PIN_ENTER_DATA) EXEE (EP_Enter label (ps_minLen spec) (ps_maxLen spec))]))"

definition pin_beginPinEntry :: "PinGetPinPayload \<Rightarrow> pin_dev \<Rightarrow> outcome \<times> pin_dev \<times> dev_output list" where
  "pin_beginPinEntry = pin_beginEntry M_PIN ''PIN''"

definition pin_beginDataEntry :: "PinGetPinPayload \<Rightarrow> pin_dev \<Rightarrow> outcome \<times> pin_dev \<times> dev_output list" where
  "pin_beginDataEntry = pin_beginEntry M_DATA ''DATA''"

definition pin_timeout :: "pin_dev \<Rightarrow> pin_dev \<times> dev_output list" where
  "pin_timeout d =
     (case pin_active d of
        None \<Rightarrow> (d, [])
      | Some a \<Rightarrow>
          pin_cancelEntry (case en_mode a of M_PIN \<Rightarrow> ''pin entry timeout''
                                           | M_DATA \<Rightarrow> ''data entry timeout'') d)"

definition pin_pressKey :: "string \<Rightarrow> pin_dev \<Rightarrow> pin_dev \<times> dev_output list" where
  "pin_pressKey key d =
     (case pin_active d of
        None \<Rightarrow> (d, [])
      | Some a \<Rightarrow>
          (let spec = en_spec a;
               kev = vd_emit d (PinEvt PIN_KEY) EXEE (EP_Key key)
           in if key = ''CANCEL''
              then (let (d', outs) = pin_cancelEntry ''user cancelled'' d in (d', kev # outs))
              else if key = ''CLEAR'' then (d\<lparr>pin_buffer := []\<rparr>, [kev])
              else if key = ''ENTER'' \<or> key \<in> set (ps_terminateKeys spec)
              then (if int (length (pin_buffer d)) < ps_minLen spec then (d, [kev])
                    else (let (d', outs) = pin_terminateEntry d in (d', kev # outs)))
              else if length key = 1 \<and> list_all is_digit key
                      \<and> int (length (pin_buffer d)) < ps_maxLen spec
              then (let d1 = d\<lparr>pin_buffer := pin_buffer d @ key\<rparr>
                    in if ps_autoEnd spec \<and> int (length (pin_buffer d1)) = ps_maxLen spec
                       then (let (d', outs) = pin_terminateEntry d1 in (d', kev # outs))
                       else (d1, [kev]))
              else (d, [kev])))"

definition pin_getBufferedLength :: "pin_dev \<Rightarrow> nat" where
  "pin_getBufferedLength d = length (pin_buffer d)"

definition pin_isEntryActive :: "pin_dev \<Rightarrow> bool" where
  "pin_isEntryActive d \<longleftrightarrow> pin_active d \<noteq> None"

definition pin_extractEnteredPin :: "pin_dev \<Rightarrow> string \<times> pin_dev" where
  "pin_extractEnteredPin d = (pin_buffer d, d\<lparr>pin_buffer := []\<rparr>)"

section \<open>The PIN block\<close>

definition pin_xorHex :: "string \<Rightarrow> string \<Rightarrow> dev_error + string" where
  "pin_xorHex a b =
     (if length a \<noteq> length b then Inl XorLengthMismatch
      else Inr (map (\<lambda>(x, y). hex_char (xor (hex_nibble x) (hex_nibble y))) (zip a b)))"

definition pin_panField :: "string \<Rightarrow> string" where
  "pin_panField pan =
     (let strip = filter is_digit pan
      in ''0000'' @ js_padStart 12 (CHR ''0'') (js_slice strip (- 13) (- 1)))"

definition pin_pinField :: "string \<Rightarrow> string" where
  "pin_pinField p = CHR ''0'' # hex_char (length p) # p @ replicate (14 - length p) (CHR ''F'')"

definition pin_buildIso0PinBlock :: "string \<Rightarrow> string \<Rightarrow> dev_error + string" where
  "pin_buildIso0PinBlock p pan =
     (if length p < 4 \<or> 12 < length p then Inl (InvalidPinLength (length p))
      else pin_xorHex (pin_pinField p) (pin_panField pan))"

type_synonym cipher = "nat list \<Rightarrow> nat list \<Rightarrow> nat list"

definition pin_encrypt3DES :: "cipher \<Rightarrow> string \<Rightarrow> string \<Rightarrow> string" where
  "pin_encrypt3DES tdes plaintextHex keyHex =
     (let baseKey = js_hex_decode keyHex
      in js_hex_encode (tdes (baseKey @ take 8 baseKey) (js_hex_decode plaintextHex)))"

definition pin_getPinBlock ::
  "cipher \<Rightarrow> PinGetPinBlockPayload \<Rightarrow> pin_dev \<Rightarrow> outcome \<times> pin_dev \<times> dev_output list" where
  "pin_getPinBlock tdes params d =
     (if pin_buffer d = [] then (Failed NoPinBuffered, d, [])
      else
        (case map_of pin_keyStore (pb_keyName params) of
           None \<Rightarrow> (Failed (KeyNotFound (pb_keyName params)), d, [])
         | Some key \<Rightarrow>
             (case pin_buildIso0PinBlock (pin_buffer d) (pb_pan params) of
                Inl e \<Rightarrow> (Failed e, d, [])
              | Inr hex \<Rightarrow>
                  (Done (R_PinBlock (pin_encrypt3DES tdes hex key)
                           (js_default (pb_format params) ISO0) (pb_keyName params)),
                   d\<lparr>pin_buffer := []\<rparr>, []))))"

definition pin_executeCommand :: "cipher \<Rightarrow> pin_dev executor" where
  "pin_executeCommand tdes d commandCode payload =
     (if pin_cmd_of commandCode = Some PIN_RESET
      then (let (d1, outs) = pin_cancelEntry ''device reset'' d
            in (Done R_Empty, vd_reset (d1\<lparr>pin_buffer := []\<rparr>), outs))
      else
        (case vd_checkInjectedError d of
           (Some e, d') \<Rightarrow> (Failed (InjectedError e), d', [])
         | (None, d') \<Rightarrow>
             (case pin_cmd_of commandCode of
                Some PIN_GET_PIN \<Rightarrow> pin_beginPinEntry (pl_pinSpec payload) d'
              | Some PIN_GET_DATA \<Rightarrow> pin_beginDataEntry (pl_pinSpec payload) d'
              | Some PIN_GET_PINBLOCK \<Rightarrow> pin_getPinBlock tdes (pl_pinBlock payload) d'
              | Some PIN_GET_KEY_DETAIL \<Rightarrow> (Done (R_Keys (map fst pin_keyStore)), d', [])
              | _ \<Rightarrow> (Failed (UnsupportedCommand PIN commandCode), d', []))))"

section \<open>The contract\<close>

lemmas pin_entry_defs =
  pin_cancelEntry_def pin_terminateEntry_def pin_beginEntry_def pin_beginPinEntry_def
  pin_beginDataEntry_def

lemma pin_block_error:
  "pin_buildIso0PinBlock p pan = Inl e \<Longrightarrow> \<not> injected_outcome (Failed e)"
  by (auto simp: pin_buildIso0PinBlock_def pin_xorHex_def split: if_splits)

interpretation pin: xfs_device "pin_executeCommand tdes" vdev.truncate vd_clearError "pin_cmd_code PIN_RESET"
  for tdes
  by unfold_locales
    (auto simp: pin_executeCommand_def pin_entry_defs pin_getPinBlock_def Let_def
      vd_defs pin_cmd_of_iff [of _ PIN_RESET]
      simp del: pin_cmd_code.simps dest: pin_block_error
      split: option.splits if_splits pin_cmd.splits sum.splits)

end
