(* ===== verification/Pin_Props.thy ===== *)
theory Pin_Props
  imports Pin_Device
begin

text \<open>
  Correctness of the PIN pad: every entry promise is settled exactly once, entries respect their
  length bounds, typing and extracting a PIN is a round trip, and so is the PIN block.
\<close>

section \<open>Runs of the PIN pad\<close>

datatype pin_op = PinExec string xfs_payload | PinKey string | PinTimeout | PinExtract

fun pin_step :: "cipher \<Rightarrow> pin_op \<Rightarrow> pin_dev \<Rightarrow> pin_dev \<times> dev_output list" where
  "pin_step tdes (PinExec c p) d = snd (pin_executeCommand tdes d c p)"
| "pin_step tdes (PinKey k) d = pin_pressKey k d"
| "pin_step tdes PinTimeout d = pin_timeout d"
| "pin_step tdes PinExtract d = (snd (pin_extractEnteredPin d), [])"

fun pin_run :: "cipher \<Rightarrow> pin_op list \<Rightarrow> pin_dev \<Rightarrow> pin_dev \<times> dev_output list" where
  "pin_run tdes [] d = (d, [])"
| "pin_run tdes (op # ops) d =
     (let (d', out) = pin_step tdes op d; (d'', outs) = pin_run tdes ops d' in (d'', out @ outs))"

text \<open>The tickets a list of outputs settles.\<close>

fun settled :: "dev_output list \<Rightarrow> nat list" where
  "settled [] = []"
| "settled (Resolve k r # outs) = k # settled outs"
| "settled (Reject k e # outs) = k # settled outs"
| "settled (Emit e # outs) = settled outs"

lemma settled_append [simp]: "settled (xs @ ys) = settled xs @ settled ys"
  by (induction xs rule: settled.induct) simp_all

lemma settled_emit [simp]: "settled (vd_emit d c cls p # outs) = settled outs"
  by (simp add: vd_emit_def)

definition pin_open :: "pin_dev \<Rightarrow> nat list" where
  "pin_open d = (case pin_active d of None \<Rightarrow> [] | Some a \<Rightarrow> [en_ticket a])"

lemma cancel_settles [simp]:
  "settled (snd (pin_cancelEntry r d)) = pin_open d"
  "pin_open (fst (pin_cancelEntry r d)) = []"
  "pin_tickets (fst (pin_cancelEntry r d)) = pin_tickets d"
  by (auto simp: pin_cancelEntry_def pin_open_def split: option.splits)

lemma terminate_settles [simp]:
  "settled (snd (pin_terminateEntry d)) = pin_open d"
  "pin_open (fst (pin_terminateEntry d)) = []"
  "pin_tickets (fst (pin_terminateEntry d)) = pin_tickets d"
  by (auto simp: pin_terminateEntry_def pin_open_def Let_def split: option.splits pin_mode.splits)

lemma pin_open_update [simp]:
  "pin_open (d\<lparr>pin_buffer := b\<rparr>) = pin_open d"
  "pin_open (d\<lparr>vd_injectedError := e\<rparr>) = pin_open d"
  "pin_open (vd_reset d) = pin_open d"
  "pin_tickets (vd_reset d) = pin_tickets d"
  by (simp_all add: pin_open_def vd_reset_def)

text \<open>What a key press amounts to: nothing without an entry; otherwise the key event, and then a
  change of the buffer, the cancellation or the termination of the entry.\<close>

lemma pin_pressKey_cases:
  obtains (idle) "pin_active d = None" "pin_pressKey key d = (d, [])"
  | (buffer) a b where "pin_active d = Some a"
      "pin_pressKey key d = (d\<lparr>pin_buffer := b\<rparr>, [vd_emit d (PinEvt PIN_KEY) EXEE (EP_Key key)])"
      "b = [] \<or> b = pin_buffer d \<or> list_all is_digit key \<and> length key = 1 \<and> b = pin_buffer d @ key
         \<and> int (length b) \<le> ps_maxLen (en_spec a)"
  | (cancel) a where "pin_active d = Some a"
      "pin_pressKey key d = (fst (pin_cancelEntry ''user cancelled'' d),
         vd_emit d (PinEvt PIN_KEY) EXEE (EP_Key key) # snd (pin_cancelEntry ''user cancelled'' d))"
  | (finish) a b where "pin_active d = Some a"
      "pin_pressKey key d = (fst (pin_terminateEntry (d\<lparr>pin_buffer := b\<rparr>)),
         vd_emit d (PinEvt PIN_KEY) EXEE (EP_Key key) # snd (pin_terminateEntry (d\<lparr>pin_buffer := b\<rparr>)))"
      "b = pin_buffer d \<and> ps_minLen (en_spec a) \<le> int (length b)
       \<or> list_all is_digit key \<and> b = pin_buffer d @ key \<and> ps_autoEnd (en_spec a)
         \<and> int (length b) = ps_maxLen (en_spec a)"
proof (cases "pin_active d")
  case None
  then show thesis using idle by (simp add: pin_pressKey_def)
next
  case (Some a)
  note P = pin_pressKey_def Some option.case Let_def split_def
  consider (c) "key = ''CANCEL''" | (l) "key = ''CLEAR''"
    | (e) "key \<noteq> ''CANCEL''" "key \<noteq> ''CLEAR''" "key = ''ENTER'' \<or> key \<in> set (ps_terminateKeys (en_spec a))"
    | (d) "key \<noteq> ''CANCEL''" "key \<noteq> ''CLEAR''" "\<not> (key = ''ENTER'' \<or> key \<in> set (ps_terminateKeys (en_spec a)))"
    by blast
  then show thesis
  proof cases
    case c
    then show thesis using cancel [OF Some] by (simp add: P)
  next
    case l
    then show thesis using buffer [OF Some, of "[]"] by (simp add: P)
  next
    case e
    have same: "d\<lparr>pin_buffer := pin_buffer d\<rparr> = d" by simp
    show thesis
    proof (cases "int (length (pin_buffer d)) < ps_minLen (en_spec a)")
      case True
      then show thesis using buffer [OF Some, of "pin_buffer d"] e
        by (simp add: P same)
    next
      case False
      then have "ps_minLen (en_spec a) \<le> int (length (pin_buffer d))" by simp
      then show thesis using finish [OF Some, of "pin_buffer d"] e False
        by (simp add: P same)
    qed
  next
    case d
    let ?b = "pin_buffer d @ key"
    have same: "d\<lparr>pin_buffer := pin_buffer d\<rparr> = d" by simp
    show thesis
    proof (cases "length key = 1 \<and> list_all is_digit key \<and> int (length (pin_buffer d)) < ps_maxLen (en_spec a)")
      case False
      then show thesis using buffer [OF Some, of "pin_buffer d"] d
        by (auto simp: P same)
    next
      case True
      then have T: "length key = 1" "list_all is_digit key" "int (length ?b) \<le> ps_maxLen (en_spec a)" by simp_all
      show thesis
      proof (cases "ps_autoEnd (en_spec a) \<and> int (length ?b) = ps_maxLen (en_spec a)")
        case A: True
        show thesis using finish [OF Some, of ?b] d True A T by (simp add: P)
      next
        case A: False
        show thesis using buffer [OF Some, of ?b] d True A T by (auto simp: P)
      qed
    qed
  qed
qed

text \<open>A step settles the open ticket or keeps it, and a new entry opens the next ticket.\<close>

lemma pin_step_tickets:
  assumes "pin_step tdes op d = (d', outs)"
  shows "(settled outs = [] \<and> pin_open d' = pin_open d \<and> pin_tickets d' = pin_tickets d)
    \<or> (settled outs = pin_open d \<and> pin_open d' = [] \<and> pin_tickets d' = pin_tickets d)
    \<or> (settled outs = pin_open d \<and> pin_open d' = [pin_tickets d] \<and> pin_tickets d' = Suc (pin_tickets d))"
proof (cases op)
  case (PinKey k)
  then have run: "pin_pressKey k d = (d', outs)" using assms by simp
  show ?thesis
    by (rule pin_pressKey_cases [of d k]) (use run in auto)
next
  case PinTimeout
  then have d: "d' = fst (pin_timeout d)" "outs = snd (pin_timeout d)" using assms by simp_all
  show ?thesis unfolding d by (cases "pin_active d") (simp_all add: pin_timeout_def)
next
  case PinExtract
  then show ?thesis using assms by (auto simp: pin_extractEnteredPin_def pin_open_def)
next
  case (PinExec c p)
  have begin_entry: "settled (snd (snd (pin_beginEntry m l s d))) = pin_open d
      \<and> pin_open (fst (snd (pin_beginEntry m l s d))) = [pin_tickets d]
      \<and> pin_tickets (fst (snd (pin_beginEntry m l s d))) = Suc (pin_tickets d)" for m l s
    by (auto simp: pin_beginEntry_def pin_cancelEntry_def pin_open_def Let_def split: option.splits)
  have run: "snd (pin_executeCommand tdes d c p) = (d', outs)" using assms PinExec by simp
  show ?thesis
  proof (cases "pin_cmd_of c = Some PIN_RESET")
    case True
    then show ?thesis
      using run by (auto simp: pin_executeCommand_def Let_def split_def)
  next
    case False
    show ?thesis
    proof (cases "vd_injectedError d")
      case (Some e)
      then show ?thesis
        using run False by (auto simp: pin_executeCommand_def vd_checkInjectedError_def)
    next
      case None
      then have clean: "vd_checkInjectedError d = (None, d)" by (simp add: vd_checkInjectedError_def)
      consider (entry) m l s where "pin_executeCommand tdes d c p = pin_beginEntry m l s d"
        | (block) "pin_executeCommand tdes d c p = pin_getPinBlock tdes (pl_pinBlock p) d"
        | (other) "snd (pin_executeCommand tdes d c p) = (d, [])"
      proof (cases "pin_cmd_of c")
        case (Some x)
        then show thesis using False that
          by (cases x) (simp_all add: pin_executeCommand_def clean pin_beginPinEntry_def
              pin_beginDataEntry_def)
      qed (simp add: pin_executeCommand_def clean that)
      then show ?thesis
      proof cases
        case entry
        then show ?thesis using run begin_entry [of m l s] by simp
      next
        case block
        then show ?thesis using run
          by (auto simp: pin_getPinBlock_def split: if_splits option.splits sum.splits)
      next
        case other
        then show ?thesis using run by simp
      qed
    qed
  qed
qed

definition tickets_ok :: "nat list \<Rightarrow> pin_dev \<Rightarrow> bool" where
  "tickets_ok old d \<longleftrightarrow> distinct (old @ pin_open d) \<and> set (old @ pin_open d) = {..<pin_tickets d}"

lemma tickets_ok_step:
  assumes "tickets_ok old d" "pin_step tdes op d = (d', outs)"
  shows "tickets_ok (old @ settled outs) d'"
  using pin_step_tickets [OF assms(2)] assms(1)
  by (elim disjE) (auto simp: tickets_ok_def lessThan_Suc)

text \<open>C18: no entry promise is lost and none is settled twice: after any run from a fresh pad, the
  tickets settled are distinct, and together with the active entry's they are all the tickets
  issued.\<close>

theorem pin_promises_settled_once:
  assumes "pin_run tdes ops pin_init = (d, outs)"
  shows "distinct (settled outs @ pin_open d)
    \<and> set (settled outs @ pin_open d) = {..<pin_tickets d}"
proof -
  have "tickets_ok (old @ settled outs) d'"
    if "pin_run tdes ops d0 = (d', outs)" "tickets_ok old d0" for d0 d' outs old
    using that
  proof (induction ops arbitrary: d0 outs old)
    case Nil
    then show ?case by simp
  next
    case (Cons op ops)
    obtain d1 o1 where s: "pin_step tdes op d0 = (d1, o1)" by (cases "pin_step tdes op d0")
    obtain o2 where r: "pin_run tdes ops d1 = (d', o2)" "outs = o1 @ o2"
      using Cons.prems(1) s by (auto simp: Let_def split: prod.splits)
    show ?case using Cons.IH [OF r(1) tickets_ok_step [OF Cons.prems(2) s]] r(2) by simp
  qed
  from this [OF assms, of "[]"] show ?thesis
    by (simp add: tickets_ok_def pin_open_def pin_init_def vd_open_def vdev.defs)
qed

section \<open>What an entry resolves with\<close>

definition pin_buffer_ok :: "pin_dev \<Rightarrow> bool" where
  "pin_buffer_ok d \<longleftrightarrow> list_all is_digit (pin_buffer d)
     \<and> (case pin_active d of None \<Rightarrow> True
        | Some a \<Rightarrow> int (length (pin_buffer d)) \<le> max 0 (ps_maxLen (en_spec a)))"

definition entry_fits :: "PinGetPinPayload \<Rightarrow> nat \<Rightarrow> bool" where
  "entry_fits spec n \<longleftrightarrow> int n \<le> max 0 (ps_maxLen spec)
     \<and> (ps_minLen spec \<le> int n \<or> ps_autoEnd spec \<and> int n = ps_maxLen spec)"

lemma buffer_ok_simple:
  "pin_buffer_ok (fst (pin_cancelEntry r d))" if "pin_buffer_ok d"
  using that by (auto simp: pin_cancelEntry_def pin_buffer_ok_def split: option.splits)

lemma buffer_ok_exec:
  assumes "pin_buffer_ok d"
  shows "pin_buffer_ok (fst (snd (pin_executeCommand tdes d c p)))"
proof -
  have frame: "pin_buffer_ok (d\<lparr>vd_injectedError := None\<rparr>)" "pin_buffer_ok (d\<lparr>pin_buffer := []\<rparr>)"
    using assms by (auto simp: pin_buffer_ok_def split: option.splits)
  show ?thesis
    using assms frame
    by (auto simp: pin_executeCommand_def vd_checkInjectedError_def pin_entry_defs Let_def
        pin_getPinBlock_def vd_reset_def pin_buffer_ok_def
        split: option.splits pin_cmd.splits sum.splits)
qed

lemma terminate_resolves:
  assumes "pin_active d = Some a"
  shows "snd (pin_terminateEntry d) =
      [vd_emit d (PinEvt PIN_DATA_READY) EXEE (EP_Length (length (pin_buffer d))),
       Resolve (en_ticket a) (case en_mode a of M_PIN \<Rightarrow> R_PinLength (length (pin_buffer d))
                                              | M_DATA \<Rightarrow> R_Data (pin_buffer d))]"
    and "pin_buffer (fst (pin_terminateEntry d))
      = (case en_mode a of M_PIN \<Rightarrow> pin_buffer d | M_DATA \<Rightarrow> [])"
    and "pin_active (fst (pin_terminateEntry d)) = None"
  using assms by (auto simp: pin_terminateEntry_def Let_def vd_emit_def split: pin_mode.splits)

lemma buffer_ok_step:
  assumes "pin_buffer_ok d"
  shows "pin_buffer_ok (fst (pin_step tdes op d))"
proof (cases op)
  case (PinKey k)
  show ?thesis
  proof (rule pin_pressKey_cases [of d k])
    fix a b
    assume "pin_active d = Some a"
      "pin_pressKey k d = (fst (pin_terminateEntry (d\<lparr>pin_buffer := b\<rparr>)),
        vd_emit d (PinEvt PIN_KEY) EXEE (EP_Key k) # snd (pin_terminateEntry (d\<lparr>pin_buffer := b\<rparr>)))"
      "b = pin_buffer d \<and> ps_minLen (en_spec a) \<le> int (length b)
        \<or> list_all is_digit k \<and> b = pin_buffer d @ k \<and> ps_autoEnd (en_spec a)
          \<and> int (length b) = ps_maxLen (en_spec a)"
    then show ?thesis
      using assms PinKey terminate_resolves [of "d\<lparr>pin_buffer := b\<rparr>" a]
      by (auto simp: pin_buffer_ok_def split: pin_mode.splits)
  qed (use assms PinKey in \<open>auto simp: pin_buffer_ok_def pin_cancelEntry_def split: option.splits\<close>)
next
  case (PinExec c p)
  then show ?thesis using buffer_ok_exec [OF assms] by simp
next
  case PinTimeout
  then show ?thesis
    using assms buffer_ok_simple by (cases "pin_active d") (simp_all add: pin_timeout_def)
next
  case PinExtract
  then show ?thesis
    using assms by (auto simp: pin_extractEnteredPin_def pin_buffer_ok_def split: option.splits)
qed

lemma buffer_ok_run: "pin_buffer_ok d \<Longrightarrow> pin_buffer_ok (fst (pin_run tdes ops d))"
  by (induction ops arbitrary: d) (simp_all add: Let_def split_def buffer_ok_step)

lemma buffer_ok_init: "pin_buffer_ok pin_init"
  by (simp add: pin_buffer_ok_def pin_init_def vd_open_def vdev.defs)

lemma only_keys_resolve:
  assumes "Resolve k r \<in> set (snd (pin_step tdes op d))"
  obtains key where "op = PinKey key"
proof (cases op)
  case (PinExec c p)
  with assms show thesis
    by (auto simp: pin_executeCommand_def vd_checkInjectedError_def pin_entry_defs Let_def
        pin_getPinBlock_def vd_emit_def split: option.splits pin_cmd.splits sum.splits if_splits)
next
  case PinTimeout
  with assms show thesis
    by (auto simp: pin_timeout_def pin_cancelEntry_def split: option.splits)
next
  case PinExtract
  with assms show thesis by simp
qed (rule that)

text \<open>In every reachable state, an entry resolves only with decimal digits within the bounds it
  was armed with (at least the minimum, or exactly the maximum when it ends by itself); a PIN
  entry resolves with the length alone, a data entry with the digits and an emptied buffer.\<close>

theorem pin_entry_resolves_within_bounds:
  assumes "pin_run tdes ops pin_init = (d, outs0)"
    and "pin_step tdes op d = (d', outs)" "Resolve k r \<in> set outs"
  shows "\<exists>a ds. pin_active d = Some a \<and> k = en_ticket a \<and> pin_active d' = None
    \<and> list_all is_digit ds \<and> entry_fits (en_spec a) (length ds)
    \<and> (case en_mode a of
         M_PIN \<Rightarrow> r = R_PinLength (length ds) \<and> pin_buffer d' = ds
       | M_DATA \<Rightarrow> r = R_Data ds \<and> pin_buffer d' = [])"
proof -
  have ok: "pin_buffer_ok d" using buffer_ok_run [OF buffer_ok_init, of tdes ops] assms(1) by simp
  obtain key where op: "op = PinKey key" using only_keys_resolve [of k r tdes op d] assms(2,3) by auto
  then have run: "pin_pressKey key d = (d', outs)" using assms(2) by simp
  show ?thesis
  proof (rule pin_pressKey_cases [of d key])
    fix a b
    assume P: "pin_active d = Some a"
      "pin_pressKey key d = (fst (pin_terminateEntry (d\<lparr>pin_buffer := b\<rparr>)),
        vd_emit d (PinEvt PIN_KEY) EXEE (EP_Key key) # snd (pin_terminateEntry (d\<lparr>pin_buffer := b\<rparr>)))"
      "b = pin_buffer d \<and> ps_minLen (en_spec a) \<le> int (length b)
        \<or> list_all is_digit key \<and> b = pin_buffer d @ key \<and> ps_autoEnd (en_spec a)
          \<and> int (length b) = ps_maxLen (en_spec a)"
    have "list_all is_digit b \<and> entry_fits (en_spec a) (length b)"
      using ok P(1,3) by (auto simp: pin_buffer_ok_def entry_fits_def)
    then show ?thesis
      using P(1,2) run assms(3) terminate_resolves [of "d\<lparr>pin_buffer := b\<rparr>" a]
      by (auto simp: vd_emit_def split: pin_mode.splits)
  qed (use run assms(3) in \<open>auto simp: pin_cancelEntry_def vd_emit_def split: option.splits\<close>)
qed

section \<open>Typing\<close>

lemma pin_run_append:
  "pin_run tdes (xs @ ys) d =
     (fst (pin_run tdes ys (fst (pin_run tdes xs d))),
      snd (pin_run tdes xs d) @ snd (pin_run tdes ys (fst (pin_run tdes xs d))))"
  by (induction xs arbitrary: d) (simp_all add: Let_def split_def)

text \<open>The keys an observer of the event bus sees.\<close>

fun keys_seen :: "dev_output list \<Rightarrow> string list" where
  "keys_seen [] = []"
| "keys_seen (Emit e # outs) =
     (case ev_payload e of EP_Key k \<Rightarrow> [k] | _ \<Rightarrow> []) @ keys_seen outs"
| "keys_seen (_ # outs) = keys_seen outs"

lemma keys_seen_append [simp]: "keys_seen (xs @ ys) = keys_seen xs @ keys_seen ys"
  by (induction xs rule: keys_seen.induct) simp_all

lemma pin_type_digits:
  assumes "pin_active d = Some a" "list_all is_digit p" "\<not> ps_autoEnd (en_spec a)"
    and "\<forall>c \<in> set p. [c] \<notin> set (ps_terminateKeys (en_spec a))"
    and "int (length (pin_buffer d @ p)) \<le> ps_maxLen (en_spec a)"
  shows "fst (pin_run tdes (map (\<lambda>c. PinKey [c]) p) d) = d\<lparr>pin_buffer := pin_buffer d @ p\<rparr>
    \<and> keys_seen (snd (pin_run tdes (map (\<lambda>c. PinKey [c]) p) d)) = map (\<lambda>c. [c]) p"
  using assms
proof (induction p arbitrary: d)
  case Nil
  then show ?case by simp
next
  case (Cons c p)
  have press: "pin_pressKey [c] d
      = (d\<lparr>pin_buffer := pin_buffer d @ [c]\<rparr>, [vd_emit d (PinEvt PIN_KEY) EXEE (EP_Key [c])])"
    using Cons.prems by (simp add: pin_pressKey_def Let_def)
  show ?case
    using Cons.IH [of "d\<lparr>pin_buffer := pin_buffer d @ [c]\<rparr>"] Cons.prems press
    by (simp add: Let_def split_def vd_emit_def)
qed

text \<open>The session of a customer who types \<open>p\<close> and confirms.\<close>

definition pin_session :: "xfs_payload \<Rightarrow> string \<Rightarrow> pin_op list" where
  "pin_session pl p =
     PinExec (pin_cmd_code PIN_GET_PIN) pl # map (\<lambda>c. PinKey [c]) p @ [PinKey ''ENTER'']"

lemma pin_session_run:
  assumes "vd_injectedError d = None" "list_all is_digit p" "\<not> ps_autoEnd (pl_pinSpec pl)"
    and "\<forall>c \<in> set p. [c] \<notin> set (ps_terminateKeys (pl_pinSpec pl))"
    and "ps_minLen (pl_pinSpec pl) \<le> int (length p)" "int (length p) \<le> ps_maxLen (pl_pinSpec pl)"
    and "pin_run tdes (pin_session pl p) d = (d', outs)"
  shows "pin_buffer d' = p \<and> pin_active d' = None
    \<and> Resolve (pin_tickets d) (R_PinLength (length p)) \<in> set outs
    \<and> keys_seen outs = map (\<lambda>c. [c]) p @ [''ENTER'']"
proof -
  let ?d1 = "fst (snd (pin_beginPinEntry (pl_pinSpec pl) d))"
  let ?o1 = "snd (snd (pin_beginPinEntry (pl_pinSpec pl) d))"
  have step: "pin_step tdes (PinExec (pin_cmd_code PIN_GET_PIN) pl) d = (?d1, ?o1)"
    using assms(1) by (simp add: pin_executeCommand_def vd_checkInjectedError_def del: pin_cmd_code.simps)
  have d1: "pin_active ?d1 = Some \<lparr>en_spec = pl_pinSpec pl, en_mode = M_PIN, en_ticket = pin_tickets d\<rparr>"
    "pin_buffer ?d1 = []" "keys_seen ?o1 = []"
    by (auto simp: pin_entry_defs Let_def vd_emit_def split: option.splits)
  let ?r = "pin_run tdes (map (\<lambda>c. PinKey [c]) p) ?d1"
  have typed: "fst ?r = ?d1\<lparr>pin_buffer := p\<rparr>" "keys_seen (snd ?r) = map (\<lambda>c. [c]) p"
    using pin_type_digits [OF d1(1) assms(2), of tdes] assms d1(2) by simp_all
  have enter: "pin_pressKey ''ENTER'' (?d1\<lparr>pin_buffer := p\<rparr>)
      = (fst (pin_terminateEntry (?d1\<lparr>pin_buffer := p\<rparr>)),
         vd_emit ?d1 (PinEvt PIN_KEY) EXEE (EP_Key ''ENTER'')
           # snd (pin_terminateEntry (?d1\<lparr>pin_buffer := p\<rparr>)))"
    using d1(1) assms(5) by (simp add: pin_pressKey_def Let_def split_def vd_emit_def)
  note T = terminate_resolves [of "?d1\<lparr>pin_buffer := p\<rparr>", simplified, OF d1(1)]
  have "pin_run tdes (pin_session pl p) d
      = (fst (pin_terminateEntry (?d1\<lparr>pin_buffer := p\<rparr>)),
         ?o1 @ snd ?r @ vd_emit ?d1 (PinEvt PIN_KEY) EXEE (EP_Key ''ENTER'')
           # snd (pin_terminateEntry (?d1\<lparr>pin_buffer := p\<rparr>)))"
    unfolding pin_session_def
    by (simp only: pin_run.simps(2) step Let_def prod.case pin_run_append typed(1))
       (simp add: enter)
  with assms(7) T typed(2) d1(3) show ?thesis by (auto simp: vd_emit_def)
qed

text \<open>C39: typing a PIN of an accepted length and confirming it resolves the GET_PIN promise with the
  length of the PIN, and the ATM application then extracts exactly the digits typed, once: the
  buffer is empty afterwards.\<close>

theorem pin_entry_roundtrip:
  assumes "vd_injectedError d = None" "list_all is_digit p" "\<not> ps_autoEnd (pl_pinSpec pl)"
    and "\<forall>c \<in> set p. [c] \<notin> set (ps_terminateKeys (pl_pinSpec pl))"
    and "ps_minLen (pl_pinSpec pl) \<le> int (length p)" "int (length p) \<le> ps_maxLen (pl_pinSpec pl)"
    and "pin_run tdes (pin_session pl p) d = (d', outs)"
  shows "Resolve (pin_tickets d) (R_PinLength (length p)) \<in> set outs
    \<and> fst (pin_extractEnteredPin d') = p
    \<and> fst (pin_extractEnteredPin (snd (pin_extractEnteredPin d'))) = []"
  using pin_session_run [OF assms] by (simp add: pin_extractEnteredPin_def)

text \<open>The digits of a PIN are on the event bus in the clear: the key events of the session
  spell the PIN and the confirming key.\<close>

theorem pin_keys_on_bus:
  assumes "vd_injectedError d = None" "list_all is_digit p" "\<not> ps_autoEnd (pl_pinSpec pl)"
    and "\<forall>c \<in> set p. [c] \<notin> set (ps_terminateKeys (pl_pinSpec pl))"
    and "ps_minLen (pl_pinSpec pl) \<le> int (length p)" "int (length p) \<le> ps_maxLen (pl_pinSpec pl)"
    and "pin_run tdes (pin_session pl p) d = (d', outs)"
  shows "keys_seen outs = map (\<lambda>c. [c]) p @ [''ENTER'']"
  using pin_session_run [OF assms] by simp

section \<open>The PIN block\<close>

text \<open>What the host does with a clear format 0 block: undo the exclusive or with the PAN field and
  read the length and the digits.\<close>

definition iso0_decode :: "string \<Rightarrow> string \<Rightarrow> string" where
  "iso0_decode pan blk =
     (case pin_xorHex blk (pin_panField pan) of
        Inl _ \<Rightarrow> []
      | Inr f \<Rightarrow> take (hex_nibble (f ! 1)) (drop 2 f))"

lemma xor_nibble: "(x::nat) < 16 \<Longrightarrow> y < 16 \<Longrightarrow> xor x y < 16"
  using take_bit_nat_eq_self [of x 4] take_bit_nat_eq_self [of y 4] take_bit_nat_less_exp [of 4 "xor x y"]
  by (simp add: take_bit_xor)

lemma xor_xor_nibble: "xor (xor (x::nat) y) y = x"
  by (simp add: xor.assoc)

lemma xorHex_involution:
  assumes "length a = length b" "list_all (\<lambda>c. hex_digit c \<noteq> None \<and> js_upper_char c = c) a"
  shows "map (\<lambda>(x, y). hex_char (xor (hex_nibble x) (hex_nibble y)))
      (zip (map (\<lambda>(x, y). hex_char (xor (hex_nibble x) (hex_nibble y))) (zip a b)) b) = a"
  using assms
  by (induction a b rule: list_induct2)
    (simp_all add: xor_nibble hex_nibble_bound xor_xor_nibble hex_char_nibble)

lemma length_panField: "length (pin_panField pan) = 16"
proof -
  have "length (js_slice xs (- 13) (- 1)) \<le> 12" for xs :: string
    by (auto simp: js_slice_def js_rel_index_def Let_def)
  then show ?thesis by (simp add: pin_panField_def Let_def max_absorb1)
qed

lemma digit_hex: "is_digit c \<Longrightarrow> hex_digit c \<noteq> None \<and> js_upper_char c = c"
  by (auto simp: is_digit_def hex_digit_def js_upper_char_def Let_def)

lemma hex_char_is_hex: "n < 16 \<Longrightarrow> hex_digit (hex_char n) \<noteq> None \<and> js_upper_char (hex_char n) = hex_char n"
  by simp

lemma pinField_hex:
  assumes "list_all is_digit p" "length p \<le> 12"
  shows "list_all (\<lambda>c. hex_digit c \<noteq> None \<and> js_upper_char c = c) (pin_pinField p)"
proof -
  have "hex_digit CHR ''0'' \<noteq> None \<and> js_upper_char CHR ''0'' = CHR ''0''"
    "hex_digit CHR ''F'' \<noteq> None \<and> js_upper_char CHR ''F'' = CHR ''F''"
    by (simp_all add: hex_digit_def js_upper_char_def)
  then show ?thesis
    using assms hex_char_is_hex [of "length p"]
    by (auto simp: pin_pinField_def list_all_iff in_set_replicate dest: digit_hex)
qed

text \<open>The PIN block of a PIN of 4 to 12 digits exists, is 16 hexadecimal digits long, starts with
  the format and length nibbles, and decodes with the same PAN to exactly that PIN.\<close>

theorem iso0_block_roundtrip:
  assumes "list_all is_digit p" "4 \<le> length p" "length p \<le> 12"
  shows "\<exists>blk. pin_buildIso0PinBlock p pan = Inr blk \<and> length blk = 16
    \<and> take 2 blk = [CHR ''0'', hex_char (length p)] \<and> iso0_decode pan blk = p"
proof -
  have len: "length (pin_pinField p) = 16" using assms(3) by (simp add: pin_pinField_def)
  let ?blk = "map (\<lambda>(x, y). hex_char (xor (hex_nibble x) (hex_nibble y)))
    (zip (pin_pinField p) (pin_panField pan))"
  have b: "pin_buildIso0PinBlock p pan = Inr ?blk"
    using assms(2,3) len by (simp add: pin_buildIso0PinBlock_def pin_xorHex_def length_panField)
  have "hex_nibble CHR ''0'' = 0" by (simp add: hex_nibble_def hex_digit_def)
  moreover have "hex_char 0 = CHR ''0''" by (rule hex_char_eval)
  ultimately have t: "take 2 ?blk = [CHR ''0'', hex_char (length p)]"
    using assms(3) by (simp add: pin_pinField_def pin_panField_def Let_def numeral_2_eq_2)
  have "pin_xorHex ?blk (pin_panField pan) = Inr (pin_pinField p)"
    using xorHex_involution [OF _ pinField_hex [OF assms(1,3)], of "pin_panField pan"] len
    by (simp add: pin_xorHex_def length_panField)
  then have "iso0_decode pan ?blk = p"
    using assms(3) by (simp add: iso0_decode_def pin_pinField_def)
  with b t len show ?thesis by (auto simp: length_panField)
qed

section \<open>Witnesses\<close>

definition pin_sample_payload :: xfs_payload where
  "pin_sample_payload = xfs_no_payload\<lparr>pl_pinSpec :=
     \<lparr>ps_minLen = 4, ps_maxLen = 6, ps_autoEnd = False, ps_activeKeys = [], ps_activeFDKs = [],
      ps_terminateKeys = [''ENTER'']\<rparr>\<rparr>"

lemma pin_init_clean: "vd_injectedError pin_init = None" "pin_tickets pin_init = 0"
  by (simp_all add: pin_init_def vd_open_def vd_init_def vdev.defs)

lemma pin_promises_settled_once_witness:
  "distinct (settled (snd (pin_run (\<lambda>k b. b) (pin_session pin_sample_payload ''1234'') pin_init))
     @ pin_open (fst (pin_run (\<lambda>k b. b) (pin_session pin_sample_payload ''1234'') pin_init)))"
  using pin_promises_settled_once [OF prod.collapse [symmetric]] by blast

lemma pin_entry_roundtrip_witness:
  "fst (pin_extractEnteredPin (fst (pin_run (\<lambda>k b. b) (pin_session pin_sample_payload ''1234'') pin_init)))
   = ''1234''"
  using pin_entry_roundtrip [OF pin_init_clean(1), of "''1234''" pin_sample_payload "\<lambda>k b. b",
      OF _ _ _ _ _ prod.collapse [symmetric]]
  by (simp add: pin_sample_payload_def is_digit_def del: pin_run.simps)

lemma pin_keys_on_bus_witness:
  "keys_seen (snd (pin_run (\<lambda>k b. b) (pin_session pin_sample_payload ''1234'') pin_init))
   = [''1'', ''2'', ''3'', ''4'', ''ENTER'']"
  using pin_keys_on_bus [OF pin_init_clean(1), of "''1234''" pin_sample_payload "\<lambda>k b. b",
      OF _ _ _ _ _ prod.collapse [symmetric]]
  by (simp add: pin_sample_payload_def is_digit_def del: pin_run.simps)

lemma pin_entry_resolves_within_bounds_witness:
  "list_all is_digit (pin_buffer (fst (pin_step (\<lambda>k b. b) (PinKey ''ENTER'')
     (fst (pin_run (\<lambda>k b. b)
        (PinExec (pin_cmd_code PIN_GET_PIN) pin_sample_payload # map (\<lambda>c. PinKey [c]) ''1234'') pin_init)))))"
proof -
  let ?ops = "PinExec (pin_cmd_code PIN_GET_PIN) pin_sample_payload # map (\<lambda>c. PinKey [c]) ''1234''"
  let ?d = "fst (pin_run (\<lambda>k b. b) ?ops pin_init)"
  have R: "Resolve 0 (R_PinLength 4) \<in> set (snd (pin_step (\<lambda>k b. b) (PinKey ''ENTER'') ?d))"
    by (simp add: pin_executeCommand_def vd_checkInjectedError_def pin_entry_defs Let_def
        pin_init_def vd_open_def vd_init_def vdev.defs pin_sample_payload_def pin_pressKey_def
        is_digit_def vd_emit_def del: pin_cmd_code.simps)
  obtain d1 o1 where r: "pin_run (\<lambda>k b. b) ?ops pin_init = (d1, o1)" by fastforce
  obtain d2 o2 where s: "pin_step (\<lambda>k b. b) (PinKey ''ENTER'') d1 = (d2, o2)" by fastforce
  have "Resolve 0 (R_PinLength 4) \<in> set o2" using R r s by simp
  from pin_entry_resolves_within_bounds [OF r s this] have "list_all is_digit (pin_buffer d2)"
    by (auto intro: pin_mode.exhaust split: pin_mode.splits)
  then show ?thesis using r s by simp
qed

lemma iso0_block_roundtrip_witness:
  "\<exists>blk. pin_buildIso0PinBlock ''1234'' ''4111111111111111'' = Inr blk
     \<and> iso0_decode ''4111111111111111'' blk = ''1234''"
  using iso0_block_roundtrip [of "''1234''" "''4111111111111111''"] by (auto simp: is_digit_def)

end
