(* ===== verification/Iso8583.thy ===== *)
theory Iso8583
  imports Js_Bytes Js_Number
begin

text \<open>
  The ISO 8583 codec (\<^verbatim>\<open>packages/iso8583/src\<close>): the field table, the primary bitmap, and the
  encoding and decoding of messages. A message's fields are the entries of an object with
  integer keys. A position that \<open>parseInt\<close> made NaN is \<^const>\<open>None\<close>; \<open>slice\<close> reads NaN as 0.
\<close>

datatype iso_error =
    FieldOutOfRange int
  | BitmapLength nat
  | MessageTooShort
  | UnknownField int
  | ValueTooLong int
  | TrailingBytes "int option" nat
  | NegativeAmount
  | UnknownSwitch string

section \<open>Field table\<close>

datatype FieldKind = fixed | llvar | lllvar | numeric

record FieldDef =
  fd_field :: int
  fd_kind :: FieldKind
  fd_length :: nat

definition field_def :: "int \<Rightarrow> FieldKind \<Rightarrow> nat \<Rightarrow> int \<times> FieldDef" where
  "field_def f k n = (f, \<lparr>fd_field = f, fd_kind = k, fd_length = n\<rparr>)"

definition FIELDS :: "(int \<times> FieldDef) list" where
  "FIELDS =
     [field_def 2 llvar 19, field_def 3 numeric 6, field_def 4 numeric 12, field_def 7 numeric 10,
      field_def 11 numeric 6, field_def 12 numeric 6, field_def 13 numeric 4,
      field_def 14 numeric 4, field_def 22 numeric 3, field_def 37 fixed 12,
      field_def 38 fixed 6, field_def 39 fixed 2, field_def 41 fixed 8, field_def 42 fixed 15,
      field_def 49 numeric 3, field_def 52 fixed 16, field_def 54 lllvar 120,
      field_def 70 numeric 3]"

definition iso_field :: "int \<Rightarrow> FieldDef option" where
  "iso_field f = map_of FIELDS f"

section \<open>Bitmap\<close>

fun set_bits :: "int list \<Rightarrow> bool list \<Rightarrow> iso_error + bool list" where
  "set_bits [] bits = Inr bits"
| "set_bits (f # fs) bits =
     (if f < 1 \<or> 64 < f then Inl (FieldOutOfRange f) else set_bits fs (bits[nat (f - 1) := True]))"

definition nibble_of :: "bool list \<Rightarrow> nat \<Rightarrow> nat" where
  "nibble_of bits i = foldl (\<lambda>n b. 2 * n + of_bool (bits ! (i * 4 + b))) 0 [0..<4]"

definition fieldsToBitmap :: "int list \<Rightarrow> iso_error + string" where
  "fieldsToBitmap fs =
     (case set_bits fs (replicate 64 False) of
        Inl e \<Rightarrow> Inl e
      | Inr bits \<Rightarrow> Inr (map (\<lambda>i. hex_char (nibble_of bits i)) [0..<16]))"

definition bitmapToFields :: "string \<Rightarrow> iso_error + int list" where
  "bitmapToFields hex =
     (if length hex \<noteq> 16 then Inl (BitmapLength (length hex))
      else Inr (concat (map (\<lambda>i.
        map (\<lambda>b. int (i * 4 + b + 1))
          (filter (\<lambda>b. bit (hex_nibble (hex ! i)) (3 - b)) [0..<4])) [0..<16])))"

section \<open>Fields\<close>

definition encodeField :: "FieldDef \<Rightarrow> string \<Rightarrow> iso_error + string" where
  "encodeField def raw =
     (case fd_kind def of
        fixed \<Rightarrow> Inr (take (fd_length def) (js_padEnd (fd_length def) (CHR '' '') raw))
      | numeric \<Rightarrow>
          Inr (js_last (fd_length def) (js_padStart (fd_length def) (CHR ''0'') (filter is_digit raw)))
      | llvar \<Rightarrow>
          if fd_length def < length raw then Inl (ValueTooLong (fd_field def))
          else Inr (js_padStart 2 (CHR ''0'') (js_itoa (length raw)) @ raw)
      | lllvar \<Rightarrow>
          if fd_length def < length raw then Inl (ValueTooLong (fd_field def))
          else Inr (js_padStart 3 (CHR ''0'') (js_itoa (length raw)) @ raw))"

text \<open>Positions that may be NaN.\<close>

definition nan_add :: "int option \<Rightarrow> int option \<Rightarrow> int option" where
  "nan_add a b = (case (a, b) of (Some x, Some y) \<Rightarrow> Some (x + y) | _ \<Rightarrow> None)"

definition nan_slice :: "string \<Rightarrow> int option \<Rightarrow> int option \<Rightarrow> string" where
  "nan_slice s a b = js_slice s (js_default a 0) (js_default b 0)"

definition decode_var :: "int \<Rightarrow> string \<Rightarrow> int option \<Rightarrow> string \<times> int option" where
  "decode_var digits wire start =
     (let valStart = nan_add start (Some digits);
          len = js_parseInt 10 (nan_slice wire start valStart);
          next = nan_add valStart len
      in (nan_slice wire valStart next, next))"

definition decodeField :: "FieldDef \<Rightarrow> string \<Rightarrow> int option \<Rightarrow> string \<times> int option" where
  "decodeField def wire start =
     (let stop = nan_add start (Some (int (fd_length def))) in
      case fd_kind def of
        fixed \<Rightarrow> (js_trimEnd (nan_slice wire start stop), stop)
      | numeric \<Rightarrow> (nan_slice wire start stop, stop)
      | llvar \<Rightarrow> decode_var 2 wire start
      | lllvar \<Rightarrow> decode_var 3 wire start)"

section \<open>Messages\<close>

record IsoMessage =
  im_mti :: string
  im_fields :: "(int \<times> string) list"

fun encode_fields :: "(int \<times> string) list \<Rightarrow> int list \<Rightarrow> iso_error + string" where
  "encode_fields fvs [] = Inr []"
| "encode_fields fvs (f # fs) =
     (case iso_field f of
        None \<Rightarrow> Inl (UnknownField f)
      | Some def \<Rightarrow>
          (case encodeField def (js_default (map_of fvs f) []) of
             Inl e \<Rightarrow> Inl e
           | Inr w \<Rightarrow> (case encode_fields fvs fs of Inl e \<Rightarrow> Inl e | Inr r \<Rightarrow> Inr (w @ r))))"

definition encodeMessage :: "IsoMessage \<Rightarrow> iso_error + string" where
  "encodeMessage msg =
     (let fieldNumbers = sort (map fst (im_fields msg)) in
      case fieldsToBitmap fieldNumbers of
        Inl e \<Rightarrow> Inl e
      | Inr bitmap \<Rightarrow>
          (case encode_fields (im_fields msg) fieldNumbers of
             Inl e \<Rightarrow> Inl e
           | Inr r \<Rightarrow> Inr (im_mti msg @ bitmap @ r)))"

fun decode_fields ::
  "string \<Rightarrow> int list \<Rightarrow> int option \<Rightarrow> iso_error + ((int \<times> string) list \<times> int option)" where
  "decode_fields wire [] cursor = Inr ([], cursor)"
| "decode_fields wire (f # fs) cursor =
     (case iso_field f of
        None \<Rightarrow> Inl (UnknownField f)
      | Some def \<Rightarrow>
          (let (v, next) = decodeField def wire cursor in
           case decode_fields wire fs next of
             Inl e \<Rightarrow> Inl e
           | Inr (r, c) \<Rightarrow> Inr ((f, v) # r, c)))"

definition decodeMessage :: "string \<Rightarrow> iso_error + IsoMessage" where
  "decodeMessage wire =
     (if length wire < 20 then Inl MessageTooShort
      else
        (case bitmapToFields (js_slice wire 4 20) of
           Inl e \<Rightarrow> Inl e
         | Inr fs \<Rightarrow>
             (case decode_fields wire fs (Some 20) of
                Inl e \<Rightarrow> Inl e
              | Inr (out, cursor) \<Rightarrow>
                  if cursor \<noteq> Some (int (length wire)) then Inl (TrailingBytes cursor (length wire))
                  else Inr \<lparr>im_mti = js_slice wire 0 4, im_fields = out\<rparr>)))"

section \<open>Formatting\<close>

definition formatAmount :: "int \<Rightarrow> iso_error + string" where
  "formatAmount amount =
     (if amount < 0 then Inl NegativeAmount
      else Inr (js_padStart 12 (CHR ''0'') (js_int_to_string amount)))"

text \<open>The UTC fields of a date: month from 0, day, hour, minute, second.\<close>

record utc_date =
  ud_month :: nat
  ud_day :: nat
  ud_hour :: nat
  ud_minute :: nat
  ud_second :: nat

definition pad2 :: "nat \<Rightarrow> string" where
  "pad2 n = js_padStart 2 (CHR ''0'') (js_itoa n)"

definition formatTransmissionDateTime :: "utc_date \<Rightarrow> string" where
  "formatTransmissionDateTime d =
     pad2 (ud_month d + 1) @ pad2 (ud_day d) @ pad2 (ud_hour d) @ pad2 (ud_minute d)
     @ pad2 (ud_second d)"

definition formatStan :: "nat \<Rightarrow> string" where
  "formatStan n = js_padStart 6 (CHR ''0'') (js_itoa (n mod 1000000))"

section \<open>The bitmap round trip\<close>

lemma set_bits_spec:
  "set_bits fs bits = Inr bits' \<Longrightarrow> length bits = 64 \<Longrightarrow>
   length bits' = 64 \<and> (\<forall>f \<in> set fs. 1 \<le> f \<and> f \<le> 64)
   \<and> (\<forall>i < 64. bits' ! i \<longleftrightarrow> bits ! i \<or> int i + 1 \<in> set fs)"
proof (induction fs arbitrary: bits)
  case Nil
  then show ?case by simp
next
  case (Cons f fs)
  then have f: "1 \<le> f" "f \<le> 64" and r: "set_bits fs (bits[nat (f - 1) := True]) = Inr bits'"
    by (auto split: if_splits)
  note IH = Cons.IH [OF r, simplified, OF Cons.prems(2)]
  have "bits[nat (f - 1) := True] ! i \<longleftrightarrow> bits ! i \<or> int i + 1 = f" if "i < 64" for i
    using that f Cons.prems(2) by (auto simp: nth_list_update)
  with IH f show ?case by auto
qed

lemma set_bits_total: "\<forall>f \<in> set fs. 1 \<le> f \<and> f \<le> 64 \<Longrightarrow> \<exists>bits'. set_bits fs bits = Inr bits'"
  by (induction fs arbitrary: bits) auto

lemma upt4: "[0..<4] = [0, 1, 2, 3]"
  by (simp add: upt_conv_Cons eval_nat_numeral)

lemma nibble_of_bits: "nibble_of bits i < 16"
  "b < 4 \<Longrightarrow> bit (nibble_of bits i) (3 - b) \<longleftrightarrow> bits ! (i * 4 + b)"
proof -
  have eq: "nibble_of bits i = 8 * of_bool (bits ! (i * 4)) + 4 * of_bool (bits ! (i * 4 + 1))
      + 2 * of_bool (bits ! (i * 4 + 2)) + of_bool (bits ! (i * 4 + 3))"
    by (simp add: nibble_of_def upt4)
  show "nibble_of bits i < 16" by (simp add: eq of_bool_def)
  assume "b < 4"
  then have "b = 0 \<or> b = 1 \<or> b = 2 \<or> b = 3" by arith
  then show "bit (nibble_of bits i) (3 - b) \<longleftrightarrow> bits ! (i * 4 + b)"
    by (elim disjE; simp add: eq bit_iff_odd of_bool_def)
qed

lemma concat_blocks:
  "concat (map (\<lambda>i. map (\<lambda>b. int (i * 4 + b + 1)) (filter (\<lambda>b. P (i * 4 + b)) [0..<4])) [0..<n])
   = map (\<lambda>k. int k + 1) (filter P [0..<4 * n])"
proof (induction n)
  case 0
  then show ?case by simp
next
  case (Suc n)
  have "[0..<4 * Suc n] = [0..<4 * n] @ map (\<lambda>b. n * 4 + b) [0..<4]"
    using upt_add_eq_append [of 0 "4 * n" 4] map_add_upt [of "4 * n" 4]
    by (simp add: add.commute mult.commute)
  with Suc show ?case by (simp add: filter_map comp_def)
qed

lemma bitmap_roundtrip:
  assumes "fieldsToBitmap fs = Inr hex"
  shows "bitmapToFields hex = Inr (sort (remdups fs)) \<and> length hex = 16"
proof -
  obtain bits where bits: "set_bits fs (replicate 64 False) = Inr bits"
    and hex: "hex = map (\<lambda>i. hex_char (nibble_of bits i)) [0..<16]"
    using assms by (auto simp: fieldsToBitmap_def split: sum.splits)
  note S = set_bits_spec [OF bits]
  have out: "bitmapToFields hex = Inr (map (\<lambda>k. int k + 1) (filter (\<lambda>k. bits ! k) [0..<64]))"
  proof -
    have "concat (map (\<lambda>i. map (\<lambda>b. int (i * 4 + b + 1))
          (filter (\<lambda>b. bit (hex_nibble (hex ! i)) (3 - b)) [0..<4])) [0..<16])
        = concat (map (\<lambda>i. map (\<lambda>b. int (i * 4 + b + 1))
          (filter (\<lambda>b. bits ! (i * 4 + b)) [0..<4])) [0..<16])"
      by (intro arg_cong [where f = concat] map_cong refl filter_cong)
        (auto simp: hex nibble_of_bits)
    then show ?thesis using concat_blocks [of "\<lambda>k. bits ! k" 16] by (simp add: bitmapToFields_def hex)
  qed
  let ?l = "map (\<lambda>k. int k + 1) (filter (\<lambda>k. bits ! k) [0..<64])"
  have "sorted ?l" "distinct ?l"
    by (auto simp: sorted_map distinct_map inj_on_def intro: sorted_wrt_filter)
  moreover have "set ?l = set fs"
  proof
    show "set ?l \<subseteq> set fs" using S by auto
    show "set fs \<subseteq> set ?l"
    proof
      fix f assume "f \<in> set fs"
      then have "1 \<le> f" "f \<le> 64" using S by auto
      then have "bits ! nat (f - 1)" "nat (f - 1) < 64" "f = int (nat (f - 1)) + 1"
        using S \<open>f \<in> set fs\<close> by auto
      then show "f \<in> set ?l" by force
    qed
  qed
  ultimately have "?l = sort (remdups fs)"
    by (intro sorted_distinct_set_unique) simp_all
  with out hex show ?thesis by simp
qed

end
