(* ===== verification/Iso8583_Props.thy ===== *)
theory Iso8583_Props
  imports Iso8583
begin

text \<open>
  Correctness of the ISO 8583 codec: each field decodes to its normal form wherever it stands in
  the wire text, so whole messages round trip; amounts and trace numbers are printed in fixed
  width and read back.
\<close>

section \<open>Fields in context\<close>

text \<open>What a value becomes on the wire and back: digits padded or cut for numeric fields, trailing
  blanks dropped for fixed ones, itself for the variable ones.\<close>

definition iso_normal :: "FieldDef \<Rightarrow> string \<Rightarrow> string" where
  "iso_normal def v =
     (case fd_kind def of
        fixed \<Rightarrow> js_trimEnd (take (fd_length def) (js_padEnd (fd_length def) (CHR '' '') v))
      | numeric \<Rightarrow> js_last (fd_length def) (js_padStart (fd_length def) (CHR ''0'') (filter is_digit v))
      | _ \<Rightarrow> v)"

lemma nan_slice_mid:
  assumes "int (length pre) = a" "int (length pre + length mid) = b"
  shows "nan_slice (pre @ mid @ post) (Some a) (Some b) = mid"
  using js_slice_mid [of pre mid post] assms by (simp add: nan_slice_def)

lemma padded_length:
  assumes "n < 10 ^ k" "0 < k"
  shows "length (js_padStart k (CHR ''0'') (js_itoa n)) = k"
  using length_itoa_le [OF assms] by simp

lemma parse_padded: "js_parseInt 10 (js_padStart k (CHR ''0'') (js_itoa n)) = Some (int n)"
proof -
  have "list_all is_digit (js_padStart k (CHR ''0'') (js_itoa n))"
    by (rule padStart_digits [OF js_itoa_digits])
  moreover have "js_padStart k (CHR ''0'') (js_itoa n) \<noteq> []" by (simp add: js_padStart_def)
  ultimately show ?thesis by (simp add: parseInt_digits)
qed

lemma decode_var_roundtrip:
  assumes "length v < 10 ^ k" "0 < k"
  shows "decode_var (int k) (pre @ (js_padStart k (CHR ''0'') (js_itoa (length v)) @ v) @ post)
      (Some (int (length pre)))
    = (v, Some (int (length pre + k + length v)))"
proof -
  let ?n = "js_padStart k (CHR ''0'') (js_itoa (length v))"
  have n: "length ?n = k" by (rule padded_length [OF assms])
  have a: "nan_slice (pre @ ?n @ v @ post) (Some (int (length pre))) (Some (int (length pre) + int k)) = ?n"
    using nan_slice_mid [of pre _ ?n _ "v @ post"] n by simp
  have b: "nan_slice (pre @ ?n @ v @ post) (Some (int (length pre) + int k))
      (Some (int (length pre) + int k + int (length v))) = v"
    using nan_slice_mid [of "pre @ ?n" _ v _ post] n by simp
  show ?thesis
    unfolding decode_var_def Let_def by (simp add: nan_add_def a parse_padded b)
qed

lemma fd_lengths:
  assumes "iso_field f = Some def"
  shows "0 < fd_length def" "fd_kind def = llvar \<Longrightarrow> fd_length def < 100"
    "fd_kind def = lllvar \<Longrightarrow> fd_length def < 1000" "1 \<le> f" "f \<le> 64 \<or> f = 70"
  using assms by (auto simp: iso_field_def FIELDS_def field_def_def split: if_splits)

lemma decodeField_roundtrip:
  assumes "iso_field f = Some def" "encodeField def v = Inr w"
  shows "decodeField def (pre @ w @ post) (Some (int (length pre)))
    = (iso_normal def v, Some (int (length pre + length w)))"
proof (cases "fd_kind def")
  case fixed
  then have w: "w = take (fd_length def) (js_padEnd (fd_length def) (CHR '' '') v)" "length w = fd_length def"
    using assms(2) by (auto simp: encodeField_def)
  then show ?thesis
    using fixed nan_slice_mid [of pre _ w _ post]
    by (simp add: decodeField_def Let_def nan_add_def iso_normal_def)
next
  case numeric
  then have w: "w = js_last (fd_length def) (js_padStart (fd_length def) (CHR ''0'') (filter is_digit v))"
    "length w = fd_length def"
    using assms(2) by (auto simp: encodeField_def js_last_def)
  then show ?thesis
    using numeric nan_slice_mid [of pre _ w _ post]
    by (simp add: decodeField_def Let_def nan_add_def iso_normal_def)
next
  case llvar
  then have "length v \<le> fd_length def" "w = js_padStart 2 (CHR ''0'') (js_itoa (length v)) @ v"
    using assms(2) by (auto simp: encodeField_def split: if_splits)
  then show ?thesis
    using llvar fd_lengths(2) [OF assms(1)] decode_var_roundtrip [of v 2 pre post]
      padded_length [of "length v" 2]
    by (simp add: decodeField_def Let_def iso_normal_def)
next
  case lllvar
  then have "length v \<le> fd_length def" "w = js_padStart 3 (CHR ''0'') (js_itoa (length v)) @ v"
    using assms(2) by (auto simp: encodeField_def split: if_splits)
  then show ?thesis
    using lllvar fd_lengths(3) [OF assms(1)] decode_var_roundtrip [of v 3 pre post]
      padded_length [of "length v" 3]
    by (simp add: decodeField_def Let_def iso_normal_def)
qed

section \<open>Messages\<close>

definition iso_normal_at :: "(int \<times> string) list \<Rightarrow> int \<Rightarrow> string" where
  "iso_normal_at fvs f =
     (case iso_field f of None \<Rightarrow> [] | Some def \<Rightarrow> iso_normal def (js_default (map_of fvs f) []))"

lemma decode_fields_roundtrip:
  "encode_fields fvs fs = Inr w \<Longrightarrow>
   decode_fields (pre @ w @ post) fs (Some (int (length pre)))
     = Inr (map (\<lambda>f. (f, iso_normal_at fvs f)) fs, Some (int (length pre + length w)))"
proof (induction fs arbitrary: pre w)
  case Nil
  then show ?case by simp
next
  case (Cons f fs)
  from Cons.prems obtain def x r where D: "iso_field f = Some def"
    "encodeField def (js_default (map_of fvs f) []) = Inr x"
    "encode_fields fvs fs = Inr r" "w = x @ r"
    by (auto split: option.splits sum.splits)
  have "decode_fields ((pre @ x) @ r @ post) fs (Some (int (length (pre @ x))))
      = Inr (map (\<lambda>f. (f, iso_normal_at fvs f)) fs, Some (int (length (pre @ x) + length r)))"
    by (rule Cons.IH [OF D(3)])
  with decodeField_roundtrip [OF D(1,2), of pre "r @ post"] D show ?case
    by (simp add: iso_normal_at_def add.assoc)
qed

text \<open>C36: whatever message encodes, decoding its wire text gives the message back in normal form:
  the same MTI and, in ascending order, each field with its value as the field kind carries it.\<close>

theorem iso_message_roundtrip:
  assumes "encodeMessage msg = Inr wire" "length (im_mti msg) = 4" "distinct (map fst (im_fields msg))"
  shows "decodeMessage wire = Inr \<lparr>im_mti = im_mti msg,
    im_fields = map (\<lambda>f. (f, iso_normal_at (im_fields msg) f)) (sort (map fst (im_fields msg)))\<rparr>"
proof -
  let ?fs = "sort (map fst (im_fields msg))"
  obtain bm r where b: "fieldsToBitmap ?fs = Inr bm" and r: "encode_fields (im_fields msg) ?fs = Inr r"
    and w: "wire = im_mti msg @ bm @ r"
    using assms(1) by (auto simp: encodeMessage_def Let_def split: sum.splits)
  have fs: "bitmapToFields bm = Inr ?fs" and l: "length bm = 16"
    using bitmap_roundtrip [OF b] assms(3)
    by (auto simp: distinct_remdups_id sorted_sort_id)
  have "js_slice wire 4 20 = bm" "js_slice wire 0 4 = im_mti msg"
    using js_slice_mid [of "im_mti msg" bm r] js_slice_mid [of "[]" "im_mti msg" "bm @ r"] w l assms(2)
    by simp_all
  moreover have "decode_fields wire ?fs (Some 20)
      = Inr (map (\<lambda>f. (f, iso_normal_at (im_fields msg) f)) ?fs, Some (int (length wire)))"
    using decode_fields_roundtrip [OF r, of "im_mti msg @ bm" "[]"] w l assms(2) by simp
  moreover have "20 \<le> length wire" using w l assms(2) by simp
  ultimately show ?thesis using fs by (simp add: decodeMessage_def)
qed

text \<open>The values a field kind carries without change.\<close>

definition iso_canonical :: "FieldDef \<Rightarrow> string \<Rightarrow> bool" where
  "iso_canonical def v \<longleftrightarrow>
     (case fd_kind def of
        fixed \<Rightarrow> length v \<le> fd_length def \<and> (v = [] \<or> \<not> is_ws (last v))
      | numeric \<Rightarrow> length v = fd_length def \<and> list_all is_digit v
      | _ \<Rightarrow> length v \<le> fd_length def)"

lemma canonical_normal: "iso_canonical def v \<Longrightarrow> iso_normal def v = v"
  by (cases "fd_kind def")
    (auto simp: iso_canonical_def iso_normal_def js_padEnd_def trimEnd_pad js_last_def
      filter_id_conv list_all_iff)

lemma canonical_encodes: "iso_canonical def v \<Longrightarrow> \<exists>w. encodeField def v = Inr w"
  by (cases "fd_kind def") (auto simp: iso_canonical_def encodeField_def)

lemma encode_fields_total:
  assumes "\<forall>f \<in> set fs. \<exists>def. iso_field f = Some def \<and> iso_canonical def (js_default (map_of fvs f) [])"
  shows "\<exists>w. encode_fields fvs fs = Inr w"
  using assms
proof (induction fs)
  case Nil
  then show ?case by simp
next
  case (Cons f fs)
  then obtain def where D: "iso_field f = Some def" "iso_canonical def (js_default (map_of fvs f) [])"
    by auto
  from canonical_encodes [OF D(2)] Cons D(1) show ?case by fastforce
qed

text \<open>A message over the field table (field 70 excepted, which the primary bitmap cannot carry)
  whose values are canonical always encodes, and decodes to itself with its fields in order.\<close>

theorem iso_canonical_roundtrip:
  assumes "length (im_mti msg) = 4" "distinct (map fst (im_fields msg))"
    and "\<forall>(f, v) \<in> set (im_fields msg). f \<noteq> 70 \<and> (\<exists>def. iso_field f = Some def \<and> iso_canonical def v)"
  shows "\<exists>wire. encodeMessage msg = Inr wire
    \<and> decodeMessage wire = Inr (msg\<lparr>im_fields := sort_key fst (im_fields msg)\<rparr>)"
proof -
  let ?fs = "sort (map fst (im_fields msg))"
  have v: "js_default (map_of (im_fields msg) f) [] = v" if "(f, v) \<in> set (im_fields msg)" for f v
    using map_of_is_SomeI [OF assms(2) that] by simp
  have ok: "\<forall>f \<in> set ?fs. \<exists>def. iso_field f = Some def
      \<and> iso_canonical def (js_default (map_of (im_fields msg) f) [])"
    using assms(3) v by fastforce
  then obtain r where r: "encode_fields (im_fields msg) ?fs = Inr r" using encode_fields_total by blast
  have "\<forall>f \<in> set ?fs. 1 \<le> f \<and> f \<le> 64" using assms(3) fd_lengths(4,5) by fastforce
  then obtain bits where "set_bits ?fs (replicate 64 False) = Inr bits" using set_bits_total by blast
  then obtain bm where "fieldsToBitmap ?fs = Inr bm" by (simp add: fieldsToBitmap_def)
  with r obtain wire where w: "encodeMessage msg = Inr wire" by (simp add: encodeMessage_def Let_def)
  have norm: "iso_normal_at (im_fields msg) f = v" if "(f, v) \<in> set (im_fields msg)" for f v
    using that assms(3) v [OF that] canonical_normal by (fastforce simp: iso_normal_at_def)
  have "distinct (map fst (sort_key fst (im_fields msg)))" using assms(2) by (simp add: distinct_map)
  then have sk: "map fst (sort_key fst (im_fields msg)) = ?fs"
    using assms(2) by (intro sorted_distinct_set_unique) simp_all
  have "map (\<lambda>f. (f, iso_normal_at (im_fields msg) f)) ?fs = sort_key fst (im_fields msg)"
    unfolding sk [symmetric] map_map comp_def
    by (rule map_idI) (use norm in auto)
  with iso_message_roundtrip [OF w assms(1,2)] w show ?thesis by simp
qed

section \<open>Amounts and trace numbers\<close>

lemma padded_digits: "list_all is_digit (js_padStart k (CHR ''0'') (js_itoa n))"
  by (rule padStart_digits [OF js_itoa_digits])

text \<open>A trace number is always six digits and determines the counter exactly modulo a million:
  two counters share a trace number precisely when they agree modulo 1000000.\<close>

theorem formatStan_wraps:
  "length (formatStan n) = 6 \<and> list_all is_digit (formatStan n)
   \<and> js_parseInt 10 (formatStan n) = Some (int (n mod 1000000))
   \<and> (formatStan m = formatStan n \<longleftrightarrow> m mod 1000000 = n mod 1000000)"
proof -
  have "n mod 1000000 < 10 ^ 6" by simp
  then have "length (formatStan n) = 6" unfolding formatStan_def by (rule padded_length) simp
  moreover have "js_parseInt 10 (formatStan k) = Some (int (k mod 1000000))" for k
    by (simp add: formatStan_def parse_padded)
  ultimately show ?thesis by (auto simp: formatStan_def padded_digits)
      (metis formatStan_def option.inject parse_padded of_nat_eq_iff)
qed

text \<open>An amount below 10^12 is printed in exactly twelve digits that read back as the amount;
  a negative amount is refused.\<close>

theorem formatAmount_fixed_width:
  "(a < 0 \<longrightarrow> formatAmount a = Inl NegativeAmount)
   \<and> (0 \<le> a \<longrightarrow> a < 10 ^ 12 \<longrightarrow>
       (\<exists>s. formatAmount a = Inr s \<and> length s = 12 \<and> list_all is_digit s \<and> js_parseInt 10 s = Some a))"
proof (intro conjI impI)
  assume "0 \<le> a" "a < 10 ^ 12"
  then have "nat a < 10 ^ 12" by (simp add: nat_less_iff)
  then have "length (js_padStart 12 (CHR ''0'') (js_itoa (nat a))) = 12" by (rule padded_length) simp
  then show "\<exists>s. formatAmount a = Inr s \<and> length s = 12 \<and> list_all is_digit s \<and> js_parseInt 10 s = Some a"
    using \<open>0 \<le> a\<close> padded_digits [of 12 "nat a"] parse_padded [of 12 "nat a"]
    by (simp add: formatAmount_def js_int_to_string_def)
qed (simp add: formatAmount_def)

text \<open>The field table lists field 70, but no message that carries it can be encoded: the primary
  bitmap ends at 64.\<close>

theorem iso_field70_unencodable:
  assumes "70 \<in> fst ` set (im_fields msg)"
  shows "iso_field 70 \<noteq> None \<and> (\<exists>e. encodeMessage msg = Inl e)"
proof -
  have "\<exists>e. fieldsToBitmap fs = Inl e" if "70 \<in> set fs" for fs
    using that set_bits_spec [of fs "replicate 64 False"]
    by (cases "set_bits fs (replicate 64 False)") (force simp: fieldsToBitmap_def)+
  from this [of "sort (map fst (im_fields msg))"] assms show ?thesis
    by (auto simp: encodeMessage_def Let_def iso_field_def FIELDS_def field_def_def)
qed

section \<open>Witnesses\<close>

definition iso_sample :: IsoMessage where
  "iso_sample = \<lparr>im_mti = ''0200'', im_fields = [(11, ''000042''), (4, ''000000100000''), (39, ''00'')]\<rparr>"

lemma iso_sample_canonical:
  "\<forall>(f, v) \<in> set (im_fields iso_sample).
     f \<noteq> 70 \<and> (\<exists>def. iso_field f = Some def \<and> iso_canonical def v)"
  by (simp add: iso_sample_def iso_field_def FIELDS_def field_def_def iso_canonical_def is_digit_def
      is_ws_def)

lemma iso_canonical_roundtrip_witness:
  "\<exists>wire. encodeMessage iso_sample = Inr wire
    \<and> decodeMessage wire = Inr (iso_sample\<lparr>im_fields := sort_key fst (im_fields iso_sample)\<rparr>)"
  by (rule iso_canonical_roundtrip [OF _ _ iso_sample_canonical]) (simp_all add: iso_sample_def)

lemma iso_message_roundtrip_witness:
  "\<exists>wire out. encodeMessage iso_sample = Inr wire \<and> decodeMessage wire = Inr out
    \<and> im_mti out = ''0200''"
proof -
  obtain wire where w: "encodeMessage iso_sample = Inr wire"
    using iso_canonical_roundtrip [OF _ _ iso_sample_canonical] by (auto simp: iso_sample_def)
  show ?thesis
    using iso_message_roundtrip [OF w] w by (auto simp: iso_sample_def)
qed

lemma iso_field70_unencodable_witness:
  "\<exists>e. encodeMessage \<lparr>im_mti = ''0800'', im_fields = [(70, ''301'')]\<rparr> = Inl e"
  using iso_field70_unencodable [of "\<lparr>im_mti = ''0800'', im_fields = [(70, ''301'')]\<rparr>"] by simp

lemma formatAmount_fixed_width_witness:
  "\<exists>s. formatAmount 100000 = Inr s \<and> length s = 12 \<and> js_parseInt 10 s = Some 100000"
  using formatAmount_fixed_width [of 100000] by auto

end
