(* ===== verification/Iso_Switches.thy ===== *)
theory Iso_Switches
  imports Iso8583
begin

text \<open>
  Message types, response codes (\<^verbatim>\<open>packages/iso8583/src/index.ts\<close>) and the Indonesian switch
  profiles with their BIN routing (\<^verbatim>\<open>packages/iso8583/src/switches.ts\<close>). Object lookups are of
  own properties.
\<close>

section \<open>Message types and response codes\<close>

datatype IsoMti =
    AUTH_REQUEST | FINANCIAL_REQUEST | FINANCIAL_RESPONSE | REVERSAL | REVERSAL_RESPONSE
  | NETWORK_MGMT | NETWORK_MGMT_RESPONSE

fun mti_code :: "IsoMti \<Rightarrow> string" where
  "mti_code AUTH_REQUEST = ''0100''"
| "mti_code FINANCIAL_REQUEST = ''0200''"
| "mti_code FINANCIAL_RESPONSE = ''0210''"
| "mti_code REVERSAL = ''0400''"
| "mti_code REVERSAL_RESPONSE = ''0410''"
| "mti_code NETWORK_MGMT = ''0800''"
| "mti_code NETWORK_MGMT_RESPONSE = ''0810''"

definition IsoResponseCode :: "(string \<times> string) list" where
  "IsoResponseCode =
     [(''APPROVED'', ''00''),
      (''REFER_TO_ISSUER'', ''01''),
      (''INVALID_TRANSACTION'', ''12''),
      (''INVALID_AMOUNT'', ''13''),
      (''INVALID_CARD'', ''14''),
      (''NO_SUCH_ISSUER'', ''15''),
      (''FORMAT_ERROR'', ''30''),
      (''SUSPECT_FRAUD'', ''34''),
      (''RESTRICTED_CARD'', ''36''),
      (''PIN_TRIES_EXCEEDED'', ''38''),
      (''NO_INVESTMENT_ACCOUNT'', ''39''),
      (''LOST_CARD'', ''41''),
      (''STOLEN_CARD'', ''43''),
      (''NOT_SUFFICIENT_FUNDS'', ''51''),
      (''EXPIRED_CARD'', ''54''),
      (''INCORRECT_PIN'', ''55''),
      (''NO_CARD_RECORD'', ''56''),
      (''EXCEEDS_WITHDRAWAL_LIMIT'', ''61''),
      (''CARD_BLOCKED'', ''62''),
      (''SECURITY_VIOLATION'', ''63''),
      (''ISSUER_UNAVAILABLE'', ''91''),
      (''SYSTEM_MALFUNCTION'', ''96'')]"

definition isApproved :: "string \<Rightarrow> bool" where
  "isApproved code \<longleftrightarrow> code = ''00''"

definition js_lower_char :: "char \<Rightarrow> char" where
  [js_defs]: "js_lower_char c =
     (if 65 \<le> char_code c \<and> char_code c \<le> 90 then char_of (char_code c + 32) else c)"

definition describeResponseCode :: "string \<Rightarrow> string" where
  "describeResponseCode code =
     (case find (\<lambda>kv. snd kv = code) IsoResponseCode of
        Some (k, _) \<Rightarrow> map (\<lambda>c. if c = CHR ''_'' then CHR '' '' else js_lower_char c) k
      | None \<Rightarrow> ''Unknown ('' @ code @ '')'')"

section \<open>Switch profiles\<close>

datatype IsoSwitchId = JALIN | ATM_BERSAMA | PRIMA | BIFAST

datatype mti_variant = V1987 | V1993 | VBIFAST

record IsoSwitchProfile =
  sp_id :: IsoSwitchId
  sp_name :: string
  sp_binPrefixes :: "string list"
  sp_mtiVariant :: mti_variant
  sp_terminalIdPrefix :: string
  sp_cardAcceptorId :: string
  sp_currencyCode :: string
  sp_echoIntervalSec :: nat
  sp_extraResponseCodes :: "(string \<times> string) list"
  sp_defaultDailyLimitIdr :: int
  sp_maxWithdrawalIdr :: int

definition JALIN_PROFILE :: IsoSwitchProfile where
  "JALIN_PROFILE =
     \<lparr>sp_id = JALIN, sp_name = ''Jalin'',
      sp_binPrefixes = [''4097'', ''4339'', ''4567'', ''5436'', ''5520''],
      sp_mtiVariant = V1987, sp_terminalIdPrefix = ''JLN'', sp_cardAcceptorId = ''JALIN ATM IDN'',
      sp_currencyCode = ''360'', sp_echoIntervalSec = 60,
      sp_extraResponseCodes = [(''X1'', ''Issuer timeout (Jalin private)''),
                               (''X2'', ''Switch-internal routing failure'')],
      sp_defaultDailyLimitIdr = 10000000, sp_maxWithdrawalIdr = 5000000\<rparr>"

definition ATM_BERSAMA_PROFILE :: IsoSwitchProfile where
  "ATM_BERSAMA_PROFILE =
     \<lparr>sp_id = ATM_BERSAMA, sp_name = ''ATM Bersama'',
      sp_binPrefixes = [''4577'', ''4585'', ''4365''],
      sp_mtiVariant = V1987, sp_terminalIdPrefix = ''ATB'', sp_cardAcceptorId = ''ATM BERSAMA IDN'',
      sp_currencyCode = ''360'', sp_echoIntervalSec = 30,
      sp_extraResponseCodes = [(''A1'', ''Acquirer timeout (ATMB private)''),
                               (''A2'', ''Member bank not on network'')],
      sp_defaultDailyLimitIdr = 10000000, sp_maxWithdrawalIdr = 3000000\<rparr>"

definition PRIMA_PROFILE :: IsoSwitchProfile where
  "PRIMA_PROFILE =
     \<lparr>sp_id = PRIMA, sp_name = ''Prima'', sp_binPrefixes = [''4263'', ''5264''],
      sp_mtiVariant = V1987, sp_terminalIdPrefix = ''PRM'', sp_cardAcceptorId = ''PRIMA NETWORK ID'',
      sp_currencyCode = ''360'', sp_echoIntervalSec = 45,
      sp_extraResponseCodes = [(''P1'', ''Member offline (Prima private)''),
                               (''P2'', ''Daily settlement window closed'')],
      sp_defaultDailyLimitIdr = 10000000, sp_maxWithdrawalIdr = 5000000\<rparr>"

definition BIFAST_PROFILE :: IsoSwitchProfile where
  "BIFAST_PROFILE =
     \<lparr>sp_id = BIFAST, sp_name = ''BI-FAST'', sp_binPrefixes = [''4368'', ''5263''],
      sp_mtiVariant = VBIFAST, sp_terminalIdPrefix = ''BIF'', sp_cardAcceptorId = ''BI-FAST ID'',
      sp_currencyCode = ''360'', sp_echoIntervalSec = 15,
      sp_extraResponseCodes = [(''BF01'', ''BI-FAST routing rejected by central node''),
                               (''BF02'', ''Daily transaction count exceeded''),
                               (''BF03'', ''Beneficiary bank not registered'')],
      sp_defaultDailyLimitIdr = 250000000, sp_maxWithdrawalIdr = 250000000\<rparr>"

definition ALL_SWITCH_PROFILES :: "IsoSwitchProfile list" where
  "ALL_SWITCH_PROFILES = [JALIN_PROFILE, ATM_BERSAMA_PROFILE, PRIMA_PROFILE, BIFAST_PROFILE]"

definition getDefaultSwitch :: IsoSwitchProfile where
  "getDefaultSwitch = JALIN_PROFILE"

definition getSwitchByPan :: "string \<Rightarrow> IsoSwitchProfile" where
  "getSwitchByPan pan =
     (if length pan < 4 then getDefaultSwitch
      else
        (case find (\<lambda>p. list_ex (\<lambda>prefix. js_startsWith pan prefix) (sp_binPrefixes p))
                ALL_SWITCH_PROFILES of
           Some p \<Rightarrow> p
         | None \<Rightarrow> getDefaultSwitch))"

fun switch_id_code :: "IsoSwitchId \<Rightarrow> string" where
  "switch_id_code JALIN = ''JALIN''"
| "switch_id_code ATM_BERSAMA = ''ATM_BERSAMA''"
| "switch_id_code PRIMA = ''PRIMA''"
| "switch_id_code BIFAST = ''BIFAST''"

definition getSwitchById :: "string \<Rightarrow> iso_error + IsoSwitchProfile" where
  "getSwitchById i =
     (case find (\<lambda>p. switch_id_code (sp_id p) = i) ALL_SWITCH_PROFILES of
        Some p \<Rightarrow> Inr p
      | None \<Rightarrow> Inl (UnknownSwitch i))"

definition describeSwitchResponseCode :: "IsoSwitchProfile \<Rightarrow> string \<Rightarrow> string" where
  "describeSwitchResponseCode p code =
     (case map_of (sp_extraResponseCodes p) code of
        Some txt \<Rightarrow> ''['' @ sp_name p @ ''] '' @ txt
      | None \<Rightarrow> describeResponseCode code)"

definition isLegacyIso :: "IsoSwitchProfile \<Rightarrow> bool" where
  "isLegacyIso p \<longleftrightarrow> sp_mtiVariant p = V1987"

section \<open>Routing is unambiguous\<close>

lemmas switch_profile_defs =
  ALL_SWITCH_PROFILES_def JALIN_PROFILE_def ATM_BERSAMA_PROFILE_def PRIMA_PROFILE_def
  BIFAST_PROFILE_def getDefaultSwitch_def

lemma bin_prefixes:
  "sp_binPrefixes JALIN_PROFILE = [''4097'', ''4339'', ''4567'', ''5436'', ''5520'']"
  "sp_binPrefixes ATM_BERSAMA_PROFILE = [''4577'', ''4585'', ''4365'']"
  "sp_binPrefixes PRIMA_PROFILE = [''4263'', ''5264'']"
  "sp_binPrefixes BIFAST_PROFILE = [''4368'', ''5263'']"
  by (simp_all add: switch_profile_defs)

lemma bin_prefix_length:
  "p \<in> set ALL_SWITCH_PROFILES \<Longrightarrow> prefix \<in> set (sp_binPrefixes p) \<Longrightarrow> length prefix = 4"
  by (auto simp: ALL_SWITCH_PROFILES_def bin_prefixes)

lemma bin_prefix_unique:
  "p \<in> set ALL_SWITCH_PROFILES \<Longrightarrow> q \<in> set ALL_SWITCH_PROFILES \<Longrightarrow>
   prefix \<in> set (sp_binPrefixes p) \<Longrightarrow> prefix \<in> set (sp_binPrefixes q) \<Longrightarrow> p = q"
  unfolding ALL_SWITCH_PROFILES_def list.set
  by (elim insertE emptyE) (auto simp: bin_prefixes)

text \<open>BIN routing does not depend on the order of the profiles: whenever a PAN starts with a
  prefix of some profile, that profile is the one it is routed to, and a PAN no profile claims
  goes to the default.\<close>

theorem switch_routing_unique:
  assumes "p \<in> set ALL_SWITCH_PROFILES"
  shows "((\<exists>prefix \<in> set (sp_binPrefixes p). js_startsWith pan prefix) \<longrightarrow> getSwitchByPan pan = p)
    \<and> ((\<forall>q \<in> set ALL_SWITCH_PROFILES. \<forall>prefix \<in> set (sp_binPrefixes q). \<not> js_startsWith pan prefix)
        \<longrightarrow> getSwitchByPan pan = getDefaultSwitch)"
proof (intro conjI impI, elim bexE)
  fix prefix assume P: "prefix \<in> set (sp_binPrefixes p)" "js_startsWith pan prefix"
  have t: "take 4 pan = prefix"
    using P bin_prefix_length [OF assms P(1)] by (simp add: js_startsWith_def)
  then have len: "\<not> length pan < 4"
    using bin_prefix_length [OF assms P(1)] by auto
  let ?Q = "\<lambda>p. list_ex (\<lambda>prefix. js_startsWith pan prefix) (sp_binPrefixes p)"
  have only: "q = p" if q: "q \<in> set ALL_SWITCH_PROFILES" and claims: "?Q q" for q
  proof -
    obtain pr where pr: "pr \<in> set (sp_binPrefixes q)" "js_startsWith pan pr"
      using claims by (auto simp: list_ex_iff)
    then have "pr = prefix"
      using t bin_prefix_length [OF q pr(1)] by (simp add: js_startsWith_def)
    then show ?thesis using bin_prefix_unique [OF q assms] pr(1) P(1) by simp
  qed
  have "?Q p" using P by (auto simp: list_ex_iff)
  then obtain q where "find ?Q ALL_SWITCH_PROFILES = Some q"
    using assms by (metis find_None_iff option.exhaust)
  moreover from this have "q = p" using only by (auto simp: find_Some_iff)
  ultimately show "getSwitchByPan pan = p" using len by (simp add: getSwitchByPan_def)
next
  assume "\<forall>q \<in> set ALL_SWITCH_PROFILES. \<forall>prefix \<in> set (sp_binPrefixes q). \<not> js_startsWith pan prefix"
  then have "find (\<lambda>p. list_ex (\<lambda>prefix. js_startsWith pan prefix) (sp_binPrefixes p)) ALL_SWITCH_PROFILES = None"
    by (auto simp: find_None_iff list_ex_iff)
  then show "getSwitchByPan pan = getDefaultSwitch" by (simp add: getSwitchByPan_def)
qed

lemma switch_routing_unique_witness:
  "getSwitchByPan ''4365123456789012'' = ATM_BERSAMA_PROFILE"
  using switch_routing_unique [of ATM_BERSAMA_PROFILE "''4365123456789012''"]
  by (simp add: ALL_SWITCH_PROFILES_def ATM_BERSAMA_PROFILE_def js_startsWith_def)

end
