(* ===== verification/Emv_Tlv.thy ===== *)
theory Emv_Tlv
  imports Js_Bytes "HOL-Library.Word"
begin

text \<open>
  APDU parsing and the BER-TLV codec (\<^verbatim>\<open>packages/emv/src/apdu.ts\<close>, \<^verbatim>\<open>packages/emv/src/tlv.ts\<close>).
  A \<open>Uint8Array\<close> is a list of 8-bit words; the decoded length is a signed 32-bit number, as
  JavaScript's shift and or compute it. \<open>decodeTlv\<close> is a partial function: \<^const>\<open>None\<close> is a
  loop that never ends.
\<close>

unbundle bit_operations_syntax

type_synonym byte = "8 word"

datatype emv_error =
    OddHex nat
  | InvalidHex nat string
  | ApduTooShort nat
  | ApduTruncated nat nat
  | TlvTooLong nat
  | TlvTruncated
  | TlvBadLengthEncoding
  | TlvOutOfRange int
  | ChipNotPowered
  | InvalidPan
  | InvalidExpiry

section \<open>Hexadecimal\<close>

fun hex_pairs :: "nat \<Rightarrow> string \<Rightarrow> emv_error + byte list" where
  "hex_pairs pos (a # b # r) =
     (case js_parseInt 16 [a, b] of
        None \<Rightarrow> Inl (InvalidHex pos [a, b])
      | Some v \<Rightarrow>
          (case hex_pairs (pos + 2) r of
             Inl e \<Rightarrow> Inl e
           | Inr bs \<Rightarrow> Inr (word_of_int v # bs)))"
| "hex_pairs pos _ = Inr []"

definition hexToBytes :: "string \<Rightarrow> emv_error + byte list" where
  "hexToBytes hex =
     (let cleaned = filter (\<lambda>c. \<not> is_ws c) hex
      in if odd (length cleaned) then Inl (OddHex (length cleaned)) else hex_pairs 0 cleaned)"

definition bytesToHex :: "byte list \<Rightarrow> string" where
  "bytesToHex bs = concat (map (\<lambda>b. [hex_char (unat b div 16), hex_char (unat b mod 16)]) bs)"

section \<open>APDU\<close>

record ParsedApdu =
  ap_cla :: byte
  ap_ins :: byte
  ap_p1 :: byte
  ap_p2 :: byte
  ap_lc :: nat
  ap_data :: "byte list"
  ap_le :: nat

definition parseApdu :: "byte list \<Rightarrow> emv_error + ParsedApdu" where
  "parseApdu bytes =
     (if length bytes < 4 then Inl (ApduTooShort (length bytes))
      else
        (let a = \<lparr>ap_cla = bytes ! 0, ap_ins = bytes ! 1, ap_p1 = bytes ! 2, ap_p2 = bytes ! 3,
                  ap_lc = 0, ap_data = [], ap_le = 0\<rparr>
         in if length bytes = 4 then Inr a
            else if length bytes = 5 then Inr (a\<lparr>ap_le := unat (bytes ! 4)\<rparr>)
            else
              (let lc = unat (bytes ! 4)
               in if length bytes < 5 + lc then Inl (ApduTruncated lc (length bytes - 5))
                  else Inr (a\<lparr>ap_lc := lc, ap_data := take lc (drop 5 bytes),
                             ap_le := (if length bytes = 5 + lc then 0 else unat (bytes ! (5 + lc)))\<rparr>))))"

section \<open>Encoding\<close>

definition encodeLength :: "nat \<Rightarrow> emv_error + byte list" where
  "encodeLength n =
     (if n < 128 then Inr [of_nat n]
      else if n < 256 then Inr [0x81, of_nat n]
      else if n < 65536 then Inr [0x82, of_nat (n div 256 mod 256), of_nat (n mod 256)]
      else Inl (TlvTooLong n))"

definition encodeTlv :: "string \<Rightarrow> byte list \<Rightarrow> emv_error + byte list" where
  "encodeTlv tagHex valueBytes =
     (case hexToBytes tagHex of
        Inl e \<Rightarrow> Inl e
      | Inr tagBytes \<Rightarrow>
          (case encodeLength (length valueBytes) of
             Inl e \<Rightarrow> Inl e
           | Inr lengthBytes \<Rightarrow> Inr (tagBytes @ lengthBytes @ valueBytes)))"

text \<open>With the value given as a hexadecimal string.\<close>

definition encodeTlv_hex :: "string \<Rightarrow> string \<Rightarrow> emv_error + byte list" where
  "encodeTlv_hex tagHex value =
     (case hexToBytes value of Inl e \<Rightarrow> Inl e | Inr bs \<Rightarrow> encodeTlv tagHex bs)"

definition encodeTemplate :: "string \<Rightarrow> byte list list \<Rightarrow> emv_error + byte list" where
  "encodeTemplate tagHex children = encodeTlv tagHex (concat children)"

section \<open>Decoding\<close>

datatype TlvNode =
  TlvNode (tn_tag: string) (tn_length: int) (tn_value: "byte list") (tn_children: "TlvNode list")
    (tn_isConstructed: bool)

definition byte_at :: "byte list \<Rightarrow> int \<Rightarrow> byte option" where
  "byte_at bs i = (if 0 \<le> i \<and> i < int (length bs) then Some (bs ! nat i) else None)"

text \<open>The offset after the continuation bytes of a tag.\<close>

function skip_tag :: "byte list \<Rightarrow> int \<Rightarrow> int" where
  "skip_tag bs i =
     (if i < int (length bs) \<and> js_default (byte_at bs i) 0 AND 0x80 = 0x80
      then skip_tag bs (i + 1) else i)"
  by auto
termination by (relation "measure (\<lambda>(bs, i). nat (int (length bs) - i))") auto

fun read_length :: "nat \<Rightarrow> byte list \<Rightarrow> int \<Rightarrow> 32 word \<Rightarrow> emv_error + (32 word \<times> int)" where
  "read_length 0 bs i n = Inr (n, i)"
| "read_length (Suc k) bs i n =
     (case byte_at bs i of
        None \<Rightarrow> Inl TlvTruncated
      | Some b \<Rightarrow> read_length k bs (i + 1) (push_bit 8 n OR ucast b))"

text \<open>The header of a node at an offset: the first tag byte, the tag, the length and the offset of
  the value.\<close>

definition tlv_header :: "byte list \<Rightarrow> int \<Rightarrow> emv_error + (byte \<times> string \<times> int \<times> int)" where
  "tlv_header bs i =
     (case byte_at bs i of
        None \<Rightarrow> Inl TlvTruncated
      | Some b \<Rightarrow>
          (let o1 = (if b AND 0x1F = 0x1F then skip_tag bs (i + 1) + 1 else i + 1);
               tag = bytesToHex (js_slice bs i o1)
           in case byte_at bs o1 of
                None \<Rightarrow> Inl TlvTruncated
              | Some l \<Rightarrow>
                  if l < 0x80 then Inr (b, tag, uint l, o1 + 1)
                  else
                    (let k = unat (l AND 0x7F)
                     in if k = 0 \<or> 4 < k then Inl TlvBadLengthEncoding
                        else (case read_length k bs (o1 + 1) 0 of
                                Inl e \<Rightarrow> Inl e
                              | Inr (n, o2) \<Rightarrow> Inr (b, tag, sint n, o2)))))"

partial_function (option) tlv_loop :: "byte list \<Rightarrow> int \<Rightarrow> (emv_error + TlvNode list) option" where
  "tlv_loop bs i =
     (if int (length bs) \<le> i then Some (Inr [])
      else
        (case tlv_header bs i of
           Inl e \<Rightarrow> Some (Inl e)
         | Inr (b, tag, len, v) \<Rightarrow>
             if int (length bs) < v + len then Some (Inl (TlvOutOfRange len))
             else
               (let val = js_slice bs v (v + len); con = (b AND 0x20 = 0x20)
                in Option.bind (if con then tlv_loop val 0 else Some (Inr []))
                     (\<lambda>cs. case cs of
                        Inl e \<Rightarrow> Some (Inl e)
                      | Inr children \<Rightarrow>
                          Option.bind (tlv_loop bs (v + len))
                            (\<lambda>rest. Some (map_sum id (\<lambda>ns. TlvNode tag len val children con # ns) rest))))))"

definition decodeTlv :: "byte list \<Rightarrow> (emv_error + TlvNode list) option" where
  "decodeTlv bs = tlv_loop bs 0"

function findTag :: "TlvNode list \<Rightarrow> string \<Rightarrow> TlvNode option" where
  "findTag [] tag = None"
| "findTag (n # ns) tag =
     (if tn_tag n = js_toUpperCase tag then Some n
      else
        (case (if tn_isConstructed n then findTag (tn_children n) tag else None) of
           Some c \<Rightarrow> Some c
         | None \<Rightarrow> findTag ns tag))"
  by pat_completeness auto
termination
proof (relation "measure (\<lambda>(ns, t). size_list size ns)")
  show "((tn_children n, t), n # ns, t) \<in> measure (\<lambda>(ns, t). size_list size ns)" for n ns t
    by (cases n) simp
qed simp_all

section \<open>Hexadecimal round trip\<close>

lemma hex_char_neq: "x < 16 \<Longrightarrow> hex_digit c = None \<Longrightarrow> hex_char x \<noteq> c"
  by (metis hex_digit_hex_char option.distinct(1))

lemma parse_hex_pair:
  assumes "x < 16" "y < 16"
  shows "js_parseInt 16 [hex_char x, hex_char y] = Some (int (16 * x + y))"
proof -
  have sign: "split_sign [hex_char x, hex_char y] = (1, [hex_char x, hex_char y])"
    using hex_char_neq [OF assms(1)] by (simp add: split_sign_def hex_digit_def)
  have x: "hex_char y \<noteq> CHR ''x''" "hex_char y \<noteq> CHR ''X''"
    using hex_char_neq [OF assms(2)] by (simp_all add: hex_digit_def)
  show ?thesis
    using assms x by (simp add: js_parseInt_def sign Let_def radix_ok_def radix_digit_def)
qed

lemma hexToBytes_bytesToHex [simp]: "hexToBytes (bytesToHex bs) = Inr bs"
proof -
  have lt: "unat (b::byte) < 256" for b
    using unsigned_less [where 'a = nat, of b] by simp
  then have nib: "unat (b::byte) div 16 < 16" for b by (simp add: less_mult_imp_div_less)
  have ws: "filter (\<lambda>c. \<not> is_ws c) (bytesToHex bs) = bytesToHex bs"
    by (rule filter_True) (auto simp: bytesToHex_def nib)
  have len: "even (length (bytesToHex bs))" by (induction bs) (simp_all add: bytesToHex_def)
  have "hex_pairs pos (bytesToHex bs) = Inr bs" for pos
  proof (induction bs arbitrary: pos)
    case Nil
    then show ?case by (simp add: bytesToHex_def)
  next
    case (Cons b bs)
    have "word_of_int (int (16 * (unat b div 16) + unat b mod 16)) = b" by simp
    then show ?case using Cons [of "pos + 2"] nib [of b]
      by (simp add: bytesToHex_def parse_hex_pair del: of_nat_add of_nat_mult)
  qed
  then show ?thesis using len by (simp add: hexToBytes_def ws Let_def)
qed

end
