(* ===== verification/Emv_Tlv_Props.thy ===== *)
theory Emv_Tlv_Props
  imports Emv_Tlv
begin

text \<open>
  Correctness of the TLV codec: well-formed trees decode from their encoding to themselves,
  decoding ends on every input of which it reads no negative length, and does not end on an input
  with one.
\<close>

section \<open>Lengths\<close>

lemma push_or_uint:
  fixes n :: "32 word" and b :: byte
  assumes "uint n < 2 ^ 24"
  shows "uint (push_bit 8 n OR ucast b) = uint n * 256 + uint b"
proof -
  have b: "uint b < 256" using uint_bounded [of b] by simp
  have disj: "push_bit 8 n AND ucast b = 0"
    by (rule bit_word_eqI) (auto simp: bit_simps dest: bit_imp_le_length)
  have "push_bit 8 n OR ucast b = push_bit 8 n + (ucast b :: 32 word)"
    using disj by (simp add: disjunctive_add_eq_or)
  also have "uint \<dots> = uint n * 256 + uint b"
    using assms b by (simp add: uint_word_ariths push_bit_eq_mult uint_up_ucast is_up)
  finally show ?thesis .
qed

lemma sint_small: "uint (n :: 32 word) < 2 ^ 31 \<Longrightarrow> sint n = uint n"
  by (simp add: sint_uint, rule signed_take_bit_int_eq_self)
     (auto intro: order_trans [OF _ uint_nonnegative])


section \<open>Termination\<close>



declare skip_tag.simps [simp del]



lemma and_7F:
  fixes l :: byte
  assumes "\<not> l < 0x80"
  shows "l = word_of_nat (128 + unat (l AND 0x7F))"
proof -
  have m: "l AND 0x7F = take_bit 7 l" by (simp add: take_bit_eq_mask mask_numeral)
  have l: "unat l < 256" "128 \<le> unat l"
    using unsigned_less [where 'a = nat, of l] assms by (simp_all add: word_less_nat_alt)
  have "unat (take_bit 7 l) = take_bit 7 (unat l)" by (rule unsigned_take_bit_eq)
  also have "\<dots> = unat l mod 128" by (simp add: take_bit_eq_mod)
  also have "\<dots> = unat l - 128"
  proof -
    obtain k where k: "unat l = 128 + k" using l(2) le_Suc_ex by blast
    with l(1) show ?thesis by simp
  qed
  finally show ?thesis using l m by simp
qed







section \<open>An endless input\<close>

definition tlv_bad :: "byte list" where
  "tlv_bad = [0x5A, 0x84, 0xFF, 0xFF, 0xFF, 0xFA]"

lemma tlv_bad_header: "tlv_header tlv_bad 0 = Inr (0x5A, ''5A'', - 6, 6)"
  by code_simp

text \<open>Decoding does not end on the six bytes 5A 84 FF FF FF FA: the length reads as -6, which
  passes the range check and moves the offset back to the start.\<close>

theorem decodeTlv_diverges: "decodeTlv [0x5A, 0x84, 0xFF, 0xFF, 0xFF, 0xFA] = None"
proof -
  have "\<not> (bs = tlv_bad \<and> i = 0)" if run: "tlv_loop bs i = Some r" for bs i r
  proof (rule tlv_loop.raw_induct [OF _ run, where P = "\<lambda>bs i r. \<not> (bs = tlv_bad \<and> i = 0)"], goal_cases)
    case (1 loop bs i r)
    have again: "loop tlv_bad 0 = None" using 1(1) [of tlv_bad 0] by (cases "loop tlv_bad 0") auto
    have "length tlv_bad = 6" by (simp add: tlv_bad_def)
    with 1(2) tlv_bad_header again show ?case
      by (auto simp: Let_def split: if_splits bind_splits sum.splits)
  qed
  then have "tlv_loop tlv_bad 0 \<noteq> Some r" for r by blast
  then show ?thesis
    by (cases "tlv_loop tlv_bad 0") (simp_all add: decodeTlv_def tlv_bad_def)
qed

section \<open>Round trip\<close>

text \<open>A tag is one byte, or a byte with its five low bits set, continuation bytes and a last byte.\<close>

definition tag_ok :: "byte list \<Rightarrow> bool" where
  "tag_ok tb \<longleftrightarrow>
     (case tb of
        [] \<Rightarrow> False
      | b # r \<Rightarrow>
          if b AND 0x1F = 0x1F
          then r \<noteq> [] \<and> last r AND 0x80 \<noteq> 0x80 \<and> list_all (\<lambda>x. x AND 0x80 = 0x80) (butlast r)
          else r = [])"

definition tlv_encode :: "TlvNode list \<Rightarrow> byte list" where
  "tlv_encode ns = concat (map (\<lambda>n.
     case encodeTlv (tn_tag n) (tn_value n) of Inr w \<Rightarrow> w | Inl _ \<Rightarrow> []) ns)"

text \<open>A tree as \<open>encodeTlv\<close> and \<open>encodeTemplate\<close> build it: a template's value is the encoding of
  its children.\<close>

fun tlv_ok :: "TlvNode \<Rightarrow> bool" where
  "tlv_ok (TlvNode tag len val cs con) \<longleftrightarrow>
     (case hexToBytes tag of
        Inl _ \<Rightarrow> False
      | Inr tb \<Rightarrow> tag_ok tb \<and> tag = bytesToHex tb \<and> (con \<longleftrightarrow> hd tb AND 0x20 = 0x20))
     \<and> len = int (length val) \<and> length val < 65536
     \<and> (if con then list_all tlv_ok cs \<and> val = tlv_encode cs else cs = [])"

lemma byte_at_app [simp]:
  "byte_at (pre @ b # post) (int (length pre)) = Some b"
  by (simp add: byte_at_def)

lemma byte_at_app': "int (length pre) = i \<Longrightarrow> byte_at (pre @ b # post) i = Some b"
  using byte_at_app by blast

lemma skip_tag_app:
  assumes "list_all (\<lambda>x. x AND 0x80 = 0x80) mid" "l AND 0x80 \<noteq> 0x80"
  shows "skip_tag (pre @ mid @ l # post) (int (length pre)) = int (length pre + length mid)"
  using assms(1)
proof (induction mid arbitrary: pre)
  case Nil
  then show ?case using assms(2) by (subst skip_tag.simps) simp
next
  case (Cons m mid)
  have "skip_tag ((pre @ [m]) @ mid @ l # post) (int (length (pre @ [m])))
      = int (length (pre @ [m]) + length mid)"
    using Cons.prems by (intro Cons.IH) simp
  then show ?case using Cons.prems by (subst skip_tag.simps) (simp add: algebra_simps)
qed

lemma uint_byte: "n < 256 \<Longrightarrow> uint (of_nat n :: byte) = int n"
  by (simp add: unsigned_of_nat take_bit_nat_eq_self)

text \<open>The length bytes, read back wherever they stand.\<close>

lemma read_encoded_length:
  assumes "encodeLength n = Inr lb"
  obtains (short) b where "lb = [b]" "b < 0x80" "uint b = int n"
  | (long) c bs where "lb = c # bs" "\<not> c < 0x80" "0 < length bs" "length bs \<le> 2"
      "unat (c AND 0x7F) = length bs"
      "\<And>pre post. \<exists>w. read_length (length bs) (pre @ bs @ post) (int (length pre)) 0
         = Inr (w, int (length pre + length bs)) \<and> sint w = int n"
proof -
  consider "n < 128" | "128 \<le> n" "n < 256" | "256 \<le> n" "n < 65536"
    using assms by (cases "n < 65536") (auto simp: encodeLength_def split: if_splits)
  then show thesis
  proof cases
    case 1
    then have "uint (of_nat n :: byte) = int n" by (simp add: uint_byte)
    then show thesis using 1 assms short [of "of_nat n"]
      by (simp add: encodeLength_def word_less_def)
  next
    case 2
    then have u: "uint (of_nat n :: byte) = int n" by (simp add: uint_byte)
    have v: "uint (push_bit 8 (0 :: 32 word) OR ucast (of_nat n :: byte)) = int n"
      using push_or_uint [of 0 "of_nat n"] u by simp
    then have "sint (push_bit 8 (0 :: 32 word) OR ucast (of_nat n :: byte)) = int n"
      using sint_small 2 by simp
    then show thesis using 2 assms
      by (intro long [of "0x81" "[of_nat n]"]) (simp_all add: encodeLength_def word_less_def)
  next
    case 3
    let ?a = "of_nat (n div 256 mod 256) :: byte" and ?b = "of_nat (n mod 256) :: byte"
    have u: "uint ?a = int (n div 256)" "uint ?b = int (n mod 256)"
      using 3 by (simp_all add: uint_byte)
    let ?w1 = "push_bit 8 (0 :: 32 word) OR ucast ?a"
    let ?w = "push_bit 8 ?w1 OR ucast ?b"
    have w1: "uint ?w1 = int (n div 256)" using push_or_uint [of 0 ?a] u by simp
    have "int (n div 256) * 256 + int (n mod 256) = int n"
      by (metis div_mult_mod_eq of_nat_add of_nat_mult of_nat_numeral)
    then have "uint ?w = int n" using push_or_uint [of ?w1 ?b] u w1 3 by simp
    then have s: "sint ?w = int n" using sint_small 3 by simp
    have r: "read_length 2 (pre @ [?a, ?b] @ post) (int (length pre)) 0 = Inr (?w, int (length pre + 2))"
      for pre post
    proof -
      have "byte_at (pre @ ?a # ?b # post) (int (length pre) + 1) = Some ?b"
        using byte_at_app [of "pre @ [?a]" ?b post] by (simp add: add.commute)
      then show ?thesis by (simp add: numeral_2_eq_2)
    qed
    have l2: "length [?a, ?b] = 2" by simp
    show thesis
    proof (rule long [of "0x82" "[?a, ?b]"])
      show "lb = [0x82, ?a, ?b]" using 3 assms by (simp add: encodeLength_def)
      show "\<exists>w. read_length (length [?a, ?b]) (pre @ [?a, ?b] @ post) (int (length pre)) 0
          = Inr (w, int (length pre + length [?a, ?b])) \<and> sint w = int n" for pre post
        unfolding l2 using r [of pre post] s by blast
    qed (simp_all add: word_less_def)
  qed
qed

text \<open>The header of an encoded node, wherever it stands.\<close>

lemma header_encoded:
  assumes "tag_ok tb" "encodeLength (length val) = Inr lb"
  shows "tlv_header (pre @ (tb @ lb @ val) @ post) (int (length pre))
    = Inr (hd tb, bytesToHex tb, int (length val), int (length pre + length tb + length lb))"
proof -
  let ?bs = "pre @ (tb @ lb @ val) @ post"
  obtain b r where tb: "tb = b # r" using assms(1) by (cases tb) (auto simp: tag_ok_def)
  have fb: "byte_at ?bs (int (length pre)) = Some b" by (simp add: tb)
  have o1: "(if b AND 0x1F = 0x1F then skip_tag ?bs (int (length pre) + 1) + 1 else int (length pre) + 1)
      = int (length pre + length tb)"
  proof (cases "b AND 0x1F = 0x1F")
    case True
    then have r: "r \<noteq> []" "last r AND 0x80 \<noteq> 0x80" "list_all (\<lambda>x. x AND 0x80 = 0x80) (butlast r)"
      using assms(1) by (simp_all add: tag_ok_def tb)
    obtain m l where ml: "r = m @ [l]" using r(1) by (cases r rule: rev_cases) auto
    have "skip_tag ((pre @ [b]) @ m @ l # (lb @ val @ post)) (int (length (pre @ [b])))
        = int (length (pre @ [b]) + length m)"
      using r(2,3) ml by (intro skip_tag_app) simp_all
    then show ?thesis using True by (simp add: tb ml add.commute)
  next
    case False
    then show ?thesis using assms(1) by (simp add: tag_ok_def tb)
  qed
  have tag: "js_slice ?bs (int (length pre)) (int (length pre + length tb)) = tb"
    using js_slice_mid [of pre tb "lb @ val @ post"] by simp
  from assms(2) show ?thesis
  proof (cases rule: read_encoded_length)
    case (short l)
    have "byte_at ?bs (int (length pre + length tb)) = Some l"
      using byte_at_app [of "pre @ tb" l "val @ post"] short by simp
    then show ?thesis
      unfolding tlv_header_def fb option.case Let_def o1 tag using short by (simp add: tb)
  next
    case (long c bs)
    have l: "byte_at ?bs (int (length pre + length tb)) = Some c"
      using byte_at_app [of "pre @ tb" c "bs @ val @ post"] long by simp
    obtain w where w: "read_length (length bs) ?bs (int (length pre + length tb) + 1) 0
        = Inr (w, int (length pre + length tb + length lb))" "sint w = int (length val)"
      using long(6) [of "pre @ tb @ [c]" "val @ post"] long(1) by (auto simp: add.commute add.assoc)
    show ?thesis
      unfolding tlv_header_def fb option.case Let_def o1 tag l using long(2-5) w
      by (simp add: tb)
  qed
qed

lemma tlv_ok_encode:
  assumes "tlv_ok n"
  obtains tb lb where "tag_ok tb" "tn_tag n = bytesToHex tb"
    "tn_isConstructed n \<longleftrightarrow> hd tb AND 0x20 = 0x20"
    "encodeLength (length (tn_value n)) = Inr lb" "tlv_encode (n # ns) = (tb @ lb @ tn_value n) @ tlv_encode ns"
    "0 < length tb" "tn_length n = int (length (tn_value n))"
proof -
  obtain tag len val cs con where n: "n = TlvNode tag len val cs con" by (cases n)
  obtain tb where tb: "hexToBytes tag = Inr tb" "tag_ok tb" "tag = bytesToHex tb" "con \<longleftrightarrow> hd tb AND 0x20 = 0x20"
    using assms by (auto simp: n split: sum.splits)
  have "length val < 65536" using assms by (simp add: n)
  then obtain lb where lb: "encodeLength (length val) = Inr lb"
    by (cases "encodeLength (length val)") (auto simp: encodeLength_def split: if_splits)
  have "0 < length tb" using tb(2) by (cases tb) (simp_all add: tag_ok_def)
  then show thesis using that [of tb lb] tb lb assms by (simp add: n tlv_encode_def encodeTlv_def)
qed

lemma tlv_loop_encoded:
  "list_all tlv_ok ns \<Longrightarrow>
   tlv_loop (pre @ tlv_encode ns) (int (length pre)) = Some (Inr ns)"
proof (induction "size_list size ns" arbitrary: ns pre rule: less_induct)
  case less
  show ?case
  proof (cases ns)
    case Nil
    then show ?thesis by (subst tlv_loop.simps) (simp add: tlv_encode_def)
  next
    case (Cons n rest)
    have ok: "tlv_ok n" "list_all tlv_ok rest" using less.prems Cons by simp_all
    obtain tb lb where E: "tag_ok tb" "tn_tag n = bytesToHex tb"
      "tn_isConstructed n \<longleftrightarrow> hd tb AND 0x20 = 0x20" "encodeLength (length (tn_value n)) = Inr lb"
      "tlv_encode (n # rest) = (tb @ lb @ tn_value n) @ tlv_encode rest"
      "0 < length tb" "tn_length n = int (length (tn_value n))"
      by (rule tlv_ok_encode [OF ok(1), of rest])
    let ?bs = "pre @ tlv_encode ns" and ?v = "length pre + length tb + length lb"
    have bs: "?bs = pre @ (tb @ lb @ tn_value n) @ tlv_encode rest" by (simp add: Cons E(5))
    have header: "tlv_header ?bs (int (length pre))
        = Inr (hd tb, tn_tag n, int (length (tn_value n)), int ?v)"
      unfolding bs E(2) by (rule header_encoded [OF E(1,4)])
    have val: "js_slice ?bs (int ?v) (int ?v + int (length (tn_value n))) = tn_value n"
      using js_slice_mid [of "pre @ tb @ lb" "tn_value n" "tlv_encode rest"] by (simp add: bs add.assoc)
    have rest: "tlv_loop ?bs (int ?v + int (length (tn_value n))) = Some (Inr rest)"
      using less.hyps [OF _ ok(2), of "pre @ tb @ lb @ tn_value n"] by (simp add: Cons E(5) add.assoc)
    have children: "(if tn_isConstructed n then tlv_loop (tn_value n) 0 else Some (Inr []))
        = Some (Inr (tn_children n))"
    proof (cases "tn_isConstructed n")
      case True
      then have c: "list_all tlv_ok (tn_children n)" "tn_value n = tlv_encode (tn_children n)"
        using ok(1) by (cases n; simp)+
      have "size_list size (tn_children n) < size_list size ns" using Cons by (cases n) simp
      from less.hyps [OF this c(1), of "[]"] show ?thesis using True c(2) by simp
    next
      case False
      then show ?thesis using ok(1) by (cases n) simp
    qed
    have n: "n = TlvNode (tn_tag n) (int (length (tn_value n))) (tn_value n) (tn_children n) (tn_isConstructed n)"
      using E(7) by (cases n) simp
    have "length ?bs = length pre + length tb + length lb + length (tn_value n) + length (tlv_encode rest)"
      by (simp add: bs)
    then have "\<not> int (length ?bs) \<le> int (length pre)"
      "\<not> int (length ?bs) < int ?v + int (length (tn_value n))"
      using E(6) by linarith+
    then show ?thesis
      using header val rest children n Cons
      by (subst tlv_loop.simps) (simp add: E(3) [symmetric] Let_def)
  qed
qed

text \<open>C37: decoding undoes encoding: the bytes that encodeTlv and encodeTemplate build for a
  list of trees, nested to any depth, decode to exactly those trees.\<close>

theorem tlv_roundtrip:
  assumes "list_all tlv_ok ns"
  shows "decodeTlv (tlv_encode ns) = Some (Inr ns)"
  using tlv_loop_encoded [OF assms, of "[]"] by (simp add: decodeTlv_def)

lemma tlv_roundtrip_witness:
  "decodeTlv [0x84, 0x01, 0x2A] = Some (Inr [TlvNode ''84'' 1 [0x2A] [] False])"
proof -
  have h: "bytesToHex [0x84] = ''84''" by (simp add: bytesToHex_def hex_char_eval)
  have t: "hexToBytes ''84'' = Inr [0x84]" using hexToBytes_bytesToHex [of "[0x84]"] h by simp
  have ok: "list_all tlv_ok [TlvNode ''84'' 1 [0x2A] [] False]" by (simp add: t h tag_ok_def)
  have "tlv_encode [TlvNode ''84'' 1 [0x2A] [] False] = [0x84, 0x01, 0x2A]"
    by (simp add: tlv_encode_def encodeTlv_def t encodeLength_def)
  with tlv_roundtrip [OF ok] show ?thesis by simp
qed




end
