(* ===== verification/Emv_Simulator.thy ===== *)
theory Emv_Simulator
  imports Emv_Tlv_Props
begin

text \<open>
  The EMV chip session (\<^verbatim>\<open>packages/emv/src/emv-simulator.ts\<close>): power, application selection and
  the card commands. The cryptogram is the FNV-1a hash of the source on 64-bit words.
\<close>

record ApduResponse =
  ar_data :: string
  ar_sw1 :: string
  ar_sw2 :: string

record EmvCardData =
  ec_pan :: string
  ec_expiryDate :: string
  ec_cardholderName :: string

record EmvSimulator =
  es_card :: EmvCardData
  es_powered :: bool
  es_selectedAid :: "string option"
  es_atc :: nat
  es_currentRecord :: nat

definition PSE_NAME :: string where
  "PSE_NAME = ''315041592E5359532E4444463031''"

definition sw_ok :: "string \<Rightarrow> ApduResponse" where
  "sw_ok data = \<lparr>ar_data = data, ar_sw1 = ''90'', ar_sw2 = ''00''\<rparr>"

definition sw_file_not_found :: ApduResponse where
  "sw_file_not_found = \<lparr>ar_data = [], ar_sw1 = ''6A'', ar_sw2 = ''82''\<rparr>"

definition sw_conditions_not_satisfied :: ApduResponse where
  "sw_conditions_not_satisfied = \<lparr>ar_data = [], ar_sw1 = ''69'', ar_sw2 = ''85''\<rparr>"

definition sw_ins_not_supported :: ApduResponse where
  "sw_ins_not_supported = \<lparr>ar_data = [], ar_sw1 = ''6D'', ar_sw2 = ''00''\<rparr>"

definition emv_new :: "EmvCardData \<Rightarrow> emv_error + EmvSimulator" where
  "emv_new crd =
     (if \<not> (12 \<le> length (ec_pan crd) \<and> length (ec_pan crd) \<le> 19 \<and> list_all is_digit (ec_pan crd))
      then Inl InvalidPan
      else if \<not> (length (ec_expiryDate crd) = 4 \<and> list_all is_digit (ec_expiryDate crd))
      then Inl InvalidExpiry
      else Inr \<lparr>es_card = crd, es_powered = False, es_selectedAid = None, es_atc = 0,
                es_currentRecord = 1\<rparr>)"

definition emv_powerOn :: "EmvSimulator \<Rightarrow> string \<times> EmvSimulator" where
  "emv_powerOn s =
     (''3B6800000073C84013009000'', s\<lparr>es_powered := True, es_selectedAid := None, es_atc := 0\<rparr>)"

definition emv_powerOff :: "EmvSimulator \<Rightarrow> EmvSimulator" where
  "emv_powerOff s = s\<lparr>es_powered := False, es_selectedAid := None\<rparr>"

section \<open>Helpers\<close>

definition emv_padHex :: "string \<Rightarrow> string" where
  "emv_padHex pan = js_toUpperCase (if even (length pan) then pan else pan @ ''F'')"

text \<open>\<open>n.toString(16).toUpperCase()\<close>.\<close>

fun js_base16 :: "nat \<Rightarrow> string" where
  "js_base16 n = (if n < 16 then [hex_char n] else js_base16 (n div 16) @ [hex_char (n mod 16)])"

declare js_base16.simps [simp del]

definition fnv1a :: "string \<Rightarrow> 64 word" where
  "fnv1a seed = foldl (\<lambda>h c. (h XOR word_of_nat (char_code c)) * 0x100000001b3) 0xcbf29ce484222325 seed"

definition be_bytes :: "64 word \<Rightarrow> byte list" where
  "be_bytes v = map (\<lambda>k. ucast (drop_bit (8 * (7 - k)) v)) [0..<8]"

definition emv_deterministicArqc :: "EmvSimulator \<Rightarrow> string" where
  "emv_deterministicArqc s =
     bytesToHex (be_bytes (fnv1a (ec_pan (es_card s) @ ''|'' @ js_itoa (es_atc s) @ ''|''
       @ js_default (es_selectedAid s) [])))"

text \<open>\<open>Buffer.from(s, 'ascii').toString('hex')\<close> in upper case.\<close>

definition ascii_hex :: "string \<Rightarrow> string" where
  "ascii_hex s = bytesToHex (map (\<lambda>c. word_of_nat (char_code c)) s)"

section \<open>Commands\<close>

definition aid_pattern :: "string \<Rightarrow> bool" where
  "aid_pattern s \<longleftrightarrow> 10 \<le> length s \<and> length s \<le> 32
     \<and> list_all (\<lambda>c. hex_digit c \<noteq> None \<and> js_upper_char c = c) s"

text \<open>A template over children that may fail to encode.\<close>

fun seq_sum :: "('e + 'a) list \<Rightarrow> 'e + 'a list" where
  "seq_sum [] = Inr []"
| "seq_sum (r # rs) = sum_bind r (\<lambda>x. sum_bind (seq_sum rs) (\<lambda>xs. Inr (x # xs)))"

definition emv_template :: "string \<Rightarrow> (emv_error + byte list) list \<Rightarrow> emv_error + byte list" where
  "emv_template tag rs = sum_bind (seq_sum rs) (encodeTemplate tag)"

definition emv_reply :: "emv_error + byte list \<Rightarrow> emv_error + ApduResponse" where
  "emv_reply r = sum_bind r (\<lambda>bs. Inr (sw_ok (bytesToHex bs)))"

definition emv_handleSelect ::
  "string \<Rightarrow> EmvSimulator \<Rightarrow> (emv_error + ApduResponse) \<times> EmvSimulator" where
  "emv_handleSelect payloadHex s =
     (let up = js_toUpperCase payloadHex in
      if up = PSE_NAME
      then (emv_reply (emv_template ''6F''
              [encodeTlv_hex ''84'' PSE_NAME, emv_template ''A5'' [encodeTlv_hex ''88'' ''01'']]), s)
      else if aid_pattern up
      then (emv_reply (emv_template ''6F''
              [encodeTlv_hex ''84'' up,
               emv_template ''A5'' [encodeTlv_hex ''50'' (ascii_hex ''VISA DEBIT''),
                                   encodeTlv_hex ''87'' ''01'']]),
            s\<lparr>es_selectedAid := Some up\<rparr>)
      else (Inr sw_file_not_found, s))"

definition emv_handleGpo :: "EmvSimulator \<Rightarrow> (emv_error + ApduResponse) \<times> EmvSimulator" where
  "emv_handleGpo s =
     (if js_default (es_selectedAid s) [] = [] then (Inr sw_conditions_not_satisfied, s)
      else (emv_reply (emv_template ''77''
              [encodeTlv_hex ''82'' ''5C00'',
               encodeTlv_hex ''94'' ''08010100100101011801010020010100'']), s))"

definition emv_record_template :: "EmvCardData \<Rightarrow> emv_error + byte list" where
  "emv_record_template crd =
     emv_template ''70''
       [encodeTlv_hex ''5A'' (emv_padHex (ec_pan crd)),
        encodeTlv_hex ''5F24'' (ec_expiryDate crd @ ''00''),
        encodeTlv_hex ''5F20'' (ascii_hex (take 26 (js_padEnd 26 (CHR '' '') (ec_cardholderName crd))))]"

definition emv_handleReadRecord ::
  "nat \<Rightarrow> EmvSimulator \<Rightarrow> (emv_error + ApduResponse) \<times> EmvSimulator" where
  "emv_handleReadRecord r s =
     (if js_default (es_selectedAid s) [] = [] then (Inr sw_conditions_not_satisfied, s)
      else (emv_reply (emv_record_template (es_card s)), s\<lparr>es_currentRecord := r\<rparr>))"

definition emv_handleGenerateAc :: "EmvSimulator \<Rightarrow> (emv_error + ApduResponse) \<times> EmvSimulator" where
  "emv_handleGenerateAc s =
     (if js_default (es_selectedAid s) [] = [] then (Inr sw_conditions_not_satisfied, s)
      else
        (let s' = s\<lparr>es_atc := es_atc s + 1\<rparr>;
             atcHex = js_padStart 4 (CHR ''0'') (js_base16 (es_atc s'))
         in (emv_reply (emv_template ''77''
               [encodeTlv_hex ''9F27'' ''80'', encodeTlv_hex ''9F36'' atcHex,
                encodeTlv_hex ''9F26'' (emv_deterministicArqc s'),
                encodeTlv_hex ''9F10'' ''0110A04003240000000000000000000000FF'']), s')))"

definition emv_transmitApdu ::
  "string \<Rightarrow> EmvSimulator \<Rightarrow> (emv_error + ApduResponse) \<times> EmvSimulator" where
  "emv_transmitApdu apduHex s =
     (if \<not> es_powered s then (Inl ChipNotPowered, s)
      else
        (case sum_bind (hexToBytes apduHex) parseApdu of
           Inl e \<Rightarrow> (Inl e, s)
         | Inr a \<Rightarrow>
             if ap_cla a = 0x00 \<and> ap_ins a = 0xA4 then emv_handleSelect (bytesToHex (ap_data a)) s
             else if ap_cla a = 0x80 \<and> ap_ins a = 0xA8 then emv_handleGpo s
             else if ap_cla a = 0x00 \<and> ap_ins a = 0xB2 then emv_handleReadRecord (unat (ap_p1 a)) s
             else if ap_cla a = 0x80 \<and> ap_ins a = 0xAE then emv_handleGenerateAc s
             else (Inr sw_ins_not_supported, s)))"

section \<open>The session\<close>

datatype emv_op = EmvOn | EmvOff | EmvApdu string

fun emv_step :: "emv_op \<Rightarrow> EmvSimulator \<Rightarrow> EmvSimulator" where
  "emv_step EmvOn s = snd (emv_powerOn s)"
| "emv_step EmvOff s = emv_powerOff s"
| "emv_step (EmvApdu a) s = snd (emv_transmitApdu a s)"

definition emv_ok :: "EmvSimulator \<Rightarrow> bool" where
  "emv_ok s \<longleftrightarrow> (\<forall>a. es_selectedAid s = Some a \<longrightarrow> es_powered s \<and> aid_pattern a)
     \<and> (es_powered s \<longrightarrow> es_selectedAid s = None \<longrightarrow> es_atc s = 0)"

lemmas emv_cmd_defs =
  emv_handleSelect_def emv_handleGpo_def emv_handleReadRecord_def emv_handleGenerateAc_def

lemma aid_pattern_nonempty: "aid_pattern a \<Longrightarrow> a \<noteq> []"
  by (auto simp: aid_pattern_def)

text \<open>Over any sequence of power and APDU commands on a fresh chip, an application is selected
  only while the chip is powered and only by a well-formed identifier, and no transaction is
  counted before one is selected.\<close>

theorem emv_session_ok:
  assumes "emv_new crd = Inr s"
  shows "emv_ok (fold emv_step ops s)"
proof -
  have step: "emv_ok (emv_step op s)" if "emv_ok s" for op s
    using that
    by (cases op) (auto simp: emv_ok_def emv_powerOn_def emv_powerOff_def emv_transmitApdu_def
        emv_cmd_defs Let_def aid_pattern_nonempty split: sum.splits option.splits)
  have "emv_ok s" using assms by (auto simp: emv_new_def emv_ok_def split: if_splits)
  then show ?thesis by (induction ops arbitrary: s) (simp_all add: step)
qed

text \<open>Before an application is selected the chip discloses nothing: a reply that carries data
  can only answer a SELECT, and the other card commands leave the session unchanged.\<close>

theorem emv_no_data_before_select:
  assumes "es_selectedAid s = None" "emv_transmitApdu apdu s = (r, s')"
  shows "(case sum_bind (hexToBytes apdu) parseApdu of
      Inr a \<Rightarrow> ap_cla a = 0x00 \<and> ap_ins a = 0xA4 | Inl e \<Rightarrow> False)
    \<or> (s' = s \<and> (\<forall>resp. r = Inr resp \<longrightarrow> ar_data resp = []))"
  using assms
  by (auto simp: emv_transmitApdu_def emv_handleGpo_def emv_handleReadRecord_def
      emv_handleGenerateAc_def sw_conditions_not_satisfied_def sw_ins_not_supported_def
      split: sum.splits if_splits)

section \<open>Reading the card\<close>

lemma bytesToHex_Cons: "bytesToHex (b # bs) = [hex_char (unat b div 16), hex_char (unat b mod 16)] @ bytesToHex bs"
  by (simp add: bytesToHex_def)

lemma hex_string_bytes:
  "list_all (\<lambda>c. hex_digit c \<noteq> None \<and> js_upper_char c = c) s \<Longrightarrow> even (length s) \<Longrightarrow>
   \<exists>bs. hexToBytes s = Inr bs \<and> bytesToHex bs = s \<and> 2 * length bs = length s"
proof (induction s rule: induct_list012)
  case 1
  then show ?case using hexToBytes_bytesToHex [of "[]"] by (auto simp: bytesToHex_def)
next
  case (2 x)
  then show ?case by simp
next
  case (3 x y zs)
  then obtain bs where bs: "bytesToHex bs = zs" "2 * length bs = length zs" by auto
  let ?b = "word_of_nat (16 * hex_nibble x + hex_nibble y) :: byte"
  have "unat ?b = 16 * hex_nibble x + hex_nibble y"
    using hex_nibble_bound [of x] hex_nibble_bound [of y]
    by (simp add: unsigned_of_nat take_bit_nat_eq_self del: of_nat_add of_nat_mult)
  then have "bytesToHex (?b # bs) = x # y # zs"
    using hex_nibble_bound [of y] 3(3) bs(1) by (simp add: bytesToHex_Cons hex_char_nibble)
  moreover have "2 * length (?b # bs) = length (x # y # zs)" using bs(2) by simp
  ultimately show ?case using hexToBytes_bytesToHex [of "?b # bs"] by metis
qed

lemma emv_tags:
  "hexToBytes ''70'' = Inr [0x70]" "hexToBytes ''5A'' = Inr [0x5A]"
  "hexToBytes ''5F24'' = Inr [0x5F, 0x24]" "hexToBytes ''5F20'' = Inr [0x5F, 0x20]"
  "bytesToHex [0x70] = ''70''" "bytesToHex [0x5A] = ''5A''"
  "bytesToHex [0x5F, 0x24] = ''5F24''" "bytesToHex [0x5F, 0x20] = ''5F20''"
proof -
  show h: "bytesToHex [0x70] = ''70''" "bytesToHex [0x5A] = ''5A''"
    "bytesToHex [0x5F, 0x24] = ''5F24''" "bytesToHex [0x5F, 0x20] = ''5F20''"
    by (simp_all add: bytesToHex_def hex_char_eval)
  show "hexToBytes ''70'' = Inr [0x70]" "hexToBytes ''5A'' = Inr [0x5A]"
    "hexToBytes ''5F24'' = Inr [0x5F, 0x24]" "hexToBytes ''5F20'' = Inr [0x5F, 0x20]"
    using hexToBytes_bytesToHex [of "[0x70]"] hexToBytes_bytesToHex [of "[0x5A]"]
      hexToBytes_bytesToHex [of "[0x5F, 0x24]"] hexToBytes_bytesToHex [of "[0x5F, 0x20]"] h by simp_all
qed

lemma digits_hex: "list_all is_digit s \<Longrightarrow> list_all (\<lambda>c. hex_digit c \<noteq> None \<and> js_upper_char c = c) s"
  by (auto simp: list_all_iff is_digit_def hex_digit_def js_upper_char_def Let_def)

lemma padHex_bytes:
  assumes "list_all is_digit pan" "length pan \<le> 19"
  shows "\<exists>bs. hexToBytes (emv_padHex pan) = Inr bs \<and> bytesToHex bs = emv_padHex pan \<and> length bs \<le> 10"
proof -
  let ?s = "if even (length pan) then pan else pan @ ''F''"
  have hex: "list_all (\<lambda>c. hex_digit c \<noteq> None \<and> js_upper_char c = c) ?s"
    using digits_hex [OF assms(1)] by (auto simp: hex_digit_def js_upper_char_def)
  then have "emv_padHex pan = ?s"
    unfolding emv_padHex_def js_toUpperCase_def by (intro map_idI) (auto simp: list_all_iff)
  with hex_string_bytes [OF hex] assms(2) show ?thesis by auto
qed

definition emv_record_nodes :: "byte list \<Rightarrow> byte list \<Rightarrow> byte list \<Rightarrow> TlvNode list" where
  "emv_record_nodes p e n =
     [TlvNode ''5A'' (int (length p)) p [] False, TlvNode ''5F24'' (int (length e)) e [] False,
      TlvNode ''5F20'' (int (length n)) n [] False]"

lemma record_encodes:
  assumes "length p \<le> 10" "length e = 3" "length n = 26"
    and "hexToBytes (emv_padHex (ec_pan crd)) = Inr p"
    and "hexToBytes (ec_expiryDate crd @ ''00'') = Inr e"
    and "hexToBytes (ascii_hex (take 26 (js_padEnd 26 (CHR '' '') (ec_cardholderName crd)))) = Inr n"
  shows "\<exists>ns. emv_record_template crd = Inr (tlv_encode ns) \<and> list_all tlv_ok ns
    \<and> ns = [TlvNode ''70'' (int (length (tlv_encode (emv_record_nodes p e n))))
          (tlv_encode (emv_record_nodes p e n)) (emv_record_nodes p e n) True]"
proof -
  let ?cs = "emv_record_nodes p e n"
  have enc: "tlv_encode ?cs = (0x5A # of_nat (length p) # p) @ (0x5F # 0x24 # 3 # e) @ (0x5F # 0x20 # 26 # n)"
    using assms(1-3) by (simp add: tlv_encode_def emv_record_nodes_def encodeTlv_def emv_tags encodeLength_def)
  have parts: "seq_sum [encodeTlv_hex ''5A'' (emv_padHex (ec_pan crd)),
        encodeTlv_hex ''5F24'' (ec_expiryDate crd @ ''00''),
        encodeTlv_hex ''5F20'' (ascii_hex (take 26 (js_padEnd 26 (CHR '' '') (ec_cardholderName crd))))]
      = Inr [0x5A # of_nat (length p) # p, 0x5F # 0x24 # 3 # e, 0x5F # 0x20 # 26 # n]"
    using assms by (simp add: encodeTlv_hex_def encodeTlv_def emv_tags encodeLength_def)
  have len: "length (tlv_encode ?cs) < 128" using assms(1-3) enc by simp
  have "emv_record_template crd = Inr (tlv_encode [TlvNode ''70'' (int (length (tlv_encode ?cs))) (tlv_encode ?cs) ?cs True])"
    unfolding emv_record_template_def emv_template_def parts
    using len by (simp add: encodeTemplate_def enc tlv_encode_def [of "[_]"] encodeTlv_def emv_tags encodeLength_def)
  moreover have "list_all tlv_ok [TlvNode ''70'' (int (length (tlv_encode ?cs))) (tlv_encode ?cs) ?cs True]"
    using len assms(1-3) by (simp add: emv_tags tag_ok_def) (simp add: emv_record_nodes_def emv_tags tag_ok_def)
  ultimately show ?thesis by blast
qed

text \<open>What a terminal reads is what the card holds: the data of a successful READ RECORD decodes
  to a template whose PAN, expiry and name fields, found by tag, are the card's.\<close>

theorem emv_read_record_roundtrip:
  assumes "emv_new crd = Inr s0" "es_card s = crd"
    and "es_selectedAid s = Some a" "a \<noteq> []"
  shows "\<exists>resp bytes ns nd. fst (emv_handleReadRecord r s) = Inr resp \<and> ar_sw1 resp = ''90''
    \<and> hexToBytes (ar_data resp) = Inr bytes \<and> decodeTlv bytes = Some (Inr ns)
    \<and> findTag ns ''5a'' = Some nd \<and> bytesToHex (tn_value nd) = emv_padHex (ec_pan crd)
    \<and> (\<exists>en. findTag ns ''5F24'' = Some en \<and> bytesToHex (tn_value en) = ec_expiryDate crd @ ''00'')"
proof -
  have crd: "length (ec_pan crd) \<le> 19" "list_all is_digit (ec_pan crd)"
    "length (ec_expiryDate crd) = 4" "list_all is_digit (ec_expiryDate crd)"
    using assms(1) by (auto simp: emv_new_def split: if_splits)
  obtain p where p: "hexToBytes (emv_padHex (ec_pan crd)) = Inr p" "bytesToHex p = emv_padHex (ec_pan crd)" "length p \<le> 10"
    using padHex_bytes crd by blast
  have "list_all is_digit (ec_expiryDate crd @ ''00'')" using crd(4) by (simp add: is_digit_def)
  from hex_string_bytes [OF digits_hex [OF this]] obtain e
    where e: "hexToBytes (ec_expiryDate crd @ ''00'') = Inr e" "bytesToHex e = ec_expiryDate crd @ ''00''" "length e = 3"
    using crd(3) by auto
  let ?n = "map (\<lambda>c. word_of_nat (char_code c)) (take 26 (js_padEnd 26 (CHR '' '') (ec_cardholderName crd))) :: byte list"
  have n: "hexToBytes (ascii_hex (take 26 (js_padEnd 26 (CHR '' '') (ec_cardholderName crd)))) = Inr ?n" "length ?n = 26"
    by (simp_all add: ascii_hex_def)
  obtain ns where ns: "emv_record_template crd = Inr (tlv_encode ns)" "list_all tlv_ok ns"
    "ns = [TlvNode ''70'' (int (length (tlv_encode (emv_record_nodes p e ?n))))
        (tlv_encode (emv_record_nodes p e ?n)) (emv_record_nodes p e ?n) True]"
    using record_encodes [OF p(3) e(3) n(2) p(1) e(1) n(1)] by blast
  have "js_toUpperCase ''5a'' = ''5A''" "js_toUpperCase ''5F24'' = ''5F24''"
    by (simp_all add: js_toUpperCase_def js_upper_char_def char_of_def bit_0)
  then have "findTag ns ''5a'' = Some (TlvNode ''5A'' (int (length p)) p [] False)"
    "findTag ns ''5F24'' = Some (TlvNode ''5F24'' (int (length e)) e [] False)"
    unfolding ns(3) emv_record_nodes_def by simp_all
  then show ?thesis
    using assms tlv_roundtrip [OF ns(2)] ns(1) p(2) e(2)
    by (simp add: emv_handleReadRecord_def emv_reply_def sw_ok_def)
qed

definition emv_sample_card :: EmvCardData where
  "emv_sample_card = \<lparr>ec_pan = ''4111111111111111'', ec_expiryDate = ''2812'', ec_cardholderName = ''BUDI''\<rparr>"

definition emv_sample :: EmvSimulator where
  "emv_sample = \<lparr>es_card = emv_sample_card, es_powered = False, es_selectedAid = None, es_atc = 0,
     es_currentRecord = 1\<rparr>"

lemma emv_sample_new: "emv_new emv_sample_card = Inr emv_sample"
  by (simp add: emv_new_def emv_sample_card_def emv_sample_def is_digit_def)

lemma emv_session_ok_witness:
  "emv_ok (fold emv_step [EmvOn, EmvApdu ''80A80000'', EmvOff] emv_sample)"
  by (rule emv_session_ok [OF emv_sample_new])

lemma emv_no_data_before_select_witness:
  "fst (emv_transmitApdu ''00B20114'' emv_sample) = Inl ChipNotPowered
   \<and> snd (emv_transmitApdu ''00B20114'' emv_sample) = emv_sample"
proof -
  have r: "emv_transmitApdu ''00B20114'' emv_sample = (Inl ChipNotPowered, emv_sample)"
    by (simp add: emv_transmitApdu_def emv_sample_def)
  from emv_no_data_before_select [OF _ r] r show ?thesis by (simp add: emv_sample_def)
qed

lemma emv_read_record_roundtrip_witness:
  "\<exists>resp. fst (emv_handleReadRecord 1 (emv_sample\<lparr>es_powered := True, es_selectedAid := Some ''A0000000031010''\<rparr>))
     = Inr resp \<and> ar_sw1 resp = ''90''"
  using emv_read_record_roundtrip [OF emv_sample_new, of
      "emv_sample\<lparr>es_powered := True, es_selectedAid := Some ''A0000000031010''\<rparr>" "''A0000000031010''" 1]
  by (auto simp: emv_sample_def)

end
