(* ===== verification/Bank_Db.thy ===== *)
theory Bank_Db
  imports Js_Number
begin

text \<open>
  The database of the host. Prisma and PostgreSQL are not part of the sources: the queries the
  host makes are the parameters \<open>bank_ops\<close>, one field per call, each of which may throw. What the
  host relies on is the locale \<open>bank_db\<close>: seen through \<open>view\<close>, a query that succeeds does what
  it says to the tables of \<^verbatim>\<open>prisma/schema.prisma\<close>. \<open>$transaction\<close> is modelled where it is used:
  a callback that throws leaves the database as it was. The in-memory tables \<open>mem_ops\<close> are an
  instance.
\<close>

section \<open>Rows\<close>

record AccountRow =
  ac_id :: string
  ac_balance :: int
  ac_currency :: string
  ac_dailyLimit :: int
  ac_dailyWithdrawn :: int
  ac_status :: string

record CardRow =
  cd_pan :: string
  cd_cardholderName :: string
  cd_expiryDate :: string
  cd_pin :: string
  cd_track1 :: string
  cd_track2 :: string
  cd_issuer :: string
  cd_status :: string
  cd_failedPinCount :: int
  cd_accountId :: string

record TransactionRow =
  tx_sessionId :: string
  tx_pan :: string
  tx_accountId :: string
  tx_txnType :: string
  tx_amount :: int
  tx_currency :: string
  tx_status :: string
  tx_stanNo :: "string option"
  tx_authCode :: "string option"
  tx_responseCode :: "string option"
  tx_errorReason :: "string option"
  tx_createdAt :: int

record bank =
  bk_cards :: "string \<Rightarrow> CardRow option"
  bk_accounts :: "string \<Rightarrow> AccountRow option"
  bk_txns :: "TransactionRow list"

section \<open>Queries\<close>

datatype db_error = DbFailure | RecordNotFound | BigIntRange

type_synonym 'a db_result = "db_error + 'a"

record 'db bank_ops =
  db_findCard :: "string \<Rightarrow> 'db \<Rightarrow> (CardRow \<times> AccountRow option) option db_result"
  db_findAccount :: "string \<Rightarrow> 'db \<Rightarrow> AccountRow option db_result"
  db_incrementFailed :: "string \<Rightarrow> 'db \<Rightarrow> (CardRow \<times> 'db) db_result"
  db_resetFailed :: "string \<Rightarrow> 'db \<Rightarrow> 'db db_result"
  db_setCardStatus :: "string \<Rightarrow> string \<Rightarrow> 'db \<Rightarrow> 'db db_result"
  db_advisoryLock :: "string \<Rightarrow> 'db \<Rightarrow> 'db db_result"
  db_sumWithdrawals :: "string \<Rightarrow> int \<Rightarrow> 'db \<Rightarrow> int db_result"
  db_moveBalance :: "string \<Rightarrow> int \<Rightarrow> int \<Rightarrow> 'db \<Rightarrow> (AccountRow \<times> 'db) db_result"
  db_createTransaction :: "TransactionRow \<Rightarrow> 'db \<Rightarrow> 'db db_result"
  db_markReversed :: "string \<Rightarrow> string \<Rightarrow> 'db \<Rightarrow> 'db db_result"

section \<open>What the queries do to the tables\<close>

definition is_withdrawal :: "string \<Rightarrow> int \<Rightarrow> TransactionRow \<Rightarrow> bool" where
  "is_withdrawal acc since t \<longleftrightarrow> tx_accountId t = acc \<and> tx_status t = ''COMPLETED''
     \<and> tx_txnType t = ''WITHDRAWAL'' \<and> since \<le> tx_createdAt t"

definition sum_withdrawals :: "string \<Rightarrow> int \<Rightarrow> bank \<Rightarrow> int" where
  "sum_withdrawals acc since b = sum_list (map tx_amount (filter (is_withdrawal acc since) (bk_txns b)))"

definition mark_reversed :: "string \<Rightarrow> string \<Rightarrow> TransactionRow \<Rightarrow> TransactionRow" where
  "mark_reversed stan reason t =
     (if tx_stanNo t = Some stan \<and> tx_status t = ''COMPLETED''
      then t\<lparr>tx_status := ''REVERSED'', tx_errorReason := Some reason\<rparr> else t)"

definition put_card :: "CardRow \<Rightarrow> bank \<Rightarrow> bank" where
  "put_card c b = b\<lparr>bk_cards := (bk_cards b)(cd_pan c \<mapsto> c)\<rparr>"

definition put_account :: "AccountRow \<Rightarrow> bank \<Rightarrow> bank" where
  "put_account a b = b\<lparr>bk_accounts := (bk_accounts b)(ac_id a \<mapsto> a)\<rparr>"

definition find_card :: "string \<Rightarrow> bank \<Rightarrow> (CardRow \<times> AccountRow option) option" where
  "find_card pan b = map_option (\<lambda>c. (c, bk_accounts b (cd_accountId c))) (bk_cards b pan)"

definition bank_wf :: "bank \<Rightarrow> bool" where
  "bank_wf b \<longleftrightarrow> (\<forall>p c. bk_cards b p = Some c \<longrightarrow> cd_pan c = p)
     \<and> (\<forall>i a. bk_accounts b i = Some a \<longrightarrow> ac_id a = i)"

text \<open>The documented behaviour of the queries: \<open>findUnique\<close> and \<open>aggregate\<close> read, \<open>update\<close> needs
  its row, \<open>increment\<close> and \<open>decrement\<close> add to the stored value, \<open>updateMany\<close> changes every match.\<close>

locale bank_db =
  fixes ops :: "'db bank_ops" and view :: "'db \<Rightarrow> bank"
  assumes findCard: "db_findCard ops pan db = Inr r \<Longrightarrow> r = find_card pan (view db)"
    and findAccount: "db_findAccount ops i db = Inr a \<Longrightarrow> a = bk_accounts (view db) i"
    and incrementFailed: "db_incrementFailed ops pan db = Inr (c', db') \<Longrightarrow>
      \<exists>c. bk_cards (view db) pan = Some c \<and> c' = c\<lparr>cd_failedPinCount := cd_failedPinCount c + 1\<rparr>
        \<and> view db' = put_card c' (view db)"
    and resetFailed: "db_resetFailed ops pan db = Inr db' \<Longrightarrow>
      \<exists>c. bk_cards (view db) pan = Some c \<and> view db' = put_card (c\<lparr>cd_failedPinCount := 0\<rparr>) (view db)"
    and setCardStatus: "db_setCardStatus ops pan s db = Inr db' \<Longrightarrow>
      \<exists>c. bk_cards (view db) pan = Some c \<and> view db' = put_card (c\<lparr>cd_status := s\<rparr>) (view db)"
    and advisoryLock: "db_advisoryLock ops k db = Inr db' \<Longrightarrow> view db' = view db"
    and sumWithdrawals: "db_sumWithdrawals ops i since db = Inr n \<Longrightarrow> n = sum_withdrawals i since (view db)"
    and moveBalance: "db_moveBalance ops i x y db = Inr (a', db') \<Longrightarrow>
      \<exists>a. bk_accounts (view db) i = Some a
        \<and> a' = a\<lparr>ac_balance := ac_balance a + x, ac_dailyWithdrawn := ac_dailyWithdrawn a + y\<rparr>
        \<and> view db' = put_account a' (view db)"
    and createTransaction: "db_createTransaction ops t db = Inr db' \<Longrightarrow>
      view db' = (view db)\<lparr>bk_txns := bk_txns (view db) @ [t]\<rparr>"
    and markReversed: "db_markReversed ops stan reason db = Inr db' \<Longrightarrow>
      view db' = (view db)\<lparr>bk_txns := map (mark_reversed stan reason) (bk_txns (view db))\<rparr>"

text \<open>A database that is up: a query fails only for want of its row. This is not documented behaviour of the
  client but an assumption of availability; the theorems that need it say so, the others hold whatever
  queries fail.\<close>

locale bank_db_up = bank_db ops view for ops :: "'db bank_ops" and view :: "'db \<Rightarrow> bank" +
  assumes findCard_up: "\<exists>r. db_findCard ops pan db = Inr r"
    and findAccount_up: "\<exists>a. db_findAccount ops i db = Inr a"
    and incrementFailed_up: "bk_cards (view db) pan = Some c \<Longrightarrow> \<exists>r. db_incrementFailed ops pan db = Inr r"
    and resetFailed_up: "bk_cards (view db) pan = Some c \<Longrightarrow> \<exists>r. db_resetFailed ops pan db = Inr r"
    and setCardStatus_up: "bk_cards (view db) pan = Some c \<Longrightarrow> \<exists>r. db_setCardStatus ops pan s db = Inr r"
    and advisoryLock_up: "\<exists>r. db_advisoryLock ops k db = Inr r"
    and sumWithdrawals_up: "\<exists>n. db_sumWithdrawals ops i since db = Inr n"
    and moveBalance_up: "bk_accounts (view db) i = Some a \<Longrightarrow> \<exists>r. db_moveBalance ops i x y db = Inr r"
    and createTransaction_up: "\<exists>r. db_createTransaction ops t db = Inr r"
    and markReversed_up: "\<exists>r. db_markReversed ops stan reason db = Inr r"

section \<open>In-memory tables\<close>

definition mem_ops :: "bank bank_ops" where
  "mem_ops =
     \<lparr>db_findCard = (\<lambda>pan b. Inr (find_card pan b)),
      db_findAccount = (\<lambda>i b. Inr (bk_accounts b i)),
      db_incrementFailed = (\<lambda>pan b.
        case bk_cards b pan of
          None \<Rightarrow> Inl RecordNotFound
        | Some c \<Rightarrow> (let c' = c\<lparr>cd_failedPinCount := cd_failedPinCount c + 1\<rparr> in Inr (c', put_card c' b))),
      db_resetFailed = (\<lambda>pan b.
        case bk_cards b pan of
          None \<Rightarrow> Inl RecordNotFound
        | Some c \<Rightarrow> Inr (put_card (c\<lparr>cd_failedPinCount := 0\<rparr>) b)),
      db_setCardStatus = (\<lambda>pan s b.
        case bk_cards b pan of
          None \<Rightarrow> Inl RecordNotFound
        | Some c \<Rightarrow> Inr (put_card (c\<lparr>cd_status := s\<rparr>) b)),
      db_advisoryLock = (\<lambda>k b. Inr b),
      db_sumWithdrawals = (\<lambda>i t b. Inr (sum_withdrawals i t b)),
      db_moveBalance = (\<lambda>i x y b.
        case bk_accounts b i of
          None \<Rightarrow> Inl RecordNotFound
        | Some a \<Rightarrow>
            (let a' = a\<lparr>ac_balance := ac_balance a + x, ac_dailyWithdrawn := ac_dailyWithdrawn a + y\<rparr>
             in Inr (a', put_account a' b))),
      db_createTransaction = (\<lambda>t b. Inr (b\<lparr>bk_txns := bk_txns b @ [t]\<rparr>)),
      db_markReversed = (\<lambda>stan reason b. Inr (b\<lparr>bk_txns := map (mark_reversed stan reason) (bk_txns b)\<rparr>))\<rparr>"

interpretation mem: bank_db_up mem_ops "\<lambda>b. b"
  by unfold_locales (auto simp: mem_ops_def Let_def split: option.splits)

lemma mem_bank_db: "bank_db mem_ops (\<lambda>b. b)"
  by unfold_locales

lemma mem_bank_db_up: "bank_db_up mem_ops (\<lambda>b. b)"
  by unfold_locales

end
