(* ===== verification/Pin_Hash.thy ===== *)
theory Pin_Hash
  imports Js_Bytes
begin

text \<open>
  PIN hashing (\<^verbatim>\<open>packages/shared/src/crypto.ts\<close>). SHA-256 is Node's: a parameter from octets to
  octets. The salt that \<open>randomBytes\<close> draws is a parameter of \<open>hashPin\<close>.
\<close>

type_synonym digest = "nat list \<Rightarrow> nat list"

definition hash_PREFIX :: string where
  "hash_PREFIX = ''sha256$''"

text \<open>\<open>toString('hex')\<close>: lower case.\<close>

definition hex_lower :: "nat list \<Rightarrow> string" where
  "hex_lower bs = map (\<lambda>c. if 65 \<le> char_code c \<and> char_code c \<le> 70 then char_of (char_code c + 32) else c)
     (js_hex_encode bs)"

definition salted_sha256 :: "digest \<Rightarrow> nat list \<Rightarrow> string \<Rightarrow> nat list" where
  "salted_sha256 sha salt p = sha (salt @ js_utf8 p)"

definition hashPin :: "digest \<Rightarrow> nat list \<Rightarrow> string \<Rightarrow> string" where
  "hashPin sha salt p = hash_PREFIX @ hex_lower salt @ ''$'' @ hex_lower (salted_sha256 sha salt p)"

definition verifyPin :: "digest \<Rightarrow> string \<Rightarrow> string \<Rightarrow> bool" where
  "verifyPin sha p stored =
     (if \<not> js_startsWith stored hash_PREFIX then False
      else
        (case js_split (CHR ''$'') (drop (length hash_PREFIX) stored) of
           [saltHex, hashHex] \<Rightarrow>
             if saltHex = [] \<or> hashHex = [] then False
             else
               (let salt = js_hex_decode saltHex; expected = js_hex_decode hashHex;
                    actual = salted_sha256 sha salt p
                in if length actual \<noteq> length expected then False else actual = expected)
         | _ \<Rightarrow> False))"

section \<open>Round trip\<close>

lemma hex_lower_Cons:
  "hex_lower (b # bs) = hex_lower [b] @ hex_lower bs"
  by (simp add: hex_lower_def js_hex_encode_def)

lemma lower_digit:
  assumes "n < 16"
  defines "c \<equiv> hex_char n"
  defines "l \<equiv> (if 65 \<le> char_code c \<and> char_code c \<le> 70 then char_of (char_code c + 32) else c)"
  shows "hex_digit l = Some n" "l \<noteq> CHR ''$''"
proof -
  have "n \<in> {0, 1, 2, 3, 4, 5, 6, 7, 8, 9, 10, 11, 12, 13, 14, 15}"
    using assms(1) unfolding insert_iff empty_iff by presburger
  then show "hex_digit l = Some n" unfolding l_def c_def
    by (elim insertE emptyE) (simp_all add: hex_char_eval hex_digit_def)
  then show "l \<noteq> CHR ''$''" by (auto simp: hex_digit_def)
qed

lemma hex_decode_lower:
  "\<forall>b \<in> set bs. b < 256 \<Longrightarrow> js_hex_decode (hex_lower bs) = bs \<and> CHR ''$'' \<notin> set (hex_lower bs)"
proof (induction bs)
  case Nil
  then show ?case by (simp add: hex_lower_def js_hex_encode_def)
next
  case (Cons b bs)
  have "b div 16 < 16" "b mod 16 < 16" using Cons.prems by (simp_all add: less_mult_imp_div_less)
  note d = lower_digit [OF this(1)] lower_digit [OF this(2)]
  show ?case
    using Cons d by (subst (1 2) hex_lower_Cons) (simp add: hex_lower_def js_hex_encode_def)
qed

lemma hex_lower_nonempty: "bs \<noteq> [] \<Longrightarrow> hex_lower bs \<noteq> []"
  by (cases bs) (simp_all add: hex_lower_def js_hex_encode_def)

text \<open>A PIN verifies against a stored hash exactly when it has the same salted digest as the PIN
  that was hashed; in particular the PIN itself always verifies.\<close>

theorem verifyPin_hashPin:
  assumes "\<And>x. sha x \<noteq> [] \<and> (\<forall>b \<in> set (sha x). b < 256)"
    and "salt \<noteq> []" "\<forall>b \<in> set salt. b < 256"
  shows "verifyPin sha q (hashPin sha salt p) \<longleftrightarrow> sha (salt @ js_utf8 q) = sha (salt @ js_utf8 p)"
proof -
  let ?h = "salted_sha256 sha salt p"
  have h: "?h \<noteq> []" "\<forall>b \<in> set ?h. b < 256" using assms(1) by (simp_all add: salted_sha256_def)
  have rest: "drop (length hash_PREFIX) (hashPin sha salt p) = hex_lower salt @ CHR ''$'' # hex_lower ?h"
    by (simp add: hashPin_def)
  have split: "js_split (CHR ''$'') (hex_lower salt @ CHR ''$'' # hex_lower ?h) = [hex_lower salt, hex_lower ?h]"
    using hex_decode_lower [OF assms(3)] hex_decode_lower [OF h(2)]
    by (simp add: js_split_append js_split_plain)
  have "js_startsWith (hashPin sha salt p) hash_PREFIX" by (simp add: hashPin_def)
  then show ?thesis
    using hex_decode_lower [OF assms(3)] hex_decode_lower [OF h(2)] hex_lower_nonempty [OF assms(2)]
      hex_lower_nonempty [OF h(1)]
    unfolding verifyPin_def rest split by (auto simp: Let_def salted_sha256_def)
qed

lemma verifyPin_hashPin_witness:
  "verifyPin (\<lambda>bs. [length bs mod 256]) ''1234'' (hashPin (\<lambda>bs. [length bs mod 256]) [7] ''1234'')"
  by (subst verifyPin_hashPin) auto

end
