(* ===== verification/Host_Emulator.thy ===== *)
theory Host_Emulator
  imports Bank_Db Pin_Hash Iso8583_Props Iso_Switches
begin

text \<open>
  The issuer host (\<^verbatim>\<open>apps/xfs-server/src/host/host-emulator.service.ts\<close>): authentication, PIN
  verification, withdrawal authorisation, balance, reversal and retention. The database enters
  through \<open>bank_ops\<close>; the digests, the clock and the random number through \<open>host_env\<close>. A
  withdrawal or reversal is one transaction: the advisory lock makes the concurrent ones on an
  account take turns, so it is one atomic step here, and a thrown error leaves the database as it
  was. The two queries of a PIN verification are no transaction; they may be taken as one step all the
  same, because requests that come between them change nothing that the second one depends on
  (\<open>host_verifyPin_interleaved\<close> in \<^verbatim>\<open>Host_Theorems\<close>).
\<close>

record host_env =
  he_sha1 :: digest
  he_sha256 :: digest
  he_nowMs :: int
  he_startOfDay :: int
  he_year :: int
  he_month :: int
  he_random :: rat

record 'db host =
  h_stanCounter :: nat
  h_db :: 'db

record AuthResult =
  au_success :: bool
  au_accountId :: "string option"
  au_responseCode :: string
  au_reason :: "string option"

record AuthorizationResult =
  az_approved :: bool
  az_responseCode :: string
  az_authCode :: "string option"
  az_stanNo :: string
  az_balanceAfter :: "int option"
  az_reason :: "string option"
  az_switchId :: IsoSwitchId
  az_switchName :: string

record BalanceResult =
  br_amount :: int
  br_currency :: string
  br_responseCode :: string

section \<open>Helpers\<close>

fun be_value :: "nat list \<Rightarrow> nat \<Rightarrow> nat" where
  "be_value [] a = a"
| "be_value (b # bs) a = be_value bs (256 * a + b)"

definition accountLockKey :: "host_env \<Rightarrow> string \<Rightarrow> string" where
  "accountLockKey env accountId =
     js_itoa (take_bit 63 (be_value (take 8 (he_sha1 env (js_utf8 accountId))) 0))"

definition host_isExpired :: "host_env \<Rightarrow> string \<Rightarrow> bool" where
  "host_isExpired env expiryDate =
     (if \<not> (length expiryDate = 4 \<and> list_all is_digit expiryDate) then True
      else
        (let yy = dec_value (js_slice expiryDate 0 2);
             mm = dec_value (js_slice expiryDate 2 4);
             year = 2000 + int yy
         in if year < he_year env then True
            else if year = he_year env \<and> int mm < he_month env then True
            else False))"

definition host_generateStan :: "'db host \<Rightarrow> string \<times> 'db host" where
  "host_generateStan h = (formatStan (h_stanCounter h), h\<lparr>h_stanCounter := h_stanCounter h + 1\<rparr>)"

definition host_generateAuthCode :: "host_env \<Rightarrow> string" where
  "host_generateAuthCode env = js_int_to_string \<lfloor>100000 + he_random env * 900000\<rfloor>"

section \<open>Authentication\<close>

definition auth_fail :: "string \<Rightarrow> string \<Rightarrow> AuthResult" where
  "auth_fail code reason =
     \<lparr>au_success = False, au_accountId = None, au_responseCode = code, au_reason = Some reason\<rparr>"

definition host_authenticate :: "'db bank_ops \<Rightarrow> host_env \<Rightarrow> string \<Rightarrow> 'db host \<Rightarrow> AuthResult db_result" where
  "host_authenticate ops env pan h =
     sum_bind (db_findCard ops pan (h_db h)) (\<lambda>r.
       Inr (case r of
         None \<Rightarrow> auth_fail ''14'' ''card not found''
       | Some (c, acct) \<Rightarrow>
           if cd_status c = ''BLOCKED'' then auth_fail ''62'' ''card blocked''
           else if cd_status c = ''RETAINED'' then auth_fail ''36'' ''card retained''
           else if host_isExpired env (cd_expiryDate c) then auth_fail ''54'' ''card expired''
           else (case acct of
                   None \<Rightarrow> auth_fail ''56'' ''account not active''
                 | Some a \<Rightarrow>
                     if ac_status a \<noteq> ''ACTIVE'' then auth_fail ''56'' ''account not active''
                     else \<lparr>au_success = True, au_accountId = Some (cd_accountId c),
                           au_responseCode = ''00'', au_reason = None\<rparr>)))"

text \<open>\<open>verifyPin\<close> after its first query, which gave the row \<open>r\<close>: the second one stores the failure or the
  success, on the row as it is then.\<close>

definition host_verifyPin_store ::
  "'db bank_ops \<Rightarrow> host_env \<Rightarrow> string \<Rightarrow> string \<Rightarrow> (CardRow \<times> AccountRow option) option \<Rightarrow> 'db host
   \<Rightarrow> (AuthResult \<times> 'db host) db_result" where
  "host_verifyPin_store ops env pan enteredPin r h =
     (case r of
        None \<Rightarrow> Inr (auth_fail ''14'' ''card not found'', h)
      | Some (c, _) \<Rightarrow>
          if \<not> verifyPin (he_sha256 env) enteredPin (cd_pin c)
          then sum_bind (db_incrementFailed ops pan (h_db h)) (\<lambda>(updated, db').
                 Inr (if 3 \<le> cd_failedPinCount updated
                      then auth_fail ''38'' ''pin tries exceeded - card will be retained''
                      else auth_fail ''55'' ''incorrect pin'', h\<lparr>h_db := db'\<rparr>))
          else sum_bind (db_resetFailed ops pan (h_db h)) (\<lambda>db'.
                 Inr (\<lparr>au_success = True, au_accountId = None, au_responseCode = ''00'',
                       au_reason = None\<rparr>, h\<lparr>h_db := db'\<rparr>)))"

definition host_verifyPin ::
  "'db bank_ops \<Rightarrow> host_env \<Rightarrow> string \<Rightarrow> string \<Rightarrow> 'db host \<Rightarrow> (AuthResult \<times> 'db host) db_result" where
  "host_verifyPin ops env pan enteredPin h =
     sum_bind (db_findCard ops pan (h_db h)) (\<lambda>r. host_verifyPin_store ops env pan enteredPin r h)"

lemmas host_verifyPin_defs = host_verifyPin_def host_verifyPin_store_def

section \<open>Withdrawal\<close>

record withdrawal =
  wd_pan :: string
  wd_amount :: jsnum
  wd_sessionId :: string
  wd_switch :: "IsoSwitchProfile option"

definition wd_profile :: "withdrawal \<Rightarrow> IsoSwitchProfile" where
  "wd_profile p = js_default (wd_switch p) (getSwitchByPan (wd_pan p))"

definition auth_tag ::
  "IsoSwitchProfile \<Rightarrow> string \<Rightarrow> bool \<Rightarrow> string \<Rightarrow> string option \<Rightarrow> int option \<Rightarrow> string option
   \<Rightarrow> AuthorizationResult" where
  "auth_tag sw stan approved code authCode bal reason =
     \<lparr>az_approved = approved, az_responseCode = code, az_authCode = authCode, az_stanNo = stan,
      az_balanceAfter = bal, az_reason = reason, az_switchId = sp_id sw, az_switchName = sp_name sw\<rparr>"

definition js_BigInt :: "jsnum \<Rightarrow> int db_result" where
  "js_BigInt n = (case js_to_int n of None \<Rightarrow> Inl BigIntRange | Some i \<Rightarrow> Inr i)"

text \<open>The callback of the transaction.\<close>

definition withdraw_tx ::
  "'db bank_ops \<Rightarrow> host_env \<Rightarrow> withdrawal \<Rightarrow> string \<Rightarrow> 'db \<Rightarrow> (AuthorizationResult \<times> 'db) db_result" where
  "withdraw_tx ops env p stan db =
     (let sw = wd_profile p;
          refuse = (\<lambda>code reason db'. Inr (auth_tag sw stan False code None None (Some reason), db'))
      in sum_bind (db_findCard ops (wd_pan p) db) (\<lambda>r.
         case r of
           None \<Rightarrow> refuse ''14'' ''card not found'' db
         | Some (_, None) \<Rightarrow> refuse ''14'' ''card not found'' db
         | Some (c, Some acct) \<Rightarrow>
             if js_lt (js_int (sp_maxWithdrawalIdr sw)) (wd_amount p)
             then refuse ''61'' (sp_name sw @ '' per-transaction cap ('' @
                    js_int_to_string (sp_maxWithdrawalIdr sw) @ '') exceeded'') db
             else
               sum_bind (db_advisoryLock ops (accountLockKey env (cd_accountId c)) db) (\<lambda>db1.
               sum_bind (db_findAccount ops (cd_accountId c) db1) (\<lambda>locked.
                 case locked of
                   None \<Rightarrow> refuse ''56'' ''account not found'' db1
                 | Some la \<Rightarrow>
                     if js_lt (js_int (ac_balance la)) (wd_amount p)
                     then refuse ''51'' ''insufficient funds'' db1
                     else
                       sum_bind (db_sumWithdrawals ops (cd_accountId c) (he_startOfDay env) db1) (\<lambda>already.
                         if js_lt (js_int (ac_dailyLimit acct)) (js_add (js_int already) (wd_amount p))
                         then refuse ''61'' (''daily limit ('' @ js_int_to_string (ac_dailyLimit acct)
                                @ '') exceeded; already withdrawn '' @ js_int_to_string already) db1
                         else
                           sum_bind (js_BigInt (wd_amount p)) (\<lambda>amt.
                           sum_bind (db_moveBalance ops (cd_accountId c) (- amt) amt db1) (\<lambda>(updated, db2).
                             let authCode = host_generateAuthCode env in
                             sum_bind (db_createTransaction ops
                                 \<lparr>tx_sessionId = wd_sessionId p, tx_pan = wd_pan p,
                                  tx_accountId = cd_accountId c, tx_txnType = ''WITHDRAWAL'',
                                  tx_amount = amt, tx_currency = ''IDR'', tx_status = ''COMPLETED'',
                                  tx_stanNo = Some stan, tx_authCode = Some authCode,
                                  tx_responseCode = Some ''00'', tx_errorReason = None,
                                  tx_createdAt = he_nowMs env\<rparr> db2) (\<lambda>db3.
                               Inr (auth_tag sw stan True ''00'' (Some authCode)
                                      (Some (ac_balance updated)) None, db3)))))))))"

definition host_authorizeWithdrawal ::
  "'db bank_ops \<Rightarrow> host_env \<Rightarrow> withdrawal \<Rightarrow> 'db host \<Rightarrow> AuthorizationResult \<times> 'db host" where
  "host_authorizeWithdrawal ops env p h =
     (let (stan, h1) = host_generateStan h
      in case withdraw_tx ops env p stan (h_db h1) of
           Inr (res, db') \<Rightarrow> (res, h1\<lparr>h_db := db'\<rparr>)
         | Inl e \<Rightarrow> (auth_tag (wd_profile p) stan False ''96'' None None (Some ''host error''), h1))"

section \<open>Balance, reversal, retention\<close>

definition host_getBalance :: "'db bank_ops \<Rightarrow> string \<Rightarrow> 'db host \<Rightarrow> BalanceResult db_result" where
  "host_getBalance ops pan h =
     sum_bind (db_findCard ops pan (h_db h)) (\<lambda>r.
       Inr (case r of
         Some (c, Some a) \<Rightarrow>
           \<lparr>br_amount = ac_balance a, br_currency = ac_currency a, br_responseCode = ''00''\<rparr>
       | _ \<Rightarrow> \<lparr>br_amount = 0, br_currency = ''IDR'', br_responseCode = ''14''\<rparr>))"

record reversal =
  rv_stanNo :: string
  rv_sessionId :: string
  rv_pan :: string
  rv_accountId :: string
  rv_amount :: jsnum
  rv_reason :: string

definition reverse_tx :: "'db bank_ops \<Rightarrow> host_env \<Rightarrow> reversal \<Rightarrow> 'db \<Rightarrow> 'db db_result" where
  "reverse_tx ops env p db =
     sum_bind (db_advisoryLock ops (accountLockKey env (rv_accountId p)) db) (\<lambda>db1.
     sum_bind (js_BigInt (rv_amount p)) (\<lambda>amt.
     sum_bind (db_moveBalance ops (rv_accountId p) amt (- amt) db1) (\<lambda>(_, db2).
     sum_bind (db_markReversed ops (rv_stanNo p) (rv_reason p) db2) (\<lambda>db3.
       db_createTransaction ops
         \<lparr>tx_sessionId = rv_sessionId p, tx_pan = rv_pan p, tx_accountId = rv_accountId p,
          tx_txnType = ''WITHDRAWAL'', tx_amount = amt, tx_currency = ''IDR'',
          tx_status = ''REVERSED'', tx_stanNo = Some (rv_stanNo p), tx_authCode = None,
          tx_responseCode = None, tx_errorReason = Some (rv_reason p),
          tx_createdAt = he_nowMs env\<rparr> db3))))"

definition host_reverseTransaction ::
  "'db bank_ops \<Rightarrow> host_env \<Rightarrow> reversal \<Rightarrow> 'db host \<Rightarrow> (db_error + unit) \<times> 'db host" where
  "host_reverseTransaction ops env p h =
     (case reverse_tx ops env p (h_db h) of
        Inl e \<Rightarrow> (Inl e, h)
      | Inr db' \<Rightarrow> (Inr (), h\<lparr>h_db := db'\<rparr>))"

definition host_retainCard :: "'db bank_ops \<Rightarrow> string \<Rightarrow> 'db host \<Rightarrow> (db_error + unit) \<times> 'db host" where
  "host_retainCard ops pan h =
     (case db_setCardStatus ops pan ''RETAINED'' (h_db h) of
        Inl e \<Rightarrow> (Inl e, h)
      | Inr db' \<Rightarrow> (Inr (), h\<lparr>h_db := db'\<rparr>))"

end
