(* ===== verification/Host_Props.thy ===== *)
theory Host_Props
  imports Host_Emulator
begin

text \<open>
  Correctness of the host over any database that keeps the contract \<open>bank_db\<close>: what an approval
  requires and does, the response codes, PIN retries, reversals, and balances that never go
  negative. The lemmas live in the locale; the properties state it as a hypothesis and are
  witnessed on the in-memory tables.
\<close>

section \<open>What an operation may do to the tables\<close>

definition withdrawal_row :: "host_env \<Rightarrow> withdrawal \<Rightarrow> string \<Rightarrow> string \<Rightarrow> int \<Rightarrow> TransactionRow" where
  "withdrawal_row env p stan acc amt =
     \<lparr>tx_sessionId = wd_sessionId p, tx_pan = wd_pan p, tx_accountId = acc,
      tx_txnType = ''WITHDRAWAL'', tx_amount = amt, tx_currency = ''IDR'',
      tx_status = ''COMPLETED'', tx_stanNo = Some stan,
      tx_authCode = Some (host_generateAuthCode env), tx_responseCode = Some ''00'',
      tx_errorReason = None, tx_createdAt = he_nowMs env\<rparr>"

definition debited :: "int \<Rightarrow> AccountRow \<Rightarrow> AccountRow" where
  "debited amt a = a\<lparr>ac_balance := ac_balance a - amt, ac_dailyWithdrawn := ac_dailyWithdrawn a + amt\<rparr>"

text \<open>The tables after an approved withdrawal.\<close>

definition bank_withdraw :: "host_env \<Rightarrow> withdrawal \<Rightarrow> string \<Rightarrow> string \<Rightarrow> AccountRow \<Rightarrow> int \<Rightarrow> bank \<Rightarrow> bank" where
  "bank_withdraw env p stan acc a amt b =
     (put_account (debited amt a) b)\<lparr>bk_txns := bk_txns b @ [withdrawal_row env p stan acc amt]\<rparr>"

text \<open>When a withdrawal may be approved.\<close>

definition withdraw_allowed :: "host_env \<Rightarrow> withdrawal \<Rightarrow> bank \<Rightarrow> CardRow \<Rightarrow> AccountRow \<Rightarrow> int \<Rightarrow> bool" where
  "withdraw_allowed env p b c a amt \<longleftrightarrow>
     find_card (wd_pan p) b = Some (c, Some a) \<and> wd_amount p = js_int amt
     \<and> amt \<le> sp_maxWithdrawalIdr (wd_profile p) \<and> amt \<le> ac_balance a
     \<and> sum_withdrawals (cd_accountId c) (he_startOfDay env) b + amt \<le> ac_dailyLimit a"

definition reversal_row :: "host_env \<Rightarrow> reversal \<Rightarrow> int \<Rightarrow> TransactionRow" where
  "reversal_row env p amt =
     \<lparr>tx_sessionId = rv_sessionId p, tx_pan = rv_pan p, tx_accountId = rv_accountId p,
      tx_txnType = ''WITHDRAWAL'', tx_amount = amt, tx_currency = ''IDR'',
      tx_status = ''REVERSED'', tx_stanNo = Some (rv_stanNo p), tx_authCode = None,
      tx_responseCode = None, tx_errorReason = Some (rv_reason p), tx_createdAt = he_nowMs env\<rparr>"

text \<open>The tables after a reversal: the account is credited, every completed transaction with the
  trace number is marked, and the reversal is recorded.\<close>

definition bank_reverse :: "host_env \<Rightarrow> reversal \<Rightarrow> AccountRow \<Rightarrow> int \<Rightarrow> bank \<Rightarrow> bank" where
  "bank_reverse env p a amt b =
     (put_account (debited (- amt) a) b)
       \<lparr>bk_txns := map (mark_reversed (rv_stanNo p) (rv_reason p)) (bk_txns b) @ [reversal_row env p amt]\<rparr>"

datatype host_op =
    HostAuthenticate string
  | HostVerifyPin string string
  | HostWithdraw withdrawal
  | HostBalance string
  | HostReverse reversal
  | HostRetain string

text \<open>The abstract host: the table changes each request may cause. Every request may also change
  nothing, when it is refused or the database fails.\<close>

inductive bank_step :: "host_env \<Rightarrow> host_op \<Rightarrow> bank \<Rightarrow> bank \<Rightarrow> bool" for env where
  unchanged: "bank_step env op b b"
| pin_wrong: "bk_cards b pan = Some c \<Longrightarrow> \<not> verifyPin (he_sha256 env) pin (cd_pin c) \<Longrightarrow>
    bank_step env (HostVerifyPin pan pin) b (put_card (c\<lparr>cd_failedPinCount := cd_failedPinCount c + 1\<rparr>) b)"
| pin_right: "bk_cards b pan = Some c \<Longrightarrow> verifyPin (he_sha256 env) pin (cd_pin c) \<Longrightarrow>
    bank_step env (HostVerifyPin pan pin) b (put_card (c\<lparr>cd_failedPinCount := 0\<rparr>) b)"
| withdrawn: "withdraw_allowed env p b c a amt \<Longrightarrow>
    bank_step env (HostWithdraw p) b (bank_withdraw env p stan (cd_accountId c) a amt b)"
| reversed: "bk_accounts b (rv_accountId p) = Some a \<Longrightarrow> rv_amount p = js_int amt \<Longrightarrow>
    bank_step env (HostReverse p) b (bank_reverse env p a amt b)"
| retained: "bk_cards b pan = Some c \<Longrightarrow>
    bank_step env (HostRetain pan) b (put_card (c\<lparr>cd_status := ''RETAINED''\<rparr>) b)"

text \<open>The concrete host: one request on the state.\<close>

fun host_step :: "'db bank_ops \<Rightarrow> host_env \<Rightarrow> host_op \<Rightarrow> 'db host \<Rightarrow> 'db host" where
  "host_step ops env (HostAuthenticate pan) h = h"
| "host_step ops env (HostVerifyPin pan pin) h =
     (case host_verifyPin ops env pan pin h of Inl e \<Rightarrow> h | Inr (_, h') \<Rightarrow> h')"
| "host_step ops env (HostWithdraw p) h = snd (host_authorizeWithdrawal ops env p h)"
| "host_step ops env (HostBalance pan) h = h"
| "host_step ops env (HostReverse p) h = snd (host_reverseTransaction ops env p h)"
| "host_step ops env (HostRetain pan) h = snd (host_retainCard ops pan h)"

fun host_run :: "'db bank_ops \<Rightarrow> (host_env \<times> host_op) list \<Rightarrow> 'db host \<Rightarrow> 'db host" where
  "host_run ops [] h = h"
| "host_run ops ((env, op) # xs) h = host_run ops xs (host_step ops env op h)"

section \<open>Withdrawals\<close>

lemma auth_tag_simps [simp]:
  "az_approved (auth_tag sw stan ok code ac bal r) = ok"
  "az_responseCode (auth_tag sw stan ok code ac bal r) = code"
  "az_stanNo (auth_tag sw stan ok code ac bal r) = stan"
  "az_balanceAfter (auth_tag sw stan ok code ac bal r) = bal"
  by (simp_all add: auth_tag_def)

lemma js_BigInt_Inr: "js_BigInt n = Inr i \<longleftrightarrow> n = js_int i"
  by (auto simp: js_BigInt_def js_to_int_Some split: option.splits)

lemma sum_bind_InrE:
  assumes "sum_bind m f = Inr x"
  obtains y where "m = Inr y" "f y = Inr x"
  using assms by (auto simp: sum_bind_Inr)

context bank_db
begin

lemma withdraw_tx_cases:
  assumes "withdraw_tx ops env p stan db = Inr (res, db')"
  shows "az_stanNo res = stan \<and>
    (\<not> az_approved res \<and> view db' = view db
     \<or> az_approved res \<and> az_responseCode res = ''00''
       \<and> (\<exists>c a amt. withdraw_allowed env p (view db) c a amt
            \<and> view db' = bank_withdraw env p stan (cd_accountId c) a amt (view db)
            \<and> az_balanceAfter res = Some (ac_balance a - amt)))"
proof (cases "az_approved res")
  case False
  with assms show ?thesis
    by - (auto simp: withdraw_tx_def Let_def elim!: sum_bind_InrE
        split: option.split_asm prod.split_asm if_split_asm, (erule advisoryLock)+)
next
  case True
  then obtain c acct db1 la already amt updated db2 where W:
    "db_findCard ops (wd_pan p) db = Inr (Some (c, Some acct))"
    "\<not> js_lt (js_int (sp_maxWithdrawalIdr (wd_profile p))) (wd_amount p)"
    "db_advisoryLock ops (accountLockKey env (cd_accountId c)) db = Inr db1"
    "db_findAccount ops (cd_accountId c) db1 = Inr (Some la)"
    "\<not> js_lt (js_int (ac_balance la)) (wd_amount p)"
    "db_sumWithdrawals ops (cd_accountId c) (he_startOfDay env) db1 = Inr already"
    "\<not> js_lt (js_int (ac_dailyLimit acct)) (js_add (js_int already) (wd_amount p))"
    "js_BigInt (wd_amount p) = Inr amt"
    "db_moveBalance ops (cd_accountId c) (- amt) amt db1 = Inr (updated, db2)"
    "db_createTransaction ops (withdrawal_row env p stan (cd_accountId c) amt) db2 = Inr db'"
    "res = auth_tag (wd_profile p) stan True ''00'' (Some (host_generateAuthCode env))
       (Some (ac_balance updated)) None"
    using assms
    by (auto simp: withdraw_tx_def Let_def withdrawal_row_def elim!: sum_bind_InrE
        split: option.split_asm prod.split_asm if_split_asm)
  have v1: "view db1 = view db" using advisoryLock [OF W(3)] .
  have card: "find_card (wd_pan p) (view db) = Some (c, Some acct)" using findCard [OF W(1)] by simp
  then have acct: "bk_accounts (view db) (cd_accountId c) = Some acct"
    by (auto simp: find_card_def)
  have la: "la = acct" using findAccount [OF W(4)] v1 acct by simp
  have amt: "wd_amount p = js_int amt" using W(8) by (simp add: js_BigInt_Inr)
  have al: "already = sum_withdrawals (cd_accountId c) (he_startOfDay env) (view db)"
    using sumWithdrawals [OF W(6)] v1 by simp
  obtain a where a: "bk_accounts (view db1) (cd_accountId c) = Some a"
    "updated = debited amt a" "view db2 = put_account updated (view db1)"
    using moveBalance [OF W(9)] by (auto simp: debited_def)
  have "view db' = bank_withdraw env p stan (cd_accountId c) acct amt (view db)"
    using createTransaction [OF W(10)] a v1 acct by (simp add: bank_withdraw_def put_account_def)
  moreover have "withdraw_allowed env p (view db) c acct amt"
    using card W(2,5,7) amt al la by (simp add: withdraw_allowed_def)
  moreover have "az_balanceAfter res = Some (ac_balance acct - amt)"
    using W(11) a v1 acct by (simp add: debited_def)
  ultimately show ?thesis using W(11) True by auto
qed

lemma authorize_cases:
  assumes "host_authorizeWithdrawal ops env p h = (res, h')"
  shows "az_stanNo res = formatStan (h_stanCounter h) \<and> h_stanCounter h' = h_stanCounter h + 1
    \<and> (\<not> az_approved res \<and> view (h_db h') = view (h_db h)
       \<or> az_approved res \<and> (\<exists>c a amt. withdraw_allowed env p (view (h_db h)) c a amt
            \<and> view (h_db h') = bank_withdraw env p (az_stanNo res) (cd_accountId c) a amt (view (h_db h))
            \<and> az_balanceAfter res = Some (ac_balance a - amt)))"
proof (cases "withdraw_tx ops env p (formatStan (h_stanCounter h)) (h_db h)")
  case (Inl e)
  then show ?thesis using assms
    by (auto simp: host_authorizeWithdrawal_def host_generateStan_def Let_def)
next
  case (Inr r)
  obtain x db' where r: "r = (x, db')" by (cases r)
  then have "res = x" "h' = h\<lparr>h_stanCounter := h_stanCounter h + 1, h_db := db'\<rparr>"
    using assms Inr by (auto simp: host_authorizeWithdrawal_def host_generateStan_def Let_def)
  with withdraw_tx_cases [OF Inr [unfolded r]] show ?thesis by auto
qed

lemma verifyPin_cases:
  assumes "host_verifyPin ops env pan pin h = Inr (r, h')"
  shows "h' = h \<and> au_responseCode r = ''14'' \<and> bk_cards (view (h_db h)) pan = None \<or>
    (\<exists>c. bk_cards (view (h_db h)) pan = Some c \<and>
      (let ok = verifyPin (he_sha256 env) pin (cd_pin c);
           n = (if ok then 0 else cd_failedPinCount c + 1)
       in au_success r = ok
          \<and> au_responseCode r = (if ok then ''00'' else if 3 \<le> n then ''38'' else ''55'')
          \<and> view (h_db h') = put_card (c\<lparr>cd_failedPinCount := n\<rparr>) (view (h_db h))))"
proof -
  obtain f where f: "db_findCard ops pan (h_db h) = Inr f"
    using assms by (auto simp: host_verifyPin_defs elim!: sum_bind_InrE)
  note F = findCard [OF f]
  show ?thesis
  proof (cases f)
    case None
    then show ?thesis using assms f F
      by (auto simp: host_verifyPin_defs find_card_def auth_fail_def)
  next
    case (Some ca)
    obtain c oa where ca: "ca = (c, oa)" by (cases ca)
    have c: "bk_cards (view (h_db h)) pan = Some c"
      using F Some ca by (cases "bk_cards (view (h_db h)) pan") (auto simp: find_card_def)
    show ?thesis
    proof (cases "verifyPin (he_sha256 env) pin (cd_pin c)")
      case True
      then show ?thesis using assms f Some ca c
        by (auto simp: host_verifyPin_defs elim!: sum_bind_InrE dest!: resetFailed)
    next
      case False
      then show ?thesis using assms f Some ca c
        by (auto simp: host_verifyPin_defs auth_fail_def elim!: sum_bind_InrE dest!: incrementFailed)
    qed
  qed
qed

lemma reverse_tx_cases:
  assumes "reverse_tx ops env p db = Inr db'"
  shows "\<exists>a amt. bk_accounts (view db) (rv_accountId p) = Some a \<and> rv_amount p = js_int amt
    \<and> view db' = bank_reverse env p a amt (view db)"
proof -
  obtain db1 amt u db2 db3 where R:
    "db_advisoryLock ops (accountLockKey env (rv_accountId p)) db = Inr db1"
    "js_BigInt (rv_amount p) = Inr amt"
    "db_moveBalance ops (rv_accountId p) amt (- amt) db1 = Inr (u, db2)"
    "db_markReversed ops (rv_stanNo p) (rv_reason p) db2 = Inr db3"
    "db_createTransaction ops (reversal_row env p amt) db3 = Inr db'"
    using assms by (auto simp: reverse_tx_def reversal_row_def elim!: sum_bind_InrE)
  obtain a where a: "bk_accounts (view db1) (rv_accountId p) = Some a"
    "u = debited (- amt) a" "view db2 = put_account u (view db1)"
    using moveBalance [OF R(3)] by (auto simp: debited_def)
  have "view db' = bank_reverse env p a amt (view db)"
    using advisoryLock [OF R(1)] a markReversed [OF R(4)] createTransaction [OF R(5)]
    by (simp add: bank_reverse_def put_account_def)
  then show ?thesis using a(1) advisoryLock [OF R(1)] R(2) by (auto simp: js_BigInt_Inr)
qed

lemma host_step_refines: "bank_step env op (view (h_db h)) (view (h_db (host_step ops env op h)))"
proof (cases op)
  case (HostVerifyPin pan pin)
  show ?thesis
  proof (cases "host_verifyPin ops env pan pin h")
    case (Inl e)
    then show ?thesis by (simp add: HostVerifyPin bank_step.unchanged)
  next
    case (Inr x)
    obtain r h' where x: "x = (r, h')" by (cases x)
    from verifyPin_cases [OF Inr [unfolded x]] Inr x show ?thesis
      by (auto simp: HostVerifyPin Let_def intro: bank_step.intros)
  qed
next
  case (HostWithdraw p)
  obtain r h' where eq: "host_authorizeWithdrawal ops env p h = (r, h')" by fastforce
  from authorize_cases [OF eq] eq show ?thesis
    by (auto simp: HostWithdraw intro: bank_step.intros)
next
  case (HostReverse p)
  show ?thesis
  proof (cases "reverse_tx ops env p (h_db h)")
    case (Inl e)
    then show ?thesis by (simp add: HostReverse host_reverseTransaction_def bank_step.unchanged)
  next
    case (Inr db')
    then show ?thesis
      using reverse_tx_cases [OF Inr] bank_step.reversed [of "view (h_db h)" p _ _ env]
      by (auto simp: HostReverse host_reverseTransaction_def)
  qed
next
  case (HostRetain pan)
  show ?thesis
  proof (cases "db_setCardStatus ops pan ''RETAINED'' (h_db h)")
    case (Inl e)
    then show ?thesis by (simp add: HostRetain host_retainCard_def bank_step.unchanged)
  next
    case (Inr db')
    then show ?thesis
      using setCardStatus [OF Inr] bank_step.retained [of "view (h_db h)" pan _ env]
      by (auto simp: HostRetain host_retainCard_def)
  qed
qed (simp_all add: bank_step.unchanged)

end

section \<open>Invariants of the abstract host\<close>

inductive_cases bank_stepE: "bank_step env op b b'"

text \<open>Solvent tables: keys match, no amount is negative, no account is overdrawn and none is above
  its daily limit for the day that started at \<open>day\<close>.\<close>

definition bank_ok :: "int \<Rightarrow> bank \<Rightarrow> bool" where
  "bank_ok day b \<longleftrightarrow> bank_wf b \<and> (\<forall>t \<in> set (bk_txns b). 0 \<le> tx_amount t)
     \<and> (\<forall>i a. bk_accounts b i = Some a \<longrightarrow>
          0 \<le> ac_balance a \<and> sum_withdrawals i day b \<le> ac_dailyLimit a)"

fun op_nonneg :: "host_op \<Rightarrow> bool" where
  "op_nonneg (HostWithdraw p) = (\<not> js_lt (wd_amount p) (js_int 0))"
| "op_nonneg (HostReverse p) = (\<not> js_lt (rv_amount p) (js_int 0))"
| "op_nonneg _ = True"

lemma put_card_simps [simp]:
  "bk_accounts (put_card c b) = bk_accounts b" "bk_txns (put_card c b) = bk_txns b"
  "bk_cards (put_card c b) = (bk_cards b)(cd_pan c \<mapsto> c)"
  by (simp_all add: put_card_def)

lemma put_account_simps [simp]:
  "bk_accounts (put_account a b) = (bk_accounts b)(ac_id a \<mapsto> a)"
  "bk_txns (put_account a b) = bk_txns b" "bk_cards (put_account a b) = bk_cards b"
  by (simp_all add: put_account_def)

lemma debited_simps [simp]:
  "ac_id (debited n a) = ac_id a" "ac_balance (debited n a) = ac_balance a - n"
  "ac_dailyLimit (debited n a) = ac_dailyLimit a" "ac_status (debited n a) = ac_status a"
  by (simp_all add: debited_def)

lemma debited_back [simp]: "debited (- n) (debited n a) = a"
  by (simp add: debited_def)

lemma sum_withdrawals_put [simp]:
  "sum_withdrawals i day (put_card c b) = sum_withdrawals i day b"
  "sum_withdrawals i day (put_account a b) = sum_withdrawals i day b"
  by (simp_all add: sum_withdrawals_def)

lemma sum_withdrawals_withdraw:
  "sum_withdrawals i day (bank_withdraw env p stan acc a amt b) =
   sum_withdrawals i day b + (if i = acc \<and> day \<le> he_nowMs env then amt else 0)"
  by (simp add: sum_withdrawals_def bank_withdraw_def is_withdrawal_def withdrawal_row_def)

lemma sum_withdrawals_reverse:
  assumes "\<forall>t \<in> set (bk_txns b). 0 \<le> tx_amount t"
  shows "sum_withdrawals i day (bank_reverse env p a amt b) \<le> sum_withdrawals i day b"
proof -
  have "sum_list (map tx_amount (filter (is_withdrawal i day) (map (mark_reversed s r) ts)))
      \<le> sum_list (map tx_amount (filter (is_withdrawal i day) ts))"
    if "\<forall>t \<in> set ts. 0 \<le> tx_amount t" for s r ts
    using that by (induction ts) (auto simp: mark_reversed_def is_withdrawal_def)
  with assms show ?thesis
    by (simp add: sum_withdrawals_def bank_reverse_def is_withdrawal_def reversal_row_def)
qed

lemma bank_ok_put_card: "bank_ok day b \<Longrightarrow> bank_ok day (put_card c b)"
  by (auto simp: bank_ok_def bank_wf_def)

lemma bank_ok_withdraw:
  assumes ok: "bank_ok (he_startOfDay env) b" and W: "withdraw_allowed env p b c a amt"
    and nn: "op_nonneg (HostWithdraw p)"
  shows "bank_ok (he_startOfDay env) (bank_withdraw env p stan (cd_accountId c) a amt b)"
proof -
  let ?day = "he_startOfDay env" and ?b = "bank_withdraw env p stan (cd_accountId c) a amt b"
  have a: "bk_accounts b (cd_accountId c) = Some a" and amt: "0 \<le> amt" "amt \<le> ac_balance a"
    and lim: "sum_withdrawals (cd_accountId c) ?day b + amt \<le> ac_dailyLimit a"
    using W nn by (auto simp: withdraw_allowed_def find_card_def)
  then have id: "ac_id a = cd_accountId c" using ok by (auto simp: bank_ok_def bank_wf_def)
  have acc: "bk_accounts ?b = (bk_accounts b)(cd_accountId c \<mapsto> debited amt a)"
    by (simp add: bank_withdraw_def id)
  have "bank_wf ?b" using ok by (auto simp: bank_ok_def bank_wf_def bank_withdraw_def id)
  moreover have "\<forall>t \<in> set (bk_txns ?b). 0 \<le> tx_amount t"
    using ok amt by (auto simp: bank_ok_def bank_withdraw_def withdrawal_row_def)
  moreover have "0 \<le> ac_balance x \<and> sum_withdrawals i ?day ?b \<le> ac_dailyLimit x"
    if "bk_accounts ?b i = Some x" for i x
    using that ok amt lim a
    by (auto simp: acc sum_withdrawals_withdraw bank_ok_def split: if_splits)
  ultimately show ?thesis by (simp add: bank_ok_def)
qed

lemma bank_ok_reverse:
  assumes ok: "bank_ok day b" and a: "bk_accounts b (rv_accountId p) = Some a"
    and amt: "0 \<le> amt"
  shows "bank_ok day (bank_reverse env p a amt b)"
proof -
  let ?b = "bank_reverse env p a amt b"
  have id: "ac_id a = rv_accountId p" using ok a by (auto simp: bank_ok_def bank_wf_def)
  have nn: "\<forall>t \<in> set (bk_txns b). 0 \<le> tx_amount t" using ok by (simp add: bank_ok_def)
  have "bank_wf ?b" using ok by (auto simp: bank_ok_def bank_wf_def bank_reverse_def id)
  moreover have "\<forall>t \<in> set (bk_txns ?b). 0 \<le> tx_amount t"
    using nn amt by (auto simp: bank_reverse_def reversal_row_def mark_reversed_def)
  moreover have "0 \<le> ac_balance x \<and> sum_withdrawals i day ?b \<le> ac_dailyLimit x"
    if x: "bk_accounts ?b i = Some x" for i x
  proof -
    obtain y where "bk_accounts b i = Some y" "ac_dailyLimit x = ac_dailyLimit y"
      "ac_balance y \<le> ac_balance x"
      using x a amt by (cases "i = rv_accountId p") (auto simp: bank_reverse_def id)
    with ok sum_withdrawals_reverse [OF nn, of i day env p a amt] show ?thesis
      by (force simp: bank_ok_def)
  qed
  ultimately show ?thesis by (simp add: bank_ok_def)
qed

lemma bank_step_ok:
  assumes "bank_step env op b b'" "bank_ok (he_startOfDay env) b" "op_nonneg op"
  shows "bank_ok (he_startOfDay env) b'"
  using assms
  by (cases rule: bank_stepE)
    (auto intro: bank_ok_put_card bank_ok_withdraw bank_ok_reverse)

section \<open>Runs of the host\<close>

text \<open>A reversal matches when exactly one completed transaction has its trace number, and that
  transaction is the withdrawal it undoes.\<close>

definition has_stan :: "string \<Rightarrow> TransactionRow \<Rightarrow> bool" where
  "has_stan stan t \<longleftrightarrow> tx_stanNo t = Some stan \<and> tx_status t = ''COMPLETED''"

definition reversal_matches :: "reversal \<Rightarrow> bank \<Rightarrow> bool" where
  "reversal_matches p b =
     (case filter (has_stan (rv_stanNo p)) (bk_txns b) of
        [t] \<Rightarrow> tx_accountId t = rv_accountId p \<and> js_int (tx_amount t) = rv_amount p
                \<and> tx_txnType t = ''WITHDRAWAL''
      | _ \<Rightarrow> False)"

fun op_matches :: "host_op \<Rightarrow> bank \<Rightarrow> bool" where
  "op_matches (HostReverse p) b = reversal_matches p b"
| "op_matches _ b = True"

fun run_matches :: "'db bank_ops \<Rightarrow> ('db \<Rightarrow> bank) \<Rightarrow> (host_env \<times> host_op) list \<Rightarrow> 'db host \<Rightarrow> bool" where
  "run_matches ops view [] h = True"
| "run_matches ops view ((env, op) # xs) h =
     (op_matches op (view (h_db h)) \<and> run_matches ops view xs (host_step ops env op h))"

text \<open>What an account holds plus what it was paid out.\<close>

definition paid_out :: "string \<Rightarrow> TransactionRow list \<Rightarrow> int" where
  "paid_out i ts = sum_list (map tx_amount (filter (\<lambda>t. tx_accountId t = i
     \<and> tx_status t = ''COMPLETED'' \<and> tx_txnType t = ''WITHDRAWAL'') ts))"

definition ledger :: "string \<Rightarrow> bank \<Rightarrow> int option" where
  "ledger i b = map_option (\<lambda>a. ac_balance a + paid_out i (bk_txns b)) (bk_accounts b i)"

lemma paid_out_simps [simp]:
  "paid_out i [] = 0"
  "paid_out i (t # ts) = (if tx_accountId t = i \<and> tx_status t = ''COMPLETED''
     \<and> tx_txnType t = ''WITHDRAWAL'' then tx_amount t else 0) + paid_out i ts"
  "paid_out i (ts @ us) = paid_out i ts + paid_out i us"
  by (simp_all add: paid_out_def)

lemma mark_other: "\<not> has_stan s t \<Longrightarrow> mark_reversed s r t = t"
  by (auto simp: mark_reversed_def has_stan_def)

lemma map_mark_other: "filter (has_stan s) ts = [] \<Longrightarrow> map (mark_reversed s r) ts = ts"
  by (induction ts) (auto simp: mark_other split: if_splits)

lemma paid_out_reversed:
  "filter (has_stan s) ts = [t] \<Longrightarrow> tx_txnType t = ''WITHDRAWAL'' \<Longrightarrow>
   paid_out i (map (mark_reversed s r) ts) = paid_out i ts - (if tx_accountId t = i then tx_amount t else 0)"
proof (induction ts)
  case Nil
  then show ?case by simp
next
  case (Cons u ts)
  show ?case
  proof (cases "has_stan s u")
    case True
    then have "u = t" "filter (has_stan s) ts = []" using Cons.prems by simp_all
    moreover have "mark_reversed s r u = u\<lparr>tx_status := ''REVERSED'', tx_errorReason := Some r\<rparr>"
      "tx_status u = ''COMPLETED''"
      using True by (simp_all add: mark_reversed_def has_stan_def)
    ultimately show ?thesis using Cons.prems by (simp add: map_mark_other)
  next
    case False
    then show ?thesis using Cons by (simp add: mark_other)
  qed
qed

lemma bank_step_wf: "bank_step env op b b' \<Longrightarrow> bank_wf b \<Longrightarrow> bank_wf b'"
  by (cases rule: bank_stepE, assumption)
    (auto simp: bank_wf_def bank_withdraw_def bank_reverse_def withdraw_allowed_def find_card_def)

lemma bank_step_ledger:
  assumes "bank_step env op b b'" "bank_wf b" "op_matches op b"
  shows "ledger i b' = ledger i b"
  using assms
proof (cases rule: bank_step.cases)
  case (withdrawn p c a amt stan)
  then have "bk_accounts b (cd_accountId c) = Some a" by (auto simp: withdraw_allowed_def find_card_def)
  moreover from this have "ac_id a = cd_accountId c" using assms(2) by (auto simp: bank_wf_def)
  ultimately show ?thesis using withdrawn
    by (auto simp: ledger_def bank_withdraw_def withdrawal_row_def)
next
  case (reversed p a amt)
  then obtain t where t: "filter (has_stan (rv_stanNo p)) (bk_txns b) = [t]" "tx_txnType t = ''WITHDRAWAL''"
    "tx_accountId t = rv_accountId p" "tx_amount t = amt"
    using assms(3) by (auto simp: reversal_matches_def split: list.splits)
  have "ac_id a = rv_accountId p" using assms(2) reversed by (auto simp: bank_wf_def)
  then show ?thesis using reversed paid_out_reversed [OF t(1,2)] t
    by (auto simp: ledger_def bank_reverse_def reversal_row_def)
qed (auto simp: ledger_def)

section \<open>Decisions while the database is up\<close>

text \<open>The response code of a withdrawal as a decision on the tables.\<close>

definition withdraw_code :: "host_env \<Rightarrow> withdrawal \<Rightarrow> bank \<Rightarrow> string" where
  "withdraw_code env p b =
     (case find_card (wd_pan p) b of
        Some (c, Some a) \<Rightarrow>
          if js_lt (js_int (sp_maxWithdrawalIdr (wd_profile p))) (wd_amount p) then ''61''
          else if js_lt (js_int (ac_balance a)) (wd_amount p) then ''51''
          else if js_lt (js_int (ac_dailyLimit a))
            (js_add (js_int (sum_withdrawals (cd_accountId c) (he_startOfDay env) b)) (wd_amount p))
          then ''61''
          else if js_isInteger (wd_amount p) then ''00'' else ''96''
      | _ \<Rightarrow> ''14'')"

text \<open>The codes of a sequence of PIN attempts, from the number of failures before it.\<close>

fun pin_codes :: "bool list \<Rightarrow> int \<Rightarrow> string list" where
  "pin_codes [] n = []"
| "pin_codes (ok # oks) n =
     (if ok then ''00'' # pin_codes oks 0
      else (if 3 \<le> n + 1 then ''38'' else ''55'') # pin_codes oks (n + 1))"

fun pin_attempts ::
  "'db bank_ops \<Rightarrow> host_env \<Rightarrow> string \<Rightarrow> string list \<Rightarrow> 'db host \<Rightarrow> (string list \<times> 'db host) db_result" where
  "pin_attempts ops env pan [] h = Inr ([], h)"
| "pin_attempts ops env pan (pin # pins) h =
     sum_bind (host_verifyPin ops env pan pin h) (\<lambda>(r, h1).
     sum_bind (pin_attempts ops env pan pins h1) (\<lambda>(rs, h2). Inr (au_responseCode r # rs, h2)))"

context bank_db_up
begin

lemma withdraw_tx_code:
  "sum_bind (withdraw_tx ops env p stan db) (\<lambda>(r, db'). Inr (az_responseCode r, az_approved r)) =
     (if withdraw_code env p (view db) = ''96'' then Inl BigIntRange
      else Inr (withdraw_code env p (view db), withdraw_code env p (view db) = ''00''))"
proof -
  obtain f where f: "db_findCard ops (wd_pan p) db = Inr f" using findCard_up by blast
  note F = findCard [OF f]
  show ?thesis
  proof (cases "\<exists>c a. f = Some (c, Some a)")
    case False
    then show ?thesis using f F
      by (auto simp: withdraw_tx_def withdraw_code_def split: option.split)
  next
    case True
    then obtain c a where fa: "f = Some (c, Some a)" by blast
    have a: "bk_accounts (view db) (cd_accountId c) = Some a"
      using F fa by (cases "bk_cards (view db) (wd_pan p)") (auto simp: find_card_def)
    obtain db1 where l: "db_advisoryLock ops (accountLockKey env (cd_accountId c)) db = Inr db1"
      using advisoryLock_up by blast
    have v1: "view db1 = view db" using advisoryLock [OF l] .
    obtain la where la: "db_findAccount ops (cd_accountId c) db1 = Inr la" using findAccount_up by blast
    have laa: "la = Some a" using findAccount [OF la] v1 a by simp
    obtain n where n: "db_sumWithdrawals ops (cd_accountId c) (he_startOfDay env) db1 = Inr n"
      using sumWithdrawals_up by blast
    have ns: "n = sum_withdrawals (cd_accountId c) (he_startOfDay env) (view db)"
      using sumWithdrawals [OF n] v1 by simp
    have code: "withdraw_code env p (view db) =
        (if js_lt (js_int (sp_maxWithdrawalIdr (wd_profile p))) (wd_amount p) then ''61''
         else if js_lt (js_int (ac_balance a)) (wd_amount p) then ''51''
         else if js_lt (js_int (ac_dailyLimit a)) (js_add (js_int n) (wd_amount p)) then ''61''
         else if js_isInteger (wd_amount p) then ''00'' else ''96'')"
      by (simp add: withdraw_code_def F [symmetric] fa ns)
    show ?thesis
    proof (cases "js_BigInt (wd_amount p)")
      case (Inl e)
      then have "e = BigIntRange" "\<not> js_isInteger (wd_amount p)"
        by (auto simp: js_BigInt_def js_isInteger_def split: option.splits)
      then show ?thesis using Inl f fa l la laa n
        by (simp add: code withdraw_tx_def Let_def)
    next
      case (Inr amt)
      then have int: "js_isInteger (wd_amount p)" by (auto simp: js_BigInt_Inr)
      obtain u db2 where mv: "db_moveBalance ops (cd_accountId c) (- amt) amt db1 = Inr (u, db2)"
        using moveBalance_up [of db1 "cd_accountId c" a] v1 a by (metis surj_pair)
      obtain db3 where cr:
        "db_createTransaction ops (withdrawal_row env p stan (cd_accountId c) amt) db2 = Inr db3"
        using createTransaction_up by blast
      show ?thesis using Inr int f fa l la laa n mv cr
        by (simp add: code withdraw_tx_def Let_def withdrawal_row_def [symmetric])
    qed
  qed
qed

lemma authorize_code:
  assumes "host_authorizeWithdrawal ops env p h = (res, h')"
  shows "az_responseCode res = withdraw_code env p (view (h_db h))
    \<and> (az_approved res \<longleftrightarrow> withdraw_code env p (view (h_db h)) = ''00'')"
proof (cases "withdraw_tx ops env p (formatStan (h_stanCounter h)) (h_db h)")
  case (Inl e)
  then have "withdraw_code env p (view (h_db h)) = ''96''"
    using withdraw_tx_code [of env p "formatStan (h_stanCounter h)" "h_db h"]
    by (simp split: if_splits)
  then show ?thesis using assms Inl
    by (auto simp: host_authorizeWithdrawal_def host_generateStan_def)
next
  case (Inr x)
  obtain r db' where x: "x = (r, db')" by (cases x)
  have "res = r" using assms Inr x
    by (auto simp: host_authorizeWithdrawal_def host_generateStan_def)
  then show ?thesis
    using withdraw_tx_code [of env p "formatStan (h_stanCounter h)" "h_db h"] Inr x
    by (simp split: if_splits)
qed

lemma verifyPin_up:
  "\<exists>r h'. host_verifyPin ops env pan pin h = Inr (r, h')"
proof -
  obtain f where f: "db_findCard ops pan (h_db h) = Inr f" using findCard_up by blast
  note F = findCard [OF f]
  show ?thesis
  proof (cases f)
    case None
    then show ?thesis using f by (simp add: host_verifyPin_defs)
  next
    case (Some ca)
    obtain c oa where ca: "ca = (c, oa)" by (cases ca)
    have c: "bk_cards (view (h_db h)) pan = Some c"
      using F Some ca by (cases "bk_cards (view (h_db h)) pan") (auto simp: find_card_def)
    obtain u where u: "db_incrementFailed ops pan (h_db h) = Inr u" using incrementFailed_up [OF c] by blast
    obtain d where d: "db_resetFailed ops pan (h_db h) = Inr d" using resetFailed_up [OF c] by blast
    show ?thesis using f Some ca u d
      by (cases u) (simp add: host_verifyPin_defs)
  qed
qed

lemma pin_attempts_codes:
  assumes "bank_wf (view (h_db h))" "bk_cards (view (h_db h)) pan = Some c"
  shows "\<exists>h'. pin_attempts ops env pan pins h =
    Inr (pin_codes (map (\<lambda>q. verifyPin (he_sha256 env) q (cd_pin c)) pins) (cd_failedPinCount c), h')"
  using assms
proof (induction pins arbitrary: h c)
  case Nil
  then show ?case by simp
next
  case (Cons pin pins)
  let ?ok = "verifyPin (he_sha256 env) pin (cd_pin c)"
  define n where "n = (if ?ok then 0 else cd_failedPinCount c + 1)"
  obtain r h1 where v: "host_verifyPin ops env pan pin h = Inr (r, h1)" using verifyPin_up by blast
  have V: "au_responseCode r = (if ?ok then ''00'' else if 3 \<le> n then ''38'' else ''55'')"
    "view (h_db h1) = put_card (c\<lparr>cd_failedPinCount := n\<rparr>) (view (h_db h))"
    using verifyPin_cases [OF v] Cons.prems(2) by (auto simp: Let_def n_def)
  have pan: "cd_pan c = pan" using Cons.prems by (auto simp: bank_wf_def)
  have "bank_wf (view (h_db h1))" using Cons.prems(1) V(2) by (auto simp: bank_wf_def)
  moreover have "bk_cards (view (h_db h1)) pan = Some (c\<lparr>cd_failedPinCount := n\<rparr>)"
    using V(2) pan by simp
  ultimately obtain h2 where "pin_attempts ops env pan pins h1 =
      Inr (pin_codes (map (\<lambda>q. verifyPin (he_sha256 env) q (cd_pin c)) pins) n, h2)"
    using Cons.IH [of h1 "c\<lparr>cd_failedPinCount := n\<rparr>"] by auto
  then show ?case using v V(1) by (auto simp: n_def)
qed

end

context bank_db
begin

lemma host_run_ok:
  assumes "bank_ok day (view (h_db h))" "\<forall>(env, op) \<in> set xs. he_startOfDay env = day \<and> op_nonneg op"
  shows "bank_ok day (view (h_db (host_run ops xs h)))"
  using assms
proof (induction xs arbitrary: h)
  case (Cons x xs)
  obtain env op where x: "x = (env, op)" by (cases x)
  have "bank_ok day (view (h_db (host_step ops env op h)))"
    using Cons.prems bank_step_ok [OF host_step_refines] by (force simp: x)
  then show ?case using Cons by (simp add: x)
qed simp

lemma host_run_ledger:
  assumes "bank_wf (view (h_db h))" "run_matches ops view xs h"
  shows "ledger i (view (h_db (host_run ops xs h))) = ledger i (view (h_db h))"
  using assms
proof (induction xs arbitrary: h)
  case (Cons x xs)
  obtain env op where x: "x = (env, op)" by (cases x)
  note S = host_step_refines [of env op h]
  have "ledger i (view (h_db (host_step ops env op h))) = ledger i (view (h_db h))"
    using Cons.prems bank_step_ledger [OF S] by (simp add: x)
  then show ?case using Cons bank_step_wf [OF S] by (simp add: x)
qed simp

lemma withdraw_then_reverse:
  assumes A: "host_authorizeWithdrawal ops env p h = (res, h1)" and ok: "az_approved res"
    and R: "host_reverseTransaction ops env' (rv\<lparr>rv_stanNo := az_stanNo res\<rparr>) h1 = (Inr (), h2)"
    and rv: "rv_amount rv = wd_amount p"
      "map_option (cd_accountId \<circ> fst) (find_card (wd_pan p) (view (h_db h))) = Some (rv_accountId rv)"
    and wf: "bank_wf (view (h_db h))"
    and fresh: "filter (has_stan (az_stanNo res)) (bk_txns (view (h_db h))) = []"
  shows "bk_accounts (view (h_db h2)) = bk_accounts (view (h_db h))
    \<and> bk_cards (view (h_db h2)) = bk_cards (view (h_db h))
    \<and> filter (has_stan (az_stanNo res)) (bk_txns (view (h_db h2))) = []
    \<and> (\<forall>i. paid_out i (bk_txns (view (h_db h2))) = paid_out i (bk_txns (view (h_db h))))"
proof -
  let ?b = "view (h_db h)"
  obtain c a amt where W: "withdraw_allowed env p ?b c a amt"
    "view (h_db h1) = bank_withdraw env p (az_stanNo res) (cd_accountId c) a amt ?b"
    using authorize_cases [OF A] ok by auto
  have a: "bk_accounts ?b (cd_accountId c) = Some a" and acc: "rv_accountId rv = cd_accountId c"
    and amt: "wd_amount p = js_int amt"
    using W(1) rv(2) by (auto simp: withdraw_allowed_def find_card_def)
  have id: "ac_id a = cd_accountId c" using wf a by (simp add: bank_wf_def)
  obtain db2 where db2: "reverse_tx ops env' (rv\<lparr>rv_stanNo := az_stanNo res\<rparr>) (h_db h1) = Inr db2"
    "h_db h2 = db2"
    using R by (auto simp: host_reverseTransaction_def split: sum.splits)
  have v2: "view db2 = bank_reverse env' (rv\<lparr>rv_stanNo := az_stanNo res\<rparr>) (debited amt a) amt (view (h_db h1))"
    using reverse_tx_cases [OF db2(1)] rv(1) amt acc W(2)
    by (auto simp: bank_withdraw_def id)
  have acts: "bk_accounts (view db2) = bk_accounts ?b"
    by (simp add: v2 W(2) bank_reverse_def bank_withdraw_def id a fun_upd_idem)
  have tx: "bk_txns (view db2) = bk_txns ?b
      @ [mark_reversed (az_stanNo res) (rv_reason rv) (withdrawal_row env p (az_stanNo res) (cd_accountId c) amt),
         reversal_row env' (rv\<lparr>rv_stanNo := az_stanNo res\<rparr>) amt]"
    by (simp add: v2 W(2) bank_reverse_def bank_withdraw_def map_mark_other [OF fresh])
  then have "filter (has_stan (az_stanNo res)) (bk_txns (view db2)) = []"
    using fresh by (simp add: has_stan_def mark_reversed_def withdrawal_row_def reversal_row_def)
  moreover have "paid_out i (bk_txns (view db2)) = paid_out i (bk_txns ?b)" for i
    using tx by (simp add: mark_reversed_def withdrawal_row_def reversal_row_def)
  moreover have "bk_cards (view db2) = bk_cards ?b"
    by (simp add: v2 W(2) bank_reverse_def bank_withdraw_def)
  ultimately show ?thesis using acts db2(2) by simp
qed

end

end
