(* ===== verification/Host_Theorems.thy ===== *)
theory Host_Theorems
  imports Host_Props
begin

text \<open>
  The properties of the host, for every database that keeps the contract \<open>bank_db\<close>, and their
  witnesses on the in-memory tables.
\<close>

text \<open>C8: a withdrawal is approved only within the switch cap, the balance and the daily limit of the
  account the card names, and then debits exactly the amount and records exactly one completed
  transaction under its trace number; a refusal, or any failure of the database, changes no table.\<close>

theorem host_authorize_exact:
  assumes "bank_db ops view" "host_authorizeWithdrawal ops env p h = (res, h')"
  shows "az_stanNo res = formatStan (h_stanCounter h) \<and> h_stanCounter h' = h_stanCounter h + 1
    \<and> (\<not> az_approved res \<and> view (h_db h') = view (h_db h)
       \<or> az_approved res \<and> (\<exists>c a amt. withdraw_allowed env p (view (h_db h)) c a amt
            \<and> view (h_db h') = bank_withdraw env p (az_stanNo res) (cd_accountId c) a amt (view (h_db h))
            \<and> az_balanceAfter res = Some (ac_balance a - amt)))"
  using bank_db.authorize_cases [OF assms] .

text \<open>C9: while the database is up the host answers every withdrawal with the code of the decision
  table: 14 for a card or account that does not exist, 61 above the switch cap or the daily limit,
  51 above the balance, 96 for an amount that is not an integer, and otherwise 00, the only code
  of an approval.\<close>

theorem host_decides_as_specified:
  assumes "bank_db_up ops view" "host_authorizeWithdrawal ops env p h = (res, h')"
  shows "az_responseCode res = withdraw_code env p (view (h_db h))
    \<and> (az_approved res \<longleftrightarrow> withdraw_code env p (view (h_db h)) = ''00'')"
  using bank_db_up.authorize_code [OF assms] .

text \<open>C10: every request to the host, on any database that keeps its contract, changes the tables only
  as the abstract host allows, so a failed request never leaves a half-done change.\<close>

theorem host_refines_bank:
  assumes "bank_db ops view"
  shows "bank_step env op (view (h_db h)) (view (h_db (host_step ops env op h)))"
  using bank_db.host_step_refines [OF assms] .

text \<open>C11: over any sequence of requests of one day with amounts that are not negative, no account is
  ever overdrawn and none pays out more than its daily limit.\<close>

theorem host_never_overdraws:
  assumes "bank_db ops view" "bank_ok day (view (h_db h))"
    and "\<forall>(env, op) \<in> set xs. he_startOfDay env = day \<and> op_nonneg op"
  shows "bank_ok day (view (h_db (host_run ops xs h)))"
  using bank_db.host_run_ok [OF assms] .

text \<open>C12: money is conserved: over any sequence of requests in which each reversal matches the
  withdrawal it undoes, the balance of an account plus its completed withdrawals never changes.\<close>

theorem host_ledger_balanced:
  assumes "bank_db ops view" "bank_wf (view (h_db h))" "run_matches ops view xs h"
  shows "ledger i (view (h_db (host_run ops xs h))) = ledger i (view (h_db h))"
  using bank_db.host_run_ledger [OF assms] .

text \<open>C15: reversing an approved withdrawal under its trace number restores every account and leaves
  no completed transaction with that number, provided no older one had it.\<close>

theorem host_reversal_restores:
  assumes "bank_db ops view"
    and "host_authorizeWithdrawal ops env p h = (res, h1)" "az_approved res"
    and "host_reverseTransaction ops env' (rv\<lparr>rv_stanNo := az_stanNo res\<rparr>) h1 = (Inr (), h2)"
    and "rv_amount rv = wd_amount p"
    and "map_option (cd_accountId \<circ> fst) (find_card (wd_pan p) (view (h_db h))) = Some (rv_accountId rv)"
    and "bank_wf (view (h_db h))"
    and "filter (has_stan (az_stanNo res)) (bk_txns (view (h_db h))) = []"
  shows "bk_accounts (view (h_db h2)) = bk_accounts (view (h_db h))
    \<and> bk_cards (view (h_db h2)) = bk_cards (view (h_db h))
    \<and> filter (has_stan (az_stanNo res)) (bk_txns (view (h_db h2))) = []
    \<and> (\<forall>i. paid_out i (bk_txns (view (h_db h2))) = paid_out i (bk_txns (view (h_db h))))"
  using bank_db.withdraw_then_reverse [OF assms] .

text \<open>No request changes the PIN of a card.\<close>

lemma bank_step_pins:
  "bank_step env op b b' \<Longrightarrow> bank_wf b \<Longrightarrow> map_option cd_pin (bk_cards b' pan) = map_option cd_pin (bk_cards b pan)"
  by (erule bank_step.cases)
    (auto simp: bank_wf_def put_card_def put_account_def bank_withdraw_def bank_reverse_def)

lemma host_run_pins:
  assumes "bank_db ops view" "bank_wf (view (h_db h))"
  shows "bank_wf (view (h_db (host_run ops xs h)))
    \<and> map_option cd_pin (bk_cards (view (h_db (host_run ops xs h))) pan) = map_option cd_pin (bk_cards (view (h_db h)) pan)"
  using assms(2)
proof (induction xs arbitrary: h)
  case (Cons x xs)
  obtain env op where x: "x = (env, op)" by (cases x)
  note S = bank_db.host_step_refines [OF assms(1), of env op h]
  show ?case using Cons.IH [OF bank_step_wf [OF S Cons.prems]] bank_step_pins [OF S Cons.prems] by (simp add: x)
qed simp

text \<open>The two queries of a PIN verification may be taken as one step at the time of the second: whatever
  requests the host serves between them, the second query answers and stores what a verification that
  starts only then does.\<close>

lemma host_verifyPin_interleaved:
  assumes "bank_db ops view" "bank_wf (view (h_db h))" "db_findCard ops pan (h_db h) = Inr r"
    and "db_findCard ops pan (h_db (host_run ops xs h)) = Inr r'"
  shows "host_verifyPin_store ops env pan pin r (host_run ops xs h) = host_verifyPin ops env pan pin (host_run ops xs h)"
proof -
  have "map_option cd_pin (bk_cards (view (h_db (host_run ops xs h))) pan) = map_option cd_pin (bk_cards (view (h_db h)) pan)"
    using host_run_pins [OF assms(1,2)] by blast
  moreover note bank_db.findCard [OF assms(1,3)] bank_db.findCard [OF assms(1,4)]
  ultimately show ?thesis
    using assms(4)
    by (cases "bk_cards (view (h_db h)) pan"; cases "bk_cards (view (h_db (host_run ops xs h))) pan")
      (simp_all add: host_verifyPin_defs find_card_def)
qed

text \<open>C16: a sequence of PIN attempts on a card is answered by the retry counter: 55 for a wrong PIN,
  38 from the third failure in a row on, and 00 for the right one, which starts the count again.\<close>

theorem host_pin_retry_counter:
  assumes "bank_db_up ops view" "bank_wf (view (h_db h))" "bk_cards (view (h_db h)) pan = Some c"
  shows "\<exists>h'. pin_attempts ops env pan pins h =
    Inr (pin_codes (map (\<lambda>q. verifyPin (he_sha256 env) q (cd_pin c)) pins) (cd_failedPinCount c), h')"
  using bank_db_up.pin_attempts_codes [OF assms] .

text \<open>The authorisation of a withdrawal does not look at the status or the expiry date of the card
  nor at the status of the account: it answers as it would if they were anything else.\<close>

theorem host_withdrawal_ignores_status:
  assumes "bank_db_up ops view"
    and "find_card (wd_pan p) (view (h_db h)) = Some (c, Some a)"
    and "find_card (wd_pan p) (view (h_db h'))
      = Some (c\<lparr>cd_status := cs, cd_expiryDate := e\<rparr>, Some (a\<lparr>ac_status := s\<rparr>))"
    and "bk_txns (view (h_db h')) = bk_txns (view (h_db h))"
  shows "az_responseCode (fst (host_authorizeWithdrawal ops env p h'))
    = az_responseCode (fst (host_authorizeWithdrawal ops env p h))"
proof -
  have "az_responseCode (fst (host_authorizeWithdrawal ops env p k)) = withdraw_code env p (view (h_db k))" for k
    using bank_db_up.authorize_code [OF assms(1)] by (metis prod.collapse)
  then show ?thesis using assms(2-4) by (simp add: withdraw_code_def sum_withdrawals_def)
qed

text \<open>An amount below zero within the limits is approved, and the account ends up with more than
  it had: the host itself does not refuse negative withdrawals.\<close>

theorem host_negative_amount_credits:
  assumes "bank_db_up ops view"
    and "find_card (wd_pan p) (view (h_db h)) = Some (c, Some a)" "wd_amount p = js_int amt" "amt < 0"
    and "bank_ok (he_startOfDay env) (view (h_db h))" "0 \<le> sp_maxWithdrawalIdr (wd_profile p)"
    and "host_authorizeWithdrawal ops env p h = (res, h')"
  shows "az_approved res \<and> az_balanceAfter res = Some (ac_balance a - amt) \<and> ac_balance a < ac_balance a - amt"
proof -
  have "bk_accounts (view (h_db h)) (cd_accountId c) = Some a"
    using assms(2) by (auto simp: find_card_def)
  then have "0 \<le> ac_balance a"
    "sum_withdrawals (cd_accountId c) (he_startOfDay env) (view (h_db h)) \<le> ac_dailyLimit a"
    using assms(5) by (auto simp: bank_ok_def)
  then have "withdraw_code env p (view (h_db h)) = ''00''"
    using assms(2-4,6) by (simp add: withdraw_code_def)
  then have ok: "az_approved res" using bank_db_up.authorize_code [OF assms(1,7)] by simp
  have "bank_db ops view" using assms(1) by (simp add: bank_db_up_def)
  from bank_db.authorize_cases [OF this assms(7)] ok
  obtain c' a' amt' where "withdraw_allowed env p (view (h_db h)) c' a' amt'"
    "az_balanceAfter res = Some (ac_balance a' - amt')" by blast
  then show ?thesis using ok assms(2-4) by (simp add: withdraw_allowed_def)
qed

section \<open>Witnesses\<close>

definition hs_sha :: digest where
  "hs_sha bs = [sum_list bs mod 256]"

definition hs_card :: CardRow where
  "hs_card = \<lparr>cd_pan = ''4097111122223333'', cd_cardholderName = ''ADA'', cd_expiryDate = ''3012'',
     cd_pin = hashPin hs_sha [7] ''1234'', cd_track1 = [], cd_track2 = [], cd_issuer = ''MANDIRI'',
     cd_status = ''ACTIVE'', cd_failedPinCount = 0, cd_accountId = ''A1''\<rparr>"

definition hs_account :: AccountRow where
  "hs_account = \<lparr>ac_id = ''A1'', ac_balance = 500000, ac_currency = ''IDR'', ac_dailyLimit = 1000000,
     ac_dailyWithdrawn = 0, ac_status = ''ACTIVE''\<rparr>"

definition hs_bank :: bank where
  "hs_bank = \<lparr>bk_cards = [''4097111122223333'' \<mapsto> hs_card], bk_accounts = [''A1'' \<mapsto> hs_account], bk_txns = []\<rparr>"

definition hs_host :: "bank host" where
  "hs_host = \<lparr>h_stanCounter = 1, h_db = hs_bank\<rparr>"

definition hs_env :: host_env where
  "hs_env = \<lparr>he_sha1 = hs_sha, he_sha256 = hs_sha, he_nowMs = 1000, he_startOfDay = 0, he_year = 2026,
     he_month = 1, he_random = 0\<rparr>"

definition hs_withdrawal :: "int \<Rightarrow> withdrawal" where
  "hs_withdrawal amt = \<lparr>wd_pan = ''4097111122223333'', wd_amount = js_int amt, wd_sessionId = ''S1'',
     wd_switch = Some JALIN_PROFILE\<rparr>"

definition hs_reversal :: reversal where
  "hs_reversal = \<lparr>rv_stanNo = ''000001'', rv_sessionId = ''S1'', rv_pan = ''4097111122223333'',
     rv_accountId = ''A1'', rv_amount = js_int 100000, rv_reason = ''jam''\<rparr>"

lemmas hs_defs =
  hs_host_def hs_bank_def hs_account_def hs_env_def hs_withdrawal_def hs_reversal_def

lemma hs_find: "find_card ''4097111122223333'' hs_bank = Some (hs_card, Some hs_account)"
  "cd_accountId hs_card = ''A1''" "cd_pan hs_card = ''4097111122223333''" "cd_failedPinCount hs_card = 0"
  by (simp_all add: find_card_def hs_bank_def hs_card_def)

lemma hs_ok: "bank_ok 0 hs_bank" "bank_wf hs_bank"
  by (auto simp: bank_ok_def bank_wf_def hs_bank_def hs_card_def hs_account_def sum_withdrawals_def)

lemma hs_profile [simp]: "wd_profile (hs_withdrawal a) = JALIN_PROFILE" "sp_maxWithdrawalIdr JALIN_PROFILE = 5000000"
  by (simp_all add: wd_profile_def hs_withdrawal_def JALIN_PROFILE_def)

lemma hs_withdrawal_simps [simp]:
  "wd_pan (hs_withdrawal a) = ''4097111122223333''" "wd_amount (hs_withdrawal a) = js_int a"
  by (simp_all add: hs_withdrawal_def)

lemma hs_code: "withdraw_code hs_env (hs_withdrawal a) hs_bank =
    (if 5000000 < a then ''61'' else if 500000 < a then ''51'' else ''00'')"
  by (simp add: withdraw_code_def hs_find sum_withdrawals_def)
    (simp add: hs_bank_def hs_account_def)

lemma hs_approved: "az_approved (fst (host_authorizeWithdrawal mem_ops hs_env (hs_withdrawal 100000) hs_host))"
  using mem.authorize_code [of hs_env "hs_withdrawal 100000" hs_host] hs_code [of 100000]
  by (simp add: hs_host_def split_beta prod_eq_iff)

lemma host_authorize_exact_witness:
  "case host_authorizeWithdrawal mem_ops hs_env (hs_withdrawal 100000) hs_host of (res, h') \<Rightarrow>
     az_approved res \<and> az_stanNo res = formatStan 1
     \<and> h_db h' = bank_withdraw hs_env (hs_withdrawal 100000) (formatStan 1) ''A1'' hs_account 100000 hs_bank
     \<and> az_balanceAfter res = Some (ac_balance hs_account - 100000)"
proof -
  obtain res h' where A: "host_authorizeWithdrawal mem_ops hs_env (hs_withdrawal 100000) hs_host = (res, h')"
    by fastforce
  with hs_approved host_authorize_exact [OF mem_bank_db A] show ?thesis
    by (auto simp: hs_host_def withdraw_allowed_def hs_find)
qed

lemma host_decides_as_specified_witness:
  "case host_authorizeWithdrawal mem_ops hs_env (hs_withdrawal 600000) hs_host of (res, h') \<Rightarrow>
     az_responseCode res = ''51'' \<and> \<not> az_approved res"
proof -
  obtain res h' where A: "host_authorizeWithdrawal mem_ops hs_env (hs_withdrawal 600000) hs_host = (res, h')"
    by fastforce
  with host_decides_as_specified [OF mem_bank_db_up A] hs_code [of 600000] show ?thesis
    by (simp add: hs_host_def)
qed

lemma host_refines_bank_witness:
  "bank_step hs_env (HostRetain ''4097111122223333'') hs_bank
     (h_db (host_step mem_ops hs_env (HostRetain ''4097111122223333'') hs_host))
   \<and> h_db (host_step mem_ops hs_env (HostRetain ''4097111122223333'') hs_host) \<noteq> hs_bank"
proof
  show "bank_step hs_env (HostRetain ''4097111122223333'') hs_bank
     (h_db (host_step mem_ops hs_env (HostRetain ''4097111122223333'') hs_host))"
    using host_refines_bank [OF mem_bank_db, of hs_env "HostRetain ''4097111122223333''" hs_host]
    by (simp add: hs_host_def)
  show "h_db (host_step mem_ops hs_env (HostRetain ''4097111122223333'') hs_host) \<noteq> hs_bank"
    by (simp add: host_retainCard_def mem_ops_def hs_host_def hs_bank_def hs_card_def put_card_def fun_eq_iff)
qed

lemma host_never_overdraws_witness:
  "bank_ok 0 (h_db (host_run mem_ops [(hs_env, HostWithdraw (hs_withdrawal 100000)),
     (hs_env, HostWithdraw (hs_withdrawal 450000))] hs_host))"
  by (rule host_never_overdraws [OF mem_bank_db])
    (simp_all add: hs_host_def hs_ok, simp_all add: hs_env_def)

lemma host_ledger_balanced_witness:
  "ledger ''A1'' (h_db (host_run mem_ops [(hs_env, HostWithdraw (hs_withdrawal 100000)),
     (hs_env, HostVerifyPin ''4097111122223333'' ''1111'')] hs_host)) = Some 500000"
proof -
  have "ledger ''A1'' hs_bank = Some 500000" by (simp add: ledger_def hs_bank_def hs_account_def)
  then show ?thesis
    by (subst host_ledger_balanced [OF mem_bank_db]) (simp_all add: hs_host_def hs_ok)
qed

lemma hs_stan: "formatStan (Suc 0) = ''000001''"
proof -
  have "replicate 5 c = [c, c, c, c, c]" for c :: char by (simp add: eval_nat_numeral)
  then show ?thesis by (simp add: formatStan_def js_padStart_def js_itoa.simps digit_char_eval)
qed

lemma hs_reverse_succeeds:
  assumes "bk_accounts (h_db h) ''A1'' = Some a"
  shows "fst (host_reverseTransaction mem_ops hs_env hs_reversal h) = Inr ()"
  using assms
  by (simp add: host_reverseTransaction_def reverse_tx_def mem_ops_def hs_reversal_def js_BigInt_def Let_def)

lemma host_reversal_restores_witness:
  "bk_accounts (h_db (host_run mem_ops [(hs_env, HostWithdraw (hs_withdrawal 100000)),
     (hs_env, HostReverse hs_reversal)] hs_host)) = bk_accounts hs_bank"
proof -
  obtain res h1 where A: "host_authorizeWithdrawal mem_ops hs_env (hs_withdrawal 100000) hs_host = (res, h1)"
    by fastforce
  have ok: "az_approved res" using A hs_approved by simp
  have stan: "az_stanNo res = ''000001''"
    using mem.authorize_cases [OF A] by (simp add: hs_host_def hs_stan)
  obtain a where "bk_accounts (h_db h1) ''A1'' = Some a"
    using mem.authorize_cases [OF A] ok
    by (auto simp: hs_host_def withdraw_allowed_def hs_find bank_withdraw_def hs_account_def)
  then have R: "host_reverseTransaction mem_ops hs_env (hs_reversal\<lparr>rv_stanNo := az_stanNo res\<rparr>) h1
      = (Inr (), snd (host_reverseTransaction mem_ops hs_env hs_reversal h1))"
    using hs_reverse_succeeds [of h1] by (simp add: stan hs_reversal_def prod_eq_iff)
  have "bk_accounts (h_db (snd (host_reverseTransaction mem_ops hs_env hs_reversal h1))) = bk_accounts hs_bank"
    using host_reversal_restores [OF mem_bank_db A ok R] by (simp add: hs_host_def hs_find hs_ok hs_reversal_def)
      (simp add: hs_bank_def)
  then show ?thesis using A by simp
qed

lemma host_pin_retry_counter_witness:
  "\<exists>h'. pin_attempts mem_ops hs_env ''4097111122223333'' [''1111'', ''1234'', ''1'', ''2'', ''3''] hs_host
     = Inr ([''55'', ''00'', ''55'', ''55'', ''38''], h')"
proof -
  have "map (\<lambda>q. verifyPin (he_sha256 hs_env) q (cd_pin hs_card)) [''1111'', ''1234'', ''1'', ''2'', ''3'']
      = [False, True, False, False, False]"
    by (simp add: hs_env_def hs_card_def) code_simp
  with host_pin_retry_counter [OF mem_bank_db_up, of hs_host "''4097111122223333''" hs_card hs_env
      "[''1111'', ''1234'', ''1'', ''2'', ''3'']"]
  show ?thesis by (simp add: hs_host_def hs_ok hs_find) (simp add: hs_bank_def)
qed

lemma host_withdrawal_ignores_status_witness:
  "az_responseCode (fst (host_authorizeWithdrawal mem_ops hs_env (hs_withdrawal 100000)
     (hs_host\<lparr>h_db := put_card (hs_card\<lparr>cd_status := ''RETAINED'', cd_expiryDate := ''0101''\<rparr>)
       (put_account (hs_account\<lparr>ac_status := ''CLOSED''\<rparr>) hs_bank)\<rparr>)))
   = az_responseCode (fst (host_authorizeWithdrawal mem_ops hs_env (hs_withdrawal 100000) hs_host))"
  by (rule host_withdrawal_ignores_status [OF mem_bank_db_up])
    (simp_all add: hs_host_def hs_find, simp_all add: find_card_def hs_find hs_account_def)

lemma host_negative_amount_credits_witness:
  "case host_authorizeWithdrawal mem_ops hs_env (hs_withdrawal (- 20000)) hs_host of (res, h') \<Rightarrow>
     az_approved res \<and> az_balanceAfter res = Some 520000"
proof -
  obtain res h' where A: "host_authorizeWithdrawal mem_ops hs_env (hs_withdrawal (- 20000)) hs_host = (res, h')"
    by fastforce
  have day: "he_startOfDay hs_env = 0" and bal: "ac_balance hs_account = 500000"
    by (simp_all add: hs_env_def hs_account_def)
  have "az_approved res \<and> az_balanceAfter res = Some (ac_balance hs_account - (- 20000))"
    using host_negative_amount_credits [OF mem_bank_db_up _ _ _ _ _ A, of hs_card hs_account "- 20000"]
    by (simp add: day hs_host_def hs_find hs_ok)
  then show ?thesis using A bal by simp
qed

end
