(* ===== verification/Js_Value.thy ===== *)
theory Js_Value
  imports Js_Number
begin

text \<open>
  JavaScript values as the server hands them around: the result of a query, the capabilities of a
  device. \<open>bigIntToString\<close> (\<^verbatim>\<open>packages/shared/src/json.ts\<close>) makes such a value serialisable, and
  \<open>parseCorsOrigins\<close> (\<^verbatim>\<open>packages/shared/src/env.ts\<close>) reads a comma-separated setting. An object is
  the list of its own enumerable properties.
\<close>

datatype js_value =
    JvUndefined
  | JvNull
  | JvBool bool
  | JvNum jsnum
  | JvBig int
  | JvStr string
  | JvDate int
  | JvBuffer "nat list"
  | JvArr "js_value list"
  | JvObj "(string \<times> js_value) list"

abbreviation jv_int :: "int \<Rightarrow> js_value" where
  "jv_int i \<equiv> JvNum (js_int i)"

primrec bigIntToString :: "js_value \<Rightarrow> js_value" where
  "bigIntToString JvUndefined = JvUndefined"
| "bigIntToString JvNull = JvNull"
| "bigIntToString (JvBool b) = JvBool b"
| "bigIntToString (JvNum n) = JvNum n"
| "bigIntToString (JvBig i) = JvStr (js_int_to_string i)"
| "bigIntToString (JvStr s) = JvStr s"
| "bigIntToString (JvDate t) = JvDate t"
| "bigIntToString (JvBuffer bs) = JvBuffer bs"
| "bigIntToString (JvArr vs) = JvArr (map bigIntToString vs)"
| "bigIntToString (JvObj kvs) = JvObj (map (map_prod id bigIntToString) kvs)"

text \<open>Values without a BigInt anywhere: the ones \<open>JSON.stringify\<close> accepts.\<close>

primrec big_free :: "js_value \<Rightarrow> bool" where
  "big_free JvUndefined = True"
| "big_free JvNull = True"
| "big_free (JvBool b) = True"
| "big_free (JvNum n) = True"
| "big_free (JvBig i) = False"
| "big_free (JvStr s) = True"
| "big_free (JvDate t) = True"
| "big_free (JvBuffer bs) = True"
| "big_free (JvArr vs) = list_all id (map big_free vs)"
| "big_free (JvObj kvs) = list_all snd (map (map_prod id big_free) kvs)"

lemma bigIntToString_free: "big_free (bigIntToString v)"
  by (induction v) (auto simp: list_all_iff)

lemma bigIntToString_id: "big_free v \<Longrightarrow> bigIntToString v = v"
  by (induction v) (auto simp: list_all_iff intro!: map_idI)

section \<open>Settings\<close>

definition js_trimmed_list :: "string \<Rightarrow> string list" where
  "js_trimmed_list s = filter (\<lambda>x. x \<noteq> []) (map js_trim (js_split (CHR '','') s))"

definition parseCorsOrigins :: "string \<Rightarrow> string list" where
  "parseCorsOrigins origins = js_trimmed_list origins"

lemma parseCorsOrigins_nonempty: "o1 \<in> set (parseCorsOrigins s) \<Longrightarrow> o1 \<noteq> []"
  by (auto simp: parseCorsOrigins_def js_trimmed_list_def)

end
