(* ===== verification/Xfs_Manager.thy ===== *)
theory Xfs_Manager
  imports Js_Value Cdm_Props Idc_Device Siu_Device Ptr_Device Pin_Props "HOL-Library.Multiset"
begin

text \<open>
  The XFS manager (\<^verbatim>\<open>apps/xfs-server/src/xfs/xfs-manager.service.ts\<close>), the registration of the
  devices (\<^verbatim>\<open>xfs.module.ts\<close>) and the endpoints that call it (\<^verbatim>\<open>xfs.gateway.ts\<close>,
  \<^verbatim>\<open>xfs-admin.controller.ts\<close>, \<^verbatim>\<open>xfs.controller.ts\<close>). The device objects are singletons that the
  manager shares with the rest of the server: \<open>devices\<close> is the store of them, a \<open>device_ref\<close>
  points into it, and the registry maps an hService to a reference.

  \<open>execute\<close> awaits the device. A device command that stays pending (an open PIN entry) is kept with
  its ticket in \<open>xm_pending\<close>; \<open>xm_settle\<close> answers it when a device settles the ticket. The command
  log is the list \<open>xm_log\<close>; writing it may fail, which \<open>execute\<close> ignores.
\<close>

section \<open>Device objects\<close>

datatype device_ref = Ref_IDC | Ref_PIN | Ref_CDM | Ref_PTR | Ref_SIU

record devices =
  dv_idc :: idc_dev
  dv_pin :: pin_dev
  dv_cdm :: cdm_dev
  dv_ptr :: ptr_dev
  dv_siu :: siu_dev

text \<open>What the environment supplies at a step: the cipher, the clock, whether the database accepts
  the log entry.\<close>

record xfs_env =
  xe_tdes :: cipher
  xe_clock :: clock
  xe_logUp :: bool

fun dev_base :: "device_ref \<Rightarrow> devices \<Rightarrow> vdev" where
  "dev_base Ref_IDC dv = vdev.truncate (dv_idc dv)"
| "dev_base Ref_PIN dv = vdev.truncate (dv_pin dv)"
| "dev_base Ref_CDM dv = vdev.truncate (dv_cdm dv)"
| "dev_base Ref_PTR dv = vdev.truncate (dv_ptr dv)"
| "dev_base Ref_SIU dv = vdev.truncate (dv_siu dv)"

fun dev_execute ::
  "xfs_env \<Rightarrow> device_ref \<Rightarrow> string \<Rightarrow> xfs_payload \<Rightarrow> devices \<Rightarrow> outcome \<times> devices \<times> dev_output list" where
  "dev_execute env Ref_IDC c p dv =
     (let (oc, d, outs) = idc_executeCommand (dv_idc dv) c p in (oc, dv\<lparr>dv_idc := d\<rparr>, outs))"
| "dev_execute env Ref_PIN c p dv =
     (let (oc, d, outs) = pin_executeCommand (xe_tdes env) (dv_pin dv) c p in (oc, dv\<lparr>dv_pin := d\<rparr>, outs))"
| "dev_execute env Ref_CDM c p dv =
     (let (oc, d, outs) = cdm_executeCommand (dv_cdm dv) c p in (oc, dv\<lparr>dv_cdm := d\<rparr>, outs))"
| "dev_execute env Ref_PTR c p dv =
     (let (oc, d, outs) = ptr_executeCommand (xe_clock env) (dv_ptr dv) c p in (oc, dv\<lparr>dv_ptr := d\<rparr>, outs))"
| "dev_execute env Ref_SIU c p dv =
     (let (oc, d, outs) = siu_executeCommand (dv_siu dv) c p in (oc, dv\<lparr>dv_siu := d\<rparr>, outs))"

section \<open>Capabilities\<close>

definition cdm_getCapabilities :: js_value where
  "cdm_getCapabilities =
     JvObj [(''serviceClass'', JvStr ''CDM''), (''version'', JvStr ''3.30''),
       (''type'', JvStr ''SELF_SERVICE''), (''maxCassettes'', jv_int 6), (''currency'', JvStr ''IDR''),
       (''canPresent'', JvBool True), (''canRetract'', JvBool True), (''canRetain'', JvBool True)]"

definition idc_getCapabilities :: js_value where
  "idc_getCapabilities =
     JvObj [(''serviceClass'', JvStr ''IDC''), (''version'', JvStr ''3.30''), (''type'', JvStr ''MOTOR''),
       (''readTracks'', JvArr [jv_int 1, jv_int 2]), (''writeTracks'', JvArr []),
       (''chipProtocols'', JvArr [JvStr ''T0'', JvStr ''T1'', JvStr ''EMV'']),
       (''canEject'', JvBool True), (''canRetain'', JvBool True)]"

definition pin_getCapabilities :: js_value where
  "pin_getCapabilities =
     JvObj [(''serviceClass'', JvStr ''PIN''), (''version'', JvStr ''3.30''), (''type'', JvStr ''EPP''),
       (''pinBlockFormats'', JvArr [JvStr ''ISO0'', JvStr ''ISO1'', JvStr ''ISO3'', JvStr ''ANSI'']),
       (''keyFunctionModules'', JvArr [JvStr ''DES'', JvStr ''3DES'']),
       (''supportedKeys'', JvArr (map (JvStr \<circ> fst) pin_keyStore))]"

definition ptr_getCapabilities :: js_value where
  "ptr_getCapabilities =
     JvObj [(''serviceClass'', JvStr ''PTR''), (''version'', JvStr ''3.30''), (''type'', JvStr ''THERMAL''),
       (''canCut'', JvBool True), (''paperCapacity'', jv_int 1000)]"

definition siu_getCapabilities :: js_value where
  "siu_getCapabilities =
     JvObj [(''serviceClass'', JvStr ''SIU''), (''version'', JvStr ''3.30''),
       (''sensors'', JvArr [JvStr ''CABINET_DOOR'', JvStr ''SAFE_DOOR'', JvStr ''TAMPER'', JvStr ''OPERATOR_SWITCH'']),
       (''indicators'', JvArr (map (JvStr \<circ> siu_indicator_name) [POWER, READY, FAULT, SERVICE])),
       (''hasOperatorSwitch'', JvBool True)]"

fun dev_getCapabilities :: "device_ref \<Rightarrow> js_value" where
  "dev_getCapabilities Ref_IDC = idc_getCapabilities"
| "dev_getCapabilities Ref_PIN = pin_getCapabilities"
| "dev_getCapabilities Ref_CDM = cdm_getCapabilities"
| "dev_getCapabilities Ref_PTR = ptr_getCapabilities"
| "dev_getCapabilities Ref_SIU = siu_getCapabilities"

section \<open>The manager\<close>

record xfs_log_row =
  lr_sessionId :: "string option"
  lr_hService :: string
  lr_serviceClass :: XfsServiceClass
  lr_commandCode :: string
  lr_requestId :: string
  lr_payload :: xfs_payload
  lr_response :: "xfs_reply option"
  lr_result :: int
  lr_errorDetail :: "dev_error option"

record xfs_manager =
  xm_services :: "(string \<times> device_ref) list"
  xm_devices :: devices
  xm_log :: "xfs_log_row list"
  xm_pending :: "(nat \<times> XfsCommand) list"

definition xm_new :: "devices \<Rightarrow> xfs_manager" where
  "xm_new dv = \<lparr>xm_services = [], xm_devices = dv, xm_log = [], xm_pending = []\<rparr>"

definition xm_registerService :: "device_ref \<Rightarrow> xfs_manager \<Rightarrow> xfs_manager" where
  "xm_registerService r m =
     m\<lparr>xm_services := AList.update (vd_hService (dev_base r (xm_devices m))) r (xm_services m)\<rparr>"

definition xm_listServices :: "xfs_manager \<Rightarrow> (string \<times> XfsServiceClass \<times> XfsServiceState) list" where
  "xm_listServices m =
     map (\<lambda>(_, r). let d = dev_base r (xm_devices m) in (vd_hService d, vd_serviceClass d, vd_state d))
       (xm_services m)"

definition xm_getService :: "string \<Rightarrow> xfs_manager \<Rightarrow> device_ref option" where
  "xm_getService h m = map_of (xm_services m) h"

definition xm_getInfo :: "string \<Rightarrow> xfs_manager \<Rightarrow> (js_value \<times> XfsServiceState) option" where
  "xm_getInfo h m =
     (case xm_getService h m of
        None \<Rightarrow> None
      | Some r \<Rightarrow> Some (dev_getCapabilities r, vd_state (dev_base r (xm_devices m))))"

definition xm_onModuleInit :: "xfs_manager \<Rightarrow> xfs_manager" where
  "xm_onModuleInit m =
     xm_registerService Ref_PTR (xm_registerService Ref_CDM (xm_registerService Ref_PIN
       (xm_registerService Ref_IDC m)))"

definition xm_persistCommandLog :: "xfs_env \<Rightarrow> XfsCommand \<Rightarrow> XfsResponse \<Rightarrow> xfs_manager \<Rightarrow> xfs_manager" where
  "xm_persistCommandLog env c r m =
     (if \<not> xe_logUp env then m
      else m\<lparr>xm_log := xm_log m @
        [\<lparr>lr_sessionId = cmd_sessionId c, lr_hService = cmd_hService c,
          lr_serviceClass = cmd_serviceClass c, lr_commandCode = cmd_commandCode c,
          lr_requestId = cmd_requestId c, lr_payload = cmd_payload c, lr_response = rsp_payload r,
          lr_result = rsp_result r, lr_errorDetail = rsp_errorDetail r\<rparr>]\<rparr>)"

type_synonym answer = "XfsCommand \<times> XfsResponse"

text \<open>The continuation of \<open>execute\<close> once the device promise is settled: the \<open>try\<close> branch or the
  \<open>catch\<close> branch.\<close>

definition xm_complete :: "xfs_env \<Rightarrow> XfsCommand \<Rightarrow> dev_error + xfs_reply \<Rightarrow> xfs_manager \<Rightarrow> answer \<times> xfs_manager" where
  "xm_complete env c res m =
     (let r = (case res of Inr p \<Rightarrow> xfsSuccess c p | Inl e \<Rightarrow> xfsError c ERR_INTERNAL_ERROR e)
      in ((c, r), xm_persistCommandLog env c r m))"

text \<open>The pending commands a list of outputs settles.\<close>

definition xm_settle1 :: "xfs_env \<Rightarrow> nat \<Rightarrow> dev_error + xfs_reply \<Rightarrow> xfs_manager \<Rightarrow> answer list \<times> xfs_manager" where
  "xm_settle1 env k res m =
     (case map_of (xm_pending m) k of
        None \<Rightarrow> ([], m)
      | Some c \<Rightarrow>
          (let (a, m') = xm_complete env c res (m\<lparr>xm_pending := AList.delete k (xm_pending m)\<rparr>)
           in ([a], m')))"

fun xm_settle :: "xfs_env \<Rightarrow> dev_output list \<Rightarrow> xfs_manager \<Rightarrow> answer list \<times> xfs_manager" where
  "xm_settle env [] m = ([], m)"
| "xm_settle env (Emit e # outs) m = xm_settle env outs m"
| "xm_settle env (Resolve k r # outs) m =
     (let (as, m1) = xm_settle1 env k (Inr r) m; (bs, m2) = xm_settle env outs m1 in (as @ bs, m2))"
| "xm_settle env (Reject k e # outs) m =
     (let (as, m1) = xm_settle1 env k (Inl e) m; (bs, m2) = xm_settle env outs m1 in (as @ bs, m2))"

text \<open>\<open>execute\<close>: the answers it gives rise to (its own, unless the device keeps it pending, and those
  of the commands it settles), the manager after it and the events on the bus.\<close>

definition xm_execute :: "xfs_env \<Rightarrow> XfsCommand \<Rightarrow> xfs_manager \<Rightarrow> answer list \<times> xfs_manager \<times> dev_output list" where
  "xm_execute env c m =
     (case map_of (xm_services m) (cmd_hService c) of
        None \<Rightarrow>
          (let r = xfsError c ERR_SERVICE_NOT_FOUND (UnknownHService (cmd_hService c))
           in ([(c, r)], xm_persistCommandLog env c r m, []))
      | Some ref \<Rightarrow>
          (let k = pin_tickets (dv_pin (xm_devices m));
               (oc, dv, outs) = dev_execute env ref (cmd_commandCode c) (cmd_payload c) (xm_devices m);
               (as, m1) = xm_settle env outs (m\<lparr>xm_devices := dv\<rparr>)
           in case oc of
                Done p \<Rightarrow> (let (a, m2) = xm_complete env c (Inr p) m1 in (as @ [a], m2, outs))
              | Failed e \<Rightarrow> (let (a, m2) = xm_complete env c (Inl e) m1 in (as @ [a], m2, outs))
              | Pending \<Rightarrow> (as, m1\<lparr>xm_pending := (k, c) # xm_pending m1\<rparr>, outs)))"

section \<open>Operator commands\<close>

datatype admin_op = AdmInjectError int | AdmClearError | AdmReset | AdmSetDelay int

fun vd_admin :: "admin_op \<Rightarrow> 'a vdev_scheme \<Rightarrow> 'a vdev_scheme" where
  "vd_admin (AdmInjectError e) d = vd_injectError e d"
| "vd_admin AdmClearError d = vd_clearError d"
| "vd_admin AdmReset d = vd_reset d"
| "vd_admin (AdmSetDelay ms) d = vd_setResponseDelay ms d"

fun dev_admin :: "device_ref \<Rightarrow> admin_op \<Rightarrow> devices \<Rightarrow> devices" where
  "dev_admin Ref_IDC op dv = dv\<lparr>dv_idc := vd_admin op (dv_idc dv)\<rparr>"
| "dev_admin Ref_PIN op dv = dv\<lparr>dv_pin := vd_admin op (dv_pin dv)\<rparr>"
| "dev_admin Ref_CDM op dv = dv\<lparr>dv_cdm := vd_admin op (dv_cdm dv)\<rparr>"
| "dev_admin Ref_PTR op dv = dv\<lparr>dv_ptr := vd_admin op (dv_ptr dv)\<rparr>"
| "dev_admin Ref_SIU op dv = dv\<lparr>dv_siu := vd_admin op (dv_siu dv)\<rparr>"

datatype http_error = BadRequest | NotFound

text \<open>The bounds that the request bodies declare.\<close>

fun admin_valid :: "admin_op \<Rightarrow> bool" where
  "admin_valid (AdmInjectError e) \<longleftrightarrow> - 11 \<le> e \<and> e \<le> 0"
| "admin_valid (AdmSetDelay ms) \<longleftrightarrow> 0 \<le> ms \<and> ms \<le> 30000"
| "admin_valid _ \<longleftrightarrow> True"

definition xm_admin :: "string \<Rightarrow> admin_op \<Rightarrow> xfs_manager \<Rightarrow> (http_error + unit) \<times> xfs_manager" where
  "xm_admin h op m =
     (if \<not> admin_valid op then (Inl BadRequest, m)
      else (case xm_getService h m of
              None \<Rightarrow> (Inl NotFound, m)
            | Some r \<Rightarrow> (Inr (), m\<lparr>xm_devices := dev_admin r op (xm_devices m)\<rparr>)))"

text \<open>The envelope checks of the gateway's command body. The body declares \<open>payload\<close> without a validator;
  whether the validation pipe of the gateway lets such a property pass is the parameter
  \<open>undeclared_ok\<close> (with \<open>forbidNonWhitelisted\<close> the pipe is documented to refuse it).\<close>

definition xfs_command_valid :: "bool \<Rightarrow> XfsCommand \<Rightarrow> bool" where
  "xfs_command_valid undeclared_ok c \<longleftrightarrow> undeclared_ok \<and> 0 \<le> cmd_timeoutMs c \<and> cmd_timeoutMs c \<le> 120000"

definition xm_onExecute ::
  "bool \<Rightarrow> xfs_env \<Rightarrow> XfsCommand \<Rightarrow> xfs_manager \<Rightarrow> (http_error + answer list) \<times> xfs_manager \<times> dev_output list" where
  "xm_onExecute undeclared_ok env c m =
     (if \<not> xfs_command_valid undeclared_ok c then (Inl BadRequest, m, [])
      else (let (as, m', outs) = xm_execute env c m in (Inr as, m', outs)))"

definition resolveWsOrigins :: "string option \<Rightarrow> string list" where
  "resolveWsOrigins v = js_trimmed_list (js_default v ''http://localhost:3000'')"

section \<open>Everything that reaches the devices\<close>

text \<open>Key presses and the entry timer of the PIN pad, the extraction of the PIN, card insertion and the
  cash and receipt timers act on the device objects directly; what they settle is answered.\<close>

datatype xm_op =
    XmExecute XfsCommand
  | XmAdmin string admin_op
  | XmPressKey string
  | XmPinTimeout
  | XmExtractPin
  | XmInsertCard idc_card
  | XmCashTaken
  | XmReceiptTaken

fun xm_step :: "xfs_env \<Rightarrow> xm_op \<Rightarrow> xfs_manager \<Rightarrow> answer list \<times> xfs_manager \<times> dev_output list" where
  "xm_step env (XmExecute c) m = xm_execute env c m"
| "xm_step env (XmAdmin h op) m = ([], snd (xm_admin h op m), [])"
| "xm_step env (XmPressKey key) m =
     (let (d, outs) = pin_pressKey key (dv_pin (xm_devices m));
          (as, m') = xm_settle env outs (m\<lparr>xm_devices := (xm_devices m)\<lparr>dv_pin := d\<rparr>\<rparr>)
      in (as, m', outs))"
| "xm_step env XmPinTimeout m =
     (let (d, outs) = pin_timeout (dv_pin (xm_devices m));
          (as, m') = xm_settle env outs (m\<lparr>xm_devices := (xm_devices m)\<lparr>dv_pin := d\<rparr>\<rparr>)
      in (as, m', outs))"
| "xm_step env XmExtractPin m =
     ([], m\<lparr>xm_devices := (xm_devices m)\<lparr>dv_pin := snd (pin_extractEnteredPin (dv_pin (xm_devices m)))\<rparr>\<rparr>, [])"
| "xm_step env (XmInsertCard crd) m =
     (let (_, d, outs) = idc_insertCard crd (dv_idc (xm_devices m))
      in ([], m\<lparr>xm_devices := (xm_devices m)\<lparr>dv_idc := d\<rparr>\<rparr>, outs))"
| "xm_step env XmCashTaken m =
     (let (d, outs) = cdm_take_timeout (dv_cdm (xm_devices m))
      in ([], m\<lparr>xm_devices := (xm_devices m)\<lparr>dv_cdm := d\<rparr>\<rparr>, outs))"
| "xm_step env XmReceiptTaken m =
     (let (d, outs) = ptr_take_timeout (dv_ptr (xm_devices m))
      in ([], m\<lparr>xm_devices := (xm_devices m)\<lparr>dv_ptr := d\<rparr>\<rparr>, outs))"

fun xm_run :: "(xfs_env \<times> xm_op) list \<Rightarrow> xfs_manager \<Rightarrow> answer list \<times> xfs_manager" where
  "xm_run [] m = ([], m)"
| "xm_run ((env, op) # ops) m =
     (let (as, m1, _) = xm_step env op m; (bs, m2) = xm_run ops m1 in (as @ bs, m2))"

definition devices_init :: devices where
  "devices_init = \<lparr>dv_idc = idc_init, dv_pin = pin_init, dv_cdm = cdm_init, dv_ptr = ptr_init, dv_siu = siu_init\<rparr>"

definition xm_boot :: xfs_manager where
  "xm_boot = xm_onModuleInit (xm_new devices_init)"

end
