(* ===== verification/Xfs_Manager_Props.thy ===== *)
theory Xfs_Manager_Props
  imports Xfs_Manager
begin

text \<open>
  Correctness of the manager: every command is answered exactly once or is the open PIN entry,
  answers carry the identity of their command and one of three result codes, an injected error
  fails at most one command of any device, and the sensor unit is out of reach of commands.
\<close>

section \<open>What the devices settle\<close>

lemma cdm_deduct_settles [simp]: "settled (snd (cdm_deduct d m)) = []"
  by (induction d m rule: cdm_deduct.induct) (auto simp: Let_def split_def split: option.split)

lemma cdm_present_settles [simp]: "settled (snd (snd (cdm_present d))) = []" "fst (cdm_present d) \<noteq> Pending"
  by (simp_all add: cdm_present_def split: option.split)

lemma cdm_dispense_settles [simp]:
  "settled (snd (snd (cdm_dispense p d))) = []" "fst (cdm_dispense p d) \<noteq> Pending"
  by (simp_all add: cdm_dispense_def Let_def split_def split: option.split sum.split)

lemma cdm_retract_settles [simp]:
  "settled (snd (snd (cdm_retract d))) = []" "fst (cdm_retract d) \<noteq> Pending"
  by (simp_all add: cdm_retract_def Let_def split_def split: option.split)

lemma cdm_settles:
  "settled (snd (snd (cdm_executeCommand d c p))) = [] \<and> fst (cdm_executeCommand d c p) \<noteq> Pending"
  by (auto simp: cdm_executeCommand_def vd_checkInjectedError_def Let_def split: option.split cdm_cmd.split)

lemma idc_settles:
  "settled (snd (snd (idc_executeCommand d c p))) = [] \<and> fst (idc_executeCommand d c p) \<noteq> Pending"
  by (auto simp: idc_executeCommand_def vd_checkInjectedError_def idc_cmd_defs split: option.split idc_cmd.split)

lemma ptr_settles:
  "settled (snd (snd (ptr_executeCommand ck d c p))) = [] \<and> fst (ptr_executeCommand ck d c p) \<noteq> Pending"
  by (auto simp: ptr_executeCommand_def ptr_printForm_def ptr_printRaw_def vd_checkInjectedError_def Let_def
      split: option.split ptr_cmd.split)

lemma siu_settles:
  "settled (snd (snd (siu_executeCommand d c p))) = [] \<and> fst (siu_executeCommand d c p) \<noteq> Pending"
  by (auto simp: siu_executeCommand_def siu_handleSetIndicator_def siu_handleGetSensorStatus_def vd_checkInjectedError_def Let_def
      split: option.split siu_cmd.split sum.split prod.split)

lemma pin_beginEntry_opens [simp]:
  "fst (pin_beginEntry mode label spec d) = Pending"
  "pin_open (fst (snd (pin_beginEntry mode label spec d))) = [pin_tickets d]"
  "settled (snd (snd (pin_beginEntry mode label spec d))) = pin_open d"
  by (simp_all add: pin_beginEntry_def Let_def split_def, simp add: pin_open_def)

lemma pin_getPinBlock_settles [simp]:
  "fst (pin_getPinBlock tdes p d) \<noteq> Pending"
  "pin_open (fst (snd (pin_getPinBlock tdes p d))) = pin_open d"
  "settled (snd (snd (pin_getPinBlock tdes p d))) = []"
  by (simp_all add: pin_getPinBlock_def split: option.split sum.split)

lemma pin_pending:
  assumes "pin_executeCommand tdes d c p = (oc, d', outs)"
  shows "oc = Pending \<and> settled outs = pin_open d \<and> pin_open d' = [pin_tickets d]
    \<or> oc \<noteq> Pending \<and> (settled outs = [] \<and> pin_open d' = pin_open d \<or> settled outs = pin_open d \<and> pin_open d' = [])"
proof -
  define e where "e = vd_checkInjectedError d"
  have e: "pin_open (snd e) = pin_open d" "pin_tickets (snd e) = pin_tickets d"
    by (auto simp: e_def vd_checkInjectedError_def split: option.split)
  have r: "oc = fst (pin_executeCommand tdes d c p)" "d' = fst (snd (pin_executeCommand tdes d c p))"
    "outs = snd (snd (pin_executeCommand tdes d c p))" using assms by simp_all
  show ?thesis unfolding r using e
    by (cases e) (simp add: pin_executeCommand_def e_def [symmetric] pin_beginPinEntry_def
        pin_beginDataEntry_def Let_def split_def split: option.split pin_cmd.split)
qed

section \<open>Every command is answered once\<close>

text \<open>The pending command, if any, is the owner of the open PIN entry.\<close>

definition xm_inv :: "xfs_manager \<Rightarrow> bool" where
  "xm_inv m \<longleftrightarrow> map fst (xm_pending m) = pin_open (dv_pin (xm_devices m))"

definition answer_ok :: "answer \<Rightarrow> bool" where
  "answer_ok a = (case a of (c, r) \<Rightarrow>
     rsp_requestId r = cmd_requestId c \<and> rsp_hService r = cmd_hService c
     \<and> (rsp_result r = 0 \<and> rsp_payload r \<noteq> None \<and> rsp_errorDetail r = None
        \<or> rsp_result r \<in> {- 5, - 9} \<and> rsp_payload r = None \<and> rsp_errorDetail r \<noteq> None))"

lemma persist_simps [simp]:
  "xm_pending (xm_persistCommandLog env c r m) = xm_pending m"
  "xm_devices (xm_persistCommandLog env c r m) = xm_devices m"
  "xm_services (xm_persistCommandLog env c r m) = xm_services m"
  by (simp_all add: xm_persistCommandLog_def)

lemma complete_simps [simp]:
  "fst (fst (xm_complete env c res m)) = c"
  "answer_ok (fst (xm_complete env c res m))"
  "xm_pending (snd (xm_complete env c res m)) = xm_pending m"
  "xm_devices (snd (xm_complete env c res m)) = xm_devices m"
  "xm_services (snd (xm_complete env c res m)) = xm_services m"
  by (cases res; simp add: xm_complete_def answer_ok_def Let_def)+

lemma xm_settle_none:
  "settled outs = [] \<Longrightarrow> xm_settle env outs m = ([], m)"
  by (induction outs rule: settled.induct) simp_all

lemma xm_settle_simps [simp]:
  "xm_devices (snd (xm_settle env outs m)) = xm_devices m"
  "xm_services (snd (xm_settle env outs m)) = xm_services m"
proof -
  have one: "xm_devices (snd (xm_settle1 env k res m)) = xm_devices m
      \<and> xm_services (snd (xm_settle1 env k res m)) = xm_services m" for k res m
    by (simp add: xm_settle1_def Let_def split_def split: option.split)
  have "xm_devices (snd (xm_settle env outs m)) = xm_devices m
      \<and> xm_services (snd (xm_settle env outs m)) = xm_services m"
    by (induction outs arbitrary: m rule: settled.induct) (simp_all add: Let_def split_def one)
  then show "xm_devices (snd (xm_settle env outs m)) = xm_devices m"
    "xm_services (snd (xm_settle env outs m)) = xm_services m" by simp_all
qed

lemma xm_settle_one:
  assumes "settled outs = [k]" "xm_pending m = [(k, c)]"
  shows "\<exists>r. fst (xm_settle env outs m) = [(c, r)] \<and> answer_ok (c, r)
    \<and> xm_pending (snd (xm_settle env outs m)) = []"
  using assms
proof (induction outs rule: settled.induct)
  case (2 k' r outs)
  then show ?case
    using complete_simps(1,2) [of env c "Inr r" "m\<lparr>xm_pending := []\<rparr>"]
    by (cases "xm_complete env c (Inr r) (m\<lparr>xm_pending := []\<rparr>)") (auto simp: xm_settle1_def xm_settle_none Let_def
        dest: arg_cong [where f = "\<lambda>x. xm_pending (snd x)"])
next
  case (3 k' e outs)
  then show ?case
    using complete_simps(1,2) [of env c "Inl e" "m\<lparr>xm_pending := []\<rparr>"]
    by (cases "xm_complete env c (Inl e) (m\<lparr>xm_pending := []\<rparr>)") (auto simp: xm_settle1_def xm_settle_none Let_def
        dest: arg_cong [where f = "\<lambda>x. xm_pending (snd x)"])
qed simp_all

text \<open>Settling what a device step of the PIN pad settles.\<close>

lemma xm_settle_pin:
  assumes "xm_inv m" "settled outs = [] \<or> settled outs = pin_open (dv_pin (xm_devices m))"
  obtains as m' where "xm_settle env outs m = (as, m')"
    "mset (map snd (xm_pending m)) = mset (map fst as) + mset (map snd (xm_pending m'))"
    "list_all answer_ok as"
    "settled outs = [] \<longrightarrow> xm_pending m' = xm_pending m" "settled outs \<noteq> [] \<longrightarrow> xm_pending m' = []"
    "xm_devices m' = xm_devices m" "xm_services m' = xm_services m"
proof (cases "settled outs")
  case Nil
  then show thesis using that [of "[]" m] by (simp add: xm_settle_none)
next
  case (Cons k ks)
  then have "pin_open (dv_pin (xm_devices m)) = k # ks" using assms(2) by simp
  then have ks: "ks = []" "map fst (xm_pending m) = [k]"
    using assms(1) by (auto simp: xm_inv_def pin_open_def split: option.splits)
  then obtain c where p: "xm_pending m = [(k, c)]" by auto
  from xm_settle_one [OF _ this, of outs env] Cons ks
  obtain r where "fst (xm_settle env outs m) = [(c, r)]" "answer_ok (c, r)"
    "xm_pending (snd (xm_settle env outs m)) = []" by auto
  then show thesis using that [of "[(c, r)]" "snd (xm_settle env outs m)"] p Cons
    by (simp add: prod_eq_iff)
qed

fun xm_request :: "xm_op \<Rightarrow> XfsCommand list" where
  "xm_request (XmExecute c) = [c]"
| "xm_request _ = []"

text \<open>One step: the invariant is kept, and the requests are accounted for.\<close>

definition xm_accounts :: "XfsCommand list \<Rightarrow> xfs_manager \<Rightarrow> answer list \<Rightarrow> xfs_manager \<Rightarrow> bool" where
  "xm_accounts req m as m' \<longleftrightarrow> xm_inv m' \<and> list_all answer_ok as
     \<and> mset req + mset (map snd (xm_pending m)) = mset (map fst as) + mset (map snd (xm_pending m'))"

lemma xm_settle_devices:
  "xm_settle env outs (m\<lparr>xm_devices := dv\<rparr>)
     = (fst (xm_settle env outs m), (snd (xm_settle env outs m))\<lparr>xm_devices := dv\<rparr>)"
proof -
  have pers: "xm_persistCommandLog env c r (m\<lparr>xm_devices := dv\<rparr>)
      = (xm_persistCommandLog env c r m)\<lparr>xm_devices := dv\<rparr>" for c r m
    by (simp add: xm_persistCommandLog_def)
  have upd: "m\<lparr>xm_devices := dv, xm_pending := p\<rparr> = m\<lparr>xm_pending := p\<rparr>\<lparr>xm_devices := dv\<rparr>" for p and m :: xfs_manager
    by simp
  have one: "xm_settle1 env k res (m\<lparr>xm_devices := dv\<rparr>)
      = (fst (xm_settle1 env k res m), (snd (xm_settle1 env k res m))\<lparr>xm_devices := dv\<rparr>)" for k res m
    by (cases res; simp add: xm_settle1_def xm_complete_def Let_def upd pers del: xfs_manager.update_defs
        split: option.split)
  show ?thesis
    by (induction outs arbitrary: m rule: settled.induct) (simp_all add: Let_def split_def one)
qed

lemma xm_accounts_direct:
  assumes "xm_inv m" "settled outs = [] \<and> pin_open d = pin_open (dv_pin (xm_devices m))
      \<or> settled outs = pin_open (dv_pin (xm_devices m)) \<and> pin_open d = []"
    and "xm_settle env outs (m\<lparr>xm_devices := dv\<rparr>) = (as, m')" "dv_pin dv = d"
  shows "xm_accounts [] m as m'"
proof -
  obtain bs n where S: "xm_settle env outs m = (bs, n)"
    "mset (map snd (xm_pending m)) = mset (map fst bs) + mset (map snd (xm_pending n))"
    "list_all answer_ok bs"
    "settled outs = [] \<longrightarrow> xm_pending n = xm_pending m" "settled outs \<noteq> [] \<longrightarrow> xm_pending n = []"
    using xm_settle_pin [OF assms(1), of outs env] assms(2) by metis
  have "as = bs" "m' = n\<lparr>xm_devices := dv\<rparr>" using assms(3) xm_settle_devices [of env outs dv m] S(1) by simp_all
  moreover have "map fst (xm_pending n) = pin_open d"
    using assms(1,2) S(4,5) by (cases "settled outs") (auto simp: xm_inv_def)
  ultimately show ?thesis using S(2,3) assms(4) by (simp add: xm_accounts_def xm_inv_def)
qed

lemma xm_accounts_other:
  "xm_inv m \<Longrightarrow> dv_pin dv = dv_pin (xm_devices m) \<Longrightarrow> xm_accounts [] m [] (m\<lparr>xm_devices := dv\<rparr>)"
  by (simp add: xm_accounts_def xm_inv_def)

lemma dev_execute_settles:
  assumes "dev_execute env ref c p dv = (oc, dv', outs)"
  shows "oc = Pending \<and> settled outs = pin_open (dv_pin dv) \<and> pin_open (dv_pin dv') = [pin_tickets (dv_pin dv)]
    \<or> oc \<noteq> Pending \<and> (settled outs = [] \<and> pin_open (dv_pin dv') = pin_open (dv_pin dv)
        \<or> settled outs = pin_open (dv_pin dv) \<and> pin_open (dv_pin dv') = [])"
proof (cases ref)
  case Ref_IDC
  then show ?thesis using assms idc_settles [of "dv_idc dv" c p] by (auto simp: Let_def split: prod.splits)
next
  case Ref_PIN
  obtain d where "pin_executeCommand (xe_tdes env) (dv_pin dv) c p = (oc, d, outs)" "dv_pin dv' = d"
    using assms Ref_PIN by (auto simp: Let_def split: prod.splits)
  then show ?thesis using pin_pending [of "xe_tdes env" "dv_pin dv" c p oc d outs] by simp
next
  case Ref_CDM
  then show ?thesis using assms cdm_settles [of "dv_cdm dv" c p] by (auto simp: Let_def split: prod.splits)
next
  case Ref_PTR
  then show ?thesis using assms ptr_settles [of "xe_clock env" "dv_ptr dv" c p] by (auto simp: Let_def split: prod.splits)
next
  case Ref_SIU
  then show ?thesis using assms siu_settles [of "dv_siu dv" c p] by (auto simp: Let_def split: prod.splits)
qed

lemma xm_execute_accounts:
  assumes inv: "xm_inv m" and ex: "xm_execute env c m = (as, m', outs)"
  shows "xm_accounts [c] m as m'"
proof (cases "map_of (xm_services m) (cmd_hService c)")
  case None
  then show ?thesis using assms
    by (auto simp: xm_execute_def xm_accounts_def xm_inv_def answer_ok_def Let_def)
next
  case (Some ref)
  obtain oc dv outs' where D: "dev_execute env ref (cmd_commandCode c) (cmd_payload c) (xm_devices m) = (oc, dv, outs')"
    by (metis surj_pair)
  obtain bs m1 where S: "xm_settle env outs' (m\<lparr>xm_devices := dv\<rparr>) = (bs, m1)" by fastforce
  note cases = dev_execute_settles [OF D]
  have dev: "xm_devices m1 = dv" using xm_settle_simps(1) [of env outs' "m\<lparr>xm_devices := dv\<rparr>"] S by simp
  show ?thesis
  proof (cases "oc = Pending")
    case True
    then have P: "settled outs' = pin_open (dv_pin (xm_devices m))"
      "pin_open (dv_pin dv) = [pin_tickets (dv_pin (xm_devices m))]"
      using cases by auto
    define dv0 where "dv0 = dv\<lparr>dv_pin := (dv_pin dv)\<lparr>pin_active := None\<rparr>\<rparr>"
    have open0: "pin_open (dv_pin dv0) = []" by (simp add: dv0_def pin_open_def)
    obtain cs m2 where S0: "xm_settle env outs' (m\<lparr>xm_devices := dv0\<rparr>) = (cs, m2)" by fastforce
    have "xm_accounts [] m cs m2"
      using xm_accounts_direct [OF inv _ S0 refl] P(1) open0 by simp
    moreover have "cs = bs \<and> m1 = m2\<lparr>xm_devices := dv\<rparr>"
    proof -
      have "cs = fst (xm_settle env outs' m)" "m2 = (snd (xm_settle env outs' m))\<lparr>xm_devices := dv0\<rparr>"
        "bs = fst (xm_settle env outs' m)" "m1 = (snd (xm_settle env outs' m))\<lparr>xm_devices := dv\<rparr>"
        using S S0 by (simp_all add: xm_settle_devices)
      then show ?thesis by simp
    qed
    moreover have "as = bs" "m' = m1\<lparr>xm_pending := (pin_tickets (dv_pin (xm_devices m)), c) # xm_pending m1\<rparr>"
      using ex Some D S True by (simp_all add: xm_execute_def)
    moreover have "xm_devices m2 = dv0"
      using xm_settle_simps(1) [of env outs' "m\<lparr>xm_devices := dv0\<rparr>"] S0 by simp
    ultimately show ?thesis using P(2) open0 by (auto simp: xm_accounts_def xm_inv_def)
  next
    case False
    then have A: "xm_accounts [] m bs m1"
      using xm_accounts_direct [OF inv _ S refl] cases by auto
    define res where "res = (case oc of Done p \<Rightarrow> Inr p | Failed e \<Rightarrow> Inl e | Pending \<Rightarrow> undefined)"
    have "as = bs @ [fst (xm_complete env c res m1)]" "m' = snd (xm_complete env c res m1)"
      using ex Some D S False
      by (cases oc; simp add: xm_execute_def res_def Let_def split_def)+
    then show ?thesis using A by (simp add: xm_accounts_def xm_inv_def)
  qed
qed

lemma xm_step_accounts:
  assumes inv: "xm_inv m" and st: "xm_step env op m = (as, m', outs)"
  shows "xm_accounts (xm_request op) m as m'"
proof -
  have pin: "settled (snd (pin_step tdes p d)) = [] \<and> pin_open (fst (pin_step tdes p d)) = pin_open d
      \<or> settled (snd (pin_step tdes p d)) = pin_open d \<and> pin_open (fst (pin_step tdes p d)) = []"
    if "p = PinTimeout \<or> (\<exists>k. p = PinKey k)" for tdes p d
  proof -
    have "pin_tickets (fst (pin_step tdes p d)) = pin_tickets d"
      using that by (elim disjE exE) (simp_all add: pin_timeout_def pin_pressKey_def Let_def split_def split: option.split)
    then show ?thesis
      using pin_step_tickets [of tdes p d "fst (pin_step tdes p d)" "snd (pin_step tdes p d)"] by auto
  qed
  show ?thesis
  proof (cases op)
    case (XmExecute c)
    then show ?thesis using xm_execute_accounts [OF inv] st by simp
  next
    case (XmAdmin h a)
    have "pin_open (dv_pin (dev_admin r a dv)) = pin_open (dv_pin dv)" for r dv
      by (cases r; cases a; simp add: vd_defs pin_open_def)
    then show ?thesis using XmAdmin st inv
      by (auto simp: xm_admin_def xm_accounts_def xm_inv_def split: option.split)
  next
    case (XmPressKey key)
    obtain d ou where P: "pin_pressKey key (dv_pin (xm_devices m)) = (d, ou)" by fastforce
    then have S: "xm_settle env ou (m\<lparr>xm_devices := (xm_devices m)\<lparr>dv_pin := d\<rparr>\<rparr>) = (as, m')"
      using XmPressKey st by (auto simp: Let_def split: prod.splits)
    show ?thesis
      using xm_accounts_direct [OF inv _ S] pin [of "PinKey key" undefined "dv_pin (xm_devices m)"] P
      by (auto simp: XmPressKey)
  next
    case XmPinTimeout
    obtain d ou where P: "pin_timeout (dv_pin (xm_devices m)) = (d, ou)" by fastforce
    then have S: "xm_settle env ou (m\<lparr>xm_devices := (xm_devices m)\<lparr>dv_pin := d\<rparr>\<rparr>) = (as, m')"
      using XmPinTimeout st by (auto simp: Let_def split: prod.splits)
    show ?thesis
      using xm_accounts_direct [OF inv _ S] pin [of PinTimeout undefined "dv_pin (xm_devices m)"] P
      by (auto simp: XmPinTimeout)
  next
    case XmExtractPin
    then show ?thesis using st inv
      by (auto simp: xm_accounts_def xm_inv_def pin_extractEnteredPin_def)
  qed (use st inv in \<open>auto simp: Let_def xm_accounts_def xm_inv_def split: prod.splits\<close>)
qed

lemma balance_chain:
  fixes a :: "'a multiset"
  assumes "a + p = b + q" "c + q = d + r"
  shows "a + c + p = b + d + r"
proof -
  have "a + c + p = (a + p) + c" by (simp add: ac_simps)
  also have "\<dots> = b + (c + q)" unfolding assms(1) by (simp add: ac_simps)
  also have "\<dots> = b + d + r" unfolding assms(2) by (simp add: ac_simps)
  finally show ?thesis .
qed

lemma xm_run_accounts:
  assumes "xm_inv m" "xm_run ops m = (as, m')"
  shows "xm_accounts (concat (map (xm_request \<circ> snd) ops)) m as m'"
  using assms
proof (induction ops arbitrary: m as)
  case Nil
  then show ?case by (simp add: xm_accounts_def)
next
  case (Cons eo ops)
  obtain env op where eo: "eo = (env, op)" by (cases eo)
  obtain bs m1 ou where S: "xm_step env op m = (bs, m1, ou)" by (metis surj_pair)
  obtain cs m2 where R: "xm_run ops m1 = (cs, m2)" by fastforce
  note A = xm_step_accounts [OF Cons.prems(1) S]
  from A have "xm_inv m1" by (simp add: xm_accounts_def)
  moreover have split: "as = bs @ cs" "m' = m2" using Cons.prems(2) S R by (simp_all add: eo)
  ultimately have B: "xm_accounts (concat (map (xm_request \<circ> snd) ops)) m1 cs m'"
    using Cons.IH [of m1 cs] R by (simp add: comp_def)
  then show ?case using A split
    by (auto simp: xm_accounts_def eo comp_def intro: balance_chain)
qed

lemma xm_boot_inv: "xm_inv xm_boot"
  by (simp add: xm_inv_def xm_boot_def xm_onModuleInit_def xm_registerService_def xm_new_def
      devices_init_def pin_init_def vd_open_def vdev.defs pin_open_def)

text \<open>C13: over any run of commands, operator actions, key presses and timers from boot, every
  command the manager was given is answered exactly once, except the one that owns the open PIN
  entry, of which there is at most one; and every answer echoes the identity of its command and is
  either a success with a reply or one of two error codes with its cause.\<close>

theorem xm_answers_every_command:
  "mset (concat (map (xm_request \<circ> snd) ops))
     = mset (map fst (fst (xm_run ops xm_boot))) + mset (map snd (xm_pending (snd (xm_run ops xm_boot))))
   \<and> map fst (xm_pending (snd (xm_run ops xm_boot))) = pin_open (dv_pin (xm_devices (snd (xm_run ops xm_boot))))
   \<and> length (xm_pending (snd (xm_run ops xm_boot))) \<le> 1
   \<and> list_all answer_ok (fst (xm_run ops xm_boot))"
proof -
  have A: "xm_accounts (concat (map (xm_request \<circ> snd) ops)) xm_boot
      (fst (xm_run ops xm_boot)) (snd (xm_run ops xm_boot))"
    using xm_run_accounts [OF xm_boot_inv, of ops] by (metis prod.collapse)
  have "xm_pending xm_boot = []"
    by (simp add: xm_boot_def xm_onModuleInit_def xm_registerService_def xm_new_def)
  moreover have "length (pin_open d) \<le> 1" for d by (simp add: pin_open_def split: option.split)
  then have "length (map fst (xm_pending (snd (xm_run ops xm_boot)))) \<le> 1"
    using A by (simp add: xm_accounts_def xm_inv_def)
  ultimately show ?thesis using A by (simp add: xm_accounts_def xm_inv_def)
qed

section \<open>The registry\<close>

lemma xm_boot_services:
  "xm_services xm_boot = [(''IDC30'', Ref_IDC), (''PIN30'', Ref_PIN), (''CDM30'', Ref_CDM), (''PTR30'', Ref_PTR)]"
  by (simp add: xm_boot_def xm_onModuleInit_def xm_registerService_def xm_new_def devices_init_def
      idc_init_def pin_init_def cdm_init_def ptr_init_def vd_open_def vd_init_def vdev.defs
      cdm_loadCassettes_def)

lemma xm_step_services: "xm_services (fst (snd (xm_step env op m))) = xm_services m"
proof (cases op)
  case (XmExecute c)
  show ?thesis
  proof (cases "map_of (xm_services m) (cmd_hService c)")
    case None
    then show ?thesis by (simp add: XmExecute xm_execute_def Let_def)
  next
    case (Some ref)
    then show ?thesis
      by (cases "fst (dev_execute env ref (cmd_commandCode c) (cmd_payload c) (xm_devices m))")
        (simp_all add: XmExecute xm_execute_def Let_def split_def)
  qed
qed (auto simp: xm_admin_def Let_def split_def split: option.split)

lemma xm_run_services: "xm_services (snd (xm_run ops m)) = xm_services m"
  by (induction ops arbitrary: m) (auto simp: Let_def split_def xm_step_services)

text \<open>The sensor unit is never registered: whatever has happened since boot, a command to it is
  answered with service-not-found and leaves every device as it was.\<close>

theorem siu_unreachable:
  assumes "cmd_hService c = ''SIU30''" "m = snd (xm_run ops xm_boot)"
  shows "fst (xm_execute env c m) = [(c, xfsError c ERR_SERVICE_NOT_FOUND (UnknownHService ''SIU30''))]
    \<and> xm_devices (fst (snd (xm_execute env c m))) = xm_devices m"
  using assms xm_run_services [of ops xm_boot]
  by (simp add: xm_execute_def xm_boot_services Let_def)

text \<open>An injected error reaches the client as an internal error whatever code the operator
  injected: the code survives only in the error text. It fails one command and no other device
  notices.\<close>

theorem injected_code_is_masked:
  assumes "map_of (xm_services m) (cmd_hService c) = Some ref"
    and "vd_injectedError (dev_base ref (xm_devices m)) = Some e"
    and "cmd_commandCode c \<notin> {idc_cmd_code IDC_RESET, pin_cmd_code PIN_RESET, cdm_cmd_code CDM_RESET,
           ptr_cmd_code PTR_RESET, siu_cmd_code SIU_RESET}"
  shows "fst (xm_execute env c m) = [(c, xfsError c ERR_INTERNAL_ERROR (InjectedError e))]
    \<and> xm_devices (fst (snd (xm_execute env c m))) = dev_admin ref AdmClearError (xm_devices m)
    \<and> snd (snd (xm_execute env c m)) = []"
proof -
  have "dev_execute env ref (cmd_commandCode c) p (xm_devices m)
      = (Failed (InjectedError e), dev_admin ref AdmClearError (xm_devices m), [])" for p
    using assms(2,3)
    by (cases ref; simp add: idc.injected_fails pin.injected_fails cdm.injected_fails
        ptr.injected_fails siu.injected_fails del: idc_cmd_code.simps pin_cmd_code.simps
        cdm_cmd_code.simps ptr_cmd_code.simps siu_cmd_code.simps)
  then show ?thesis using assms(1) by (simp add: xm_execute_def xm_complete_def Let_def)
qed

text \<open>On each of the five devices, in any run of commands at most one fails by injection.\<close>

theorem devices_injection_one_shot:
  "length (filter injected_outcome (fst (exec_run idc_executeCommand d1 cs))) \<le> 1
   \<and> length (filter injected_outcome (fst (exec_run (pin_executeCommand tdes) d2 cs))) \<le> 1
   \<and> length (filter injected_outcome (fst (exec_run cdm_executeCommand d3 cs))) \<le> 1
   \<and> length (filter injected_outcome (fst (exec_run (ptr_executeCommand ck) d4 cs))) \<le> 1
   \<and> length (filter injected_outcome (fst (exec_run siu_executeCommand d5 cs))) \<le> 1"
  by (intro conjI idc.injection_one_shot pin.injection_one_shot cdm.injection_one_shot
      ptr.injection_one_shot siu.injection_one_shot)

section \<open>Witnesses\<close>

definition xm_sample :: "string \<Rightarrow> string \<Rightarrow> XfsCommand" where
  "xm_sample h code = \<lparr>cmd_hService = h, cmd_serviceClass = SIU, cmd_commandCode = code,
     cmd_requestId = ''R1'', cmd_timeoutMs = 5000, cmd_payload = xfs_no_payload, cmd_sessionId = None\<rparr>"

definition xe_sample :: xfs_env where
  "xe_sample = \<lparr>xe_tdes = (\<lambda>k x. x), xe_clock = \<lparr>ck_now = 1000, ck_iso = [], ck_locale = []\<rparr>, xe_logUp = True\<rparr>"

lemma siu_unreachable_witness:
  "map (rsp_result \<circ> snd) (fst (xm_execute xe_sample (xm_sample ''SIU30'' ''WFS_CMD_SIU_RESET'') xm_boot)) = [- 9]"
  using siu_unreachable [of "xm_sample ''SIU30'' ''WFS_CMD_SIU_RESET''" xm_boot "[]" xe_sample]
  by (simp add: xm_sample_def)

lemma injected_code_is_masked_witness:
  "map (rsp_result \<circ> snd) (fst (xm_execute xe_sample (xm_sample ''CDM30'' ''WFS_CMD_CDM_COUNT'')
     (snd (xm_admin ''CDM30'' (AdmInjectError (- 3)) xm_boot)))) = [- 5]"
proof -
  let ?m = "snd (xm_admin ''CDM30'' (AdmInjectError (- 3)) xm_boot)"
  have m: "xm_services ?m = xm_services xm_boot"
    "xm_devices ?m = dev_admin Ref_CDM (AdmInjectError (- 3)) (xm_devices xm_boot)"
    by (simp_all add: xm_admin_def xm_getService_def xm_boot_services)
  show ?thesis
    using injected_code_is_masked [of ?m "xm_sample ''CDM30'' ''WFS_CMD_CDM_COUNT''" Ref_CDM "- 3" xe_sample]
    by (simp add: m xm_boot_services xm_sample_def vd_injectError_def)
qed

end
