(* ===== verification/Atm_Types.thy ===== *)
theory Atm_Types
  imports Xfs_Manager Host_Emulator
begin

text \<open>
  The data of the ATM application (\<^verbatim>\<open>apps/xfs-server/src/atm/atm-session.types.ts\<close>,
  \<^verbatim>\<open>user-action.types.ts\<close>), the texts of the device errors it shows and stores, and the
  formatting of amounts on receipts.
\<close>

section \<open>Sessions and user actions\<close>

datatype AtmState =
    IDLE | CARD_INSERTED | PIN_ENTRY | PIN_VERIFIED | MAIN_MENU | AMOUNT_ENTRY | CONFIRM
  | PROCESSING | DISPENSING | PRINTING | EJECTING | ATM_ERROR | ENDED

text \<open>The type of a transaction is a union of four literals, but the macro runner casts any text to it:
  such a text is \<open>OTHER_TXN\<close>.\<close>

datatype AtmTxnType = WITHDRAWAL | BALANCE | TRANSFER | DEPOSIT | OTHER_TXN string

datatype EndReason = COMPLETED | CANCELLED | TIMEOUT | END_ERROR

record AtmSession =
  ss_id :: string
  ss_state :: AtmState
  ss_cardPan :: "string option"
  ss_accountId :: "string option"
  ss_selectedTxn :: "AtmTxnType option"
  ss_amount :: "jsnum option"
  ss_stanNo :: "string option"
  ss_authCode :: "string option"
  ss_errorMessage :: "string option"
  ss_failedPinAttempts :: nat
  ss_startedAt :: int
  ss_updatedAt :: int
  ss_endedAt :: "int option"
  ss_endReason :: "EndReason option"

text \<open>The base fields of an action are its session and its time; the kinds are the constructors.\<close>

datatype UserActionKind =
    UA_CARD_INSERT string
  | UA_KEY_PRESS string
  | UA_SELECT_TRANSACTION AtmTxnType
  | UA_SUBMIT_AMOUNT jsnum
  | UA_CONFIRM
  | UA_CANCEL "string option"

record UserAction =
  ua_kind :: UserActionKind
  ua_sessionId :: "string option"
  ua_timestamp :: int

fun txn_name :: "AtmTxnType \<Rightarrow> string" where
  "txn_name WITHDRAWAL = ''WITHDRAWAL''"
| "txn_name BALANCE = ''BALANCE''"
| "txn_name TRANSFER = ''TRANSFER''"
| "txn_name DEPOSIT = ''DEPOSIT''"
| "txn_name (OTHER_TXN t) = t"

section \<open>Texts\<close>

text \<open>\<open>String(n)\<close>: integers in decimal; the shortest text of another number is the parameter \<open>nt\<close>.\<close>

definition js_num_text :: "(jsnum \<Rightarrow> string) \<Rightarrow> jsnum \<Rightarrow> string" where
  "js_num_text nt n = (case js_to_int n of Some i \<Rightarrow> js_int_to_string i | None \<Rightarrow> nt n)"

fun class_name :: "XfsServiceClass \<Rightarrow> string" where
  "class_name IDC = ''IDC''"
| "class_name PIN = ''PIN''"
| "class_name CDM = ''CDM''"
| "class_name PTR = ''PTR''"
| "class_name SIU = ''SIU''"
| "class_name TTU = ''TTU''"

text \<open>The message of each error a device or the manager throws.\<close>

fun dev_error_text :: "(jsnum \<Rightarrow> string) \<Rightarrow> dev_error \<Rightarrow> string" where
  "dev_error_text nt (InjectedError e) = ''XFS injected error: '' @ js_int_to_string e"
| "dev_error_text nt (UnsupportedCommand c code) =
     ''Unsupported '' @ class_name c @ '' command: '' @ code"
| "dev_error_text nt (UnknownHService h) = ''Unknown hService: '' @ h"
| "dev_error_text nt (InvalidAmount n) = ''invalid amount: '' @ js_num_text nt n"
| "dev_error_text nt (NoActiveCassette n) =
     ''no active cassette for denomination '' @ js_num_text nt n"
| "dev_error_text nt (InsufficientNotes u need have) =
     ''insufficient notes in '' @ u @ '' (need '' @ js_int_to_string need @ '', have ''
       @ js_int_to_string have @ '')''"
| "dev_error_text nt (CannotDispense r) =
     ''cannot dispense exact amount; '' @ js_int_to_string r @ '' IDR remaining''"
| "dev_error_text nt (InvalidDenom s) = ''invalid denom: '' @ s"
| "dev_error_text nt (InvalidCount s) = ''invalid count for '' @ s"
| "dev_error_text nt (CustomMixSum s a) =
     ''custom mix sum '' @ js_int_to_string s @ '' != requested amount '' @ js_int_to_string a"
| "dev_error_text nt NoCashToPresent = ''no cash to present''"
| "dev_error_text nt NothingToRetract = ''nothing to retract''"
| "dev_error_text nt (UnknownCassette u) = ''Unknown cassette: '' @ u"
| "dev_error_text nt (ReplenishOutOfRange m) = ''replenish out of range: 0..'' @ js_int_to_string m"
| "dev_error_text nt NoCardInReader = ''No card in reader''"
| "dev_error_text nt NoCardToEject = ''No card to eject''"
| "dev_error_text nt NoCardToRetain = ''No card to retain''"
| "dev_error_text nt NoPinBuffered = ''No PIN buffered''"
| "dev_error_text nt (KeyNotFound k) = ''Key not found: '' @ k"
| "dev_error_text nt (InvalidPinLength n) = ''invalid pin length: '' @ js_itoa n"
| "dev_error_text nt XorLengthMismatch = ''xor length mismatch''"
| "dev_error_text nt (EntryCancelled r) = r"
| "dev_error_text nt OutOfPaper = ''out of paper''"
| "dev_error_text nt (UnknownIndicator i) = ''Unknown indicator: '' @ js_default i ''undefined''"
| "dev_error_text nt (InvalidIndicatorState s) = ''Invalid indicator state: '' @ s"

text \<open>\<open>toLocaleString('id-ID')\<close> of an integer: groups of three digits separated by dots.\<close>

function group_digits :: "string \<Rightarrow> string" where
  "group_digits s =
     (if length s \<le> 3 then s
      else group_digits (take (length s - 3) s) @ CHR ''.'' # drop (length s - 3) s)"
  by auto
termination by (relation "measure length") auto

declare group_digits.simps [simp del]

definition js_locale_id :: "int \<Rightarrow> string" where
  "js_locale_id i =
     (if i < 0 then CHR ''-'' # group_digits (js_itoa (nat (- i))) else group_digits (js_itoa (nat i)))"

lemma group_digits_ungroup: "CHR ''.'' \<notin> set s \<Longrightarrow> filter (\<lambda>c. c \<noteq> CHR ''.'') (group_digits s) = s"
proof (induction s rule: group_digits.induct)
  case (1 s)
  have no_dot: "filter (\<lambda>c. c \<noteq> CHR ''.'') xs = xs" if "CHR ''.'' \<notin> set xs" for xs :: string
    using that by (induction xs) auto
  have parts: "CHR ''.'' \<notin> set (take (length s - 3) s)" "CHR ''.'' \<notin> set (drop (length s - 3) s)"
    using 1(2) by (auto dest: in_set_takeD in_set_dropD)
  show ?case using 1 no_dot parts by (subst group_digits.simps) simp
qed

end
