(* ===== verification/Atm_App.thy ===== *)
theory Atm_App
  imports Atm_Types
begin

text \<open>
  The ATM application (\<^verbatim>\<open>apps/xfs-server/src/atm/atm-app.service.ts\<close>). Its handlers are
  asynchronous: each is cut at its \<open>await\<close>s into segments that run without interruption. A segment
  ends by awaiting a \<open>call\<close> with a \<open>frame\<close> that says where the handler goes on, by returning, or by
  throwing. Other handlers, the idle timer and the devices may run between two segments: that is
  the step function of \<^verbatim>\<open>Atm_System\<close>; \<open>atm_drive\<close> below runs one handler alone.

  Sessions are mutable objects that handlers keep references to while \<open>this.session\<close> changes, so they
  live in a heap \<open>w_sessions\<close> and a reference is an index. A property read of \<open>this.session\<close> that is
  null throws a \<open>TypeError\<close>. An \<open>await\<close> of a function that returns at once does not cut a segment.
\<close>

section \<open>State\<close>

datatype bus_event =
    BusXfs xfs_event
  | BusUserAction UserAction
  | BusStateChanged AtmSession AtmState
  | BusSessionEnded AtmSession EndReason

text \<open>A row of the session table.\<close>

record SessionRow =
  sr_id :: string
  sr_state :: AtmState
  sr_pan :: "string option"
  sr_endedAt :: "int option"
  sr_endReason :: "EndReason option"
  sr_accountId :: "string option"

datatype call =
    C_SessionCreate SessionRow
  | C_SessionUpdate SessionRow
  | C_Xfs XfsCommand
  | C_Authenticate string
  | C_VerifyPin string string
  | C_Authorize withdrawal
  | C_Balance string
  | C_Reverse reversal
  | C_RetainHost string

datatype call_value =
    V_Unit
  | V_Xfs XfsResponse
  | V_Auth AuthResult
  | V_Authz AuthorizationResult
  | V_Balance BalanceResult

type_synonym call_result = "db_error + call_value"

datatype atm_error =
    SessionActive
  | WrongState string "AtmState option"
  | BadAmount
  | TypeError
  | Rejected db_error

text \<open>What the promise of a handler resolves to.\<close>

datatype atm_reply =
    Rp_Unit
  | Rp_Session nat
  | Rp_Pin bool "string option"

datatype frame =
    K_InsertedCreated nat string idc_card
  | K_InsertedRead nat string
  | K_InsertedAuth nat
  | K_PinEntered
  | K_PinVerified
  | K_Authorized
  | K_Dispensed AuthorizationResult
  | K_Reversed XfsResponse
  | K_Printed
  | K_Balance
  | K_Retained string atm_reply
  | K_HostRetained string atm_reply
  | K_Ejected EndReason atm_reply
  | K_Ended nat EndReason atm_reply

datatype progress = Await call frame | Return atm_reply | Throw atm_error

record 'db world =
  w_sessions :: "AtmSession list"
  w_session :: "nat option"
  w_idleTimer :: "string option"
  w_xfs :: xfs_manager
  w_host :: "'db host"
  w_rows :: "SessionRow list"
  w_bus :: "bus_event list"

text \<open>What the environment supplies at a step.\<close>

record atm_env =
  ae_xfs :: xfs_env
  ae_host :: host_env
  ae_rowsUp :: bool
  ae_now :: int
  ae_requestId :: string
  ae_sessionId :: string
  ae_bankName :: string
  ae_atmId :: string
  ae_numText :: "jsnum \<Rightarrow> string"

definition MAX_PIN_ATTEMPTS :: nat where
  "MAX_PIN_ATTEMPTS = 3"

fun idle_state :: "AtmState \<Rightarrow> bool" where
  "idle_state CARD_INSERTED = True"
| "idle_state PIN_ENTRY = True"
| "idle_state PIN_VERIFIED = True"
| "idle_state MAIN_MENU = True"
| "idle_state AMOUNT_ENTRY = True"
| "idle_state CONFIRM = True"
| "idle_state _ = False"

text \<open>\<open>idleTimeoutMs\<close>: the environment variable, unless it is absent, empty or not a positive number.\<close>

definition idleTimeoutMs :: "string option \<Rightarrow> int" where
  "idleTimeoutMs raw =
     (case raw of
        None \<Rightarrow> 60000
      | Some s \<Rightarrow>
          if s = [] then 60000
          else (case js_parseInt 10 s of Some n \<Rightarrow> if 0 < n then n else 60000 | None \<Rightarrow> 60000))"

section \<open>Access to the session\<close>

definition atm_cur :: "'db world \<Rightarrow> AtmSession option" where
  "atm_cur w = map_option (\<lambda>r. w_sessions w ! r) (w_session w)"

definition atm_upd :: "nat \<Rightarrow> (AtmSession \<Rightarrow> AtmSession) \<Rightarrow> 'db world \<Rightarrow> 'db world" where
  "atm_upd r f w = w\<lparr>w_sessions := (w_sessions w)[r := f (w_sessions w ! r)]\<rparr>"

definition atm_upd_cur :: "(AtmSession \<Rightarrow> AtmSession) \<Rightarrow> 'db world \<Rightarrow> 'db world" where
  "atm_upd_cur f w = (case w_session w of None \<Rightarrow> w | Some r \<Rightarrow> atm_upd r f w)"

definition atm_emit :: "bus_event \<Rightarrow> 'db world \<Rightarrow> 'db world" where
  "atm_emit ev w = w\<lparr>w_bus := w_bus w @ [ev]\<rparr>"

definition atm_cur_id :: "'db world \<Rightarrow> string option" where
  "atm_cur_id w = map_option ss_id (atm_cur w)"

definition atm_emitUserAction :: "atm_env \<Rightarrow> UserActionKind \<Rightarrow> string option \<Rightarrow> 'db world \<Rightarrow> 'db world" where
  "atm_emitUserAction env k sid w =
     atm_emit (BusUserAction \<lparr>ua_kind = k, ua_sessionId = sid, ua_timestamp = ae_now env\<rparr>) w"

section \<open>Transitions and the idle timer\<close>

definition atm_clearIdleTimer :: "'db world \<Rightarrow> 'db world" where
  "atm_clearIdleTimer w = w\<lparr>w_idleTimer := None\<rparr>"

definition atm_armIdleTimer :: "AtmState \<Rightarrow> 'db world \<Rightarrow> 'db world" where
  "atm_armIdleTimer st w =
     (if \<not> idle_state st then atm_clearIdleTimer w
      else (atm_clearIdleTimer w)\<lparr>w_idleTimer := atm_cur_id w\<rparr>)"

definition atm_transitionTo :: "atm_env \<Rightarrow> AtmState \<Rightarrow> 'db world \<Rightarrow> 'db world" where
  "atm_transitionTo env st w =
     (case atm_cur w of
        None \<Rightarrow> w
      | Some s \<Rightarrow>
          (let s' = s\<lparr>ss_state := st, ss_updatedAt := ae_now env\<rparr>;
               w1 = atm_upd_cur (\<lambda>_. s') w
           in atm_armIdleTimer st (atm_emit (BusStateChanged s' (ss_state s)) w1)))"

definition atm_notifyState :: "AtmState \<Rightarrow> 'db world \<Rightarrow> 'db world" where
  "atm_notifyState prev w =
     (case atm_cur w of
        None \<Rightarrow> w
      | Some s \<Rightarrow> atm_armIdleTimer (ss_state s) (atm_emit (BusStateChanged s prev) w))"

section \<open>Ending a session\<close>

definition session_row :: "AtmSession \<Rightarrow> SessionRow" where
  "session_row s =
     \<lparr>sr_id = ss_id s, sr_state = ss_state s, sr_pan = ss_cardPan s, sr_endedAt = ss_endedAt s,
      sr_endReason = ss_endReason s, sr_accountId = ss_accountId s\<rparr>"

definition atm_endSession :: "atm_env \<Rightarrow> EndReason \<Rightarrow> atm_reply \<Rightarrow> 'db world \<Rightarrow> 'db world \<times> progress" where
  "atm_endSession env reason rp w =
     (case w_session w of
        None \<Rightarrow> (w, Return rp)
      | Some r \<Rightarrow>
          (let w1 = atm_upd r (\<lambda>s. s\<lparr>ss_endedAt := Some (ae_now env), ss_endReason := Some reason\<rparr>)
                      (atm_clearIdleTimer w)
           in (w1, Await (C_SessionUpdate (session_row (w_sessions w1 ! r))) (K_Ended r reason rp))))"

definition atm_command ::
  "atm_env \<Rightarrow> string \<Rightarrow> XfsServiceClass \<Rightarrow> string \<Rightarrow> int \<Rightarrow> xfs_payload \<Rightarrow> string option \<Rightarrow> XfsCommand" where
  "atm_command env h sc code timeout pl sid =
     \<lparr>cmd_hService = h, cmd_serviceClass = sc, cmd_commandCode = code,
      cmd_requestId = ae_requestId env, cmd_timeoutMs = timeout, cmd_payload = pl,
      cmd_sessionId = sid\<rparr>"

definition atm_eject_command :: "atm_env \<Rightarrow> string option \<Rightarrow> XfsCommand" where
  "atm_eject_command env sid =
     atm_command env ''IDC30'' IDC (idc_cmd_code IDC_EJECT_CARD) 5000 xfs_no_payload sid"

text \<open>\<open>safeEject\<close>, then \<open>endSession\<close>.\<close>

definition atm_safeEject_end :: "atm_env \<Rightarrow> EndReason \<Rightarrow> atm_reply \<Rightarrow> 'db world \<Rightarrow> 'db world \<times> progress" where
  "atm_safeEject_end env reason rp w =
     (if \<not> idc_hasCard (dv_idc (xm_devices (w_xfs w))) then atm_endSession env reason rp w
      else (w, Await (C_Xfs (atm_eject_command env (atm_cur_id w))) (K_Ejected reason rp)))"

definition atm_markError :: "atm_env \<Rightarrow> string \<Rightarrow> atm_reply \<Rightarrow> 'db world \<Rightarrow> 'db world \<times> progress" where
  "atm_markError env msg rp w =
     (case w_session w of
        None \<Rightarrow> (w, Return rp)
      | Some r \<Rightarrow>
          atm_safeEject_end env END_ERROR rp
            (atm_transitionTo env ATM_ERROR (atm_upd r (\<lambda>s. s\<lparr>ss_errorMessage := Some msg\<rparr>) w)))"

definition atm_retainCard :: "atm_env \<Rightarrow> string \<Rightarrow> atm_reply \<Rightarrow> 'db world \<Rightarrow> 'db world \<times> progress" where
  "atm_retainCard env reason rp w =
     (case atm_cur w of
        None \<Rightarrow> (w, Return rp)
      | Some s \<Rightarrow>
          (w, Await (C_Xfs (atm_command env ''IDC30'' IDC (idc_cmd_code IDC_RETAIN_CARD) 5000
                        xfs_no_payload (Some (ss_id s)))) (K_Retained reason rp)))"

section \<open>Card insertion\<close>

definition atm_new_session :: "atm_env \<Rightarrow> string \<Rightarrow> AtmSession" where
  "atm_new_session env pan =
     \<lparr>ss_id = ae_sessionId env, ss_state = CARD_INSERTED, ss_cardPan = Some pan, ss_accountId = None,
      ss_selectedTxn = None, ss_amount = None, ss_stanNo = None, ss_authCode = None,
      ss_errorMessage = None, ss_failedPinAttempts = 0, ss_startedAt = ae_now env,
      ss_updatedAt = ae_now env, ss_endedAt = None, ss_endReason = None\<rparr>"

definition atm_onCardInserted :: "atm_env \<Rightarrow> string \<Rightarrow> idc_card \<Rightarrow> 'db world \<Rightarrow> 'db world \<times> progress" where
  "atm_onCardInserted env pan crd w =
     (if w_session w \<noteq> None then (w, Throw SessionActive)
      else
        (let s = atm_new_session env pan; r = length (w_sessions w)
         in (w\<lparr>w_sessions := w_sessions w @ [s], w_session := Some r\<rparr>,
             Await (C_SessionCreate \<lparr>sr_id = ss_id s, sr_state = ss_state s, sr_pan = Some pan,
                      sr_endedAt = None, sr_endReason = None, sr_accountId = None\<rparr>)
               (K_InsertedCreated r pan crd))))"

definition atm_bus_outputs :: "dev_output list \<Rightarrow> bus_event list" where
  "atm_bus_outputs outs = concat (map (\<lambda>out. case out of Emit e \<Rightarrow> [BusXfs e] | _ \<Rightarrow> []) outs)"

definition atm_insert_segment :: "atm_env \<Rightarrow> nat \<Rightarrow> string \<Rightarrow> idc_card \<Rightarrow> 'db world \<Rightarrow> 'db world \<times> progress" where
  "atm_insert_segment env r pan crd w =
     (let sid = ss_id (w_sessions w ! r);
          w1 = atm_notifyState IDLE (atm_emitUserAction env (UA_CARD_INSERT pan) (Some sid) w);
          (inserted, d, outs) = idc_insertCard crd (dv_idc (xm_devices (w_xfs w1)));
          w2 = w1\<lparr>w_xfs := (w_xfs w1)\<lparr>xm_devices := (xm_devices (w_xfs w1))\<lparr>dv_idc := d\<rparr>\<rparr>,
                  w_bus := w_bus w1 @ atm_bus_outputs outs\<rparr>
      in if \<not> inserted then atm_markError env ''insert rejected: card already in reader'' (Rp_Session r) w2
         else (w2, Await (C_Xfs (atm_command env ''IDC30'' IDC (idc_cmd_code IDC_READ_TRACK) 5000
                            xfs_no_payload (Some sid))) (K_InsertedRead r pan)))"

definition rsp_detail :: "atm_env \<Rightarrow> XfsResponse \<Rightarrow> string option" where
  "rsp_detail env r = map_option (dev_error_text (ae_numText env)) (rsp_errorDetail r)"

definition atm_read_segment :: "atm_env \<Rightarrow> nat \<Rightarrow> string \<Rightarrow> XfsResponse \<Rightarrow> 'db world \<Rightarrow> 'db world \<times> progress" where
  "atm_read_segment env r pan rsp w =
     (if rsp_result rsp \<noteq> xfs_result_code SUCCESS
      then atm_markError env (''IDC read failed: '' @ js_default (rsp_detail env rsp) ''unknown'') (Rp_Session r) w
      else (w, Await (C_Authenticate pan) (K_InsertedAuth r)))"

definition atm_auth_segment :: "atm_env \<Rightarrow> nat \<Rightarrow> AuthResult \<Rightarrow> 'db world \<Rightarrow> 'db world \<times> progress" where
  "atm_auth_segment env r au w =
     (if \<not> au_success au
      then atm_markError env (''card declined: '' @ js_default (au_reason au) (au_responseCode au)) (Rp_Session r) w
      else (atm_transitionTo env PIN_ENTRY (atm_upd r (\<lambda>s. s\<lparr>ss_accountId := au_accountId au\<rparr>) w),
            Return (Rp_Session r)))"

section \<open>PIN\<close>

definition atm_pin_spec :: PinGetPinPayload where
  "atm_pin_spec =
     \<lparr>ps_minLen = 4, ps_maxLen = 6, ps_autoEnd = False,
      ps_activeKeys = [''0'', ''1'', ''2'', ''3'', ''4'', ''5'', ''6'', ''7'', ''8'', ''9'',
                       ''ENTER'', ''CANCEL'', ''CLEAR''],
      ps_activeFDKs = [], ps_terminateKeys = [''ENTER'']\<rparr>"

definition atm_beginPinEntry :: "atm_env \<Rightarrow> 'db world \<Rightarrow> 'db world \<times> progress" where
  "atm_beginPinEntry env w =
     (case atm_cur w of
        Some s \<Rightarrow>
          if ss_state s \<noteq> PIN_ENTRY then (w, Throw (WrongState ''begin PIN entry'' (Some (ss_state s))))
          else (w, Await (C_Xfs (atm_command env ''PIN30'' PIN (pin_cmd_code PIN_GET_PIN) 60000
                     (xfs_no_payload\<lparr>pl_pinSpec := atm_pin_spec\<rparr>) (Some (ss_id s)))) K_PinEntered)
      | None \<Rightarrow> (w, Throw (WrongState ''begin PIN entry'' None)))"

definition atm_verifyPinBuffer :: "atm_env \<Rightarrow> 'db world \<Rightarrow> 'db world \<times> progress" where
  "atm_verifyPinBuffer env w =
     (case atm_cur w of
        None \<Rightarrow> (w, Return (Rp_Pin False (Some ''no session'')))
      | Some s \<Rightarrow>
          (let (entered, d) = pin_extractEnteredPin (dv_pin (xm_devices (w_xfs w)));
               w1 = w\<lparr>w_xfs := (w_xfs w)\<lparr>xm_devices := (xm_devices (w_xfs w))\<lparr>dv_pin := d\<rparr>\<rparr>\<rparr>
           in if entered = [] then (w1, Return (Rp_Pin False (Some ''no pin entered'')))
              else (case ss_cardPan s of
                      None \<Rightarrow> (w1, Throw TypeError)
                    | Some pan \<Rightarrow> (w1, Await (C_VerifyPin pan entered) K_PinVerified))))"

definition atm_pin_segment :: "atm_env \<Rightarrow> AuthResult \<Rightarrow> 'db world \<Rightarrow> 'db world \<times> progress" where
  "atm_pin_segment env au w =
     (if \<not> au_success au
      then
        (case atm_cur w of
           None \<Rightarrow> (w, Throw TypeError)
         | Some s \<Rightarrow>
             (let n = ss_failedPinAttempts s + 1;
                  w1 = atm_upd_cur (\<lambda>s. s\<lparr>ss_failedPinAttempts := n\<rparr>) w
              in if MAX_PIN_ATTEMPTS \<le> n \<or> au_responseCode au = ''38''
                 then atm_retainCard env (js_default (au_reason au) ''pin tries exceeded'')
                        (Rp_Pin False (Some ''card retained'')) w1
                 else (w1, Return (Rp_Pin False (au_reason au)))))
      else (atm_transitionTo env MAIN_MENU (atm_transitionTo env PIN_VERIFIED w), Return (Rp_Pin True None)))"

definition atm_retained_segment :: "atm_env \<Rightarrow> string \<Rightarrow> atm_reply \<Rightarrow> 'db world \<Rightarrow> 'db world \<times> progress" where
  "atm_retained_segment env reason rp w =
     (case atm_cur w of
        Some s \<Rightarrow>
          (case ss_cardPan s of
             Some pan \<Rightarrow> (w, Await (C_RetainHost pan) (K_HostRetained reason rp))
           | None \<Rightarrow> (w, Throw TypeError))
      | None \<Rightarrow> (w, Throw TypeError))"

definition atm_hostRetained_segment :: "atm_env \<Rightarrow> string \<Rightarrow> atm_reply \<Rightarrow> 'db world \<Rightarrow> 'db world \<times> progress" where
  "atm_hostRetained_segment env reason rp w =
     (if w_session w = None then (w, Throw TypeError)
      else atm_endSession env END_ERROR rp
             (atm_transitionTo env ATM_ERROR (atm_upd_cur (\<lambda>s. s\<lparr>ss_errorMessage := Some reason\<rparr>) w)))"

section \<open>Transactions\<close>

definition atm_print_command :: "atm_env \<Rightarrow> (string \<times> string) list \<Rightarrow> string \<Rightarrow> XfsCommand" where
  "atm_print_command env flds sid =
     atm_command env ''PTR30'' PTR (ptr_cmd_code PTR_PRINT_FORM) 5000
       (xfs_no_payload\<lparr>pl_print := \<lparr>pf_formName = ''RECEIPT'', pf_fields = flds,
          pf_mediaType = ''RECEIPT'', pf_cut = True\<rparr>\<rparr>) (Some sid)"

definition atm_num_locale :: "atm_env \<Rightarrow> jsnum \<Rightarrow> string" where
  "atm_num_locale env n = (case js_to_int n of Some i \<Rightarrow> js_locale_id i | None \<Rightarrow> ae_numText env n)"

definition atm_processWithdrawal :: "atm_env \<Rightarrow> 'db world \<Rightarrow> 'db world \<times> progress" where
  "atm_processWithdrawal env w =
     (case atm_cur w of
        None \<Rightarrow> (w, Return Rp_Unit)
      | Some s \<Rightarrow>
          (case (ss_amount s, ss_cardPan s) of
             (None, _) \<Rightarrow> (w, Return Rp_Unit)
           | (Some amt, pan) \<Rightarrow>
               if amt = js_int 0 \<or> amt = JNaN then (w, Return Rp_Unit)
               else (case pan of
                       None \<Rightarrow> (w, Throw TypeError)
                     | Some pan \<Rightarrow>
                         (w, Await (C_Authorize \<lparr>wd_pan = pan, wd_amount = amt, wd_sessionId = ss_id s,
                               wd_switch = None\<rparr>) K_Authorized))))"

definition atm_authorized_segment :: "atm_env \<Rightarrow> AuthorizationResult \<Rightarrow> 'db world \<Rightarrow> 'db world \<times> progress" where
  "atm_authorized_segment env az w =
     (if \<not> az_approved az
      then atm_markError env (js_default (az_reason az) (''host declined ('' @ az_responseCode az @ '')'')) Rp_Unit w
      else if w_session w = None then (w, Throw TypeError)
      else
        (let w1 = atm_transitionTo env DISPENSING
                    (atm_upd_cur (\<lambda>s. s\<lparr>ss_stanNo := Some (az_stanNo az), ss_authCode := az_authCode az\<rparr>) w)
         in case atm_cur w1 of
              None \<Rightarrow> (w1, Throw TypeError)
            | Some s \<Rightarrow>
                (w1, Await (C_Xfs (atm_command env ''CDM30'' CDM (cdm_cmd_code CDM_DISPENSE) 30000
                       (dispense_payload (js_default (ss_amount s) JNaN)) (Some (ss_id s)))) (K_Dispensed az))))"

definition atm_receipt_fields :: "atm_env \<Rightarrow> AuthorizationResult \<Rightarrow> string \<Rightarrow> jsnum \<Rightarrow> (string \<times> string) list" where
  "atm_receipt_fields env az pan amt =
     [(''bankName'', ae_bankName env), (''atmId'', ae_atmId env), (''traceNo'', az_stanNo az),
      (''txnType'', ''WITHDRAWAL''), (''cardLast4'', js_slice pan (- 4) (int (length pan))),
      (''amount'', atm_num_locale env amt), (''total'', atm_num_locale env amt),
      (''balance'', js_default (map_option js_locale_id (az_balanceAfter az)) ''***'')]"

definition atm_dispensed_segment ::
  "atm_env \<Rightarrow> AuthorizationResult \<Rightarrow> XfsResponse \<Rightarrow> 'db world \<Rightarrow> 'db world \<times> progress" where
  "atm_dispensed_segment env az rsp w =
     (if rsp_result rsp \<noteq> xfs_result_code SUCCESS
      then
        (case atm_cur w of
           Some s \<Rightarrow>
             (case (ss_cardPan s, ss_accountId s, ss_amount s) of
                (Some pan, Some acc, Some amt) \<Rightarrow>
                  (w, Await (C_Reverse \<lparr>rv_stanNo = az_stanNo az, rv_sessionId = ss_id s, rv_pan = pan,
                         rv_accountId = acc, rv_amount = amt,
                         rv_reason = js_default (rsp_detail env rsp) ''dispense failed''\<rparr>) (K_Reversed rsp))
              | _ \<Rightarrow> (w, Throw TypeError))
         | None \<Rightarrow> (w, Throw TypeError))
      else
        (let w1 = atm_transitionTo env PRINTING w
         in case atm_cur w1 of
              Some s \<Rightarrow>
                (case (ss_cardPan s, ss_amount s) of
                   (Some pan, Some amt) \<Rightarrow>
                     (w1, Await (C_Xfs (atm_print_command env (atm_receipt_fields env az pan amt) (ss_id s))) K_Printed)
                 | _ \<Rightarrow> (w1, Throw TypeError))
            | None \<Rightarrow> (w1, Throw TypeError)))"

definition atm_reversed_segment :: "atm_env \<Rightarrow> XfsResponse \<Rightarrow> 'db world \<Rightarrow> 'db world \<times> progress" where
  "atm_reversed_segment env rsp w =
     atm_markError env (''dispense failed: '' @ js_default (rsp_detail env rsp) ''undefined'') Rp_Unit w"

definition atm_printed_segment :: "atm_env \<Rightarrow> 'db world \<Rightarrow> 'db world \<times> progress" where
  "atm_printed_segment env w = atm_safeEject_end env COMPLETED Rp_Unit (atm_transitionTo env EJECTING w)"

definition atm_processBalance :: "atm_env \<Rightarrow> 'db world \<Rightarrow> 'db world \<times> progress" where
  "atm_processBalance env w =
     (let w1 = atm_transitionTo env PROCESSING w
      in case atm_cur w1 of
           None \<Rightarrow> (w1, Return Rp_Unit)
         | Some s \<Rightarrow>
             (case ss_cardPan s of
                None \<Rightarrow> (w1, Throw TypeError)
              | Some pan \<Rightarrow> (w1, Await (C_Balance pan) K_Balance)))"

definition atm_balance_segment :: "atm_env \<Rightarrow> BalanceResult \<Rightarrow> 'db world \<Rightarrow> 'db world \<times> progress" where
  "atm_balance_segment env b w =
     (if \<not> isApproved (br_responseCode b)
      then atm_markError env (''balance inquiry declined ('' @ br_responseCode b @ '')'') Rp_Unit w
      else
        (let w1 = atm_transitionTo env PRINTING w
         in case atm_cur w1 of
              Some s \<Rightarrow>
                (case ss_cardPan s of
                   Some pan \<Rightarrow>
                     (w1, Await (C_Xfs (atm_print_command env
                        [(''bankName'', ae_bankName env), (''atmId'', ae_atmId env),
                         (''txnType'', ''BALANCE INQUIRY''),
                         (''cardLast4'', js_slice pan (- 4) (int (length pan))),
                         (''balance'', js_locale_id (br_amount b))] (ss_id s))) K_Printed)
                 | None \<Rightarrow> (w1, Throw TypeError))
            | None \<Rightarrow> (w1, Throw TypeError)))"

definition atm_selectTransaction :: "atm_env \<Rightarrow> AtmTxnType \<Rightarrow> 'db world \<Rightarrow> 'db world \<times> progress" where
  "atm_selectTransaction env txn w =
     (case atm_cur w of
        None \<Rightarrow> (w, Throw (WrongState ''select transaction'' None))
      | Some s \<Rightarrow>
          if ss_state s \<noteq> MAIN_MENU then (w, Throw (WrongState ''select transaction'' (Some (ss_state s))))
          else
            (let w1 = atm_upd_cur (\<lambda>s. s\<lparr>ss_selectedTxn := Some txn\<rparr>)
                        (atm_emitUserAction env (UA_SELECT_TRANSACTION txn) (Some (ss_id s)) w)
             in case txn of
                  BALANCE \<Rightarrow> atm_processBalance env w1
                | WITHDRAWAL \<Rightarrow> (atm_transitionTo env AMOUNT_ENTRY w1, Return Rp_Unit)
                | _ \<Rightarrow> atm_markError env (''transaction type not supported: '' @ txn_name txn) Rp_Unit w1))"

definition atm_submitAmount :: "atm_env \<Rightarrow> jsnum \<Rightarrow> 'db world \<Rightarrow> 'db world \<times> progress" where
  "atm_submitAmount env amount w =
     (case atm_cur w of
        None \<Rightarrow> (w, Throw (WrongState ''submit amount'' None))
      | Some s \<Rightarrow>
          if ss_state s \<noteq> AMOUNT_ENTRY then (w, Throw (WrongState ''submit amount'' (Some (ss_state s))))
          else
            (case js_to_int amount of
               None \<Rightarrow> (w, Throw BadAmount)
             | Some i \<Rightarrow>
                 if i \<le> 0 \<or> i mod 20000 \<noteq> 0 then (w, Throw BadAmount)
                 else
                   (atm_transitionTo env CONFIRM
                      (atm_upd_cur (\<lambda>s. s\<lparr>ss_amount := Some amount\<rparr>)
                        (atm_emitUserAction env (UA_SUBMIT_AMOUNT amount) (Some (ss_id s)) w)), Return Rp_Unit)))"

definition atm_confirmTransaction :: "atm_env \<Rightarrow> 'db world \<Rightarrow> 'db world \<times> progress" where
  "atm_confirmTransaction env w =
     (case atm_cur w of
        None \<Rightarrow> (w, Throw (WrongState ''confirm'' None))
      | Some s \<Rightarrow>
          if ss_state s \<noteq> CONFIRM then (w, Throw (WrongState ''confirm'' (Some (ss_state s))))
          else
            (let w1 = atm_transitionTo env PROCESSING (atm_emitUserAction env UA_CONFIRM (Some (ss_id s)) w)
             in if ss_selectedTxn s = Some WITHDRAWAL then atm_processWithdrawal env w1
                else atm_markError env ''unsupported transaction'' Rp_Unit w1))"

definition atm_cancelTransaction :: "atm_env \<Rightarrow> string option \<Rightarrow> 'db world \<Rightarrow> 'db world \<times> progress" where
  "atm_cancelTransaction env reason w =
     (case atm_cur w of
        None \<Rightarrow> (w, Return Rp_Unit)
      | Some s \<Rightarrow>
          atm_safeEject_end env CANCELLED Rp_Unit
            (atm_emitUserAction env (UA_CANCEL (Some (js_default reason ''user cancelled''))) (Some (ss_id s)) w))"

text \<open>The idle timer fires; \<open>handleIdleTimeout\<close> runs if the session it was armed for is still active.\<close>

definition atm_handleIdleTimeout :: "atm_env \<Rightarrow> 'db world \<Rightarrow> 'db world \<times> progress" where
  "atm_handleIdleTimeout env w =
     (if w_session w = None then (w, Return Rp_Unit)
      else atm_safeEject_end env TIMEOUT Rp_Unit
             (atm_transitionTo env ATM_ERROR (atm_upd_cur (\<lambda>s. s\<lparr>ss_errorMessage := Some ''session timed out''\<rparr>) w)))"

definition atm_idleFires :: "atm_env \<Rightarrow> 'db world \<Rightarrow> 'db world \<times> progress" where
  "atm_idleFires env w =
     (case w_idleTimer w of
        None \<Rightarrow> (w, Return Rp_Unit)
      | Some sid \<Rightarrow>
          (let w1 = w\<lparr>w_idleTimer := None\<rparr>
           in if atm_cur_id w1 = Some sid then atm_handleIdleTimeout env w1 else (w1, Return Rp_Unit)))"

definition atm_ended_segment :: "atm_env \<Rightarrow> nat \<Rightarrow> EndReason \<Rightarrow> atm_reply \<Rightarrow> 'db world \<Rightarrow> 'db world \<times> progress" where
  "atm_ended_segment env r reason rp w =
     (let w1 = (atm_transitionTo env ENDED w)\<lparr>w_session := None\<rparr>
      in (atm_emit (BusSessionEnded (w_sessions w1 ! r) reason) w1, Return rp))"

section \<open>Segments\<close>

datatype atm_input =
    In_InsertCard string idc_card
  | In_BeginPin
  | In_VerifyBuffer
  | In_Select AtmTxnType
  | In_Amount jsnum
  | In_Confirm
  | In_Cancel "string option"
  | In_IdleFires

fun atm_start :: "atm_env \<Rightarrow> atm_input \<Rightarrow> 'db world \<Rightarrow> 'db world \<times> progress" where
  "atm_start env (In_InsertCard pan crd) w = atm_onCardInserted env pan crd w"
| "atm_start env In_BeginPin w = atm_beginPinEntry env w"
| "atm_start env In_VerifyBuffer w = atm_verifyPinBuffer env w"
| "atm_start env (In_Select t) w = atm_selectTransaction env t w"
| "atm_start env (In_Amount n) w = atm_submitAmount env n w"
| "atm_start env In_Confirm w = atm_confirmTransaction env w"
| "atm_start env (In_Cancel reason) w = atm_cancelTransaction env reason w"
| "atm_start env In_IdleFires w = atm_idleFires env w"

text \<open>The segment after an \<open>await\<close>: no handler catches the rejection of what it awaits, except that an
  XFS command never rejects.\<close>

fun atm_resume :: "atm_env \<Rightarrow> call_result \<Rightarrow> frame \<Rightarrow> 'db world \<Rightarrow> 'db world \<times> progress" where
  "atm_resume env (Inl e) k w = (w, Throw (Rejected e))"
| "atm_resume env (Inr v) (K_InsertedCreated r pan crd) w = atm_insert_segment env r pan crd w"
| "atm_resume env (Inr (V_Xfs rsp)) (K_InsertedRead r pan) w = atm_read_segment env r pan rsp w"
| "atm_resume env (Inr (V_Auth au)) (K_InsertedAuth r) w = atm_auth_segment env r au w"
| "atm_resume env (Inr v) K_PinEntered w = atm_verifyPinBuffer env w"
| "atm_resume env (Inr (V_Auth au)) K_PinVerified w = atm_pin_segment env au w"
| "atm_resume env (Inr (V_Authz az)) K_Authorized w = atm_authorized_segment env az w"
| "atm_resume env (Inr (V_Xfs rsp)) (K_Dispensed az) w = atm_dispensed_segment env az rsp w"
| "atm_resume env (Inr v) (K_Reversed rsp) w = atm_reversed_segment env rsp w"
| "atm_resume env (Inr v) K_Printed w = atm_printed_segment env w"
| "atm_resume env (Inr (V_Balance b)) K_Balance w = atm_balance_segment env b w"
| "atm_resume env (Inr v) (K_Retained reason rp) w = atm_retained_segment env reason rp w"
| "atm_resume env (Inr v) (K_HostRetained reason rp) w = atm_hostRetained_segment env reason rp w"
| "atm_resume env (Inr v) (K_Ejected reason rp) w = atm_endSession env reason rp w"
| "atm_resume env (Inr v) (K_Ended r reason rp) w = atm_ended_segment env r reason rp w"
| "atm_resume env (Inr v) k w = (w, Throw TypeError)"

section \<open>Calls\<close>

text \<open>What a call does, and its result: \<^const>\<open>None\<close> for an XFS command that is not answered yet. The
  answers the manager gave at the same time, to this and to earlier commands, come with it.\<close>

definition put_row :: "SessionRow \<Rightarrow> SessionRow list \<Rightarrow> SessionRow list" where
  "put_row r rows = map (\<lambda>x. if sr_id x = sr_id r then r\<lparr>sr_pan := sr_pan x\<rparr> else x) rows"

definition of_host :: "'db world \<Rightarrow> db_error + ('a \<times> 'db host) \<Rightarrow> ('a \<Rightarrow> call_value) \<Rightarrow> 'db world \<times> call_result" where
  "of_host w res f = (case res of Inl e \<Rightarrow> (w, Inl e) | Inr (x, h) \<Rightarrow> (w\<lparr>w_host := h\<rparr>, Inr (f x)))"

fun atm_perform ::
  "'db bank_ops \<Rightarrow> atm_env \<Rightarrow> call \<Rightarrow> 'db world \<Rightarrow> 'db world \<times> answer list \<times> call_result option" where
  "atm_perform ops env (C_SessionCreate row) w =
     (if ae_rowsUp env then (w\<lparr>w_rows := w_rows w @ [row]\<rparr>, [], Some (Inr V_Unit))
      else (w, [], Some (Inl DbFailure)))"
| "atm_perform ops env (C_SessionUpdate row) w =
     (if \<not> ae_rowsUp env then (w, [], Some (Inl DbFailure))
      else if sr_id row \<notin> sr_id ` set (w_rows w) then (w, [], Some (Inl RecordNotFound))
      else (w\<lparr>w_rows := put_row row (w_rows w)\<rparr>, [], Some (Inr V_Unit)))"
| "atm_perform ops env (C_Xfs c) w =
     (let (as, m, outs) = xm_execute (ae_xfs env) c (w_xfs w)
      in (w\<lparr>w_xfs := m, w_bus := w_bus w @ atm_bus_outputs outs\<rparr>, as, None))"
| "atm_perform ops env (C_Authenticate pan) w =
     (w, [], Some (case host_authenticate ops (ae_host env) pan (w_host w) of
                     Inl e \<Rightarrow> Inl e | Inr a \<Rightarrow> Inr (V_Auth a)))"
| "atm_perform ops env (C_VerifyPin pan p) w =
     (let (w', r) = of_host w (host_verifyPin ops (ae_host env) pan p (w_host w)) V_Auth in (w', [], Some r))"
| "atm_perform ops env (C_Authorize p) w =
     (let (w', r) = of_host w (Inr (host_authorizeWithdrawal ops (ae_host env) p (w_host w))) V_Authz
      in (w', [], Some r))"
| "atm_perform ops env (C_Balance pan) w =
     (w, [], Some (case host_getBalance ops pan (w_host w) of Inl e \<Rightarrow> Inl e | Inr b \<Rightarrow> Inr (V_Balance b)))"
| "atm_perform ops env (C_Reverse p) w =
     (let (r, h) = host_reverseTransaction ops (ae_host env) p (w_host w)
      in (w\<lparr>w_host := h\<rparr>, [], Some (case r of Inl e \<Rightarrow> Inl e | Inr _ \<Rightarrow> Inr V_Unit)))"
| "atm_perform ops env (C_RetainHost pan) w =
     (let (r, h) = host_retainCard ops pan (w_host w)
      in (w\<lparr>w_host := h\<rparr>, [], Some (case r of Inl e \<Rightarrow> Inl e | Inr _ \<Rightarrow> Inr V_Unit)))"

section \<open>One handler alone\<close>

text \<open>The handler runs with nothing in between, for at most a number of calls; \<^const>\<open>None\<close> when it is
  not finished: it waits for the PIN pad, or the bound is too small.\<close>

fun atm_drive ::
  "'db bank_ops \<Rightarrow> atm_env \<Rightarrow> nat \<Rightarrow> 'db world \<times> progress \<Rightarrow> 'db world \<times> (atm_error + atm_reply) option" where
  "atm_drive ops env n (w, Return rp) = (w, Some (Inr rp))"
| "atm_drive ops env n (w, Throw e) = (w, Some (Inl e))"
| "atm_drive ops env 0 (w, Await c k) = (w, None)"
| "atm_drive ops env (Suc n) (w, Await c k) =
     (let (w1, as, res) = atm_perform ops env c w
      in case (case c of C_Xfs x \<Rightarrow> map_option (Inr \<circ> V_Xfs) (map_of as x) | _ \<Rightarrow> res) of
           None \<Rightarrow> (w1, None)
         | Some v \<Rightarrow> atm_drive ops env n (atm_resume env v k w1))"

end
