(* ===== verification/Atm_System.thy ===== *)
theory Atm_System
  imports Atm_App
begin

text \<open>
  The ATM with everything that runs at the same time: the handlers of \<^verbatim>\<open>AtmAppService\<close>, each stopped
  at an \<open>await\<close>, the idle timer, the key presses and timers of the devices, and the commands of other
  clients of the XFS manager. JavaScript runs one segment at a time, so a behaviour of the ATM is a
  sequence of the steps below in any order.
\<close>

section \<open>Tasks\<close>

text \<open>A handler whose call is not made yet, that waits for an XFS answer, whose call is answered, or
  that has ended.\<close>

datatype task =
    Calling call frame
  | Waiting XfsCommand frame
  | Ready call_result frame
  | Finished "atm_error + atm_reply"

record 'db atm_system =
  sy_world :: "'db world"
  sy_tasks :: "task list"

fun task_of :: "progress \<Rightarrow> task" where
  "task_of (Await c k) = Calling c k"
| "task_of (Return rp) = Finished (Inr rp)"
| "task_of (Throw e) = Finished (Inl e)"

text \<open>The answers of the manager reach the handlers that wait for them.\<close>

fun deliver1 :: "answer list \<Rightarrow> task \<Rightarrow> task" where
  "deliver1 as (Waiting c k) =
     (case map_of as c of None \<Rightarrow> Waiting c k | Some rsp \<Rightarrow> Ready (Inr (V_Xfs rsp)) k)"
| "deliver1 as t = t"

definition deliver :: "answer list \<Rightarrow> task list \<Rightarrow> task list" where
  "deliver as ts = map (deliver1 as) ts"

text \<open>The task of a call that was made.\<close>

fun called :: "call \<Rightarrow> frame \<Rightarrow> call_result option \<Rightarrow> task" where
  "called c k (Some v) = Ready v k"
| "called (C_Xfs x) k None = Waiting x k"
| "called c k None = Calling c k"

section \<open>Steps\<close>

text \<open>A request arrives or the idle timer fires; the call of a task is made; a task goes on with its
  answer; something reaches the devices past the ATM application; the module is destroyed.\<close>

datatype label =
    L_Input atm_env atm_input
  | L_Perform atm_env nat
  | L_Resume atm_env nat
  | L_Device atm_env xm_op
  | L_Destroy

fun sys_step :: "'db bank_ops \<Rightarrow> label \<Rightarrow> 'db atm_system \<Rightarrow> 'db atm_system" where
  "sys_step ops (L_Input env i) sy =
     (let (w, p) = atm_start env i (sy_world sy)
      in sy\<lparr>sy_world := w, sy_tasks := sy_tasks sy @ [task_of p]\<rparr>)"
| "sys_step ops (L_Perform env j) sy =
     (if length (sy_tasks sy) \<le> j then sy
      else (case sy_tasks sy ! j of
              Calling c k \<Rightarrow>
                (let (w, as, res) = atm_perform ops env c (sy_world sy)
                 in sy\<lparr>sy_world := w, sy_tasks := deliver as ((sy_tasks sy)[j := called c k res])\<rparr>)
            | _ \<Rightarrow> sy))"
| "sys_step ops (L_Resume env j) sy =
     (if length (sy_tasks sy) \<le> j then sy
      else (case sy_tasks sy ! j of
              Ready v k \<Rightarrow>
                (let (w, p) = atm_resume env v k (sy_world sy)
                 in sy\<lparr>sy_world := w, sy_tasks := (sy_tasks sy)[j := task_of p]\<rparr>)
            | _ \<Rightarrow> sy))"
| "sys_step ops (L_Device env op) sy =
     (let w = sy_world sy; (as, m, outs) = xm_step (ae_xfs env) op (w_xfs w)
      in sy\<lparr>sy_world := w\<lparr>w_xfs := m, w_bus := w_bus w @ atm_bus_outputs outs\<rparr>,
            sy_tasks := deliver as (sy_tasks sy)\<rparr>)"
| "sys_step ops L_Destroy sy = sy\<lparr>sy_world := atm_clearIdleTimer (sy_world sy)\<rparr>"

fun sys_run :: "'db bank_ops \<Rightarrow> label list \<Rightarrow> 'db atm_system \<Rightarrow> 'db atm_system" where
  "sys_run ops [] sy = sy"
| "sys_run ops (l # ls) sy = sys_run ops ls (sys_step ops l sy)"

lemma sys_run_append: "sys_run ops (ls @ ms) sy = sys_run ops ms (sys_run ops ls sy)"
  by (induction ls arbitrary: sy) simp_all

text \<open>The states the ATM can be in, from a given one, as a relation.\<close>

inductive atm_reaches :: "'db bank_ops \<Rightarrow> 'db atm_system \<Rightarrow> 'db atm_system \<Rightarrow> bool" for ops sy where
  start: "atm_reaches ops sy sy"
| step: "atm_reaches ops sy sy' \<Longrightarrow> atm_reaches ops sy (sys_step ops l sy')"

lemma reaches_run: "atm_reaches ops sy (sys_run ops ls sy)"
proof (induction ls rule: rev_induct)
  case Nil
  then show ?case by (simp add: atm_reaches.start)
next
  case (snoc l ls)
  then show ?case by (simp add: sys_run_append atm_reaches.step)
qed

text \<open>The application as the module system starts it, on any tables.\<close>

definition sys_boot :: "'db host \<Rightarrow> SessionRow list \<Rightarrow> 'db atm_system" where
  "sys_boot h rows =
     \<lparr>sy_world = \<lparr>w_sessions = [], w_session = None, w_idleTimer = None, w_xfs = xm_boot, w_host = h,
        w_rows = rows, w_bus = []\<rparr>, sy_tasks = []\<rparr>"

end
