(* ===== verification/Atm_Props.thy ===== *)
theory Atm_Props
  imports Atm_App Xfs_Manager_Props Host_Theorems
begin

text \<open>
  One customer handled alone: money is conserved between the account and the dispenser by a
  withdrawal that ends in any way, the card leaves the reader with the session, and a PIN is asked
  for before anything else.
\<close>

section \<open>Frame lemmas\<close>

definition w_ok :: "'db world \<Rightarrow> bool" where
  "w_ok w \<longleftrightarrow> (\<forall>r. w_session w = Some r \<longrightarrow> r < length (w_sessions w))"

lemma atm_upd_simps [simp]:
  "w_session (atm_upd r f w) = w_session w" "w_idleTimer (atm_upd r f w) = w_idleTimer w"
  "w_xfs (atm_upd r f w) = w_xfs w" "w_host (atm_upd r f w) = w_host w"
  "w_rows (atm_upd r f w) = w_rows w" "w_bus (atm_upd r f w) = w_bus w"
  "length (w_sessions (atm_upd r f w)) = length (w_sessions w)"
  by (simp_all add: atm_upd_def)

lemma atm_upd_cur_simps [simp]:
  "w_session (atm_upd_cur f w) = w_session w" "w_idleTimer (atm_upd_cur f w) = w_idleTimer w"
  "w_xfs (atm_upd_cur f w) = w_xfs w" "w_host (atm_upd_cur f w) = w_host w"
  "w_rows (atm_upd_cur f w) = w_rows w" "w_bus (atm_upd_cur f w) = w_bus w"
  "length (w_sessions (atm_upd_cur f w)) = length (w_sessions w)"
  by (simp_all add: atm_upd_cur_def split: option.split)

lemma atm_emit_simps [simp]:
  "w_session (atm_emit ev w) = w_session w" "w_idleTimer (atm_emit ev w) = w_idleTimer w"
  "w_xfs (atm_emit ev w) = w_xfs w" "w_host (atm_emit ev w) = w_host w"
  "w_rows (atm_emit ev w) = w_rows w" "w_bus (atm_emit ev w) = w_bus w @ [ev]"
  "w_sessions (atm_emit ev w) = w_sessions w" "atm_cur (atm_emit ev w) = atm_cur w"
  by (simp_all add: atm_emit_def atm_cur_def)

lemma atm_action_simps [simp]:
  "w_session (atm_emitUserAction env k sid w) = w_session w"
  "w_idleTimer (atm_emitUserAction env k sid w) = w_idleTimer w"
  "w_xfs (atm_emitUserAction env k sid w) = w_xfs w" "w_host (atm_emitUserAction env k sid w) = w_host w"
  "w_rows (atm_emitUserAction env k sid w) = w_rows w"
  "w_sessions (atm_emitUserAction env k sid w) = w_sessions w"
  "atm_cur (atm_emitUserAction env k sid w) = atm_cur w"
  by (simp_all add: atm_emitUserAction_def)

lemma atm_timer_simps [simp]:
  "w_session (atm_armIdleTimer st w) = w_session w" "w_xfs (atm_armIdleTimer st w) = w_xfs w"
  "w_host (atm_armIdleTimer st w) = w_host w" "w_rows (atm_armIdleTimer st w) = w_rows w"
  "w_sessions (atm_armIdleTimer st w) = w_sessions w" "w_bus (atm_armIdleTimer st w) = w_bus w"
  "atm_cur (atm_armIdleTimer st w) = atm_cur w"
  "w_session (atm_clearIdleTimer w) = w_session w" "w_xfs (atm_clearIdleTimer w) = w_xfs w"
  "w_host (atm_clearIdleTimer w) = w_host w" "w_rows (atm_clearIdleTimer w) = w_rows w"
  "w_sessions (atm_clearIdleTimer w) = w_sessions w" "w_bus (atm_clearIdleTimer w) = w_bus w"
  "w_idleTimer (atm_clearIdleTimer w) = None" "atm_cur (atm_clearIdleTimer w) = atm_cur w"
  by (simp_all add: atm_armIdleTimer_def atm_clearIdleTimer_def atm_cur_def)

lemma atm_transition_simps [simp]:
  "w_session (atm_transitionTo env st w) = w_session w" "w_xfs (atm_transitionTo env st w) = w_xfs w"
  "w_host (atm_transitionTo env st w) = w_host w" "w_rows (atm_transitionTo env st w) = w_rows w"
  "length (w_sessions (atm_transitionTo env st w)) = length (w_sessions w)"
  by (simp_all add: atm_transitionTo_def Let_def split: option.split)

lemma atm_notify_simps [simp]:
  "w_session (atm_notifyState st w) = w_session w" "w_xfs (atm_notifyState st w) = w_xfs w"
  "w_host (atm_notifyState st w) = w_host w" "w_rows (atm_notifyState st w) = w_rows w"
  "w_sessions (atm_notifyState st w) = w_sessions w" "atm_cur (atm_notifyState st w) = atm_cur w"
  by (simp_all add: atm_notifyState_def split: option.split)

lemma w_ok_simps [simp]:
  "w_ok (atm_upd r f w) = w_ok w" "w_ok (atm_upd_cur f w) = w_ok w" "w_ok (atm_emit ev w) = w_ok w"
  "w_ok (atm_emitUserAction env k sid w) = w_ok w" "w_ok (atm_transitionTo env st w) = w_ok w"
  "w_ok (atm_notifyState st w) = w_ok w" "w_ok (atm_clearIdleTimer w) = w_ok w"
  by (simp_all add: w_ok_def)

lemma atm_cur_Some: "atm_cur w = Some s \<longleftrightarrow> (\<exists>r. w_session w = Some r \<and> s = w_sessions w ! r)"
  by (auto simp: atm_cur_def)

lemma atm_cur_upd_cur [simp]: "w_ok w \<Longrightarrow> atm_cur (atm_upd_cur f w) = map_option f (atm_cur w)"
  by (auto simp: atm_cur_def atm_upd_cur_def atm_upd_def w_ok_def split: option.split)

lemma atm_cur_transition [simp]:
  "w_ok w \<Longrightarrow> atm_cur (atm_transitionTo env st w)
     = map_option (\<lambda>s. s\<lparr>ss_state := st, ss_updatedAt := ae_now env\<rparr>) (atm_cur w)"
  by (auto simp: atm_transitionTo_def Let_def split: option.split)

section \<open>Commands of a registered device\<close>

definition xm_registered :: "xfs_manager \<Rightarrow> bool" where
  "xm_registered m \<longleftrightarrow> xm_services m = xm_services xm_boot"

lemma xm_registered_lookup:
  assumes "xm_registered m"
  shows "map_of (xm_services m) ''IDC30'' = Some Ref_IDC" "map_of (xm_services m) ''PIN30'' = Some Ref_PIN"
    "map_of (xm_services m) ''CDM30'' = Some Ref_CDM" "map_of (xm_services m) ''PTR30'' = Some Ref_PTR"
  using assms by (simp_all add: xm_registered_def xm_boot_services)

lemma xm_execute_registered [simp]:
  "xm_registered (fst (snd (xm_execute env c m))) = xm_registered m"
  using xm_step_services [of env "XmExecute c" m] by (simp add: xm_registered_def)

lemma xm_execute_device:
  assumes "map_of (xm_services m) (cmd_hService c) = Some ref"
    and "dev_execute env ref (cmd_commandCode c) (cmd_payload c) (xm_devices m) = (oc, dv, outs)"
    and "settled outs = []" "oc \<noteq> Pending"
  shows "fst (xm_execute env c m)
      = [(c, case oc of Done p \<Rightarrow> xfsSuccess c p | Failed e \<Rightarrow> xfsError c ERR_INTERNAL_ERROR e)]
    \<and> xm_devices (fst (snd (xm_execute env c m))) = dv \<and> snd (snd (xm_execute env c m)) = outs"
  using assms
  by (cases oc) (auto simp: xm_execute_def xm_settle_none xm_complete_def Let_def)

lemma dev_execute_other:
  "ref \<noteq> Ref_CDM \<Longrightarrow> dv_cdm (fst (snd (dev_execute env ref c p dv))) = dv_cdm dv"
  "ref \<noteq> Ref_IDC \<Longrightarrow> dv_idc (fst (snd (dev_execute env ref c p dv))) = dv_idc dv"
  "ref \<noteq> Ref_PIN \<Longrightarrow> dv_pin (fst (snd (dev_execute env ref c p dv))) = dv_pin dv"
  by (cases ref; simp add: Let_def split_def)+

lemma xm_execute_devices:
  "map_of (xm_services m) (cmd_hService c) = Some ref \<Longrightarrow>
   xm_devices (fst (snd (xm_execute env c m)))
     = fst (snd (dev_execute env ref (cmd_commandCode c) (cmd_payload c) (xm_devices m)))"
  by (cases "fst (dev_execute env ref (cmd_commandCode c) (cmd_payload c) (xm_devices m))")
    (simp_all add: xm_execute_def xm_complete_def Let_def split_def)

section \<open>The tail of a handler\<close>

text \<open>What a handler still awaits once neither the accounts nor the cash can change: the receipt, the
  ejection of the card and the closing of the session, with a bound on the calls left.\<close>

definition w_money :: "'db world \<Rightarrow> 'db \<times> cdm_dev" where
  "w_money w = (h_db (w_host w), dv_cdm (xm_devices (w_xfs w)))"

fun tail_calls :: "progress \<Rightarrow> nat option" where
  "tail_calls (Return rp) = Some 0"
| "tail_calls (Throw e) = Some 0"
| "tail_calls (Await (C_SessionUpdate row) (K_Ended r reason rp)) = Some 1"
| "tail_calls (Await (C_Xfs c) (K_Ejected reason rp)) = (if cmd_hService c = ''IDC30'' then Some 2 else None)"
| "tail_calls (Await (C_Xfs c) K_Printed) = (if cmd_hService c = ''PTR30'' then Some 3 else None)"
| "tail_calls _ = None"

definition tail_from :: "nat \<Rightarrow> 'db world \<Rightarrow> 'db world \<times> progress \<Rightarrow> bool" where
  "tail_from k w wp \<longleftrightarrow> w_money (fst wp) = w_money w
     \<and> (xm_registered (w_xfs w) \<longrightarrow> xm_registered (w_xfs (fst wp)))
     \<and> (\<exists>j \<le> k. tail_calls (snd wp) = Some j)"

lemma w_money_cong: "w_host w' = w_host w \<Longrightarrow> w_xfs w' = w_xfs w \<Longrightarrow> w_money w' = w_money w"
  by (simp add: w_money_def)

lemma tail_from_cong:
  "tail_from k w' wp \<Longrightarrow> w_host w' = w_host w \<Longrightarrow> w_xfs w' = w_xfs w \<Longrightarrow> tail_from k w wp"
  by (simp add: tail_from_def w_money_def)

lemma tail_endSession: "tail_from 1 w (atm_endSession env reason rp w)"
  by (auto simp: tail_from_def atm_endSession_def w_money_def Let_def split: option.split)

lemma tail_safeEject: "tail_from 2 w (atm_safeEject_end env reason rp w)"
proof (cases "idc_hasCard (dv_idc (xm_devices (w_xfs w)))")
  case True
  then show ?thesis
    by (simp add: atm_safeEject_end_def tail_from_def atm_eject_command_def atm_command_def)
next
  case False
  have "tail_from 2 w (atm_endSession env reason rp w)"
    using tail_endSession [of w env reason rp] unfolding tail_from_def by (meson le_trans one_le_numeral)
  then show ?thesis using False by (simp add: atm_safeEject_end_def)
qed

lemma tail_markError: "tail_from 2 w (atm_markError env msg rp w)"
proof (cases "w_session w")
  case None
  then show ?thesis by (simp add: atm_markError_def tail_from_def)
next
  case (Some r)
  have "tail_from 2 (atm_transitionTo env ATM_ERROR (atm_upd r (\<lambda>s. s\<lparr>ss_errorMessage := Some msg\<rparr>) w))
      (atm_markError env msg rp w)"
    unfolding atm_markError_def Some option.case by (rule tail_safeEject)
  then show ?thesis by (rule tail_from_cong) simp_all
qed

lemma tail_printed: "tail_from 2 w (atm_printed_segment env w)"
  unfolding atm_printed_segment_def by (rule tail_from_cong [OF tail_safeEject]) simp_all

lemma tail_ended: "tail_from 0 w (atm_ended_segment env r reason rp w)"
  by (simp add: atm_ended_segment_def tail_from_def w_money_def Let_def)

lemma xm_execute_quiet:
  assumes "xm_registered m" "cmd_hService c = ''IDC30'' \<or> cmd_hService c = ''PTR30''"
  shows "\<exists>rsp. fst (xm_execute env c m) = [(c, rsp)]"
    "dv_cdm (xm_devices (fst (snd (xm_execute env c m)))) = dv_cdm (xm_devices m)"
proof -
  obtain ref where ref: "map_of (xm_services m) (cmd_hService c) = Some ref" "ref = Ref_IDC \<or> ref = Ref_PTR"
    using assms(2) xm_registered_lookup [OF assms(1)] by metis
  obtain oc dv outs where D: "dev_execute env ref (cmd_commandCode c) (cmd_payload c) (xm_devices m) = (oc, dv, outs)"
    by (metis surj_pair)
  have "settled outs = [] \<and> oc \<noteq> Pending"
    using D ref(2) idc_settles [of "dv_idc (xm_devices m)" "cmd_commandCode c" "cmd_payload c"]
      ptr_settles [of "xe_clock env" "dv_ptr (xm_devices m)" "cmd_commandCode c" "cmd_payload c"]
    by (auto simp: Let_def split: prod.splits)
  with xm_execute_device [OF ref(1) D] show "\<exists>rsp. fst (xm_execute env c m) = [(c, rsp)]" by blast
  show "dv_cdm (xm_devices (fst (snd (xm_execute env c m)))) = dv_cdm (xm_devices m)"
    using xm_execute_devices [OF ref(1)] dev_execute_other(1) [of ref] ref(2) by auto
qed

lemma perform_update:
  "\<exists>w1 v. atm_perform ops env (C_SessionUpdate row) w = (w1, [], Some v)
     \<and> w_money w1 = w_money w \<and> w_xfs w1 = w_xfs w"
  by (simp add: w_money_def)

text \<open>Running the tail to its end.\<close>

lemma drive_tail:
  assumes "xm_registered (w_xfs w)" "tail_calls p = Some j" "j \<le> n"
  shows "w_money (fst (atm_drive ops env n (w, p))) = w_money w
    \<and> snd (atm_drive ops env n (w, p)) \<noteq> None"
  using assms
proof (induction j arbitrary: n w p rule: less_induct)
  case (less j)
  consider (stop) "\<exists>rp. p = Return rp" | (throw) "\<exists>e. p = Throw e"
    | (upd) row r reason rp where "p = Await (C_SessionUpdate row) (K_Ended r reason rp)" "j = 1"
    | (xfs) c k where "p = Await (C_Xfs c) k" "cmd_hService c = ''IDC30'' \<or> cmd_hService c = ''PTR30''"
        "j = 3 \<and> k = K_Printed \<or> j = 2 \<and> (\<exists>reason rp. k = K_Ejected reason rp)"
    using less.prems(2) by (cases p rule: tail_calls.cases) (auto split: if_splits)
  then show ?case
  proof cases
    case stop
    then show ?thesis by auto
  next
    case throw
    then show ?thesis by auto
  next
    case upd
    then obtain m where n: "n = Suc m" using less.prems(3) by (cases n) auto
    obtain w1 v where P: "atm_perform ops env (C_SessionUpdate row) w = (w1, [], Some v)"
      "w_money w1 = w_money w" "w_xfs w1 = w_xfs w"
      using perform_update [of ops env row w] by metis
    show ?thesis
    proof (cases v)
      case (Inl e)
      then show ?thesis using P by (simp add: upd(1) n)
    next
      case (Inr x)
      note T = tail_ended [of w1 env r reason rp]
      show ?thesis
        using P T Inr by (simp add: upd(1) n tail_from_def atm_ended_segment_def Let_def)
    qed
  next
    case xfs
    then obtain m where n: "n = Suc m" using less.prems(3) by (cases n) auto
    obtain rsp where rsp: "fst (xm_execute (ae_xfs env) c (w_xfs w)) = [(c, rsp)]"
      using xm_execute_quiet(1) [OF less.prems(1) xfs(2)] by blast
    define w1 where "w1 = fst (atm_perform ops env (C_Xfs c) w)"
    have w1: "w_money w1 = w_money w" "xm_registered (w_xfs w1)"
      using xm_execute_quiet(2) [OF less.prems(1) xfs(2), of "ae_xfs env"] less.prems(1)
      by (simp_all add: w1_def w_money_def Let_def split_def)
    have go: "atm_drive ops env (Suc m) (w, p) = atm_drive ops env m (atm_resume env (Inr (V_Xfs rsp)) k w1)"
      using rsp by (simp add: xfs(1) n w1_def Let_def split_def)
    obtain i where T: "i < j" "tail_from i w1 (atm_resume env (Inr (V_Xfs rsp)) k w1)"
      using xfs(3)
    proof (elim disjE conjE exE)
      assume "j = 3" "k = K_Printed"
      then show ?thesis using that [of 2] tail_printed [of w1 env] by simp
    next
      fix reason rp assume "j = 2" "k = K_Ejected reason rp"
      then show ?thesis using that [of 1] tail_endSession [of w1 env reason rp] by simp
    qed
    then obtain i' where i': "tail_calls (snd (atm_resume env (Inr (V_Xfs rsp)) k w1)) = Some i'" "i' \<le> i"
      by (auto simp: tail_from_def)
    have "xm_registered (w_xfs (fst (atm_resume env (Inr (V_Xfs rsp)) k w1)))"
      using T(2) w1(2) by (simp add: tail_from_def)
    from less.IH [OF _ this i'(1), of m] T i'(2) less.prems(3) n w1(1) show ?thesis
      by (simp add: go tail_from_def)
  qed
qed

lemma drive_tail_from:
  assumes "tail_from k w wp" "xm_registered (w_xfs w)" "k \<le> n"
  shows "w_money (fst (atm_drive ops env n wp)) = w_money w \<and> snd (atm_drive ops env n wp) \<noteq> None"
proof -
  obtain j where "j \<le> k" "tail_calls (snd wp) = Some j" using assms(1) by (auto simp: tail_from_def)
  then show ?thesis
    using drive_tail [of "fst wp" "snd wp" j n ops env] assms by (simp add: tail_from_def)
qed

section \<open>A confirmed withdrawal\<close>

text \<open>The customer has chosen a withdrawal of \<open>amt\<close> and is asked to confirm it; the account of the
  session is the account of the card, and the devices are registered.\<close>

definition about_to_withdraw :: "bank \<Rightarrow> 'db world \<Rightarrow> AtmSession \<Rightarrow> string \<Rightarrow> AccountRow \<Rightarrow> int \<Rightarrow> bool" where
  "about_to_withdraw b w s pan a amt \<longleftrightarrow>
     w_ok w \<and> atm_cur w = Some s \<and> ss_state s = CONFIRM \<and> ss_selectedTxn s = Some WITHDRAWAL
     \<and> ss_amount s = Some (js_int amt) \<and> 0 < amt \<and> ss_cardPan s = Some pan
     \<and> (\<exists>c. find_card pan b = Some (c, Some a) \<and> ss_accountId s = Some (cd_accountId c) \<and> ac_id a = cd_accountId c)
     \<and> xm_registered (w_xfs w) \<and> cdm_ok (dv_cdm (xm_devices (w_xfs w)))"

text \<open>The accounts and the dispenser after \<open>paid\<close> was handed out.\<close>

definition paid_exactly :: "('db \<Rightarrow> bank) \<Rightarrow> 'db \<times> cdm_dev \<Rightarrow> 'db \<times> cdm_dev \<Rightarrow> string \<Rightarrow> int \<Rightarrow> bool" where
  "paid_exactly view m m' acc paid \<longleftrightarrow>
     map_option ac_balance (bk_accounts (view (fst m')) acc)
       = map_option (\<lambda>a. ac_balance a - paid) (bk_accounts (view (fst m)) acc)
     \<and> (\<forall>i. i \<noteq> acc \<longrightarrow> bk_accounts (view (fst m')) i = bk_accounts (view (fst m)) i)
     \<and> cdm_total_amount (snd m') = cdm_total_amount (snd m) - paid
     \<and> (paid \<noteq> 0 \<longrightarrow> (\<exists>mix. cdm_presented (snd m') = Some (paid, mix) \<and> mix_value mix = paid))"

text \<open>The account lost the amount and the cassettes lost nothing.\<close>

definition debited_only :: "('db \<Rightarrow> bank) \<Rightarrow> 'db \<times> cdm_dev \<Rightarrow> 'db \<times> cdm_dev \<Rightarrow> string \<Rightarrow> int \<Rightarrow> bool" where
  "debited_only view m m' acc amt \<longleftrightarrow>
     map_option ac_balance (bk_accounts (view (fst m')) acc)
       = map_option (\<lambda>a. ac_balance a - amt) (bk_accounts (view (fst m)) acc)
     \<and> (\<forall>i. i \<noteq> acc \<longrightarrow> bk_accounts (view (fst m')) i = bk_accounts (view (fst m)) i)
     \<and> cdm_total_amount (snd m') = cdm_total_amount (snd m)"

text \<open>A reversal of the amount that the host could not carry out.\<close>

definition reversal_failed :: "'db bank_ops \<Rightarrow> atm_env \<Rightarrow> string \<Rightarrow> int \<Rightarrow> db_error \<Rightarrow> 'db host \<Rightarrow> bool" where
  "reversal_failed ops env acc amt e h \<longleftrightarrow>
     (\<exists>rv. rv_accountId rv = acc \<and> rv_amount rv = js_int amt
        \<and> host_reverseTransaction ops (ae_host env) rv h = (Inl e, h))"

lemma confirm_start:
  assumes "about_to_withdraw b w s pan a amt"
  obtains w1 where
    "atm_start env In_Confirm w = (w1, Await (C_Authorize \<lparr>wd_pan = pan, wd_amount = js_int amt,
       wd_sessionId = ss_id s, wd_switch = None\<rparr>) K_Authorized)"
    "w_ok w1" "atm_cur w1 = Some (s\<lparr>ss_state := PROCESSING, ss_updatedAt := ae_now env\<rparr>)"
    "w_host w1 = w_host w" "w_xfs w1 = w_xfs w"
proof -
  let ?w1 = "atm_transitionTo env PROCESSING (atm_emitUserAction env UA_CONFIRM (Some (ss_id s)) w)"
  have "js_int amt \<noteq> js_int 0" "js_int amt \<noteq> JNaN"
    using assms by (auto simp: about_to_withdraw_def js_int_def)
  then have "atm_start env In_Confirm w = (?w1, Await (C_Authorize \<lparr>wd_pan = pan, wd_amount = js_int amt,
       wd_sessionId = ss_id s, wd_switch = None\<rparr>) K_Authorized)"
    using assms by (simp add: about_to_withdraw_def atm_confirmTransaction_def atm_processWithdrawal_def Let_def)
  then show ?thesis using that [of ?w1] assms by (simp add: about_to_withdraw_def)
qed

lemma authorized_start:
  assumes "az_approved az" "w_ok w" "atm_cur w = Some s"
  obtains w1 where
    "atm_authorized_segment env az w = (w1, Await (C_Xfs (atm_command env ''CDM30'' CDM (cdm_cmd_code CDM_DISPENSE)
       30000 (dispense_payload (js_default (ss_amount s) JNaN)) (Some (ss_id s)))) (K_Dispensed az))"
    "w_ok w1" "atm_cur w1 = Some (s\<lparr>ss_stanNo := Some (az_stanNo az), ss_authCode := az_authCode az,
       ss_state := DISPENSING, ss_updatedAt := ae_now env\<rparr>)"
    "w_host w1 = w_host w" "w_xfs w1 = w_xfs w"
proof -
  have "w_session w \<noteq> None" using assms(3) by (auto simp: atm_cur_def)
  then show ?thesis using that assms by (simp add: atm_authorized_segment_def Let_def)
qed

lemma dispensed_ok:
  assumes "rsp_result rsp = xfs_result_code SUCCESS" "w_ok w" "atm_cur w = Some s"
    and "ss_cardPan s = Some pan" "ss_amount s = Some amt"
  shows "tail_from 3 w (atm_dispensed_segment env az rsp w)"
  using assms by (simp add: atm_dispensed_segment_def Let_def tail_from_def w_money_def
    atm_print_command_def atm_command_def)

lemma dispensed_failed:
  assumes "rsp_result rsp \<noteq> xfs_result_code SUCCESS" "atm_cur w = Some s"
    and "ss_cardPan s = Some pan" "ss_amount s = Some amt" "ss_accountId s = Some acc"
  obtains reason where
    "atm_dispensed_segment env az rsp w = (w, Await (C_Reverse \<lparr>rv_stanNo = az_stanNo az,
       rv_sessionId = ss_id s, rv_pan = pan, rv_accountId = acc, rv_amount = amt,
       rv_reason = reason\<rparr>) (K_Reversed rsp))"
  using assms that by (simp add: atm_dispensed_segment_def)

context bank_db
begin

lemma reverse_either:
  assumes "rv_amount p = js_int amt" "bk_accounts (view (h_db h)) (rv_accountId p) = Some a"
  obtains (reversed) h' where "host_reverseTransaction ops env p h = (Inr (), h')"
      "view (h_db h') = bank_reverse env p a amt (view (h_db h))"
  | (failed) e where "host_reverseTransaction ops env p h = (Inl e, h)"
proof (cases "reverse_tx ops env p (h_db h)")
  case (Inl e)
  then show ?thesis using failed by (simp add: host_reverseTransaction_def)
next
  case (Inr db')
  then show ?thesis
    using reversed [of "h\<lparr>h_db := db'\<rparr>"] reverse_tx_cases [OF Inr] assms by (auto simp: host_reverseTransaction_def)
qed

end

context bank_db_up
begin

lemma reverse_up:
  assumes "bk_accounts (view (h_db h)) (rv_accountId p) = Some a" "rv_amount p = js_int amt"
  shows "\<exists>h'. host_reverseTransaction ops env p h = (Inr (), h')"
proof -
  obtain db1 where 1: "db_advisoryLock ops (accountLockKey env (rv_accountId p)) (h_db h) = Inr db1"
    using advisoryLock_up by blast
  obtain u db2 where 2: "db_moveBalance ops (rv_accountId p) amt (- amt) db1 = Inr (u, db2)"
    using moveBalance_up [of db1 "rv_accountId p" a amt "- amt"] assms(1) advisoryLock [OF 1] by auto
  obtain db3 where 3: "db_markReversed ops (rv_stanNo p) (rv_reason p) db2 = Inr db3"
    using markReversed_up by blast
  obtain db4 where 4: "db_createTransaction ops (reversal_row env p amt) db3 = Inr db4"
    using createTransaction_up by blast
  show ?thesis
    using 1 2 3 4 assms(2) by (simp add: host_reverseTransaction_def reverse_tx_def reversal_row_def js_BigInt_def)
qed

end

lemma perform_dispense:
  assumes "xm_registered (w_xfs w)" "cdm_ok (dv_cdm (xm_devices (w_xfs w)))"
    and "c = atm_command env ''CDM30'' CDM (cdm_cmd_code CDM_DISPENSE) t (dispense_payload (js_int amt)) sid"
  obtains w1 as rsp where
    "atm_perform ops env (C_Xfs c) w = (w1, as, None)" "map_of as c = Some rsp"
    "w_ok w1 = w_ok w" "atm_cur w1 = atm_cur w" "w_host w1 = w_host w" "xm_registered (w_xfs w1)"
    "rsp_result rsp = xfs_result_code SUCCESS
       \<and> cdm_total_amount (dv_cdm (xm_devices (w_xfs w1))) = cdm_total_amount (dv_cdm (xm_devices (w_xfs w))) - amt
       \<and> (\<exists>mix. cdm_presented (dv_cdm (xm_devices (w_xfs w1))) = Some (amt, mix) \<and> mix_value mix = amt)
     \<or> rsp_result rsp \<noteq> xfs_result_code SUCCESS
       \<and> cdm_total_amount (dv_cdm (xm_devices (w_xfs w1))) = cdm_total_amount (dv_cdm (xm_devices (w_xfs w)))"
proof -
  let ?m = "w_xfs w" and ?d = "dv_cdm (xm_devices (w_xfs w))"
  have h: "cmd_hService c = ''CDM30''" "cmd_commandCode c = cdm_cmd_code CDM_DISPENSE"
    "cmd_payload c = dispense_payload (js_int amt)"
    using assms(3) by (simp_all add: atm_command_def)
  obtain oc d' evs where D: "cdm_executeCommand ?d (cdm_cmd_code CDM_DISPENSE) (cmd_payload c) = (oc, d', evs)"
    by (metis surj_pair)
  have "settled evs = []" "oc \<noteq> Pending"
    using cdm_settles [of ?d "cdm_cmd_code CDM_DISPENSE" "cmd_payload c"] D by simp_all
  moreover have "dev_execute (ae_xfs env) Ref_CDM (cmd_commandCode c) (cmd_payload c) (xm_devices ?m)
      = (oc, (xm_devices ?m)\<lparr>dv_cdm := d'\<rparr>, evs)"
    using D h(2) by simp
  moreover note L = xm_registered_lookup(3) [OF assms(1), folded h(1)]
  ultimately have X: "fst (xm_execute (ae_xfs env) c ?m)
      = [(c, case oc of Done p \<Rightarrow> xfsSuccess c p | Failed e \<Rightarrow> xfsError c ERR_INTERNAL_ERROR e)]"
    "dv_cdm (xm_devices (fst (snd (xm_execute (ae_xfs env) c ?m)))) = d'"
    using xm_execute_device [of ?m c Ref_CDM "ae_xfs env" oc _ evs] by auto
  let ?w1 = "w\<lparr>w_xfs := fst (snd (xm_execute (ae_xfs env) c ?m)),
     w_bus := w_bus w @ atm_bus_outputs (snd (snd (xm_execute (ae_xfs env) c ?m)))\<rparr>"
  let ?rsp = "case oc of Done p \<Rightarrow> xfsSuccess c p | Failed e \<Rightarrow> xfsError c ERR_INTERNAL_ERROR e"
  have P: "atm_perform ops env (C_Xfs c) w = (?w1, [(c, ?rsp)], None)"
    using X(1) by (simp add: Let_def split_beta)
  have "rsp_result ?rsp = xfs_result_code SUCCESS \<and> cdm_total_amount d' = cdm_total_amount ?d - amt
        \<and> (\<exists>mix. cdm_presented d' = Some (amt, mix) \<and> mix_value mix = amt)
      \<or> rsp_result ?rsp \<noteq> xfs_result_code SUCCESS \<and> cdm_total_amount d' = cdm_total_amount ?d"
  proof (cases oc)
    case (Done p)
    have "js_to_int (dp_amount (pl_dispense (cmd_payload c))) = Some amt"
      using h(3) by (simp add: dispense_payload_def)
    then show ?thesis using cdm_exec_dispense [OF assms(2), of "cmd_payload c" p d' evs] D Done
      by (auto simp: xfsSuccess_def)
  next
    case (Failed e)
    then have "d' = vd_clearError ?d" using D cdm_exec_failed [of ?d "cdm_cmd_code CDM_DISPENSE"] by blast
    then show ?thesis using Failed
      by (simp add: xfsError_def cdm_total_amount_sum cdm_getUnits_def vd_clearError_def)
  next
    case Pending
    then show ?thesis using \<open>oc \<noteq> Pending\<close> by simp
  qed
  then show ?thesis
    using that [OF P, of ?rsp] X(2) assms(1) by (simp add: w_ok_def atm_cur_def)
qed

lemma paid_nothing:
  "view (fst m') = view (fst m) \<Longrightarrow> cdm_total_amount (snd m') = cdm_total_amount (snd m) \<Longrightarrow>
   paid_exactly view m m' acc 0"
  by (simp add: paid_exactly_def option.map_ident)

text \<open>The handler from the answer of the dispenser on, after the account was debited.\<close>

lemma drive_dispensed:
  assumes "bank_db ops view" "5 \<le> n" "w_ok w" "atm_cur w = Some s" "xm_registered (w_xfs w)"
    and "ss_cardPan s = Some pan" "ss_amount s = Some (js_int amt)" "ss_accountId s = Some acc"
    and "b = bank_withdraw henv p stan acc a amt b0" "bk_accounts b0 acc = Some a" "ac_id a = acc"
    and "view (h_db (w_host w)) = b"
  shows "let fin = atm_drive ops env n (atm_dispensed_segment env az rsp w) in snd fin \<noteq> None \<and>
    (if rsp_result rsp = xfs_result_code SUCCESS then w_money (fst fin) = w_money w
     else dv_cdm (xm_devices (w_xfs (fst fin))) = dv_cdm (xm_devices (w_xfs w))
       \<and> (bk_accounts (view (h_db (w_host (fst fin)))) = bk_accounts b0
          \<or> (\<exists>e. snd fin = Some (Inl (Rejected e)) \<and> reversal_failed ops env acc amt e (w_host (fst fin))
               \<and> view (h_db (w_host (fst fin))) = b)))"
proof (cases "rsp_result rsp = xfs_result_code SUCCESS")
  case True
  show ?thesis
    using drive_tail_from [OF dispensed_ok [OF True assms(3,4,6,7)] assms(5), of n ops] assms(2) True
    by (simp add: Let_def)
next
  case False
  obtain reason where seg: "atm_dispensed_segment env az rsp w = (w, Await (C_Reverse
      \<lparr>rv_stanNo = az_stanNo az, rv_sessionId = ss_id s, rv_pan = pan, rv_accountId = acc,
       rv_amount = js_int amt, rv_reason = reason\<rparr>) (K_Reversed rsp))"
    using dispensed_failed [OF False assms(4,6,7,8)] by blast
  let ?rv = "\<lparr>rv_stanNo = az_stanNo az, rv_sessionId = ss_id s, rv_pan = pan, rv_accountId = acc,
       rv_amount = js_int amt, rv_reason = reason\<rparr>"
  have a: "bk_accounts (view (h_db (w_host w))) (rv_accountId ?rv) = Some (debited amt a)"
    using assms(9,11,12) by (simp add: bank_withdraw_def put_account_def debited_def)
  have amt: "rv_amount ?rv = js_int amt" by simp
  obtain m where n: "n = Suc m" "2 \<le> m" using assms(2) by (cases n) auto
  show ?thesis
  proof (cases rule: bank_db.reverse_either [OF assms(1) amt a, of "ae_host env", case_names reversed failed])
    case (reversed h')
    let ?w1 = "w\<lparr>w_host := h'\<rparr>"
    have "tail_from 2 ?w1 (atm_reversed_segment env rsp ?w1)"
      unfolding atm_reversed_segment_def by (rule tail_markError)
    from drive_tail_from [OF this _ n(2), of ops env] assms(5)
    have T: "w_money (fst (atm_drive ops env m (atm_reversed_segment env rsp ?w1))) = w_money ?w1"
      "snd (atm_drive ops env m (atm_reversed_segment env rsp ?w1)) \<noteq> None" by simp_all
    have go: "atm_drive ops env n (atm_dispensed_segment env az rsp w)
        = atm_drive ops env m (atm_reversed_segment env rsp ?w1)"
      using reversed(1) by (simp add: seg n(1))
    have "bk_accounts (view (h_db h')) = bk_accounts b0"
      using reversed(2) assms(9-12) by (auto simp: bank_reverse_def bank_withdraw_def put_account_def debited_def)
    then show ?thesis using T False by (simp add: go Let_def w_money_def)
  next
    case (failed e)
    have "atm_drive ops env n (atm_dispensed_segment env az rsp w) = (w, Some (Inl (Rejected e)))"
      using failed by (simp add: seg n(1))
    moreover have "reversal_failed ops env acc amt e (w_host w)"
      using failed unfolding reversal_failed_def by (intro exI [of _ ?rv] exI [of _ "w_host w"]) simp
    ultimately show ?thesis using False assms(12) by (simp add: Let_def)
  qed
qed

text \<open>Up to the answer of the host.\<close>

lemma drive_confirm:
  assumes "about_to_withdraw b w s pan a amt"
    and "host_authorizeWithdrawal ops (ae_host env) \<lparr>wd_pan = pan, wd_amount = js_int amt,
      wd_sessionId = ss_id s, wd_switch = None\<rparr> (w_host w) = (az, h')"
  obtains w2 where
    "\<And>m. atm_drive ops env (Suc m) (atm_start env In_Confirm w)
       = atm_drive ops env m (atm_authorized_segment env az w2)"
    "w_ok w2" "atm_cur w2 = Some (s\<lparr>ss_state := PROCESSING, ss_updatedAt := ae_now env\<rparr>)"
    "w_host w2 = h'" "w_xfs w2 = w_xfs w"
proof -
  obtain w1 where w1: "atm_start env In_Confirm w = (w1, Await (C_Authorize \<lparr>wd_pan = pan,
        wd_amount = js_int amt, wd_sessionId = ss_id s, wd_switch = None\<rparr>) K_Authorized)" "w_ok w1"
      "atm_cur w1 = Some (s\<lparr>ss_state := PROCESSING, ss_updatedAt := ae_now env\<rparr>)"
      "w_host w1 = w_host w" "w_xfs w1 = w_xfs w"
    using confirm_start [OF assms(1)] by blast
  show ?thesis
  proof (rule that [of "w1\<lparr>w_host := h'\<rparr>"])
    show "atm_drive ops env (Suc m) (atm_start env In_Confirm w)
        = atm_drive ops env m (atm_authorized_segment env az (w1\<lparr>w_host := h'\<rparr>))" for m
      using assms(2) unfolding w1(1) by (simp add: w1(4) of_host_def)
  qed (use w1 in \<open>simp_all add: w_ok_def atm_cur_def\<close>)
qed

text \<open>The dispensing, after an approval.\<close>

lemma drive_approved:
  assumes "bank_db ops view" "6 \<le> m" "az_approved az" "w_ok w" "atm_cur w = Some s"
    and "ss_amount s = Some (js_int amt)" "ss_cardPan s = Some pan" "ss_accountId s = Some (ac_id a)"
    and "xm_registered (w_xfs w)" "cdm_ok (dv_cdm (xm_devices (w_xfs w)))"
    and "view (h_db (w_host w)) = bank_withdraw henv p stan (ac_id a) a amt (view db0)"
    and "bk_accounts (view db0) (ac_id a) = Some a"
  shows "let fin = atm_drive ops env m (atm_authorized_segment env az w); before = (db0, dv_cdm (xm_devices (w_xfs w)))
    in snd fin \<noteq> None \<and> ((\<exists>paid \<in> {0, amt}. paid_exactly view before (w_money (fst fin)) (ac_id a) paid)
       \<or> (\<exists>e. snd fin = Some (Inl (Rejected e)) \<and> reversal_failed ops env (ac_id a) amt e (w_host (fst fin))
            \<and> debited_only view before (w_money (fst fin)) (ac_id a) amt))"
proof -
  let ?c = "atm_command env ''CDM30'' CDM (cdm_cmd_code CDM_DISPENSE) 30000 (dispense_payload (js_int amt))
    (Some (ss_id s))"
  let ?s = "s\<lparr>ss_stanNo := Some (az_stanNo az), ss_authCode := az_authCode az, ss_state := DISPENSING,
    ss_updatedAt := ae_now env\<rparr>" and ?cdm = "\<lambda>w. dv_cdm (xm_devices (w_xfs w))"
  obtain w3 where w3: "atm_authorized_segment env az w = (w3, Await (C_Xfs ?c) (K_Dispensed az))"
      "w_ok w3" "atm_cur w3 = Some ?s"
      "w_host w3 = w_host w" "w_xfs w3 = w_xfs w"
    using authorized_start [OF assms(3-5), of env] assms(6) by auto
  have R3: "xm_registered (w_xfs w3)" "cdm_ok (?cdm w3)" using w3(5) assms(9,10) by simp_all
  obtain w4 as rsp where w4: "atm_perform ops env (C_Xfs ?c) w3 = (w4, as, None)" "map_of as ?c = Some rsp"
      "w_ok w4 = w_ok w3" "atm_cur w4 = atm_cur w3" "w_host w4 = w_host w3" "xm_registered (w_xfs w4)"
      "rsp_result rsp = xfs_result_code SUCCESS \<and> cdm_total_amount (?cdm w4) = cdm_total_amount (?cdm w3) - amt
        \<and> (\<exists>mix. cdm_presented (?cdm w4) = Some (amt, mix) \<and> mix_value mix = amt)
      \<or> rsp_result rsp \<noteq> xfs_result_code SUCCESS \<and> cdm_total_amount (?cdm w4) = cdm_total_amount (?cdm w3)"
    using perform_dispense [OF R3 refl] by blast
  obtain k where k: "m = Suc k" "5 \<le> k" using assms(2) by (cases m) auto
  have go: "atm_drive ops env m (atm_authorized_segment env az w)
      = atm_drive ops env k (atm_dispensed_segment env az rsp w4)"
    using w4(1,2) by (simp add: w3(1) k(1) del: atm_perform.simps)
  have D: "let fin = atm_drive ops env k (atm_dispensed_segment env az rsp w4) in snd fin \<noteq> None \<and>
    (if rsp_result rsp = xfs_result_code SUCCESS then w_money (fst fin) = w_money w4
     else ?cdm (fst fin) = ?cdm w4 \<and> (bk_accounts (view (h_db (w_host (fst fin)))) = bk_accounts (view db0)
       \<or> (\<exists>e. snd fin = Some (Inl (Rejected e)) \<and> reversal_failed ops env (ac_id a) amt e (w_host (fst fin))
            \<and> view (h_db (w_host (fst fin))) = bank_withdraw henv p stan (ac_id a) a amt (view db0))))"
    by (rule drive_dispensed [where s = ?s, OF assms(1) k(2) _ _ w4(6) _ _ _ refl assms(12) refl])
      (use w3 w4(3-5) assms(6-8,11) in simp_all)
  show ?thesis
  proof (cases "rsp_result rsp = xfs_result_code SUCCESS")
    case True
    then have "paid_exactly view (db0, ?cdm w) (w_money w4) (ac_id a) amt"
      using w4(5,7) w3(4,5) assms(11,12)
      by (auto simp: paid_exactly_def w_money_def bank_withdraw_def put_account_def debited_def)
    then show ?thesis using D True by (simp add: go Let_def)
  next
    case False
    let ?fin = "atm_drive ops env k (atm_dispensed_segment env az rsp w4)"
    have F: "snd ?fin \<noteq> None" "cdm_total_amount (?cdm (fst ?fin)) = cdm_total_amount (?cdm w)"
      using D False w4(7) w3(5) by (simp_all add: Let_def)
    consider (kept) "bk_accounts (view (h_db (w_host (fst ?fin)))) = bk_accounts (view db0)"
      | (lost) e where "snd ?fin = Some (Inl (Rejected e))" "reversal_failed ops env (ac_id a) amt e (w_host (fst ?fin))"
          "view (h_db (w_host (fst ?fin))) = bank_withdraw henv p stan (ac_id a) a amt (view db0)"
      using D False by (auto simp: Let_def)
    then show ?thesis
    proof cases
      case kept
      then have "paid_exactly view (db0, ?cdm w) (w_money (fst ?fin)) (ac_id a) 0"
        using F by (simp add: paid_exactly_def w_money_def option.map_ident)
      then show ?thesis using F by (simp add: go Let_def)
    next
      case lost
      have "debited_only view (db0, ?cdm w) (w_money (fst ?fin)) (ac_id a) amt"
        using F lost(3) assms(12)
        by (simp add: debited_only_def w_money_def bank_withdraw_def put_account_def debited_def)
      then show ?thesis using F lost by (simp add: go Let_def)
    qed
  qed
qed

text \<open>C1: a confirmed withdrawal that no other handler interrupts runs to its end, whatever the database,
  the dispenser, the printer, the card reader and the session table do, and money is conserved: either
  the account and the cassettes both lose exactly the amount, which is then presented to the
  customer, or neither loses anything; no other account moves. The one exception is a dispense that
  fails and a reversal that fails as well: then the handler throws what the reversal threw, and the
  account stays debited. The answers the database gives are assumed to be true, not to come.\<close>

theorem atm_withdrawal_conserves:
  fixes env :: atm_env
  assumes "bank_db ops view" "about_to_withdraw (view (h_db (w_host w))) w s pan a amt" "7 \<le> n"
  defines "fin \<equiv> atm_drive ops env n (atm_start env In_Confirm w)"
  shows "snd fin \<noteq> None
    \<and> ((\<exists>paid \<in> {0, amt}. paid_exactly view (w_money w) (w_money (fst fin)) (ac_id a) paid)
       \<or> (\<exists>e. snd fin = Some (Inl (Rejected e)) \<and> reversal_failed ops env (ac_id a) amt e (w_host (fst fin))
            \<and> debited_only view (w_money w) (w_money (fst fin)) (ac_id a) amt))"
proof -
  let ?b = "view (h_db (w_host w))"
  let ?p = "\<lparr>wd_pan = pan, wd_amount = js_int amt, wd_sessionId = ss_id s, wd_switch = None\<rparr>"
  have H: "ss_amount s = Some (js_int amt)" "ss_cardPan s = Some pan" "ss_accountId s = Some (ac_id a)"
    "xm_registered (w_xfs w)" "cdm_ok (dv_cdm (xm_devices (w_xfs w)))"
    and acc: "\<exists>c. find_card pan ?b = Some (c, Some a) \<and> cd_accountId c = ac_id a"
    using assms(2) by (auto simp: about_to_withdraw_def)
  obtain az h' where A: "host_authorizeWithdrawal ops (ae_host env) ?p (w_host w) = (az, h')" by fastforce
  note C = bank_db.authorize_cases [OF assms(1) A]
  obtain m where n: "n = Suc m" "6 \<le> m" using assms(3) by (cases n) auto
  obtain w2 where go: "fin = atm_drive ops env m (atm_authorized_segment env az w2)"
    and w2: "w_ok w2" "atm_cur w2 = Some (s\<lparr>ss_state := PROCESSING, ss_updatedAt := ae_now env\<rparr>)"
      "w_host w2 = h'" "w_xfs w2 = w_xfs w"
    using drive_confirm [OF assms(2) A] n(1) unfolding fin_def by metis
  show ?thesis
  proof (cases "az_approved az")
    case False
    then have "tail_from 2 w2 (atm_authorized_segment env az w2)"
      by (simp add: atm_authorized_segment_def tail_markError)
    note T = drive_tail_from [OF this, of m ops env]
    have "paid_exactly view (w_money w) (w_money w2) (ac_id a) 0"
      using C False w2(3,4) by (intro paid_nothing) (simp_all add: w_money_def)
    then show ?thesis using T w2(4) H(4) n(2) unfolding go by simp
  next
    case True
    then have v: "view (h_db (w_host w2)) = bank_withdraw (ae_host env) ?p (az_stanNo az) (ac_id a) a amt ?b"
      and acct: "bk_accounts ?b (ac_id a) = Some a"
      using C acc w2(3) by (auto simp: withdraw_allowed_def find_card_def js_int_def)
    show ?thesis
      using drive_approved [OF assms(1) n(2) True w2(1,2) _ _ _ _ _ v acct] H w2(4)
      unfolding go by (simp add: w_money_def Let_def)
  qed
qed

section \<open>Witness\<close>

definition as_env :: atm_env where
  "as_env = \<lparr>ae_xfs = xe_sample, ae_host = hs_env,
     ae_rowsUp = True, ae_now = 1000, ae_requestId = ''R1'', ae_sessionId = ''S1'',
     ae_bankName = ''Bank Zegen'', ae_atmId = ''ZGN-001'', ae_numText = (\<lambda>_. [])\<rparr>"

definition as_session :: "AtmState \<Rightarrow> AtmSession" where
  "as_session st =
     \<lparr>ss_id = ''S1'', ss_state = st, ss_cardPan = Some ''4097111122223333'', ss_accountId = Some ''A1'',
      ss_selectedTxn = Some WITHDRAWAL, ss_amount = Some (js_int 100000), ss_stanNo = None,
      ss_authCode = None, ss_errorMessage = None, ss_failedPinAttempts = 0, ss_startedAt = 0,
      ss_updatedAt = 0, ss_endedAt = None, ss_endReason = None\<rparr>"

definition as_world :: "AtmState \<Rightarrow> bank world" where
  "as_world st =
     \<lparr>w_sessions = [as_session st], w_session = Some 0, w_idleTimer = None, w_xfs = xm_boot,
      w_host = hs_host, w_rows = [session_row (as_session CARD_INSERTED)], w_bus = []\<rparr>"

lemma as_world_simps [simp]:
  "w_session (as_world st) = Some 0" "w_sessions (as_world st) = [as_session st]"
  "w_xfs (as_world st) = xm_boot" "w_host (as_world st) = hs_host" "atm_cur (as_world st) = Some (as_session st)"
  "w_ok (as_world st)" "w_idleTimer (as_world st) = None" "w_bus (as_world st) = []"
  by (simp_all add: as_world_def atm_cur_def w_ok_def)

lemma as_boot_devices: "dv_cdm (xm_devices xm_boot) = cdm_init" "dv_idc (xm_devices xm_boot) = idc_init"
  by (simp_all add: xm_boot_def xm_onModuleInit_def xm_registerService_def xm_new_def devices_init_def)

lemma as_ready: "about_to_withdraw hs_bank (as_world CONFIRM) (as_session CONFIRM) ''4097111122223333'' hs_account 100000"
  using cdm_ok_init
  by (simp add: about_to_withdraw_def xm_registered_def as_boot_devices hs_find)
    (simp add: as_session_def hs_account_def)

lemma atm_withdrawal_conserves_witness:
  "\<exists>paid \<in> {0, 100000}. paid_exactly (\<lambda>b. b) (w_money (as_world CONFIRM))
      (w_money (fst (atm_drive mem_ops as_env 7 (atm_start as_env In_Confirm (as_world CONFIRM))))) ''A1'' paid"
proof -
  let ?fin = "atm_drive mem_ops as_env 7 (atm_start as_env In_Confirm (as_world CONFIRM))"
  have "about_to_withdraw (h_db (w_host (as_world CONFIRM))) (as_world CONFIRM) (as_session CONFIRM)
      ''4097111122223333'' hs_account 100000"
    using as_ready by (simp add: hs_host_def)
  note W = atm_withdrawal_conserves [OF mem_bank_db this order_refl, of as_env]
  have "\<not> (reversal_failed mem_ops as_env ''A1'' 100000 e (w_host (fst ?fin))
      \<and> debited_only (\<lambda>b. b) (w_money (as_world CONFIRM)) (w_money (fst ?fin)) ''A1'' 100000)" for e
  proof
    assume F: "reversal_failed mem_ops as_env ''A1'' 100000 e (w_host (fst ?fin))
      \<and> debited_only (\<lambda>b. b) (w_money (as_world CONFIRM)) (w_money (fst ?fin)) ''A1'' 100000"
    have "bk_accounts (h_db hs_host) ''A1'' \<noteq> None" by (simp add: hs_host_def hs_bank_def)
    then obtain a where a: "bk_accounts (h_db (w_host (fst ?fin))) ''A1'' = Some a"
      using F by (auto simp: debited_only_def w_money_def)
    obtain rv where rv: "rv_accountId rv = ''A1''" "rv_amount rv = js_int 100000"
      "host_reverseTransaction mem_ops (ae_host as_env) rv (w_host (fst ?fin)) = (Inl e, w_host (fst ?fin))"
      using F by (auto simp: reversal_failed_def)
    have "bk_accounts (h_db (w_host (fst ?fin))) (rv_accountId rv) = Some a" using a rv(1) by simp
    from bank_db_up.reverse_up [OF mem_bank_db_up this rv(2), of "ae_host as_env"] show False
      using rv(3) by (metis Pair_inject Inl_Inr_False)
  qed
  moreover have "ac_id hs_account = ''A1''" by (simp add: hs_account_def)
  ultimately show ?thesis using W by metis
qed

end
