(* ===== verification/Atm_Invariants.thy ===== *)
theory Atm_Invariants
  imports Atm_System Atm_Props
begin

text \<open>
  Invariants of the ATM over every interleaving. The locale \<open>atm_invariant\<close> says what a predicate on
  the world, and one on the calls a handler may make, have to satisfy at the few places where a
  segment writes the state; its lemmas give that every segment, hence every step, keeps them.
\<close>

section \<open>The contract of an invariant\<close>

definition keeps_core :: "(AtmSession \<Rightarrow> AtmSession) \<Rightarrow> bool" where
  "keeps_core f \<longleftrightarrow> (\<forall>s. ss_id (f s) = ss_id s \<and> ss_state (f s) = ss_state s \<and> ss_amount (f s) = ss_amount s)"

text \<open>An amount the ATM accepts.\<close>

definition amount_ok :: "jsnum \<Rightarrow> bool" where
  "amount_ok n \<longleftrightarrow> (\<exists>i. js_to_int n = Some i \<and> 0 < i \<and> i mod 20000 = 0)"

fun plain_call :: "call \<Rightarrow> frame \<Rightarrow> bool" where
  "plain_call (C_SessionCreate row) k = False"
| "plain_call (C_SessionUpdate row) k = False"
| "plain_call (C_Authorize p) k = False"
| "plain_call c (K_Dispensed az) = False"
| "plain_call c (K_Ended r reason rp) = False"
| "plain_call c k = True"

locale atm_invariant =
  fixes ops :: "'db bank_ops" and I :: "'db world \<Rightarrow> bool" and A :: "call \<Rightarrow> frame \<Rightarrow> bool"
    and B :: "call_result \<Rightarrow> frame \<Rightarrow> bool"
  assumes bus: "I w \<Longrightarrow> I (w\<lparr>w_bus := evs\<rparr>)"
    and devices: "I w \<Longrightarrow> I (w\<lparr>w_xfs := m\<rparr>)"
    and field: "I w \<Longrightarrow> keeps_core f \<Longrightarrow> I (atm_upd r f w)"
    and amount: "I w \<Longrightarrow> amount_ok n \<Longrightarrow> I (atm_upd_cur (\<lambda>s. s\<lparr>ss_amount := Some n\<rparr>) w)"
    and transition: "I w \<Longrightarrow> I (atm_transitionTo env st w)"
    and notify: "I w \<Longrightarrow> I (atm_notifyState st w)"
    and clear: "I w \<Longrightarrow> I (atm_clearIdleTimer w)"
    and insert: "I w \<Longrightarrow> w_session w = None \<Longrightarrow>
      I (w\<lparr>w_sessions := w_sessions w @ [atm_new_session env pan], w_session := Some (length (w_sessions w))\<rparr>)"
    and ended: "I w \<Longrightarrow> B (Inr v) (K_Ended r reason rp) \<Longrightarrow> I ((atm_transitionTo env ENDED w)\<lparr>w_session := None\<rparr>)"
    and A_create: "I w \<Longrightarrow> w_session w = None \<Longrightarrow> A (C_SessionCreate row) (K_InsertedCreated r pan crd)"
    and A_update: "I w \<Longrightarrow> w_session w = Some r \<Longrightarrow>
      A (C_SessionUpdate (session_row (w_sessions w ! r))) (K_Ended r reason rp)"
    and A_authorize: "I w \<Longrightarrow> atm_cur w = Some s \<Longrightarrow> ss_amount s = Some n \<Longrightarrow> wd_amount p = n \<Longrightarrow>
      A (C_Authorize p) K_Authorized"
    and A_dispense: "az_approved az \<Longrightarrow> A (C_Xfs x) (K_Dispensed az)"
    and A_plain: "plain_call c k \<Longrightarrow> A c k"
    and perform: "I w \<Longrightarrow> A c k \<Longrightarrow> atm_perform ops env c w = (w', as, res) \<Longrightarrow>
      I w' \<and> (\<forall>v. res = Some v \<longrightarrow> B v k)"
    and answer: "A (C_Xfs x) k \<Longrightarrow> B (Inr (V_Xfs rsp)) k"
begin

definition seg_ok :: "'db world \<times> progress \<Rightarrow> bool" where
  "seg_ok wp \<longleftrightarrow> I (fst wp) \<and> (\<forall>c k. snd wp = Await c k \<longrightarrow> A c k)"

lemma seg_simps [simp]:
  "seg_ok (w, Return rp) \<longleftrightarrow> I w" "seg_ok (w, Throw e) \<longleftrightarrow> I w"
  "seg_ok (w, Await c k) \<longleftrightarrow> I w \<and> A c k"
  by (auto simp: seg_ok_def)

lemma emit [simp]: "I w \<Longrightarrow> I (atm_emit ev w)"
  by (simp add: atm_emit_def bus)

lemma action [simp]: "I w \<Longrightarrow> I (atm_emitUserAction env k sid w)"
  by (simp add: atm_emitUserAction_def)

lemma field_cur: "I w \<Longrightarrow> keeps_core f \<Longrightarrow> I (atm_upd_cur f w)"
  by (simp add: atm_upd_cur_def field split: option.split)

lemma keeps [simp]:
  "keeps_core (\<lambda>s. s\<lparr>ss_errorMessage := m\<rparr>)" "keeps_core (\<lambda>s. s\<lparr>ss_accountId := a\<rparr>)"
  "keeps_core (\<lambda>s. s\<lparr>ss_failedPinAttempts := n\<rparr>)" "keeps_core (\<lambda>s. s\<lparr>ss_selectedTxn := t\<rparr>)"
  "keeps_core (\<lambda>s. s\<lparr>ss_stanNo := x, ss_authCode := y\<rparr>)"
  "keeps_core (\<lambda>s. s\<lparr>ss_endedAt := e, ss_endReason := r\<rparr>)"
  by (simp_all add: keeps_core_def)

lemmas kept [simp] = field field_cur transition notify clear bus devices

lemma endSession: "I w \<Longrightarrow> seg_ok (atm_endSession env reason rp w)"
proof (cases "w_session w")
  case (Some r)
  assume "I w"
  let ?w1 = "atm_upd r (\<lambda>s. s\<lparr>ss_endedAt := Some (ae_now env), ss_endReason := Some reason\<rparr>) (atm_clearIdleTimer w)"
  have "I ?w1" using \<open>I w\<close> by simp
  moreover have "w_session ?w1 = Some r" using Some by simp
  ultimately show ?thesis using A_update by (simp add: atm_endSession_def Some Let_def)
qed (simp add: atm_endSession_def)

lemma safeEject: "I w \<Longrightarrow> seg_ok (atm_safeEject_end env reason rp w)"
  by (simp add: atm_safeEject_end_def endSession A_plain)

lemma markError: "I w \<Longrightarrow> seg_ok (atm_markError env msg rp w)"
  by (simp add: atm_markError_def safeEject split: option.split)

lemma retainCard: "I w \<Longrightarrow> seg_ok (atm_retainCard env reason rp w)"
  by (simp add: atm_retainCard_def A_plain split: option.split)

lemma inserted_segment: "I w \<Longrightarrow> seg_ok (atm_insert_segment env r pan crd w)"
  by (simp add: atm_insert_segment_def Let_def split_def markError A_plain)

lemma authorized: "I w \<Longrightarrow> seg_ok (atm_authorized_segment env az w)"
  by (simp add: atm_authorized_segment_def Let_def markError A_dispense split: option.split)

lemma processWithdrawal: "I w \<Longrightarrow> seg_ok (atm_processWithdrawal env w)"
  by (auto simp: atm_processWithdrawal_def A_authorize split: option.split)

lemma other_segments:
  "I w \<Longrightarrow> seg_ok (atm_read_segment env r pan rsp w)" "I w \<Longrightarrow> seg_ok (atm_auth_segment env r au w)"
  "I w \<Longrightarrow> seg_ok (atm_beginPinEntry env w)" "I w \<Longrightarrow> seg_ok (atm_verifyPinBuffer env w)"
  "I w \<Longrightarrow> seg_ok (atm_pin_segment env au w)" "I w \<Longrightarrow> seg_ok (atm_retained_segment env reason rp w)"
  "I w \<Longrightarrow> seg_ok (atm_hostRetained_segment env reason rp w)"
  "I w \<Longrightarrow> seg_ok (atm_dispensed_segment env az rsp w)" "I w \<Longrightarrow> seg_ok (atm_reversed_segment env rsp w)"
  "I w \<Longrightarrow> seg_ok (atm_printed_segment env w)" "I w \<Longrightarrow> seg_ok (atm_processBalance env w)"
  "I w \<Longrightarrow> seg_ok (atm_balance_segment env b w)"
  by (simp_all add: atm_read_segment_def atm_auth_segment_def atm_beginPinEntry_def
      atm_verifyPinBuffer_def atm_pin_segment_def atm_retained_segment_def atm_hostRetained_segment_def
      atm_dispensed_segment_def atm_reversed_segment_def atm_printed_segment_def atm_processBalance_def
      atm_balance_segment_def Let_def split_def markError retainCard safeEject endSession A_plain
      split: option.split)

lemma start: "I w \<Longrightarrow> seg_ok (atm_start env i w)"
proof (cases i)
  case (In_InsertCard pan crd)
  assume "I w"
  then show ?thesis using insert A_create by (simp add: In_InsertCard atm_onCardInserted_def Let_def)
next
  case (In_Select t)
  assume "I w"
  then show ?thesis
    by (simp add: In_Select atm_selectTransaction_def Let_def other_segments markError
        split: option.split AtmTxnType.split)
next
  case (In_Amount n)
  assume "I w"
  then show ?thesis
    using amount [where n = n] by (auto simp: In_Amount atm_submitAmount_def amount_ok_def split: option.split)
next
  case In_Confirm
  assume "I w"
  then show ?thesis
    by (simp add: In_Confirm atm_confirmTransaction_def Let_def processWithdrawal markError split: option.split)
next
  case (In_Cancel reason)
  assume "I w"
  then show ?thesis by (simp add: In_Cancel atm_cancelTransaction_def safeEject split: option.split)
next
  case In_IdleFires
  assume "I w"
  then show ?thesis
    by (simp add: In_IdleFires atm_idleFires_def atm_handleIdleTimeout_def Let_def safeEject
        atm_clearIdleTimer_def [symmetric] split: option.split)
qed (simp_all add: other_segments)

lemma resume: "I w \<Longrightarrow> B v k \<Longrightarrow> seg_ok (atm_resume env v k w)"
  by (cases "(env, v, k, w)" rule: atm_resume.cases)
    (simp_all add: other_segments inserted_segment authorized endSession atm_ended_segment_def Let_def ended)

fun task_ok :: "task \<Rightarrow> bool" where
  "task_ok (Calling c k) = A c k"
| "task_ok (Waiting x k) = A (C_Xfs x) k"
| "task_ok (Ready v k) = B v k"
| "task_ok (Finished r) = True"

definition sys_ok :: "'db atm_system \<Rightarrow> bool" where
  "sys_ok sy \<longleftrightarrow> I (sy_world sy) \<and> list_all task_ok (sy_tasks sy)"

lemma task_of_ok: "seg_ok wp \<Longrightarrow> task_ok (task_of (snd wp))"
  by (cases "snd wp") (simp_all add: seg_ok_def)

lemma deliver_ok: "list_all task_ok ts \<Longrightarrow> list_all task_ok (deliver as ts)"
proof -
  have "task_ok t \<Longrightarrow> task_ok (deliver1 as t)" for t
    by (cases t) (simp_all add: answer split: option.split)
  then show "list_all task_ok ts \<Longrightarrow> list_all task_ok (deliver as ts)"
    by (simp add: deliver_def list.pred_map list_all_iff)
qed

lemma list_all_update: "list_all P xs \<Longrightarrow> P y \<Longrightarrow> list_all P (xs[j := y])"
  by (auto simp: list_all_iff dest: subsetD [OF set_update_subset_insert])

lemma step: "sys_ok sy \<Longrightarrow> sys_ok (sys_step ops l sy)"
proof (cases l)
  case (L_Input env i)
  assume ok: "sys_ok sy"
  then have "seg_ok (atm_start env i (sy_world sy))" by (simp add: sys_ok_def start)
  with ok show ?thesis using task_of_ok
    by (auto simp: L_Input sys_ok_def seg_ok_def Let_def split_def)
next
  case (L_Perform env j)
  assume ok: "sys_ok sy"
  show ?thesis
  proof (cases "length (sy_tasks sy) \<le> j \<or> (\<nexists>c k. sy_tasks sy ! j = Calling c k)")
    case True
    then show ?thesis using ok by (auto simp: L_Perform split: task.split)
  next
    case False
    then obtain c k where ck: "sy_tasks sy ! j = Calling c k" "j < length (sy_tasks sy)" by auto
    then have a: "A c k" using ok by (auto simp: sys_ok_def list_all_length)
    obtain w as res where P: "atm_perform ops env c (sy_world sy) = (w, as, res)" by (metis surj_pair)
    have "I w" "\<forall>v. res = Some v \<longrightarrow> B v k" using perform [OF _ a P] ok by (auto simp: sys_ok_def)
    moreover from this have "task_ok (called c k res)" using a by (cases res; cases c) simp_all
    ultimately show ?thesis using ok ck P
      by (simp add: L_Perform sys_ok_def deliver_ok list_all_update)
  qed
next
  case (L_Resume env j)
  assume ok: "sys_ok sy"
  show ?thesis
  proof (cases "length (sy_tasks sy) \<le> j \<or> (\<nexists>v k. sy_tasks sy ! j = Ready v k)")
    case True
    then show ?thesis using ok by (auto simp: L_Resume split: task.split)
  next
    case False
    then obtain v k where vk: "sy_tasks sy ! j = Ready v k" "j < length (sy_tasks sy)" by auto
    then have "B v k" using ok by (auto simp: sys_ok_def list_all_length)
    then have "seg_ok (atm_resume env v k (sy_world sy))" using ok by (simp add: sys_ok_def resume)
    then show ?thesis using ok vk task_of_ok
      by (auto simp: L_Resume sys_ok_def seg_ok_def list_all_update Let_def split_def)
  qed
next
  case (L_Device env op)
  assume "sys_ok sy"
  then show ?thesis
    by (simp add: L_Device sys_ok_def Let_def split_def deliver_ok)
qed (simp add: sys_ok_def)

lemma reaches: "atm_reaches ops sy sy' \<Longrightarrow> sys_ok sy \<Longrightarrow> sys_ok sy'"
  by (induction rule: atm_reaches.induct) (auto intro: step)

end

section \<open>The watchdog and the amounts\<close>

definition timer_ok :: "'db world \<Rightarrow> bool" where
  "timer_ok w \<longleftrightarrow> (\<forall>sid. w_idleTimer w = Some sid \<longrightarrow>
     (\<exists>s. atm_cur w = Some s \<and> ss_id s = sid \<and> idle_state (ss_state s)))"

definition amounts_ok :: "'db world \<Rightarrow> bool" where
  "amounts_ok w \<longleftrightarrow> (\<forall>s \<in> set (w_sessions w). \<forall>n. ss_amount s = Some n \<longrightarrow> amount_ok n)"

definition world_ok :: "'db world \<Rightarrow> bool" where
  "world_ok w \<longleftrightarrow> w_ok w \<and> timer_ok w \<and> amounts_ok w"

definition result_ok :: "call_result \<Rightarrow> frame \<Rightarrow> bool" where
  "result_ok v k \<longleftrightarrow> (\<forall>az. k = K_Dispensed az \<longrightarrow> az_approved az)"

definition call_ok :: "call \<Rightarrow> frame \<Rightarrow> bool" where
  "call_ok c k \<longleftrightarrow> (\<forall>p. c = C_Authorize p \<longrightarrow> amount_ok (wd_amount p))
     \<and> (\<forall>az. k = K_Dispensed az \<longrightarrow> az_approved az)"

lemma amounts_upd:
  assumes "amounts_ok w" "\<forall>s n. ss_amount (f s) = Some n \<longrightarrow> ss_amount s = Some n \<or> amount_ok n"
    and "r < length (w_sessions w)"
  shows "amounts_ok (atm_upd r f w)"
proof -
  have "set (w_sessions (atm_upd r f w)) \<subseteq> insert (f (w_sessions w ! r)) (set (w_sessions w))"
    by (simp add: atm_upd_def set_update_subset_insert)
  moreover have "w_sessions w ! r \<in> set (w_sessions w)" using assms(3) by simp
  ultimately show ?thesis using assms(1,2) unfolding amounts_ok_def by blast
qed

lemma amounts_upd_cur:
  "w_ok w \<Longrightarrow> amounts_ok w \<Longrightarrow> \<forall>s n. ss_amount (f s) = Some n \<longrightarrow> ss_amount s = Some n \<or> amount_ok n \<Longrightarrow>
   amounts_ok (atm_upd_cur f w)"
  by (auto simp: atm_upd_cur_def amounts_upd w_ok_def split: option.split)

lemma amounts_cong: "w_sessions w' = w_sessions w \<Longrightarrow> amounts_ok w' = amounts_ok w"
  by (simp add: amounts_ok_def)

lemma amounts_transition: "w_ok w \<Longrightarrow> amounts_ok w \<Longrightarrow> amounts_ok (atm_transitionTo env st w)"
proof (cases "atm_cur w")
  case (Some s)
  assume w: "w_ok w" "amounts_ok w"
  have s: "s \<in> set (w_sessions w)" using Some w(1) by (auto simp: atm_cur_def w_ok_def)
  let ?s = "s\<lparr>ss_state := st, ss_updatedAt := ae_now env\<rparr>"
  have "\<forall>s' n. ss_amount ?s = Some n \<longrightarrow> ss_amount s' = Some n \<or> amount_ok n"
    using w(2) s by (simp add: amounts_ok_def)
  then have "amounts_ok (atm_upd_cur (\<lambda>_. ?s) w)" by (rule amounts_upd_cur [OF w])
  moreover have "w_sessions (atm_transitionTo env st w) = w_sessions (atm_upd_cur (\<lambda>_. ?s) w)"
    by (simp add: atm_transitionTo_def Some Let_def)
  ultimately show ?thesis using amounts_cong by blast
qed (simp add: atm_transitionTo_def)

lemma w_ok_arm [simp]: "w_ok (atm_armIdleTimer st w) = w_ok w"
  by (simp add: w_ok_def)

lemma timer_clear [simp]: "timer_ok (atm_clearIdleTimer w)"
  by (simp add: timer_ok_def)

lemma timer_value: "w_idleTimer (atm_armIdleTimer st w) = (if idle_state st then atm_cur_id w else None)"
  by (simp add: atm_armIdleTimer_def)

lemma timer_arm: "\<forall>s. atm_cur w = Some s \<longrightarrow> ss_state s = st \<Longrightarrow> timer_ok (atm_armIdleTimer st w)"
proof (cases "idle_state st")
  case True
  assume "\<forall>s. atm_cur w = Some s \<longrightarrow> ss_state s = st"
  then show ?thesis using True
    by (cases "atm_cur w") (simp_all add: timer_ok_def timer_value atm_cur_id_def)
qed (simp add: timer_ok_def timer_value)

lemma timer_transition: "w_ok w \<Longrightarrow> timer_ok w \<Longrightarrow> timer_ok (atm_transitionTo env st w)"
proof (cases "atm_cur w")
  case (Some s)
  assume "w_ok w"
  then show ?thesis by (simp add: atm_transitionTo_def Some Let_def timer_arm)
qed (simp add: atm_transitionTo_def)

lemma timer_ended: "w_ok w \<Longrightarrow> timer_ok w \<Longrightarrow> w_idleTimer (atm_transitionTo env ENDED w) = None"
  by (auto simp: atm_transitionTo_def Let_def atm_armIdleTimer_def timer_ok_def split: option.split)

lemma timer_field:
  assumes "w_ok w" "timer_ok w" "keeps_core f"
  shows "timer_ok (atm_upd r f w)"
proof -
  have "\<exists>s'. atm_cur (atm_upd r f w) = Some s' \<and> ss_id s' = ss_id s \<and> ss_state s' = ss_state s"
    if "atm_cur w = Some s" for s
    using that assms(1,3)
    by (cases "w_session w = Some r") (auto simp: atm_cur_def atm_upd_def keeps_core_def w_ok_def)
  then show ?thesis using assms(2) unfolding timer_ok_def atm_upd_simps by metis
qed

lemma of_host_simps [simp]:
  "w_sessions (fst (of_host w r f)) = w_sessions w" "w_session (fst (of_host w r f)) = w_session w"
  "w_idleTimer (fst (of_host w r f)) = w_idleTimer w" "w_rows (fst (of_host w r f)) = w_rows w"
  by (auto simp: of_host_def split: sum.split)

lemma perform_frame:
  "w_sessions (fst (atm_perform ops env c w)) = w_sessions w"
  "w_session (fst (atm_perform ops env c w)) = w_session w"
  "w_idleTimer (fst (atm_perform ops env c w)) = w_idleTimer w"
  by (cases c; simp add: Let_def split_def)+

lemma world_ok_frame:
  "world_ok w \<Longrightarrow> w_sessions w' = w_sessions w \<Longrightarrow> w_session w' = w_session w \<Longrightarrow>
   w_idleTimer w' = w_idleTimer w \<Longrightarrow> world_ok w'"
  by (simp add: world_ok_def w_ok_def timer_ok_def amounts_ok_def atm_cur_def)

lemma world_ok_clear: "world_ok w \<Longrightarrow> world_ok (atm_clearIdleTimer w)"
  by (simp add: world_ok_def amounts_ok_def)

lemma world_ok_amount:
  assumes "world_ok w" "amount_ok n"
  shows "world_ok (atm_upd_cur (\<lambda>s. s\<lparr>ss_amount := Some n\<rparr>) w)"
proof -
  have "timer_ok (atm_upd_cur (\<lambda>s. s\<lparr>ss_amount := Some n\<rparr>) w)"
    using assms(1) by (auto simp: world_ok_def timer_ok_def)
  then show ?thesis using assms by (simp add: world_ok_def amounts_upd_cur)
qed

lemma world_ok_insert:
  assumes "world_ok w" "w_session w = None"
  shows "world_ok (w\<lparr>w_sessions := w_sessions w @ [atm_new_session env pan], w_session := Some (length (w_sessions w))\<rparr>)"
proof -
  have "w_idleTimer w = None" using assms by (auto simp: world_ok_def timer_ok_def atm_cur_def)
  then show ?thesis using assms(1)
    by (auto simp: world_ok_def timer_ok_def amounts_ok_def w_ok_def atm_new_session_def)
qed

interpretation basic: atm_invariant ops world_ok call_ok result_ok for ops :: "'db bank_ops"
proof unfold_locales
  fix w :: "'db world" and f r assume w: "world_ok w" "keeps_core f"
  show "world_ok (atm_upd r f w)"
  proof (cases "r < length (w_sessions w)")
    case True
    then show ?thesis using w by (simp add: world_ok_def timer_field amounts_upd keeps_core_def)
  next
    case False
    then have "w_sessions (atm_upd r f w) = w_sessions w" by (simp add: atm_upd_def list_update_beyond)
    then show ?thesis by (rule world_ok_frame [OF w(1)]) simp_all
  qed
next
  fix w :: "'db world" and env st assume "world_ok w"
  then show "world_ok (atm_transitionTo env st w)"
    by (simp add: world_ok_def timer_transition amounts_transition)
next
  fix w :: "'db world" and st assume "world_ok w"
  then show "world_ok (atm_notifyState st w)"
    by (auto simp: world_ok_def atm_notifyState_def timer_arm amounts_ok_def split: option.split)
next
  fix w :: "'db world" and v r reason rp env assume "world_ok w"
  then show "world_ok ((atm_transitionTo env ENDED w)\<lparr>w_session := None\<rparr>)"
    using timer_ended [of w env] amounts_transition [of w env ENDED]
    by (simp add: world_ok_def timer_ok_def w_ok_def amounts_ok_def)
next
  fix w :: "'db world" and s n and p :: withdrawal
  assume "world_ok w" "atm_cur w = Some s" "ss_amount s = Some n" "wd_amount p = n"
  then show "call_ok (C_Authorize p) K_Authorized"
    by (auto simp: call_ok_def world_ok_def amounts_ok_def w_ok_def atm_cur_def)
next
  fix c k assume "plain_call c k"
  then show "call_ok c k" by (cases "(c, k)" rule: plain_call.cases) (simp_all add: call_ok_def)
next
  fix w w' :: "'db world" and ops env c k as res
  assume "world_ok w" "call_ok c k" "atm_perform ops env c w = (w', as, res)"
  then show "world_ok w' \<and> (\<forall>v. res = Some v \<longrightarrow> result_ok v k)"
    using world_ok_frame [of w w'] perform_frame [of ops env c w] by (simp add: call_ok_def result_ok_def)
qed (auto simp: world_ok_clear world_ok_amount world_ok_insert call_ok_def result_ok_def
    intro: world_ok_frame)

text \<open>Starting with no handler running, for instance when the application has booted.\<close>

definition sys_idle :: "'db world \<Rightarrow> 'db atm_system" where
  "sys_idle w = \<lparr>sy_world = w, sy_tasks = []\<rparr>"

lemma boot_ok: "world_ok (sy_world (sys_boot h rows)) \<and> sys_boot h rows = sys_idle (sy_world (sys_boot h rows))"
  by (simp add: sys_boot_def sys_idle_def world_ok_def w_ok_def timer_ok_def amounts_ok_def)

lemma reaches_sys_ok:
  assumes "atm_reaches ops (sys_idle w) sy" "world_ok w"
  shows "basic.sys_ok sy"
  using basic.reaches [OF assms(1)] assms(2) by (simp add: basic.sys_ok_def sys_idle_def)

lemma reaches_world_ok: "atm_reaches ops (sys_idle w) sy \<Longrightarrow> world_ok w \<Longrightarrow> world_ok (sy_world sy)"
  using reaches_sys_ok [of ops w sy] by (simp add: basic.sys_ok_def)

lemma reaches_call_ok:
  "atm_reaches ops (sys_idle w) sy \<Longrightarrow> world_ok w \<Longrightarrow> Calling c k \<in> set (sy_tasks sy) \<Longrightarrow> call_ok c k"
  using reaches_sys_ok [of ops w sy] by (auto simp: basic.sys_ok_def list_all_iff)

text \<open>C3: in every interleaving of customers, devices, operator commands and answers, an armed idle
  watchdog belongs to the session that is active, and that session is in one of the states that count
  as waiting for the customer. So no watchdog outlives its session or is left over for the next one,
  and it fires without effect while a withdrawal is processed, cash is dispensed, a receipt is printed
  or the card is ejected. (The states before and at the PIN entry count as waiting, so it may fire
  while the host checks the card or the PIN.)\<close>

theorem atm_watchdog_only_when_idle:
  assumes "world_ok w" "atm_reaches ops (sys_idle w) sy"
  shows "(case w_idleTimer (sy_world sy) of
       None \<Rightarrow> atm_start env In_IdleFires (sy_world sy) = (sy_world sy, Return Rp_Unit)
     | Some sid \<Rightarrow> (\<exists>s. atm_cur (sy_world sy) = Some s \<and> ss_id s = sid
         \<and> ss_state s \<in> {CARD_INSERTED, PIN_ENTRY, PIN_VERIFIED, MAIN_MENU, AMOUNT_ENTRY, CONFIRM}))"
proof (cases "w_idleTimer (sy_world sy)")
  case None
  then show ?thesis by (simp add: atm_idleFires_def)
next
  case (Some sid)
  have "idle_state st \<longleftrightarrow> st \<in> {CARD_INSERTED, PIN_ENTRY, PIN_VERIFIED, MAIN_MENU, AMOUNT_ENTRY, CONFIRM}" for st
    by (cases st) simp_all
  then show ?thesis
    using Some reaches_world_ok [OF assms(2,1)] by (auto simp: world_ok_def timer_ok_def)
qed

text \<open>C2: in every interleaving, each withdrawal request the ATM sends to the host changes no account
  or takes a positive multiple of 20000 from one account that can pay it; no customer, operator or
  timing makes the ATM credit an account by a withdrawal.\<close>

theorem atm_withdrawals_only_debit:
  assumes "bank_db ops view" "world_ok w" "atm_reaches ops (sys_idle w) sy"
    and "Calling (C_Authorize p) k \<in> set (sy_tasks sy)"
    and "host_authorizeWithdrawal ops env p (w_host (sy_world sy)) = (res, h')"
  shows "bk_accounts (view (h_db h')) = bk_accounts (view (h_db (w_host (sy_world sy))))
    \<or> (\<exists>i a amt. bk_accounts (view (h_db (w_host (sy_world sy)))) i = Some a
         \<and> 0 < amt \<and> amt mod 20000 = 0 \<and> amt \<le> ac_balance a
         \<and> bk_accounts (view (h_db h'))
           = (bk_accounts (view (h_db (w_host (sy_world sy)))))(ac_id a \<mapsto> debited amt a))"
proof -
  have "amount_ok (wd_amount p)" using reaches_call_ok [OF assms(3,2,4)] by (simp add: call_ok_def)
  then obtain i where i: "wd_amount p = js_int i" "0 < i" "i mod 20000 = 0"
    by (auto simp: amount_ok_def js_to_int_Some)
  show ?thesis
  proof (cases "az_approved res")
    case False
    then show ?thesis using bank_db.authorize_cases [OF assms(1,5)] by simp
  next
    case True
    then obtain c a where "withdraw_allowed env p (view (h_db (w_host (sy_world sy)))) c a i"
      "view (h_db h') = bank_withdraw env p (az_stanNo res) (cd_accountId c) a i (view (h_db (w_host (sy_world sy))))"
      using bank_db.authorize_cases [OF assms(1,5)] i(1) by (auto simp: withdraw_allowed_def)
    then show ?thesis using i(2,3)
      by (intro disjI2 exI [of _ "cd_accountId c"] exI [of _ a] exI [of _ i])
        (auto simp: withdraw_allowed_def find_card_def bank_withdraw_def put_account_def debited_def)
  qed
qed

section \<open>A session without a row\<close>

definition stuck :: "nat \<Rightarrow> string \<Rightarrow> 'db world \<Rightarrow> bool" where
  "stuck r sid w \<longleftrightarrow> w_session w = Some r \<and> r < length (w_sessions w) \<and> ss_id (w_sessions w ! r) = sid
     \<and> sid \<notin> sr_id ` set (w_rows w)"

definition stuck_call :: "string \<Rightarrow> call \<Rightarrow> frame \<Rightarrow> bool" where
  "stuck_call sid c k \<longleftrightarrow> (\<forall>row. c = C_SessionCreate row \<longrightarrow> sr_id row \<noteq> sid)
     \<and> (\<forall>row. c = C_SessionUpdate row \<longrightarrow> sr_id row = sid)
     \<and> (\<forall>r reason rp. k = K_Ended r reason rp \<longrightarrow> (\<exists>row. c = C_SessionUpdate row))"

definition stuck_result :: "call_result \<Rightarrow> frame \<Rightarrow> bool" where
  "stuck_result v k \<longleftrightarrow> (\<forall>r reason rp. k = K_Ended r reason rp \<longrightarrow> (\<exists>e. v = Inl e))"

lemma put_row_ids: "sr_id ` set (put_row row rows) = sr_id ` set rows"
proof -
  have "map sr_id (put_row row rows) = map sr_id rows" by (simp add: put_row_def)
  then show ?thesis by (metis set_map)
qed

lemma stuck_upd: "stuck r sid w \<Longrightarrow> \<forall>s. ss_id (f s) = ss_id s \<Longrightarrow> stuck r sid (atm_upd q f w)"
  by (cases "q = r") (auto simp: stuck_def atm_upd_def)

lemma stuck_upd_cur: "stuck r sid w \<Longrightarrow> \<forall>s. ss_id (f s) = ss_id s \<Longrightarrow> stuck r sid (atm_upd_cur f w)"
  by (simp add: atm_upd_cur_def stuck_upd split: option.split)

lemma stuck_transition: "stuck r sid w \<Longrightarrow> stuck r sid (atm_transitionTo env st w)"
proof -
  assume w: "stuck r sid w"
  then obtain s where s: "atm_cur w = Some s" "s = w_sessions w ! r" "w_session w = Some r"
    by (auto simp: stuck_def atm_cur_def)
  let ?w = "atm_upd r (\<lambda>s. s\<lparr>ss_state := st, ss_updatedAt := ae_now env\<rparr>) w"
  have "stuck r sid ?w" using w by (simp add: stuck_upd)
  moreover have "w_sessions (atm_transitionTo env st w) = w_sessions ?w"
    using s by (simp add: atm_transitionTo_def Let_def atm_upd_cur_def atm_upd_def)
  ultimately show ?thesis using w by (simp add: stuck_def)
qed

lemma stuck_perform:
  assumes "stuck r sid w" "stuck_call sid c k" "atm_perform ops env c w = (w', as, res)"
  shows "stuck r sid w' \<and> (\<forall>v. res = Some v \<longrightarrow> stuck_result v k)"
proof -
  have "w_sessions w' = w_sessions w" "w_session w' = w_session w"
    using perform_frame [of ops env c w] assms(3) by simp_all
  moreover have "sid \<notin> sr_id ` set (w_rows w')"
    using assms by (cases c) (auto simp: stuck_def stuck_call_def put_row_ids Let_def split_def
      split: if_splits sum.splits)
  ultimately have "stuck r sid w'" using assms(1) by (simp add: stuck_def)
  moreover have "stuck_result v k" if "res = Some v" for v
    using assms that by (auto simp: stuck_result_def stuck_call_def stuck_def split: if_splits)
  ultimately show ?thesis by blast
qed

interpretation no_row: atm_invariant ops "stuck r sid" "stuck_call sid" stuck_result
  for ops :: "'db bank_ops" and r sid
proof unfold_locales
  fix w :: "'db world" and f q assume "stuck r sid w" "keeps_core f"
  then show "stuck r sid (atm_upd q f w)" by (simp add: stuck_upd keeps_core_def)
next
  fix c k assume "plain_call c k"
  then show "stuck_call sid c k" by (cases "(c, k)" rule: plain_call.cases) (simp_all add: stuck_call_def)
next
  fix w w' :: "'db world" and env c k as res
  assume "stuck r sid w" "stuck_call sid c k" "atm_perform ops env c w = (w', as, res)"
  then show "stuck r sid w' \<and> (\<forall>v. res = Some v \<longrightarrow> stuck_result v k)" by (rule stuck_perform)
qed (auto simp: stuck_transition stuck_upd_cur stuck_call_def stuck_result_def atm_notifyState_def
    session_row_def split: option.split, auto simp: stuck_def)

text \<open>C7: when the session row of an inserted card cannot be created, the session can never end: in
  every later interleaving it stays the active one, and every card is refused.\<close>

theorem atm_stuck_without_row:
  assumes "\<not> ae_rowsUp e1" "ae_sessionId e0 \<notin> sr_id ` set rows"
    and "atm_reaches ops (sys_run ops [L_Input e0 (In_InsertCard pan crd), L_Perform e1 0, L_Resume e2 0]
      (sys_boot h rows)) sy"
  shows "w_session (sy_world sy) = Some 0
    \<and> atm_start env (In_InsertCard pan' crd') (sy_world sy) = (sy_world sy, Throw SessionActive)"
proof -
  have "no_row.sys_ok 0 (ae_sessionId e0) (sys_run ops [L_Input e0 (In_InsertCard pan crd), L_Perform e1 0, L_Resume e2 0]
      (sys_boot h rows))"
    using assms(1,2) by (simp add: sys_boot_def atm_onCardInserted_def Let_def no_row.sys_ok_def stuck_def
      atm_new_session_def deliver_def)
  then have "stuck 0 (ae_sessionId e0) (sy_world sy)"
    using no_row.reaches [OF assms(3)] by (simp add: no_row.sys_ok_def)
  then show ?thesis by (simp add: stuck_def atm_onCardInserted_def)
qed

section \<open>Witnesses\<close>

lemma as_world_ok: "world_ok (as_world st)"
  by (simp add: world_ok_def timer_ok_def amounts_ok_def) (simp add: as_session_def amount_ok_def)

definition as_card :: idc_card where
  "as_card = \<lparr>ic_pan = ''4097111122223333'', ic_cardholderName = ''ADA'', ic_expiryDate = ''3012'',
     ic_track1 = [], ic_track2 = [], ic_pinHash = [], ic_chipData = None, ic_issuer = ''MANDIRI''\<rparr>"

definition as_confirmed :: "bank atm_system" where
  "as_confirmed = sys_step mem_ops (L_Input as_env In_Confirm) (sys_idle (as_world CONFIRM))"

lemma as_confirmed_simps:
  "w_host (sy_world as_confirmed) = hs_host"
  "atm_cur (sy_world as_confirmed) = Some ((as_session CONFIRM)\<lparr>ss_state := PROCESSING, ss_updatedAt := ae_now as_env\<rparr>)"
  "sy_tasks as_confirmed = [Calling (C_Authorize \<lparr>wd_pan = ''4097111122223333'', wd_amount = js_int 100000,
     wd_sessionId = ss_id (as_session CONFIRM), wd_switch = None\<rparr>) K_Authorized]"
proof -
  obtain w1 where w1: "atm_start as_env In_Confirm (as_world CONFIRM) = (w1, Await (C_Authorize
      \<lparr>wd_pan = ''4097111122223333'', wd_amount = js_int 100000, wd_sessionId = ss_id (as_session CONFIRM),
       wd_switch = None\<rparr>) K_Authorized)"
    and f: "atm_cur w1 = Some ((as_session CONFIRM)\<lparr>ss_state := PROCESSING, ss_updatedAt := ae_now as_env\<rparr>)"
      "w_host w1 = w_host (as_world CONFIRM)"
    using confirm_start [OF as_ready] by blast
  have E: "as_confirmed = \<lparr>sy_world = w1, sy_tasks = [task_of (snd (atm_start as_env In_Confirm (as_world CONFIRM)))]\<rparr>"
    using w1 by (simp add: as_confirmed_def sys_idle_def del: atm_start.simps)
  show "w_host (sy_world as_confirmed) = hs_host"
    "atm_cur (sy_world as_confirmed) = Some ((as_session CONFIRM)\<lparr>ss_state := PROCESSING, ss_updatedAt := ae_now as_env\<rparr>)"
    "sy_tasks as_confirmed = [Calling (C_Authorize \<lparr>wd_pan = ''4097111122223333'', wd_amount = js_int 100000,
       wd_sessionId = ss_id (as_session CONFIRM), wd_switch = None\<rparr>) K_Authorized]"
    unfolding E w1 by (simp_all add: f)
qed

lemma as_reaches_confirmed: "atm_reaches mem_ops (sys_idle (as_world CONFIRM)) as_confirmed"
  unfolding as_confirmed_def by (intro atm_reaches.intros)

lemma atm_watchdog_only_when_idle_witness:
  "map_option ss_state (atm_cur (sy_world as_confirmed)) = Some PROCESSING
   \<and> atm_start as_env In_IdleFires (sy_world as_confirmed) = (sy_world as_confirmed, Return Rp_Unit)"
  using atm_watchdog_only_when_idle [OF as_world_ok as_reaches_confirmed, of as_env]
  by (auto simp: as_confirmed_simps simp del: atm_start.simps split: option.splits)

lemma atm_withdrawals_only_debit_witness:
  "let acc = bk_accounts (h_db (snd (host_authorizeWithdrawal mem_ops hs_env
      ((hs_withdrawal 100000)\<lparr>wd_switch := None\<rparr>) hs_host)))
   in acc = bk_accounts hs_bank
     \<or> (\<exists>i a amt. bk_accounts hs_bank i = Some a \<and> 0 < amt \<and> amt mod 20000 = 0 \<and> amt \<le> ac_balance a
          \<and> acc = (bk_accounts hs_bank)(ac_id a \<mapsto> debited amt a))"
proof -
  let ?p = "\<lparr>wd_pan = ''4097111122223333'', wd_amount = js_int 100000,
     wd_sessionId = ss_id (as_session CONFIRM), wd_switch = None\<rparr>"
  have c: "Calling (C_Authorize ?p) K_Authorized \<in> set (sy_tasks as_confirmed)"
    by (simp add: as_confirmed_simps)
  obtain res h' where A: "host_authorizeWithdrawal mem_ops hs_env ?p (w_host (sy_world as_confirmed)) = (res, h')"
    by fastforce
  have p: "?p = (hs_withdrawal 100000)\<lparr>wd_switch := None\<rparr>" by (simp add: hs_withdrawal_def as_session_def)
  show ?thesis
    using atm_withdrawals_only_debit [OF mem_bank_db as_world_ok as_reaches_confirmed c A] A
    by (simp add: as_confirmed_simps p) (simp add: hs_host_def)
qed

lemma atm_stuck_without_row_witness:
  "let sy = sys_run mem_ops [L_Input as_env (In_InsertCard ''4097111122223333'' as_card),
     L_Perform (as_env\<lparr>ae_rowsUp := False\<rparr>) 0, L_Resume as_env 0] (sys_boot hs_host [])
   in atm_start as_env (In_InsertCard ''5'' as_card) (sy_world sy) = (sy_world sy, Throw SessionActive)"
  unfolding Let_def
  by (rule conjunct2 [OF atm_stuck_without_row [OF _ _ atm_reaches.start]]) simp_all

end
