(* ===== verification/Atm_Races.thy ===== *)
theory Atm_Races
  imports Atm_Invariants
begin

text \<open>
  Interleavings that the application does not guard against: a customer who cancels while the host
  or the PIN check is under way. They are proved for every state in which they are possible.
\<close>

section \<open>Cancelling\<close>

definition cancel_steps :: "atm_env \<Rightarrow> label list" where
  "cancel_steps env =
     [L_Input env (In_Cancel None), L_Perform env 1, L_Resume env 1, L_Perform env 1, L_Resume env 1]"

lemma eject_executes:
  assumes "xm_registered m" "c = atm_eject_command env sid"
    and "idc_hasCard (dv_idc (xm_devices m))" "vd_injectedError (dv_idc (xm_devices m)) = None"
  shows "\<exists>rsp. fst (xm_execute xenv c m) = [(c, rsp)]"
    "xm_devices (fst (snd (xm_execute xenv c m)))
       = (xm_devices m)\<lparr>dv_idc := (dv_idc (xm_devices m))\<lparr>idc_currentCard := None, idc_cardHeld := False\<rparr>\<rparr>"
proof -
  have h: "cmd_hService c = ''IDC30''" "cmd_commandCode c = idc_cmd_code IDC_EJECT_CARD"
    using assms(2) by (simp_all add: atm_eject_command_def atm_command_def)
  show "\<exists>rsp. fst (xm_execute xenv c m) = [(c, rsp)]"
    by (rule xm_execute_quiet(1) [OF assms(1)]) (simp add: h)
  note L = xm_registered_lookup(1) [OF assms(1), folded h(1)]
  show "xm_devices (fst (snd (xm_execute xenv c m)))
       = (xm_devices m)\<lparr>dv_idc := (dv_idc (xm_devices m))\<lparr>idc_currentCard := None, idc_cardHeld := False\<rparr>\<rparr>"
    using assms(3,4) unfolding xm_execute_devices [OF L]
    by (simp add: h idc_executeCommand_def vd_checkInjectedError_def idc_hasCard_def idc_ejectCard_def Let_def
        del: idc_cmd_code.simps)
qed

definition card_held :: "'db world \<Rightarrow> bool" where
  "card_held w \<longleftrightarrow> idc_hasCard (dv_idc (xm_devices (w_xfs w)))
     \<and> vd_injectedError (dv_idc (xm_devices (w_xfs w))) = None"

lemma card_held_cong: "w_xfs w' = w_xfs w \<Longrightarrow> card_held w' = card_held w"
  by (simp add: card_held_def)

text \<open>A cancellation that nothing else interrupts ejects the card and ends the session, and touches
  neither the host nor another device.\<close>

lemma cancel_runs:
  assumes "w_ok w" "atm_cur w = Some s" "ss_id s \<in> sr_id ` set (w_rows w)" "ae_rowsUp env"
    and "xm_registered (w_xfs w)" "card_held w" "\<And>as. deliver1 as t = t"
  obtains w' where
    "sys_run ops (cancel_steps env) \<lparr>sy_world = w, sy_tasks = [t]\<rparr>
       = \<lparr>sy_world = w', sy_tasks = [t, Finished (Inr Rp_Unit)]\<rparr>"
    "w_session w' = None" "w_host w' = w_host w" "xm_registered (w_xfs w')"
    "xm_devices (w_xfs w') = (xm_devices (w_xfs w))\<lparr>dv_idc :=
       (dv_idc (xm_devices (w_xfs w)))\<lparr>idc_currentCard := None, idc_cardHeld := False\<rparr>\<rparr>"
proof -
  let ?w1 = "atm_emitUserAction env (UA_CANCEL (Some ''user cancelled'')) (Some (ss_id s)) w"
  let ?c = "atm_eject_command env (Some (ss_id s))"
  obtain rsp where rsp: "fst (xm_execute (ae_xfs env) ?c (w_xfs w)) = [(?c, rsp)]"
    and dev: "xm_devices (fst (snd (xm_execute (ae_xfs env) ?c (w_xfs w)))) = (xm_devices (w_xfs w))\<lparr>dv_idc :=
       (dv_idc (xm_devices (w_xfs w)))\<lparr>idc_currentCard := None, idc_cardHeld := False\<rparr>\<rparr>"
    using eject_executes [where env = env and sid = "Some (ss_id s)" and xenv = "ae_xfs env",
        OF assms(5) refl] assms(6)
    by (auto simp: card_held_def)
  obtain r where r: "w_session w = Some r" "r < length (w_sessions w)" "s = w_sessions w ! r"
    using assms(1,2) by (auto simp: w_ok_def atm_cur_def)
  have S1: "atm_start env (In_Cancel None) w = (?w1, Await (C_Xfs ?c) (K_Ejected CANCELLED Rp_Unit))"
    using assms(2,6) by (simp add: atm_cancelTransaction_def card_held_def atm_safeEject_end_def atm_cur_id_def)
  define w2 where "w2 = fst (atm_perform ops env (C_Xfs ?c) ?w1)"
  have S2: "atm_perform ops env (C_Xfs ?c) ?w1 = (w2, [(?c, rsp)], None)"
    using rsp by (simp add: w2_def Let_def split_def)
  have w2: "w_session w2 = Some r" "w_sessions w2 = w_sessions w" "w_rows w2 = w_rows w" "w_host w2 = w_host w"
    "w_xfs w2 = fst (snd (xm_execute (ae_xfs env) ?c (w_xfs w)))"
    using r by (simp_all add: w2_def Let_def split_def)
  let ?row = "session_row (w_sessions (atm_upd r (\<lambda>s. s\<lparr>ss_endedAt := Some (ae_now env),
    ss_endReason := Some CANCELLED\<rparr>) (atm_clearIdleTimer w2)) ! r)"
  define w3 where "w3 = fst (atm_endSession env CANCELLED Rp_Unit w2)"
  have S3: "atm_endSession env CANCELLED Rp_Unit w2 = (w3, Await (C_SessionUpdate ?row) (K_Ended r CANCELLED Rp_Unit))"
    using w2 by (simp add: atm_endSession_def w3_def Let_def)
  have w3: "w_rows w3 = w_rows w" "w_host w3 = w_host w" "w_xfs w3 = w_xfs w2" "w_session w3 = Some r"
    using w2 by (simp_all add: w3_def atm_endSession_def Let_def)
  have row: "sr_id ?row \<in> sr_id ` set (w_rows w)"
    using assms(3) r w2(2) by (simp add: session_row_def atm_upd_def)
  define w4 where "w4 = fst (atm_perform ops env (C_SessionUpdate ?row) w3)"
  have S4: "atm_perform ops env (C_SessionUpdate ?row) w3 = (w4, [], Some (Inr V_Unit))"
    using row assms(4) w3(1) by (simp add: w4_def)
  have w4: "w_host w4 = w_host w" "w_xfs w4 = w_xfs w2" using w3 by (simp_all add: w4_def)
  define w5 where "w5 = fst (atm_ended_segment env r CANCELLED Rp_Unit w4)"
  have w5: "atm_ended_segment env r CANCELLED Rp_Unit w4 = (w5, Return Rp_Unit)"
    "w_session w5 = None" "w_host w5 = w_host w" "w_xfs w5 = w_xfs w2"
    using w4 by (simp_all add: w5_def atm_ended_segment_def Let_def)
  show ?thesis
  proof (rule that [of w5])
    show "sys_run ops (cancel_steps env) \<lparr>sy_world = w, sy_tasks = [t]\<rparr>
       = \<lparr>sy_world = w5, sy_tasks = [t, Finished (Inr Rp_Unit)]\<rparr>"
      unfolding cancel_steps_def
      by (simp add: S1 S2 S3 S4 w5 deliver_def assms(7) del: atm_start.simps atm_perform.simps)
    show "xm_registered (w_xfs w5)" using assms(5) by (simp add: w5(4) w2(5))
    show "xm_devices (w_xfs w5) = (xm_devices (w_xfs w))\<lparr>dv_idc :=
       (dv_idc (xm_devices (w_xfs w)))\<lparr>idc_currentCard := None, idc_cardHeld := False\<rparr>\<rparr>"
      by (simp add: w5(4) w2(5) dev)
  qed (use w5 in simp_all)
qed

lemma start_rows: "w_rows (fst (atm_start env In_Confirm w)) = w_rows w"
  by (simp add: atm_confirmTransaction_def atm_processWithdrawal_def atm_markError_def
      atm_safeEject_end_def atm_endSession_def Let_def split: option.split)

section \<open>A cancelled withdrawal\<close>

text \<open>The customer confirms; the host debits the account before or after the cancellation, and the ATM goes
  on with its answer after it.\<close>

definition cancelled_withdrawal :: "atm_env \<Rightarrow> bool \<Rightarrow> label list" where
  "cancelled_withdrawal env debit_first =
     [L_Input env In_Confirm] @ (if debit_first then [L_Perform env 0] else []) @ cancel_steps env
       @ (if debit_first then [] else [L_Perform env 0]) @ [L_Resume env 0]"

text \<open>C4: the customer can cancel while the host authorises the withdrawal. The cancellation ejects the
  card and ends the session; if it is through before the ATM goes on with the answer of the host, whether
  the host debits the account before or after the cancellation, then every withdrawal that the host
  approves is lost: no session and no handler is left, the account is debited and the withdrawal
  recorded as completed, while the dispenser is as it was and nothing reverses the debit.\<close>

theorem atm_cancel_loses_debit:
  fixes env :: atm_env
  assumes "bank_db ops view" "about_to_withdraw (view (h_db (w_host w))) w s pan a amt" "card_held w"
    and "ss_id s \<in> sr_id ` set (w_rows w)" "ae_rowsUp env"
    and "host_authorizeWithdrawal ops (ae_host env) \<lparr>wd_pan = pan, wd_amount = js_int amt, wd_sessionId = ss_id s,
      wd_switch = None\<rparr> (w_host w) = (az, h')" "az_approved az"
  shows "let sy = sys_run ops (cancelled_withdrawal env debit_first) (sys_idle w)
    in sy_tasks sy = [Finished (Inl TypeError), Finished (Inr Rp_Unit)] \<and> w_session (sy_world sy) = None
      \<and> view (h_db (w_host (sy_world sy))) = bank_withdraw (ae_host env) \<lparr>wd_pan = pan, wd_amount = js_int amt,
          wd_sessionId = ss_id s, wd_switch = None\<rparr> (az_stanNo az) (ac_id a) a amt (view (h_db (w_host w)))
      \<and> dv_cdm (xm_devices (w_xfs (sy_world sy))) = dv_cdm (xm_devices (w_xfs w))"
proof -
  let ?b = "view (h_db (w_host w))"
  let ?p = "\<lparr>wd_pan = pan, wd_amount = js_int amt, wd_sessionId = ss_id s, wd_switch = None\<rparr>"
  have acc: "\<exists>c. find_card pan ?b = Some (c, Some a) \<and> cd_accountId c = ac_id a" "xm_registered (w_xfs w)"
    using assms(2) by (auto simp: about_to_withdraw_def)
  obtain w1 where S1: "atm_start env In_Confirm w = (w1, Await (C_Authorize ?p) K_Authorized)" "w_ok w1"
      "atm_cur w1 = Some (s\<lparr>ss_state := PROCESSING, ss_updatedAt := ae_now env\<rparr>)"
      "w_host w1 = w_host w" "w_xfs w1 = w_xfs w" "w_rows w1 = w_rows w"
    using confirm_start [OF assms(2), of env] by (metis start_rows fst_conv)
  have v: "view (h_db h') = bank_withdraw (ae_host env) ?p (az_stanNo az) (ac_id a) a amt ?b"
    using bank_db.authorize_cases [OF assms(1,6)] assms(7) acc(1) by (auto simp: withdraw_allowed_def js_int_def)
  have P: "atm_perform ops env (C_Authorize ?p) x = (x\<lparr>w_host := h'\<rparr>, [], Some (Inr (V_Authz az)))"
    if "w_host x = w_host w" for x
    using assms(6) that by (simp add: of_host_def)
  have R: "atm_authorized_segment env az x = (x, Throw TypeError)" if "w_session x = None" for x
    using assms(7) that by (simp add: atm_authorized_segment_def)
  show ?thesis
  proof (cases debit_first)
    case True
    let ?w1 = "w1\<lparr>w_host := h'\<rparr>"
    have w1: "w_ok ?w1" "atm_cur ?w1 = Some (s\<lparr>ss_state := PROCESSING, ss_updatedAt := ae_now env\<rparr>)"
      "w_xfs ?w1 = w_xfs w" "w_rows ?w1 = w_rows w" using S1 by (simp_all add: w_ok_def atm_cur_def)
    obtain w2 where S2: "sys_run ops (cancel_steps env) \<lparr>sy_world = ?w1, sy_tasks = [Ready (Inr (V_Authz az)) K_Authorized]\<rparr>
         = \<lparr>sy_world = w2, sy_tasks = [Ready (Inr (V_Authz az)) K_Authorized, Finished (Inr Rp_Unit)]\<rparr>"
      and w2: "w_session w2 = None" "w_host w2 = h'"
        "dv_cdm (xm_devices (w_xfs w2)) = dv_cdm (xm_devices (w_xfs w))"
      by (rule cancel_runs [OF w1(1,2) _ assms(5), of "Ready (Inr (V_Authz az)) K_Authorized" ops])
        (use w1 assms(3,4) acc(2) in \<open>simp_all add: card_held_def\<close>)
    have "sys_run ops (cancelled_withdrawal env debit_first) (sys_idle w)
        = \<lparr>sy_world = w2, sy_tasks = [Finished (Inl TypeError), Finished (Inr Rp_Unit)]\<rparr>"
      using True by (simp add: cancelled_withdrawal_def sys_run_append sys_idle_def S1(1) P S1(4) S2 R w2(1) deliver_def
          del: atm_start.simps atm_perform.simps)
    then show ?thesis using v w2 by (simp add: Let_def)
  next
    case False
    obtain w2 where S2: "sys_run ops (cancel_steps env) \<lparr>sy_world = w1, sy_tasks = [Calling (C_Authorize ?p) K_Authorized]\<rparr>
         = \<lparr>sy_world = w2, sy_tasks = [Calling (C_Authorize ?p) K_Authorized, Finished (Inr Rp_Unit)]\<rparr>"
      and w2: "w_session w2 = None" "w_host w2 = w_host w"
        "dv_cdm (xm_devices (w_xfs w2)) = dv_cdm (xm_devices (w_xfs w))"
      by (rule cancel_runs [OF S1(2,3) _ assms(5), of "Calling (C_Authorize ?p) K_Authorized" ops])
        (use S1 assms(3,4) acc(2) in \<open>simp_all add: card_held_def\<close>)
    have "sys_run ops (cancelled_withdrawal env debit_first) (sys_idle w)
        = \<lparr>sy_world = w2\<lparr>w_host := h'\<rparr>, sy_tasks = [Finished (Inl TypeError), Finished (Inr Rp_Unit)]\<rparr>"
      using False by (simp add: cancelled_withdrawal_def sys_run_append sys_idle_def S1(1) P w2(2) S2 R w2(1) deliver_def
          del: atm_start.simps atm_perform.simps)
    then show ?thesis using v w2 by (simp add: Let_def)
  qed
qed

section \<open>A PIN check that outlives its session\<close>

definition insert_steps :: "atm_env \<Rightarrow> string \<Rightarrow> idc_card \<Rightarrow> label list" where
  "insert_steps env pan crd =
     L_Input env (In_InsertCard pan crd)
       # concat (replicate 3 [L_Perform env 2, L_Resume env 2])"

text \<open>The insertion of an accepted card into an empty reader, uninterrupted.\<close>

lemma inserted_card:
  assumes "\<not> idc_cardHeld (dv_idc (xm_devices (w_xfs w)))" "w_ok w" "w_session w = Some r"
  obtains w' where
    "atm_insert_segment env r pan crd w = (w', Await (C_Xfs (atm_command env ''IDC30'' IDC
       (idc_cmd_code IDC_READ_TRACK) 5000 xfs_no_payload (Some (ss_id (w_sessions w ! r))))) (K_InsertedRead r pan))"
    "w_ok w'" "w_session w' = Some r" "w_sessions w' = w_sessions w" "w_host w' = w_host w"
    "xm_registered (w_xfs w') = xm_registered (w_xfs w)"
    "dv_idc (xm_devices (w_xfs w')) = (dv_idc (xm_devices (w_xfs w)))\<lparr>idc_currentCard := Some crd, idc_cardHeld := True\<rparr>"
proof -
  let ?r = "atm_insert_segment env r pan crd w"
  have "?r = (fst ?r, Await (C_Xfs (atm_command env ''IDC30'' IDC
       (idc_cmd_code IDC_READ_TRACK) 5000 xfs_no_payload (Some (ss_id (w_sessions w ! r))))) (K_InsertedRead r pan))"
    using assms by (simp add: atm_insert_segment_def idc_insertCard_def Let_def)
  from that [OF this] assms show ?thesis
    by (simp add: atm_insert_segment_def idc_insertCard_def Let_def w_ok_def xm_registered_def)
qed

lemma read_executes:
  assumes "xm_registered m" "c = atm_command env ''IDC30'' IDC (idc_cmd_code IDC_READ_TRACK) t pl sid"
    and "idc_currentCard (dv_idc (xm_devices m)) = Some crd" "vd_injectedError (dv_idc (xm_devices m)) = None"
  shows "\<exists>rsp. fst (xm_execute xenv c m) = [(c, rsp)] \<and> rsp_result rsp = xfs_result_code SUCCESS"
proof -
  have h: "cmd_hService c = ''IDC30''" "cmd_commandCode c = idc_cmd_code IDC_READ_TRACK"
    using assms(2) by (simp_all add: atm_command_def)
  have "\<exists>p. dev_execute xenv Ref_IDC (cmd_commandCode c) (cmd_payload c) (xm_devices m)
      = (Done p, xm_devices m, [])"
    using assms(3,4) by (simp add: h idc_executeCommand_def vd_checkInjectedError_def idc_readTrack_def
      Let_def del: idc_cmd_code.simps)
  then obtain p where "dev_execute xenv Ref_IDC (cmd_commandCode c) (cmd_payload c) (xm_devices m)
      = (Done p, xm_devices m, [])" by blast
  from xm_execute_device [OF xm_registered_lookup(1) [OF assms(1), folded h(1)] this]
  show ?thesis by simp
qed

lemma create_runs:
  assumes "w_ok w" "w_session w = None" "ae_rowsUp env"
  obtains w' where
    "sys_run ops [L_Input env (In_InsertCard pan crd), L_Perform env 2] \<lparr>sy_world = w, sy_tasks = [Calling c k, Finished x]\<rparr>
       = \<lparr>sy_world = w', sy_tasks = [Calling c k, Finished x, Ready (Inr V_Unit) (K_InsertedCreated (length (w_sessions w)) pan crd)]\<rparr>"
    "w_ok w'" "w_session w' = Some (length (w_sessions w))" "w_host w' = w_host w" "w_xfs w' = w_xfs w"
    "w_sessions w' ! length (w_sessions w) = atm_new_session env pan"
proof -
  let ?w = "w\<lparr>w_sessions := w_sessions w @ [atm_new_session env pan], w_session := Some (length (w_sessions w)),
    w_rows := w_rows w @ [\<lparr>sr_id = ss_id (atm_new_session env pan), sr_state = ss_state (atm_new_session env pan),
      sr_pan = Some pan, sr_endedAt = None, sr_endReason = None, sr_accountId = None\<rparr>]\<rparr>"
  show ?thesis
    by (rule that [of ?w]) (use assms in \<open>simp_all add: atm_onCardInserted_def Let_def deliver_def w_ok_def\<close>)
qed

lemma insertion_runs:
  assumes "w_ok w" "w_session w = None" "ae_rowsUp env" "xm_registered (w_xfs w)"
    and "\<not> idc_cardHeld (dv_idc (xm_devices (w_xfs w)))" "vd_injectedError (dv_idc (xm_devices (w_xfs w))) = None"
    and "host_authenticate ops (ae_host env) pan (w_host w) = Inr au" "au_success au"
  obtains w' s rp where
    "sys_run ops (insert_steps env pan crd) \<lparr>sy_world = w, sy_tasks = [Calling c k, Finished x]\<rparr>
       = \<lparr>sy_world = w', sy_tasks = [Calling c k, Finished x, Finished (Inr rp)]\<rparr>"
    "w_ok w'" "atm_cur w' = Some s" "ss_cardPan s = Some pan" "ss_state s = PIN_ENTRY" "w_host w' = w_host w"
proof -
  let ?r = "length (w_sessions w)"
  obtain w1 where 1: "sys_run ops [L_Input env (In_InsertCard pan crd), L_Perform env 2] \<lparr>sy_world = w, sy_tasks = [Calling c k, Finished x]\<rparr>
       = \<lparr>sy_world = w1, sy_tasks = [Calling c k, Finished x, Ready (Inr V_Unit) (K_InsertedCreated ?r pan crd)]\<rparr>"
    and w1: "w_ok w1" "w_session w1 = Some ?r" "w_host w1 = w_host w" "w_xfs w1 = w_xfs w"
      "w_sessions w1 ! ?r = atm_new_session env pan"
    using create_runs [OF assms(1-3)] by metis
  let ?c = "atm_command env ''IDC30'' IDC (idc_cmd_code IDC_READ_TRACK) 5000 xfs_no_payload (Some (ss_id (w_sessions w1 ! ?r)))"
  obtain w2 where 2: "atm_insert_segment env ?r pan crd w1 = (w2, Await (C_Xfs ?c) (K_InsertedRead ?r pan))"
    and w2: "w_ok w2" "w_session w2 = Some ?r" "w_sessions w2 = w_sessions w1" "w_host w2 = w_host w1"
      "xm_registered (w_xfs w2)" "dv_idc (xm_devices (w_xfs w2)) = (dv_idc (xm_devices (w_xfs w)))\<lparr>idc_currentCard := Some crd, idc_cardHeld := True\<rparr>"
    using inserted_card [OF _ w1(1,2), of env pan crd] assms(4,5) w1(4) by metis
  obtain rsp where rsp: "fst (xm_execute (ae_xfs env) ?c (w_xfs w2)) = [(?c, rsp)]" "rsp_result rsp = xfs_result_code SUCCESS"
    using read_executes [OF w2(5) refl, of crd "ae_xfs env" env 5000 xfs_no_payload "Some (ss_id (w_sessions w1 ! ?r))"]
      w2(6) assms(6) by auto
  define w3 where "w3 = fst (atm_perform ops env (C_Xfs ?c) w2)"
  have 3: "atm_perform ops env (C_Xfs ?c) w2 = (w3, [(?c, rsp)], None)"
    and w3: "w_ok w3" "w_session w3 = Some ?r" "w_sessions w3 = w_sessions w1" "w_host w3 = w_host w"
    using rsp(1) w1(3) w2 by (simp_all add: w3_def Let_def split_def w_ok_def)
  have 4: "atm_read_segment env ?r pan rsp w3 = (w3, Await (C_Authenticate pan) (K_InsertedAuth ?r))"
    using rsp(2) by (simp add: atm_read_segment_def)
  have 5: "atm_perform ops env (C_Authenticate pan) w3 = (w3, [], Some (Inr (V_Auth au)))"
    using assms(7) w3(4) by simp
  let ?w4 = "atm_transitionTo env PIN_ENTRY (atm_upd ?r (\<lambda>s. s\<lparr>ss_accountId := au_accountId au\<rparr>) w3)"
  have 6: "atm_auth_segment env ?r au w3 = (?w4, Return (Rp_Session ?r))"
    using assms(8) by (simp add: atm_auth_segment_def)
  have "atm_cur (atm_upd ?r (\<lambda>s. s\<lparr>ss_accountId := au_accountId au\<rparr>) w3)
      = Some ((atm_new_session env pan)\<lparr>ss_accountId := au_accountId au\<rparr>)"
    using w3(1-3) w1(5) by (simp add: atm_cur_def atm_upd_def w_ok_def)
  then have cur: "atm_cur ?w4 = Some ((atm_new_session env pan)\<lparr>ss_accountId := au_accountId au,
      ss_state := PIN_ENTRY, ss_updatedAt := ae_now env\<rparr>)"
    using w3(1) by simp
  have steps: "insert_steps env pan crd = [L_Input env (In_InsertCard pan crd), L_Perform env 2]
      @ [L_Resume env 2, L_Perform env 2, L_Resume env 2, L_Perform env 2, L_Resume env 2]"
    by (simp add: insert_steps_def eval_nat_numeral)
  show ?thesis
  proof (rule that [OF _ _ cur])
    show "sys_run ops (insert_steps env pan crd) \<lparr>sy_world = w, sy_tasks = [Calling c k, Finished x]\<rparr>
       = \<lparr>sy_world = ?w4, sy_tasks = [Calling c k, Finished x, Finished (Inr (Rp_Session ?r))]\<rparr>"
      unfolding steps sys_run_append 1
      by (simp add: 2 3 4 5 6 deliver_def del: atm_perform.simps idc_cmd_code.simps)
  qed (use w3 in \<open>simp_all add: atm_new_session_def\<close>)
qed

text \<open>C6: a PIN check is not bound to the session that asked for it. The customer with one card sends
  the PIN, cancels and takes the card, and a second card is inserted and accepted before the host
  answers: the answer for the first card then opens the transaction menu for the second one, whose
  PIN nobody entered.\<close>

theorem atm_pin_unlocks_next_card:
  fixes env :: atm_env
  assumes "w_ok w" "atm_cur w = Some s" "ss_cardPan s = Some pan" "ss_id s \<in> sr_id ` set (w_rows w)"
    and "ae_rowsUp env" "xm_registered (w_xfs w)" "card_held w"
    and "fst (pin_extractEnteredPin (dv_pin (xm_devices (w_xfs w)))) = entered" "entered \<noteq> []"
    and "host_authenticate ops (ae_host env) pan2 (w_host w) = Inr au" "au_success au"
    and "host_verifyPin ops (ae_host env) pan entered (w_host w) = Inr (au', h')" "au_success au'"
  shows "\<exists>ls rp. let sy = sys_run ops ls (sys_idle w)
    in sy_tasks sy = [Finished (Inr (Rp_Pin True None)), Finished (Inr Rp_Unit), Finished (Inr rp)]
      \<and> w_host (sy_world sy) = h'
      \<and> (\<exists>s'. atm_cur (sy_world sy) = Some s' \<and> ss_cardPan s' = Some pan2 \<and> ss_state s' = MAIN_MENU)"
proof -
  let ?V = "C_VerifyPin pan entered" and ?d = "\<lambda>w. dv_idc (xm_devices (w_xfs w))"
  define w1 where "w1 = w\<lparr>w_xfs := (w_xfs w)\<lparr>xm_devices := (xm_devices (w_xfs w))\<lparr>dv_pin :=
    snd (pin_extractEnteredPin (dv_pin (xm_devices (w_xfs w))))\<rparr>\<rparr>\<rparr>"
  have S1: "atm_start env In_VerifyBuffer w = (w1, Await ?V K_PinVerified)"
    using assms(2,3,8,9) by (simp add: atm_verifyPinBuffer_def w1_def Let_def split_def)
  have w1: "w_ok w1" "atm_cur w1 = Some s" "w_rows w1 = w_rows w" "w_host w1 = w_host w"
      "xm_registered (w_xfs w1)" "?d w1 = ?d w" "card_held w1"
    using assms(1,2,6,7) by (simp_all add: w1_def w_ok_def xm_registered_def card_held_def)
      (simp add: atm_cur_def)
  have row: "ss_id s \<in> sr_id ` set (w_rows w1)" using assms(4) w1(3) by simp
  obtain w2 where S2: "sys_run ops (cancel_steps env) \<lparr>sy_world = w1, sy_tasks = [Calling ?V K_PinVerified]\<rparr>
       = \<lparr>sy_world = w2, sy_tasks = [Calling ?V K_PinVerified, Finished (Inr Rp_Unit)]\<rparr>"
    and w2: "w_session w2 = None" "w_host w2 = w_host w1" "xm_registered (w_xfs w2)"
      "xm_devices (w_xfs w2) = (xm_devices (w_xfs w1))\<lparr>dv_idc := (?d w1)\<lparr>idc_currentCard := None, idc_cardHeld := False\<rparr>\<rparr>"
    by (rule cancel_runs [OF w1(1,2) row assms(5) w1(5,7), of "Calling ?V K_PinVerified" ops]) simp_all
  have "w_ok w2" "\<not> idc_cardHeld (?d w2)" "vd_injectedError (?d w2) = None"
    using w2(1,4) w1(7) by (simp_all add: w_ok_def card_held_def)
  then obtain w3 s3 rp where S3: "sys_run ops (insert_steps env pan2 crd) \<lparr>sy_world = w2, sy_tasks = [Calling ?V K_PinVerified, Finished (Inr Rp_Unit)]\<rparr>
       = \<lparr>sy_world = w3, sy_tasks = [Calling ?V K_PinVerified, Finished (Inr Rp_Unit), Finished (Inr rp)]\<rparr>"
    and w3: "w_ok w3" "atm_cur w3 = Some s3" "ss_cardPan s3 = Some pan2" "w_host w3 = w_host w"
    using insertion_runs [OF _ w2(1) assms(5) w2(3), of ops pan2 au crd ?V K_PinVerified "Inr Rp_Unit"]
      assms(10,11) w2(2) w1(4) by metis
  let ?w4 = "w3\<lparr>w_host := h'\<rparr>"
  let ?w5 = "atm_transitionTo env MAIN_MENU (atm_transitionTo env PIN_VERIFIED ?w4)"
  have S4: "atm_perform ops env ?V w3 = (?w4, [], Some (Inr (V_Auth au')))"
    using assms(12) w3(4) by (simp add: of_host_def)
  have S5: "atm_pin_segment env au' ?w4 = (?w5, Return (Rp_Pin True None))"
    using assms(13) by (simp add: atm_pin_segment_def)
  have w4: "w_ok ?w4" "atm_cur ?w4 = Some s3" using w3 by (simp_all add: w_ok_def atm_cur_def)
  let ?ls = "[L_Input env In_VerifyBuffer] @ cancel_steps env @ insert_steps env pan2 crd @ [L_Perform env 0, L_Resume env 0]"
  have "sys_run ops ?ls (sys_idle w) = \<lparr>sy_world = ?w5,
      sy_tasks = [Finished (Inr (Rp_Pin True None)), Finished (Inr Rp_Unit), Finished (Inr rp)]\<rparr>"
    by (simp add: sys_run_append sys_idle_def S1 S2 S3 S4 S5 deliver_def del: atm_start.simps atm_perform.simps)
  then show ?thesis using w4 w3(3)
    by (intro exI [of _ ?ls] exI [of _ rp]) (simp add: Let_def)
qed

section \<open>Witnesses\<close>

definition ar_xfs :: "string \<Rightarrow> xfs_manager" where
  "ar_xfs pin = xm_boot\<lparr>xm_devices := (xm_devices xm_boot)
     \<lparr>dv_idc := idc_init\<lparr>idc_currentCard := Some as_card, idc_cardHeld := True\<rparr>,
      dv_pin := pin_init\<lparr>pin_buffer := pin\<rparr>\<rparr>\<rparr>"

definition ar_bank :: bank where
  "ar_bank = hs_bank\<lparr>bk_cards := (bk_cards hs_bank)(''4097999900001111'' \<mapsto> hs_card\<lparr>cd_pan := ''4097999900001111''\<rparr>)\<rparr>"

definition ar_world :: "AtmState \<Rightarrow> bank world" where
  "ar_world st = (as_world st)\<lparr>w_xfs := ar_xfs ''1234'', w_host := hs_host\<lparr>h_db := ar_bank\<rparr>\<rparr>"

lemma ar_world_simps:
  "w_ok (ar_world st)" "atm_cur (ar_world st) = Some (as_session st)" "xm_registered (w_xfs (ar_world st))"
  "card_held (ar_world st)" "ss_id (as_session st) \<in> sr_id ` set (w_rows (ar_world st))"
  "dv_cdm (xm_devices (w_xfs (ar_world st))) = cdm_init"
  "pin_extractEnteredPin (dv_pin (xm_devices (w_xfs (ar_world st)))) = (''1234'', pin_init)"
  by (simp_all add: ar_world_def ar_xfs_def w_ok_def xm_registered_def as_boot_devices card_held_def
      idc_hasCard_def pin_extractEnteredPin_def)
    (simp_all add: as_world_def atm_cur_def session_row_def as_session_def idc_init_def pin_init_def vd_defs
      vd_init_def vdev.defs)

lemma ar_host [simp]: "h_db (w_host (ar_world st)) = ar_bank"
  by (simp add: ar_world_def)

lemma ar_find: "find_card ''4097111122223333'' ar_bank = Some (hs_card, Some hs_account)"
  "find_card ''4097999900001111'' ar_bank = Some (hs_card\<lparr>cd_pan := ''4097999900001111''\<rparr>, Some hs_account)"
  "bk_txns ar_bank = []"
  by (simp_all add: ar_bank_def find_card_def hs_bank_def hs_card_def)

lemma ar_ready: "about_to_withdraw ar_bank (ar_world CONFIRM) (as_session CONFIRM) ''4097111122223333'' hs_account 100000"
  using cdm_ok_init by (simp add: about_to_withdraw_def ar_world_simps ar_find hs_find)
    (simp add: as_session_def hs_account_def)

lemma ar_approved: "withdraw_code (ae_host as_env) \<lparr>wd_pan = ''4097111122223333'', wd_amount = js_int 100000,
    wd_sessionId = ss_id (as_session CONFIRM), wd_switch = None\<rparr> ar_bank = ''00''"
proof -
  have "\<not> sp_maxWithdrawalIdr (getSwitchByPan ''4097111122223333'') < 100000" by code_simp
  then show ?thesis
    by (simp add: withdraw_code_def wd_profile_def ar_find sum_withdrawals_def hs_find) (simp add: hs_account_def)
qed

lemma ar_accepted:
  obtains au where "host_authenticate mem_ops (ae_host as_env) ''4097999900001111'' (w_host (ar_world st)) = Inr au"
    "au_success au"
proof -
  have "dec_value (js_slice ''3012'' 0 2) = 30" "list_all is_digit ''3012''" by code_simp+
  then have "\<not> host_isExpired (ae_host as_env) ''3012''"
    by (simp add: host_isExpired_def as_env_def hs_env_def Let_def)
  moreover have "cd_status hs_card = ''ACTIVE''" "cd_expiryDate hs_card = ''3012''" "ac_status hs_account = ''ACTIVE''"
    by (simp_all add: hs_card_def hs_account_def)
  ultimately show ?thesis
    using that by (simp add: host_authenticate_def mem_ops_def ar_find)
qed

lemma atm_cancel_loses_debit_witness:
  "let sy = sys_run mem_ops (cancelled_withdrawal as_env True) (sys_idle (ar_world CONFIRM))
    in sy_tasks sy = [Finished (Inl TypeError), Finished (Inr Rp_Unit)]
      \<and> map_option ac_balance (bk_accounts (h_db (w_host (sy_world sy))) ''A1'') = Some 400000
      \<and> dv_cdm (xm_devices (w_xfs (sy_world sy))) = cdm_init"
proof -
  let ?p = "\<lparr>wd_pan = ''4097111122223333'', wd_amount = js_int 100000, wd_sessionId = ss_id (as_session CONFIRM), wd_switch = None\<rparr>"
  have r: "about_to_withdraw (h_db (w_host (ar_world CONFIRM))) (ar_world CONFIRM) (as_session CONFIRM)
      ''4097111122223333'' hs_account 100000" "ae_rowsUp as_env" using ar_ready by (simp_all add: as_env_def)
  obtain az h' where A: "host_authorizeWithdrawal mem_ops (ae_host as_env) ?p (w_host (ar_world CONFIRM)) = (az, h')"
    by fastforce
  have "az_approved az" using bank_db_up.authorize_code [OF mem_bank_db_up A] ar_approved by simp
  from atm_cancel_loses_debit [OF mem_bank_db r(1) ar_world_simps(4,5) r(2) A this, of True]
  show ?thesis
    by (simp add: Let_def ar_world_simps bank_withdraw_def put_account_def debited_def) (auto simp: hs_account_def)
qed

lemma atm_pin_unlocks_next_card_witness:
  "\<exists>ls. let sy = sys_run mem_ops ls (sys_idle (ar_world PIN_ENTRY))
    in \<exists>s. atm_cur (sy_world sy) = Some s \<and> ss_cardPan s = Some ''4097999900001111'' \<and> ss_state s = MAIN_MENU"
proof -
  obtain au where au: "host_authenticate mem_ops (ae_host as_env) ''4097999900001111'' (w_host (ar_world PIN_ENTRY)) = Inr au"
    "au_success au" using ar_accepted by blast
  have "verifyPin (he_sha256 hs_env) ''1234'' (cd_pin hs_card)" by (simp add: hs_env_def hs_card_def) code_simp
  then obtain au' h' where v: "host_verifyPin mem_ops (ae_host as_env) ''4097111122223333'' ''1234''
      (w_host (ar_world PIN_ENTRY)) = Inr (au', h')" "au_success au'"
    by (simp add: host_verifyPin_defs mem_ops_def ar_find as_env_def) (simp add: ar_bank_def hs_bank_def)
  have "ss_cardPan (as_session PIN_ENTRY) = Some ''4097111122223333''" "ae_rowsUp as_env"
    by (simp_all add: as_session_def as_env_def)
  from atm_pin_unlocks_next_card [OF ar_world_simps(1,2) this(1) ar_world_simps(5) this(2) ar_world_simps(3,4) _ _ au v]
  show ?thesis by (simp add: ar_world_simps Let_def) blast
qed

end
