(* ===== verification/Tcp_Transport.thy ===== *)
theory Tcp_Transport
  imports Host_Emulator Emv_Tlv "HOL-Library.AList"
begin

text \<open>
  The TCP transport of the host (\<^verbatim>\<open>apps/xfs-server/src/host-transport/iso8583-tcp.transport.ts\<close>): the
  framing of a byte stream by two-byte lengths, the message text, and its dispatch into the host.
  A socket delivers its bytes in chunks of any size. The messages of a socket are answered in order
  here; their handlers are concurrent in the program, and each touches the host in one atomic step.
\<close>

section \<open>Listener\<close>

datatype HostTransportKind = IN_PROCESS | ISO8583_TCP | ISO20022_HTTP

record HostTransportRuntimeStatus =
  rs_kind :: HostTransportKind
  rs_configId :: string
  rs_listening :: bool
  rs_bindAddress :: string
  rs_port :: nat
  rs_switchProfile :: IsoSwitchId
  rs_activeConnections :: int
  rs_totalRequests :: nat
  rs_startedAt :: "string option"
  rs_lastError :: "string option"

record tcp_transport =
  tt_configId :: string
  tt_bindAddress :: string
  tt_port :: nat
  tt_switchProfile :: IsoSwitchId
  tt_server :: bool
  tt_startedAt :: "string option"
  tt_activeConnections :: int
  tt_totalRequests :: nat
  tt_lastError :: "string option"

definition tcp_new :: "string \<Rightarrow> string \<Rightarrow> nat \<Rightarrow> IsoSwitchId \<Rightarrow> tcp_transport" where
  "tcp_new cid addr port sw =
     \<lparr>tt_configId = cid, tt_bindAddress = addr, tt_port = port, tt_switchProfile = sw,
      tt_server = False, tt_startedAt = None, tt_activeConnections = 0, tt_totalRequests = 0,
      tt_lastError = None\<rparr>"

text \<open>\<open>start\<close>: the operating system binds the address at time \<open>now\<close>, or refuses with a message. A
  failed start leaves no server; the message stays in \<open>lastError\<close>, which the first of the two error
  listeners sets.\<close>

definition bind_failure :: "string \<Rightarrow> nat \<Rightarrow> string \<Rightarrow> string" where
  "bind_failure addr port msg = ''failed to bind '' @ addr @ '':'' @ js_itoa port @ '': '' @ msg"

definition tcp_start :: "string + string \<Rightarrow> tcp_transport \<Rightarrow> (string + unit) \<times> tcp_transport" where
  "tcp_start bound t =
     (if tt_server t then (Inr (), t)
      else (case bound of
              Inl msg \<Rightarrow> (Inl (bind_failure (tt_bindAddress t) (tt_port t) msg), t\<lparr>tt_server := False, tt_lastError := Some msg\<rparr>)
            | Inr now \<Rightarrow> (Inr (), t\<lparr>tt_server := True, tt_startedAt := Some now\<rparr>)))"

definition tcp_stop :: "tcp_transport \<Rightarrow> tcp_transport" where
  "tcp_stop t =
     (if \<not> tt_server t then t
      else t\<lparr>tt_startedAt := None, tt_server := False, tt_activeConnections := 0\<rparr>)"

definition tcp_status :: "tcp_transport \<Rightarrow> HostTransportRuntimeStatus" where
  "tcp_status t =
     \<lparr>rs_kind = ISO8583_TCP, rs_configId = tt_configId t,
      rs_listening = (tt_server t \<and> tt_startedAt t \<noteq> None), rs_bindAddress = tt_bindAddress t,
      rs_port = tt_port t, rs_switchProfile = tt_switchProfile t,
      rs_activeConnections = tt_activeConnections t, rs_totalRequests = tt_totalRequests t,
      rs_startedAt = tt_startedAt t, rs_lastError = tt_lastError t\<rparr>"

section \<open>Framing\<close>

definition readUInt16BE :: "byte list \<Rightarrow> nat" where
  "readUInt16BE bs = 256 * unat (bs ! 0) + unat (bs ! 1)"

definition writeUInt16BE :: "nat \<Rightarrow> byte list" where
  "writeUInt16BE n = [of_nat (n div 256), of_nat (n mod 256)]"

text \<open>The loop of the data handler: the complete frames of the buffer and what is left.\<close>

function tcp_frames :: "byte list \<Rightarrow> byte list list \<times> byte list" where
  "tcp_frames buf =
     (if length buf < 2 then ([], buf)
      else let len = readUInt16BE buf
           in if length buf < 2 + len then ([], buf)
              else (let (fs, rest) = tcp_frames (drop (2 + len) buf)
                    in (take len (drop 2 buf) # fs, rest)))"
  by auto
termination by (relation "measure length") auto

declare tcp_frames.simps [simp del]

text \<open>A chunk arrives on a socket whose buffer is \<open>buf\<close>; a stream of chunks arrives.\<close>

definition tcp_onData :: "byte list \<Rightarrow> byte list \<Rightarrow> byte list list \<times> byte list" where
  "tcp_onData chunk buf = tcp_frames (buf @ chunk)"

fun tcp_stream :: "byte list list \<Rightarrow> byte list \<Rightarrow> byte list list \<times> byte list" where
  "tcp_stream [] buf = ([], buf)"
| "tcp_stream (chunk # chunks) buf =
     (let (fs, buf') = tcp_onData chunk buf; (gs, buf'') = tcp_stream chunks buf' in (fs @ gs, buf''))"

text \<open>\<open>toString('ascii')\<close> clears the top bit; \<open>Buffer.from(s, 'ascii')\<close> keeps the low byte.\<close>

definition ascii_decode :: "byte list \<Rightarrow> string" where
  "ascii_decode bs = map (\<lambda>b. char_of (unat (b AND 0x7F))) bs"

definition ascii_encode :: "string \<Rightarrow> byte list" where
  "ascii_encode s = map (\<lambda>c. of_nat (of_char c)) s"

definition tcp_frame :: "string \<Rightarrow> byte list" where
  "tcp_frame s = writeUInt16BE (length s) @ ascii_encode s"

section \<open>Messages\<close>

text \<open>The pairs of a message; a pair without a name is skipped, a later one replaces an earlier one.\<close>

definition parse_pair :: "string \<Rightarrow> (string \<times> string) list \<Rightarrow> (string \<times> string) list" where
  "parse_pair pair out =
     (let k = takeWhile (\<lambda>c. c \<noteq> CHR ''='') pair
      in if k = pair \<or> k = [] then out
         else AList.update k (drop (length k + 1) pair) out)"

definition parseSimpleFields :: "string \<Rightarrow> (string \<times> string) list" where
  "parseSimpleFields s = fold parse_pair (js_split (CHR ''|'') s) []"

definition tcp_field :: "(string \<times> string) list \<Rightarrow> string \<Rightarrow> string \<Rightarrow> string \<Rightarrow> string" where
  "tcp_field fs k alt d =
     (case map_of fs k of Some v \<Rightarrow> v | None \<Rightarrow> js_default (map_of fs alt) d)"

text \<open>\<open>dispatch\<close>: the text of the response, or the error that was thrown, and the host after it.\<close>

definition tcp_dispatch ::
  "'db bank_ops \<Rightarrow> host_env \<Rightarrow> IsoSwitchProfile \<Rightarrow> string \<Rightarrow> (string \<times> string) list \<Rightarrow> 'db host
   \<Rightarrow> (db_error + string) \<times> 'db host" where
  "tcp_dispatch ops env profile mti fs h =
     (let pan = tcp_field fs ''2'' ''pan'' [];
          amount = js_Number (tcp_field fs ''4'' ''amount'' ''0'');
          sessionId = js_default (map_of fs ''session'') (''tcp-'' @ js_int_to_string (he_nowMs env));
          sw = switch_id_code (sp_id profile)
      in if mti = mti_code AUTH_REQUEST then
           (case host_authenticate ops env pan h of
              Inl e \<Rightarrow> (Inl e, h)
            | Inr r \<Rightarrow> (Inr (''0110|39='' @ au_responseCode r @ ''|switch='' @ sw), h))
         else if mti = mti_code FINANCIAL_REQUEST then
           (let (r, h') = host_authorizeWithdrawal ops env
                  \<lparr>wd_pan = pan, wd_amount = amount, wd_sessionId = sessionId, wd_switch = Some profile\<rparr> h
            in (Inr (''0210|39='' @ az_responseCode r @ ''|stan='' @ az_stanNo r @ ''|auth=''
                  @ js_default (az_authCode r) [] @ ''|switch='' @ sw), h'))
         else if mti = mti_code REVERSAL then (Inr (''0410|39=00|switch='' @ sw), h)
         else if mti = mti_code NETWORK_MGMT then (Inr (''0810|39=00|switch='' @ sw @ ''|alive=true''), h)
         else (Inr (''0810|39=12|reason=unsupported MTI '' @ mti), h))"

text \<open>\<open>handleMessage\<close> for the body of a frame. The text of a database error is the parameter \<open>msg\<close>. A
  response of more than 65535 bytes makes \<open>writeUInt16BE\<close> throw: it is logged and nothing is sent.
  The profile is looked up inside the \<open>try\<close>.\<close>

definition tcp_handleMessage ::
  "'db bank_ops \<Rightarrow> (db_error \<Rightarrow> string) \<Rightarrow> host_env \<Rightarrow> IsoSwitchId \<Rightarrow> byte list \<Rightarrow> 'db host
   \<Rightarrow> byte list option \<times> 'db host" where
  "tcp_handleMessage ops msg env sw frm h =
     (let body = ascii_decode frm; mti = take 4 body; fs = parseSimpleFields (drop 4 body);
          failed = (\<lambda>reason. mti_code NETWORK_MGMT_RESPONSE @ ''|39=96|reason='' @ reason);
          (response, h') = (case getSwitchById (switch_id_code sw) of
                       Inl e \<Rightarrow> (failed (''Unknown switch id: '' @ switch_id_code sw), h)
                     | Inr profile \<Rightarrow>
                         (case tcp_dispatch ops env profile mti fs h of
                            (Inr s, h') \<Rightarrow> (s, h')
                          | (Inl e, h') \<Rightarrow> (failed (msg e), h')))
      in (if 65535 < length response then None else Some (tcp_frame response), h'))"

text \<open>A chunk on a socket of a running transport: the counter, the responses and the host.\<close>

fun tcp_answers ::
  "'db bank_ops \<Rightarrow> (db_error \<Rightarrow> string) \<Rightarrow> host_env \<Rightarrow> IsoSwitchId \<Rightarrow> byte list list \<Rightarrow> 'db host
   \<Rightarrow> byte list list \<times> 'db host" where
  "tcp_answers ops msg env sw [] h = ([], h)"
| "tcp_answers ops msg env sw (f # fs) h =
     (let (r, h1) = tcp_handleMessage ops msg env sw f h; (rs, h2) = tcp_answers ops msg env sw fs h1
      in ((case r of None \<Rightarrow> rs | Some x \<Rightarrow> x # rs), h2))"

definition tcp_handleSocket ::
  "'db bank_ops \<Rightarrow> (db_error \<Rightarrow> string) \<Rightarrow> host_env \<Rightarrow> byte list \<Rightarrow> byte list \<Rightarrow> tcp_transport \<times> 'db host
   \<Rightarrow> byte list list \<times> byte list \<times> tcp_transport \<times> 'db host" where
  "tcp_handleSocket ops msg env chunk buf th =
     (let (t, h) = th; (frms, buf') = tcp_onData chunk buf;
          (rs, h') = tcp_answers ops msg env (tt_switchProfile t) frms h
      in (rs, buf', t\<lparr>tt_totalRequests := tt_totalRequests t + length frms\<rparr>, h'))"

definition tcp_connect :: "tcp_transport \<Rightarrow> tcp_transport" where
  "tcp_connect t = t\<lparr>tt_activeConnections := tt_activeConnections t + 1\<rparr>"

definition tcp_disconnect :: "tcp_transport \<Rightarrow> tcp_transport" where
  "tcp_disconnect t = t\<lparr>tt_activeConnections := tt_activeConnections t - 1\<rparr>"

end
