(* ===== verification/Host_Transports.thy ===== *)
theory Host_Transports
  imports Tcp_Transport Js_Value
begin

text \<open>
  The other host transports (\<^verbatim>\<open>in-process.transport.ts\<close> and
  \<^verbatim>\<open>iso20022-http.transport.ts\<close> of \<^verbatim>\<open>apps/xfs-server/src/host-transport/\<close>): the in-process one
  and ISO 20022 over HTTP. The XML parser and builder are parameters, as is what the operating system
  answers to a bind. Closing a server, which waits for its connections, is immediate here.
\<close>

section \<open>In-process transport\<close>

record in_process =
  ip_configId :: string
  ip_switchProfile :: IsoSwitchId
  ip_startedAt :: "string option"

definition ip_new :: "string \<Rightarrow> IsoSwitchId \<Rightarrow> in_process" where
  "ip_new cid sw = \<lparr>ip_configId = cid, ip_switchProfile = sw, ip_startedAt = None\<rparr>"

definition ip_start :: "string \<Rightarrow> in_process \<Rightarrow> in_process" where
  "ip_start now t = t\<lparr>ip_startedAt := Some now\<rparr>"

definition ip_stop :: "in_process \<Rightarrow> in_process" where
  "ip_stop t = t\<lparr>ip_startedAt := None\<rparr>"

definition ip_status :: "in_process \<Rightarrow> HostTransportRuntimeStatus" where
  "ip_status t =
     \<lparr>rs_kind = IN_PROCESS, rs_configId = ip_configId t, rs_listening = (ip_startedAt t \<noteq> None),
      rs_bindAddress = ''127.0.0.1'', rs_port = 0, rs_switchProfile = ip_switchProfile t,
      rs_activeConnections = 0, rs_totalRequests = 0, rs_startedAt = ip_startedAt t,
      rs_lastError = None\<rparr>"

section \<open>ISO 20022 over HTTP\<close>

text \<open>Reading the parsed document. A missing property of an object, and any property of a text or a
  list, is \<open>undefined\<close>.\<close>

fun jv_get :: "js_value \<Rightarrow> string \<Rightarrow> js_value" where
  "jv_get (JvObj kvs) k = js_default (map_of kvs k) JvUndefined"
| "jv_get v k = JvUndefined"

fun jv_truthy :: "js_value \<Rightarrow> bool" where
  "jv_truthy JvUndefined = False"
| "jv_truthy JvNull = False"
| "jv_truthy (JvBool b) = b"
| "jv_truthy (JvNum n) = (n \<noteq> js_int 0 \<and> n \<noteq> JNaN)"
| "jv_truthy (JvBig i) = (i \<noteq> 0)"
| "jv_truthy (JvStr s) = (s \<noteq> [])"
| "jv_truthy v = True"

fun jv_is_object :: "js_value \<Rightarrow> bool" where
  "jv_is_object (JvObj kvs) = True"
| "jv_is_object (JvArr vs) = True"
| "jv_is_object (JvDate t) = True"
| "jv_is_object (JvBuffer bs) = True"
| "jv_is_object JvNull = True"
| "jv_is_object v = False"

definition pickCdtTrfTxInf :: "js_value \<Rightarrow> js_value option" where
  "pickCdtTrfTxInf parsed =
     (let doc = jv_get parsed ''Document''; fi = jv_get doc ''FIToFICstmrCdtTrf'';
          cdt = jv_get fi ''CdtTrfTxInf''
      in if \<not> jv_truthy doc \<or> \<not> jv_truthy fi \<or> \<not> jv_truthy cdt \<or> \<not> jv_is_object cdt then None
         else (case cdt of
                 JvArr [] \<Rightarrow> None
               | JvArr (v # vs) \<Rightarrow> (if v = JvUndefined \<or> v = JvNull then None else Some v)
               | _ \<Rightarrow> Some cdt))"

fun jv_text :: "(jsnum \<Rightarrow> string) \<Rightarrow> js_value \<Rightarrow> string option" where
  "jv_text nt (JvStr s) = Some s"
| "jv_text nt (JvNum n) = Some (case js_to_int n of Some i \<Rightarrow> js_int_to_string i | None \<Rightarrow> nt n)"
| "jv_text nt v = None"

fun jv_walk :: "js_value \<Rightarrow> string list \<Rightarrow> js_value" where
  "jv_walk v [] = v"
| "jv_walk v (k # ks) = (if \<not> jv_truthy v \<or> \<not> jv_is_object v then JvUndefined else jv_walk (jv_get v k) ks)"

definition nestedString :: "(jsnum \<Rightarrow> string) \<Rightarrow> js_value \<Rightarrow> string list \<Rightarrow> string option" where
  "nestedString nt obj path =
     (let cur = jv_walk obj path
      in case jv_text nt cur of Some s \<Rightarrow> Some s | None \<Rightarrow> jv_text nt (jv_get cur ''#text''))"

definition mapResponseCodeToReason :: "string \<Rightarrow> string" where
  "mapResponseCodeToReason code =
     js_default (map_of [(''14'', ''AC01''), (''51'', ''AM04''), (''54'', ''AC04''), (''55'', ''AM05''),
       (''61'', ''AM01''), (''62'', ''AC06''), (''91'', ''AGNT'')] code) ''NARR''"

text \<open>The clock as the transport uses it, and the number formatting it relies on.\<close>

record http_env =
  ht_nowMs :: int
  ht_iso :: string
  ht_numText :: "jsnum \<Rightarrow> string"

definition buildPacs002 :: "http_env \<Rightarrow> string \<Rightarrow> string \<Rightarrow> string option \<Rightarrow> string \<Rightarrow> js_value" where
  "buildPacs002 env e2e status reason txt =
     (let addtl = (''AddtlInf'', JvStr txt);
          rsn = (case reason of
                   Some cd \<Rightarrow> [(''Rsn'', JvObj [(''Cd'', JvStr cd)]), addtl]
                 | None \<Rightarrow> [addtl])
      in JvObj
        [(''?xml'', JvObj [(''@_version'', JvStr ''1.0''), (''@_encoding'', JvStr ''UTF-8'')]),
         (''Document'', JvObj
           [(''@_xmlns'', JvStr ''urn:iso:std:iso:20022:tech:xsd:pacs.002.001.15''),
            (''FIToFIPmtStsRpt'', JvObj
              [(''GrpHdr'', JvObj [(''MsgId'', JvStr (''STS-'' @ js_int_to_string (ht_nowMs env))),
                                  (''CreDtTm'', JvStr (ht_iso env))]),
               (''TxInfAndSts'', JvObj
                 [(''OrgnlEndToEndId'', JvStr e2e), (''TxSts'', JvStr status),
                  (''StsRsnInf'', JvObj rsn)])])])])"

text \<open>\<open>handlePacs008\<close> on the parsed document.\<close>

definition handlePacs008 ::
  "'db bank_ops \<Rightarrow> host_env \<Rightarrow> http_env \<Rightarrow> string \<Rightarrow> js_value \<Rightarrow> 'db host
   \<Rightarrow> (string + js_value) \<times> 'db host" where
  "handlePacs008 ops henv env sw parsed h =
     (case Option.bind (pickCdtTrfTxInf parsed) (\<lambda>tx. if jv_truthy tx then Some tx else None) of
        None \<Rightarrow>
          (Inr (buildPacs002 env ''unknown'' ''RJCT'' (Some ''NARR'') ''Unable to locate CdtTrfTxInf in pacs.008''), h)
      | Some tx \<Rightarrow>
          (let txt = nestedString (ht_numText env) tx;
               e2e = js_default (txt [''PmtId'', ''EndToEndId'']) (''e2e-'' @ js_int_to_string (ht_nowMs env));
               amount = (case txt [''IntrBkSttlmAmt''] of Some s \<Rightarrow> js_Number s | None \<Rightarrow> js_int 0);
               pan = js_default (txt [''DbtrAcct'', ''Id'', ''Othr'', ''Id'']) []
           in if pan = [] then (Inr (buildPacs002 env e2e ''RJCT'' (Some ''AC01'') ''Debtor account missing''), h)
              else
                (case getSwitchById sw of
                   Inl e \<Rightarrow> (Inl (''Unknown switch id: '' @ sw), h)
                 | Inr profile \<Rightarrow>
                     (let (r, h') = host_authorizeWithdrawal ops henv
                            \<lparr>wd_pan = pan, wd_amount = amount, wd_sessionId = ''pacs008-'' @ e2e,
                             wd_switch = Some profile\<rparr> h
                      in (Inr (buildPacs002 env e2e (if az_approved r then ''ACSC'' else ''RJCT'')
                            (if az_approved r then None else Some (mapResponseCodeToReason (az_responseCode r)))
                            (if az_approved r
                             then ''Authorized via '' @ az_switchName r @ '' stan='' @ az_stanNo r @ '' auth=''
                                    @ js_default (az_authCode r) []
                             else ''Declined via '' @ az_switchName r @ '' (responseCode='' @ az_responseCode r
                                    @ ''): '' @ js_default (az_reason r) ''unknown'')), h')))))"

record http_transport =
  hp_configId :: string
  hp_bindAddress :: string
  hp_port :: nat
  hp_switchProfile :: IsoSwitchId
  hp_server :: bool
  hp_startedAt :: "string option"
  hp_activeConnections :: int
  hp_totalRequests :: nat
  hp_lastError :: "string option"

definition http_new :: "string \<Rightarrow> string \<Rightarrow> nat \<Rightarrow> IsoSwitchId \<Rightarrow> http_transport" where
  "http_new cid addr port sw =
     \<lparr>hp_configId = cid, hp_bindAddress = addr, hp_port = port, hp_switchProfile = sw,
      hp_server = False, hp_startedAt = None, hp_activeConnections = 0, hp_totalRequests = 0,
      hp_lastError = None\<rparr>"

definition http_start :: "string + string \<Rightarrow> http_transport \<Rightarrow> (string + unit) \<times> http_transport" where
  "http_start bound t =
     (if hp_server t then (Inr (), t)
      else (case bound of
              Inl msg \<Rightarrow> (Inl (bind_failure (hp_bindAddress t) (hp_port t) msg), t\<lparr>hp_server := False, hp_lastError := Some msg\<rparr>)
            | Inr now \<Rightarrow> (Inr (), t\<lparr>hp_server := True, hp_startedAt := Some now\<rparr>)))"

definition http_stop :: "http_transport \<Rightarrow> http_transport" where
  "http_stop t =
     (if \<not> hp_server t then t
      else t\<lparr>hp_startedAt := None, hp_server := False, hp_activeConnections := 0\<rparr>)"

definition http_status :: "http_transport \<Rightarrow> HostTransportRuntimeStatus" where
  "http_status t =
     \<lparr>rs_kind = ISO20022_HTTP, rs_configId = hp_configId t,
      rs_listening = (hp_server t \<and> hp_startedAt t \<noteq> None), rs_bindAddress = hp_bindAddress t,
      rs_port = hp_port t, rs_switchProfile = hp_switchProfile t,
      rs_activeConnections = hp_activeConnections t, rs_totalRequests = hp_totalRequests t,
      rs_startedAt = hp_startedAt t, rs_lastError = hp_lastError t\<rparr>"

text \<open>\<open>handleRequest\<close>: the status code and the document sent back. The XML parser gives a document or
  fails with a message. A health check and an error are JSON documents.\<close>

definition handleRequest ::
  "'db bank_ops \<Rightarrow> host_env \<Rightarrow> http_env \<Rightarrow> (string \<Rightarrow> string + js_value) \<Rightarrow> string \<Rightarrow> string \<Rightarrow> string
   \<Rightarrow> http_transport \<times> 'db host \<Rightarrow> (nat \<times> js_value) \<times> http_transport \<times> 'db host" where
  "handleRequest ops henv env parse verb url body th =
     (let (t, h) = th; sw = switch_id_code (hp_switchProfile t)
      in if verb = ''GET'' \<and> url = ''/health'' then
           ((200, JvObj [(''status'', JvStr ''ok''), (''switch'', JvStr sw), (''kind'', JvStr ''ISO20022_HTTP'')]), t, h)
         else if verb = ''POST'' \<and> (url = ''/pacs.008'' \<or> url = ''/'') then
           (let t1 = t\<lparr>hp_totalRequests := hp_totalRequests t + 1\<rparr>;
                failed = (\<lambda>m. (500, JvObj [(''error'', JvStr m)]))
            in case parse body of
                 Inl m \<Rightarrow> (failed m, t1, h)
               | Inr doc \<Rightarrow>
                   (case handlePacs008 ops henv env sw doc h of
                      (Inl m, h') \<Rightarrow> (failed m, t1, h')
                    | (Inr d, h') \<Rightarrow> ((200, d), t1, h')))
         else ((404, JvObj [(''error'', JvStr ''Use POST /pacs.008 or GET /health'')]), t, h))"

end
