(* ===== verification/Transport_Manager.thy ===== *)
theory Transport_Manager
  imports Host_Transports
begin

text \<open>
  The service that manages the host transports
  (\<^verbatim>\<open>apps/xfs-server/src/host-transport/host-transport-manager.service.ts\<close>): the stored
  configurations, the running listeners, and the operations of the operator console on both. Every write
  of the table may fail, and a second row of the same name is refused; what a bind gives is a parameter.
  A read that fails only ends its request earlier, in a state that other requests reach as well; it is
  left out. The operations run one after the other here; \<open>startConfig\<close> is cut where it awaits, so that a
  request in between can be put there. A stopped transport is dropped: nothing reads it again.
\<close>

section \<open>State\<close>

text \<open>A row keeps its kind and switch as text.\<close>

record ht_row =
  hr_id :: string
  hr_name :: string
  hr_kind :: string
  hr_bindAddress :: string
  hr_port :: nat
  hr_switchProfile :: string
  hr_tlsEnabled :: bool
  hr_enabled :: bool
  hr_isPrimary :: bool
  hr_notes :: "string option"

datatype transport = T_InProcess in_process | T_Tcp tcp_transport | T_Http http_transport

record ht_manager =
  hm_rows :: "ht_row list"
  hm_running :: "(string \<times> transport) list"

record ht_env =
  he_newId :: string
  he_now :: string
  he_bind :: "string \<Rightarrow> nat \<Rightarrow> string + string"
  he_createUp :: bool
  he_updateUp :: "string \<Rightarrow> bool"
  he_deleteUp :: bool

datatype ht_error = HtNotFound string | HtBadRequest string | HtBindFailed string | HtDuplicateName
  | HtDbFailure | HtRecordNotFound

fun kind_code :: "HostTransportKind \<Rightarrow> string" where
  "kind_code IN_PROCESS = ''IN_PROCESS''"
| "kind_code ISO8583_TCP = ''ISO8583_TCP''"
| "kind_code ISO20022_HTTP = ''ISO20022_HTTP''"

definition VALID_KINDS :: "HostTransportKind list" where
  "VALID_KINDS = [IN_PROCESS, ISO8583_TCP, ISO20022_HTTP]"

definition VALID_SWITCHES :: "IsoSwitchId list" where
  "VALID_SWITCHES = map sp_id ALL_SWITCH_PROFILES"

definition quoted :: "string \<Rightarrow> string" where
  "quoted s = CHR 0x27 # s @ [CHR 0x27]"

definition requireKind :: "string option \<Rightarrow> ht_error + HostTransportKind" where
  "requireKind k =
     (case find (\<lambda>x. Some (kind_code x) = k) VALID_KINDS of
        Some x \<Rightarrow> Inr x
      | None \<Rightarrow> Inl (HtBadRequest (''Invalid kind '' @ quoted (js_default k ''undefined'')
                 @ ''. Use one of: '' @ js_join '', '' (map kind_code VALID_KINDS))))"

definition requireSwitch :: "string \<Rightarrow> ht_error + IsoSwitchId" where
  "requireSwitch s =
     (case find (\<lambda>x. switch_id_code x = s) VALID_SWITCHES of
        Some x \<Rightarrow> Inr x
      | None \<Rightarrow> Inl (HtBadRequest (''Invalid switchProfile '' @ quoted s @ ''. Use one of: ''
                 @ js_join '', '' (map switch_id_code VALID_SWITCHES))))"

definition normalizePort :: "HostTransportKind \<Rightarrow> jsnum option \<Rightarrow> ht_error + nat" where
  "normalizePort kind port =
     (if kind = IN_PROCESS then Inr 0
      else (let bad = Inl (HtBadRequest (''port must be 1-65535 for '' @ kind_code kind))
            in case js_to_int (js_default port JNaN) of
                 None \<Rightarrow> bad
               | Some p \<Rightarrow> if p < 1 \<or> 65535 < p then bad else Inr (nat p)))"

section \<open>Listeners\<close>

definition buildTransport :: "ht_row \<Rightarrow> ht_error + transport" where
  "buildTransport row =
     sum_bind (requireKind (Some (hr_kind row))) (\<lambda>kind.
     sum_bind (requireSwitch (hr_switchProfile row)) (\<lambda>sw.
       Inr (case kind of
              IN_PROCESS \<Rightarrow> T_InProcess (ip_new (hr_id row) sw)
            | ISO8583_TCP \<Rightarrow> T_Tcp (tcp_new (hr_id row) (hr_bindAddress row) (hr_port row) sw)
            | ISO20022_HTTP \<Rightarrow> T_Http (http_new (hr_id row) (hr_bindAddress row) (hr_port row) sw))))"

fun transport_start :: "ht_env \<Rightarrow> transport \<Rightarrow> ht_error + transport" where
  "transport_start env (T_InProcess t) =
     Inr (T_InProcess (ip_start (he_now env) t))"
| "transport_start env (T_Tcp t) =
     (case tcp_start (he_bind env (tt_bindAddress t) (tt_port t)) t of
        (Inl m, t') \<Rightarrow> Inl (HtBindFailed m) | (Inr u, t') \<Rightarrow> Inr (T_Tcp t'))"
| "transport_start env (T_Http t) =
     (case http_start (he_bind env (hp_bindAddress t) (hp_port t)) t of
        (Inl m, t') \<Rightarrow> Inl (HtBindFailed m) | (Inr u, t') \<Rightarrow> Inr (T_Http t'))"

fun transport_stop :: "transport \<Rightarrow> transport" where
  "transport_stop (T_InProcess t) = T_InProcess (ip_stop t)"
| "transport_stop (T_Tcp t) = T_Tcp (tcp_stop t)"
| "transport_stop (T_Http t) = T_Http (http_stop t)"

fun transport_status :: "transport \<Rightarrow> HostTransportRuntimeStatus" where
  "transport_status (T_InProcess t) = ip_status t"
| "transport_status (T_Tcp t) = tcp_status t"
| "transport_status (T_Http t) = http_status t"

text \<open>The contract of the listeners (\<open>IHostTransport\<close>): the configuration is fixed, a start that
  returns listens, and a stop ends it.\<close>

definition rs_config :: "HostTransportRuntimeStatus \<Rightarrow>
    HostTransportKind \<times> string \<times> string \<times> nat \<times> IsoSwitchId" where
  "rs_config s = (rs_kind s, rs_configId s, rs_bindAddress s, rs_port s, rs_switchProfile s)"

locale host_listener =
  fixes start :: "'e \<Rightarrow> 't \<Rightarrow> 'x + 't" and stop :: "'t \<Rightarrow> 't"
    and status :: "'t \<Rightarrow> HostTransportRuntimeStatus"
    and fresh :: "'t \<Rightarrow> bool"
  assumes start_config: "start e t = Inr t' \<Longrightarrow> rs_config (status t') = rs_config (status t)"
    and start_listens: "fresh t \<Longrightarrow> start e t = Inr t' \<Longrightarrow> rs_listening (status t')"
    and stop_config: "rs_config (status (stop t)) = rs_config (status t)"
    and stop_silent: "\<not> rs_listening (status (stop t))"
    and fresh_silent: "fresh t \<Longrightarrow> \<not> rs_listening (status t)"
begin

lemma restart_config:
  assumes "start e (stop t) = Inr t'"
  shows "rs_config (status t') = rs_config (status t)"
  using start_config [OF assms] stop_config by simp

lemma started_runs:
  assumes "fresh t" and "start e t = Inr t'" and "rs_config (status t) = c"
  shows "rs_listening (status t') \<and> rs_config (status t') = c"
  using start_listens [OF assms(1, 2)] start_config [OF assms(2)] assms(3) by simp

end

fun transport_fresh :: "transport \<Rightarrow> bool" where
  "transport_fresh (T_InProcess t) = (ip_startedAt t = None)"
| "transport_fresh (T_Tcp t) = (\<not> tt_server t)"
| "transport_fresh (T_Http t) = (\<not> hp_server t)"

lemma transport_start_cases:
  assumes "transport_start env t = Inr t'"
  shows "rs_config (transport_status t') = rs_config (transport_status t)
    \<and> (transport_fresh t \<longrightarrow> rs_listening (transport_status t'))"
  using assms
  by (cases t) (auto simp: ip_start_def ip_status_def tcp_start_def tcp_status_def http_start_def
      http_status_def rs_config_def split: sum.splits if_splits)

lemma transport_stop_cases:
  "rs_config (transport_status (transport_stop t)) = rs_config (transport_status t)
    \<and> \<not> rs_listening (transport_status (transport_stop t))"
  by (cases t) (auto simp: ip_stop_def ip_status_def tcp_stop_def tcp_status_def http_stop_def
      http_status_def rs_config_def)

lemma transport_fresh_silent: "transport_fresh t \<Longrightarrow> \<not> rs_listening (transport_status t)"
  by (cases t) (auto simp: ip_status_def tcp_status_def http_status_def)

interpretation listener: host_listener transport_start transport_stop transport_status transport_fresh
  by unfold_locales (auto simp: transport_start_cases transport_stop_cases transport_fresh_silent)

section \<open>Operations\<close>

record HostTransportConfigDto =
  dto_row :: ht_row
  dto_kind :: HostTransportKind
  dto_switchProfile :: IsoSwitchId
  dto_status :: HostTransportRuntimeStatus

definition hm_toDto :: "ht_manager \<Rightarrow> ht_row \<Rightarrow> ht_error + HostTransportConfigDto" where
  "hm_toDto m row =
     sum_bind (requireKind (Some (hr_kind row))) (\<lambda>kind.
     sum_bind (requireSwitch (hr_switchProfile row)) (\<lambda>sw.
       Inr \<lparr>dto_row = row, dto_kind = kind, dto_switchProfile = sw,
            dto_status = (case map_of (hm_running m) (hr_id row) of
               Some t \<Rightarrow> transport_status t
             | None \<Rightarrow>
                 \<lparr>rs_kind = kind, rs_configId = hr_id row, rs_listening = False,
                  rs_bindAddress = hr_bindAddress row, rs_port = hr_port row, rs_switchProfile = sw,
                  rs_activeConnections = 0, rs_totalRequests = 0, rs_startedAt = None,
                  rs_lastError = None\<rparr>)\<rparr>))"

definition hm_find :: "string \<Rightarrow> ht_manager \<Rightarrow> ht_row option" where
  "hm_find i m = find (\<lambda>r. hr_id r = i) (hm_rows m)"

definition not_found :: "string \<Rightarrow> ht_error" where
  "not_found i = HtNotFound (''HostTransportConfig '' @ i @ '' not found'')"

definition hm_put :: "ht_row \<Rightarrow> ht_manager \<Rightarrow> ht_manager" where
  "hm_put row m = m\<lparr>hm_rows := map (\<lambda>r. if hr_id r = hr_id row then row else r) (hm_rows m)\<rparr>"

record ht_input =
  hi_name :: "string option"
  hi_kind :: "string option"
  hi_bindAddress :: "string option"
  hi_port :: "jsnum option"
  hi_switchProfile :: "string option"
  hi_tlsEnabled :: "bool option"
  hi_isPrimary :: "bool option"
  hi_notes :: "string option"

type_synonym 'a ht_op = "ht_manager \<Rightarrow> (ht_error + 'a) \<times> ht_manager"

definition hm_get :: "string \<Rightarrow> HostTransportConfigDto ht_op" where
  "hm_get i m = ((case hm_find i m of None \<Rightarrow> Inl (not_found i) | Some row \<Rightarrow> hm_toDto m row), m)"

text \<open>The order of \<open>list\<close> is the database's, so the sorted rows are an argument.\<close>

fun hm_list :: "ht_row list \<Rightarrow> ht_manager \<Rightarrow> ht_error + HostTransportConfigDto list" where
  "hm_list [] m = Inr []"
| "hm_list (row # rows) m =
     sum_bind (hm_toDto m row) (\<lambda>d. sum_bind (hm_list rows m) (\<lambda>ds. Inr (d # ds)))"

text \<open>The row that \<open>create\<close> stores, and the row that \<open>update\<close> makes of a stored one.\<close>

definition created_row :: "ht_env \<Rightarrow> ht_input \<Rightarrow> ht_error + ht_row" where
  "created_row env inp =
     sum_bind (requireKind (hi_kind inp)) (\<lambda>kind.
     sum_bind (requireSwitch (js_default (hi_switchProfile inp) ''JALIN'')) (\<lambda>sw.
     sum_bind (normalizePort kind (hi_port inp)) (\<lambda>port.
       Inr \<lparr>hr_id = he_newId env,
            hr_name = js_default (hi_name inp) (kind_code kind @ '' '' @ js_itoa port),
            hr_kind = kind_code kind, hr_bindAddress = js_default (hi_bindAddress inp) ''127.0.0.1'',
            hr_port = port, hr_switchProfile = switch_id_code sw,
            hr_tlsEnabled = js_default (hi_tlsEnabled inp) False, hr_enabled = False,
            hr_isPrimary = js_default (hi_isPrimary inp) False, hr_notes = hi_notes inp\<rparr>)))"

definition edit_kind :: "ht_input \<Rightarrow> ht_row \<Rightarrow> ht_error + string" where
  "edit_kind inp old =
     (if js_default (hi_kind inp) [] = [] then Inr (hr_kind old)
      else sum_bind (requireKind (hi_kind inp)) (\<lambda>k. Inr (kind_code k)))"

definition edit_switch :: "ht_input \<Rightarrow> ht_row \<Rightarrow> ht_error + string" where
  "edit_switch inp old =
     (if js_default (hi_switchProfile inp) [] = [] then Inr (hr_switchProfile old)
      else sum_bind (requireSwitch (js_default (hi_switchProfile inp) [])) (\<lambda>sw. Inr (switch_id_code sw)))"

definition edit_port :: "ht_input \<Rightarrow> string \<Rightarrow> ht_row \<Rightarrow> ht_error + nat" where
  "edit_port inp kind old =
     (case hi_port inp of
        None \<Rightarrow> Inr (hr_port old)
      | Some p \<Rightarrow> sum_bind (requireKind (Some kind)) (\<lambda>k. normalizePort k (Some p)))"

definition updated_row :: "ht_input \<Rightarrow> ht_row \<Rightarrow> ht_error + ht_row" where
  "updated_row inp old =
     sum_bind (edit_kind inp old) (\<lambda>kind.
     sum_bind (edit_switch inp old) (\<lambda>sw.
     sum_bind (edit_port inp kind old) (\<lambda>port.
       Inr (old\<lparr>hr_name := js_default (hi_name inp) (hr_name old), hr_kind := kind,
            hr_bindAddress := js_default (hi_bindAddress inp) (hr_bindAddress old),
            hr_port := port, hr_switchProfile := sw,
            hr_tlsEnabled := js_default (hi_tlsEnabled inp) (hr_tlsEnabled old),
            hr_isPrimary := js_default (hi_isPrimary inp) (hr_isPrimary old),
            hr_notes := (case hi_notes inp of None \<Rightarrow> hr_notes old | x \<Rightarrow> x)\<rparr>))))"

definition hm_create :: "ht_env \<Rightarrow> ht_input \<Rightarrow> HostTransportConfigDto ht_op" where
  "hm_create env inp m =
     (case created_row env inp of
        Inl e \<Rightarrow> (Inl e, m)
      | Inr row \<Rightarrow>
          if \<not> he_createUp env then (Inl HtDbFailure, m)
          else if hr_name row \<in> hr_name ` set (hm_rows m) then (Inl HtDuplicateName, m)
          else (let m' = m\<lparr>hm_rows := hm_rows m @ [row]\<rparr> in (hm_toDto m' row, m')))"

definition hm_update :: "ht_env \<Rightarrow> string \<Rightarrow> ht_input \<Rightarrow> HostTransportConfigDto ht_op" where
  "hm_update env i inp m =
     (case hm_find i m of
        None \<Rightarrow> (Inl (not_found i), m)
      | Some old \<Rightarrow>
          if hr_enabled old then (Inl (HtBadRequest ''Stop the listener before editing its config''), m)
          else
            (case updated_row inp old of
               Inl e \<Rightarrow> (Inl e, m)
             | Inr row \<Rightarrow>
                 if \<not> he_updateUp env i then (Inl HtDbFailure, m)
                 else if hr_name row \<in> hr_name ` set (filter (\<lambda>r. hr_id r \<noteq> i) (hm_rows m))
                 then (Inl HtDuplicateName, m)
                 else (let m' = hm_put row m in (hm_toDto m' row, m'))))"

text \<open>The update of the flag alone, on the row as it is stored now.\<close>

definition hm_setEnabled :: "ht_env \<Rightarrow> string \<Rightarrow> bool \<Rightarrow> unit ht_op" where
  "hm_setEnabled env i on m =
     (if \<not> he_updateUp env i then (Inl HtDbFailure, m)
      else if hm_find i m = None then (Inl HtRecordNotFound, m)
      else (Inr (), m\<lparr>hm_rows := map (\<lambda>r. if hr_id r = i then r\<lparr>hr_enabled := on\<rparr> else r) (hm_rows m)\<rparr>))"

text \<open>\<open>startConfig\<close> and \<open>stopConfig\<close> after the read of the row: the listener is started and entered, or
  stopped and dropped, before the row is updated; the answer is made of the row as it was read.\<close>

definition hm_start_listener :: "ht_env \<Rightarrow> ht_row \<Rightarrow> HostTransportConfigDto option ht_op" where
  "hm_start_listener env row m =
     (if map_of (hm_running m) (hr_id row) \<noteq> None then (map_sum id Some (hm_toDto m row), m)
      else
        (case sum_bind (buildTransport row) (transport_start env) of
           Inl e \<Rightarrow> (Inl e, m)
         | Inr t \<Rightarrow> (Inr None, m\<lparr>hm_running := AList.update (hr_id row) t (hm_running m)\<rparr>)))"

definition hm_store :: "ht_env \<Rightarrow> ht_row \<Rightarrow> bool \<Rightarrow> HostTransportConfigDto ht_op" where
  "hm_store env row on m =
     (case hm_setEnabled env (hr_id row) on m of
        (Inl e, m') \<Rightarrow> (Inl e, m')
      | (Inr u, m') \<Rightarrow> (hm_toDto m' (row\<lparr>hr_enabled := on\<rparr>), m'))"

definition hm_startConfig :: "ht_env \<Rightarrow> string \<Rightarrow> HostTransportConfigDto ht_op" where
  "hm_startConfig env i m =
     (case hm_find i m of
        None \<Rightarrow> (Inl (not_found i), m)
      | Some row \<Rightarrow>
          (case hm_start_listener env row m of
             (Inl e, m') \<Rightarrow> (Inl e, m')
           | (Inr (Some d), m') \<Rightarrow> (Inr d, m')
           | (Inr None, m') \<Rightarrow> hm_store env row True m'))"

definition hm_stopConfig :: "ht_env \<Rightarrow> string \<Rightarrow> HostTransportConfigDto ht_op" where
  "hm_stopConfig env i m =
     (case hm_find i m of
        None \<Rightarrow> (Inl (not_found i), m)
      | Some row \<Rightarrow> hm_store env row False (m\<lparr>hm_running := AList.delete i (hm_running m)\<rparr>))"

text \<open>The loop of \<open>setActive\<close> over the peers, which stops those that run and ends at the first
  failure; \<open>delete\<close> does the same with its one row.\<close>

fun hm_stop_all :: "ht_env \<Rightarrow> ht_row list \<Rightarrow> unit ht_op" where
  "hm_stop_all env [] m = (Inr (), m)"
| "hm_stop_all env (peer # peers) m =
     (if map_of (hm_running m) (hr_id peer) = None then hm_stop_all env peers m
      else (case hm_stopConfig env (hr_id peer) m of
              (Inl e, m') \<Rightarrow> (Inl e, m')
            | (Inr d, m') \<Rightarrow> hm_stop_all env peers m'))"

definition hm_setActive :: "ht_env \<Rightarrow> string \<Rightarrow> HostTransportConfigDto ht_op" where
  "hm_setActive env i m =
     (case hm_find i m of
        None \<Rightarrow> (Inl (not_found i), m)
      | Some target \<Rightarrow>
          (case hm_stop_all env (filter (\<lambda>r. hr_kind r = hr_kind target \<and> hr_id r \<noteq> i) (hm_rows m)) m of
             (Inl e, m') \<Rightarrow> (Inl e, m')
           | (Inr u, m') \<Rightarrow> hm_startConfig env i m'))"

definition hm_delete :: "ht_env \<Rightarrow> string \<Rightarrow> unit ht_op" where
  "hm_delete env i m =
     (case hm_find i m of
        None \<Rightarrow> (Inl (not_found i), m)
      | Some row \<Rightarrow>
          (case hm_stop_all env [row] m of
             (Inl e, m') \<Rightarrow> (Inl e, m')
           | (Inr u, m') \<Rightarrow>
               if \<not> he_deleteUp env then (Inl HtDbFailure, m')
               else (Inr (), m'\<lparr>hm_rows := filter (\<lambda>r. hr_id r \<noteq> i) (hm_rows m')\<rparr>)))"

section \<open>Start-up\<close>

definition seed_rows :: "(string \<times> HostTransportKind \<times> nat \<times> IsoSwitchId \<times> bool \<times> string) list" where
  "seed_rows =
     [(''In-Process (default)'', IN_PROCESS, 0, JALIN, True,
         ''Direct method call from ATM state machine '' @ [CHR 0xE2, CHR 0x80, CHR 0x94]
           @ '' no network. Default for native mode.''),
      (''Jalin ISO 8583 TCP'', ISO8583_TCP, 8583, JALIN, False,
         ''2-byte length-prefixed ASCII frames. Mandiri-anchored BIN ranges.''),
      (''BI-FAST ISO 20022 HTTP'', ISO20022_HTTP, 8443, BIFAST, False,
         ''POST /pacs.008 '' @ [CHR 0xE2, CHR 0x86, CHR 0x92] @ '' pacs.002 status report. BI-FAST style.'')]"

text \<open>A seed row is created unless its name exists; the ids of new rows are given.\<close>

fun hm_seed :: "(string \<times> string \<times> HostTransportKind \<times> nat \<times> IsoSwitchId \<times> bool \<times> string) list
    \<Rightarrow> ht_manager \<Rightarrow> ht_manager" where
  "hm_seed [] m = m"
| "hm_seed ((i, name, kind, port, sw, on, txt) # seeds) m =
     hm_seed seeds
       (if name \<in> hr_name ` set (hm_rows m) then m
        else m\<lparr>hm_rows := hm_rows m @
          [\<lparr>hr_id = i, hr_name = name, hr_kind = kind_code kind, hr_bindAddress = ''127.0.0.1'',
            hr_port = port, hr_switchProfile = switch_id_code sw, hr_tlsEnabled = False,
            hr_enabled = on, hr_isPrimary = on, hr_notes = Some txt\<rparr>]\<rparr>)"

fun hm_autostart :: "ht_env \<Rightarrow> ht_row list \<Rightarrow> ht_manager \<Rightarrow> ht_manager" where
  "hm_autostart env [] m = m"
| "hm_autostart env (row # rows) m = hm_autostart env rows (snd (hm_startConfig env (hr_id row) m))"

definition hm_onModuleInit :: "ht_env \<Rightarrow> string list \<Rightarrow> ht_manager \<Rightarrow> ht_manager" where
  "hm_onModuleInit env ids m =
     (let m1 = hm_seed (zip ids seed_rows) m in hm_autostart env (filter hr_enabled (hm_rows m1)) m1)"

definition hm_onModuleDestroy :: "ht_manager \<Rightarrow> ht_manager" where
  "hm_onModuleDestroy m = m\<lparr>hm_running := []\<rparr>"

end
