(* ===== verification/Chunked.thy ===== *)
theory Chunked
  imports Main
begin

text \<open>
  Data handlers of byte streams. A handler takes a chunk and its buffered state and gives the frames
  that the chunk completes. When one chunk does what its two halves do, the frames of a stream do not
  depend on how the network cuts it into chunks.
\<close>

fun chunk_stream :: "('b list \<Rightarrow> 's \<Rightarrow> 'f list \<times> 's) \<Rightarrow> 'b list list \<Rightarrow> 's \<Rightarrow> 'f list \<times> 's" where
  "chunk_stream handler [] s = ([], s)"
| "chunk_stream handler (c # cs) s =
     (let (fs, s1) = handler c s; (gs, s2) = chunk_stream handler cs s1 in (fs @ gs, s2))"

locale chunk_handler =
  fixes handler :: "'b list \<Rightarrow> 's \<Rightarrow> 'f list \<times> 's"
    and idle :: "'s \<Rightarrow> bool"
  assumes halves: "handler (xs @ ys) s =
      (fst (handler xs s) @ fst (handler ys (snd (handler xs s))), snd (handler ys (snd (handler xs s))))"
    and no_data: "idle s \<Longrightarrow> handler [] s = ([], s)"
    and settles: "idle (snd (handler xs s))"
begin

lemma stream_whole: "idle s \<Longrightarrow> chunk_stream handler chunks s = handler (concat chunks) s"
proof (induction chunks arbitrary: s)
  case Nil
  then show ?case by (simp add: no_data)
next
  case (Cons c cs)
  then show ?case using Cons.IH [OF settles] halves [of c "concat cs" s] by (simp add: split_def Let_def)
qed

text \<open>Two ways to cut the same stream give the same frames and the same state.\<close>

lemma stream_invariant:
  "idle s \<Longrightarrow> concat xs = concat ys \<Longrightarrow> chunk_stream handler xs s = chunk_stream handler ys s"
  by (simp add: stream_whole)

end

end
