(* ===== verification/Tcp_Props.thy ===== *)
theory Tcp_Props
  imports Tcp_Transport Chunked Host_Theorems
begin

text \<open>
  The TCP transport: framing does not depend on how the stream is cut into chunks, messages survive
  framing, and a financial request is answered with the decision of the host.
\<close>

section \<open>Framing\<close>

lemma readUInt16BE_append: "2 \<le> length xs \<Longrightarrow> readUInt16BE (xs @ ys) = readUInt16BE xs"
  by (auto simp: readUInt16BE_def nth_append)

lemma readUInt16BE_write:
  assumes "n < 65536"
  shows "readUInt16BE (writeUInt16BE n @ xs) = n"
proof -
  have "unat (of_nat (n div 256) :: byte) = n div 256" "unat (of_nat (n mod 256) :: byte) = n mod 256"
    using assms by (simp_all add: unat_of_nat take_bit_eq_mod div_less)
  then show ?thesis by (simp add: readUInt16BE_def writeUInt16BE_def)
qed

lemma tcp_frames_short: "length buf < 2 \<Longrightarrow> tcp_frames buf = ([], buf)"
  by (simp add: tcp_frames.simps)

lemma tcp_frames_partial: "length buf < 2 + readUInt16BE buf \<Longrightarrow> tcp_frames buf = ([], buf)"
  by (subst tcp_frames.simps) simp

lemma tcp_frames_step:
  "2 \<le> length buf \<Longrightarrow> 2 + readUInt16BE buf \<le> length buf \<Longrightarrow>
   tcp_frames buf = (take (readUInt16BE buf) (drop 2 buf) # fst (tcp_frames (drop (2 + readUInt16BE buf) buf)),
     snd (tcp_frames (drop (2 + readUInt16BE buf) buf)))"
  by (subst tcp_frames.simps) (simp add: Let_def split_def)

lemma tcp_frames_append:
  "tcp_frames (xs @ ys) = (fst (tcp_frames xs) @ fst (tcp_frames (snd (tcp_frames xs) @ ys)),
     snd (tcp_frames (snd (tcp_frames xs) @ ys)))"
proof (induction xs rule: tcp_frames.induct)
  case (1 xs)
  show ?case
  proof (cases "length xs < 2 \<or> length xs < 2 + readUInt16BE xs")
    case True
    then have "tcp_frames xs = ([], xs)" using tcp_frames_short tcp_frames_partial by blast
    then show ?thesis by simp
  next
    case False
    then have "tcp_frames (drop (2 + readUInt16BE xs) xs @ ys)
        = (fst (tcp_frames (drop (2 + readUInt16BE xs) xs))
             @ fst (tcp_frames (snd (tcp_frames (drop (2 + readUInt16BE xs) xs)) @ ys)),
           snd (tcp_frames (snd (tcp_frames (drop (2 + readUInt16BE xs) xs)) @ ys)))"
      using 1 by simp
    moreover have "tcp_frames (xs @ ys) = (take (readUInt16BE xs) (drop 2 xs)
        # fst (tcp_frames (drop (2 + readUInt16BE xs) xs @ ys)),
        snd (tcp_frames (drop (2 + readUInt16BE xs) xs @ ys)))"
      using False tcp_frames_step [of "xs @ ys"] by (simp add: readUInt16BE_append)
    ultimately show ?thesis using False tcp_frames_step [of xs] by simp
  qed
qed

lemma tcp_frames_rest: "tcp_frames (snd (tcp_frames xs)) = ([], snd (tcp_frames xs))"
proof (induction xs rule: tcp_frames.induct)
  case (1 xs)
  show ?case
  proof (cases "length xs < 2 \<or> length xs < 2 + readUInt16BE xs")
    case True
    then show ?thesis using tcp_frames_short tcp_frames_partial by force
  next
    case False
    then show ?thesis using 1 tcp_frames_step [of xs] by simp
  qed
qed

interpretation tcp_chunks: chunk_handler tcp_onData "\<lambda>buf. tcp_frames buf = ([], buf)"
proof unfold_locales
  fix xs ys s :: "byte list"
  show "tcp_onData (xs @ ys) s = (fst (tcp_onData xs s) @ fst (tcp_onData ys (snd (tcp_onData xs s))),
      snd (tcp_onData ys (snd (tcp_onData xs s))))"
    using tcp_frames_append [of "s @ xs" ys] by (simp add: tcp_onData_def)
  show "tcp_frames s = ([], s) \<Longrightarrow> tcp_onData [] s = ([], s)" by (simp add: tcp_onData_def)
  show "tcp_frames (snd (tcp_onData xs s)) = ([], snd (tcp_onData xs s))" by (simp add: tcp_onData_def tcp_frames_rest)
qed

lemma tcp_stream_chunks: "tcp_stream chunks buf = chunk_stream tcp_onData chunks buf"
  by (induction chunks arbitrary: buf) (simp_all add: Let_def split_def)

lemma tcp_stream_whole: "tcp_stream chunks [] = tcp_frames (concat chunks)"
  using tcp_chunks.stream_whole [of "[]" chunks] by (simp add: tcp_stream_chunks tcp_frames_short tcp_onData_def)

text \<open>The frames taken from a socket do not depend on how the network cuts the byte stream into
  chunks: any sequence of chunks gives the frames, and the unread rest, of the whole stream.\<close>

theorem tcp_framing_chunk_invariant:
  "tcp_stream chunks [] = tcp_frames (concat chunks)"
  by (rule tcp_stream_whole)

lemma tcp_frames_frame:
  assumes "length s < 65536"
  shows "tcp_frames (tcp_frame s @ xs) = (ascii_encode s # fst (tcp_frames xs), snd (tcp_frames xs))"
proof -
  have len: "length (writeUInt16BE (length s)) = 2" "length (ascii_encode s) = length s"
    by (simp_all add: writeUInt16BE_def ascii_encode_def)
  have r: "readUInt16BE (tcp_frame s @ xs) = length s"
    using assms by (simp add: tcp_frame_def readUInt16BE_write)
  have d: "drop 2 (tcp_frame s @ xs) = ascii_encode s @ xs" "drop (2 + length s) (tcp_frame s @ xs) = xs"
    using len by (simp_all add: tcp_frame_def)
  show ?thesis
    using tcp_frames_step [of "tcp_frame s @ xs"] d len unfolding r by (simp add: tcp_frame_def)
qed

lemma ascii_roundtrip:
  assumes "\<forall>c \<in> set s. (of_char c :: nat) < 128"
  shows "ascii_decode (ascii_encode s) = s"
proof -
  have "char_of (unat ((of_nat (of_char c) :: byte) AND 0x7F)) = c" if "(of_char c :: nat) < 128" for c
  proof -
    have "unat ((of_nat (of_char c) :: byte) mod 128) = of_char c mod 256 mod 128"
      by (simp add: unat_mod_distrib unat_of_nat)
    moreover have "(x :: byte) AND 0x7F = x mod 128" for x
      using take_bit_eq_mask [of 7 x] take_bit_eq_mod [of 7 x] by (simp add: mask_eq_exp_minus_1)
    ultimately have "unat ((of_nat (of_char c) :: byte) AND 0x7F) = of_char c mod 256 mod 128"
      by (simp only:)
    then show ?thesis using that by simp
  qed
  then show ?thesis using assms by (simp add: ascii_decode_def ascii_encode_def comp_def map_idI)
qed

text \<open>Any sequence of ASCII messages of at most 65535 characters, framed, put on the wire one after
  the other and received in chunks of any size, is received as the same sequence of messages.\<close>

theorem tcp_messages_roundtrip:
  assumes "\<forall>s \<in> set msgs. length s \<le> 65535 \<and> (\<forall>c \<in> set s. (of_char c :: nat) < 128)"
    and "concat chunks = concat (map tcp_frame msgs)"
  shows "map ascii_decode (fst (tcp_stream chunks [])) = msgs \<and> snd (tcp_stream chunks []) = []"
proof -
  have "tcp_frames (concat (map tcp_frame msgs)) = (map ascii_encode msgs, [])"
    using assms(1) by (induction msgs) (simp_all add: tcp_frames_short tcp_frames_frame)
  then show ?thesis
    using assms by (simp add: tcp_stream_whole map_idI ascii_roundtrip)
qed

section \<open>Requests\<close>

lemma js_Number_negative:
  assumes "0 < n"
  shows "js_Number (CHR ''-'' # js_itoa n) = js_int (- int n)"
proof -
  let ?s = "CHR ''-'' # js_itoa n"
  have dig: "list_all is_digit (js_itoa n)" "js_itoa n \<noteq> []" by (simp_all add: js_itoa_digits)
  have "is_digit (last (js_itoa n))" using dig by (simp add: list_all_iff)
  then have "\<not> is_ws (last ?s)" "\<not> is_ws (hd ?s)"
    using dig(2) is_digit_not_ws by (auto simp: is_ws_def [of "CHR ''-''"])
  then have t: "js_trim ?s = ?s"
    using trimEnd_pad [of ?s 0] by (simp add: js_trim_def)
  have "js_itoa n \<noteq> ''Infinity''" using dig by (auto simp: is_digit_def)
  then show ?thesis
    using js_decimal_digits [OF dig(2,1)] unfolding js_Number_def t
    by (simp add: Let_def split_sign_def js_int_def)
qed

lemma parse_pair_plain: "k \<noteq> [] \<Longrightarrow> CHR ''='' \<notin> set k \<Longrightarrow> parse_pair (k @ CHR ''='' # v) out = AList.update k v out"
proof -
  assume k: "k \<noteq> []" "CHR ''='' \<notin> set k"
  have "takeWhile (\<lambda>c. c \<noteq> CHR ''='') (k @ CHR ''='' # v) = k @ takeWhile (\<lambda>c. c \<noteq> CHR ''='') (CHR ''='' # v)"
    using k(2) by (intro takeWhile_append2) auto
  then show ?thesis using k(1) by (simp add: parse_pair_def Let_def)
qed

lemma parse_request:
  assumes "CHR ''|'' \<notin> set pan \<union> set amt \<union> set sid"
  shows "parseSimpleFields (''|2='' @ pan @ ''|4='' @ amt @ ''|session='' @ sid)
    = [(''2'', pan), (''4'', amt), (''session'', sid)]"
proof -
  let ?p = "\<lambda>k v. k @ CHR ''='' # v :: string"
  have "js_split (CHR ''|'') (''|2='' @ pan @ ''|4='' @ amt @ ''|session='' @ sid)
      = [] # js_split (CHR ''|'') (?p ''2'' pan @ CHR ''|'' # ?p ''4'' amt @ CHR ''|'' # ?p ''session'' sid)"
    by simp
  also have "\<dots> = [[], ?p ''2'' pan, ?p ''4'' amt, ?p ''session'' sid]"
    using assms js_split_append [of "CHR ''|''" "?p ''2'' pan" "?p ''4'' amt @ CHR ''|'' # ?p ''session'' sid"]
      js_split_append [of "CHR ''|''" "?p ''4'' amt" "?p ''session'' sid"]
      js_split_plain [of "CHR ''|''" "?p ''session'' sid"] by simp
  finally show ?thesis
    using parse_pair_plain [of "''2''" pan "[]"] parse_pair_plain [of "''4''" amt "[(''2'', pan)]"]
      parse_pair_plain [of "''session''" sid "[(''2'', pan), (''4'', amt)]"]
    by (simp add: parseSimpleFields_def) (simp add: parse_pair_def)
qed

definition tcp_request :: "string \<Rightarrow> string \<Rightarrow> string \<Rightarrow> string" where
  "tcp_request pan amt sid = ''0200|2='' @ pan @ ''|4='' @ amt @ ''|session='' @ sid"

definition wire_text :: "string \<Rightarrow> bool" where
  "wire_text s \<longleftrightarrow> (\<forall>c \<in> set s. (of_char c :: nat) < 128) \<and> CHR ''|'' \<notin> set s"

lemma wire_text_itoa: "wire_text (js_itoa n)"
proof -
  have "list_all is_digit (js_itoa n)" by (rule js_itoa_digits)
  then show ?thesis by (auto simp: wire_text_def list_all_iff is_digit_def)
qed

text \<open>The response to a request in that form.\<close>

lemma tcp_request_handled:
  assumes "wire_text pan" "wire_text amt" "wire_text sid" "getSwitchById (switch_id_code sw) = Inr profile"
    and "host_authorizeWithdrawal ops env \<lparr>wd_pan = pan, wd_amount = js_Number amt, wd_sessionId = sid,
      wd_switch = Some profile\<rparr> h = (res, h1)"
    and "0 \<le> he_random env" "he_random env < 1" "az_authCode res \<in> {None, Some (host_generateAuthCode env)}"
    and "length (az_responseCode res) \<le> 2" "az_stanNo res = formatStan (h_stanCounter h)"
  shows "tcp_handleMessage ops msg env sw (ascii_encode (tcp_request pan amt sid)) h
    = (Some (tcp_frame (''0210|39='' @ az_responseCode res @ ''|stan='' @ az_stanNo res @ ''|auth=''
         @ js_default (az_authCode res) [] @ ''|switch='' @ switch_id_code (sp_id profile))), h1)"
proof -
  have asc: "ascii_decode (ascii_encode (tcp_request pan amt sid)) = tcp_request pan amt sid"
    using assms(1-3) by (intro ascii_roundtrip) (auto simp: tcp_request_def wire_text_def)
  have mti: "take 4 (tcp_request pan amt sid) = ''0200''"
    "drop 4 (tcp_request pan amt sid) = ''|2='' @ pan @ ''|4='' @ amt @ ''|session='' @ sid"
    by (simp_all add: tcp_request_def eval_nat_numeral)
  have fs: "parseSimpleFields (drop 4 (tcp_request pan amt sid)) = [(''2'', pan), (''4'', amt), (''session'', sid)]"
    unfolding mti using assms(1-3) by (intro parse_request) (auto simp: wire_text_def)
  define z where "z = \<lfloor>100000 + he_random env * 900000\<rfloor>"
  have "z < 10 ^ 6" "0 \<le> z" unfolding z_def using assms(6,7) by (simp_all add: floor_less_iff)
  then have "length (js_itoa (nat z)) \<le> 6" by (intro length_itoa_le) (simp_all add: nat_less_iff)
  then have "length (host_generateAuthCode env) \<le> 6"
    using \<open>0 \<le> z\<close> by (simp add: host_generateAuthCode_def js_int_to_string_def z_def [symmetric])
  then have auth: "length (js_default (az_authCode res) []) \<le> 6" using assms(8) by auto
  have stan: "length (az_stanNo res) = 6" using assms(10) formatStan_wraps by simp
  have code: "length (switch_id_code (sp_id profile)) \<le> 11" by (cases "sp_id profile") simp_all
  let ?resp = "''0210|39='' @ az_responseCode res @ ''|stan='' @ az_stanNo res @ ''|auth=''
    @ js_default (az_authCode res) [] @ ''|switch='' @ switch_id_code (sp_id profile)"
  have disp: "tcp_dispatch ops env profile ''0200'' [(''2'', pan), (''4'', amt), (''session'', sid)] h = (Inr ?resp, h1)"
    using assms(5) by (simp add: tcp_dispatch_def tcp_field_def Let_def)
  have len: "\<not> 65535 < length ?resp" using assms(9) auth stan code by simp
  show ?thesis
    unfolding tcp_handleMessage_def asc fs mti(1) assms(4) Let_def using disp len by simp
qed

lemma withdraw_tx_authCode:
  assumes "withdraw_tx ops env p stan db = Inr (res, db')"
  shows "az_authCode res \<in> {None, Some (host_generateAuthCode env)}"
  using assms
  by - (auto simp: withdraw_tx_def auth_tag_def Let_def elim!: sum_bind_InrE
      split: option.split_asm prod.split_asm if_split_asm)

lemma authorize_authCode:
  assumes "host_authorizeWithdrawal ops env p h = (res, h')"
  shows "az_authCode res \<in> {None, Some (host_generateAuthCode env)}"
proof (cases "withdraw_tx ops env p (formatStan (h_stanCounter h)) (h_db h)")
  case (Inl e)
  then show ?thesis using assms
    by (auto simp: host_authorizeWithdrawal_def host_generateStan_def auth_tag_def Let_def)
next
  case (Inr x)
  then show ?thesis using assms withdraw_tx_authCode [of ops env p _ "h_db h"]
    by (cases x) (auto simp: host_authorizeWithdrawal_def host_generateStan_def Let_def)
qed

lemma withdraw_code_length: "length (withdraw_code env p b) = 2"
  by (simp add: withdraw_code_def split: option.split)

definition tcp_params :: "string \<Rightarrow> int \<Rightarrow> string \<Rightarrow> IsoSwitchProfile \<Rightarrow> withdrawal" where
  "tcp_params pan amt sid profile =
     \<lparr>wd_pan = pan, wd_amount = js_int amt, wd_sessionId = sid, wd_switch = Some profile\<rparr>"

lemma tcp_request_run:
  assumes "bank_db_up ops view" "wire_text pan" "wire_text sid" "js_Number txt = js_int amt" "wire_text txt"
    and "getSwitchById (switch_id_code sw) = Inr profile" "0 \<le> he_random env" "he_random env < 1"
    and "host_authorizeWithdrawal ops env (tcp_params pan amt sid profile) h = (res, h1)"
  shows "tcp_handleMessage ops msg env sw (ascii_encode (tcp_request pan txt sid)) h
    = (Some (tcp_frame (''0210|39='' @ withdraw_code env (tcp_params pan amt sid profile) (view (h_db h))
         @ ''|stan='' @ az_stanNo res @ ''|auth='' @ js_default (az_authCode res) [] @ ''|switch=''
         @ switch_id_code (sp_id profile))), h1)"
proof -
  have db: "bank_db ops view" using assms(1) by (simp add: bank_db_up_def)
  have code: "az_responseCode res = withdraw_code env (tcp_params pan amt sid profile) (view (h_db h))"
    using bank_db_up.authorize_code [OF assms(1,9)] by simp
  have stan: "az_stanNo res = formatStan (h_stanCounter h)" using bank_db.authorize_cases [OF db assms(9)] by simp
  show ?thesis
    using tcp_request_handled [OF assms(2,5,3,6) _ assms(7,8) authorize_authCode [OF assms(9)] _ stan, where msg = msg and ?h1.0 = h1]
      assms(4,9) by (simp add: code withdraw_code_length tcp_params_def)
qed

text \<open>A financial request over TCP is answered in one frame whose field 39 is the decision of the
  host on its tables, taken with the switch of the listener, and the host is left as the
  authorisation leaves it.\<close>

theorem tcp_withdrawal_decided:
  assumes "bank_db_up ops view" "wire_text pan" "wire_text sid"
    and "getSwitchById (switch_id_code sw) = Inr profile" "0 \<le> he_random env" "he_random env < 1"
  shows "\<exists>stan auth. tcp_handleMessage ops msg env sw (ascii_encode (tcp_request pan (js_itoa n) sid)) h
    = (Some (tcp_frame (''0210|39='' @ withdraw_code env (tcp_params pan (int n) sid profile) (view (h_db h))
         @ ''|stan='' @ stan @ ''|auth='' @ auth @ ''|switch='' @ switch_id_code (sp_id profile))),
       snd (host_authorizeWithdrawal ops env (tcp_params pan (int n) sid profile) h))"
proof -
  obtain res h1 where A: "host_authorizeWithdrawal ops env (tcp_params pan (int n) sid profile) h = (res, h1)"
    by fastforce
  from tcp_request_run [OF assms(1-3) js_Number_itoa wire_text_itoa assms(4-6) A] A show ?thesis by auto
qed

text \<open>C22: whoever reaches the TCP port can credit an account: a financial request with a negative amount
  for an existing card is approved and the balance grows by the amount, because neither the transport
  nor the host asks for a positive amount.\<close>

theorem tcp_negative_withdrawal_credits:
  assumes "bank_db_up ops view" "wire_text pan" "wire_text sid"
    and "getSwitchById (switch_id_code sw) = Inr profile" "0 \<le> he_random env" "he_random env < 1"
    and "find_card pan (view (h_db h)) = Some (c, Some a)" "bank_ok (he_startOfDay env) (view (h_db h))" "0 < n"
  shows "\<exists>r h1. tcp_handleMessage ops msg env sw (ascii_encode (tcp_request pan (CHR ''-'' # js_itoa n) sid)) h = (Some r, h1)
    \<and> bk_accounts (view (h_db h1)) = (bk_accounts (view (h_db h)))(ac_id a \<mapsto> debited (- int n) a)"
proof -
  let ?p = "tcp_params pan (- int n) sid profile"
  have w: "wire_text (CHR ''-'' # js_itoa n)" using wire_text_itoa [of n] by (auto simp: wire_text_def)
  obtain res h1 where A: "host_authorizeWithdrawal ops env ?p h = (res, h1)" by fastforce
  have db: "bank_db ops view" using assms(1) by (simp add: bank_db_up_def)
  have "profile \<in> set ALL_SWITCH_PROFILES"
    using assms(4) by (auto simp: getSwitchById_def find_Some_iff split: option.splits)
  then have cap: "0 \<le> sp_maxWithdrawalIdr profile" by (auto simp: switch_profile_defs)
  have "bk_accounts (view (h_db h)) (cd_accountId c) = Some a" using assms(7) by (auto simp: find_card_def)
  then have "0 \<le> ac_balance a" "sum_withdrawals (cd_accountId c) (he_startOfDay env) (view (h_db h)) \<le> ac_dailyLimit a"
    using assms(8) by (auto simp: bank_ok_def)
  then have "withdraw_code env ?p (view (h_db h)) = ''00''"
    using assms(7,9) cap by (simp add: withdraw_code_def tcp_params_def wd_profile_def)
  then have "az_approved res" using bank_db_up.authorize_code [OF assms(1) A] by simp
  then obtain c' a' amt where W: "withdraw_allowed env ?p (view (h_db h)) c' a' amt"
    "view (h_db h1) = bank_withdraw env ?p (az_stanNo res) (cd_accountId c') a' amt (view (h_db h))"
    using bank_db.authorize_cases [OF db A] by blast
  have "js_int (- int n) = js_int amt" using W(1) by (simp add: withdraw_allowed_def tcp_params_def)
  then have "amt = - int n" by (simp only: js_int_def jsnum.inject of_int_eq_iff)
  then have "view (h_db h1) = bank_withdraw env ?p (az_stanNo res) (cd_accountId c) a (- int n) (view (h_db h))"
    using W assms(7) by (simp add: withdraw_allowed_def tcp_params_def)
  then show ?thesis
    using tcp_request_run [OF assms(1-3) js_Number_negative [OF assms(9)] w assms(4-6) A]
    by (auto simp: bank_withdraw_def put_account_def debited_def)
qed

section \<open>Witnesses\<close>

lemma tcp_messages_roundtrip_witness:
  "map ascii_decode (fst (tcp_stream [take 3 (tcp_frame ''0800'' @ tcp_frame ''0600''),
     drop 3 (tcp_frame ''0800'' @ tcp_frame ''0600'')] [])) = [''0800'', ''0600'']"
  by (rule conjunct1 [OF tcp_messages_roundtrip]) (simp_all del: take_append drop_append)

lemma jalin_by_id: "getSwitchById (switch_id_code JALIN) = Inr JALIN_PROFILE" "sp_id JALIN_PROFILE = JALIN"
  by (simp_all add: getSwitchById_def ALL_SWITCH_PROFILES_def JALIN_PROFILE_def)

lemma hs_wire: "wire_text ''4097111122223333''" "wire_text ''S1''" "0 \<le> he_random hs_env" "he_random hs_env < 1"
  by (simp_all add: wire_text_def hs_env_def)

lemma tcp_withdrawal_decided_witness:
  "\<exists>stan auth. fst (tcp_handleMessage mem_ops (\<lambda>_. []) hs_env JALIN
      (ascii_encode (tcp_request ''4097111122223333'' (js_itoa 600000) ''S1'')) hs_host)
    = Some (tcp_frame (''0210|39=51|stan='' @ stan @ ''|auth='' @ auth @ ''|switch=JALIN''))"
proof -
  have p: "tcp_params ''4097111122223333'' (int 600000) ''S1'' JALIN_PROFILE = hs_withdrawal 600000"
    by (simp add: tcp_params_def hs_withdrawal_def)
  have code: "withdraw_code hs_env (hs_withdrawal 600000) (h_db hs_host) = ''51''"
    by (simp add: hs_code hs_host_def)
  obtain stan auth where "tcp_handleMessage mem_ops (\<lambda>_. []) hs_env JALIN
      (ascii_encode (tcp_request ''4097111122223333'' (js_itoa 600000) ''S1'')) hs_host
    = (Some (tcp_frame (''0210|39='' @ ''51'' @ ''|stan='' @ stan @ ''|auth='' @ auth @ ''|switch='' @ ''JALIN'')),
       snd (host_authorizeWithdrawal mem_ops hs_env (hs_withdrawal 600000) hs_host))"
    using tcp_withdrawal_decided [OF mem_bank_db_up hs_wire(1,2) jalin_by_id(1) hs_wire(3,4), of "\<lambda>_. []" 600000 hs_host]
    unfolding p code jalin_by_id(2) switch_id_code.simps by blast
  then show ?thesis by (intro exI [of _ stan] exI [of _ auth]) (simp only: fst_conv append.simps)
qed

lemma tcp_negative_withdrawal_credits_witness:
  "map_option ac_balance (bk_accounts (h_db (snd (tcp_handleMessage mem_ops (\<lambda>_. []) hs_env JALIN
      (ascii_encode (tcp_request ''4097111122223333'' (CHR ''-'' # js_itoa 20000) ''S1'')) hs_host))) ''A1'')
    = Some 520000"
proof -
  have "bank_ok (he_startOfDay hs_env) (h_db hs_host)" "find_card ''4097111122223333'' (h_db hs_host) = Some (hs_card, Some hs_account)"
    by (simp_all add: hs_host_def hs_find) (simp add: hs_env_def hs_ok)
  from tcp_negative_withdrawal_credits [OF mem_bank_db_up hs_wire(1,2) jalin_by_id(1) hs_wire(3,4) this(2,1), of 20000 "\<lambda>_. []"]
  obtain r h1 where "tcp_handleMessage mem_ops (\<lambda>_. []) hs_env JALIN
      (ascii_encode (tcp_request ''4097111122223333'' (CHR ''-'' # js_itoa 20000) ''S1'')) hs_host = (Some r, h1)"
    "bk_accounts (h_db h1) = (bk_accounts (h_db hs_host))(ac_id hs_account \<mapsto> debited (- int 20000) hs_account)"
    by auto
  then show ?thesis by (simp add: debited_def) (simp add: hs_account_def)
qed

end
