(* ===== verification/Transport_Props.thy ===== *)
theory Transport_Props
  imports Transport_Manager Tcp_Props
begin

text \<open>
  What the transport manager promises: every listener that runs has one row, which describes it as long as
  it is enabled, and is enabled as long as no write fails; an activated configuration is the only one of
  its kind that runs; and an ISO 20022 payment is settled only on approval. Requests run one after the
  other; two lemmas show what a request does that comes in between.
\<close>

section \<open>The invariant\<close>

definition serves :: "ht_row \<Rightarrow> transport \<Rightarrow> bool" where
  "serves row t =
     (let s = transport_status t
      in rs_listening s \<and> rs_configId s = hr_id row \<and> kind_code (rs_kind s) = hr_kind row
         \<and> switch_id_code (rs_switchProfile s) = hr_switchProfile row
         \<and> (rs_kind s = IN_PROCESS \<or> (rs_bindAddress s = hr_bindAddress row \<and> rs_port s = hr_port row)))"

lemma serves_enabled [simp]: "serves (row\<lparr>hr_enabled := on\<rparr>) t = serves row t"
  by (simp add: serves_def)

text \<open>What a row says of the listener that runs under its id: an enabled row describes it; a row that is
  not enabled is left only where writes fail.\<close>

definition described :: "bool \<Rightarrow> ht_row \<Rightarrow> transport \<Rightarrow> bool" where
  "described fails row t \<longleftrightarrow> rs_listening (transport_status t) \<and> rs_configId (transport_status t) = hr_id row
     \<and> (hr_enabled row \<longrightarrow> serves row t) \<and> (fails \<or> hr_enabled row)"

definition hm_ok :: "bool \<Rightarrow> ht_manager \<Rightarrow> bool" where
  "hm_ok fails m = (distinct (map hr_id (hm_rows m)) \<and> distinct (map fst (hm_running m)) \<and>
     (\<forall>(i, t)\<in>set (hm_running m). \<exists>row\<in>set (hm_rows m). hr_id row = i \<and> described fails row t))"

lemma hm_okI:
  assumes "distinct (map hr_id (hm_rows m))" and "distinct (map fst (hm_running m))"
    and "\<And>i t. (i, t) \<in> set (hm_running m)
      \<Longrightarrow> \<exists>row\<in>set (hm_rows m). hr_id row = i \<and> described fails row t"
  shows "hm_ok fails m"
  using assms unfolding hm_ok_def by auto

lemma hm_ok_row:
  assumes "hm_ok fails m" and "(i, t) \<in> set (hm_running m)"
  obtains row where "row \<in> set (hm_rows m)" and "hr_id row = i" and "described fails row t"
  using assms unfolding hm_ok_def by fastforce

lemma hm_ok_distinct:
  assumes "hm_ok fails m"
  shows "distinct (map hr_id (hm_rows m))" and "distinct (map fst (hm_running m))"
  using assms unfolding hm_ok_def by auto

lemma hm_find_Some:
  assumes "hm_find i m = Some row"
  shows "row \<in> set (hm_rows m)" and "hr_id row = i"
  using assms unfolding hm_find_def by (auto simp: find_Some_iff)

lemma hm_find_of_row:
  assumes "distinct (map hr_id (hm_rows m))" and "row \<in> set (hm_rows m)"
  shows "hm_find (hr_id row) m = Some row"
proof -
  have "hm_find (hr_id row) m \<noteq> None"
    using assms(2) unfolding hm_find_def by (auto simp: find_None_iff)
  then obtain r where r: "hm_find (hr_id row) m = Some r" by auto
  then have "r = row" using hm_find_Some [OF r] assms by (metis distinct_map inj_onD)
  then show ?thesis using r by simp
qed

lemma hm_put_ids [simp]: "map hr_id (hm_rows (hm_put row m)) = map hr_id (hm_rows m)"
  unfolding hm_put_def by (simp add: o_def)

lemma hm_put_running [simp]: "hm_running (hm_put row m) = hm_running m"
  unfolding hm_put_def by simp

lemma hm_put_set:
  assumes "hr_id row \<in> hr_id ` set (hm_rows m)"
  shows "set (hm_rows (hm_put row m)) = insert row {r \<in> set (hm_rows m). hr_id r \<noteq> hr_id row}"
  using assms unfolding hm_put_def by auto

lemma hm_ok_replace:
  assumes "hm_ok fails m" and "hr_id row \<in> hr_id ` set (hm_rows m)" and "distinct (map fst rs)"
    and "\<And>j t. (j, t) \<in> set rs \<Longrightarrow> j \<noteq> hr_id row \<Longrightarrow> (j, t) \<in> set (hm_running m)"
    and "\<And>t. (hr_id row, t) \<in> set rs \<Longrightarrow> described fails row t"
  shows "hm_ok fails (hm_put row (m\<lparr>hm_running := rs\<rparr>))"
proof (rule hm_okI)
  let ?m = "m\<lparr>hm_running := rs\<rparr>"
  have rows: "set (hm_rows (hm_put row ?m)) = insert row {r \<in> set (hm_rows m). hr_id r \<noteq> hr_id row}"
    using hm_put_set [of row ?m] assms(2) by simp
  show "distinct (map hr_id (hm_rows (hm_put row ?m)))" using hm_ok_distinct [OF assms(1)] by simp
  show "distinct (map fst (hm_running (hm_put row ?m)))" using assms(3) by simp
  fix i t assume it: "(i, t) \<in> set (hm_running (hm_put row ?m))"
  show "\<exists>r\<in>set (hm_rows (hm_put row ?m)). hr_id r = i \<and> described fails r t"
  proof (cases "i = hr_id row")
    case True then show ?thesis using it assms(5) [of t] rows by auto
  next
    case False
    then obtain r where "r \<in> set (hm_rows m)" "hr_id r = i" "described fails r t"
      using it assms(4) [of i t] hm_ok_row [OF assms(1), of i t] by auto
    then show ?thesis using rows False by auto
  qed
qed

section \<open>Starting and stopping\<close>

text \<open>A write of the flag: the row is replaced, or nothing happens.\<close>

lemma setEnabled_cases:
  assumes "distinct (map hr_id (hm_rows m))" and "hm_find i m = Some row"
  shows "hm_setEnabled env i on m =
    (if he_updateUp env i then (Inr (), hm_put (row\<lparr>hr_enabled := on\<rparr>) m) else (Inl HtDbFailure, m))"
proof -
  note row = hm_find_Some [OF assms(2)]
  have "r = row" if "r \<in> set (hm_rows m)" "hr_id r = i" for r
    using that row assms(1) by (metis distinct_map inj_onD)
  then have "map (\<lambda>r. if hr_id r = i then r\<lparr>hr_enabled := on\<rparr> else r) (hm_rows m)
      = map (\<lambda>r. if hr_id r = hr_id (row\<lparr>hr_enabled := on\<rparr>) then row\<lparr>hr_enabled := on\<rparr> else r) (hm_rows m)"
    using row(2) by auto
  then show ?thesis using assms(2) by (simp add: hm_setEnabled_def hm_put_def)
qed

lemma hm_put_same:
  assumes "distinct (map hr_id (hm_rows m))" and "row \<in> set (hm_rows m)"
  shows "hm_put row m = m"
proof -
  have "r = row" if "r \<in> set (hm_rows m)" "hr_id r = hr_id row" for r
    using that assms by (metis distinct_map inj_onD)
  then have "map (\<lambda>r. if hr_id r = hr_id row then row else r) (hm_rows m) = hm_rows m" by (intro map_idI) auto
  then show ?thesis by (simp add: hm_put_def)
qed

lemma hm_find_running [simp]: "hm_find i (m\<lparr>hm_running := rs\<rparr>) = hm_find i m"
  by (simp add: hm_find_def)

text \<open>The row after a start or a stop, and the answer.\<close>

definition stored :: "ht_env \<Rightarrow> bool \<Rightarrow> ht_row \<Rightarrow> ht_row" where
  "stored env on row = (if he_updateUp env (hr_id row) then row\<lparr>hr_enabled := on\<rparr> else row)"

lemma stored_simps [simp]: "hr_id (stored env on row) = hr_id row" "hr_kind (stored env on row) = hr_kind row"
  "serves (stored env on row) t = serves row t"
  by (simp_all add: stored_def)

lemma hm_store_cases:
  assumes "distinct (map hr_id (hm_rows m))" and "hm_find i m = Some row"
  shows "hm_store env row on (m\<lparr>hm_running := rs\<rparr>) =
    (let m' = hm_put (stored env on row) (m\<lparr>hm_running := rs\<rparr>)
     in (if he_updateUp env i then hm_toDto m' (row\<lparr>hr_enabled := on\<rparr>) else Inl HtDbFailure, m'))"
  using setEnabled_cases [of "m\<lparr>hm_running := rs\<rparr>" i row env on] hm_put_same [of "m\<lparr>hm_running := rs\<rparr>" row]
    assms hm_find_Some [OF assms(2)]
  by (simp add: hm_store_def stored_def Let_def)

lemma requireKind_Inr: "requireKind k = Inr x \<Longrightarrow> k = Some (kind_code x)"
  unfolding requireKind_def by (auto simp: find_Some_iff split: option.splits)

lemma requireSwitch_Inr: "requireSwitch s = Inr x \<Longrightarrow> switch_id_code x = s"
  unfolding requireSwitch_def by (auto simp: find_Some_iff split: option.splits)

lemma buildTransport_cases:
  assumes "buildTransport row = Inr t"
  obtains k sw where "hr_kind row = kind_code k" and "hr_switchProfile row = switch_id_code sw"
    and "transport_fresh t" and "rs_config (transport_status t) = (k, hr_id row,
      (if k = IN_PROCESS then ''127.0.0.1'' else hr_bindAddress row), (if k = IN_PROCESS then 0 else hr_port row), sw)"
proof -
  obtain k where k: "requireKind (Some (hr_kind row)) = Inr k"
    using assms unfolding buildTransport_def by (cases "requireKind (Some (hr_kind row))") auto
  obtain sw where sw: "requireSwitch (hr_switchProfile row) = Inr sw"
    using assms k unfolding buildTransport_def by (cases "requireSwitch (hr_switchProfile row)") auto
  have t: "t = (case k of
      IN_PROCESS \<Rightarrow> T_InProcess (ip_new (hr_id row) sw)
    | ISO8583_TCP \<Rightarrow> T_Tcp (tcp_new (hr_id row) (hr_bindAddress row) (hr_port row) sw)
    | ISO20022_HTTP \<Rightarrow> T_Http (http_new (hr_id row) (hr_bindAddress row) (hr_port row) sw))"
    using assms k sw unfolding buildTransport_def by simp
  show thesis
    by (rule that [of k sw]) (use t requireKind_Inr [OF k] requireSwitch_Inr [OF sw] in
      \<open>auto simp: ip_new_def tcp_new_def http_new_def rs_config_def ip_status_def tcp_status_def
        http_status_def split: HostTransportKind.splits\<close>)
qed

lemma started_serves:
  assumes "buildTransport row = Inr t" and "transport_start env t = Inr t'"
  shows "serves row t'"
proof -
  obtain k sw where ks: "hr_kind row = kind_code k" "hr_switchProfile row = switch_id_code sw"
    and fr: "transport_fresh t" and cfg: "rs_config (transport_status t) = (k, hr_id row,
      (if k = IN_PROCESS then ''127.0.0.1'' else hr_bindAddress row), (if k = IN_PROCESS then 0 else hr_port row), sw)"
    by (rule buildTransport_cases [OF assms(1)])
  show ?thesis using listener.started_runs [OF fr assms(2) cfg] ks
    unfolding serves_def Let_def rs_config_def by (auto split: if_splits)
qed

lemma startConfig_cases:
  assumes "distinct (map hr_id (hm_rows m))" and "hm_startConfig env i m = (r, m')"
  shows "(m' = m \<and> (\<forall>d. r = Inr d \<longrightarrow> (\<exists>row. hm_find i m = Some row \<and> map_of (hm_running m) i \<noteq> None \<and> hm_toDto m row = Inr d))) \<or>
    (\<exists>row t u. hm_find i m = Some row \<and> map_of (hm_running m) i = None \<and> buildTransport row = Inr t
      \<and> transport_start env t = Inr u
      \<and> m' = hm_put (stored env True row) (m\<lparr>hm_running := AList.update i u (hm_running m)\<rparr>)
      \<and> r = (if he_updateUp env i then hm_toDto m' (row\<lparr>hr_enabled := True\<rparr>) else Inl HtDbFailure))"
proof (cases "hm_find i m")
  case None then show ?thesis using assms unfolding hm_startConfig_def by auto
next
  case (Some row)
  note id = hm_find_Some(2) [OF Some]
  show ?thesis
  proof (cases "map_of (hm_running m) i = None")
    case False
    then show ?thesis using assms(2) Some id unfolding hm_startConfig_def hm_start_listener_def
      by (cases "hm_toDto m row") auto
  next
    case True
    then show ?thesis using assms(2) Some id hm_store_cases [OF assms(1) Some, of env True]
      unfolding hm_startConfig_def hm_start_listener_def
      by (cases "buildTransport row") (auto simp: Let_def split: sum.splits)
  qed
qed

lemma AList_update_set: "(j, t) \<in> set (AList.update i u xs) \<Longrightarrow> (j = i \<and> t = u) \<or> (j, t) \<in> set xs"
  by (induction xs) (auto split: if_splits)

lemma map_of_distinct: "distinct (map fst xs) \<Longrightarrow> (i, t) \<in> set xs \<Longrightarrow> map_of xs i = Some t"
  by simp

text \<open>A request whose writes all succeed.\<close>

definition env_up :: "ht_env \<Rightarrow> bool" where
  "env_up env \<longleftrightarrow> he_createUp env \<and> (\<forall>i. he_updateUp env i) \<and> he_deleteUp env"

lemma hm_ok_start:
  assumes "hm_ok fails m" and "hm_startConfig env i m = (r, m')" and "fails \<or> env_up env"
  shows "hm_ok fails m'"
  using startConfig_cases [OF hm_ok_distinct(1) [OF assms(1)] assms(2)]
proof (elim disjE conjE exE)
  assume "m' = m" then show ?thesis using assms(1) by simp
next
  fix row t u
  assume row: "hm_find i m = Some row" and no: "map_of (hm_running m) i = None"
    and bt: "buildTransport row = Inr t" and st: "transport_start env t = Inr u"
    and m': "m' = hm_put (stored env True row) (m\<lparr>hm_running := AList.update i u (hm_running m)\<rparr>)"
  have id: "hr_id row = i" and mem: "row \<in> set (hm_rows m)" using hm_find_Some [OF row] by auto
  have nin: "(i, x) \<notin> set (hm_running m)" for x using no by (force simp: map_of_eq_None_iff)
  have "serves row u" by (rule started_serves [OF bt st])
  then have d: "described fails (stored env True row) u"
    using assms(3) by (auto simp: described_def serves_def Let_def stored_def env_up_def)
  show ?thesis unfolding m'
  proof (rule hm_ok_replace [OF assms(1)])
    show "hr_id (stored env True row) \<in> hr_id ` set (hm_rows m)" using mem by simp
    show "distinct (map fst (AList.update i u (hm_running m)))"
      using hm_ok_distinct [OF assms(1)] by (simp add: distinct_update)
  qed (use d nin id in \<open>auto dest!: AList_update_set\<close>)
qed

lemma stopConfig_cases:
  assumes "distinct (map hr_id (hm_rows m))" and "hm_stopConfig env i m = (r, m')"
  shows "(m' = m \<and> r = Inl (not_found i)) \<or>
    (\<exists>row. hm_find i m = Some row
      \<and> m' = hm_put (stored env False row) (m\<lparr>hm_running := AList.delete i (hm_running m)\<rparr>))"
  using assms hm_store_cases [OF assms(1), of i _ env False]
  unfolding hm_stopConfig_def by (auto simp: Let_def split: option.splits)

lemma hm_ok_stop:
  assumes "hm_ok fails m" and "hm_stopConfig env i m = (r, m')"
  shows "hm_ok fails m'"
  using stopConfig_cases [OF hm_ok_distinct(1) [OF assms(1)] assms(2)]
proof (elim disjE conjE exE)
  assume "m' = m" then show ?thesis using assms(1) by simp
next
  fix row
  assume row: "hm_find i m = Some row"
    and m': "m' = hm_put (stored env False row) (m\<lparr>hm_running := AList.delete i (hm_running m)\<rparr>)"
  show ?thesis unfolding m'
  proof (rule hm_ok_replace [OF assms(1)])
    show "distinct (map fst (AList.delete i (hm_running m)))"
      using hm_ok_distinct [OF assms(1)] by (simp add: distinct_delete)
  qed (use hm_find_Some [OF row] in \<open>auto simp: AList.delete_eq\<close>)
qed

lemma hm_ok_stop_all:
  assumes "hm_ok fails m" and "hm_stop_all env peers m = (r, m')"
  shows "hm_ok fails m'"
  using assms
proof (induction peers arbitrary: m)
  case (Cons p ps)
  obtain x m1 where s: "hm_stopConfig env (hr_id p) m = (x, m1)" by (cases "hm_stopConfig env (hr_id p) m")
  show ?case
  proof (cases "map_of (hm_running m) (hr_id p) = None")
    case True
    then have "hm_stop_all env ps m = (r, m')" using Cons.prems(2) by simp
    then show ?thesis by (rule Cons.IH [OF Cons.prems(1)])
  next
    case False
    show ?thesis
    proof (cases x)
      case (Inl e) then show ?thesis using Cons.prems(2) False s hm_ok_stop [OF Cons.prems(1) s] by simp
    next
      case (Inr d)
      then have "hm_stop_all env ps m1 = (r, m')" using Cons.prems(2) False s by simp
      then show ?thesis by (rule Cons.IH [OF hm_ok_stop [OF Cons.prems(1) s]])
    qed
  qed
qed simp

lemma hm_ok_setActive:
  assumes "hm_ok fails m" and "hm_setActive env i m = (r, m')" and "fails \<or> env_up env"
  shows "hm_ok fails m'"
proof (cases "hm_find i m")
  case None then show ?thesis using assms unfolding hm_setActive_def by simp
next
  case (Some target)
  obtain u m1 where s: "hm_stop_all env (filter (\<lambda>r. hr_kind r = hr_kind target \<and> hr_id r \<noteq> i) (hm_rows m)) m = (u, m1)"
    by (cases "hm_stop_all env (filter (\<lambda>r. hr_kind r = hr_kind target \<and> hr_id r \<noteq> i) (hm_rows m)) m")
  note ok = hm_ok_stop_all [OF assms(1) s]
  show ?thesis
  proof (cases u)
    case Inl then show ?thesis using assms(2) Some s ok unfolding hm_setActive_def by simp
  next
    case Inr
    then have "hm_startConfig env i m1 = (r, m')" using assms(2) Some s unfolding hm_setActive_def by simp
    then show ?thesis by (rule hm_ok_start [OF ok _ assms(3)])
  qed
qed


lemma put_kinds:
  assumes "distinct (map hr_id (hm_rows m))" and "row \<in> set (hm_rows m)"
    and "hr_id row' = hr_id row" and "hr_kind row' = hr_kind row"
  shows "map (\<lambda>r. (hr_id r, hr_kind r)) (hm_rows (hm_put row' m)) = map (\<lambda>r. (hr_id r, hr_kind r)) (hm_rows m)"
proof -
  have "hr_kind r = hr_kind row'" if "r \<in> set (hm_rows m)" "hr_id r = hr_id row'" for r
    using that assms by (metis distinct_map inj_onD)
  then show ?thesis unfolding hm_put_def by (simp add: o_def)
qed

lemma stopConfig_effect:
  assumes "hm_ok fails m" and "hm_stopConfig env i m = (r, m')"
  shows "set (hm_running m') \<subseteq> set (hm_running m)"
    and "map (\<lambda>r. (hr_id r, hr_kind r)) (hm_rows m') = map (\<lambda>r. (hr_id r, hr_kind r)) (hm_rows m)"
    and "r = Inr d \<Longrightarrow> map_of (hm_running m') i = None"
proof -
  from stopConfig_cases [OF hm_ok_distinct(1) [OF assms(1)] assms(2)]
  have "set (hm_running m') \<subseteq> set (hm_running m)
    \<and> map (\<lambda>r. (hr_id r, hr_kind r)) (hm_rows m') = map (\<lambda>r. (hr_id r, hr_kind r)) (hm_rows m)
    \<and> (r = Inr d \<longrightarrow> map_of (hm_running m') i = None)"
  proof (elim disjE exE conjE)
    assume "m' = m" "r = Inl (not_found i)"
    then show ?thesis by auto
  next
    fix row assume row: "hm_find i m = Some row"
      and m': "m' = hm_put (stored env False row) (m\<lparr>hm_running := AList.delete i (hm_running m)\<rparr>)"
    let ?m = "m\<lparr>hm_running := AList.delete i (hm_running m)\<rparr>"
    have "map (\<lambda>r. (hr_id r, hr_kind r)) (hm_rows (hm_put (stored env False row) ?m))
        = map (\<lambda>r. (hr_id r, hr_kind r)) (hm_rows ?m)"
      by (rule put_kinds [where row = row]) (use hm_ok_distinct [OF assms(1)] hm_find_Some [OF row] in auto)
    then show ?thesis using m' by (auto simp: AList.delete_eq map_of_eq_None_iff)
  qed
  then show "set (hm_running m') \<subseteq> set (hm_running m)"
    and "map (\<lambda>r. (hr_id r, hr_kind r)) (hm_rows m') = map (\<lambda>r. (hr_id r, hr_kind r)) (hm_rows m)"
    and "r = Inr d \<Longrightarrow> map_of (hm_running m') i = None" by auto
qed

lemma map_of_None_mono:
  assumes "set ys \<subseteq> set xs" and "map_of xs i = None"
  shows "map_of ys i = None"
  using assms by (auto simp: map_of_eq_None_iff)

lemma stop_all_effect:
  assumes "hm_ok fails m" and "hm_stop_all env peers m = (r, m')"
  shows "set (hm_running m') \<subseteq> set (hm_running m)
    \<and> map (\<lambda>r. (hr_id r, hr_kind r)) (hm_rows m') = map (\<lambda>r. (hr_id r, hr_kind r)) (hm_rows m)
    \<and> (r = Inr u \<longrightarrow> (\<forall>p\<in>set peers. map_of (hm_running m') (hr_id p) = None))"
  using assms
proof (induction peers arbitrary: m)
  case (Cons p ps)
  obtain x m1 where s: "hm_stopConfig env (hr_id p) m = (x, m1)" by (cases "hm_stopConfig env (hr_id p) m")
  note eff = stopConfig_effect [OF Cons.prems(1) s]
  show ?case
  proof (cases "map_of (hm_running m) (hr_id p) = None")
    case True
    then have "hm_stop_all env ps m = (r, m')" using Cons.prems(2) by simp
    from Cons.IH [OF Cons.prems(1) this] True show ?thesis by (auto intro: map_of_None_mono)
  next
    case False
    show ?thesis
    proof (cases x)
      case (Inl e) then show ?thesis using Cons.prems(2) False s eff by auto
    next
      case (Inr d)
      then have "hm_stop_all env ps m1 = (r, m')" using Cons.prems(2) False s by simp
      from Cons.IH [OF hm_ok_stop [OF Cons.prems(1) s] this] eff(1, 2) eff(3) [OF Inr]
      show ?thesis by (auto intro: map_of_None_mono)
    qed
  qed
qed simp

lemma hm_ok_delete:
  assumes "hm_ok fails m" and "hm_delete env i m = (r, m')"
  shows "hm_ok fails m'"
proof (cases "hm_find i m")
  case None then show ?thesis using assms unfolding hm_delete_def by simp
next
  case (Some row)
  obtain x m1 where s: "hm_stop_all env [row] m = (x, m1)" by (cases "hm_stop_all env [row] m")
  note ok = hm_ok_stop_all [OF assms(1) s]
  show ?thesis
  proof (cases x)
    case Inl then show ?thesis using assms(2) Some s ok unfolding hm_delete_def by simp
  next
    case (Inr u)
    show ?thesis
    proof (cases "he_deleteUp env")
    case False
    then show ?thesis using assms(2) Some s Inr ok unfolding hm_delete_def by (simp del: hm_stop_all.simps)
    next
    case True
    have m': "m' = m1\<lparr>hm_rows := filter (\<lambda>r. hr_id r \<noteq> i) (hm_rows m1)\<rparr>"
      using assms(2) Some s Inr True unfolding hm_delete_def by (simp del: hm_stop_all.simps)
    have no: "map_of (hm_running m1) i = None"
      using stop_all_effect [OF assms(1) s, of u] Inr hm_find_Some [OF Some] by simp
    show ?thesis unfolding m'
    proof (rule hm_okI)
      fix j t assume it: "(j, t) \<in> set (hm_running (m1\<lparr>hm_rows := filter (\<lambda>r. hr_id r \<noteq> i) (hm_rows m1)\<rparr>))"
      then have "j \<noteq> i" using no by (force simp: map_of_eq_None_iff)
      moreover obtain q where "q \<in> set (hm_rows m1)" "hr_id q = j" "described fails q t"
        using hm_ok_row [OF ok, of j t] it by auto
      ultimately show "\<exists>row\<in>set (hm_rows (m1\<lparr>hm_rows := filter (\<lambda>r. hr_id r \<noteq> i) (hm_rows m1)\<rparr>)).
        hr_id row = j \<and> described fails row t" by auto
    qed (use hm_ok_distinct [OF ok] in \<open>auto simp: distinct_map inj_on_def\<close>)
    qed
  qed
qed

lemma updated_row_id:
  assumes "updated_row inp old = Inr row"
  shows "hr_id row = hr_id old" and "hr_enabled row = hr_enabled old"
  using assms unfolding updated_row_def by (auto simp: sum_bind_Inr)

lemma created_row_id:
  assumes "created_row env inp = Inr row"
  shows "hr_id row = he_newId env" and "\<not> hr_enabled row"
  using assms unfolding created_row_def by (auto simp: sum_bind_Inr)

lemma hm_ok_update:
  assumes "hm_ok fails m" and "hm_update env i inp m = (r, m')"
  shows "hm_ok fails m'"
proof -
  have "m' = m \<or> (\<exists>old row. hm_find i m = Some old \<and> \<not> hr_enabled old \<and> updated_row inp old = Inr row
      \<and> m' = hm_put row m)"
    using assms(2) unfolding hm_update_def by (auto simp: Let_def split: option.splits sum.splits if_splits)
  then show ?thesis
  proof (elim disjE exE conjE)
    assume "m' = m" then show ?thesis using assms(1) by simp
  next
    fix old row
    assume old: "hm_find i m = Some old" and off: "\<not> hr_enabled old" and row: "updated_row inp old = Inr row"
      and m': "m' = hm_put row m"
    note id = updated_row_id [OF row] hm_find_Some [OF old]
    have run: "described fails row t" if it: "(i, t) \<in> set (hm_running m)" for t
    proof -
      obtain q where q: "q \<in> set (hm_rows m)" "hr_id q = i" "described fails q t"
        using hm_ok_row [OF assms(1) it] .
      then have "q = old" using hm_find_of_row [OF hm_ok_distinct(1) [OF assms(1)] q(1)] old by simp
      then show ?thesis using q(3) off id by (simp add: described_def)
    qed
    have "hr_id row \<in> hr_id ` set (hm_rows m)" using id by (metis image_eqI)
    then have "hm_ok fails (hm_put row (m\<lparr>hm_running := hm_running m\<rparr>))"
      by (rule hm_ok_replace [OF assms(1)]) (use id run hm_ok_distinct [OF assms(1)] in auto)
    then show ?thesis using m' by simp
  qed
qed

lemma hm_ok_create:
  assumes "hm_ok fails m" and "he_newId env \<notin> hr_id ` set (hm_rows m)" and "hm_create env inp m = (r, m')"
  shows "hm_ok fails m'"
proof -
  have "m' = m \<or> (\<exists>row. created_row env inp = Inr row \<and> m' = m\<lparr>hm_rows := hm_rows m @ [row]\<rparr>)"
    using assms(3) unfolding hm_create_def by (auto simp: Let_def split: sum.splits if_splits)
  then show ?thesis
  proof (elim disjE exE conjE)
    fix row assume row: "created_row env inp = Inr row" and m': "m' = m\<lparr>hm_rows := hm_rows m @ [row]\<rparr>"
    show ?thesis unfolding m'
    proof (rule hm_okI)
      fix j t assume "(j, t) \<in> set (hm_running (m\<lparr>hm_rows := hm_rows m @ [row]\<rparr>))"
      then obtain q where "q \<in> set (hm_rows m)" "hr_id q = j" "described fails q t"
        using hm_ok_row [OF assms(1), of j t] by auto
      then show "\<exists>q\<in>set (hm_rows (m\<lparr>hm_rows := hm_rows m @ [row]\<rparr>)). hr_id q = j \<and> described fails q t"
        by auto
    qed (use hm_ok_distinct [OF assms(1)] created_row_id [OF row] assms(2) in auto)
  qed (use assms(1) in simp)
qed

section \<open>Reachable states\<close>

text \<open>Requests of the console, and what a freshly booted manager can reach by them: the database gives
  new rows new ids, and no listener runs before the boot. With \<open>fails\<close> every write of every request may
  fail, without it none does.\<close>

datatype ht_cmd = HcCreate ht_env ht_input | HcUpdate ht_env string ht_input | HcStart ht_env string
  | HcStop ht_env string | HcSetActive ht_env string | HcDelete ht_env string

fun hm_exec :: "ht_cmd \<Rightarrow> ht_manager \<Rightarrow> ht_manager" where
  "hm_exec (HcCreate env inp) m = snd (hm_create env inp m)"
| "hm_exec (HcUpdate env i inp) m = snd (hm_update env i inp m)"
| "hm_exec (HcStart env i) m = snd (hm_startConfig env i m)"
| "hm_exec (HcStop env i) m = snd (hm_stopConfig env i m)"
| "hm_exec (HcSetActive env i) m = snd (hm_setActive env i m)"
| "hm_exec (HcDelete env i) m = snd (hm_delete env i m)"

fun hc_fresh :: "ht_cmd \<Rightarrow> ht_manager \<Rightarrow> bool" where
  "hc_fresh (HcCreate env inp) m = (he_newId env \<notin> hr_id ` set (hm_rows m))"
| "hc_fresh c m = True"

fun hc_env :: "ht_cmd \<Rightarrow> ht_env" where
  "hc_env (HcCreate env inp) = env"
| "hc_env (HcUpdate env i inp) = env"
| "hc_env (HcStart env i) = env"
| "hc_env (HcStop env i) = env"
| "hc_env (HcSetActive env i) = env"
| "hc_env (HcDelete env i) = env"

inductive hm_runs :: "bool \<Rightarrow> ht_manager \<Rightarrow> ht_manager \<Rightarrow> bool" for fails where
  runs_boot: "distinct (map hr_id (hm_rows m)) \<Longrightarrow> distinct ids \<Longrightarrow> set ids \<inter> hr_id ` set (hm_rows m) = {}
    \<Longrightarrow> hm_running m = [] \<Longrightarrow> fails \<or> env_up env \<Longrightarrow> hm_runs fails m (hm_onModuleInit env ids m)"
| runs_cmd: "hm_runs fails m m' \<Longrightarrow> hc_fresh c m' \<Longrightarrow> fails \<or> env_up (hc_env c)
    \<Longrightarrow> hm_runs fails m (hm_exec c m')"

abbreviation hm_reaches :: "ht_manager \<Rightarrow> ht_manager \<Rightarrow> bool" where
  "hm_reaches \<equiv> hm_runs True"

lemma hm_ok_exec:
  assumes "hm_ok fails m" and "hc_fresh c m" and "fails \<or> env_up (hc_env c)"
  shows "hm_ok fails (hm_exec c m)"
  using assms
  by (cases c) (auto intro: hm_ok_update [OF _ prod.collapse [symmetric]] hm_ok_start [OF _ prod.collapse [symmetric]]
      hm_ok_stop [OF _ prod.collapse [symmetric]] hm_ok_setActive [OF _ prod.collapse [symmetric]]
      hm_ok_delete [OF _ prod.collapse [symmetric]] hm_ok_create [OF _ _ prod.collapse [symmetric]])

lemma seed_ids:
  assumes "distinct (map hr_id (hm_rows m))" and "distinct (map fst seeds)"
    and "fst ` set seeds \<inter> hr_id ` set (hm_rows m) = {}"
  shows "distinct (map hr_id (hm_rows (hm_seed seeds m))) \<and> hm_running (hm_seed seeds m) = hm_running m"
  using assms by (induction seeds m rule: hm_seed.induct) (auto simp: Let_def)

lemma hm_ok_autostart: "hm_ok fails m \<Longrightarrow> fails \<or> env_up env \<Longrightarrow> hm_ok fails (hm_autostart env rows m)"
proof (induction rows arbitrary: m)
  case (Cons row rows)
  from Cons.IH [OF hm_ok_start [OF Cons.prems(1) prod.collapse [symmetric] Cons.prems(2)] Cons.prems(2)]
  show ?case by simp
qed simp

lemma hm_ok_boot:
  assumes "distinct (map hr_id (hm_rows m))" and "distinct ids"
    and "set ids \<inter> hr_id ` set (hm_rows m) = {}" and "hm_running m = []" and "fails \<or> env_up env"
  shows "hm_ok fails (hm_onModuleInit env ids m)"
proof -
  have "distinct (map fst (zip ids seed_rows))" using assms(2) by (simp add: map_fst_zip_take)
  moreover have "fst ` set (zip ids seed_rows) \<inter> hr_id ` set (hm_rows m) = {}"
    using assms(3) by (auto dest: set_zip_leftD)
  ultimately have "hm_ok fails (hm_seed (zip ids seed_rows) m)"
    using seed_ids [OF assms(1), of "zip ids seed_rows"] assms(4) by (auto intro: hm_okI)
  then show ?thesis unfolding hm_onModuleInit_def using assms(5) by (simp add: Let_def hm_ok_autostart)
qed

lemma hm_ok_reaches: "hm_runs fails m m' \<Longrightarrow> hm_ok fails m'"
  by (induction rule: hm_runs.induct) (auto intro: hm_ok_boot hm_ok_exec)

section \<open>Reports\<close>

abbreviation row_kinds :: "ht_manager \<Rightarrow> (string \<times> string) list" where
  "row_kinds m \<equiv> map (\<lambda>r. (hr_id r, hr_kind r)) (hm_rows m)"

lemma filter_key_distinct:
  assumes "distinct (map f xs)" and "x \<in> set xs"
  shows "filter (\<lambda>y. f y = f x) xs = [x]"
  using assms by (induction xs) (auto simp: filter_empty_conv image_iff)

lemma hm_toDto_Inr:
  assumes "hm_toDto m row = Inr d"
  shows "dto_row d = row" and "hr_kind row = kind_code (dto_kind d)"
    and "map_of (hm_running m) (hr_id row) = Some t \<Longrightarrow> dto_status d = transport_status t"
  using assms unfolding hm_toDto_def by (auto simp: sum_bind_Inr dest!: requireKind_Inr)

lemma startConfig_dto:
  assumes "hm_ok fails m" and "hm_startConfig env i m = (Inr d, m')"
  shows "hr_id (dto_row d) = i \<and> (\<exists>t. map_of (hm_running m') i = Some t \<and> dto_status d = transport_status t)
    \<and> (i, kind_code (dto_kind d)) \<in> set (row_kinds m) \<and> row_kinds m' = row_kinds m
    \<and> (\<forall>j. j \<noteq> i \<longrightarrow> map_of (hm_running m') j = map_of (hm_running m) j)"
proof -
  note dist = hm_ok_distinct(1) [OF assms(1)]
  from startConfig_cases [OF dist assms(2)] show ?thesis
  proof (elim disjE exE conjE)
    assume same: "m' = m" and "\<forall>d'. Inr d = Inr d' \<longrightarrow>
      (\<exists>row. hm_find i m = Some row \<and> map_of (hm_running m) i \<noteq> None \<and> hm_toDto m row = Inr d')"
    then obtain row t where row: "hm_find i m = Some row" "map_of (hm_running m) i = Some t" "hm_toDto m row = Inr d"
      by blast
    then show ?thesis using hm_toDto_Inr [OF row(3)] hm_find_Some [OF row(1)] same by force
  next
    fix row t u
    assume row: "hm_find i m = Some row"
      and m': "m' = hm_put (stored env True row) (m\<lparr>hm_running := AList.update i u (hm_running m)\<rparr>)"
      and r: "Inr d = (if he_updateUp env i then hm_toDto m' (row\<lparr>hr_enabled := True\<rparr>) else Inl HtDbFailure)"
    have d: "hm_toDto m' (row\<lparr>hr_enabled := True\<rparr>) = Inr d" using r by (simp split: if_splits)
    note id = hm_find_Some [OF row]
    have "row_kinds m' = row_kinds (m\<lparr>hm_running := AList.update i u (hm_running m)\<rparr>)" unfolding m'
      by (rule put_kinds [where row = row]) (use dist id in auto)
    moreover have "map_of (hm_running m') = (map_of (hm_running m))(i \<mapsto> u)" unfolding m' by (simp add: update_conv')
    ultimately show ?thesis using hm_toDto_Inr [OF d] id by force
  qed
qed

lemma listening_of_ok: "hm_ok fails m \<Longrightarrow> map_of (hm_running m) i = Some t \<Longrightarrow> rs_listening (transport_status t)"
  by (auto simp: described_def elim!: hm_ok_row dest!: map_of_SomeD)

lemma row_kinds_unique:
  assumes "hm_ok fails m" and "(i, a) \<in> set (row_kinds m)" and "(i, b) \<in> set (row_kinds m)"
  shows "a = b"
proof -
  have "distinct (map fst (row_kinds m))" using hm_ok_distinct(1) [OF assms(1)] by (simp add: o_def)
  then show ?thesis using assms(2, 3) by (metis eq_key_imp_eq_value)
qed

section \<open>Properties\<close>

text \<open>C23: in whatever order the operators send their requests, each running alone, and whatever writes of
  the table fail, every listener that runs listens under the id of exactly one stored row and is
  reported as listening. If that row is enabled it has the listener's kind, switch, address and port
  and cannot be edited; and as long as no write fails it is enabled. (A start that cannot update the row
  leaves its listener running under a row that is not enabled, which can then be edited.)\<close>

theorem transport_listeners_described:
  assumes "hm_reaches m0 m" and "map_of (hm_running m) i = Some t"
  shows "\<exists>row. filter (\<lambda>r. hr_id r = i) (hm_rows m) = [row]
    \<and> rs_listening (transport_status t) \<and> rs_configId (transport_status t) = i
    \<and> (\<forall>d. fst (hm_get i m) = Inr d \<longrightarrow> dto_status d = transport_status t)
    \<and> (hr_enabled row \<longrightarrow> serves row t
        \<and> (\<forall>env inp. hm_update env i inp m = (Inl (HtBadRequest ''Stop the listener before editing its config''), m)))
    \<and> (hm_runs False m0 m \<longrightarrow> hr_enabled row)"
proof -
  have ok: "hm_ok True m" by (rule hm_ok_reaches [OF assms(1)])
  note run = map_of_SomeD [OF assms(2)]
  obtain row where row: "row \<in> set (hm_rows m)" "hr_id row = i" "described True row t"
    by (rule hm_ok_row [OF ok run])
  note find = hm_find_of_row [OF hm_ok_distinct(1) [OF ok] row(1), unfolded row(2)]
  have "filter (\<lambda>r. hr_id r = i) (hm_rows m) = [row]"
    using filter_key_distinct [OF hm_ok_distinct(1) [OF ok] row(1)] row(2) by simp
  moreover have "hm_update env i inp m = (Inl (HtBadRequest ''Stop the listener before editing its config''), m)"
    if "hr_enabled row" for env inp
    using find that by (simp add: hm_update_def)
  moreover have "dto_status d = transport_status t" if "fst (hm_get i m) = Inr d" for d
    using that find row(2) assms(2) by (auto simp: hm_get_def hm_toDto_def sum_bind_Inr)
  moreover have "hr_enabled row" if up: "hm_runs False m0 m"
  proof -
    obtain q where q: "q \<in> set (hm_rows m)" "hr_id q = i" "described False q t"
      by (rule hm_ok_row [OF hm_ok_reaches [OF up] run])
    then have "q = row" using hm_find_of_row [OF hm_ok_distinct(1) [OF ok] q(1)] find by simp
    then show ?thesis using q(3) by (simp add: described_def)
  qed
  ultimately show ?thesis using row(2,3) unfolding described_def by blast
qed

text \<open>What a request does that comes in while a start is awaited, after its read of the row. An edit is still
  accepted, and the start then enables the edited row while its listener serves the old one.\<close>

lemma listener_started:
  assumes "hm_start_listener env row m = (Inr None, m')"
  shows "\<exists>t. serves row t \<and> m' = m\<lparr>hm_running := AList.update (hr_id row) t (hm_running m)\<rparr>"
proof -
  have none: "map_of (hm_running m) (hr_id row) = None"
    using assms by (cases "hm_toDto m row") (auto simp: hm_start_listener_def split: if_splits)
  obtain t where t: "buildTransport row = Inr t"
    using assms none by (cases "buildTransport row") (auto simp: hm_start_listener_def)
  then obtain u where "transport_start env t = Inr u" "m' = m\<lparr>hm_running := AList.update (hr_id row) u (hm_running m)\<rparr>"
    using assms none by (auto simp: hm_start_listener_def split: sum.splits)
  with started_serves [OF t] show ?thesis by blast
qed

lemma transport_start_edit_race:
  assumes "distinct (map hr_id (hm_rows m))" and "hm_find i m = Some row" and "updated_row inp row = Inr row'"
    and "hm_update env i inp m = (Inr d, m1)" and "hm_start_listener env row m1 = (Inr None, m2)"
    and "hm_store env row True m2 = (r, m3)" and "he_updateUp env i"
  shows "\<exists>t. map_of (hm_running m3) i = Some t \<and> serves row t \<and> hm_find i m3 = Some (row'\<lparr>hr_enabled := True\<rparr>)"
proof -
  note id = hm_find_Some [OF assms(2)] updated_row_id [OF assms(3)]
  have m1: "m1 = hm_put row' m"
    using assms(2-4) unfolding hm_update_def by (auto simp: Let_def split: if_splits)
  have row': "hr_id row' \<in> hr_id ` set (hm_rows m)" using id by auto
  have "row' \<in> set (hm_rows m1)" using hm_put_set [OF row'] by (simp add: m1)
  then have f1: "hm_find i m1 = Some row'" using hm_find_of_row [of m1 row'] assms(1) id by (simp add: m1)
  obtain t where t: "serves row t" "m2 = m1\<lparr>hm_running := AList.update i t (hm_running m1)\<rparr>"
    using listener_started [OF assms(5)] id by auto
  have dist: "distinct (map hr_id (hm_rows m2))" using assms(1) by (simp add: t m1)
  have "hm_find i m2 = Some row'" using f1 by (simp add: t)
  from setEnabled_cases [OF dist this, of env True] have m3: "m3 = hm_put (row'\<lparr>hr_enabled := True\<rparr>) m2"
    using assms(6,7) id by (auto simp: hm_store_def)
  have mem: "row' \<in> set (hm_rows m2)" using hm_find_Some [OF f1] by (simp add: t)
  then have "row'\<lparr>hr_enabled := True\<rparr> \<in> set (hm_rows m3)"
    using hm_put_set [of "row'\<lparr>hr_enabled := True\<rparr>" m2] by (simp add: m3)
  then have "hm_find i m3 = Some (row'\<lparr>hr_enabled := True\<rparr>)"
    using hm_find_of_row [of m3 "row'\<lparr>hr_enabled := True\<rparr>"] dist id by (simp add: m3)
  moreover have "map_of (hm_running m3) i = Some t" by (simp add: m3 t update_conv')
  ultimately show ?thesis using t(1) by blast
qed

text \<open>A deletion removes the row, and the listener stays without one: no request can stop it.\<close>

lemma transport_start_delete_race:
  assumes "hm_find i m = Some row" and "hm_delete env i m = (Inr u, m1)"
    and "hm_start_listener env row m1 = (Inr None, m2)" and "hm_store env row True m2 = (r, m3)"
    and "he_updateUp env i"
  shows "r = Inl HtRecordNotFound \<and> hm_stopConfig env i m3 = (Inl (not_found i), m3)
    \<and> (\<exists>t. map_of (hm_running m3) i = Some t \<and> rs_listening (transport_status t))"
proof -
  have id: "hr_id row = i" using hm_find_Some [OF assms(1)] by simp
  obtain m0 where "m1 = m0\<lparr>hm_rows := filter (\<lambda>r. hr_id r \<noteq> i) (hm_rows m0)\<rparr>"
    using assms(1,2) unfolding hm_delete_def by (auto split: prod.splits sum.splits if_splits)
  then have gone: "hm_find i m1 = None" by (auto simp: hm_find_def find_None_iff)
  obtain t where t: "serves row t" "m2 = m1\<lparr>hm_running := AList.update i t (hm_running m1)\<rparr>"
    using listener_started [OF assms(3)] id by auto
  have "hm_find i m2 = None" using gone by (simp add: t)
  then have "r = Inl HtRecordNotFound" "m3 = m2" using assms(4,5) id by (auto simp: hm_store_def hm_setEnabled_def)
  then show ?thesis using t gone by (auto simp: hm_stopConfig_def update_conv' serves_def Let_def)
qed

text \<open>C24: a successful activation leaves the chosen configuration listening and no other configuration
  of its kind running.\<close>

theorem transport_activation_exclusive:
  assumes "hm_reaches m0 m" and "hm_setActive env i m = (Inr d, m')"
  shows "rs_listening (dto_status d) \<and> hr_id (dto_row d) = i
    \<and> (\<exists>t. map_of (hm_running m') i = Some t \<and> dto_status d = transport_status t)
    \<and> (\<forall>row\<in>set (hm_rows m'). hr_kind row = kind_code (dto_kind d) \<longrightarrow> hr_id row \<noteq> i
         \<longrightarrow> map_of (hm_running m') (hr_id row) = None)"
proof -
  have ok: "hm_ok True m" by (rule hm_ok_reaches [OF assms(1)])
  obtain target u m1 where target: "hm_find i m = Some target"
    and s: "hm_stop_all env (filter (\<lambda>r. hr_kind r = hr_kind target \<and> hr_id r \<noteq> i) (hm_rows m)) m = (Inr u, m1)"
    and st: "hm_startConfig env i m1 = (Inr d, m')"
    using assms(2) unfolding hm_setActive_def by (auto split: option.splits prod.splits sum.splits)
  note ok1 = hm_ok_stop_all [OF ok s]
  note ok' = hm_ok_start [OF ok1 st disjI1 [OF TrueI]] and dto = startConfig_dto [OF ok1 st]
  have kinds: "row_kinds m1 = row_kinds m" using stop_all_effect [OF ok s, of u] by blast
  have "(i, hr_kind target) \<in> set (row_kinds m)" using hm_find_Some [OF target] by force
  then have kd: "hr_kind target = kind_code (dto_kind d)"
    using row_kinds_unique [OF ok] dto unfolding kinds by blast
  have "map_of (hm_running m') (hr_id row) = None"
    if row: "row \<in> set (hm_rows m')" "hr_kind row = kind_code (dto_kind d)" "hr_id row \<noteq> i" for row
  proof -
    have "(hr_id row, hr_kind row) \<in> set (row_kinds m')" using row(1) by simp
    then have "(hr_id row, hr_kind row) \<in> set (row_kinds m)" using dto kinds by metis
    then obtain q where "q \<in> set (hm_rows m)" "hr_id q = hr_id row" "hr_kind q = hr_kind row" by auto
    then have "map_of (hm_running m1) (hr_id row) = None"
      using stop_all_effect [OF ok s, of u] row(2, 3) kd by force
    then show ?thesis using dto row(3) by simp
  qed
  then show ?thesis using dto listening_of_ok [OF ok'] by fastforce
qed

text \<open>An edit that turns a stopped in-process configuration into a network listener without naming
  a port is accepted and stores the port 0, which a creation with the same data refuses.\<close>

theorem transport_edit_keeps_port_zero:
  assumes "hm_find i m = Some row" and "\<not> hr_enabled row" and "hr_port row = 0"
    and "hr_switchProfile row = switch_id_code sw" and "k \<noteq> IN_PROCESS"
    and "inp = \<lparr>hi_name = None, hi_kind = Some (kind_code k), hi_bindAddress = None, hi_port = None,
      hi_switchProfile = None, hi_tlsEnabled = None, hi_isPrimary = None, hi_notes = None\<rparr>"
    and "distinct (map hr_name (hm_rows m))" and "env_up env"
  shows "(\<exists>d. fst (hm_update env i inp m) = Inr d \<and> dto_kind d = k \<and> hr_port (dto_row d) = 0)
    \<and> hm_create env inp m = (Inl (HtBadRequest (''port must be 1-65535 for '' @ kind_code k)), m)"
proof -
  note row = hm_find_Some [OF assms(1)]
  have rk: "requireKind (Some (kind_code k)) = Inr k" by (cases k) (simp_all add: requireKind_def VALID_KINDS_def)
  have rs: "requireSwitch (switch_id_code s) = Inr s" for s
    by (cases s) (simp_all add: requireSwitch_def VALID_SWITCHES_def switch_profile_defs)
  have k: "kind_code k \<noteq> []" by (cases k) simp_all
  define row' where "row' = row\<lparr>hr_kind := kind_code k\<rparr>"
  have up: "updated_row inp row = Inr row'"
    unfolding assms(6) updated_row_def edit_kind_def edit_switch_def edit_port_def row'_def
    using k rk by (simp)
  have "hr_name row' \<notin> hr_name ` set (filter (\<lambda>r. hr_id r \<noteq> i) (hm_rows m))"
  proof
    assume "hr_name row' \<in> hr_name ` set (filter (\<lambda>r. hr_id r \<noteq> i) (hm_rows m))"
    then obtain q where q: "q \<in> set (hm_rows m)" "hr_id q \<noteq> i" "hr_name q = hr_name row"
      unfolding row'_def by force
    then have "q = row" using row(1) assms(7) by (metis distinct_map inj_onD)
    then show False using q(2) row(2) by simp
  qed
  then have "fst (hm_update env i inp m) = hm_toDto (hm_put row' m) row'"
    using assms(1, 2) up assms(8) by (simp add: hm_update_def Let_def env_up_def)
  moreover have "\<exists>d. hm_toDto (hm_put row' m) row' = Inr d \<and> dto_kind d = k \<and> hr_port (dto_row d) = 0"
    using rk rs [of sw] assms(3, 4) by (simp add: hm_toDto_def row'_def)
  moreover have "created_row env inp = Inl (HtBadRequest (''port must be 1-65535 for '' @ kind_code k))"
    unfolding assms(6) created_row_def using rk rs [of JALIN] assms(5)
    by (simp add: normalizePort_def js_to_int_def Let_def)
  ultimately show ?thesis by (simp add: hm_create_def)
qed

text \<open>The amount of a credit transfer is read as text or as the text of an element with attributes.\<close>

definition pacs_text :: "http_env \<Rightarrow> js_value \<Rightarrow> string list \<Rightarrow> string option" where
  "pacs_text env tx path = nestedString (ht_numText env) tx path"

definition report_field :: "js_value \<Rightarrow> string list \<Rightarrow> js_value" where
  "report_field d path = jv_walk d (''Document'' # ''FIToFIPmtStsRpt'' # ''TxInfAndSts'' # path)"

lemma report_fields:
  "report_field (buildPacs002 env e2e st rs txt) [''OrgnlEndToEndId''] = JvStr e2e"
  "report_field (buildPacs002 env e2e st rs txt) [''TxSts''] = JvStr st"
  "report_field (buildPacs002 env e2e st rs txt) [''StsRsnInf'', ''Rsn'', ''Cd'']
     = (case rs of None \<Rightarrow> JvUndefined | Some cd \<Rightarrow> JvStr cd)"
  by (simp_all add: report_field_def buildPacs002_def Let_def split: option.split)

text \<open>C25: a credit transfer is reported as settled exactly when the host approves the withdrawal it
  stands for, otherwise as rejected with the reason of the response code, always under the sender's
  end-to-end id; and the host is left as that withdrawal leaves it.\<close>

theorem pacs008_settles_iff_approved:
  assumes "bank_db_up ops view" and "getSwitchById sw = Inr profile" and "pickCdtTrfTxInf doc = Some tx"
    and "pacs_text env tx [''PmtId'', ''EndToEndId''] = Some e2e"
    and "pacs_text env tx [''IntrBkSttlmAmt''] = Some amt"
    and "pacs_text env tx [''DbtrAcct'', ''Id'', ''Othr'', ''Id''] = Some pan" and "pan \<noteq> []"
    and "p = \<lparr>wd_pan = pan, wd_amount = js_Number amt, wd_sessionId = ''pacs008-'' @ e2e, wd_switch = Some profile\<rparr>"
    and "code = withdraw_code henv p (view (h_db h))"
  shows "\<exists>d. handlePacs008 ops henv env sw doc h = (Inr d, snd (host_authorizeWithdrawal ops henv p h))
    \<and> report_field d [''OrgnlEndToEndId''] = JvStr e2e
    \<and> report_field d [''TxSts''] = JvStr (if code = ''00'' then ''ACSC'' else ''RJCT'')
    \<and> report_field d [''StsRsnInf'', ''Rsn'', ''Cd'']
        = (if code = ''00'' then JvUndefined else JvStr (mapResponseCodeToReason code))"
proof -
  have tx: "jv_truthy tx" using assms(6)
    by (rule contrapos_pp) (simp add: pacs_text_def nestedString_def Let_def)
  obtain r h' where A: "host_authorizeWithdrawal ops henv p h = (r, h')" by fastforce
  have c: "az_responseCode r = code" "az_approved r \<longleftrightarrow> code = ''00''"
    using bank_db_up.authorize_code [OF assms(1) A] assms(9) by auto
  have "handlePacs008 ops henv env sw doc h = (Inr (buildPacs002 env e2e
      (if az_approved r then ''ACSC'' else ''RJCT'')
      (if az_approved r then None else Some (mapResponseCodeToReason code))
      (if az_approved r
       then ''Authorized via '' @ az_switchName r @ '' stan='' @ az_stanNo r @ '' auth='' @ js_default (az_authCode r) []
       else ''Declined via '' @ az_switchName r @ '' (responseCode='' @ code @ ''): ''
         @ js_default (az_reason r) ''unknown'')), h')"
    using assms(2-7) A tx unfolding handlePacs008_def pacs_text_def Let_def assms(8) by (simp add: c(1))
  then show ?thesis using A by (simp add: report_fields c(2))
qed

section \<open>Witnesses\<close>

definition ht_sample_env :: ht_env where
  "ht_sample_env = \<lparr>he_newId = ''R9'', he_now = ''now'', he_bind = (\<lambda>addr port. Inr ''now''),
     he_createUp = True, he_updateUp = (\<lambda>i. True), he_deleteUp = True\<rparr>"

definition ht_booted :: ht_manager where
  "ht_booted = hm_onModuleInit ht_sample_env [''A'', ''B'', ''C''] \<lparr>hm_rows = [], hm_running = []\<rparr>"

lemma ht_booted_runs: "hm_runs fails \<lparr>hm_rows = [], hm_running = []\<rparr> ht_booted"
  unfolding ht_booted_def by (rule runs_boot) (simp_all add: env_up_def ht_sample_env_def)

lemma ht_booted_running: "map_of (hm_running ht_booted) ''A'' = Some (T_InProcess
    \<lparr>ip_configId = ''A'', ip_switchProfile = JALIN, ip_startedAt = Some ''now''\<rparr>)"
  by code_simp

text \<open>After the boot, the listener B is started while its row cannot be updated.\<close>

definition ht_half_started :: ht_manager where
  "ht_half_started = snd (hm_startConfig (ht_sample_env\<lparr>he_updateUp := \<lambda>i. False\<rparr>) ''B'' ht_booted)"

lemma ht_half_started_runs: "hm_reaches \<lparr>hm_rows = [], hm_running = []\<rparr> ht_half_started"
  unfolding ht_half_started_def
  using runs_cmd [OF ht_booted_runs [of True], of "HcStart (ht_sample_env\<lparr>he_updateUp := \<lambda>i. False\<rparr>) ''B''"] by simp

lemma ht_half_started_facts:
  "map_of (hm_running ht_half_started) ''B'' \<noteq> None"
  "map_option hr_enabled (hm_find ''B'' ht_half_started) = Some False"
proof -
  show "map_option hr_enabled (hm_find ''B'' ht_half_started) = Some False" by code_simp
  have "case map_of (hm_running ht_half_started) ''B'' of None \<Rightarrow> False | Some t \<Rightarrow> True" by code_simp
  then show "map_of (hm_running ht_half_started) ''B'' \<noteq> None" by (auto split: option.splits)
qed

lemma transport_listeners_described_witness:
  "(\<exists>row. filter (\<lambda>r. hr_id r = ''A'') (hm_rows ht_booted) = [row] \<and> hr_enabled row)
   \<and> (\<exists>row t. filter (\<lambda>r. hr_id r = ''B'') (hm_rows ht_half_started) = [row] \<and> rs_configId (transport_status t) = ''B''
       \<and> map_option hr_enabled (hm_find ''B'' ht_half_started) = Some False)"
proof
  show "\<exists>row. filter (\<lambda>r. hr_id r = ''A'') (hm_rows ht_booted) = [row] \<and> hr_enabled row"
    using transport_listeners_described [OF ht_booted_runs [of True] ht_booted_running] ht_booted_runs [of False] by blast
  obtain t where "map_of (hm_running ht_half_started) ''B'' = Some t" using ht_half_started_facts(1) by blast
  from transport_listeners_described [OF ht_half_started_runs this] ht_half_started_facts(2)
  show "\<exists>row t. filter (\<lambda>r. hr_id r = ''B'') (hm_rows ht_half_started) = [row] \<and> rs_configId (transport_status t) = ''B''
       \<and> map_option hr_enabled (hm_find ''B'' ht_half_started) = Some False" by blast
qed

lemma ht_activated: "\<exists>d m'. hm_setActive ht_sample_env ''B'' ht_booted = (Inr d, m')"
proof -
  have "case fst (hm_setActive ht_sample_env ''B'' ht_booted) of Inl e \<Rightarrow> False | Inr d \<Rightarrow> True" by code_simp
  then show ?thesis by (cases "hm_setActive ht_sample_env ''B'' ht_booted") (auto split: sum.splits)
qed

lemma transport_activation_exclusive_witness:
  "\<exists>d m'. hm_setActive ht_sample_env ''B'' ht_booted = (Inr d, m') \<and> rs_listening (dto_status d)"
  using ht_activated transport_activation_exclusive [OF ht_booted_runs [of True]] by blast

lemma transport_edit_keeps_port_zero_witness:
  "\<exists>d. fst (hm_update ht_sample_env ''A''
        \<lparr>hi_name = None, hi_kind = Some ''ISO8583_TCP'', hi_bindAddress = None, hi_port = None,
         hi_switchProfile = None, hi_tlsEnabled = None, hi_isPrimary = None, hi_notes = None\<rparr>
        (snd (hm_stopConfig ht_sample_env ''A'' ht_booted))) = Inr d \<and> dto_kind d = ISO8583_TCP \<and> hr_port (dto_row d) = 0"
proof -
  let ?m = "snd (hm_stopConfig ht_sample_env ''A'' ht_booted)"
  have "case hm_find ''A'' ?m of None \<Rightarrow> False | Some row \<Rightarrow>
      \<not> hr_enabled row \<and> hr_port row = 0 \<and> hr_switchProfile row = switch_id_code JALIN" by code_simp
  moreover have "distinct (map hr_name (hm_rows ?m))" by code_simp
  ultimately show ?thesis
    using transport_edit_keeps_port_zero [where i = "''A''" and m = ?m and sw = JALIN and k = ISO8583_TCP
        and env = ht_sample_env, OF _ _ _ _ _ refl]
    by (auto simp: env_up_def ht_sample_env_def split: option.splits)
qed

definition pacs_sample :: js_value where
  "pacs_sample = JvObj [(''Document'', JvObj [(''FIToFICstmrCdtTrf'', JvObj [(''CdtTrfTxInf'', JvObj
     [(''PmtId'', JvObj [(''EndToEndId'', JvStr ''E1'')]),
      (''IntrBkSttlmAmt'', JvObj [(''@_Ccy'', JvStr ''IDR''), (''#text'', JvStr ''600000'')]),
      (''DbtrAcct'', JvObj [(''Id'', JvObj [(''Othr'', JvObj [(''Id'', JvStr ''4097111122223333'')])])])])])])]"

definition pacs_env :: http_env where
  "pacs_env = \<lparr>ht_nowMs = 1, ht_iso = ''now'', ht_numText = (\<lambda>n. [])\<rparr>"

lemma pacs_sample_tx: "\<exists>tx. pickCdtTrfTxInf pacs_sample = Some tx
    \<and> pacs_text pacs_env tx [''PmtId'', ''EndToEndId''] = Some ''E1''
    \<and> pacs_text pacs_env tx [''IntrBkSttlmAmt''] = Some ''600000''
    \<and> pacs_text pacs_env tx [''DbtrAcct'', ''Id'', ''Othr'', ''Id''] = Some ''4097111122223333''"
  by (simp add: pickCdtTrfTxInf_def pacs_sample_def Let_def pacs_text_def nestedString_def)

lemma pacs008_settles_iff_approved_witness:
  "\<exists>d. fst (handlePacs008 mem_ops hs_env pacs_env ''JALIN'' pacs_sample hs_host) = Inr d
    \<and> report_field d [''TxSts''] = JvStr ''RJCT''
    \<and> report_field d [''StsRsnInf'', ''Rsn'', ''Cd''] = JvStr ''AM04''"
proof -
  have "js_itoa 600000 = ''600000''" by (simp add: js_itoa.simps digit_char_def char_of_def bit_0)
  then have n: "js_Number ''600000'' = js_int 600000" using js_Number_itoa [of 600000] by simp
  have code: "withdraw_code hs_env (hs_withdrawal 600000) (h_db hs_host) = ''51''"
    by (simp add: hs_code hs_host_def)
  let ?p = "\<lparr>wd_pan = ''4097111122223333'', wd_amount = js_int 600000, wd_sessionId = ''pacs008-'' @ ''E1'',
      wd_switch = Some JALIN_PROFILE\<rparr>"
  have "withdraw_code hs_env ?p (h_db hs_host) = withdraw_code hs_env (hs_withdrawal 600000) (h_db hs_host)"
    unfolding withdraw_code_def wd_profile_def hs_withdrawal_def by (simp only: withdrawal.simps)
  then have code': "withdraw_code hs_env ?p (h_db hs_host) = ''51''" using code by simp
  obtain tx where tx: "pickCdtTrfTxInf pacs_sample = Some tx"
    "pacs_text pacs_env tx [''PmtId'', ''EndToEndId''] = Some ''E1''"
    "pacs_text pacs_env tx [''IntrBkSttlmAmt''] = Some ''600000''"
    "pacs_text pacs_env tx [''DbtrAcct'', ''Id'', ''Othr'', ''Id''] = Some ''4097111122223333''"
    using pacs_sample_tx by blast
  have sw: "getSwitchById ''JALIN'' = Inr JALIN_PROFILE" using jalin_by_id by simp
  from pacs008_settles_iff_approved [OF mem_bank_db_up sw tx _ refl refl, of hs_env hs_host]
  show ?thesis unfolding n code' by (auto simp: mapResponseCodeToReason_def)
qed

end
