(* ===== verification/Macro_Recorder.thy ===== *)
theory Macro_Recorder
  imports Atm_Types
begin

text \<open>
  Macros and their recorder (\<^verbatim>\<open>apps/xfs-server/src/macros/macro.types.ts\<close>,
  \<^verbatim>\<open>macro-recorder.service.ts\<close>): while a recording is active, what the customer does and what the
  devices report becomes a list of steps. The table of macros is a list of rows; the identifiers of
  the steps are given by the number of the step. A request and its queries run without interruption.
\<close>

section \<open>Macros\<close>

datatype MacroStepKind = ACTION | CHECKPOINT | ASSERTION | WAIT

datatype MacroDevice = Dev_Card | Dev_PinPad | Dev_Cash | Dev_Receipt | Dev_Screen | Dev_System

datatype param_type = Ty_string | Ty_number | Ty_boolean | Ty_variable

datatype param_value = Pv_str string | Pv_num jsnum | Pv_bool bool

record MacroParameter =
  mp_name :: string
  mp_type :: param_type
  mp_value :: param_value
  mp_displayLabel :: "string option"

record MacroStep =
  st_id :: string
  st_order :: int
  st_kind :: MacroStepKind
  st_device :: MacroDevice
  st_operation :: string
  st_parameters :: "MacroParameter list"
  st_enabled :: bool
  st_notes :: "string option"
  st_timeoutMs :: "int option"

record Macro =
  mc_id :: string
  mc_name :: string
  mc_folder :: "string option"
  mc_description :: "string option"
  mc_tags :: "string list"
  mc_steps :: "MacroStep list"
  mc_variables :: "(string \<times> param_value) list"

text \<open>\<open>[...].sort((a, b) => a.order - b.order)\<close>: the sort of JavaScript is stable.\<close>

definition sort_steps :: "MacroStep list \<Rightarrow> MacroStep list" where
  "sort_steps steps = sort_key st_order steps"

section \<open>The recording session\<close>

record RecordingSession =
  rc_macroId :: string
  rc_steps :: "MacroStep list"
  rc_counter :: nat
  rc_startedAt :: int
  rc_digitBuffer :: string
  rc_absorbNextEnter :: bool

record recorder =
  mr_active :: "RecordingSession option"
  mr_macros :: "Macro list"

datatype recorder_error = AlreadyRecording string | MacroNotFound string | MacroRowGone

definition find_macro :: "string \<Rightarrow> Macro list \<Rightarrow> Macro option" where
  "find_macro i ms = find (\<lambda>m. mc_id m = i) ms"

definition mr_startRecording :: "int \<Rightarrow> string \<Rightarrow> recorder \<Rightarrow> (recorder_error + string \<times> int) \<times> recorder" where
  "mr_startRecording now i r =
     (case mr_active r of
        Some a \<Rightarrow> (Inl (AlreadyRecording (rc_macroId a)), r)
      | None \<Rightarrow>
          if find_macro i (mr_macros r) = None then (Inl (MacroNotFound i), r)
          else (Inr (i, now),
                r\<lparr>mr_active := Some \<lparr>rc_macroId = i, rc_steps = [], rc_counter = 1, rc_startedAt = now,
                    rc_digitBuffer = [], rc_absorbNextEnter = False\<rparr>\<rparr>))"

text \<open>A step without its identifier, its order and its enabled flag.\<close>

type_synonym partial_step = "MacroStepKind \<times> MacroDevice \<times> string \<times> MacroParameter list"

definition mr_pushStep :: "(nat \<Rightarrow> string) \<Rightarrow> partial_step \<Rightarrow> RecordingSession \<Rightarrow> RecordingSession" where
  "mr_pushStep ids p a =
     (let (k, dev, oper, ps) = p
      in a\<lparr>rc_steps := rc_steps a @
             [\<lparr>st_id = ids (rc_counter a), st_order = int (rc_counter a), st_kind = k, st_device = dev,
               st_operation = oper, st_parameters = ps, st_enabled = True, st_notes = None,
               st_timeoutMs = None\<rparr>],
           rc_counter := rc_counter a + 1\<rparr>)"

definition pin_shape :: "nat \<Rightarrow> bool" where
  "pin_shape n \<longleftrightarrow> 4 \<le> n \<and> n \<le> 12"

definition text_param :: "string \<Rightarrow> string \<Rightarrow> MacroParameter" where
  "text_param name v = \<lparr>mp_name = name, mp_type = Ty_string, mp_value = Pv_str v, mp_displayLabel = None\<rparr>"

definition enter_pin_step :: "nat \<Rightarrow> partial_step" where
  "enter_pin_step n =
     (ACTION, Dev_PinPad, ''EnterPin'',
      [\<lparr>mp_name = ''pin'', mp_type = Ty_variable, mp_value = Pv_str ''Card.pin'',
        mp_displayLabel = Some (''Card.pin ('' @ js_itoa n @ '' digits)'')\<rparr>])"

definition key_step :: "string \<Rightarrow> partial_step" where
  "key_step keys = (ACTION, Dev_PinPad, ''KeyPressed'', [text_param ''key'' keys])"

definition mr_flushDigitBuffer :: "(nat \<Rightarrow> string) \<Rightarrow> RecordingSession \<Rightarrow> RecordingSession" where
  "mr_flushDigitBuffer ids a =
     (let digits = rc_digitBuffer a; a1 = a\<lparr>rc_digitBuffer := []\<rparr>
      in if digits = [] then a
         else if pin_shape (length digits)
              then (mr_pushStep ids (enter_pin_step (length digits)) a1)\<lparr>rc_absorbNextEnter := True\<rparr>
              else mr_pushStep ids (key_step digits) a1)"

definition single_digit :: "string \<Rightarrow> bool" where
  "single_digit key \<longleftrightarrow> length key = 1 \<and> list_all is_digit key"

definition mr_keyPress :: "(nat \<Rightarrow> string) \<Rightarrow> string \<Rightarrow> RecordingSession \<Rightarrow> RecordingSession" where
  "mr_keyPress ids key a =
     (if single_digit key then a\<lparr>rc_digitBuffer := rc_digitBuffer a @ key\<rparr>
      else (let a1 = mr_flushDigitBuffer ids a; a2 = a1\<lparr>rc_absorbNextEnter := False\<rparr>
            in if key = ''ENTER'' \<and> rc_absorbNextEnter a1 then a2
               else mr_pushStep ids (key_step key) a2))"

fun mr_action :: "(nat \<Rightarrow> string) \<Rightarrow> UserActionKind \<Rightarrow> RecordingSession \<Rightarrow> RecordingSession" where
  "mr_action ids (UA_CARD_INSERT pan) a =
     mr_pushStep ids (ACTION, Dev_Card, ''Insert'', [])
       (mr_pushStep ids (ACTION, Dev_Card, ''Select'',
          [\<lparr>mp_name = ''pan'', mp_type = Ty_string, mp_value = Pv_str pan, mp_displayLabel = Some pan\<rparr>])
          (mr_flushDigitBuffer ids a))"
| "mr_action ids (UA_KEY_PRESS key) a = mr_keyPress ids key a"
| "mr_action ids (UA_SELECT_TRANSACTION t) a =
     mr_pushStep ids (ACTION, Dev_System, ''SelectTransaction'', [text_param ''txnType'' (txn_name t)])
       (mr_flushDigitBuffer ids a)"
| "mr_action ids (UA_SUBMIT_AMOUNT n) a =
     mr_pushStep ids (ACTION, Dev_System, ''SubmitAmount'',
         [\<lparr>mp_name = ''amount'', mp_type = Ty_number, mp_value = Pv_num n, mp_displayLabel = None\<rparr>])
       (mr_flushDigitBuffer ids a)"
| "mr_action ids UA_CONFIRM a =
     mr_pushStep ids (ACTION, Dev_System, ''Confirm'', []) (mr_flushDigitBuffer ids a)"
| "mr_action ids (UA_CANCEL reason) a =
     mr_pushStep ids (ACTION, Dev_System, ''Cancel'',
         (if js_default reason [] = [] then [] else [text_param ''reason'' (js_default reason [])]))
       (mr_flushDigitBuffer ids a)"

definition EVENT_TO_CHECKPOINT :: "(string \<times> MacroDevice \<times> string) list" where
  "EVENT_TO_CHECKPOINT =
     [(''WFS_SRVE_IDC_MEDIAINSERTED'', Dev_Card, ''Checkpoint(Insert)''),
      (''WFS_SRVE_IDC_MEDIAREMOVED'', Dev_Card, ''Checkpoint(Ejected)''),
      (''WFS_SRVE_IDC_MEDIARETAINED'', Dev_Card, ''Checkpoint(Retained)''),
      (''WFS_EXEE_CDM_NOTESPRESENTED'', Dev_Cash, ''Checkpoint(NotesPresented)''),
      (''WFS_SRVE_CDM_ITEMSTAKEN'', Dev_Cash, ''Checkpoint(Taken)''),
      (''WFS_SRVE_PTR_MEDIAPRESENTED'', Dev_Receipt, ''Checkpoint(Printed)'')]"

definition mr_event :: "(nat \<Rightarrow> string) \<Rightarrow> string \<Rightarrow> RecordingSession \<Rightarrow> RecordingSession" where
  "mr_event ids code a =
     (case map_of EVENT_TO_CHECKPOINT code of
        None \<Rightarrow> a
      | Some (dev, oper) \<Rightarrow> mr_pushStep ids (CHECKPOINT, dev, oper, []) (mr_flushDigitBuffer ids a))"

text \<open>The two listeners; nothing happens while no recording is active.\<close>

definition mr_on :: "(RecordingSession \<Rightarrow> RecordingSession) \<Rightarrow> recorder \<Rightarrow> recorder" where
  "mr_on f r = r\<lparr>mr_active := map_option f (mr_active r)\<rparr>"

definition mr_onUserAction :: "(nat \<Rightarrow> string) \<Rightarrow> UserAction \<Rightarrow> recorder \<Rightarrow> recorder" where
  "mr_onUserAction ids u r = mr_on (mr_action ids (ua_kind u)) r"

definition mr_onXfsEvent :: "(nat \<Rightarrow> string) \<Rightarrow> xfs_event \<Rightarrow> recorder \<Rightarrow> recorder" where
  "mr_onXfsEvent ids e r = mr_on (mr_event ids (event_code_string (ev_eventCode e))) r"

definition mr_status :: "recorder \<Rightarrow> bool \<times> string option \<times> nat option" where
  "mr_status r =
     (case mr_active r of
        None \<Rightarrow> (False, None, None)
      | Some a \<Rightarrow> (True, Some (rc_macroId a),
                  Some (length (rc_steps a) + (if rc_digitBuffer a \<noteq> [] then 1 else 0))))"

text \<open>The update of a macro that was deleted in the meantime throws; the recording stays active then.\<close>

definition mr_stopRecording ::
  "(nat \<Rightarrow> string) \<Rightarrow> recorder \<Rightarrow> (recorder_error + (string \<times> MacroStep list) option) \<times> recorder" where
  "mr_stopRecording ids r =
     (case mr_active r of
        None \<Rightarrow> (Inr None, r)
      | Some a \<Rightarrow>
          (let a1 = mr_flushDigitBuffer ids a; sorted_steps = sort_steps (rc_steps a1); i = rc_macroId a1
           in if find_macro i (mr_macros r) = None then (Inl MacroRowGone, r\<lparr>mr_active := Some a1\<rparr>)
              else (Inr (Some (i, sorted_steps)),
                    \<lparr>mr_active = None,
                     mr_macros = map (\<lambda>m. if mc_id m = i then m\<lparr>mc_steps := sorted_steps\<rparr> else m) (mr_macros r)\<rparr>)))"

section \<open>A recording\<close>

datatype observation = ObsAction UserAction | ObsEvent xfs_event

fun mr_observe :: "(nat \<Rightarrow> string) \<Rightarrow> observation \<Rightarrow> recorder \<Rightarrow> recorder" where
  "mr_observe ids (ObsAction u) r = mr_onUserAction ids u r"
| "mr_observe ids (ObsEvent e) r = mr_onXfsEvent ids e r"

definition mr_record ::
  "(nat \<Rightarrow> string) \<Rightarrow> int \<Rightarrow> string \<Rightarrow> observation list \<Rightarrow> recorder
   \<Rightarrow> (recorder_error + (string \<times> MacroStep list) option) \<times> recorder" where
  "mr_record ids now i obs r =
     mr_stopRecording ids (fold (mr_observe ids) obs (snd (mr_startRecording now i r)))"

end
