(* ===== verification/Macro_Runner.thy ===== *)
theory Macro_Runner
  imports Macro_Recorder Atm_App
begin

text \<open>
  The macro runner (\<^verbatim>\<open>apps/xfs-server/src/macros/macro-runner.service.ts\<close>) over the modelled ATM: a
  step calls the handlers of the ATM application, presses keys and looks at the devices. A handler that
  a step awaits runs alone (\<^const>\<open>atm_drive\<close>, whose bound of 7 calls is above the longest handler);
  before each step anything else may have happened to the ATM, which is the function \<open>se_before\<close>. A step
  can also never end (it waits for a PIN entry that nobody completes) or end the process (a rejected
  promise without a handler).
\<close>

section \<open>Texts\<close>

fun state_name :: "AtmState \<Rightarrow> string" where
  "state_name IDLE = ''IDLE''"
| "state_name CARD_INSERTED = ''CARD_INSERTED''"
| "state_name PIN_ENTRY = ''PIN_ENTRY''"
| "state_name PIN_VERIFIED = ''PIN_VERIFIED''"
| "state_name MAIN_MENU = ''MAIN_MENU''"
| "state_name AMOUNT_ENTRY = ''AMOUNT_ENTRY''"
| "state_name CONFIRM = ''CONFIRM''"
| "state_name PROCESSING = ''PROCESSING''"
| "state_name DISPENSING = ''DISPENSING''"
| "state_name PRINTING = ''PRINTING''"
| "state_name EJECTING = ''EJECTING''"
| "state_name ATM_ERROR = ''ERROR''"
| "state_name ENDED = ''ENDED''"

fun kind_name :: "MacroStepKind \<Rightarrow> string" where
  "kind_name ACTION = ''ACTION''"
| "kind_name CHECKPOINT = ''CHECKPOINT''"
| "kind_name ASSERTION = ''ASSERTION''"
| "kind_name WAIT = ''WAIT''"

fun device_name :: "MacroDevice \<Rightarrow> string" where
  "device_name Dev_Card = ''Card''"
| "device_name Dev_PinPad = ''PinPad''"
| "device_name Dev_Cash = ''Cash''"
| "device_name Dev_Receipt = ''Receipt''"
| "device_name Dev_Screen = ''Screen''"
| "device_name Dev_System = ''System''"

text \<open>The messages of the errors the ATM application throws; those of the engine and of the database are
  parameters.\<close>

fun atm_error_text :: "(db_error \<Rightarrow> string) \<Rightarrow> string \<Rightarrow> atm_error \<Rightarrow> string" where
  "atm_error_text dbt te SessionActive = ''Session already active''"
| "atm_error_text dbt te (WrongState what st) =
     ''cannot '' @ what @ '' in state='' @ js_default (map_option state_name st) ''none''"
| "atm_error_text dbt te BadAmount = ''amount must be a positive multiple of 20000 IDR''"
| "atm_error_text dbt te TypeError = te"
| "atm_error_text dbt te (Rejected e) = dbt e"

fun js_String :: "(jsnum \<Rightarrow> string) \<Rightarrow> param_value \<Rightarrow> string" where
  "js_String nt (Pv_str s) = s"
| "js_String nt (Pv_num n) = js_num_text nt n"
| "js_String nt (Pv_bool b) = (if b then ''true'' else ''false'')"

fun param_number :: "param_value option \<Rightarrow> jsnum" where
  "param_number None = JNaN"
| "param_number (Some (Pv_str s)) = js_Number s"
| "param_number (Some (Pv_num n)) = n"
| "param_number (Some (Pv_bool b)) = js_int (if b then 1 else 0)"

definition starts_with :: "string \<Rightarrow> string \<Rightarrow> bool" where
  "starts_with s p \<longleftrightarrow> take (length p) s = p"

section \<open>Context of a run\<close>

record MacroRunContext =
  cx_selectedPan :: "string option"
  cx_selectedCardPin :: "string option"
  cx_variables :: "(string \<times> param_value) list"

record 'db step_env =
  se_atm :: atm_env
  se_before :: "'db world \<Rightarrow> 'db world"
  se_runsUp :: bool
  se_armed :: bool
  se_lastTxn :: "'db \<Rightarrow> db_error + TransactionRow option"
  se_injectCode :: "jsnum \<Rightarrow> int"
  se_dbText :: "db_error \<Rightarrow> string"
  se_typeError :: string
  se_start :: int
  se_end :: int

datatype step_outcome = Step_Ok string | Step_Fail string | Step_Waits | Step_Crash

type_synonym 'db step_state = "MacroRunContext \<times> 'db world"

type_synonym params = "(string \<times> param_value) list"

definition paramMap :: "MacroParameter list \<Rightarrow> params" where
  "paramMap ps = fold (\<lambda>p out. AList.update (mp_name p) (mp_value p) out) ps []"

definition param_text :: "'db step_env \<Rightarrow> params \<Rightarrow> string \<Rightarrow> string \<Rightarrow> string" where
  "param_text e ps name d =
     (case map_of ps name of Some v \<Rightarrow> js_String (ae_numText (se_atm e)) v | None \<Rightarrow> d)"

definition resolveKey :: "'db step_env \<Rightarrow> string \<Rightarrow> MacroRunContext \<Rightarrow> string + string" where
  "resolveKey e raw ctx =
     (if raw = ''Card.pin'' then Inr ''111111''
      else if starts_with raw ''$'' then
        (case map_of (cx_variables ctx) (drop 1 raw) of
           None \<Rightarrow> Inl (''variable '' @ drop 1 raw @ '' is unset'')
         | Some v \<Rightarrow> Inr (js_String (ae_numText (se_atm e)) v))
      else Inr raw)"

section \<open>What a step does\<close>

text \<open>Awaiting a handler of the ATM: its reply goes to the rest of the step.\<close>

definition mx_await ::
  "'db bank_ops \<Rightarrow> 'db step_env \<Rightarrow> 'db world \<times> progress \<Rightarrow> (atm_reply \<Rightarrow> step_outcome)
   \<Rightarrow> step_outcome \<times> 'db world" where
  "mx_await ops e wp f =
     (case atm_drive ops (se_atm e) 7 wp of
        (w, None) \<Rightarrow> (Step_Waits, w)
      | (w, Some (Inl err)) \<Rightarrow> (Step_Fail (atm_error_text (se_dbText e) (se_typeError e) err), w)
      | (w, Some (Inr rp)) \<Rightarrow> (f rp, w))"

definition mx_handler ::
  "'db bank_ops \<Rightarrow> 'db step_env \<Rightarrow> atm_input \<Rightarrow> string \<Rightarrow> 'db world \<Rightarrow> step_outcome \<times> 'db world" where
  "mx_handler ops e i msg w = mx_await ops e (atm_start (se_atm e) i w) (\<lambda>rp. Step_Ok msg)"

text \<open>Key presses, with the answers they cause.\<close>

fun mx_press :: "xfs_env \<Rightarrow> string list \<Rightarrow> 'db world \<Rightarrow> answer list \<times> 'db world" where
  "mx_press xe [] w = ([], w)"
| "mx_press xe (k # ks) w =
     (let (as, m, outs) = xm_step xe (XmPressKey k) (w_xfs w);
          (bs, w') = mx_press xe ks (w\<lparr>w_xfs := m, w_bus := w_bus w @ atm_bus_outputs outs\<rparr>)
      in (as @ bs, w'))"

definition mx_Select :: "'db bank_ops \<Rightarrow> 'db step_env \<Rightarrow> params \<Rightarrow> 'db step_state \<Rightarrow> step_outcome \<times> 'db step_state" where
  "mx_Select ops e ps cw =
     (let (ctx, w) = cw; pan = param_text e ps ''pan'' (param_text e ps ''cardId'' [])
      in if pan = [] then (Step_Fail ''Card: Select requires parameter \"pan\"'', cw)
         else (case db_findCard ops pan (h_db (w_host w)) of
                 Inl err \<Rightarrow> (Step_Fail (se_dbText e err), cw)
               | Inr None \<Rightarrow> (Step_Fail (''no virtual card with pan '' @ pan), cw)
               | Inr (Some (c, a)) \<Rightarrow>
                   (Step_Ok (''selected '' @ cd_pan c),
                    ctx\<lparr>cx_selectedPan := Some (cd_pan c), cx_selectedCardPin := Some (cd_pin c),
                        cx_variables := AList.update ''Card.cardholderName'' (Pv_str (cd_cardholderName c))
                          (AList.update ''Card.pan'' (Pv_str (cd_pan c)) (cx_variables ctx))\<rparr>, w)))"

definition card_of_row :: "CardRow \<Rightarrow> idc_card" where
  "card_of_row c =
     \<lparr>ic_pan = cd_pan c, ic_cardholderName = cd_cardholderName c, ic_expiryDate = cd_expiryDate c,
      ic_track1 = cd_track1 c, ic_track2 = cd_track2 c, ic_pinHash = cd_pin c, ic_chipData = None,
      ic_issuer = cd_issuer c\<rparr>"

definition mx_Insert :: "'db bank_ops \<Rightarrow> 'db step_env \<Rightarrow> 'db step_state \<Rightarrow> step_outcome \<times> 'db step_state" where
  "mx_Insert ops e cw =
     (let (ctx, w) = cw
      in if js_default (cx_selectedPan ctx) [] = [] then (Step_Fail ''Card: Insert requires prior Card: Select'', cw)
         else (case db_findCard ops (js_default (cx_selectedPan ctx) []) (h_db (w_host w)) of
                 Inl err \<Rightarrow> (Step_Fail (se_dbText e err), cw)
               | Inr None \<Rightarrow> (Step_Fail ''selected card disappeared'', cw)
               | Inr (Some (c, a)) \<Rightarrow>
                   (let (oc, w') = mx_handler ops e (In_InsertCard (cd_pan c) (card_of_row c))
                          (''inserted '' @ cd_pan c) w
                    in (oc, ctx, w'))))"

definition mx_KeyPressed :: "'db step_env \<Rightarrow> params \<Rightarrow> 'db step_state \<Rightarrow> step_outcome \<times> 'db step_state" where
  "mx_KeyPressed e ps cw =
     (let (ctx, w) = cw
      in case resolveKey e (param_text e ps ''key'' []) ctx of
           Inl msg \<Rightarrow> (Step_Fail msg, cw)
         | Inr resolved \<Rightarrow>
             if 2 \<le> length resolved \<and> list_all is_digit resolved
             then (Step_Ok (''pressed '' @ js_itoa (length resolved) @ '' digits''),
                   ctx, snd (mx_press (ae_xfs (se_atm e)) (map (\<lambda>ch. [ch]) resolved) w))
             else (Step_Ok (''pressed '' @ resolved), ctx, snd (mx_press (ae_xfs (se_atm e)) [resolved] w)))"

text \<open>\<open>EnterPin\<close>: the entry is begun and, once the PIN pad is armed, the keys are pressed. If the begin is
  refused, its rejection is unhandled while the step polls the PIN pad, which ends the process. If the
  pad is not armed the step fails and the entry goes on without it.\<close>

definition pin_reply :: "nat \<Rightarrow> atm_reply \<Rightarrow> step_outcome" where
  "pin_reply n rp =
     (case rp of
        Rp_Pin verified reason \<Rightarrow>
          if verified then Step_Ok (''pin '' @ js_itoa n @ ''-digit verified'')
          else Step_Fail (''pin rejected: '' @ js_default reason ''unknown'')
      | _ \<Rightarrow> Step_Fail ''pin rejected: unknown'')"

definition mx_enter :: "'db bank_ops \<Rightarrow> 'db step_env \<Rightarrow> string \<Rightarrow> 'db world \<Rightarrow> step_outcome \<times> 'db world" where
  "mx_enter ops e pin w =
     (let env = se_atm e; not_armed = Step_Fail ''pin device did not arm within 2s''
      in case atm_beginPinEntry env w of
           (w1, Await (C_Xfs c) k) \<Rightarrow>
             (let (w2, as, res) = atm_perform ops env (C_Xfs c) w1
              in case map_of as c of
                   Some rsp \<Rightarrow>
                     (not_armed, fst (atm_drive ops env 6 (atm_resume env (Inr (V_Xfs rsp)) k w2)))
                 | None \<Rightarrow>
                     if \<not> se_armed e then (not_armed, w2)
                     else
                       (let (bs, w3) = mx_press (ae_xfs env) (map (\<lambda>ch. [ch]) pin @ [''ENTER'']) w2
                        in case map_of bs c of
                             None \<Rightarrow> (Step_Waits, w3)
                           | Some rsp \<Rightarrow>
                               mx_await ops e (atm_resume env (Inr (V_Xfs rsp)) k w3) (pin_reply (length pin))))
         | (w1, p) \<Rightarrow> (Step_Crash, w1))"

definition mx_EnterPin :: "'db bank_ops \<Rightarrow> 'db step_env \<Rightarrow> params \<Rightarrow> 'db step_state \<Rightarrow> step_outcome \<times> 'db step_state" where
  "mx_EnterPin ops e ps cw =
     (let (ctx, w) = cw
      in case resolveKey e (param_text e ps ''pin'' ''Card.pin'') ctx of
           Inl msg \<Rightarrow> (Step_Fail msg, cw)
         | Inr pin \<Rightarrow> (let (oc, w') = mx_enter ops e pin w in (oc, ctx, w')))"

definition mx_NotesPresented :: "'db step_env \<Rightarrow> 'db world \<Rightarrow> step_outcome \<times> 'db world" where
  "mx_NotesPresented e w =
     (let dv = xm_devices (w_xfs w);
          (oc, d, outs) = cdm_executeCommand (dv_cdm dv) (cdm_cmd_code CDM_CASH_UNIT_INFO) xfs_no_payload;
          w' = w\<lparr>w_xfs := (w_xfs w)\<lparr>xm_devices := dv\<lparr>dv_cdm := d\<rparr>\<rparr>, w_bus := w_bus w @ atm_bus_outputs outs\<rparr>
      in (case oc of
            Failed err \<Rightarrow> Step_Fail (dev_error_text (ae_numText (se_atm e)) err)
          | _ \<Rightarrow> Step_Ok ''notes presented'', w'))"

definition deviceFor :: "string \<Rightarrow> string + device_ref" where
  "deviceFor name =
     (if name = ''IDC'' then Inr Ref_IDC else if name = ''PIN'' then Inr Ref_PIN
      else if name = ''CDM'' then Inr Ref_CDM else if name = ''PTR'' then Inr Ref_PTR
      else Inl (''unknown device for InjectError: '' @ name @ '' (use IDC|PIN|CDM|PTR)''))"

definition mx_admin :: "device_ref \<Rightarrow> admin_op \<Rightarrow> 'db world \<Rightarrow> 'db world" where
  "mx_admin ref oper w = w\<lparr>w_xfs := (w_xfs w)\<lparr>xm_devices := dev_admin ref oper (xm_devices (w_xfs w))\<rparr>\<rparr>"

definition injectXfsError :: "'db step_env \<Rightarrow> params \<Rightarrow> 'db world \<Rightarrow> step_outcome \<times> 'db world" where
  "injectXfsError e ps w =
     (let device = js_toUpperCase (param_text e ps ''device'' []);
          code = (case map_of ps ''errorCode'' of None \<Rightarrow> js_int (- 3) | v \<Rightarrow> param_number v)
      in case deviceFor device of
           Inl msg \<Rightarrow> (Step_Fail msg, w)
         | Inr ref \<Rightarrow>
             (Step_Ok (''injected '' @ js_num_text (ae_numText (se_atm e)) code @ '' on '' @ device),
              mx_admin ref (AdmInjectError (case js_to_int code of Some i \<Rightarrow> i | None \<Rightarrow> se_injectCode e code)) w))"

definition clearXfsError :: "'db step_env \<Rightarrow> params \<Rightarrow> 'db world \<Rightarrow> step_outcome \<times> 'db world" where
  "clearXfsError e ps w =
     (let device = js_toUpperCase (param_text e ps ''device'' [])
      in case deviceFor device of
           Inl msg \<Rightarrow> (Step_Fail msg, w)
         | Inr ref \<Rightarrow> (Step_Ok (''cleared error on '' @ device), mx_admin ref AdmClearError w))"

definition mx_SessionState :: "'db step_env \<Rightarrow> params \<Rightarrow> 'db world \<Rightarrow> step_outcome" where
  "mx_SessionState e ps w =
     (let expected = js_toUpperCase (param_text e ps ''expected'' []);
          actual = (case atm_cur w of None \<Rightarrow> ''ENDED'' | Some s \<Rightarrow> state_name (ss_state s))
      in if actual \<noteq> expected
         then Step_Fail (''expected session state='' @ expected @ '', got '' @ actual)
         else Step_Ok (''state='' @ actual))"

definition mx_LastTransaction :: "'db step_env \<Rightarrow> params \<Rightarrow> 'db world \<Rightarrow> step_outcome" where
  "mx_LastTransaction e ps w =
     (let expected = js_toUpperCase (param_text e ps ''status'' [])
      in case se_lastTxn e (h_db (w_host w)) of
           Inl err \<Rightarrow> Step_Fail (se_dbText e err)
         | Inr None \<Rightarrow> Step_Fail ''no transactions found''
         | Inr (Some t) \<Rightarrow>
             if js_toUpperCase (tx_status t) \<noteq> expected
             then Step_Fail (''expected last txn status='' @ expected @ '', got '' @ tx_status t
                    @ '' (reason: '' @ js_default (tx_errorReason t) ''n/a'' @ '')'')
             else Step_Ok (''last txn='' @ tx_status t @ '' stan='' @ js_default (tx_stanNo t) ''-''))"

definition txn_of :: "string \<Rightarrow> AtmTxnType" where
  "txn_of s =
     (if s = ''WITHDRAWAL'' then WITHDRAWAL else if s = ''BALANCE'' then BALANCE
      else if s = ''TRANSFER'' then TRANSFER else if s = ''DEPOSIT'' then DEPOSIT else OTHER_TXN s)"

section \<open>Steps\<close>

definition in_ctx :: "MacroRunContext \<Rightarrow> step_outcome \<times> 'db world \<Rightarrow> step_outcome \<times> 'db step_state" where
  "in_ctx ctx ow = (fst ow, ctx, snd ow)"

definition unsupported :: "MacroStep \<Rightarrow> string" where
  "unsupported st =
     ''unsupported step: '' @ device_name (st_device st) @ CHR '':'' # kind_name (st_kind st) @ CHR '':'' # st_operation st"

text \<open>\<open>executeStep\<close>, one function per device; \<^const>\<open>None\<close> means that no branch of the device applies.\<close>

definition mx_card :: "'db bank_ops \<Rightarrow> 'db step_env \<Rightarrow> MacroStep \<Rightarrow> params \<Rightarrow> 'db step_state
    \<Rightarrow> (step_outcome \<times> 'db step_state) option" where
  "mx_card ops e st ps cw =
     (let oper = st_operation st; d = dv_idc (xm_devices (w_xfs (snd cw)));
          check = (\<lambda>bad no yes. Some (if bad then Step_Fail no else Step_Ok yes, cw))
      in if st_kind st = ACTION \<and> oper = ''Select'' then Some (mx_Select ops e ps cw)
         else if st_kind st = ACTION \<and> oper = ''Insert'' then Some (mx_Insert ops e cw)
         else if st_kind st = CHECKPOINT \<and> starts_with oper ''Checkpoint(Insert''
         then check (\<not> idc_hasCard d) ''no card in reader'' ''card inserted''
         else if st_kind st = CHECKPOINT \<and> starts_with oper ''Checkpoint(ReadTracks''
         then check (idc_currentCard d = None) ''no card to read tracks from'' ''tracks readable''
         else if st_kind st = CHECKPOINT \<and> starts_with oper ''Checkpoint(Ejected''
         then check (idc_hasCard d) ''card still in reader'' ''card ejected''
         else None)"

definition mx_pinpad :: "'db bank_ops \<Rightarrow> 'db step_env \<Rightarrow> MacroStep \<Rightarrow> params \<Rightarrow> 'db step_state
    \<Rightarrow> (step_outcome \<times> 'db step_state) option" where
  "mx_pinpad ops e st ps cw =
     (if st_kind st \<noteq> ACTION then None
      else if st_operation st = ''BeginPin''
      then Some (in_ctx (fst cw) (mx_handler ops e In_BeginPin ''pin entry started'' (snd cw)))
      else if st_operation st = ''KeyPressed'' then Some (mx_KeyPressed e ps cw)
      else if st_operation st = ''EnterPin'' then Some (mx_EnterPin ops e ps cw)
      else None)"

definition mx_cash :: "'db step_env \<Rightarrow> MacroStep \<Rightarrow> 'db step_state \<Rightarrow> (step_outcome \<times> 'db step_state) option" where
  "mx_cash e st cw =
     (if st_kind st = CHECKPOINT \<and> starts_with (st_operation st) ''Checkpoint(NotesPresented''
      then Some (in_ctx (fst cw) (mx_NotesPresented e (snd cw))) else None)"

definition mx_receipt :: "MacroStep \<Rightarrow> 'db step_state \<Rightarrow> (step_outcome \<times> 'db step_state) option" where
  "mx_receipt st cw =
     (if st_kind st = CHECKPOINT \<and> starts_with (st_operation st) ''Checkpoint(Printed''
      then (let h = ptr_history (dv_ptr (xm_devices (w_xfs (snd cw))))
            in Some (if h = [] then Step_Fail ''no receipts printed''
                     else Step_Ok (js_itoa (length h) @ '' receipts in history''), cw))
      else None)"

definition mx_system :: "'db bank_ops \<Rightarrow> 'db step_env \<Rightarrow> MacroStep \<Rightarrow> params \<Rightarrow> 'db step_state
    \<Rightarrow> (step_outcome \<times> 'db step_state) option" where
  "mx_system ops e st ps cw =
     (let oper = st_operation st; act = (st_kind st = ACTION); chk = (st_kind st = CHECKPOINT);
          nt = js_num_text (ae_numText (se_atm e)); (ctx, w) = cw;
          go = (\<lambda>i msg. Some (in_ctx ctx (mx_handler ops e i msg w)))
      in if act \<and> oper = ''SelectTransaction''
         then go (In_Select (txn_of (param_text e ps ''txnType'' ''WITHDRAWAL'')))
                 (''selected '' @ param_text e ps ''txnType'' ''undefined'')
         else if act \<and> oper = ''SubmitAmount''
         then go (In_Amount (param_number (map_of ps ''amount''))) (''amount '' @ nt (param_number (map_of ps ''amount'')))
         else if act \<and> oper = ''Confirm'' then go In_Confirm ''confirmed''
         else if act \<and> oper = ''Cancel''
         then go (In_Cancel (Some (param_text e ps ''reason'' ''macro cancel''))) ''cancelled''
         else if st_kind st = WAIT
         then Some (Step_Ok (''waited '' @ nt (case map_of ps ''ms'' of None \<Rightarrow> js_int 500 | v \<Rightarrow> param_number v) @ ''ms''), cw)
         else if act \<and> oper = ''InjectError'' then Some (in_ctx ctx (injectXfsError e ps w))
         else if act \<and> oper = ''ClearError'' then Some (in_ctx ctx (clearXfsError e ps w))
         else if chk \<and> starts_with oper ''Checkpoint(SessionState'' then Some (mx_SessionState e ps w, cw)
         else if chk \<and> starts_with oper ''Checkpoint(LastTransaction'' then Some (mx_LastTransaction e ps w, cw)
         else None)"

definition mx_executeStep :: "'db bank_ops \<Rightarrow> 'db step_env \<Rightarrow> MacroStep \<Rightarrow> 'db step_state
    \<Rightarrow> step_outcome \<times> 'db step_state" where
  "mx_executeStep ops e st cw =
     (let ps = paramMap (st_parameters st);
          done = (case st_device st of
                    Dev_Card \<Rightarrow> mx_card ops e st ps cw
                  | Dev_PinPad \<Rightarrow> mx_pinpad ops e st ps cw
                  | Dev_Cash \<Rightarrow> mx_cash e st cw
                  | Dev_Receipt \<Rightarrow> mx_receipt st cw
                  | Dev_System \<Rightarrow> mx_system ops e st ps cw
                  | Dev_Screen \<Rightarrow> None)
      in js_default done (Step_Fail (unsupported st), cw))"

section \<open>Runs\<close>

datatype step_status = S_PASSED | S_FAILED | S_SKIPPED

datatype run_status = R_RUNNING | R_PASSED | R_FAILED | R_ABORTED

record MacroStepResult =
  sres_id :: string
  sres_order :: int
  sres_status :: step_status
  sres_startedAt :: int
  sres_durationMs :: int
  sres_message :: "string option"
  sres_error :: "string option"

record MacroRun =
  run_id :: string
  run_macroId :: string
  run_status :: run_status
  run_currentStep :: "int option"
  run_stepResults :: "MacroStepResult list"
  run_startedAt :: int
  run_completedAt :: "int option"
  run_durationMs :: "int option"
  run_suiteRunId :: "string option"

definition step_result :: "'db step_env \<Rightarrow> MacroStep \<Rightarrow> step_status \<Rightarrow> string option \<Rightarrow> string option \<Rightarrow> MacroStepResult" where
  "step_result e st status msg err =
     \<lparr>sres_id = st_id st, sres_order = st_order st, sres_status = status, sres_startedAt = se_start e,
      sres_durationMs = se_end e - se_start e, sres_message = msg, sres_error = err\<rparr>"

definition put_run :: "MacroRun \<Rightarrow> MacroRun list \<Rightarrow> MacroRun list" where
  "put_run r rs = map (\<lambda>x. if run_id x = run_id r then r else x) rs"

text \<open>The loop: it ends at the first failure. The result is the status with the results of the steps,
  or how the loop got stuck.\<close>

datatype loop_end = Loop_Done run_status "MacroStepResult list" | Loop_Waits | Loop_Crash

definition set_current :: "string \<Rightarrow> int \<Rightarrow> MacroRun list \<Rightarrow> MacroRun list" where
  "set_current rid n rs = map (\<lambda>x. if run_id x = rid then x\<lparr>run_currentStep := Some n\<rparr> else x) rs"

fun mx_loop :: "'db bank_ops \<Rightarrow> (nat \<Rightarrow> 'db step_env) \<Rightarrow> nat \<Rightarrow> string \<Rightarrow> MacroStep list
    \<Rightarrow> MacroStepResult list \<Rightarrow> MacroRun list \<times> 'db step_state \<Rightarrow> loop_end \<times> MacroRun list \<times> 'db world" where
  "mx_loop ops envs i rid [] results (rs, ctx, w) = (Loop_Done R_PASSED results, rs, w)"
| "mx_loop ops envs i rid (st # sts) results (rs, ctx, w) =
     (let e = envs i; w0 = se_before e w;
          failed = (\<lambda>msg. Loop_Done R_FAILED (results @ [step_result e st S_FAILED None (Some msg)]))
      in if \<not> se_runsUp e then (failed (se_dbText e DbFailure), rs, w0)
         else
           (let rs' = set_current rid (st_order st) rs
            in case mx_executeStep ops e st (ctx, w0) of
                 (Step_Ok msg, ctx', w') \<Rightarrow>
                   mx_loop ops envs (Suc i) rid sts
                     (results @ [step_result e st S_PASSED (Some msg) None]) (rs', ctx', w')
               | (Step_Fail msg, ctx', w') \<Rightarrow> (failed msg, rs', w')
               | (Step_Waits, ctx', w') \<Rightarrow> (Loop_Waits, rs', w')
               | (Step_Crash, ctx', w') \<Rightarrow> (Loop_Crash, rs', w')))"

text \<open>\<open>run\<close>: the row of the run is created first and completed last; \<open>up0\<close> and \<open>up1\<close> say whether the
  database takes these two writes.\<close>

record 'db runner =
  ru_macros :: "Macro list"
  ru_runs :: "MacroRun list"
  ru_world :: "'db world"

record run_env =
  re_up0 :: bool
  re_up1 :: bool
  re_id :: string
  re_start :: int
  re_end :: int

datatype run_outcome = Run_Returns MacroRun | Run_Throws | Run_NoMacro string | Run_Waits | Run_Crash

definition macro_steps :: "Macro \<Rightarrow> MacroStep list" where
  "macro_steps m = sort_steps (filter st_enabled (mc_steps m))"

definition mx_run :: "'db bank_ops \<Rightarrow> run_env \<Rightarrow> (nat \<Rightarrow> 'db step_env) \<Rightarrow> string \<Rightarrow> 'db runner
    \<Rightarrow> run_outcome \<times> 'db runner" where
  "mx_run ops re envs i r =
     (case find_macro i (ru_macros r) of
        None \<Rightarrow> (Run_NoMacro i, r)
      | Some m \<Rightarrow>
          if \<not> re_up0 re then (Run_Throws, r)
          else
            (let row = \<lparr>run_id = re_id re, run_macroId = i, run_status = R_RUNNING, run_currentStep = None,
                   run_stepResults = [], run_startedAt = re_start re, run_completedAt = None,
                   run_durationMs = None, run_suiteRunId = None\<rparr>;
                 ctx = \<lparr>cx_selectedPan = None, cx_selectedCardPin = None, cx_variables = mc_variables m\<rparr>;
                 (res, rs, w) = mx_loop ops envs 0 (re_id re) (macro_steps m) [] (ru_runs r @ [row], ctx, ru_world r);
                 r1 = r\<lparr>ru_runs := rs, ru_world := w\<rparr>
             in case res of
                  Loop_Waits \<Rightarrow> (Run_Waits, r1)
                | Loop_Crash \<Rightarrow> (Run_Crash, r1)
                | Loop_Done status results \<Rightarrow>
                    if \<not> re_up1 re then (Run_Throws, r1)
                    else
                      (let final = row\<lparr>run_status := status, run_stepResults := results,
                             run_completedAt := Some (re_end re), run_durationMs := Some (re_end re - re_start re)\<rparr>
                       in (Run_Returns final, r1\<lparr>ru_runs := put_run final rs\<rparr>))))"

end
