(* ===== verification/Macro_Props.thy ===== *)
theory Macro_Props
  imports Macro_Runner Atm_Props
begin

text \<open>
  What recordings and runs of macros promise, and where a recording is not a program for the runner:
  the recorded order is the order of the run, single keys are replayed, digit runs of PIN length are
  not, and two of the recorded checkpoints do not exist in the runner.
\<close>

section \<open>Recorded steps\<close>

definition rc_ok :: "(nat \<Rightarrow> string) \<Rightarrow> RecordingSession \<Rightarrow> bool" where
  "rc_ok ids a \<longleftrightarrow> 1 \<le> rc_counter a \<and> map st_order (rc_steps a) = map int [1..<rc_counter a]
     \<and> map st_id (rc_steps a) = map ids [1..<rc_counter a] \<and> list_all st_enabled (rc_steps a)"

lemma pushStep_simps [simp]:
  "rc_digitBuffer (mr_pushStep ids p a) = rc_digitBuffer a"
  "rc_macroId (mr_pushStep ids p a) = rc_macroId a"
  "rc_absorbNextEnter (mr_pushStep ids p a) = rc_absorbNextEnter a"
  "rc_counter (mr_pushStep ids p a) = Suc (rc_counter a)"
  by (simp_all add: mr_pushStep_def split_def)

lemma rc_ok_update [simp]:
  "rc_ok ids (a\<lparr>rc_digitBuffer := b\<rparr>) = rc_ok ids a" "rc_ok ids (a\<lparr>rc_absorbNextEnter := x\<rparr>) = rc_ok ids a"
  by (simp_all add: rc_ok_def)

lemma rc_ok_push [intro]: "rc_ok ids a \<Longrightarrow> rc_ok ids (mr_pushStep ids p a)"
  by (auto simp: rc_ok_def mr_pushStep_def split_def)

lemma rc_ok_flush [intro]: "rc_ok ids a \<Longrightarrow> rc_ok ids (mr_flushDigitBuffer ids a)"
  by (auto simp: mr_flushDigitBuffer_def Let_def)

lemma rc_ok_action: "rc_ok ids a \<Longrightarrow> rc_ok ids (mr_action ids k a)"
  by (cases k) (auto simp: mr_keyPress_def Let_def intro!: rc_ok_push)

lemma rc_ok_event: "rc_ok ids a \<Longrightarrow> rc_ok ids (mr_event ids c a)"
  by (auto simp: mr_event_def split: option.split)

lemma flush_simps [simp]:
  "rc_digitBuffer (mr_flushDigitBuffer ids a) = []" "rc_macroId (mr_flushDigitBuffer ids a) = rc_macroId a"
  by (simp_all add: mr_flushDigitBuffer_def Let_def)

text \<open>One observation on the recording session.\<close>

fun ob_session :: "(nat \<Rightarrow> string) \<Rightarrow> observation \<Rightarrow> RecordingSession \<Rightarrow> RecordingSession" where
  "ob_session ids (ObsAction u) = mr_action ids (ua_kind u)"
| "ob_session ids (ObsEvent e) = mr_event ids (event_code_string (ev_eventCode e))"

lemma observe_session: "mr_observe ids ob r = r\<lparr>mr_active := map_option (ob_session ids ob) (mr_active r)\<rparr>"
  by (cases ob) (simp_all add: mr_onUserAction_def mr_onXfsEvent_def mr_on_def)

lemma observe_all:
  "fold (mr_observe ids) obs r = r\<lparr>mr_active := map_option (fold (ob_session ids) obs) (mr_active r)\<rparr>"
proof (induction obs arbitrary: r)
  case Nil
  then show ?case by (simp add: option.map_ident)
next
  case (Cons ob obs)
  then show ?case by (simp add: observe_session option.map_comp o_def)
qed

lemma ob_session_ok: "rc_ok ids a \<Longrightarrow> rc_ok ids (ob_session ids ob a)"
  by (cases ob) (auto intro: rc_ok_action rc_ok_event)

lemma ob_session_macro [simp]: "rc_macroId (ob_session ids ob a) = rc_macroId a"
proof (cases ob)
  case (ObsAction u)
  then show ?thesis by (cases "ua_kind u") (simp_all add: mr_keyPress_def Let_def)
qed (simp add: mr_event_def split: option.split)

lemma obs_session_ok: "rc_ok ids a \<Longrightarrow> rc_ok ids (fold (ob_session ids) obs a)"
  by (induction obs arbitrary: a) (auto intro: ob_session_ok)

lemma obs_session_macro [simp]: "rc_macroId (fold (ob_session ids) obs a) = rc_macroId a"
  by (induction obs arbitrary: a) simp_all

lemma sorted_recorded: "rc_ok ids a \<Longrightarrow> sort_steps (rc_steps a) = rc_steps a"
  unfolding sort_steps_def rc_ok_def
  by (intro sort_key_id_if_sorted) (auto simp: sorted_iff_nth_mono)

definition session0 :: "int \<Rightarrow> string \<Rightarrow> RecordingSession" where
  "session0 now i = \<lparr>rc_macroId = i, rc_steps = [], rc_counter = 1, rc_startedAt = now,
     rc_digitBuffer = [], rc_absorbNextEnter = False\<rparr>"

definition recorded_steps :: "(nat \<Rightarrow> string) \<Rightarrow> int \<Rightarrow> string \<Rightarrow> observation list \<Rightarrow> MacroStep list" where
  "recorded_steps ids now i obs =
     rc_steps (mr_flushDigitBuffer ids (fold (ob_session ids) obs (session0 now i)))"

lemma rc_ok_length: "rc_ok ids a \<Longrightarrow> rc_counter a = Suc (length (rc_steps a))"
  unfolding rc_ok_def by (metis One_nat_def Suc_diff_1 length_map length_upt less_eq_Suc_le)

lemma session0_ok [simp]: "rc_ok ids (session0 now i)"
  by (simp add: rc_ok_def session0_def)

lemma recorded_ok:
  "rc_ok ids (mr_flushDigitBuffer ids (fold (ob_session ids) obs (session0 now i)))"
  by (intro rc_ok_flush obs_session_ok) simp

lemma record_result:
  assumes "mr_active r = None" and "find_macro i (mr_macros r) \<noteq> None"
  shows "mr_record ids now i obs r = (Inr (Some (i, recorded_steps ids now i obs)),
    \<lparr>mr_active = None, mr_macros = map (\<lambda>m. if mc_id m = i then m\<lparr>mc_steps := recorded_steps ids now i obs\<rparr> else m)
       (mr_macros r)\<rparr>)"
  using assms sorted_recorded [OF recorded_ok, of ids obs now i]
  by (simp add: mr_record_def mr_startRecording_def observe_all mr_stopRecording_def Let_def
      recorded_steps_def session0_def)

lemma record_unknown:
  assumes "mr_active r = None" and "find_macro i (mr_macros r) = None"
  shows "mr_record ids now i obs r = (Inr None, r)"
  using assms by (simp add: mr_record_def mr_startRecording_def observe_all mr_stopRecording_def)

lemma find_macro_map:
  assumes "find_macro i ms = Some m" and "\<And>x. mc_id (f x) = mc_id x"
  shows "find_macro i (map f ms) = Some (f m)"
  using assms unfolding find_macro_def by (induction ms) (auto split: if_splits)

lemma macro_recording_facts:
  assumes "mr_active r = None" and "find_macro i (mr_macros r) = Some m0"
  shows "\<exists>steps r' m. mr_record ids now i obs r = (Inr (Some (i, steps)), r') \<and> mr_active r' = None
    \<and> map st_order steps = map int [1..<Suc (length steps)] \<and> map st_id steps = map ids [1..<Suc (length steps)]
    \<and> find_macro i (mr_macros r') = Some m \<and> macro_steps m = steps
    \<and> filter (\<lambda>x. mc_id x \<noteq> i) (mr_macros r') = filter (\<lambda>x. mc_id x \<noteq> i) (mr_macros r)"
proof -
  let ?steps = "recorded_steps ids now i obs" and ?f = "\<lambda>m. if mc_id m = i then m\<lparr>mc_steps := recorded_steps ids now i obs\<rparr> else m"
  define a where "a = mr_flushDigitBuffer ids (fold (ob_session ids) obs (session0 now i))"
  have a: "rc_ok ids a" "rc_steps a = ?steps" unfolding a_def recorded_steps_def by (simp_all add: recorded_ok)
  have len: "rc_counter a = Suc (length ?steps)"
    using rc_ok_length [OF a(1)] a(2) by simp
  have id: "mc_id m0 = i" using assms(2) by (auto simp: find_macro_def find_Some_iff)
  have "macro_steps (m0\<lparr>mc_steps := ?steps\<rparr>) = ?steps"
    using a sorted_recorded [OF a(1)] by (simp add: macro_steps_def rc_ok_def filter_True list_all_iff)
  moreover have "find_macro i (map ?f (mr_macros r)) = Some (m0\<lparr>mc_steps := ?steps\<rparr>)"
    using find_macro_map [OF assms(2), of ?f] id by simp
  moreover have "filter (\<lambda>x. mc_id x \<noteq> i) (map ?f (mr_macros r)) = filter (\<lambda>x. mc_id x \<noteq> i) (mr_macros r)"
    by (induction "mr_macros r") (auto simp: filter_map o_def intro: map_idI)
  ultimately show ?thesis
    using record_result [OF assms(1), of i ids now obs] assms(2) a len by (auto simp: rc_ok_def)
qed

text \<open>A recording stores the observed steps under their macro alone, numbered from one in the order
  of the observations and all enabled, and a run of the macro executes exactly these steps in this
  order.\<close>

theorem macro_recording_is_run_order:
  assumes "mr_active r = None" and "find_macro i (mr_macros r) = Some m0"
  shows "\<exists>steps r' m. mr_record ids now i obs r = (Inr (Some (i, steps)), r') \<and> mr_active r' = None
    \<and> map st_order steps = map int [1..<Suc (length steps)] \<and> map st_id steps = map ids [1..<Suc (length steps)]
    \<and> find_macro i (mr_macros r') = Some m \<and> macro_steps m = steps
    \<and> filter (\<lambda>x. mc_id x \<noteq> i) (mr_macros r') = filter (\<lambda>x. mc_id x \<noteq> i) (mr_macros r)"
  by (rule macro_recording_facts [OF assms])

section \<open>Replayed keys\<close>

definition key_obs :: "string list \<Rightarrow> observation list" where
  "key_obs keys = map (\<lambda>k. ObsAction \<lparr>ua_kind = UA_KEY_PRESS k, ua_sessionId = None, ua_timestamp = 0\<rparr>) keys"

text \<open>No run of digits between other keys has the length of a PIN, \<open>n\<close> digits being pressed already.\<close>

fun pin_free :: "nat \<Rightarrow> string list \<Rightarrow> bool" where
  "pin_free n [] = (\<not> pin_shape n)"
| "pin_free n (k # ks) = (if single_digit k then pin_free (n + 1) ks else \<not> pin_shape n \<and> pin_free 0 ks)"

definition all_digits :: "string \<Rightarrow> bool" where
  "all_digits s \<longleftrightarrow> 2 \<le> length s \<and> list_all is_digit s"

text \<open>A text that the runner does not read as a reference or as several digits.\<close>

definition plain_key :: "string \<Rightarrow> bool" where
  "plain_key k \<longleftrightarrow> single_digit k \<or> (\<not> all_digits k \<and> k \<noteq> ''Card.pin'' \<and> \<not> starts_with k ''$'')"

definition step_body :: "MacroStep \<Rightarrow> partial_step" where
  "step_body st = (st_kind st, st_device st, st_operation st, st_parameters st)"

definition session_bodies :: "RecordingSession \<Rightarrow> partial_step list" where
  "session_bodies a = map step_body (rc_steps a)"

lemma session_bodies_push [simp]: "session_bodies (mr_pushStep ids p a) = session_bodies a @ [p]"
  by (simp add: session_bodies_def mr_pushStep_def split_def step_body_def)

lemma session_bodies_update [simp]:
  "session_bodies (a\<lparr>rc_digitBuffer := b\<rparr>) = session_bodies a"
  "session_bodies (a\<lparr>rc_absorbNextEnter := x\<rparr>) = session_bodies a"
  by (simp_all add: session_bodies_def)

fun key_texts :: "string \<Rightarrow> string list \<Rightarrow> string list" where
  "key_texts b [] = (if b = [] then [] else [b])"
| "key_texts b (k # ks) =
     (if single_digit k then key_texts (b @ k) ks else (if b = [] then [] else [b]) @ k # key_texts [] ks)"

lemma flush_plain:
  assumes "\<not> pin_shape (length (rc_digitBuffer a))"
  shows "session_bodies (mr_flushDigitBuffer ids a)
      = session_bodies a @ map key_step (if rc_digitBuffer a = [] then [] else [rc_digitBuffer a])"
    and "rc_absorbNextEnter (mr_flushDigitBuffer ids a) = rc_absorbNextEnter a"
  using assms by (simp_all add: mr_flushDigitBuffer_def Let_def)

lemma recorded_keys:
  assumes "pin_free (length (rc_digitBuffer a)) keys" and "\<not> rc_absorbNextEnter a"
  shows "session_bodies (mr_flushDigitBuffer ids (fold (ob_session ids) (key_obs keys) a))
      = session_bodies a @ map key_step (key_texts (rc_digitBuffer a) keys)"
  using assms
proof (induction keys arbitrary: a)
  case Nil
  then show ?case by (simp add: key_obs_def flush_plain)
next
  case (Cons k ks)
  let ?a = "mr_keyPress ids k a"
  have step: "fold (ob_session ids) (key_obs (k # ks)) a = fold (ob_session ids) (key_obs ks) ?a"
    by (simp add: key_obs_def)
  show ?case
  proof (cases "single_digit k")
    case True
    then have a: "?a = a\<lparr>rc_digitBuffer := rc_digitBuffer a @ k\<rparr>" by (simp add: mr_keyPress_def)
    have "length k = 1" using True by (simp add: single_digit_def)
    with Cons.IH [of ?a] Cons.prems True show ?thesis unfolding step by (simp add: a)
  next
    case False
    then have np: "\<not> pin_shape (length (rc_digitBuffer a))" using Cons.prems(1) by simp
    note f = flush_plain [OF np, of ids]
    have a: "?a = mr_pushStep ids (key_step k) ((mr_flushDigitBuffer ids a)\<lparr>rc_absorbNextEnter := False\<rparr>)"
      using False f(2) Cons.prems(2) by (simp add: mr_keyPress_def Let_def)
    with Cons.IH [of ?a] Cons.prems(1) False f(1) show ?thesis unfolding step by (simp add: a)
  qed
qed

definition typed_keys :: "string \<Rightarrow> string list" where
  "typed_keys t = (if all_digits t then map (\<lambda>c. [c]) t else [t])"

lemma typed_digits: "list_all is_digit b \<Longrightarrow> b \<noteq> [] \<Longrightarrow> typed_keys b = map (\<lambda>c. [c]) b"
  by (cases b; cases "tl b") (auto simp: typed_keys_def all_digits_def)

lemma typed_key_texts:
  assumes "list_all is_digit b" and "list_all plain_key keys"
  shows "concat (map typed_keys (key_texts b keys)) = map (\<lambda>c. [c]) b @ keys
    \<and> (\<forall>t\<in>set (key_texts b keys). t \<noteq> ''Card.pin'' \<and> \<not> starts_with t ''$'')"
  using assms
proof (induction keys arbitrary: b)
  case Nil
  have "t \<noteq> ''Card.pin'' \<and> \<not> starts_with t ''$''" if "t = b" "b \<noteq> []" for t
    using that Nil.prems(1) by (cases b) (auto simp: starts_with_def is_digit_def)
  then show ?case using Nil.prems(1) by (auto simp: typed_digits)
next
  case (Cons k ks)
  have b: "b \<noteq> [] \<Longrightarrow> b \<noteq> ''Card.pin'' \<and> \<not> starts_with b ''$''"
    using Cons.prems(1) by (cases b) (auto simp: starts_with_def is_digit_def)
  show ?case
  proof (cases "single_digit k")
    case True
    then obtain c where "k = [c]" "is_digit c" by (auto simp: single_digit_def length_Suc_conv)
    then show ?thesis using Cons.IH [of "b @ k"] Cons.prems True by simp
  next
    case False
    then have "typed_keys k = [k]" "k \<noteq> ''Card.pin''" "\<not> starts_with k ''$''"
      using Cons.prems(2) by (auto simp: plain_key_def typed_keys_def)
    then show ?thesis using Cons.IH [of "[]"] Cons.prems False b by (auto simp: typed_digits)
  qed
qed

lemma mx_press_append:
  "snd (mx_press xe (ks @ ks') w) = snd (mx_press xe ks' (snd (mx_press xe ks w)))"
  by (induction ks arbitrary: w) (auto simp: Let_def split_def)

lemma execute_key_step:
  assumes "step_body st = key_step t" and "t \<noteq> ''Card.pin''" and "\<not> starts_with t ''$''"
  shows "\<exists>msg. mx_executeStep ops e st (ctx, w)
    = (Step_Ok msg, ctx, snd (mx_press (ae_xfs (se_atm e)) (typed_keys t) w))"
  using assms
  by (simp add: step_body_def key_step_def mx_executeStep_def mx_pinpad_def mx_KeyPressed_def Let_def
      param_text_def paramMap_def text_param_def resolveKey_def typed_keys_def all_digits_def)

lemma loop_key_steps:
  assumes "map step_body sts = map key_step ts" and "se_runsUp e" and "se_before e = id"
    and "\<And>t. t \<in> set ts \<Longrightarrow> t \<noteq> ''Card.pin'' \<and> \<not> starts_with t ''$''"
  shows "\<exists>res' rs'. mx_loop ops (\<lambda>_. e) n rid sts res (rs, ctx, w)
    = (Loop_Done R_PASSED res', rs', snd (mx_press (ae_xfs (se_atm e)) (concat (map typed_keys ts)) w))"
  using assms
proof (induction sts arbitrary: ts n res rs w)
  case Nil
  then show ?case by simp
next
  case (Cons st sts)
  then obtain t ts' where ts: "ts = t # ts'" "step_body st = key_step t" "map step_body sts = map key_step ts'"
    by (cases ts) auto
  obtain msg where x: "mx_executeStep ops e st (ctx, w)
      = (Step_Ok msg, ctx, snd (mx_press (ae_xfs (se_atm e)) (typed_keys t) w))"
    using execute_key_step [OF ts(2), of ops e ctx w] Cons.prems(4) [of t] ts(1) by auto
  from Cons.IH [OF ts(3) Cons.prems(2,3)] Cons.prems(2-4) x ts(1)
  show ?case by (simp add: mx_press_append)
qed

text \<open>Single keys are replayed: when no run of digits has the length of a PIN, the run of the recorded
  macro passes and leaves the ATM as the recorded key presses do.\<close>

theorem macro_keys_replayed:
  assumes "mr_active r = None" and "mr_record ids now i (key_obs keys) r = (Inr (Some (i, steps)), r')"
    and "pin_free 0 keys" and "list_all plain_key keys" and "se_runsUp e" and "se_before e = id"
  shows "\<exists>res rs'. mx_loop ops (\<lambda>_. e) 0 rid steps [] (rs, ctx, w)
    = (Loop_Done R_PASSED res, rs', snd (mx_press (ae_xfs (se_atm e)) keys w))"
proof -
  have "find_macro i (mr_macros r) \<noteq> None"
    using assms(2) record_unknown [OF assms(1), of i ids now "key_obs keys"] by auto
  then have steps: "steps = recorded_steps ids now i (key_obs keys)"
    using record_result [OF assms(1), of i ids now "key_obs keys"] assms(2) by simp
  have "map step_body steps = map key_step (key_texts [] keys)"
    using recorded_keys [of "session0 now i" keys ids] assms(3)
    by (simp add: steps recorded_steps_def session_bodies_def [symmetric])
      (simp add: session0_def session_bodies_def)
  then show ?thesis
    using loop_key_steps [OF _ assms(5,6), of steps "key_texts [] keys" ops 0 rid "[]" rs ctx w]
      typed_key_texts [of "[]" keys] assms(4) by auto
qed

section \<open>Runs of digits of PIN length\<close>

lemma flush_empty: "rc_digitBuffer a = [] \<Longrightarrow> mr_flushDigitBuffer ids a = a"
  by (simp add: mr_flushDigitBuffer_def)

text \<open>Two recording sessions that hold digit runs of the same PIN length, or that have just turned them
  into a step.\<close>

definition same_run :: "RecordingSession \<Rightarrow> RecordingSession \<Rightarrow> bool" where
  "same_run a b \<longleftrightarrow>
     (b = a\<lparr>rc_digitBuffer := rc_digitBuffer b\<rparr> \<and> length (rc_digitBuffer b) = length (rc_digitBuffer a)
        \<and> pin_shape (length (rc_digitBuffer a)))
     \<or> (a = b \<and> rc_digitBuffer a = [] \<and> rc_absorbNextEnter a)"

lemma flush_same_run:
  assumes "same_run a b"
  shows "mr_flushDigitBuffer ids b = mr_flushDigitBuffer ids a \<and> rc_absorbNextEnter (mr_flushDigitBuffer ids a)"
  using assms unfolding same_run_def
proof (elim disjE conjE)
  assume b: "b = a\<lparr>rc_digitBuffer := rc_digitBuffer b\<rparr>" "length (rc_digitBuffer b) = length (rc_digitBuffer a)"
    "pin_shape (length (rc_digitBuffer a))"
  have "rc_digitBuffer a \<noteq> []" using b(3) by (auto simp: pin_shape_def)
  moreover have "b\<lparr>rc_digitBuffer := []\<rparr> = a\<lparr>rc_digitBuffer := []\<rparr>" by (subst b(1)) simp
  moreover have "rc_digitBuffer b \<noteq> []" using b(2) \<open>rc_digitBuffer a \<noteq> []\<close> by auto
  ultimately show ?thesis unfolding mr_flushDigitBuffer_def Let_def using b(2,3) by simp
qed (simp add: mr_flushDigitBuffer_def)

fun is_key_press :: "observation \<Rightarrow> bool" where
  "is_key_press (ObsAction u) = (case ua_kind u of UA_KEY_PRESS k \<Rightarrow> True | _ \<Rightarrow> False)"
| "is_key_press (ObsEvent e) = False"

lemma ob_same_run:
  assumes "same_run a b" and "\<not> is_key_press ob"
  shows "same_run (ob_session ids ob a) (ob_session ids ob b)"
proof -
  note f = flush_same_run [OF assms(1), of ids]
  show ?thesis
  proof (cases ob)
    case (ObsAction u)
    then show ?thesis using f assms(2) by (cases "ua_kind u") (simp_all add: same_run_def)
  next
    case (ObsEvent e)
    then show ?thesis using f assms(1)
      by (cases "map_of EVENT_TO_CHECKPOINT (event_code_string (ev_eventCode e))")
        (auto simp: mr_event_def same_run_def)
  qed
qed

lemma obs_same_run:
  assumes "same_run a b" and "list_all (Not \<circ> is_key_press) obs"
  shows "same_run (fold (ob_session ids) obs a) (fold (ob_session ids) obs b)"
  using assms by (induction obs arbitrary: a b) (simp_all add: ob_same_run)

lemma digits_session:
  assumes "list_all single_digit ds"
  shows "fold (ob_session ids) (key_obs ds) a = a\<lparr>rc_digitBuffer := rc_digitBuffer a @ concat ds\<rparr>"
  using assms by (induction ds arbitrary: a) (simp_all add: key_obs_def mr_keyPress_def)

lemma length_digits: "list_all single_digit ds \<Longrightarrow> length (concat ds) = length ds"
  by (induction ds) (simp_all add: single_digit_def)

text \<open>A run of four to twelve digits is recorded as the entry of the card's PIN whatever its digits
  are, and the next ENTER is not recorded even when other actions and events come in between: the
  recording equals the one of any other digits of the same number without the ENTER.\<close>

theorem macro_pin_run_swallows:
  assumes "mr_active r = None" and "list_all single_digit ds" and "list_all single_digit ds'"
    and "length ds' = length ds" and "pin_shape (length ds)" and "list_all (Not \<circ> is_key_press) mid"
  shows "mr_record ids now i (key_obs ds @ mid @ key_obs [''ENTER'']) r = mr_record ids now i (key_obs ds' @ mid) r"
proof (cases "find_macro i (mr_macros r)")
  case None
  then show ?thesis by (simp add: record_unknown [OF assms(1)])
next
  case (Some m)
  let ?s = "session0 now i"
  define a where "a = fold (ob_session ids) mid (fold (ob_session ids) (key_obs ds) ?s)"
  define b where "b = fold (ob_session ids) mid (fold (ob_session ids) (key_obs ds') ?s)"
  have "same_run (fold (ob_session ids) (key_obs ds) ?s) (fold (ob_session ids) (key_obs ds') ?s)"
    using assms(2-5) by (simp add: same_run_def digits_session length_digits session0_def)
  then have sim: "same_run a b" unfolding a_def b_def by (rule obs_same_run [OF _ assms(6)])
  note f = flush_same_run [OF sim, of ids]
  have "mr_keyPress ids ''ENTER'' a = (mr_flushDigitBuffer ids a)\<lparr>rc_absorbNextEnter := False\<rparr>"
    using f by (simp add: mr_keyPress_def Let_def single_digit_def)
  then have "recorded_steps ids now i (key_obs ds @ mid @ key_obs [''ENTER'']) = rc_steps (mr_flushDigitBuffer ids a)"
    by (simp add: recorded_steps_def a_def [symmetric]) (simp add: key_obs_def flush_empty)
  moreover have "recorded_steps ids now i (key_obs ds' @ mid) = rc_steps (mr_flushDigitBuffer ids b)"
    by (simp add: recorded_steps_def b_def)
  ultimately have "recorded_steps ids now i (key_obs ds @ mid @ key_obs [''ENTER''])
      = recorded_steps ids now i (key_obs ds' @ mid)" using f by simp
  then show ?thesis using record_result [OF assms(1)] Some by simp
qed

section \<open>Checkpoints the runner does not know\<close>

lemma bodies_mono: "set (session_bodies a) \<subseteq> set (session_bodies (ob_session ids ob a))"
proof (cases ob)
  case (ObsAction u)
  have f: "set (session_bodies a) \<subseteq> set (session_bodies (mr_flushDigitBuffer ids a))"
    by (simp add: mr_flushDigitBuffer_def Let_def subset_insertI)
  then show ?thesis using ObsAction
    by (cases "ua_kind u") (auto simp: mr_keyPress_def Let_def)
next
  case (ObsEvent e)
  have f: "set (session_bodies a) \<subseteq> set (session_bodies (mr_flushDigitBuffer ids a))"
    by (simp add: mr_flushDigitBuffer_def Let_def subset_insertI)
  then show ?thesis using ObsEvent by (auto simp: mr_event_def split: option.split)
qed

lemma bodies_mono_all: "set (session_bodies a) \<subseteq> set (session_bodies (fold (ob_session ids) obs a))"
proof (induction obs arbitrary: a)
  case (Cons ob obs)
  show ?case using bodies_mono [of a ids ob] Cons.IH [of "ob_session ids ob a"] by auto
qed simp

lemma event_recorded:
  assumes "ObsEvent e \<in> set obs"
    and "map_of EVENT_TO_CHECKPOINT (event_code_string (ev_eventCode e)) = Some (dev, oper)"
  shows "\<exists>st\<in>set (recorded_steps ids now i obs). step_body st = (CHECKPOINT, dev, oper, [])"
proof -
  obtain xs ys where obs: "obs = xs @ ObsEvent e # ys" using split_list [OF assms(1)] by blast
  define a where "a = fold (ob_session ids) xs (session0 now i)"
  have "(CHECKPOINT, dev, oper, []) \<in> set (session_bodies (ob_session ids (ObsEvent e) a))"
    using assms(2) by (simp add: mr_event_def)
  then have "(CHECKPOINT, dev, oper, []) \<in> set (session_bodies (fold (ob_session ids) obs (session0 now i)))"
    using bodies_mono_all [of "ob_session ids (ObsEvent e) a" ids ys] by (auto simp: obs a_def)
  moreover have "set (session_bodies c) \<subseteq> set (session_bodies (mr_flushDigitBuffer ids c))" for c
    by (simp add: mr_flushDigitBuffer_def Let_def subset_insertI)
  ultimately have "(CHECKPOINT, dev, oper, [])
      \<in> set (session_bodies (mr_flushDigitBuffer ids (fold (ob_session ids) obs (session0 now i))))" by blast
  then show ?thesis by (auto simp: session_bodies_def recorded_steps_def image_iff)
qed

lemma loop_never_passes:
  assumes "st \<in> set sts" and "\<And>e cw. \<exists>msg cw'. mx_executeStep ops e st cw = (Step_Fail msg, cw')"
  shows "fst (mx_loop ops envs n rid sts res (rs, ctx, w)) \<noteq> Loop_Done R_PASSED res'"
  using assms(1)
proof (induction sts arbitrary: n res rs ctx w)
  case (Cons x xs)
  obtain oc ctx' w' where X: "mx_executeStep ops (envs n) x (ctx, se_before (envs n) w) = (oc, ctx', w')"
    by (metis prod_cases3)
  show ?case
  proof (cases "x = st")
    case True
    then show ?thesis using X assms(2) [of "envs n" "(ctx, se_before (envs n) w)"]
      by (auto simp: Let_def)
  next
    case False
    then show ?thesis using X Cons by (cases oc) (auto simp: Let_def)
  qed
qed simp

definition unreplayable :: "event_code \<Rightarrow> bool" where
  "unreplayable c \<longleftrightarrow> c = CdmEvt CDM_NOTES_TAKEN \<or> c = IdcEvt IDC_MEDIA_RETAINED"

lemma unreplayable_step:
  assumes "unreplayable c" and "map_of EVENT_TO_CHECKPOINT (event_code_string c) = Some (dev, oper)"
    and "step_body st = (CHECKPOINT, dev, oper, [])"
  shows "\<exists>msg cw'. mx_executeStep ops e st cw = (Step_Fail msg, cw')"
proof -
  have "st_kind st = CHECKPOINT" and "st_device st = Dev_Cash \<and> st_operation st = ''Checkpoint(Taken)''
      \<or> st_device st = Dev_Card \<and> st_operation st = ''Checkpoint(Retained)''"
    using assms by (auto simp: unreplayable_def EVENT_TO_CHECKPOINT_def step_body_def)
  then show ?thesis
    by (elim disjE conjE) (simp_all add: mx_executeStep_def Let_def mx_card_def mx_cash_def starts_with_def)
qed

lemma unreplayable_checkpoint:
  "unreplayable c \<Longrightarrow> \<exists>dev oper. map_of EVENT_TO_CHECKPOINT (event_code_string c) = Some (dev, oper)"
  by (auto simp: unreplayable_def EVENT_TO_CHECKPOINT_def)

section \<open>The verdict of a run\<close>

definition passed :: "MacroStepResult \<Rightarrow> bool" where
  "passed r \<longleftrightarrow> sres_status r = S_PASSED \<and> sres_error r = None"

definition failed :: "MacroStepResult \<Rightarrow> bool" where
  "failed r \<longleftrightarrow> sres_status r = S_FAILED \<and> sres_error r \<noteq> None"

text \<open>A status with its results, for the steps that were to be run.\<close>

definition verdict :: "run_status \<Rightarrow> MacroStepResult list \<Rightarrow> MacroStep list \<Rightarrow> bool" where
  "verdict status res sts \<longleftrightarrow>
     map sres_id res = take (length res) (map st_id sts) \<and>
     (status = R_PASSED \<and> length res = length sts \<and> list_all passed res
      \<or> status = R_FAILED \<and> (\<exists>ok bad. res = ok @ [bad] \<and> list_all passed ok \<and> failed bad))"

lemma loop_verdict:
  assumes "mx_loop ops envs n rid sts res (rs, ctx, w) = (Loop_Done status res', rs', w')"
    and "list_all passed res"
  shows "\<exists>new. res' = res @ new \<and> verdict status new sts"
  using assms
proof (induction sts arbitrary: n res rs ctx w)
  case Nil
  then show ?case by (simp add: verdict_def)
next
  case (Cons x xs)
  let ?e = "envs n"
  let ?bad = "\<lambda>m. step_result ?e x S_FAILED None (Some m)"
  have bad: "verdict R_FAILED [?bad m] (x # xs)" for m
    by (auto simp: verdict_def failed_def step_result_def)
  obtain oc ctx1 w1 where X: "mx_executeStep ops ?e x (ctx, se_before ?e w) = (oc, ctx1, w1)"
    by (metis prod_cases3)
  show ?case
  proof (cases "se_runsUp ?e")
    case False
    then have "status = R_FAILED" "res' = res @ [?bad (se_dbText ?e DbFailure)]"
      using Cons.prems(1) by (auto simp: Let_def)
    then show ?thesis using bad by blast
  next
    case True
    show ?thesis
    proof (cases oc)
      case (Step_Ok msg)
      let ?ok = "step_result ?e x S_PASSED (Some msg) None"
      have ok: "passed ?ok" by (simp add: passed_def step_result_def)
      have "mx_loop ops envs (Suc n) rid xs (res @ [?ok]) (set_current rid (st_order x) rs, ctx1, w1)
          = (Loop_Done status res', rs', w')"
        using Cons.prems(1) True X Step_Ok by (simp add: Let_def)
      from Cons.IH [OF this] Cons.prems(2) ok
      obtain new where new: "res' = res @ ?ok # new" "verdict status new xs" by auto
      have "verdict status (?ok # new) (x # xs)"
        using new(2) ok unfolding verdict_def
        by (auto simp: step_result_def Cons_eq_append_conv)
      then show ?thesis using new(1) by blast
    next
      case (Step_Fail msg)
      then have "status = R_FAILED" "res' = res @ [?bad msg]" using Cons.prems(1) True X by (auto simp: Let_def)
      then show ?thesis using bad by blast
    qed (use Cons.prems(1) True X in \<open>simp_all add: Let_def\<close>)
  qed
qed

lemma mx_run_returns:
  assumes "mx_run ops re envs i q = (Run_Returns row, q')"
  obtains m ctx rs0 status res rs w where "find_macro i (ru_macros q) = Some m"
    and "mx_loop ops envs 0 (re_id re) (macro_steps m) [] (rs0, ctx, ru_world q) = (Loop_Done status res, rs, w)"
    and "run_status row = status" and "run_stepResults row = res" and "run_macroId row = i"
    and "ru_macros q' = ru_macros q" and "ru_world q' = w"
proof -
  obtain m where m: "find_macro i (ru_macros q) = Some m"
    using assms unfolding mx_run_def by (auto split: option.splits)
  define rs0 where "rs0 = ru_runs q @ [\<lparr>run_id = re_id re, run_macroId = i, run_status = R_RUNNING, run_currentStep = None,
     run_stepResults = [], run_startedAt = re_start re, run_completedAt = None, run_durationMs = None, run_suiteRunId = None\<rparr>]"
  define ctx where "ctx = \<lparr>cx_selectedPan = None, cx_selectedCardPin = None, cx_variables = mc_variables m\<rparr>"
  obtain le rs w where L: "mx_loop ops envs 0 (re_id re) (macro_steps m) [] (rs0, ctx, ru_world q) = (le, rs, w)"
    by (metis prod_cases3)
  obtain status res where "le = Loop_Done status res" "run_status row = status" "run_stepResults row = res"
    "run_macroId row = i" "ru_macros q' = ru_macros q" "ru_world q' = w"
    using assms m L unfolding mx_run_def rs0_def ctx_def
    by (cases le) (auto simp: Let_def split: if_splits)
  then show ?thesis using that m L by blast
qed

text \<open>C27: a run that returns gives its steps in order one result each, up to the first failure: it is
  PASSED exactly when every enabled step has passed, otherwise FAILED with one failed step, the last.\<close>

theorem macro_run_verdict:
  assumes "mx_run ops re envs i q = (Run_Returns row, q')"
  shows "\<exists>m. find_macro i (ru_macros q) = Some m \<and> ru_macros q' = ru_macros q
    \<and> verdict (run_status row) (run_stepResults row) (macro_steps m)"
proof -
  obtain m ctx rs0 status res rs w where "find_macro i (ru_macros q) = Some m"
    "mx_loop ops envs 0 (re_id re) (macro_steps m) [] (rs0, ctx, ru_world q) = (Loop_Done status res, rs, w)"
    "run_status row = status" "run_stepResults row = res" "ru_macros q' = ru_macros q"
    by (rule mx_run_returns [OF assms])
  then show ?thesis using loop_verdict [of ops envs 0 "re_id re" "macro_steps m" "[]"] by fastforce
qed

text \<open>C26: a recording during which the customer takes the notes, or the card is retained, can never be
  replayed with success: the recorder writes a checkpoint that the runner does not support.\<close>

theorem macro_taken_never_passes:
  assumes "mr_active r = None" and "mr_record ids now i obs r = (Inr (Some (i, steps)), r')"
    and "ObsEvent ev \<in> set obs" and "unreplayable (ev_eventCode ev)" and "ru_macros q = mr_macros r'"
    and "mx_run ops re envs i q = (Run_Returns row, q')"
  shows "run_status row = R_FAILED"
proof -
  have "find_macro i (mr_macros r) \<noteq> None"
    using assms(2) record_unknown [OF assms(1), of i ids now obs] by auto
  then obtain m0 where m0: "find_macro i (mr_macros r) = Some m0" by auto
  obtain m where m: "find_macro i (mr_macros r') = Some m" "macro_steps m = steps"
    using macro_recording_facts [OF assms(1) m0, of ids now obs] assms(2) by auto
  have steps: "steps = recorded_steps ids now i obs"
    using record_result [OF assms(1), of i ids now obs] assms(2) m0 by simp
  obtain dev oper where cp: "map_of EVENT_TO_CHECKPOINT (event_code_string (ev_eventCode ev)) = Some (dev, oper)"
    using unreplayable_checkpoint [OF assms(4)] by blast
  obtain st where st: "st \<in> set steps" "step_body st = (CHECKPOINT, dev, oper, [])"
    using event_recorded [OF assms(3) cp, of ids now i] steps by blast
  obtain m' ctx rs0 status res rs w where R: "find_macro i (ru_macros q) = Some m'"
    "mx_loop ops envs 0 (re_id re) (macro_steps m') [] (rs0, ctx, ru_world q) = (Loop_Done status res, rs, w)"
    "run_status row = status"
    by (rule mx_run_returns [OF assms(6)])
  have "macro_steps m' = steps" using R(1) m assms(5) by simp
  then have "status \<noteq> R_PASSED"
    using loop_never_passes [OF st(1) unreplayable_step [OF assms(4) cp st(2)], of ops envs 0 "re_id re" "[]" rs0 ctx "ru_world q" res]
      R(2) by auto
  moreover have "verdict status res (macro_steps m')"
    using loop_verdict [OF R(2)] by simp
  ultimately show ?thesis using R(3) by (auto simp: verdict_def)
qed

section \<open>Witnesses\<close>

definition ms_macro :: "MacroStep list \<Rightarrow> Macro" where
  "ms_macro steps = \<lparr>mc_id = ''M1'', mc_name = ''demo'', mc_folder = None, mc_description = None, mc_tags = [],
     mc_steps = steps, mc_variables = []\<rparr>"

definition ms_recorder :: recorder where
  "ms_recorder = \<lparr>mr_active = None, mr_macros = [ms_macro []]\<rparr>"

definition ms_ids :: "nat \<Rightarrow> string" where
  "ms_ids n = replicate n (CHR ''s'')"

definition ms_action :: "UserActionKind \<Rightarrow> observation" where
  "ms_action k = ObsAction \<lparr>ua_kind = k, ua_sessionId = None, ua_timestamp = 0\<rparr>"

definition ms_taken :: xfs_event where
  "ms_taken = \<lparr>ev_hService = ''CDM30'', ev_serviceClass = CDM, ev_eventCode = CdmEvt CDM_NOTES_TAKEN,
     ev_eventClass = SRVE, ev_payload = EP_Key []\<rparr>"

definition ms_env :: "bank step_env" where
  "ms_env = \<lparr>se_atm = as_env, se_before = id, se_runsUp = True, se_armed = True, se_lastTxn = (\<lambda>_. Inr None),
     se_injectCode = (\<lambda>_. 0), se_dbText = (\<lambda>_. []), se_typeError = [], se_start = 0, se_end = 1\<rparr>"

definition ms_run_env :: run_env where
  "ms_run_env = \<lparr>re_up0 = True, re_up1 = True, re_id = ''R1'', re_start = 0, re_end = 2\<rparr>"

definition ms_runner :: "Macro list \<Rightarrow> bank runner" where
  "ms_runner ms = \<lparr>ru_macros = ms, ru_runs = [], ru_world = as_world MAIN_MENU\<rparr>"

lemma ms_facts [simp]:
  "mr_active ms_recorder = None" "find_macro ''M1'' (mr_macros ms_recorder) = Some (ms_macro [])"
  "mr_macros ms_recorder = [ms_macro []]" "se_runsUp ms_env" "se_before ms_env = id"
  "find_macro ''M1'' [ms_macro sts] = Some (ms_macro sts)" "mc_id (ms_macro sts) = ''M1''"
  by (simp_all add: ms_recorder_def ms_macro_def ms_env_def find_macro_def)

lemma ms_unreplayable: "unreplayable (ev_eventCode ms_taken)"
  by (simp add: unreplayable_def ms_taken_def)

lemma ms_recorded:
  "\<exists>steps r'. mr_record ms_ids 0 ''M1'' obs ms_recorder = (Inr (Some (''M1'', steps)), r')"
  using record_result [of ms_recorder "''M1''" ms_ids 0 obs] by simp

lemma macro_recording_is_run_order_witness:
  "\<exists>steps r' m. mr_record ms_ids 0 ''M1'' [ms_action UA_CONFIRM, ObsEvent ms_taken] ms_recorder
      = (Inr (Some (''M1'', steps)), r')
    \<and> map st_order steps = map int [1..<Suc (length steps)] \<and> find_macro ''M1'' (mr_macros r') = Some m
    \<and> macro_steps m = steps"
  using macro_recording_is_run_order [OF ms_facts(1,2), of ms_ids 0 "[ms_action UA_CONFIRM, ObsEvent ms_taken]"]
  by blast

lemma macro_keys_replayed_witness:
  "\<exists>steps res rs'. mx_loop mem_ops (\<lambda>_. ms_env) 0 ''R1'' steps []
      ([], \<lparr>cx_selectedPan = None, cx_selectedCardPin = None, cx_variables = []\<rparr>, as_world PIN_ENTRY)
    = (Loop_Done R_PASSED res, rs', snd (mx_press (ae_xfs (se_atm ms_env)) [''1'', ''2'', ''CLEAR''] (as_world PIN_ENTRY)))"
proof -
  obtain steps r' where "mr_record ms_ids 0 ''M1'' (key_obs [''1'', ''2'', ''CLEAR'']) ms_recorder
      = (Inr (Some (''M1'', steps)), r')" using ms_recorded by blast
  moreover have "pin_free 0 [''1'', ''2'', ''CLEAR'']" "list_all plain_key [''1'', ''2'', ''CLEAR'']"
    by (simp_all add: single_digit_def pin_shape_def plain_key_def all_digits_def starts_with_def is_digit_def)
  ultimately show ?thesis using macro_keys_replayed [of ms_recorder] ms_facts by blast
qed

lemma macro_pin_run_swallows_witness:
  "mr_record ms_ids 0 ''M1'' (key_obs [''1'', ''2'', ''3'', ''4''] @ [ms_action UA_CONFIRM] @ key_obs [''ENTER'']) ms_recorder
    = mr_record ms_ids 0 ''M1'' (key_obs [''9'', ''8'', ''7'', ''6''] @ [ms_action UA_CONFIRM]) ms_recorder"
  by (rule macro_pin_run_swallows)
    (simp_all add: single_digit_def is_digit_def pin_shape_def ms_action_def)

definition ms_wait :: MacroStep where
  "ms_wait = \<lparr>st_id = ''W'', st_order = 1, st_kind = WAIT, st_device = Dev_System, st_operation = ''Wait'',
     st_parameters = [], st_enabled = True, st_notes = None, st_timeoutMs = None\<rparr>"

lemma ms_run_wait:
  "\<exists>row q'. mx_run mem_ops ms_run_env (\<lambda>_. ms_env) ''M1'' (ms_runner [ms_macro [ms_wait]]) = (Run_Returns row, q')
     \<and> run_status row = R_PASSED"
  by (simp add: mx_run_def ms_runner_def ms_macro_def find_macro_def ms_run_env_def macro_steps_def sort_steps_def
      ms_wait_def mx_executeStep_def mx_system_def Let_def)

lemma macro_run_verdict_witness:
  "\<exists>row q'. mx_run mem_ops ms_run_env (\<lambda>_. ms_env) ''M1'' (ms_runner [ms_macro [ms_wait]]) = (Run_Returns row, q')
     \<and> verdict (run_status row) (run_stepResults row) (macro_steps (ms_macro [ms_wait]))"
proof -
  obtain row q' where R: "mx_run mem_ops ms_run_env (\<lambda>_. ms_env) ''M1'' (ms_runner [ms_macro [ms_wait]]) = (Run_Returns row, q')"
    using ms_run_wait by blast
  have "find_macro ''M1'' (ru_macros (ms_runner [ms_macro [ms_wait]])) = Some (ms_macro [ms_wait])"
    by (simp add: ms_runner_def ms_macro_def find_macro_def)
  then show ?thesis using macro_run_verdict [OF R] R by auto
qed

lemma macro_taken_never_passes_witness:
  "\<exists>r' row q'. mr_record ms_ids 0 ''M1'' [ObsEvent ms_taken] ms_recorder = (Inr (Some (''M1'', recorded_steps ms_ids 0 ''M1'' [ObsEvent ms_taken])), r')
     \<and> mx_run mem_ops ms_run_env (\<lambda>_. ms_env) ''M1'' (ms_runner (mr_macros r')) = (Run_Returns row, q')
     \<and> run_status row = R_FAILED"
proof -
  let ?steps = "recorded_steps ms_ids 0 ''M1'' [ObsEvent ms_taken]"
  obtain r' where R: "mr_record ms_ids 0 ''M1'' [ObsEvent ms_taken] ms_recorder = (Inr (Some (''M1'', ?steps)), r')"
    "mr_macros r' = [ms_macro ?steps]"
    using record_result [of ms_recorder "''M1''" ms_ids 0 "[ObsEvent ms_taken]"]
    by simp (simp add: ms_macro_def)
  have st: "?steps = [\<lparr>st_id = ''s'', st_order = 1, st_kind = CHECKPOINT, st_device = Dev_Cash,
      st_operation = ''Checkpoint(Taken)'', st_parameters = [], st_enabled = True, st_notes = None, st_timeoutMs = None\<rparr>]"
    by (simp add: recorded_steps_def session0_def mr_event_def ms_taken_def EVENT_TO_CHECKPOINT_def flush_empty
        mr_pushStep_def ms_ids_def mr_flushDigitBuffer_def)
  have "\<exists>row q'. mx_run mem_ops ms_run_env (\<lambda>_. ms_env) ''M1'' (ms_runner [ms_macro ?steps]) = (Run_Returns row, q')"
    by (simp add: mx_run_def ms_runner_def ms_macro_def find_macro_def ms_run_env_def macro_steps_def sort_steps_def
      st mx_executeStep_def mx_cash_def starts_with_def Let_def)
  then obtain row q' where M: "mx_run mem_ops ms_run_env (\<lambda>_. ms_env) ''M1'' (ms_runner [ms_macro ?steps]) = (Run_Returns row, q')"
    by blast
  have "run_status row = R_FAILED"
    by (rule macro_taken_never_passes [OF _ R(1) _ ms_unreplayable _ M]) (simp_all add: R(2) ms_runner_def)
  then show ?thesis using R M by auto
qed

end
