(* ===== verification/Suite_Runner.thy ===== *)
theory Suite_Runner
  imports Macro_Runner
begin

text \<open>
  Suites of macros (\<^verbatim>\<open>apps/xfs-server/src/suites/suite-runner.service.ts\<close>,
  \<^verbatim>\<open>suite-scheduler.service.ts\<close>): the macros of a suite run one after the other, each from an ATM
  without a session, and the cron expressions of the enabled suites are kept as repeatable jobs of a
  job queue. The queue is a third-party library: its operations are parameters.
\<close>

section \<open>Suites\<close>

record MacroSuite =
  su_id :: string
  su_name :: string
  su_macroIds :: "string list"
  su_cron :: "string option"
  su_enabled :: bool

record MacroSuiteRun =
  srn_id :: string
  srn_suiteId :: string
  srn_status :: run_status
  srn_triggeredBy :: string
  srn_startedAt :: int
  srn_completedAt :: "int option"
  srn_durationMs :: "int option"

record suite_macro_run =
  smr_macroId :: string
  smr_macroRunId :: string
  smr_status :: run_status
  smr_durationMs :: int

record SuiteRunSummary =
  sum_id :: string
  sum_suiteId :: string
  sum_status :: run_status
  sum_startedAt :: int
  sum_completedAt :: int
  sum_durationMs :: int
  sum_macroRuns :: "suite_macro_run list"

text \<open>What the environment gives the turn of one macro; \<open>te_before\<close> is what else happens to the ATM before
  it, \<open>te_attachUp\<close> whether the run can be attached to the suite.\<close>

record 'db turn_env =
  te_before :: "'db world \<Rightarrow> 'db world"
  te_cancel :: atm_env
  te_run :: run_env
  te_steps :: "nat \<Rightarrow> 'db step_env"
  te_attachUp :: bool

text \<open>\<open>safeCancel\<close>: errors of the cancellation are ignored. \<^const>\<open>None\<close>: it does not come back.\<close>

definition safeCancel :: "'db bank_ops \<Rightarrow> atm_env \<Rightarrow> 'db world \<Rightarrow> 'db world option" where
  "safeCancel ops env w =
     (if atm_cur w = None then Some w
      else (case atm_drive ops env 7 (atm_start env (In_Cancel (Some ''suite runner reset'')) w) of
              (w', None) \<Rightarrow> None
            | (w', Some r) \<Rightarrow> Some w'))"

datatype suite_end = Suite_Done run_status "suite_macro_run list" | Suite_Stuck

definition attach_run :: "string \<Rightarrow> string \<Rightarrow> MacroRun list \<Rightarrow> MacroRun list" where
  "attach_run sid rid rs = map (\<lambda>x. if run_id x = rid then x\<lparr>run_suiteRunId := Some sid\<rparr> else x) rs"

definition not_run :: "string \<Rightarrow> suite_macro_run" where
  "not_run i = \<lparr>smr_macroId = i, smr_macroRunId = [], smr_status = R_FAILED, smr_durationMs = 0\<rparr>"

text \<open>The turn of one macro: its entry, or \<^const>\<open>None\<close> when the run does not come back.\<close>

definition suite_turn :: "'db bank_ops \<Rightarrow> 'db turn_env \<Rightarrow> string \<Rightarrow> string \<Rightarrow> 'db runner
    \<Rightarrow> suite_macro_run option \<times> 'db runner" where
  "suite_turn ops e sid i q =
     (case safeCancel ops (te_cancel e) (te_before e (ru_world q)) of
        None \<Rightarrow> (None, q)
      | Some w \<Rightarrow>
          (case mx_run ops (te_run e) (te_steps e) i (q\<lparr>ru_world := w\<rparr>) of
             (Run_Returns row, q') \<Rightarrow>
               if \<not> te_attachUp e then (Some (not_run i), q')
               else (Some \<lparr>smr_macroId = i, smr_macroRunId = run_id row, smr_status = run_status row,
                           smr_durationMs = js_default (run_durationMs row) 0\<rparr>,
                     q'\<lparr>ru_runs := attach_run sid (run_id row) (ru_runs q')\<rparr>)
           | (Run_Throws, q') \<Rightarrow> (Some (not_run i), q')
           | (Run_NoMacro j, q') \<Rightarrow> (Some (not_run i), q')
           | (_, q') \<Rightarrow> (None, q')))"

fun suite_loop :: "'db bank_ops \<Rightarrow> (nat \<Rightarrow> 'db turn_env) \<Rightarrow> nat \<Rightarrow> string \<Rightarrow> string list
    \<Rightarrow> run_status \<Rightarrow> suite_macro_run list \<Rightarrow> 'db runner \<Rightarrow> suite_end \<times> 'db runner" where
  "suite_loop ops envs n sid [] overall done q = (Suite_Done overall done, q)"
| "suite_loop ops envs n sid (i # is) overall done q =
     (case suite_turn ops (envs n) sid i q of
        (None, q') \<Rightarrow> (Suite_Stuck, q')
      | (Some x, q') \<Rightarrow>
          suite_loop ops envs (Suc n) sid is
            (if smr_status x \<noteq> R_PASSED then R_FAILED else overall) (done @ [x]) q')"

record 'db suite_state =
  ste_suites :: "MacroSuite list"
  ste_runs :: "MacroSuiteRun list"
  ste_runner :: "'db runner"

record suite_env =
  sue_up0 :: bool
  sue_up1 :: bool
  sue_id :: string
  sue_start :: int
  sue_end :: int
  sue_cancel :: atm_env

datatype suite_outcome = Suite_Returns SuiteRunSummary | Suite_Throws | Suite_Unknown string | Suite_Hangs

definition find_suite :: "string \<Rightarrow> MacroSuite list \<Rightarrow> MacroSuite option" where
  "find_suite i ss = find (\<lambda>s. su_id s = i) ss"

definition suite_run :: "'db bank_ops \<Rightarrow> suite_env \<Rightarrow> (nat \<Rightarrow> 'db turn_env) \<Rightarrow> string \<Rightarrow> string
    \<Rightarrow> 'db suite_state \<Rightarrow> suite_outcome \<times> 'db suite_state" where
  "suite_run ops se envs i trig s =
     (case find_suite i (ste_suites s) of
        None \<Rightarrow> (Suite_Unknown i, s)
      | Some suite \<Rightarrow>
          if \<not> sue_up0 se then (Suite_Throws, s)
          else
            (let row = \<lparr>srn_id = sue_id se, srn_suiteId = i, srn_status = R_RUNNING, srn_triggeredBy = trig,
                   srn_startedAt = sue_start se, srn_completedAt = None, srn_durationMs = None\<rparr>;
                 s1 = s\<lparr>ste_runs := ste_runs s @ [row]\<rparr>
             in case suite_loop ops envs 0 (sue_id se) (su_macroIds suite) R_PASSED [] (ste_runner s) of
                  (Suite_Stuck, q) \<Rightarrow> (Suite_Hangs, s1\<lparr>ste_runner := q\<rparr>)
                | (Suite_Done overall entries, q) \<Rightarrow>
                    (case safeCancel ops (sue_cancel se) (ru_world q) of
                       None \<Rightarrow> (Suite_Hangs, s1\<lparr>ste_runner := q\<rparr>)
                     | Some w \<Rightarrow>
                         (let s2 = s1\<lparr>ste_runner := q\<lparr>ru_world := w\<rparr>\<rparr>; d = sue_end se - sue_start se
                          in if \<not> sue_up1 se then (Suite_Throws, s2)
                             else
                               (Suite_Returns \<lparr>sum_id = sue_id se, sum_suiteId = i, sum_status = overall,
                                  sum_startedAt = sue_start se, sum_completedAt = sue_end se,
                                  sum_durationMs = d, sum_macroRuns = entries\<rparr>,
                                s2\<lparr>ste_runs := map (\<lambda>x. if srn_id x = sue_id se
                                     then x\<lparr>srn_status := overall, srn_completedAt := Some (sue_end se),
                                            srn_durationMs := Some d\<rparr> else x) (ste_runs s2)\<rparr>)))))"

section \<open>Schedule\<close>

definition jobIdFor :: "string \<Rightarrow> string" where
  "jobIdFor i = ''suite-'' @ i"

text \<open>A repeatable job as the queue lists it, and the operations of the queue: the listing, the removal by
  key, and the addition of a job with an id and a pattern for a suite, which throws (\<^const>\<open>None\<close>) when the
  queue cannot read the pattern.\<close>

record repeatable =
  rj_key :: string
  rj_id :: "string option"
  rj_name :: string
  rj_pattern :: string

record 'q queue_ops =
  qo_list :: "'q \<Rightarrow> repeatable list"
  qo_remove :: "string \<Rightarrow> 'q \<Rightarrow> 'q"
  qo_addRepeat :: "string \<Rightarrow> string \<Rightarrow> string \<Rightarrow> 'q \<Rightarrow> 'q option"

text \<open>The map of wanted jobs, in the order of insertion; a suite with an empty cron has none.\<close>

definition wanted_jobs :: "MacroSuite list \<Rightarrow> (string \<times> string \<times> string) list" where
  "wanted_jobs suites =
     fold (\<lambda>s m. if js_default (su_cron s) [] = [] then m
                 else AList.update (jobIdFor (su_id s)) (su_id s, js_default (su_cron s) []) m)
       (filter su_enabled suites) []"

definition rj_ident :: "repeatable \<Rightarrow> string" where
  "rj_ident r = js_default (rj_id r) (rj_name r)"

text \<open>The additions, up to the first that throws.\<close>

fun add_wanted :: "'q queue_ops \<Rightarrow> (string \<times> string \<times> string) list \<Rightarrow> 'q \<Rightarrow> bool \<times> 'q" where
  "add_wanted qo [] q = (True, q)"
| "add_wanted qo ((i, suiteId, cron) # js) q =
     (case qo_addRepeat qo i suiteId cron q of None \<Rightarrow> (False, q) | Some q' \<Rightarrow> add_wanted qo js q')"

text \<open>Whether \<open>syncRepeatables\<close> returns, and the queue after it.\<close>

definition syncRepeatables :: "'q queue_ops \<Rightarrow> MacroSuite list \<Rightarrow> 'q option \<Rightarrow> bool \<times> 'q option" where
  "syncRepeatables qo suites queue =
     (case queue of
        None \<Rightarrow> (True, None)
      | Some q \<Rightarrow>
          (let wanted = wanted_jobs suites;
               q1 = fold (\<lambda>r q. if rj_ident r \<noteq> [] \<and> map_of wanted (rj_ident r) = None
                                then qo_remove qo (rj_key r) q else q) (qo_list qo q) q;
               (ok, q2) = add_wanted qo wanted q1
           in (ok, Some q2)))"

text \<open>\<open>enqueueOnDemand\<close>: without a queue the suite runs inline; with one a job is added (\<open>enqueue\<close> gives its
  id).\<close>

definition enqueueOnDemand ::
  "('q \<Rightarrow> string \<times> 'q) \<Rightarrow> ('s \<Rightarrow> suite_outcome \<times> 's) \<Rightarrow> 'q option \<Rightarrow> 's
   \<Rightarrow> (suite_outcome + string option \<times> bool) \<times> 'q option \<times> 's" where
  "enqueueOnDemand enqueue run queue s =
     (case queue of
        None \<Rightarrow>
          (case run s of
             (Suite_Returns x, s') \<Rightarrow> (Inr (None, True), None, s')
           | (oc, s') \<Rightarrow> (Inl oc, None, s'))
      | Some q \<Rightarrow> (let (j, q') = enqueue q in (Inr (Some j, False), Some q', s)))"

section \<open>Life cycle of the scheduler\<close>

text \<open>Without the flag \<open>ZXFS_SUITE_SCHEDULER_ENABLED=false\<close> the queue is opened (its stored jobs are \<open>q\<close>)
  and synchronised; if that throws, the server does not start. At the end of the process the queue is
  closed, its jobs stay stored.\<close>

definition sched_onModuleInit :: "'q queue_ops \<Rightarrow> string option \<Rightarrow> 'q \<Rightarrow> MacroSuite list \<Rightarrow> bool \<times> 'q option" where
  "sched_onModuleInit qo flag q suites =
     (if flag = Some ''false'' then (True, None) else syncRepeatables qo suites (Some q))"

definition sched_onModuleDestroy :: "'q option \<Rightarrow> 'q option" where
  "sched_onModuleDestroy queue = None"

text \<open>The data of a job, and what the worker does with it: the suite runs as one triggered by the clock,
  also for a job that was added on demand.\<close>

record suite_job =
  sj_suiteId :: string
  sj_triggeredBy :: string

definition manual_job :: "string \<Rightarrow> suite_job" where
  "manual_job i = \<lparr>sj_suiteId = i, sj_triggeredBy = ''MANUAL''\<rparr>"

definition sched_worker :: "'db bank_ops \<Rightarrow> suite_env \<Rightarrow> (nat \<Rightarrow> 'db turn_env) \<Rightarrow> suite_job
    \<Rightarrow> 'db suite_state \<Rightarrow> suite_outcome \<times> 'db suite_state" where
  "sched_worker ops se envs job s = suite_run ops se envs (sj_suiteId job) ''CRON'' s"

end
