(* ===== verification/Request_Bodies.thy ===== *)
theory Request_Bodies
  imports Host_Transports
begin

text \<open>
  The checks of request bodies: the inline validators of the macro and suite controllers
  (\<^verbatim>\<open>apps/xfs-server/src/macros/macros.controller.ts\<close>, \<^verbatim>\<open>suites/suites.controller.ts\<close>) and the declared
  bounds of the session, card, cassette and theme bodies. A refusal is represented by its field and
  what was expected. The length of a string is its number of characters.
\<close>

section \<open>Refusals\<close>

datatype expected =
    NonEmptyString nat
  | AtMost nat
  | Required
  | StringArray
  | StepArray
  | StepObject
  | StepStrings
  | Boolean
  | AString
  | FiveFields
  | AnObject

datatype http_failure =
    Bad_Request string expected
  | Bad_Body
  | Not_Found string
  | Server_Error

section \<open>Macro bodies\<close>

definition requireString :: "js_value \<Rightarrow> string \<Rightarrow> nat \<Rightarrow> http_failure + string" where
  "requireString v field mx =
     (case v of
        JvStr s \<Rightarrow> if s = [] \<or> mx < length s then Inl (Bad_Request field (NonEmptyString mx)) else Inr s
      | _ \<Rightarrow> Inl (Bad_Request field (NonEmptyString mx)))"

definition optionalString :: "js_value \<Rightarrow> string \<Rightarrow> nat \<Rightarrow> http_failure + string option" where
  "optionalString v field mx =
     (case v of
        JvUndefined \<Rightarrow> Inr None
      | JvNull \<Rightarrow> Inr None
      | JvStr s \<Rightarrow> if mx < length s then Inl (Bad_Request field (AtMost mx)) else Inr (Some s)
      | _ \<Rightarrow> Inl (Bad_Request field (AtMost mx)))"

fun jv_string :: "js_value \<Rightarrow> string option" where
  "jv_string (JvStr s) = Some s"
| "jv_string v = None"

definition optionalStringArray :: "js_value \<Rightarrow> string \<Rightarrow> http_failure + string list option" where
  "optionalStringArray v field =
     (case v of
        JvUndefined \<Rightarrow> Inr None
      | JvNull \<Rightarrow> Inr None
      | JvArr vs \<Rightarrow>
          (case those (map jv_string vs) of
             None \<Rightarrow> Inl (Bad_Request field StringArray)
           | Some ss \<Rightarrow> Inr (Some ss))
      | _ \<Rightarrow> Inl (Bad_Request field StringArray))"

text \<open>The shape of one element of a step array; an array is an object without the three properties.\<close>

definition step_shape :: "js_value \<Rightarrow> string \<Rightarrow> http_failure option" where
  "step_shape s field =
     (if \<not> jv_truthy s \<or> \<not> jv_is_object s then Some (Bad_Request field StepObject)
      else if jv_string (jv_get s ''id'') = None \<or> jv_string (jv_get s ''device'') = None
           \<or> jv_string (jv_get s ''operation'') = None
      then Some (Bad_Request field StepStrings)
      else None)"

definition optionalStepArray :: "js_value \<Rightarrow> string \<Rightarrow> http_failure + js_value list option" where
  "optionalStepArray v field =
     (case v of
        JvUndefined \<Rightarrow> Inr None
      | JvNull \<Rightarrow> Inr None
      | JvArr vs \<Rightarrow>
          (case filter (\<lambda>r. r \<noteq> None) (map (\<lambda>s. step_shape s field) vs) of
             Some bad # _ \<Rightarrow> Inl bad
           | _ \<Rightarrow> Inr (Some vs))
      | _ \<Rightarrow> Inl (Bad_Request field StepArray))"

section \<open>Suite bodies\<close>

definition suite_requireString :: "js_value \<Rightarrow> string \<Rightarrow> nat \<Rightarrow> http_failure + string" where
  "suite_requireString v field mx =
     sum_bind (optionalString v field mx) (\<lambda>s.
       if js_default s [] = [] then Inl (Bad_Request field Required) else Inr (js_default s []))"

definition optionalBool :: "js_value \<Rightarrow> string \<Rightarrow> http_failure + bool option" where
  "optionalBool v field =
     (case v of
        JvUndefined \<Rightarrow> Inr None
      | JvNull \<Rightarrow> Inr None
      | JvBool b \<Rightarrow> Inr (Some b)
      | _ \<Rightarrow> Inl (Bad_Request field Boolean))"

text \<open>\<open>s.split(/\s+/)\<close>.\<close>

function split_ws :: "string \<Rightarrow> string list" where
  "split_ws s =
     (case dropWhile (\<lambda>c. \<not> is_ws c) s of
        [] \<Rightarrow> [s]
      | c # r \<Rightarrow> takeWhile (\<lambda>c. \<not> is_ws c) s # split_ws (dropWhile is_ws r))"
  by auto
termination
proof (relation "measure length")
  fix s c r
  assume "dropWhile (\<lambda>c. \<not> is_ws c) s = c # r"
  then have "length (c # r) \<le> length s" by (metis length_dropWhile_le)
  moreover have "length (dropWhile is_ws r) \<le> length r" by (rule length_dropWhile_le)
  ultimately show "(dropWhile is_ws r, s) \<in> measure length" by simp
qed simp

declare split_ws.simps [simp del]

text \<open>\<open>validateCron\<close>: an empty expression clears the schedule; any five fields are accepted.\<close>

definition validateCron :: "js_value \<Rightarrow> string \<Rightarrow> http_failure + string option" where
  "validateCron v field =
     (case v of
        JvUndefined \<Rightarrow> Inr None
      | JvNull \<Rightarrow> Inr None
      | JvStr s \<Rightarrow>
          if s = [] then Inr None
          else if length (split_ws (js_trim s)) \<noteq> 5 then Inl (Bad_Request field FiveFields)
          else Inr (Some (js_trim s))
      | _ \<Rightarrow> Inl (Bad_Request field AString))"

section \<open>Declared bodies\<close>

text \<open>The bodies whose fields are checked by decorators before the handler runs. The validation pipe first
  converts a field to its declared type, so the checks are on strings and numbers.\<close>

definition digits_between :: "nat \<Rightarrow> nat \<Rightarrow> string \<Rightarrow> bool" where
  "digits_between lo hi s \<longleftrightarrow> list_all is_digit s \<and> lo \<le> length s \<and> length s \<le> hi"

definition InsertCardDto :: "string \<Rightarrow> bool" where
  "InsertCardDto pan \<longleftrightarrow> digits_between 12 19 pan"

definition SubmitAmountDto :: "jsnum \<Rightarrow> bool" where
  "SubmitAmountDto amount \<longleftrightarrow> (case js_to_int amount of None \<Rightarrow> False | Some i \<Rightarrow> 20000 \<le> i \<and> i \<le> 10000000)"

definition SelectTransactionDto :: "string \<Rightarrow> bool" where
  "SelectTransactionDto t \<longleftrightarrow> t \<in> {''WITHDRAWAL'', ''BALANCE'', ''TRANSFER'', ''DEPOSIT''}"

record CreateCardDto =
  cc_pan :: string
  cc_cardholderName :: string
  cc_expiryDate :: string
  cc_pin :: string
  cc_accountId :: string

definition CreateCardDto_valid :: "CreateCardDto \<Rightarrow> bool" where
  "CreateCardDto_valid b \<longleftrightarrow> digits_between 12 19 (cc_pan b) \<and> digits_between 4 4 (cc_expiryDate b)
     \<and> 4 \<le> length (cc_pin b) \<and> length (cc_pin b) \<le> 12"

definition ReplenishDto :: "jsnum \<Rightarrow> bool" where
  "ReplenishDto cnt \<longleftrightarrow> (case js_to_int cnt of None \<Rightarrow> False | Some i \<Rightarrow> 0 \<le> i)"

definition theme_char :: "char \<Rightarrow> bool" where
  "theme_char c \<longleftrightarrow> is_digit c \<or> c \<in> set ''abcdefghijklmnopqrstuvwxyz_-''"

definition SetActiveDto :: "string \<Rightarrow> bool" where
  "SetActiveDto code \<longleftrightarrow> 2 \<le> length code \<and> length code \<le> 32 \<and> list_all theme_char code"

end
