(* ===== verification/Suite_Endpoints.thy ===== *)
theory Suite_Endpoints
  imports Suite_Runner Request_Bodies
begin

text \<open>
  The suite controller (\<^verbatim>\<open>apps/xfs-server/src/suites/suites.controller.ts\<close>): the table of suites is edited
  and the queue is synchronised with it. When the synchronisation throws, the request fails although
  the table is changed.
\<close>

record SuiteBody =
  sb_name :: js_value
  sb_macroIds :: js_value
  sb_cron :: js_value
  sb_enabled :: js_value

type_synonym 'q schedule = "MacroSuite list \<times> 'q option"

definition suites_sync :: "'q queue_ops \<Rightarrow> 'a \<Rightarrow> MacroSuite list \<Rightarrow> 'q option \<Rightarrow> (http_failure + 'a) \<times> 'q schedule" where
  "suites_sync qo x ss queue =
     (let (ok, q) = syncRepeatables qo ss queue in (if ok then Inr x else Inl Server_Error, ss, q))"

definition suite_of_body :: "string \<Rightarrow> SuiteBody \<Rightarrow> http_failure + MacroSuite" where
  "suite_of_body newId b =
     sum_bind (suite_requireString (sb_name b) ''name'' 200) (\<lambda>name.
     sum_bind (optionalStringArray (sb_macroIds b) ''macroIds'') (\<lambda>macroIds.
     sum_bind (validateCron (sb_cron b) ''cron'') (\<lambda>cron.
     sum_bind (optionalBool (sb_enabled b) ''enabled'') (\<lambda>enabled.
       Inr \<lparr>su_id = newId, su_name = name, su_macroIds = js_default macroIds [], su_cron = cron,
            su_enabled = js_default enabled True\<rparr>))))"

definition suites_create :: "'q queue_ops \<Rightarrow> string \<Rightarrow> SuiteBody \<Rightarrow> 'q schedule
    \<Rightarrow> (http_failure + MacroSuite) \<times> 'q schedule" where
  "suites_create qo newId b st =
     (case suite_of_body newId b of
        Inl e \<Rightarrow> (Inl e, st)
      | Inr s \<Rightarrow>
          if su_name s \<in> set (map su_name (fst st)) then (Inl Server_Error, st)
          else suites_sync qo s (fst st @ [s]) (snd st))"

text \<open>An update: a field that is absent keeps its value, and so does one that is null, except that a null
  cron expression clears the schedule.\<close>

definition edited_suite :: "SuiteBody \<Rightarrow> MacroSuite \<Rightarrow> http_failure + MacroSuite" where
  "edited_suite b s =
     sum_bind (if sb_name b = JvUndefined then Inr (su_name s) else suite_requireString (sb_name b) ''name'' 200) (\<lambda>name.
     sum_bind (optionalStringArray (sb_macroIds b) ''macroIds'') (\<lambda>macroIds.
     sum_bind (if sb_cron b = JvUndefined then Inr (su_cron s) else validateCron (sb_cron b) ''cron'') (\<lambda>cron.
     sum_bind (optionalBool (sb_enabled b) ''enabled'') (\<lambda>enabled.
       Inr (s\<lparr>su_name := name, su_macroIds := js_default macroIds (su_macroIds s), su_cron := cron,
              su_enabled := js_default enabled (su_enabled s)\<rparr>)))))"

definition suites_update :: "'q queue_ops \<Rightarrow> string \<Rightarrow> SuiteBody \<Rightarrow> 'q schedule
    \<Rightarrow> (http_failure + MacroSuite) \<times> 'q schedule" where
  "suites_update qo i b st =
     (case find_suite i (fst st) of
        None \<Rightarrow> (Inl (Not_Found i), st)
      | Some s \<Rightarrow>
          (case edited_suite b s of
             Inl e \<Rightarrow> (Inl e, st)
           | Inr s' \<Rightarrow>
               if su_name s' \<in> set (map su_name (filter (\<lambda>x. su_id x \<noteq> i) (fst st))) then (Inl Server_Error, st)
               else suites_sync qo s' (map (\<lambda>x. if su_id x = i then s' else x) (fst st)) (snd st)))"

definition suites_remove :: "'q queue_ops \<Rightarrow> string \<Rightarrow> 'q schedule \<Rightarrow> (http_failure + string) \<times> 'q schedule" where
  "suites_remove qo i st =
     (if find_suite i (fst st) = None then (Inl Server_Error, st)
      else suites_sync qo i (filter (\<lambda>s. su_id s \<noteq> i) (fst st)) (snd st))"

definition suites_runNow :: "('q \<Rightarrow> string \<times> 'q) \<Rightarrow> ('s \<Rightarrow> suite_outcome \<times> 's) \<Rightarrow> string \<Rightarrow> 'q schedule \<Rightarrow> 's
    \<Rightarrow> (http_failure + string option \<times> bool) \<times> 'q schedule \<times> 's" where
  "suites_runNow enqueue run i st s =
     (if find_suite i (fst st) = None then (Inl (Not_Found i), st, s)
      else (case enqueueOnDemand enqueue run (snd st) s of
              (Inl oc, q, s') \<Rightarrow> (Inl Server_Error, (fst st, q), s')
            | (Inr r, q, s') \<Rightarrow> (Inr r, (fst st, q), s')))"

definition suites_runs :: "string \<Rightarrow> MacroSuiteRun list \<Rightarrow> MacroSuiteRun list" where
  "suites_runs i rs = take 30 (sort_key (\<lambda>r. - srn_startedAt r) (filter (\<lambda>r. srn_suiteId r = i) rs))"

end
