(* ===== verification/Schedule_Props.thy ===== *)
theory Schedule_Props
  imports Suite_Endpoints
begin

text \<open>
  What the schedule promises: the queue holds the jobs of the enabled suites, with those of earlier cron
  expressions, which are not removed; and what an expression that the queue cannot read does.
\<close>

section \<open>The job queue\<close>

text \<open>What the code relies on of the queue: it keeps one repeatable job per key, the key of a job is
  determined by its id and its pattern, and a pattern that is not \<open>readable\<close> is refused.\<close>

definition new_job :: "(string \<Rightarrow> string \<Rightarrow> string) \<Rightarrow> string \<Rightarrow> string \<Rightarrow> repeatable" where
  "new_job key i cron = \<lparr>rj_key = key i cron, rj_id = Some i, rj_name = i, rj_pattern = cron\<rparr>"

locale job_queue =
  fixes qo :: "'q queue_ops" and key :: "string \<Rightarrow> string \<Rightarrow> string" and readable :: "string \<Rightarrow> bool"
  assumes remove: "set (qo_list qo (qo_remove qo k q)) = {r \<in> set (qo_list qo q). rj_key r \<noteq> k}"
    and addRepeat: "readable cron \<Longrightarrow> \<exists>q'. qo_addRepeat qo i suiteId cron q = Some q'
      \<and> set (qo_list qo q') = insert (new_job key i cron) {r \<in> set (qo_list qo q). rj_key r \<noteq> key i cron}"
    and refused: "\<not> readable cron \<Longrightarrow> qo_addRepeat qo i suiteId cron q = None"
    and key_inj: "key i cron = key j cron' \<Longrightarrow> i = j \<and> cron = cron'"
begin

lemma remove_all:
  "set (qo_list qo (fold (\<lambda>r q. if P r then qo_remove qo (rj_key r) q else q) rs q))
     = {r \<in> set (qo_list qo q). \<forall>x\<in>set rs. P x \<longrightarrow> rj_key r \<noteq> rj_key x}"
  by (induction rs arbitrary: q) (auto simp: remove)

text \<open>The jobs that are added: those before the first unreadable pattern.\<close>

abbreviation added :: "(string \<times> string \<times> string) list \<Rightarrow> (string \<times> string \<times> string) list" where
  "added js \<equiv> takeWhile (\<lambda>(i, s, c). readable c) js"

lemma add_all:
  assumes "distinct (map fst js)"
  shows "\<exists>q'. add_wanted qo js q = (list_all (\<lambda>(i, s, c). readable c) js, q')
     \<and> set (qo_list qo q') = {new_job key i c | i s c. (i, s, c) \<in> set (added js)}
       \<union> {r \<in> set (qo_list qo q). \<forall>(i, s, c)\<in>set (added js). rj_key r \<noteq> key i c}"
  using assms
proof (induction js arbitrary: q)
  case Nil
  then show ?case by simp
next
  case (Cons j js)
  obtain i s c where j: "j = (i, s, c)" by (cases j)
  show ?case
  proof (cases "readable c")
    case False
    then show ?thesis by (simp add: j refused)
  next
    case True
    obtain q1 where q1: "qo_addRepeat qo i s c q = Some q1"
      "set (qo_list qo q1) = insert (new_job key i c) {r \<in> set (qo_list qo q). rj_key r \<noteq> key i c}"
      using addRepeat [OF True] by blast
    obtain q' where q': "add_wanted qo js q1 = (list_all (\<lambda>(i, s, c). readable c) js, q')"
      "set (qo_list qo q') = {new_job key i c | i s c. (i, s, c) \<in> set (added js)}
        \<union> {r \<in> set (qo_list qo q1). \<forall>(i, s, c)\<in>set (added js). rj_key r \<noteq> key i c}"
      using Cons.IH [of q1] Cons.prems by auto
    have kept: "key i c \<noteq> key i' c'" if "(i', s', c') \<in> set (added js)" for i' s' c'
      using set_takeWhileD [OF that] Cons.prems key_inj [of i c i' c'] by (force simp: j)
    have "set (qo_list qo q') = {new_job key i' c' | i' s' c'. (i', s', c') \<in> set (added (j # js))}
        \<union> {r \<in> set (qo_list qo q). \<forall>(i, s, c)\<in>set (added (j # js)). rj_key r \<noteq> key i c}"
      unfolding q'(2) q1(2) using kept True by (auto simp: j new_job_def)
    then show ?thesis using q' q1 True by (simp add: j)
  qed
qed

text \<open>The jobs after a synchronisation: those that were added, and the old ones whose id is wanted or empty,
  unless a new one has their key.\<close>

lemma sync_jobs:
  assumes "distinct (map fst (wanted_jobs suites))" and "distinct (map rj_key (qo_list qo q))"
  shows "\<exists>q'. syncRepeatables qo suites (Some q) = (list_all (\<lambda>(i, s, c). readable c) (wanted_jobs suites), Some q')
    \<and> set (qo_list qo q') = {new_job key i c | i s c. (i, s, c) \<in> set (added (wanted_jobs suites))}
       \<union> {r \<in> set (qo_list qo q). (rj_ident r = [] \<or> map_of (wanted_jobs suites) (rj_ident r) \<noteq> None)
            \<and> (\<forall>(i, s, c)\<in>set (added (wanted_jobs suites)). rj_key r \<noteq> key i c)}"
proof -
  let ?P = "\<lambda>r. rj_ident r \<noteq> [] \<and> map_of (wanted_jobs suites) (rj_ident r) = None"
  define q1 where "q1 = fold (\<lambda>r q. if ?P r then qo_remove qo (rj_key r) q else q) (qo_list qo q) q"
  have same: "r = x" if "r \<in> set (qo_list qo q)" "x \<in> set (qo_list qo q)" "rj_key r = rj_key x" for r x
    using that assms(2) by (metis distinct_map inj_onD)
  have rest: "set (qo_list qo q1) = {r \<in> set (qo_list qo q). \<not> ?P r}"
  proof -
    have "(\<forall>x\<in>set (qo_list qo q). ?P x \<longrightarrow> rj_key r \<noteq> rj_key x) \<longleftrightarrow> \<not> ?P r" if "r \<in> set (qo_list qo q)" for r
      using that same [of r] by metis
    then show ?thesis unfolding q1_def remove_all by blast
  qed
  obtain q' where q': "add_wanted qo (wanted_jobs suites) q1 = (list_all (\<lambda>(i, s, c). readable c) (wanted_jobs suites), q')"
    "set (qo_list qo q') = {new_job key i c | i s c. (i, s, c) \<in> set (added (wanted_jobs suites))}
       \<union> {r \<in> set (qo_list qo q1). \<forall>(i, s, c)\<in>set (added (wanted_jobs suites)). rj_key r \<noteq> key i c}"
    using add_all [OF assms(1), of q1] by blast
  then show ?thesis unfolding rest
    by (auto simp: syncRepeatables_def Let_def q1_def [symmetric])
qed

text \<open>With readable patterns only, everything that is wanted is added.\<close>

lemma sync_jobs_readable:
  assumes "distinct (map fst (wanted_jobs suites))" and "distinct (map rj_key (qo_list qo q))"
    and "\<forall>(i, s, c)\<in>set (wanted_jobs suites). readable c"
  shows "\<exists>q'. syncRepeatables qo suites (Some q) = (True, Some q')
    \<and> set (qo_list qo q') = {new_job key i c | i s c. (i, s, c) \<in> set (wanted_jobs suites)}
       \<union> {r \<in> set (qo_list qo q). (rj_ident r = [] \<or> map_of (wanted_jobs suites) (rj_ident r) \<noteq> None)
            \<and> (\<forall>(i, s, c)\<in>set (wanted_jobs suites). rj_key r \<noteq> key i c)}"
proof -
  have a: "added (wanted_jobs suites) = wanted_jobs suites" "list_all (\<lambda>(i, s, c). readable c) (wanted_jobs suites) = True"
    using assms(3) by (auto simp: takeWhile_eq_all_conv list_all_iff)
  show ?thesis using sync_jobs [OF assms(1,2)] unfolding a .
qed

lemma add_wanted_unreadable: "(i, s, c) \<in> set js \<Longrightarrow> \<not> readable c \<Longrightarrow> \<not> fst (add_wanted qo js q)"
proof (induction js arbitrary: q)
  case (Cons j js)
  obtain i' s' c' where j: "j = (i', s', c')" by (cases j)
  then show ?case
    using Cons addRepeat [of c' i' s' q] refused [of c' i' s' q] by (cases "readable c'") auto
qed simp

lemma sync_unreadable:
  "(i, s, c) \<in> set (wanted_jobs suites) \<Longrightarrow> \<not> readable c \<Longrightarrow> \<not> fst (syncRepeatables qo suites (Some q))"
  using add_wanted_unreadable by (simp add: syncRepeatables_def Let_def split_def)

end

text \<open>A queue in memory that reads five numbers or stars.\<close>

definition list_readable :: "string \<Rightarrow> bool" where
  "list_readable cron \<longleftrightarrow> list_all (\<lambda>f. f = ''*'' \<or> f \<noteq> [] \<and> list_all is_digit f) (split_ws cron)"

definition list_queue :: "repeatable list queue_ops" where
  "list_queue = \<lparr>qo_list = id, qo_remove = (\<lambda>k. filter (\<lambda>r. rj_key r \<noteq> k)),
     qo_addRepeat = (\<lambda>i s c q. if \<not> list_readable c then None else Some (new_job (\<lambda>i c. js_itoa (length i) @ CHR '':'' # i @ c) i c
        # filter (\<lambda>r. rj_key r \<noteq> js_itoa (length i) @ CHR '':'' # i @ c) q))\<rparr>"

lemma prefix_code_inj:
  assumes "js_itoa m @ CHR '':'' # xs = js_itoa n @ CHR '':'' # ys"
  shows "m = n \<and> xs = ys"
proof -
  have d: "takeWhile is_digit (js_itoa k @ CHR '':'' # zs) = js_itoa k" for k zs
    using js_itoa_digits [of k] by (simp add: takeWhile_append list_all_iff is_digit_def)
  have "js_itoa m = js_itoa n" using d [of m xs] d [of n ys] assms by simp
  then have "m = n" by (metis dec_value_itoa)
  then show ?thesis using assms by simp
qed

interpretation list_queue: job_queue list_queue "\<lambda>i c. js_itoa (length i) @ CHR '':'' # i @ c" list_readable
proof unfold_locales
  fix i c j c' :: string
  assume "js_itoa (length i) @ CHR '':'' # i @ c = js_itoa (length j) @ CHR '':'' # j @ c'"
  from prefix_code_inj [OF this] show "i = j \<and> c = c'" by (metis append_eq_append_conv)
qed (auto simp: list_queue_def new_job_def)

lemma wanted_keys:
  "fst ` set (wanted_jobs suites)
     = {jobIdFor (su_id s) | s. s \<in> set suites \<and> su_enabled s \<and> js_default (su_cron s) [] \<noteq> []}
   \<and> distinct (map fst (wanted_jobs suites))"
proof -
  define f where "f = (\<lambda>(s::MacroSuite) m. if js_default (su_cron s) [] = [] then m
    else AList.update (jobIdFor (su_id s)) (su_id s, js_default (su_cron s) []) m)"
  have "fst ` set (fold f ss m) = fst ` set m \<union> {jobIdFor (su_id s) | s. s \<in> set ss \<and> js_default (su_cron s) [] \<noteq> []}
      \<and> (distinct (map fst m) \<longrightarrow> distinct (map fst (fold f ss m)))" for ss m
    by (induction ss arbitrary: m) (auto simp: f_def dom_update distinct_update)
  from this [of "filter su_enabled suites" "[]"] show ?thesis
    unfolding wanted_jobs_def f_def by auto
qed

lemma wanted_value:
  assumes "distinct (map su_id suites)" and "s \<in> set suites" and "su_enabled s" and "su_cron s = Some c" and "c \<noteq> []"
  shows "(jobIdFor (su_id s), su_id s, c) \<in> set (wanted_jobs suites)"
proof -
  define f where "f = (\<lambda>(s::MacroSuite) m. if js_default (su_cron s) [] = [] then m
    else AList.update (jobIdFor (su_id s)) (su_id s, js_default (su_cron s) []) m)"
  have keep: "map_of (fold f ss m) (jobIdFor i) = map_of m (jobIdFor i)" if "i \<notin> su_id ` set ss" for ss m i
    using that by (induction ss arbitrary: m) (auto simp: f_def update_conv' jobIdFor_def)
  obtain xs ys where ss: "filter su_enabled suites = xs @ s # ys"
    using split_list [of s "filter su_enabled suites"] assms(2,3) by auto
  have "distinct (map su_id (filter su_enabled suites))" using assms(1) by (simp add: distinct_map_filter)
  then have "su_id s \<notin> su_id ` set ys" by (simp add: ss)
  then have "map_of (wanted_jobs suites) (jobIdFor (su_id s)) = Some (su_id s, c)"
    unfolding wanted_jobs_def f_def [symmetric] ss using assms(4,5) by (simp add: keep) (simp add: f_def update_conv')
  then show ?thesis by (rule map_of_SomeD)
qed

text \<open>After a synchronisation the queue holds a job with the cron expression of every enabled suite
  that has one, and no job of a suite that is disabled, deleted or without a cron expression.\<close>

theorem suite_schedule_synced:
  assumes "job_queue qo key readable" and "distinct (map rj_key (qo_list qo q))" and "distinct (map su_id suites)"
    and "\<forall>(i, s, c)\<in>set (wanted_jobs suites). readable c"
  shows "\<exists>q'. syncRepeatables qo suites (Some q) = (True, Some q')
    \<and> (\<forall>s c. s \<in> set suites \<longrightarrow> su_enabled s \<longrightarrow> su_cron s = Some c \<longrightarrow> c \<noteq> []
         \<longrightarrow> new_job key (jobIdFor (su_id s)) c \<in> set (qo_list qo q'))
    \<and> (\<forall>r\<in>set (qo_list qo q'). rj_ident r \<noteq> [] \<longrightarrow>
         (\<exists>s\<in>set suites. su_enabled s \<and> js_default (su_cron s) [] \<noteq> [] \<and> rj_ident r = jobIdFor (su_id s)))"
proof -
  note keys = wanted_keys [of suites]
  obtain q' where q': "syncRepeatables qo suites (Some q) = (True, Some q')"
    "set (qo_list qo q') = {new_job key i c | i s c. (i, s, c) \<in> set (wanted_jobs suites)}
       \<union> {r \<in> set (qo_list qo q). (rj_ident r = [] \<or> map_of (wanted_jobs suites) (rj_ident r) \<noteq> None)
            \<and> (\<forall>(i, s, c)\<in>set (wanted_jobs suites). rj_key r \<noteq> key i c)}"
    using job_queue.sync_jobs_readable [OF assms(1) conjunct2 [OF keys] assms(2,4)] by blast
  have wanted: "\<exists>s\<in>set suites. su_enabled s \<and> js_default (su_cron s) [] \<noteq> [] \<and> i = jobIdFor (su_id s)"
    if "i \<in> fst ` set (wanted_jobs suites)" for i
    using that conjunct1 [OF keys] by auto
  have "\<exists>s\<in>set suites. su_enabled s \<and> js_default (su_cron s) [] \<noteq> [] \<and> rj_ident r = jobIdFor (su_id s)"
    if r: "r \<in> set (qo_list qo q')" "rj_ident r \<noteq> []" for r
  proof (rule wanted)
    show "rj_ident r \<in> fst ` set (wanted_jobs suites)"
      using r unfolding q'(2) by (auto simp: new_job_def rj_ident_def dest!: map_of_SomeD intro: rev_image_eqI)
  qed
  moreover have "new_job key (jobIdFor (su_id s)) c \<in> set (qo_list qo q')"
    if "s \<in> set suites" "su_enabled s" "su_cron s = Some c" "c \<noteq> []" for s c
    using wanted_value [OF assms(3) that] unfolding q'(2) by blast
  ultimately show ?thesis using q'(1) by blast
qed

text \<open>A job is not removed when the cron expression of its suite changes: after the next
  synchronisation both the old and the new expression fire.\<close>

theorem suite_old_cron_still_fires:
  assumes "job_queue qo key readable" and "distinct (map rj_key (qo_list qo q))" and "distinct (map su_id suites)"
    and "s \<in> set suites" and "su_enabled s" and "su_cron s = Some new" and "new \<noteq> []" and "old \<noteq> new"
    and "new_job key (jobIdFor (su_id s)) old \<in> set (qo_list qo q)"
    and "\<forall>(i, s, c)\<in>set (wanted_jobs suites). readable c"
  shows "\<exists>q'. syncRepeatables qo suites (Some q) = (True, Some q')
    \<and> new_job key (jobIdFor (su_id s)) new \<in> set (qo_list qo q')
    \<and> new_job key (jobIdFor (su_id s)) old \<in> set (qo_list qo q')"
proof -
  note w = wanted_value [OF assms(3-7)] and keys = wanted_keys [of suites]
  obtain q' where q': "syncRepeatables qo suites (Some q) = (True, Some q')"
    "set (qo_list qo q') = {new_job key i c | i s c. (i, s, c) \<in> set (wanted_jobs suites)}
       \<union> {r \<in> set (qo_list qo q). (rj_ident r = [] \<or> map_of (wanted_jobs suites) (rj_ident r) \<noteq> None)
            \<and> (\<forall>(i, s, c)\<in>set (wanted_jobs suites). rj_key r \<noteq> key i c)}"
    using job_queue.sync_jobs_readable [OF assms(1) conjunct2 [OF keys] assms(2,10)] by blast
  have m: "map_of (wanted_jobs suites) (jobIdFor (su_id s)) = Some (su_id s, new)"
    using w conjunct2 [OF keys] by simp
  have "key (jobIdFor (su_id s)) old \<noteq> key i c" if "(i, t, c) \<in> set (wanted_jobs suites)" for i t c
    using that m conjunct2 [OF keys] assms(8) job_queue.key_inj [OF assms(1), of "jobIdFor (su_id s)" old i c]
    by (metis map_of_eq_Some_iff option.inject prod.inject)
  then have "new_job key (jobIdFor (su_id s)) old \<in> set (qo_list qo q')"
    using assms(9) m unfolding q'(2) by (auto simp: new_job_def rj_ident_def)
  moreover have "new_job key (jobIdFor (su_id s)) new \<in> set (qo_list qo q')" using w unfolding q'(2) by blast
  ultimately show ?thesis using q'(1) by blast
qed

text \<open>C30: any five fields are accepted as a cron expression. One that the queue cannot read is answered with a
  server error but stored, and from then on the server does not start.\<close>

theorem suite_unreadable_cron_stops_boot:
  assumes "job_queue qo key readable" and "suite_of_body newId b = Inr s" and "su_cron s = Some c" and "c \<noteq> []"
    and "su_enabled s" and "\<not> readable c" and "su_name s \<notin> set (map su_name ss)" and "distinct (map su_id (ss @ [s]))"
    and "suites_create qo newId b (ss, Some q) = (r, ss', q')" and "flag \<noteq> Some ''false''"
  shows "r = Inl Server_Error \<and> ss' = ss @ [s] \<and> \<not> fst (sched_onModuleInit qo flag q0 ss')"
proof -
  have "(jobIdFor (su_id s), su_id s, c) \<in> set (wanted_jobs (ss @ [s]))"
    using wanted_value [OF assms(8), of s c] assms(3-5) by simp
  note U = job_queue.sync_unreadable [OF assms(1) this assms(6)]
  show ?thesis
    using assms(2,7,9,10) U [of q] U [of q0]
    by (auto simp: suites_create_def suites_sync_def sched_onModuleInit_def Let_def split_def split: if_splits)
qed

section \<open>Witnesses\<close>

definition su_suite :: "string \<Rightarrow> MacroSuite" where
  "su_suite cron = \<lparr>su_id = ''S1'', su_name = ''night'', su_macroIds = [''M9''], su_cron = Some cron, su_enabled = True\<rparr>"

lemma su_readable: "list_readable ''0 * * * *'' = True" "list_readable ''5 * * * *'' = True"
  by code_simp+

abbreviation su_key :: "string \<Rightarrow> string \<Rightarrow> string" where
  "su_key \<equiv> \<lambda>i c. js_itoa (length i) @ CHR '':'' # i @ c"

lemma suite_schedule_synced_witness:
  "\<exists>q'. syncRepeatables list_queue [su_suite ''0 * * * *''] (Some []) = (True, Some q')
     \<and> new_job su_key ''suite-S1'' ''0 * * * *'' \<in> set (qo_list list_queue q')"
  using suite_schedule_synced [OF list_queue.job_queue_axioms, of "[]" "[su_suite ''0 * * * *'']"]
  by (auto simp: su_suite_def jobIdFor_def su_readable wanted_jobs_def) (auto simp: list_queue_def)

lemma suite_old_cron_still_fires_witness:
  "\<exists>q'. syncRepeatables list_queue [su_suite ''0 * * * *''] (Some [new_job su_key ''suite-S1'' ''5 * * * *'']) = (True, Some q')
     \<and> new_job su_key ''suite-S1'' ''0 * * * *'' \<in> set (qo_list list_queue q')
     \<and> new_job su_key ''suite-S1'' ''5 * * * *'' \<in> set (qo_list list_queue q')"
  using suite_old_cron_still_fires [OF list_queue.job_queue_axioms, of "[new_job su_key ''suite-S1'' ''5 * * * *'']"
      "[su_suite ''0 * * * *'']" "su_suite ''0 * * * *''" "''0 * * * *''" "''5 * * * *''"]
  by (simp add: su_suite_def jobIdFor_def su_readable wanted_jobs_def) (auto simp: list_queue_def)

definition su_body :: SuiteBody where
  "su_body = \<lparr>sb_name = JvStr ''broken'', sb_macroIds = JvUndefined, sb_cron = JvStr ''every day at 6 pm'', sb_enabled = JvUndefined\<rparr>"

lemma suite_unreadable_cron_stops_boot_witness:
  "\<exists>r ss' q'. suites_create list_queue ''S7'' su_body ([], Some []) = (r, ss', q') \<and> r = Inl Server_Error
     \<and> \<not> fst (sched_onModuleInit list_queue None [] ss')"
proof -
  have n: "\<not> list_readable ''every day at 6 pm''" by code_simp
  have "length (split_ws (js_trim ''every day at 6 pm'')) = 5" "js_trim ''every day at 6 pm'' = ''every day at 6 pm''"
    by code_simp+
  then have s: "suite_of_body ''S7'' su_body = Inr \<lparr>su_id = ''S7'', su_name = ''broken'', su_macroIds = [],
      su_cron = Some ''every day at 6 pm'', su_enabled = True\<rparr>"
    by (simp add: suite_of_body_def su_body_def suite_requireString_def optionalString_def optionalStringArray_def
        validateCron_def optionalBool_def)
  obtain r ss' q' where R: "suites_create list_queue ''S7'' su_body ([], Some []) = (r, ss', q')" by (metis prod_cases3)
  show ?thesis
    using suite_unreadable_cron_stops_boot [OF list_queue.job_queue_axioms s _ _ _ n _ _ R, of None "[]"] R by fastforce
qed

end
