(* ===== verification/Suite_Props.thy ===== *)
theory Suite_Props
  imports Schedule_Props Macro_Props
begin

text \<open>
  What the runs of suites promise: the verdict of a suite is the verdict of its macros, and a macro
  starts without a session unless the row of the lingering one is missing or cannot be written.
\<close>

section \<open>The verdict of a suite\<close>

definition suite_status :: "suite_macro_run list \<Rightarrow> run_status" where
  "suite_status xs = (if \<forall>x\<in>set xs. smr_status x = R_PASSED then R_PASSED else R_FAILED)"

lemma suite_turn_id: "suite_turn ops e sid i q = (Some x, q') \<Longrightarrow> smr_macroId x = i"
  by (auto simp: suite_turn_def not_run_def split: option.splits prod.splits run_outcome.splits if_splits)

lemma suite_loop_verdict:
  assumes "suite_loop ops envs n sid mids (suite_status acc) acc q = (Suite_Done overall entries, q')"
  shows "overall = suite_status entries \<and> map smr_macroId entries = map smr_macroId acc @ mids"
  using assms
proof (induction mids arbitrary: n acc q)
  case Nil
  then show ?case by auto
next
  case (Cons i mids)
  obtain y q1 where T: "suite_turn ops (envs n) sid i q = (y, q1)" by fastforce
  then obtain x where y: "y = Some x" using Cons.prems by (cases y) auto
  have st: "(if smr_status x \<noteq> R_PASSED then R_FAILED else suite_status acc) = suite_status (acc @ [x])"
    by (auto simp: suite_status_def)
  have "suite_loop ops envs (Suc n) sid mids (suite_status (acc @ [x])) (acc @ [x]) q1 = (Suite_Done overall entries, q')"
    using Cons.prems T y by (simp only: suite_loop.simps st [symmetric]) simp
  from Cons.IH [OF this] suite_turn_id [OF T [unfolded y]] show ?case by simp
qed

text \<open>A suite that returns has one entry for each of its macros, in their order, also for those that
  could not be run, and is PASSED exactly when every entry is.\<close>

theorem suite_run_verdict:
  assumes "suite_run ops se envs i trig s = (Suite_Returns x, s')"
  shows "\<exists>suite. find_suite i (ste_suites s) = Some suite
    \<and> map smr_macroId (sum_macroRuns x) = su_macroIds suite
    \<and> (sum_status x = R_PASSED \<longleftrightarrow> (\<forall>y\<in>set (sum_macroRuns x). smr_status y = R_PASSED))
    \<and> sum_status x \<in> {R_PASSED, R_FAILED}"
proof -
  obtain suite where suite: "find_suite i (ste_suites s) = Some suite"
    using assms unfolding suite_run_def by (auto split: option.splits)
  obtain le q where L: "suite_loop ops envs 0 (sue_id se) (su_macroIds suite) R_PASSED [] (ste_runner s) = (le, q)"
    by fastforce
  obtain overall entries where le: "le = Suite_Done overall entries" "sum_status x = overall" "sum_macroRuns x = entries"
    using assms suite L unfolding suite_run_def
    by (cases le) (auto simp: Let_def split: option.splits if_splits)
  have p: "suite_status [] = R_PASSED" by (simp add: suite_status_def)
  have "overall = suite_status entries \<and> map smr_macroId entries = su_macroIds suite"
    using suite_loop_verdict [of ops envs 0 "sue_id se" "su_macroIds suite" "[]" "ste_runner s"] L le(1) p by simp
  then show ?thesis using le(2,3) suite by (simp add: suite_status_def)
qed

text \<open>A suite that was started on demand through the queue is recorded as started by the clock.\<close>

lemma suite_manual_recorded_as_cron:
  assumes "sched_worker ops se envs (manual_job i) s = (Suite_Returns x, s')"
  shows "\<forall>r\<in>set (ste_runs s'). r \<in> set (ste_runs s) \<or> srn_id r = sue_id se"
    and "\<exists>r\<in>set (ste_runs s'). srn_id r = sue_id se \<and> srn_suiteId r = i \<and> srn_triggeredBy r = ''CRON''"
  using assms
  by (auto simp: sched_worker_def manual_job_def suite_run_def Let_def
      split: option.splits prod.splits suite_end.splits if_splits)

section \<open>A clean slate\<close>

text \<open>The row of the active session is stored, and rows can be written.\<close>

definition session_stored :: "'db world \<Rightarrow> bool" where
  "session_stored w \<longleftrightarrow> (\<forall>s. atm_cur w = Some s \<longrightarrow> ss_id s \<in> sr_id ` set (w_rows w))"

text \<open>What safeCancel needs to come back at all.\<close>

definition atm_sane :: "'db world \<Rightarrow> bool" where
  "atm_sane w \<longleftrightarrow> w_ok w \<and> xm_registered (w_xfs w)"

text \<open>The session ends exactly when its row can be written; the call comes back in any case.\<close>

lemma drive_endSession:
  assumes "atm_sane w" "w_session w = Some r"
  shows "\<exists>w' x. atm_drive ops env (Suc n) (atm_endSession env reason rp w) = (w', Some x) \<and> atm_sane w'
    \<and> (w_session w' = None \<longleftrightarrow> ae_rowsUp env \<and> session_stored w)"
proof -
  let ?stored = "ae_rowsUp env \<and> ss_id (w_sessions w ! r) \<in> sr_id ` set (w_rows w)"
  have r: "r < length (w_sessions w)" using assms by (simp add: atm_sane_def w_ok_def)
  have stored: "session_stored w \<longleftrightarrow> ss_id (w_sessions w ! r) \<in> sr_id ` set (w_rows w)"
    using assms(2) by (simp add: session_stored_def atm_cur_def)
  show ?thesis
  proof (cases ?stored)
    case True
    then have "\<exists>w' x. atm_drive ops env (Suc n) (atm_endSession env reason rp w) = (w', Some x) \<and> atm_sane w'
        \<and> w_session w' = None"
      using r assms by (simp add: atm_endSession_def Let_def atm_upd_def session_row_def atm_ended_segment_def
          atm_sane_def w_ok_def)
    then show ?thesis using True stored by blast
  next
    case False
    let ?w1 = "atm_upd r (\<lambda>s. s\<lparr>ss_endedAt := Some (ae_now env), ss_endReason := Some reason\<rparr>) (atm_clearIdleTimer w)"
    let ?row = "session_row (w_sessions ?w1 ! r)"
    have "sr_id ?row = ss_id (w_sessions w ! r)" using r by (simp add: atm_upd_def session_row_def)
    moreover have "w_rows ?w1 = w_rows w" by (simp add: atm_upd_def)
    ultimately obtain e where perform: "atm_perform ops env (C_SessionUpdate ?row) ?w1 = (?w1, [], Some (Inl e))"
      using False by (cases "ae_rowsUp env") simp_all
    have "atm_drive ops env (Suc n) (atm_endSession env reason rp w) = (?w1, Some (Inl (Rejected e)))"
      using perform by (simp add: atm_endSession_def assms(2) Let_def del: atm_perform.simps)
    moreover have "atm_sane ?w1" "w_session ?w1 = Some r" using assms by (simp_all add: atm_sane_def w_ok_def atm_upd_def)
    ultimately have "\<exists>w' x. atm_drive ops env (Suc n) (atm_endSession env reason rp w) = (w', Some x) \<and> atm_sane w'
        \<and> w_session w' = Some r" by blast
    then show ?thesis using False stored by (metis option.distinct(1))
  qed
qed

lemma safeCancel_result:
  assumes "atm_sane w"
  shows "\<exists>w'. safeCancel ops env w = Some w' \<and> atm_sane w'
    \<and> (w_session w' = None \<longleftrightarrow> w_session w = None \<or> ae_rowsUp env \<and> session_stored w)"
proof (cases "w_session w")
  case None
  then show ?thesis using assms by (simp add: safeCancel_def atm_cur_def)
next
  case (Some r)
  define w1 where "w1 = atm_emitUserAction env (UA_CANCEL (Some ''suite runner reset'')) (atm_cur_id w) w"
  obtain s where s: "atm_cur w = Some s" using Some by (simp add: atm_cur_def)
  have start: "atm_start env (In_Cancel (Some ''suite runner reset'')) w = atm_safeEject_end env CANCELLED Rp_Unit w1"
    using s by (simp add: atm_cancelTransaction_def w1_def atm_cur_id_def)
  have w1: "atm_sane w1" "session_stored w1 = session_stored w" "w_session w1 = Some r" "w_xfs w1 = w_xfs w"
    using assms Some by (simp_all add: w1_def session_stored_def atm_sane_def)
  have "\<exists>w' x. atm_drive ops env 7 (atm_safeEject_end env CANCELLED Rp_Unit w1) = (w', Some x) \<and> atm_sane w'
      \<and> (w_session w' = None \<longleftrightarrow> ae_rowsUp env \<and> session_stored w)"
  proof (cases "idc_hasCard (dv_idc (xm_devices (w_xfs w1)))")
    case False
    then show ?thesis
      using drive_endSession [OF w1(1,3), of ops env 6] w1(2) by (simp add: atm_safeEject_end_def)
  next
    case True
    let ?c = "atm_eject_command env (atm_cur_id w1)"
    have h: "cmd_hService ?c = ''IDC30''" by (simp add: atm_eject_command_def atm_command_def)
    obtain rsp m outs where X: "xm_execute (ae_xfs env) ?c (w_xfs w1) = ([(?c, rsp)], m, outs)"
      using xm_execute_quiet(1) [of "w_xfs w1" ?c "ae_xfs env"] w1(1) h
      by (auto simp: atm_sane_def) (metis fst_conv prod_cases3)
    define w2 where "w2 = w1\<lparr>w_xfs := m, w_bus := w_bus w1 @ atm_bus_outputs outs\<rparr>"
    have "xm_registered m" using X xm_execute_registered [of "ae_xfs env" ?c "w_xfs w1"] w1(1) by (simp add: atm_sane_def)
    then have w2: "atm_sane w2" "session_stored w2 = session_stored w" "w_session w2 = Some r"
      using w1 by (simp_all add: w2_def w_ok_def session_stored_def atm_cur_def atm_sane_def)
    have "atm_drive ops env 7 (atm_safeEject_end env CANCELLED Rp_Unit w1)
        = atm_drive ops env 6 (atm_endSession env CANCELLED Rp_Unit w2)"
      using True X by (simp add: atm_safeEject_end_def w2_def eval_nat_numeral)
    then show ?thesis using drive_endSession [OF w2(1,3), of ops env 5] w2(2) by simp
  qed
  then show ?thesis using s start Some by (auto simp: safeCancel_def)
qed

text \<open>C29: the reset before a macro of a suite always comes back, and the macro then starts on an ATM
  without a session exactly when there was none or the row of the lingering session is stored and could
  be updated. Otherwise the failed reset is ignored, the session stays, and the macro runs on top of it;
  this is what a session leaves behind whose row was never created.\<close>

theorem suite_clean_slate:
  assumes "te_before e (ru_world q) = w" and "w_ok w" and "xm_registered (w_xfs w)"
  shows "\<exists>w'. (w_session w' = None \<longleftrightarrow> w_session w = None \<or> ae_rowsUp (te_cancel e) \<and> session_stored w)
    \<and> suite_turn ops e sid i q
    = (case mx_run ops (te_run e) (te_steps e) i (q\<lparr>ru_world := w'\<rparr>) of
         (Run_Returns row, q') \<Rightarrow>
           if te_attachUp e
           then (Some \<lparr>smr_macroId = i, smr_macroRunId = run_id row, smr_status = run_status row,
                       smr_durationMs = js_default (run_durationMs row) 0\<rparr>,
                 q'\<lparr>ru_runs := attach_run sid (run_id row) (ru_runs q')\<rparr>)
           else (Some (not_run i), q')
       | (Run_Waits, q') \<Rightarrow> (None, q')
       | (Run_Crash, q') \<Rightarrow> (None, q')
       | (_, q') \<Rightarrow> (Some (not_run i), q'))"
proof -
  have sane: "atm_sane w" using assms(2,3) by (simp add: atm_sane_def)
  obtain w' where "safeCancel ops (te_cancel e) w = Some w'"
    "w_session w' = None \<longleftrightarrow> w_session w = None \<or> ae_rowsUp (te_cancel e) \<and> session_stored w"
    using safeCancel_result [OF sane, of ops "te_cancel e"] by (elim exE conjE) (rule that)
  then show ?thesis
    by (intro exI [of _ w'] conjI) (auto simp: suite_turn_def assms(1) split: prod.split run_outcome.split)
qed

section \<open>Witnesses\<close>

definition su_turn :: "bank turn_env" where
  "su_turn = \<lparr>te_before = id, te_cancel = as_env, te_run = ms_run_env, te_steps = (\<lambda>_. ms_env), te_attachUp = True\<rparr>"

definition su_state :: "bank suite_state" where
  "su_state = \<lparr>ste_suites = [su_suite ''0 * * * *''], ste_runs = [],
     ste_runner = (ms_runner [])\<lparr>ru_world := (as_world MAIN_MENU)\<lparr>w_session := None\<rparr>\<rparr>\<rparr>"

definition su_env :: suite_env where
  "su_env = \<lparr>sue_up0 = True, sue_up1 = True, sue_id = ''SR1'', sue_start = 0, sue_end = 1, sue_cancel = as_env\<rparr>"

lemma suite_run_verdict_witness:
  "\<exists>x s'. suite_run mem_ops su_env (\<lambda>_. su_turn) ''S1'' ''CRON'' su_state = (Suite_Returns x, s')
     \<and> map smr_macroId (sum_macroRuns x) = [''M9''] \<and> sum_status x \<noteq> R_PASSED"
proof -
  have "\<exists>x s'. suite_run mem_ops su_env (\<lambda>_. su_turn) ''S1'' ''CRON'' su_state = (Suite_Returns x, s')
      \<and> (\<exists>y\<in>set (sum_macroRuns x). smr_status y \<noteq> R_PASSED)"
    by (simp add: suite_run_def su_env_def su_state_def find_suite_def su_suite_def suite_turn_def su_turn_def
        safeCancel_def atm_cur_def mx_run_def ms_runner_def find_macro_def not_run_def Let_def)
  then obtain x s' where S: "suite_run mem_ops su_env (\<lambda>_. su_turn) ''S1'' ''CRON'' su_state = (Suite_Returns x, s')"
    "\<exists>y\<in>set (sum_macroRuns x). smr_status y \<noteq> R_PASSED" by blast
  have "find_suite ''S1'' (ste_suites su_state) = Some (su_suite ''0 * * * *'')"
    by (simp add: find_suite_def su_state_def su_suite_def)
  then show ?thesis using suite_run_verdict [OF S(1)] S by (auto simp: su_suite_def)
qed

lemma suite_clean_slate_witness:
  "(\<exists>w' entry q'. w_session w' = None \<and> mx_run mem_ops ms_run_env (\<lambda>_. ms_env) ''M9'' ((ms_runner [])\<lparr>ru_world := w'\<rparr>) = (Run_NoMacro ''M9'', q')
     \<and> suite_turn mem_ops su_turn ''SR1'' ''M9'' (ms_runner []) = (Some entry, q'))
   \<and> (\<exists>w' entry q'. w_session w' \<noteq> None \<and> mx_run mem_ops ms_run_env (\<lambda>_. ms_env) ''M9'' ((ms_runner [])\<lparr>ru_world := w'\<rparr>) = (Run_NoMacro ''M9'', q')
     \<and> suite_turn mem_ops (su_turn\<lparr>te_before := \<lambda>w. w\<lparr>w_rows := []\<rparr>\<rparr>) ''SR1'' ''M9'' (ms_runner []) = (Some entry, q'))"
proof -
  let ?lost = "su_turn\<lparr>te_before := \<lambda>w. w\<lparr>w_rows := []\<rparr>\<rparr>"
  have run: "mx_run mem_ops ms_run_env (\<lambda>_. ms_env) ''M9'' ((ms_runner [])\<lparr>ru_world := w'\<rparr>)
      = (Run_NoMacro ''M9'', (ms_runner [])\<lparr>ru_world := w'\<rparr>)" for w'
    by (simp add: mx_run_def ms_runner_def find_macro_def)
  have env: "te_run e = ms_run_env \<and> te_steps e = (\<lambda>_. ms_env) \<and> ae_rowsUp (te_cancel e)" if "e = su_turn \<or> e = ?lost" for e
    using that by (auto simp: su_turn_def as_env_def)
  let ?w = "as_world MAIN_MENU"
  have facts: "w_ok ?w" "xm_registered (w_xfs ?w)" "session_stored ?w" "w_session ?w \<noteq> None"
    "te_before su_turn (ru_world (ms_runner [])) = ?w"
    by (simp_all add: xm_registered_def session_stored_def as_world_def session_row_def as_session_def atm_cur_def w_ok_def
        su_turn_def ms_runner_def)
  have lost: "w_ok (?w\<lparr>w_rows := []\<rparr>)" "xm_registered (w_xfs (?w\<lparr>w_rows := []\<rparr>))" "\<not> session_stored (?w\<lparr>w_rows := []\<rparr>)"
    "w_session (?w\<lparr>w_rows := []\<rparr>) \<noteq> None" "te_before ?lost (ru_world (ms_runner [])) = ?w\<lparr>w_rows := []\<rparr>"
    by (simp_all add: xm_registered_def session_stored_def as_world_def as_session_def atm_cur_def w_ok_def ms_runner_def)
  show ?thesis
  proof
    obtain w' where "w_session w' = None" "suite_turn mem_ops su_turn ''SR1'' ''M9'' (ms_runner [])
        = (Some (not_run ''M9''), (ms_runner [])\<lparr>ru_world := w'\<rparr>)"
      using suite_clean_slate [OF facts(5,1,2), of mem_ops "''SR1''" "''M9''"] facts(3) env [of su_turn] run by auto
    then show "\<exists>w' entry q'. w_session w' = None \<and> mx_run mem_ops ms_run_env (\<lambda>_. ms_env) ''M9'' ((ms_runner [])\<lparr>ru_world := w'\<rparr>) = (Run_NoMacro ''M9'', q')
       \<and> suite_turn mem_ops su_turn ''SR1'' ''M9'' (ms_runner []) = (Some entry, q')"
      using run by blast
    obtain w' where "w_session w' \<noteq> None" "suite_turn mem_ops ?lost ''SR1'' ''M9'' (ms_runner [])
        = (Some (not_run ''M9''), (ms_runner [])\<lparr>ru_world := w'\<rparr>)"
      using suite_clean_slate [OF lost(5,1,2), of mem_ops "''SR1''" "''M9''"] lost(3,4) env [of ?lost] run by auto
    then show "\<exists>w' entry q'. w_session w' \<noteq> None \<and> mx_run mem_ops ms_run_env (\<lambda>_. ms_env) ''M9'' ((ms_runner [])\<lparr>ru_world := w'\<rparr>) = (Run_NoMacro ''M9'', q')
       \<and> suite_turn mem_ops ?lost ''SR1'' ''M9'' (ms_runner []) = (Some entry, q')"
      using run by blast
  qed
qed

end
