(* ===== verification/Utf8_Text.thy ===== *)
theory Utf8_Text
  imports Main
begin

text \<open>
  The characters beyond ASCII of the program's texts, as the octets of their UTF-8 form: a string of the
  development is a list of octets.
\<close>

definition em_dash :: string where
  "em_dash = [CHR 0xE2, CHR 0x80, CHR 0x94]"

definition ellipsis :: string where
  "ellipsis = [CHR 0xE2, CHR 0x80, CHR 0xA6]"

definition right_arrow :: string where
  "right_arrow = [CHR 0xE2, CHR 0x86, CHR 0x92]"

definition middle_dot :: string where
  "middle_dot = [CHR 0xC2, CHR 0xB7]"

end
