(* ===== verification/Reports.thy ===== *)
theory Reports
  imports Suite_Runner Host_Transports Utf8_Text
begin

text \<open>
  The reports on macro runs (\<^verbatim>\<open>apps/xfs-server/src/reports/reports.service.ts\<close>,
  \<^verbatim>\<open>macro-runs.controller.ts\<close>): the text of the two PDF documents, item by item, and the listing of
  the runs. Layout and fonts are left out. The ISO text of a time, the formatting of a quotient as a
  percentage and the reading of a date are parameters.
\<close>

section \<open>Documents\<close>

datatype doc_item = D_Title string | D_Section string | D_KV string string | D_Line string

fun run_status_name :: "run_status \<Rightarrow> string" where
  "run_status_name R_RUNNING = ''RUNNING''"
| "run_status_name R_PASSED = ''PASSED''"
| "run_status_name R_FAILED = ''FAILED''"
| "run_status_name R_ABORTED = ''ABORTED''"

fun step_status_name :: "step_status \<Rightarrow> string" where
  "step_status_name S_PASSED = ''PASSED''"
| "step_status_name S_FAILED = ''FAILED''"
| "step_status_name S_SKIPPED = ''SKIPPED''"

definition step_symbol :: "string \<Rightarrow> string" where
  "step_symbol status = (if status = ''PASS'' then ''[OK]'' else if status = ''FAIL'' then ''[X]'' else ''[-]'')"

text \<open>The lines of one step: the \<open>idx\<close>-th step of the macro beside the \<open>idx\<close>-th result of the run.\<close>

definition step_status_at :: "MacroStepResult list \<Rightarrow> nat \<Rightarrow> string" where
  "step_status_at res idx = (if idx < length res then step_status_name (sres_status (res ! idx)) else ''PENDING'')"

definition step_lines :: "MacroStepResult list \<Rightarrow> nat \<Rightarrow> MacroStep \<Rightarrow> doc_item list" where
  "step_lines res idx st =
     (let status = step_status_at res idx
      in D_Line (step_symbol status @ CHR '' '' # js_itoa (idx + 1) @ ''. '' @ device_name (st_device st) @ '': ''
             @ st_operation st @ '' ('' @ status @ '')'')
         # (if idx < length res \<and> js_default (sres_error (res ! idx)) [] \<noteq> []
            then [D_Line (''     error: '' @ js_default (sres_error (res ! idx)) [])] else []))"

fun steps_lines :: "MacroStepResult list \<Rightarrow> nat \<Rightarrow> MacroStep list \<Rightarrow> doc_item list" where
  "steps_lines res idx [] = []"
| "steps_lines res idx (st # sts) = step_lines res idx st @ steps_lines res (Suc idx) sts"

definition array_length :: "js_value \<Rightarrow> nat" where
  "array_length v = (case v of JvArr xs \<Rightarrow> length xs | _ \<Rightarrow> 0)"

definition generateMacroRunPdf :: "(int \<Rightarrow> string) \<Rightarrow> MacroRun \<Rightarrow> Macro \<Rightarrow> js_value \<Rightarrow> doc_item list" where
  "generateMacroRunPdf isotime run mac evidence =
     [D_Title (''ATMirror '' @ em_dash @ '' Macro Run Report''), D_KV ''Macro'' (mc_name mac), D_KV ''Run ID'' (run_id run),
      D_KV ''Status'' (run_status_name (run_status run)), D_KV ''Started'' (isotime (run_startedAt run))]
     @ (case run_completedAt run of None \<Rightarrow> [] | Some t \<Rightarrow> [D_KV ''Completed'' (isotime t)])
     @ (case run_durationMs run of None \<Rightarrow> [] | Some d \<Rightarrow> [D_KV ''Duration'' (js_int_to_string d @ '' ms'')])
     @ (if js_default (mc_folder mac) [] = [] then [] else [D_KV ''Folder'' (js_default (mc_folder mac) [])])
     @ [D_Section (''Steps ('' @ js_itoa (length (mc_steps mac)) @ '')'')]
     @ steps_lines (run_stepResults run) 0 (mc_steps mac)
     @ (if jv_truthy evidence \<and> jv_is_object evidence
        then [D_Section ''Evidence'', D_KV ''Screenshots'' (js_itoa (array_length (jv_get evidence ''screenshots''))),
              D_KV ''Receipts'' (js_itoa (array_length (jv_get evidence ''receipts''))),
              D_KV ''Command log entries'' (js_itoa (array_length (jv_get evidence ''commandLog'')))]
        else [])"

section \<open>The months\<close>

text \<open>The days from 1970-01-01 to the first of a month, and \<open>Date.UTC(y, m, 1)\<close>: the month counts from zero
  and carries over into the year, and the years 0 to 99 mean 1900 to 1999.\<close>

definition days_to_month :: "int \<Rightarrow> int \<Rightarrow> int" where
  "days_to_month y m =
     (let y' = (if m \<le> 2 then y - 1 else y)
      in 365 * y' + y' div 4 - y' div 100 + y' div 400 + (153 * ((m + 9) mod 12) + 2) div 5 - 719468)"

definition js_Date_UTC :: "int \<Rightarrow> int \<Rightarrow> int" where
  "js_Date_UTC y m =
     (let y1 = (if 0 \<le> y \<and> y \<le> 99 then 1900 + y else y)
      in 86400000 * days_to_month (y1 + m div 12) (m mod 12 + 1))"

definition month_ok :: "string \<Rightarrow> bool" where
  "month_ok s \<longleftrightarrow> length s = 7 \<and> list_all is_digit (take 4 s) \<and> s ! 4 = CHR ''-''
     \<and> (s ! 5 = CHR ''0'' \<and> s ! 6 \<in> set ''123456789'' \<or> s ! 5 = CHR ''1'' \<and> s ! 6 \<in> set ''012'')"

definition month_window :: "string \<Rightarrow> int \<times> int" where
  "month_window s =
     (let y = int (dec_value (take 4 s)); m = int (dec_value (drop 5 s)) - 1
      in (js_Date_UTC y m, js_Date_UTC y (m + 1)))"

section \<open>The executive summary\<close>

definition count_status :: "run_status \<Rightarrow> MacroRun list \<Rightarrow> nat" where
  "count_status st runs = length (filter (\<lambda>r. run_status r = st) runs)"

text \<open>\<open>Math.round\<close> of the mean of integers: halves go up.\<close>

definition average_ms :: "MacroRun list \<Rightarrow> int" where
  "average_ms runs =
     (let ds = concat (map (\<lambda>r. case run_durationMs r of None \<Rightarrow> [] | Some d \<Rightarrow> [d]) runs); n = int (length ds)
      in if ds = [] then 0 else (2 * sum_list ds + n) div (2 * n))"

text \<open>The failures per macro, in the order of the first failed run of each; then the five largest.\<close>

fun count_failures :: "(string \<Rightarrow> string) \<Rightarrow> MacroRun list \<Rightarrow> (string \<times> string \<times> nat) list
    \<Rightarrow> (string \<times> string \<times> nat) list" where
  "count_failures nm [] m = m"
| "count_failures nm (r # rs) m =
     count_failures nm rs
       (if run_status r \<noteq> R_FAILED then m
        else (case map_of m (run_macroId r) of
                Some (name, n) \<Rightarrow> AList.update (run_macroId r) (name, n + 1) m
              | None \<Rightarrow> m @ [(run_macroId r, nm (run_macroId r), 1)]))"

definition topFailing :: "(string \<Rightarrow> string) \<Rightarrow> MacroRun list \<Rightarrow> (string \<times> nat) list" where
  "topFailing nm runs = take 5 (sort_key (\<lambda>x. - int (snd x)) (map snd (count_failures nm runs [])))"

definition generateExecutivePdf ::
  "(int \<Rightarrow> string) \<Rightarrow> (nat \<Rightarrow> nat \<Rightarrow> string) \<Rightarrow> (string \<Rightarrow> string) \<Rightarrow> string \<Rightarrow> MacroRun list
   \<Rightarrow> string + doc_item list" where
  "generateExecutivePdf isotime percent nm month all_runs =
     (if \<not> month_ok month
      then Inl (''Invalid month format: \"'' @ month @ ''\" (expected YYYY-MM)'')
      else
        (let (start, stop) = month_window month;
             runs = sort_key (\<lambda>r. - run_startedAt r)
                      (filter (\<lambda>r. start \<le> run_startedAt r \<and> run_startedAt r < stop) all_runs);
             total = length runs; ok = count_status R_PASSED runs; top = topFailing nm runs
         in Inr
           ([D_Title (''ATMirror '' @ em_dash @ '' Executive Summary ('' @ month @ '')''),
             D_KV ''Window'' (isotime start @ '' '' @ [CHR 0xE2, CHR 0x86, CHR 0x92] @ '' '' @ isotime stop),
             D_KV ''Total runs'' (js_itoa total), D_KV ''Passed'' (js_itoa ok),
             D_KV ''Failed'' (js_itoa (count_status R_FAILED runs)),
             D_KV ''Aborted'' (js_itoa (count_status R_ABORTED runs)),
             D_KV ''In flight'' (js_itoa (count_status R_RUNNING runs)),
             D_KV ''Pass rate'' ((if 0 < total then percent ok total else em_dash) @ ''%''),
             D_KV ''Avg duration'' (js_int_to_string (average_ms runs) @ '' ms''),
             D_Section ''Top failing macros'']
            @ (if top = [] then [D_Line ''  (no failures recorded)'']
               else map (\<lambda>(name, n). D_Line (''  '' @ js_padStart 3 (CHR '' '') (js_itoa n) @ '' '' @ [CHR 0xC3, CHR 0x97] @ '' '' @ name)) top))))"

section \<open>The list of runs\<close>

fun js_min :: "jsnum \<Rightarrow> jsnum \<Rightarrow> jsnum" where
  "js_min JNaN b = JNaN"
| "js_min a JNaN = JNaN"
| "js_min a b = (if js_lt b a then b else a)"

fun js_max :: "jsnum \<Rightarrow> jsnum \<Rightarrow> jsnum" where
  "js_max JNaN b = JNaN"
| "js_max a JNaN = JNaN"
| "js_max a b = (if js_lt a b then b else a)"

definition runs_take :: "string option \<Rightarrow> jsnum" where
  "runs_take raw = js_max (js_int 1) (js_min (js_int 200) (case raw of Some s \<Rightarrow> js_Number s | None \<Rightarrow> js_int 50))"

fun status_of_name :: "string \<Rightarrow> run_status option" where
  "status_of_name s =
     (if s = ''PASSED'' then Some R_PASSED else if s = ''FAILED'' then Some R_FAILED
      else if s = ''ABORTED'' then Some R_ABORTED else if s = ''RUNNING'' then Some R_RUNNING else None)"

record runs_query =
  rq_take :: "string option"
  rq_status :: "string option"
  rq_macroId :: "string option"
  rq_since :: "string option"

definition runs_where :: "(string \<Rightarrow> int option) \<Rightarrow> runs_query \<Rightarrow> MacroRun \<Rightarrow> bool" where
  "runs_where date q r \<longleftrightarrow>
     (case status_of_name (js_toUpperCase (js_default (rq_status q) [])) of None \<Rightarrow> True | Some st \<Rightarrow> run_status r = st)
     \<and> (js_default (rq_macroId q) [] = [] \<or> Some (run_macroId r) = rq_macroId q)
     \<and> (case (if js_default (rq_since q) [] = [] then None else date (js_default (rq_since q) [])) of
          None \<Rightarrow> True | Some t \<Rightarrow> t \<le> run_startedAt r)"

record runs_summary =
  rsu_window :: int
  rsu_total :: nat
  rsu_passed :: nat
  rsu_failed :: nat
  rsu_aborted :: nat
  rsu_running :: nat

text \<open>The database refuses a page size that is not an integer and a bound that is not a date: then the
  request fails.\<close>

definition runs_list :: "(string \<Rightarrow> int option) \<Rightarrow> int \<Rightarrow> runs_query \<Rightarrow> MacroRun list
    \<Rightarrow> (runs_summary \<times> MacroRun list) option" where
  "runs_list date now q all_runs =
     (case js_to_int (runs_take (rq_take q)) of
        None \<Rightarrow> None
      | Some n \<Rightarrow>
          (case (if js_default (rq_since q) [] = [] then Some (now - 30 * 86400000)
                 else date (js_default (rq_since q) [])) of
             None \<Rightarrow> None
           | Some since \<Rightarrow>
               (let rows = take (nat n) (sort_key (\<lambda>r. - run_startedAt r) (filter (runs_where date q) all_runs));
                    win = filter (\<lambda>r. since \<le> run_startedAt r) all_runs
                in Some (\<lparr>rsu_window = since, rsu_total = length win, rsu_passed = count_status R_PASSED win,
                          rsu_failed = count_status R_FAILED win, rsu_aborted = count_status R_ABORTED win,
                          rsu_running = count_status R_RUNNING win\<rparr>, rows))))"

end
