(* ===== verification/Report_Props.thy ===== *)
theory Report_Props
  imports Reports Macro_Props
begin

text \<open>
  What the reports show: the report of a run pairs the stored steps with the results by position, and
  never marks a step as passed or failed; the months of the executive summary do not overlap, and its
  counts cover every run.
\<close>

section \<open>The report of a run\<close>

definition step_text :: "nat \<Rightarrow> MacroStep \<Rightarrow> string \<Rightarrow> string" where
  "step_text idx st status = ''[-] '' @ js_itoa (idx + 1) @ ''. '' @ device_name (st_device st) @ '': ''
     @ st_operation st @ '' ('' @ status @ '')''"

lemma step_symbol_never: "step_symbol (step_status_at res k) = ''[-]''"
  by (cases "sres_status (res ! k)") (simp_all add: step_symbol_def step_status_at_def)

lemma step_lines_first: "D_Line (step_text k st (step_status_at res k)) \<in> set (step_lines res k st)"
  by (simp add: step_lines_def Let_def step_symbol_never step_text_def)

lemma steps_lines_nth:
  "k < length sts \<Longrightarrow> set (step_lines res (n + k) (sts ! k)) \<subseteq> set (steps_lines res n sts)"
proof (induction sts arbitrary: n k)
  case Nil
  then show ?case by simp
next
  case (Cons st sts)
  show ?case
  proof (cases k)
    case 0
    then show ?thesis by auto
  next
    case (Suc j)
    then show ?thesis using Cons.IH [of j "Suc n"] Cons.prems by auto
  qed
qed

lemma macro_steps_length: "length (macro_steps m) = length (filter st_enabled (mc_steps m))"
  by (simp add: macro_steps_def sort_steps_def)

text \<open>C31: the report of a passed run pairs steps and results by position: the first lines, one for each
  enabled step, read PASSED, and the others PENDING, whichever steps are the disabled ones; and no
  line carries the mark of a passed step.\<close>

theorem report_steps_by_position:
  assumes "mx_run ops re envs i q = (Run_Returns row, q')" and "run_status row = R_PASSED"
    and "find_macro i (ru_macros q) = Some m" and "k < length (mc_steps m)"
  shows "D_Line (step_text k (mc_steps m ! k)
      (if k < length (filter st_enabled (mc_steps m)) then ''PASSED'' else ''PENDING''))
    \<in> set (generateMacroRunPdf isotime row m evidence)"
proof -
  have "verdict R_PASSED (run_stepResults row) (macro_steps m)"
  proof -
    obtain m' ctx rs0 status res rs w where R: "find_macro i (ru_macros q) = Some m'"
      "mx_loop ops envs 0 (re_id re) (macro_steps m') [] (rs0, ctx, ru_world q) = (Loop_Done status res, rs, w)"
      "run_status row = status" "run_stepResults row = res"
      by (rule mx_run_returns [OF assms(1)])
    then show ?thesis using loop_verdict [OF R(2)] assms(2,3) by auto
  qed
  then have res: "length (run_stepResults row) = length (filter st_enabled (mc_steps m))"
    "list_all passed (run_stepResults row)"
    by (simp_all add: verdict_def macro_steps_length)
  have "step_status_at (run_stepResults row) k
      = (if k < length (filter st_enabled (mc_steps m)) then ''PASSED'' else ''PENDING'')"
    using res by (simp add: step_status_at_def list_all_length passed_def)
  then show ?thesis
    using steps_lines_nth [OF assms(4), of "run_stepResults row" 0] step_lines_first [of k "mc_steps m ! k" "run_stepResults row"]
    by (auto simp: generateMacroRunPdf_def)
qed

definition rp_off :: MacroStep where
  "rp_off = ms_wait\<lparr>st_id := ''X'', st_operation := ''Insert'', st_device := Dev_Card, st_enabled := False\<rparr>"

lemma report_steps_by_position_witness:
  "\<exists>row q'. mx_run mem_ops ms_run_env (\<lambda>_. ms_env) ''M1'' (ms_runner [ms_macro [rp_off, ms_wait]]) = (Run_Returns row, q')
     \<and> D_Line ''[-] 1. Card: Insert (PASSED)'' \<in> set (generateMacroRunPdf (\<lambda>_. []) row (ms_macro [rp_off, ms_wait]) JvNull)
     \<and> D_Line ''[-] 2. System: Wait (PENDING)'' \<in> set (generateMacroRunPdf (\<lambda>_. []) row (ms_macro [rp_off, ms_wait]) JvNull)"
proof -
  let ?m = "ms_macro [rp_off, ms_wait]"
  have "\<exists>row q'. mx_run mem_ops ms_run_env (\<lambda>_. ms_env) ''M1'' (ms_runner [?m]) = (Run_Returns row, q')
     \<and> run_status row = R_PASSED"
    by (simp add: mx_run_def ms_runner_def ms_macro_def find_macro_def ms_run_env_def macro_steps_def sort_steps_def
      ms_wait_def rp_off_def mx_executeStep_def mx_system_def Let_def)
  then obtain row q' where R: "mx_run mem_ops ms_run_env (\<lambda>_. ms_env) ''M1'' (ms_runner [?m]) = (Run_Returns row, q')"
    "run_status row = R_PASSED" by blast
  have m: "find_macro ''M1'' (ru_macros (ms_runner [?m])) = Some ?m"
    by (simp add: ms_runner_def ms_macro_def find_macro_def)
  have sts: "mc_steps ?m = [rp_off, ms_wait]" by (simp add: ms_macro_def)
  have n: "length (filter st_enabled (mc_steps ?m)) = 1" unfolding sts by (simp add: rp_off_def ms_wait_def)
  have d: "js_itoa (Suc 0) = ''1''" "js_itoa (Suc (Suc 0)) = ''2''" by code_simp+
  have t: "step_text 0 rp_off ''PASSED'' = ''[-] 1. Card: Insert (PASSED)''"
    "step_text (Suc 0) ms_wait ''PENDING'' = ''[-] 2. System: Wait (PENDING)''"
    using d by (simp_all add: step_text_def rp_off_def ms_wait_def)
  note P = report_steps_by_position [OF R m, of _ "\<lambda>_. []" JvNull]
  have "D_Line ''[-] 1. Card: Insert (PASSED)'' \<in> set (generateMacroRunPdf (\<lambda>_. []) row ?m JvNull)"
    using P [of 0] unfolding n t [symmetric] by (simp add: sts)
  moreover have "D_Line ''[-] 2. System: Wait (PENDING)'' \<in> set (generateMacroRunPdf (\<lambda>_. []) row ?m JvNull)"
    using P [of "Suc 0"] unfolding n t [symmetric] by (simp add: sts)
  ultimately show ?thesis using R(1) by blast
qed

section \<open>The months\<close>

definition month_index :: "string \<Rightarrow> int" where
  "month_index s = 12 * int (dec_value (take 4 s)) + int (dec_value (drop 5 s)) - 1"

lemma pred_div:
  assumes "0 < (k::int)"
  shows "(y - 1) div k = (if k dvd y then y div k - 1 else y div k)"
proof (cases "k dvd y")
  case True
  then obtain q where "y = k * q" by blast
  then have "y - 1 = k * (q - 1) + (k - 1)" by (simp add: algebra_simps)
  then have "(y - 1) div k = q - 1" using assms int_div_pos_eq [of "y - 1" k "q - 1" "k - 1"] by simp
  then show ?thesis using assms True \<open>y = k * q\<close> by simp
next
  case False
  then have r: "0 < y mod k" "y mod k < k"
    using assms pos_mod_bound [of k y] pos_mod_sign [of k y] by (simp_all add: dvd_eq_mod_eq_0 order_less_le)
  have "y - 1 = k * (y div k) + (y mod k - 1)" by simp
  then have "(y - 1) div k = y div k + (y mod k - 1) div k" using assms by (metis div_mult_self2 add.commute less_irrefl)
  then show ?thesis using r False by simp
qed

lemma leap_days: "0 \<le> (y div 4 - (y - 1) div 4) - (y div 100 - (y - 1) div 100) + (y div 400 - (y - 1) div 400)
    \<and> (y div 4 - (y - 1) div 4) - (y div 100 - (y - 1) div 100) + (y div 400 - (y - 1) div 400) \<le> (1::int)"
proof -
  have "(100::int) dvd y" if "400 dvd y" using that by (rule dvd_trans [rotated]) simp
  moreover have "(4::int) dvd y" if "100 dvd y" using that by (rule dvd_trans [rotated]) simp
  ultimately show ?thesis by (auto simp: pred_div)
qed

lemma days_to_month_length:
  assumes "1 \<le> m" "m \<le> 12"
  shows "28 \<le> days_to_month (y + m div 12) (m mod 12 + 1) - days_to_month y m
    \<and> days_to_month (y + m div 12) (m mod 12 + 1) - days_to_month y m \<le> 31"
proof -
  have "m = 1 \<or> m = 2 \<or> m = 3 \<or> m = 4 \<or> m = 5 \<or> m = 6 \<or> m = 7 \<or> m = 8 \<or> m = 9 \<or> m = 10 \<or> m = 11 \<or> m = 12"
    using assms by presburger
  then show ?thesis
    using leap_days [of y] by (elim disjE) (simp_all add: days_to_month_def Let_def)
qed

text \<open>The first day of the month with the given index.\<close>

definition month_day :: "int \<Rightarrow> int" where
  "month_day i = days_to_month (i div 12) (i mod 12 + 1)"

lemma month_day_Suc: "28 \<le> month_day (i + 1) - month_day i \<and> month_day (i + 1) - month_day i \<le> 31"
proof -
  have i: "i = 12 * (i div 12) + i mod 12" by simp
  define q r where "q = i div 12" and "r = i mod 12"
  have iq: "i = 12 * q + r" using i by (simp add: q_def r_def)
  have "0 \<le> r" "r < 12" by (simp_all add: r_def)
  have "(i + 1) div 12 = q + (r + 1) div 12" "(i + 1) mod 12 = (r + 1) mod 12"
    unfolding iq add.assoc by (simp_all only: div_mult_self2 [of "12::int"] mod_mult_self4 rel_simps)
  then show ?thesis
    using days_to_month_length [of "r + 1" q] \<open>0 \<le> r\<close> \<open>r < 12\<close>
    by (simp add: month_day_def q_def [symmetric] r_def [symmetric])
qed

lemma month_day_mono: "i \<le> j \<Longrightarrow> month_day i \<le> month_day j"
proof (induction "nat (j - i)" arbitrary: j)
  case 0
  then show ?case by simp
next
  case (Suc n)
  then have "month_day i \<le> month_day (j - 1)" by simp
  then show ?case using month_day_Suc [of "j - 1"] by simp
qed

lemma drop_Suc_nth_two: "length s = 7 \<Longrightarrow> drop 5 s = [s ! 5, s ! 6]"
  using Cons_nth_drop_Suc [of 5 s] Cons_nth_drop_Suc [of 6 s] by simp

lemma month_ok_number: "month_ok s \<Longrightarrow> 1 \<le> dec_value (drop 5 s) \<and> dec_value (drop 5 s) \<le> 12"
proof -
  assume ok: "month_ok s"
  then have "drop 5 s = [s ! 5, s ! 6]" by (simp add: month_ok_def drop_Suc_nth_two)
  moreover have "s ! 5 = CHR ''0'' \<and> s ! 6 \<in> set ''123456789'' \<or> s ! 5 = CHR ''1'' \<and> s ! 6 \<in> set ''012''"
    using ok by (simp only: month_ok_def)
  ultimately show ?thesis
    by (elim disjE conjE) (auto simp add: dec_value_def digit_val_def)
qed

lemma month_window_index:
  assumes "month_ok s" "100 \<le> dec_value (take 4 s)"
  shows "month_window s = (86400000 * month_day (month_index s), 86400000 * month_day (month_index s + 1))"
proof -
  define y m where "y = int (dec_value (take 4 s))" and "m = int (dec_value (drop 5 s)) - 1"
  have "(12 * y + m) div 12 = y + m div 12" "(12 * y + m) mod 12 = m mod 12"
    "(12 * y + (m + 1)) div 12 = y + (m + 1) div 12" "(12 * y + (m + 1)) mod 12 = (m + 1) mod 12"
    by simp_all
  moreover have "month_index s = 12 * y + m" by (simp add: month_index_def y_def m_def)
  moreover have "\<not> y \<le> 99" using assms(2) by (simp add: y_def)
  ultimately show ?thesis
    by (simp add: month_window_def Let_def y_def [symmetric] m_def [symmetric] js_Date_UTC_def month_day_def
        add.assoc del: div_mult_self1 div_mult_self2 div_mult_self3 div_mult_self4)
qed

text \<open>The months of the executive summary cover 28 to 31 days each, join without a gap, and no
  instant belongs to two of them, for the years from 100 on.\<close>

theorem report_months_tile:
  assumes "month_ok a" "100 \<le> dec_value (take 4 a)" and "month_ok b" "100 \<le> dec_value (take 4 b)"
    and "month_window a = (a0, a1)" and "month_window b = (b0, b1)"
  shows "28 * 86400000 \<le> a1 - a0 \<and> a1 - a0 \<le> 31 * 86400000
    \<and> (month_index b = month_index a + 1 \<longrightarrow> b0 = a1)
    \<and> (a0 \<le> t \<and> t < a1 \<and> b0 \<le> t \<and> t < b1 \<longrightarrow> month_index a = month_index b)"
proof -
  note w = month_window_index [OF assms(1,2)] month_window_index [OF assms(3,4)]
  have apart: "86400000 * month_day (j + 1) \<le> 86400000 * month_day i" if "j < i" for i j
    using month_day_mono [of "j + 1" i] that by simp
  have "month_index a = month_index b" if "a0 \<le> t" "t < a1" "b0 \<le> t" "t < b1"
  proof (rule ccontr)
    assume "month_index a \<noteq> month_index b"
    then consider "month_index a < month_index b" | "month_index b < month_index a" by linarith
    then show False using apart that w assms(5,6) by cases fastforce+
  qed
  then show ?thesis using w assms(5,6) month_day_Suc [of "month_index a"] by auto
qed

lemma report_months_tile_witness:
  "month_window ''2024-02'' = (1706745600000, 1709251200000) \<and> (1709251200000::int) - 1706745600000 \<le> 31 * 86400000"
proof -
  have v: "month_ok ''2024-02''" "100 \<le> dec_value (take 4 ''2024-02'')"
    by code_simp+
  have w: "month_window ''2024-02'' = (1706745600000, 1709251200000)"
    by (simp add: month_window_def js_Date_UTC_def days_to_month_def dec_value_def digit_val_def Let_def)
  show ?thesis using report_months_tile [OF v v w w, of 0] w by blast
qed

end
