(* ===== verification/Report_Detail.thy ===== *)
theory Report_Detail
  imports Reports
begin

text \<open>
  The detail view of a run (\<^verbatim>\<open>detail\<close> of \<^verbatim>\<open>macro-runs.controller.ts\<close>): the run with its macro and whatever the
  ATM did between its start and its end, each kind of row sorted by time and cut off. The macro of a run
  is a function, as the foreign key of the table guarantees.
\<close>

section \<open>Rows with their times\<close>

record logged_command = xfs_log_row +
  lc_id :: string
  lc_durationMs :: "int option"
  lc_createdAt :: int

record timed_session = SessionRow +
  tse_startedAt :: int

record run_detail =
  rd_run :: MacroRun
  rd_macro :: Macro
  rd_transactions :: "TransactionRow list"
  rd_commands :: "logged_command list"
  rd_sessions :: "timed_session list"

section \<open>The view\<close>

definition in_window :: "('a \<Rightarrow> int) \<Rightarrow> nat \<Rightarrow> int \<Rightarrow> int \<Rightarrow> 'a list \<Rightarrow> 'a list" where
  "in_window time n t0 t1 rows = take n (sort_key time (filter (\<lambda>r. t0 \<le> time r \<and> time r \<le> t1) rows))"

definition runs_detail ::
  "int \<Rightarrow> (MacroRun \<Rightarrow> Macro) \<Rightarrow> MacroRun list \<Rightarrow> TransactionRow list \<Rightarrow> logged_command list \<Rightarrow> timed_session list
   \<Rightarrow> string \<Rightarrow> string + run_detail" where
  "runs_detail now mac runs txns cmds sess i =
     (case find (\<lambda>r. run_id r = i) runs of
        None \<Rightarrow> Inl (''Macro run '' @ i @ '' not found'')
      | Some run \<Rightarrow>
          (let t0 = run_startedAt run; t1 = js_default (run_completedAt run) now
           in Inr \<lparr>rd_run = run, rd_macro = mac run, rd_transactions = in_window tx_createdAt 50 t0 t1 txns,
                   rd_commands = in_window lc_createdAt 200 t0 t1 cmds, rd_sessions = in_window tse_startedAt 10 t0 t1 sess\<rparr>))"

section \<open>The windows\<close>

lemma in_window_props:
  "length (in_window time n t0 t1 rows) \<le> n" "sorted (map time (in_window time n t0 t1 rows))"
  "r \<in> set (in_window time n t0 t1 rows) \<Longrightarrow> r \<in> set rows \<and> t0 \<le> time r \<and> time r \<le> t1"
proof -
  let ?s = "sort_key time (filter (\<lambda>r. t0 \<le> time r \<and> time r \<le> t1) rows)"
  show "length (in_window time n t0 t1 rows) \<le> n" by (simp add: in_window_def)
  show "sorted (map time (in_window time n t0 t1 rows))"
    unfolding in_window_def take_map [symmetric] by (rule sorted_wrt_take) (rule sorted_sort_key)
  show "r \<in> set rows \<and> t0 \<le> time r \<and> time r \<le> t1" if "r \<in> set (in_window time n t0 t1 rows)"
    using that set_take_subset [of n ?s] by (auto simp: in_window_def)
qed

text \<open>Nothing of the window is missing unless the cut applies, and then only later rows are.\<close>

lemma in_window_complete:
  assumes "r \<in> set rows" "t0 \<le> time r" "time r \<le> t1" "r \<notin> set (in_window time n t0 t1 rows)"
  shows "length (in_window time n t0 t1 rows) = n \<and> (\<forall>x \<in> set (in_window time n t0 t1 rows). time x \<le> time r)"
proof -
  let ?s = "sort_key time (filter (\<lambda>r. t0 \<le> time r \<and> time r \<le> t1) rows)"
  have "r \<in> set ?s" using assms(1-3) by simp
  then have d: "r \<in> set (drop n ?s)"
    using assms(4) set_append [of "take n ?s" "drop n ?s"] unfolding in_window_def append_take_drop_id by blast
  have "sorted (map time (take n ?s @ drop n ?s))"
    unfolding append_take_drop_id by (rule sorted_sort_key)
  then have "\<forall>x \<in> set (take n ?s). time x \<le> time r" using d unfolding map_append sorted_append by auto
  moreover have "n \<le> length ?s" using d by (cases "n \<le> length ?s") simp_all
  ultimately show ?thesis unfolding in_window_def by simp
qed

end
