(* ===== verification/Report_Endpoints.thy ===== *)
theory Report_Endpoints
  imports Report_Detail
begin

text \<open>
  The endpoints that send the two reports (\<^verbatim>\<open>reports.controller.ts\<close>): the row that is looked up, the 404 of an
  unknown run or a malformed month, the name of the file, and what every document carries beside its own
  items (\<^verbatim>\<open>title\<close> and \<^verbatim>\<open>footer\<close> of \<^verbatim>\<open>reports.service.ts\<close>): the time of its generation under the title and a
  last line.
\<close>

section \<open>The frame of a document\<close>

definition doc_footer :: string where
  "doc_footer = ''PT Zegen Solusi Mandiri '' @ middle_dot @ '' ATMirror Simulator''"

definition doc_title :: "string \<Rightarrow> doc_item \<Rightarrow> doc_item list" where
  "doc_title generated x = (case x of D_Title t \<Rightarrow> [D_Title t, D_Line (''Generated '' @ generated)] | _ \<Rightarrow> [x])"

definition doc_render :: "string \<Rightarrow> doc_item list \<Rightarrow> doc_item list" where
  "doc_render generated items = concat (map (doc_title generated) items) @ [D_Line doc_footer]"

section \<open>The endpoints\<close>

definition attachment :: "string \<Rightarrow> string" where
  "attachment name = ''attachment; filename=\"'' @ name @ ''.pdf\"''"

definition macroRunPdf ::
  "(int \<Rightarrow> string) \<Rightarrow> int \<Rightarrow> (MacroRun \<Rightarrow> Macro) \<Rightarrow> (MacroRun \<Rightarrow> js_value) \<Rightarrow> MacroRun list \<Rightarrow> string
   \<Rightarrow> string + string \<times> doc_item list" where
  "macroRunPdf isotime now mac evidence runs i =
     (case find (\<lambda>r. run_id r = i) runs of
        None \<Rightarrow> Inl (''Macro run '' @ i @ '' not found'')
      | Some run \<Rightarrow>
          Inr (attachment (''macro-run-'' @ i),
               doc_render (isotime now) (generateMacroRunPdf isotime run (mac run) (evidence run))))"

definition executivePdf ::
  "(int \<Rightarrow> string) \<Rightarrow> (nat \<Rightarrow> nat \<Rightarrow> string) \<Rightarrow> int \<Rightarrow> (string \<Rightarrow> string) \<Rightarrow> string option \<Rightarrow> MacroRun list
   \<Rightarrow> string + string \<times> doc_item list" where
  "executivePdf isotime percent now nm month runs =
     (let m = js_default month ''undefined''
      in case generateExecutivePdf isotime percent nm m runs of
           Inl e \<Rightarrow> Inl e
         | Inr items \<Rightarrow> Inr (attachment (''executive-'' @ m), doc_render (isotime now) items))"

section \<open>Documents and refusals\<close>

lemma render_keeps_items: "set items \<subseteq> set (doc_render g items)"
proof -
  have "x \<in> set (doc_title g x)" for x by (cases x) (simp_all add: doc_title_def)
  then show ?thesis by (auto simp: doc_render_def)
qed

text \<open>A missing month is refused, as is every malformed one.\<close>

lemma executive_missing_month:
  "executivePdf isotime percent now nm None runs
     = Inl (''Invalid month format: \"undefined\" (expected YYYY-MM)'')"
  by (simp add: executivePdf_def generateExecutivePdf_def month_ok_def)

text \<open>The details and the document of a run are found or refused together.\<close>

lemma run_pdf_iff_detail:
  "(\<exists>d. macroRunPdf isotime now mac evidence runs i = Inr d) \<longleftrightarrow> (\<exists>d. runs_detail now mac runs txns cmds sess i = Inr d)"
  by (simp add: macroRunPdf_def runs_detail_def Let_def split: option.split)

end
