(* ===== verification/Zxfs_Bridge.thy ===== *)
theory Zxfs_Bridge
  imports Host_Transports Atm_Types
begin

text \<open>
  The bridge for the Windows DLL (\<^verbatim>\<open>apps/xfs-server/src/bridge/zxfs-bridge.service.ts\<close>): a TCP listener
  whose frames are JSON texts behind a four-byte length, each a request to the XFS manager. The text
  of JSON is left to parameters (\<open>ze_parse\<close> is \<^const>\<open>None\<close> where \<open>JSON.parse\<close> throws), and so are the
  payloads, which the bridge passes through: \<open>ze_payload\<close> is what the devices read from one,
  \<open>ze_reply\<close> the object of a reply.

  A frame is handled in one step; a command that the PIN pad keeps open is waited for in \<open>zb_waiting\<close>
  and answered when the manager answers it. \<open>zb_sent\<close> are the frames written to open sockets. An
  exception outside of the \<open>try\<close> is an unhandled rejection, which ends the process (\<open>zb_dead\<close>).
\<close>

section \<open>Framing\<close>

definition readUInt32LE :: "byte list \<Rightarrow> nat" where
  "readUInt32LE bs = unat (bs ! 0) + 256 * (unat (bs ! 1) + 256 * (unat (bs ! 2) + 256 * unat (bs ! 3)))"

definition writeUInt32LE :: "nat \<Rightarrow> byte list" where
  "writeUInt32LE n = [of_nat (n mod 256), of_nat (n div 256 mod 256), of_nat (n div 65536 mod 256), of_nat (n div 16777216)]"

text \<open>The loop of the data handler: the bodies of the complete frames and what is left, or \<^const>\<open>None\<close> when a
  frame is too long and the socket is destroyed.\<close>

function zx_frames :: "byte list \<Rightarrow> byte list list \<times> byte list option" where
  "zx_frames buf =
     (if length buf < 4 then ([], Some buf)
      else let len = readUInt32LE buf
           in if 1000000 < len then ([], None)
              else if length buf < 4 + len then ([], Some buf)
              else (let (fs, rest) = zx_frames (drop (4 + len) buf)
                    in (take len (drop 4 buf) # fs, rest)))"
  by auto
termination by (relation "measure length") auto

declare zx_frames.simps [simp del]

definition zx_onData :: "byte list \<Rightarrow> byte list option \<Rightarrow> byte list list \<times> byte list option" where
  "zx_onData chunk buf = (case buf of None \<Rightarrow> ([], None) | Some b \<Rightarrow> zx_frames (b @ chunk))"

text \<open>The bytes of a frame.\<close>

definition zx_frame :: "byte list \<Rightarrow> byte list" where
  "zx_frame body = writeUInt32LE (length body) @ body"

section \<open>The bridge\<close>

record zx_env =
  ze_parse :: "byte list \<Rightarrow> js_value option"
  ze_text :: "js_value \<Rightarrow> byte list"
  ze_string :: "js_value \<Rightarrow> string option"
  ze_typeError :: string
  ze_numText :: "jsnum \<Rightarrow> string"
  ze_payload :: "js_value \<Rightarrow> xfs_payload"
  ze_reply :: "xfs_reply \<Rightarrow> js_value"
  ze_eventPayload :: "ev_payload \<Rightarrow> js_value"
  ze_ts :: string
  ze_evtId :: string
  ze_xfs :: xfs_env

record zx_bridge =
  zb_clients :: "(nat \<times> byte list option) list"
  zb_waiting :: "(XfsCommand \<times> nat \<times> js_value) list"
  zb_sent :: "(nat \<times> js_value) list"
  zb_dead :: bool

definition zx_new :: zx_bridge where
  "zx_new = \<lparr>zb_clients = [], zb_waiting = [], zb_sent = [], zb_dead = False\<rparr>"

definition zx_open :: "nat \<Rightarrow> zx_bridge \<Rightarrow> bool" where
  "zx_open s b \<longleftrightarrow> (\<exists>buf. map_of (zb_clients b) s = Some (Some buf))"

text \<open>\<open>sendFrame\<close>: nothing is written to a socket that is destroyed. The bytes on the wire are those of
  \<open>zx_wire\<close>.\<close>

definition sendFrame :: "nat \<Rightarrow> js_value \<Rightarrow> zx_bridge \<Rightarrow> zx_bridge" where
  "sendFrame s v b = (if zx_open s b then b\<lparr>zb_sent := zb_sent b @ [(s, v)]\<rparr> else b)"

definition zx_wire :: "zx_env \<Rightarrow> js_value \<Rightarrow> byte list" where
  "zx_wire e v = zx_frame (ze_text e v)"

section \<open>Events\<close>

fun event_class_name :: "XfsEventClass \<Rightarrow> string" where
  "event_class_name SRVE = ''SRVE''"
| "event_class_name USRE = ''USRE''"
| "event_class_name EXEE = ''EXEE''"
| "event_class_name SYSE = ''SYSE''"

definition zx_event :: "zx_env \<Rightarrow> xfs_event \<Rightarrow> js_value" where
  "zx_event e ev =
     JvObj [(''type'', JvStr ''event''), (''id'', JvStr (''evt_'' @ ze_evtId e)), (''ts'', JvStr (ze_ts e)),
       (''service'', JvStr (class_name (ev_serviceClass ev))), (''hService'', JvStr (ev_hService ev)),
       (''eventCode'', JvStr (event_code_string (ev_eventCode ev))),
       (''eventClass'', JvStr (event_class_name (ev_eventClass ev))), (''payload'', ze_eventPayload e (ev_payload ev))]"

definition zx_onXfsEvent :: "zx_env \<Rightarrow> xfs_event \<Rightarrow> zx_bridge \<Rightarrow> zx_bridge" where
  "zx_onXfsEvent e ev b = fold (\<lambda>(s, _). sendFrame s (zx_event e ev)) (zb_clients b) b"

definition zx_events :: "zx_env \<Rightarrow> dev_output list \<Rightarrow> zx_bridge \<Rightarrow> zx_bridge" where
  "zx_events e outs b = fold (\<lambda>out b. case out of Emit ev \<Rightarrow> zx_onXfsEvent e ev b | _ \<Rightarrow> b) outs b"

section \<open>Responses\<close>

definition zx_response :: "zx_env \<Rightarrow> js_value \<Rightarrow> int \<Rightarrow> js_value \<Rightarrow> string option \<Rightarrow> js_value" where
  "zx_response e i code payload detail =
     JvObj ([(''type'', JvStr ''response''), (''id'', i), (''ts'', JvStr (ze_ts e)), (''result'', jv_int code),
       (''payload'', payload)] @ (case detail of None \<Rightarrow> [] | Some d \<Rightarrow> [(''errorDetail'', JvStr d)]))"

definition zx_execResponse :: "zx_env \<Rightarrow> js_value \<Rightarrow> XfsResponse \<Rightarrow> js_value" where
  "zx_execResponse e i rsp =
     zx_response e i (rsp_result rsp) (case rsp_payload rsp of None \<Rightarrow> JvNull | Some p \<Rightarrow> ze_reply e p)
       (map_option (dev_error_text (ze_numText e)) (rsp_errorDetail rsp))"

text \<open>The manager answers a command: the request that waits for it gets its response.\<close>

definition zx_answer :: "zx_env \<Rightarrow> answer \<Rightarrow> zx_bridge \<Rightarrow> zx_bridge" where
  "zx_answer e a b =
     (case find (\<lambda>(c, s, i). c = fst a) (zb_waiting b) of
        None \<Rightarrow> b
      | Some (c, s, i) \<Rightarrow>
          sendFrame s (zx_execResponse e i (snd a)) (b\<lparr>zb_waiting := remove1 (c, s, i) (zb_waiting b)\<rparr>))"

definition zx_settled :: "zx_env \<Rightarrow> answer list \<Rightarrow> dev_output list \<Rightarrow> zx_bridge \<Rightarrow> zx_bridge" where
  "zx_settled e as outs b = fold (zx_answer e) as (zx_events e outs b)"

section \<open>Requests\<close>

fun jv_str :: "js_value \<Rightarrow> string option" where
  "jv_str (JvStr s) = Some s"
| "jv_str v = None"

definition zx_class :: "string \<Rightarrow> XfsServiceClass option" where
  "zx_class s = find (\<lambda>c. class_name c = s) [IDC, PIN, CDM, PTR, SIU, TTU]"

definition service_state_name :: "XfsServiceState \<Rightarrow> string" where
  "service_state_name st =
     (case st of CLOSED \<Rightarrow> ''closed'' | OPEN \<Rightarrow> ''open'' | LOCKED \<Rightarrow> ''locked'' | BUSY \<Rightarrow> ''busy'' | ERROR \<Rightarrow> ''error'')"

text \<open>The command of a request for the device \<open>h\<close>. A code that is not a string is the code of no device
  command, like the empty one; a service that is no class is only logged, and such a row is left out
  of the modelled log (\<open>zx_loggable\<close>).\<close>

definition zx_command :: "zx_env \<Rightarrow> js_value \<Rightarrow> string \<Rightarrow> XfsCommand" where
  "zx_command e v h =
     \<lparr>cmd_hService = h,
      cmd_serviceClass = js_default (Option.bind (jv_str (jv_get v ''service'')) zx_class) IDC,
      cmd_commandCode = js_default (jv_str (jv_get v ''commandCode'')) [],
      cmd_requestId = js_default (jv_str (jv_get v ''id'')) [], cmd_timeoutMs = 30000,
      cmd_payload = ze_payload e (jv_get v ''payload''), cmd_sessionId = None\<rparr>"

definition zx_loggable :: "js_value \<Rightarrow> bool" where
  "zx_loggable v \<longleftrightarrow> Option.bind (jv_str (jv_get v ''service'')) zx_class \<noteq> None
     \<and> jv_str (jv_get v ''commandCode'') \<noteq> None \<and> jv_str (jv_get v ''id'') \<noteq> None"

text \<open>Whether the promise of the device stays open.\<close>

definition xm_held :: "xfs_env \<Rightarrow> XfsCommand \<Rightarrow> xfs_manager \<Rightarrow> bool" where
  "xm_held xe c m =
     (case map_of (xm_services m) (cmd_hService c) of
        None \<Rightarrow> False
      | Some ref \<Rightarrow> fst (dev_execute xe ref (cmd_commandCode c) (cmd_payload c) (xm_devices m)) = Pending)"

text \<open>\<open>manager.execute\<close> for a request: the answers to commands that were waiting, then its own, unless the
  PIN pad keeps it open.\<close>

definition zx_execute :: "zx_env \<Rightarrow> nat \<Rightarrow> js_value \<Rightarrow> string \<Rightarrow> zx_bridge \<times> xfs_manager \<Rightarrow> zx_bridge \<times> xfs_manager" where
  "zx_execute e s v h bm =
     (let (b, m) = bm; c = zx_command e v h; i = jv_get v ''id'';
          xe = (ze_xfs e)\<lparr>xe_logUp := xe_logUp (ze_xfs e) \<and> zx_loggable v\<rparr>;
          (as, m', outs) = xm_execute xe c m
      in if xm_held xe c m
         then (let b' = zx_settled e as outs b in (b'\<lparr>zb_waiting := zb_waiting b' @ [(c, s, i)]\<rparr>, m'))
         else (sendFrame s (zx_execResponse e i (snd (last as))) (zx_settled e (butlast as) outs b), m'))"

text \<open>The \<open>catch\<close> branch, for a template whose value has no text.\<close>

definition zx_thrown :: "zx_env \<Rightarrow> nat \<Rightarrow> js_value \<Rightarrow> zx_bridge \<Rightarrow> zx_bridge" where
  "zx_thrown e s i b = sendFrame s (zx_response e i (- 5) JvNull (Some (ze_typeError e))) b"

definition zx_refuse :: "zx_env \<Rightarrow> nat \<Rightarrow> js_value \<Rightarrow> int \<Rightarrow> string \<Rightarrow> js_value \<Rightarrow> zx_bridge \<Rightarrow> zx_bridge" where
  "zx_refuse e s i code prefix v b =
     (case ze_string e v of
        None \<Rightarrow> zx_thrown e s i b
      | Some t \<Rightarrow> sendFrame s (zx_response e i code JvNull (Some (prefix @ t))) b)"

definition zx_request :: "zx_env \<Rightarrow> nat \<Rightarrow> js_value \<Rightarrow> zx_bridge \<times> xfs_manager \<Rightarrow> zx_bridge \<times> xfs_manager" where
  "zx_request e s v bm =
     (let (b, m) = bm; i = jv_get v ''id''; oper = jv_get v ''op''; service = jv_get v ''service''; h = jv_get v ''hService''
      in if oper = JvStr ''WFPOpen'' then
           (case filter (\<lambda>(_, c, _). JvStr (class_name c) = service) (xm_listServices m) of
              [] \<Rightarrow> zx_refuse e s i (- 9) ''no service of class '' service b
            | (hs, _, _) # _ \<Rightarrow> sendFrame s (zx_response e i 0 (JvObj [(''hService'', JvStr hs)]) None) b, m)
         else if oper = JvStr ''WFPGetInfo'' then
           (case Option.bind (jv_str h) (\<lambda>hs. xm_getInfo hs m) of
              None \<Rightarrow> sendFrame s (zx_response e i (- 4) JvNull (Some ''unknown hService'')) b
            | Some (caps, st) \<Rightarrow>
                sendFrame s (zx_response e i 0
                  (JvObj [(''capabilities'', caps), (''state'', JvStr (service_state_name st))]) None) b, m)
         else if oper = JvStr ''WFPExecute'' then
           (case jv_str h of
              None \<Rightarrow> (zx_refuse e s i (- 9) ''Unknown hService: '' h b, m)
            | Some hs \<Rightarrow> zx_execute e s v hs (b, m))
         else if oper = JvStr ''WFPClose''
         then (sendFrame s (zx_response e i 0 (JvObj [(''closed'', JvBool True)]) None) b, m)
         else (zx_refuse e s i (- 8) ''unknown op: '' oper b, m))"

definition handleFrame :: "zx_env \<Rightarrow> nat \<Rightarrow> byte list \<Rightarrow> zx_bridge \<times> xfs_manager \<Rightarrow> zx_bridge \<times> xfs_manager" where
  "handleFrame e s body bm =
     (case ze_parse e body of
        None \<Rightarrow> bm
      | Some v \<Rightarrow>
          (let (b, m) = bm; ty = jv_get v ''type''
           in if v = JvNull then (b\<lparr>zb_dead := True\<rparr>, m)
              else if ty = JvStr ''ping''
              then (sendFrame s (JvObj [(''type'', JvStr ''pong''), (''id'', jv_get v ''id''), (''ts'', JvStr (ze_ts e))]) b, m)
              else if ty \<noteq> JvStr ''request''
              then (if ze_string e ty = None then (b\<lparr>zb_dead := True\<rparr>, m) else bm)
              else zx_request e s v bm))"

section \<open>Sockets\<close>

text \<open>\<open>handleClient\<close>: a connection, a chunk of data, the end of a connection. A dead process handles nothing;
  the frames of the chunk that kills it are still handled.\<close>

definition zx_connect :: "nat \<Rightarrow> zx_bridge \<Rightarrow> zx_bridge" where
  "zx_connect s b = b\<lparr>zb_clients := AList.update s (Some []) (zb_clients b)\<rparr>"

definition zx_data :: "zx_env \<Rightarrow> nat \<Rightarrow> byte list \<Rightarrow> zx_bridge \<times> xfs_manager \<Rightarrow> zx_bridge \<times> xfs_manager" where
  "zx_data e s chunk bm =
     (case map_of (zb_clients (fst bm)) s of
        None \<Rightarrow> bm
      | Some buf \<Rightarrow>
          if zb_dead (fst bm) then bm
          else (let (bodies, buf') = zx_onData chunk buf;
                    (b, m) = fold (handleFrame e s) bodies bm
                in (b\<lparr>zb_clients := AList.update s buf' (zb_clients b)\<rparr>, m)))"

definition zx_close :: "nat \<Rightarrow> zx_bridge \<Rightarrow> zx_bridge" where
  "zx_close s b = b\<lparr>zb_clients := AList.delete s (zb_clients b)\<rparr>"

text \<open>\<open>onModuleInit\<close>: the bridge listens only when it is enabled; host and port come from the environment.\<close>

definition zx_onModuleInit :: "(string \<Rightarrow> string option) \<Rightarrow> (string \<times> jsnum) option" where
  "zx_onModuleInit env =
     (if env ''ZXFS_BRIDGE_ENABLED'' \<noteq> Some ''true'' then None
      else Some (js_default (env ''ZXFS_BRIDGE_HOST'') ''0.0.0.0'',
                 case env ''ZXFS_BRIDGE_PORT'' of None \<Rightarrow> js_int 9101 | Some p \<Rightarrow> js_Number p))"

definition zx_onModuleDestroy :: "zx_bridge \<Rightarrow> zx_bridge" where
  "zx_onModuleDestroy b = b\<lparr>zb_clients := []\<rparr>"

end
