(* ===== verification/Zxfs_Props.thy ===== *)
theory Zxfs_Props
  imports Zxfs_Bridge Chunked Xfs_Manager_Props
begin

text \<open>
  What the bridge promises its clients: frames survive any cutting of the stream up to the size limit,
  every request is answered once under its id with the codes of the manager; and the frame that ends
  the process.
\<close>

section \<open>Framing\<close>

lemma length_write32 [simp]: "length (writeUInt32LE n) = 4"
  by (simp add: writeUInt32LE_def)

lemma read32_append: "4 \<le> length xs \<Longrightarrow> readUInt32LE (xs @ ys) = readUInt32LE xs"
  by (auto simp: readUInt32LE_def nth_append)

lemma read32_write:
  assumes "n < 4294967296"
  shows "readUInt32LE (writeUInt32LE n @ xs) = n"
proof -
  have b: "unat (of_nat (k mod 256) :: byte) = k mod 256" for k
    by (simp add: unat_of_nat take_bit_eq_mod)
  have "n div 16777216 = n div 16777216 mod 256" using assms by simp
  then have "unat (of_nat (n div 16777216) :: byte) = n div 16777216" using b by metis
  moreover have "n mod 256 + 256 * (n div 256 mod 256 + 256 * (n div 65536 mod 256 + 256 * (n div 16777216))) = n"
  proof -
    have "n div 65536 = n div 256 div 256" "n div 16777216 = n div 256 div 256 div 256"
      by (simp_all add: div_mult2_eq [symmetric])
    then show ?thesis by (metis mod_mult_div_eq add.commute)
  qed
  ultimately show ?thesis by (simp add: readUInt32LE_def writeUInt32LE_def b)
qed

lemma zx_frames_short: "length buf < 4 \<Longrightarrow> zx_frames buf = ([], Some buf)"
  by (simp add: zx_frames.simps)

lemma zx_frames_long: "4 \<le> length buf \<Longrightarrow> 1000000 < readUInt32LE buf \<Longrightarrow> zx_frames buf = ([], None)"
  by (simp add: zx_frames.simps)

lemma zx_frames_partial:
  "4 \<le> length buf \<Longrightarrow> readUInt32LE buf \<le> 1000000 \<Longrightarrow> length buf < 4 + readUInt32LE buf \<Longrightarrow> zx_frames buf = ([], Some buf)"
  by (simp add: zx_frames.simps)

lemma zx_frames_step:
  "4 + readUInt32LE buf \<le> length buf \<Longrightarrow> readUInt32LE buf \<le> 1000000 \<Longrightarrow>
   zx_frames buf = (take (readUInt32LE buf) (drop 4 buf) # fst (zx_frames (drop (4 + readUInt32LE buf) buf)),
     snd (zx_frames (drop (4 + readUInt32LE buf) buf)))"
  by (subst zx_frames.simps) (simp add: Let_def split_def)

lemma zx_frames_cases:
  obtains (short) "length buf < 4" | (long) "4 \<le> length buf" "1000000 < readUInt32LE buf"
  | (partial) "4 \<le> length buf" "readUInt32LE buf \<le> 1000000" "length buf < 4 + readUInt32LE buf"
  | (full) "4 + readUInt32LE buf \<le> length buf" "readUInt32LE buf \<le> 1000000"
  by linarith

text \<open>The frames of a longer stream: those of the first part, then those of its rest with the second part.\<close>

lemma zx_frames_append:
  "zx_frames (xs @ ys) = (fst (zx_frames xs) @ fst (zx_onData ys (snd (zx_frames xs))),
     snd (zx_onData ys (snd (zx_frames xs))))"
proof (induction xs rule: zx_frames.induct)
  case (1 xs)
  show ?case
  proof (cases xs rule: zx_frames_cases)
    case short
    then show ?thesis by (simp add: zx_frames_short zx_onData_def)
  next
    case long
    then show ?thesis using zx_frames_long [of "xs @ ys"] by (simp add: zx_frames_long zx_onData_def read32_append)
  next
    case partial
    then show ?thesis by (simp add: zx_frames_partial zx_onData_def)
  next
    case full
    let ?n = "4 + readUInt32LE xs"
    have "zx_frames (drop ?n xs @ ys) = (fst (zx_frames (drop ?n xs)) @ fst (zx_onData ys (snd (zx_frames (drop ?n xs)))),
        snd (zx_onData ys (snd (zx_frames (drop ?n xs)))))"
      using 1 full by simp
    moreover have "zx_frames (xs @ ys) = (take (readUInt32LE xs) (drop 4 xs) # fst (zx_frames (drop ?n xs @ ys)),
        snd (zx_frames (drop ?n xs @ ys)))"
      using full zx_frames_step [of "xs @ ys"] by (simp add: read32_append)
    ultimately show ?thesis using full zx_frames_step [of xs] by simp
  qed
qed

lemma zx_frames_rest: "snd (zx_frames xs) = Some r \<Longrightarrow> zx_frames r = ([], Some r)"
proof (induction xs rule: zx_frames.induct)
  case (1 xs)
  show ?case
  proof (cases xs rule: zx_frames_cases)
    case full
    then show ?thesis using 1 zx_frames_step [of xs] by simp
  qed (use 1(2) in \<open>auto simp: zx_frames_short zx_frames_long zx_frames_partial\<close>)
qed

definition zx_idle :: "byte list option \<Rightarrow> bool" where
  "zx_idle s \<longleftrightarrow> (\<forall>buf. s = Some buf \<longrightarrow> zx_frames buf = ([], Some buf))"

interpretation zx_stream: chunk_handler zx_onData zx_idle
proof unfold_locales
  fix xs ys :: "byte list" and s
  show "zx_onData (xs @ ys) s = (fst (zx_onData xs s) @ fst (zx_onData ys (snd (zx_onData xs s))),
      snd (zx_onData ys (snd (zx_onData xs s))))"
  proof (cases s)
    case None
    then show ?thesis by (simp add: zx_onData_def)
  next
    case (Some b)
    then show ?thesis using zx_frames_append [of "b @ xs" ys] by (simp add: zx_onData_def [of _ "Some b"])
  qed
  show "zx_idle s \<Longrightarrow> zx_onData [] s = ([], s)"
    by (cases s) (auto simp: zx_onData_def zx_idle_def)
  show "zx_idle (snd (zx_onData xs s))"
    using zx_frames_rest by (cases s) (auto simp: zx_onData_def zx_idle_def)
qed

lemma zx_frames_frame:
  assumes "length body \<le> 1000000"
  shows "zx_frames (zx_frame body @ xs) = (body # fst (zx_frames xs), snd (zx_frames xs))"
proof -
  have r: "readUInt32LE (zx_frame body @ xs) = length body"
    using assms by (simp add: zx_frame_def read32_write)
  have "drop 4 (zx_frame body @ xs) = body @ xs" "drop (4 + length body) (zx_frame body @ xs) = xs"
    by (simp_all add: zx_frame_def)
  then show ?thesis
    using zx_frames_step [of "zx_frame body @ xs"] assms unfolding r by (simp add: zx_frame_def)
qed

lemma zx_frames_frames:
  "\<forall>b\<in>set bodies. length b \<le> 1000000 \<Longrightarrow>
   zx_frames (concat (map zx_frame bodies) @ xs) = (bodies @ fst (zx_frames xs), snd (zx_frames xs))"
  by (induction bodies) (simp_all add: zx_frames_frame)

text \<open>C40: frames of at most 1,000,000 bytes arrive as they were sent, however the network cuts the stream;
  after a longer frame the socket is destroyed and nothing more is read from it.\<close>

theorem zxfs_frames_roundtrip:
  assumes "\<forall>b\<in>set bodies. length b \<le> 1000000"
  shows "(concat chunks = concat (map zx_frame bodies)
        \<longrightarrow> chunk_stream zx_onData chunks (Some []) = (bodies, Some []))
    \<and> (concat chunks = concat (map zx_frame bodies) @ zx_frame big @ tail
          \<and> 1000000 < length big \<and> length big < 4294967296
        \<longrightarrow> chunk_stream zx_onData chunks (Some []) = (bodies, None))"
proof -
  have "zx_idle (Some [])" by (simp add: zx_idle_def zx_frames_short)
  then have whole: "chunk_stream zx_onData chunks (Some []) = zx_frames (concat chunks)"
    using zx_stream.stream_whole [of "Some []" chunks] by (simp add: zx_onData_def)
  have "zx_frames (zx_frame big @ tail) = ([], None)" if "1000000 < length big" "length big < 4294967296"
  proof -
    have "readUInt32LE (zx_frame big @ tail) = length big" using that by (simp add: zx_frame_def read32_write)
    then show ?thesis using that by (simp add: zx_frames_long zx_frame_def)
  qed
  then show ?thesis
    using whole zx_frames_frames [OF assms, of "[]"] zx_frames_frames [OF assms, of "zx_frame big @ tail"]
    by (auto simp: zx_frames_short)
qed

section \<open>Answers\<close>

text \<open>The responses among sent frames, each as its socket and its id.\<close>

definition zx_responses :: "(nat \<times> js_value) list \<Rightarrow> (nat \<times> js_value) list" where
  "zx_responses sent = map (\<lambda>(s, v). (s, jv_get v ''id'')) (filter (\<lambda>(s, v). jv_get v ''type'' = JvStr ''response'') sent)"

definition zx_waits_open :: "zx_bridge \<Rightarrow> bool" where
  "zx_waits_open b \<longleftrightarrow> (\<forall>(c, s, i)\<in>set (zb_waiting b). zx_open s b)"

text \<open>The ids that the bridge owes or has sent.\<close>

definition zx_owed :: "zx_bridge \<Rightarrow> (nat \<times> js_value) multiset" where
  "zx_owed b = mset (zx_responses (zb_sent b)) + mset (map snd (zb_waiting b))"

lemma zx_responses_append [simp]: "zx_responses (xs @ ys) = zx_responses xs @ zx_responses ys"
  by (simp add: zx_responses_def)

lemma send_simps [simp]:
  "zb_waiting (sendFrame s v b) = zb_waiting b" "zb_clients (sendFrame s v b) = zb_clients b"
  "zx_open t (sendFrame s v b) = zx_open t b" "zb_dead (sendFrame s v b) = zb_dead b"
  by (simp_all add: sendFrame_def zx_open_def)

lemma open_update [simp]:
  "zx_open t (b\<lparr>zb_waiting := w\<rparr>) = zx_open t b" "zx_open t (b\<lparr>zb_dead := d\<rparr>) = zx_open t b"
  by (simp_all add: zx_open_def)

lemma response_get [simp]:
  "jv_get (zx_response e i code p d) ''id'' = i" "jv_get (zx_response e i code p d) ''type'' = JvStr ''response''"
  "jv_get (zx_execResponse e i rsp) ''id'' = i" "jv_get (zx_execResponse e i rsp) ''type'' = JvStr ''response''"
  by (simp_all add: zx_response_def zx_execResponse_def)

lemma owed_send:
  "zx_open s b \<Longrightarrow> jv_get v ''type'' = JvStr ''response'' \<Longrightarrow> zx_owed (sendFrame s v b) = zx_owed b + {#(s, jv_get v ''id'')#}"
  "jv_get v ''type'' \<noteq> JvStr ''response'' \<Longrightarrow> zx_owed (sendFrame s v b) = zx_owed b"
  by (simp_all add: zx_owed_def sendFrame_def zx_responses_def)

text \<open>Events owe nothing.\<close>

lemma zx_onXfsEvent_facts:
  "zx_owed (zx_onXfsEvent e ev b) = zx_owed b \<and> zb_waiting (zx_onXfsEvent e ev b) = zb_waiting b
   \<and> zb_clients (zx_onXfsEvent e ev b) = zb_clients b"
proof -
  have "zx_owed (fold (\<lambda>(s, _). sendFrame s (zx_event e ev)) cs b) = zx_owed b
      \<and> zb_waiting (fold (\<lambda>(s, _). sendFrame s (zx_event e ev)) cs b) = zb_waiting b
      \<and> zb_clients (fold (\<lambda>(s, _). sendFrame s (zx_event e ev)) cs b) = zb_clients b" for cs :: "(nat \<times> byte list option) list"
    by (induction cs arbitrary: b) (auto simp: owed_send(2) zx_event_def)
  then show ?thesis by (simp add: zx_onXfsEvent_def)
qed

lemma zx_events_facts:
  "zx_owed (zx_events e outs b) = zx_owed b \<and> zb_waiting (zx_events e outs b) = zb_waiting b
   \<and> zb_clients (zx_events e outs b) = zb_clients b"
  unfolding zx_events_def
  by (induction outs arbitrary: b) (auto simp: zx_onXfsEvent_facts split: dev_output.split)

lemma find_waiting:
  "find (\<lambda>(c, s, i). c = d) ws = Some (c, s, i) \<Longrightarrow> c = d \<and> (c, s, i) \<in> set ws"
  unfolding find_Some_iff by clarsimp (metis nth_mem)

lemma zx_answer_facts:
  assumes "zx_waits_open b"
  shows "zx_owed (zx_answer e a b) = zx_owed b \<and> zx_waits_open (zx_answer e a b)
    \<and> zb_clients (zx_answer e a b) = zb_clients b
    \<and> mset (map fst (zb_waiting (zx_answer e a b))) = mset (map fst (zb_waiting b)) - {#fst a#}"
proof (cases "find (\<lambda>(c, s, i). c = fst a) (zb_waiting b)")
  case None
  then have "fst a \<notin> set (map fst (zb_waiting b))" by (auto simp: find_None_iff)
  then show ?thesis using None assms by (simp add: zx_answer_def diff_single_trivial)
next
  case (Some x)
  obtain c s i where x: "x = (c, s, i)" by (cases x)
  note W = find_waiting [OF Some [unfolded x]]
  have m: "mset (zb_waiting b) = add_mset (c, s, i) (mset (remove1 (c, s, i) (zb_waiting b)))"
    using conjunct2 [OF W] by (simp del: set_mset_mset add: set_mset_mset [symmetric] insert_DiffM)
  have f: "mset (map f (zb_waiting b)) = add_mset (f (c, s, i)) (mset (map f (remove1 (c, s, i) (zb_waiting b))))" for f
    using arg_cong [OF m, of "image_mset f"] by simp
  have "zx_open s b" using assms W by (auto simp: zx_waits_open_def)
  moreover have "zx_owed (b\<lparr>zb_waiting := remove1 (c, s, i) (zb_waiting b)\<rparr>) + {#(s, i)#} = zx_owed b"
    using f [of snd] by (simp add: zx_owed_def)
  moreover have "zx_waits_open (zx_answer e a b)"
    using assms set_remove1_subset [of "(c, s, i)" "zb_waiting b"] Some x
    by (auto simp: zx_waits_open_def zx_answer_def)
  ultimately show ?thesis
    using Some x W f [of fst] by (simp add: zx_answer_def owed_send)
qed

lemma zx_answers_facts:
  assumes "zx_waits_open b"
  shows "zx_owed (fold (zx_answer e) as b) = zx_owed b \<and> zx_waits_open (fold (zx_answer e) as b)
    \<and> zb_clients (fold (zx_answer e) as b) = zb_clients b
    \<and> mset (map fst (zb_waiting (fold (zx_answer e) as b))) = mset (map fst (zb_waiting b)) - mset (map fst as)"
  using assms
proof (induction as arbitrary: b)
  case Nil
  then show ?case by simp
next
  case (Cons a as)
  then show ?case using zx_answer_facts [OF Cons.prems, of e a] Cons.IH [of "zx_answer e a b"] by simp
qed

section \<open>The accounts of the bridge\<close>

lemma xm_execute_held:
  assumes "xm_execute xe c m = (as, m', outs)" "xm_held xe c m"
  shows "c \<in># mset (map snd (xm_pending m'))"
  using assms
  by (auto simp: xm_execute_def xm_held_def Let_def split: option.splits prod.splits)

lemma xm_execute_answered:
  assumes "xm_execute xe c m = (as, m', outs)" "\<not> xm_held xe c m"
  shows "as \<noteq> [] \<and> fst (last as) = c"
proof (cases "map_of (xm_services m) (cmd_hService c)")
  case None
  then show ?thesis using assms(1) by (auto simp: xm_execute_def Let_def)
next
  case (Some ref)
  obtain oc dv o1 where D: "dev_execute xe ref (cmd_commandCode c) (cmd_payload c) (xm_devices m) = (oc, dv, o1)"
    by (metis prod_cases3)
  have "oc \<noteq> Pending" using assms(2) Some D by (simp add: xm_held_def)
  obtain as1 m1 where S: "xm_settle xe o1 (m\<lparr>xm_devices := dv\<rparr>) = (as1, m1)" by fastforce
  have E: "fst (xm_complete xe c res m1) = (c, r) \<Longrightarrow> True" for res r by simp
  show ?thesis
    using assms(1) Some D S \<open>oc \<noteq> Pending\<close> complete_simps(1) [of xe c _ m1]
    by (cases oc) (auto simp: xm_execute_def Let_def split_def)
qed

text \<open>The bridge waits only for commands that the manager has still open.\<close>

definition zx_inv :: "zx_bridge \<times> xfs_manager \<Rightarrow> bool" where
  "zx_inv bm \<longleftrightarrow> xm_inv (snd bm) \<and> zx_waits_open (fst bm)
     \<and> mset (map fst (zb_waiting (fst bm))) \<subseteq># mset (map snd (xm_pending (snd bm)))"

lemma subset_balance:
  fixes w p a q r :: "'a multiset"
  assumes "w \<subseteq># p" "r + p = a + q"
  shows "w - a \<subseteq># q"
proof (rule mset_subset_eqI)
  fix x
  have "count r x + count p x = count a x + count q x" using assms(2) by (metis count_union)
  then show "count (w - a) x \<le> count q x"
    using mset_subset_eq_count [OF assms(1), of x] by simp
qed

lemma zx_settled_facts:
  assumes "zx_waits_open b"
  shows "zx_owed (zx_settled e as outs b) = zx_owed b \<and> zx_waits_open (zx_settled e as outs b)
    \<and> zb_clients (zx_settled e as outs b) = zb_clients b
    \<and> mset (map fst (zb_waiting (zx_settled e as outs b))) = mset (map fst (zb_waiting b)) - mset (map fst as)"
proof -
  note E = zx_events_facts [of e outs b]
  have "zx_waits_open (zx_events e outs b)" using assms E by (simp add: zx_waits_open_def zx_open_def)
  from zx_answers_facts [OF this, of e as] E show ?thesis by (simp add: zx_settled_def)
qed

lemma zx_execute_facts:
  assumes inv: "zx_inv (b, m)" and o: "zx_open s b" and X: "zx_execute e s v h (b, m) = (b', m')"
  shows "zx_inv (b', m') \<and> zb_clients b' = zb_clients b \<and> zx_owed b' = zx_owed b + {#(s, jv_get v ''id'')#}"
proof -
  let ?c = "zx_command e v h" and ?i = "jv_get v ''id''"
  define xe where "xe = (ze_xfs e)\<lparr>xe_logUp := xe_logUp (ze_xfs e) \<and> zx_loggable v\<rparr>"
  obtain as m1 outs where E: "xm_execute xe ?c m = (as, m1, outs)" by (metis prod_cases3)
  have i: "xm_inv m" "zx_waits_open b" "mset (map fst (zb_waiting b)) \<subseteq># mset (map snd (xm_pending m))"
    using inv by (simp_all add: zx_inv_def)
  have acc: "xm_inv m1" "{#?c#} + mset (map snd (xm_pending m)) = mset (map fst as) + mset (map snd (xm_pending m1))"
    using xm_execute_accounts [OF i(1) E] by (simp_all add: xm_accounts_def)
  show ?thesis
  proof (cases "xm_held xe ?c m")
    case True
    define b1 where "b1 = zx_settled e as outs b"
    note S = zx_settled_facts [OF i(2), of e as outs, folded b1_def]
    have b': "b' = b1\<lparr>zb_waiting := zb_waiting b1 @ [(?c, s, ?i)]\<rparr>" "m' = m1"
      using X True E by (simp_all add: zx_execute_def Let_def xe_def [symmetric] b1_def)
    obtain q where q: "mset (map snd (xm_pending m1)) = add_mset ?c q"
      using xm_execute_held [OF E True] by (metis insert_DiffM)
    then have "{#} + mset (map snd (xm_pending m)) = mset (map fst as) + q" using acc(2) by simp
    from subset_balance [OF i(3) this] have "mset (map fst (zb_waiting b1)) \<subseteq># q" using S by simp
    then show ?thesis
      using S acc(1) q o by (auto simp: b' zx_inv_def zx_owed_def zx_waits_open_def zx_open_def)
  next
    case False
    note L = xm_execute_answered [OF E False]
    define b1 where "b1 = zx_settled e (butlast as) outs b"
    note S = zx_settled_facts [OF i(2), of e "butlast as" outs, folded b1_def]
    have b': "b' = sendFrame s (zx_execResponse e ?i (snd (last as))) b1" "m' = m1"
      using X False E by (simp_all add: zx_execute_def Let_def xe_def [symmetric] b1_def)
    obtain ys y where "as = ys @ [y]" using L by (cases as rule: rev_cases) auto
    then have "mset (map fst as) = mset (map fst (butlast as)) + {#?c#}" using L by simp
    then have "{#} + mset (map snd (xm_pending m)) = mset (map fst (butlast as)) + mset (map snd (xm_pending m1))"
      using acc(2) by simp
    from subset_balance [OF i(3) this] have "mset (map fst (zb_waiting b1)) \<subseteq># mset (map snd (xm_pending m1))"
      using S by simp
    moreover have "zx_open s b1" using o S by (simp add: zx_open_def)
    ultimately show ?thesis
      using S acc(1) by (simp add: b' zx_inv_def owed_send) (simp add: zx_waits_open_def)
  qed
qed

text \<open>Any other answer to a request is one response.\<close>

lemma zx_send_facts:
  assumes "zx_inv (b, m)" "zx_open s b" "jv_get v ''type'' = JvStr ''response''"
  shows "zx_inv (sendFrame s v b, m) \<and> zb_clients (sendFrame s v b) = zb_clients b
    \<and> zx_owed (sendFrame s v b) = zx_owed b + {#(s, jv_get v ''id'')#}"
  using assms by (simp add: zx_inv_def owed_send zx_waits_open_def)

lemma zx_refuse_sends: "\<exists>x. zx_refuse e s i code p v b = sendFrame s x b \<and> jv_get x ''type'' = JvStr ''response'' \<and> jv_get x ''id'' = i"
  by (cases "ze_string e v") (auto simp: zx_refuse_def zx_thrown_def intro!: exI [of _ "zx_response _ _ _ _ _"])

lemma zx_request_facts:
  assumes inv: "zx_inv (b, m)" and o: "zx_open s b" and R: "zx_request e s v (b, m) = (b', m')"
  shows "zx_inv (b', m') \<and> zb_clients b' = zb_clients b \<and> zx_owed b' = zx_owed b + {#(s, jv_get v ''id'')#}"
proof -
  consider (exec) h where "zx_execute e s v h (b, m) = (b', m')"
    | (send) x where "b' = sendFrame s x b" "m' = m" "jv_get x ''type'' = JvStr ''response''" "jv_get x ''id'' = jv_get v ''id''"
  proof -
    have "(\<exists>h. zx_execute e s v h (b, m) = (b', m')) \<or> (\<exists>x. b' = sendFrame s x b \<and> m' = m
        \<and> jv_get x ''type'' = JvStr ''response'' \<and> jv_get x ''id'' = jv_get v ''id'')"
      using R zx_refuse_sends [of e s "jv_get v ''id''" _ _ _ b]
      by (simp add: zx_request_def Let_def split: option.splits list.splits if_splits prod.splits)
        (metis response_get(1,2))+
    then show ?thesis using that by blast
  qed
  then show ?thesis
  proof cases
    case exec
    then show ?thesis using zx_execute_facts [OF inv o] by blast
  next
    case send
    then show ?thesis using zx_send_facts [OF inv o, of x] by simp
  qed
qed

text \<open>The requests in a frame: its socket with its id, if it is one.\<close>

definition zx_asked :: "zx_env \<Rightarrow> nat \<Rightarrow> byte list \<Rightarrow> (nat \<times> js_value) list" where
  "zx_asked e s body =
     (case ze_parse e body of
        None \<Rightarrow> []
      | Some v \<Rightarrow> if jv_get v ''type'' = JvStr ''request'' then [(s, jv_get v ''id'')] else [])"

lemma handleFrame_facts:
  assumes inv: "zx_inv (b, m)" and o: "zx_open s b" and H: "handleFrame e s body (b, m) = (b', m')"
  shows "zx_inv (b', m') \<and> zb_clients b' = zb_clients b \<and> zx_owed b' = zx_owed b + mset (zx_asked e s body)"
proof (cases "ze_parse e body")
  case None
  then show ?thesis using inv H by (simp add: handleFrame_def zx_asked_def)
next
  case (Some v)
  consider (request) "jv_get v ''type'' = JvStr ''request''" | (other) "jv_get v ''type'' \<noteq> JvStr ''request''" by blast
  then show ?thesis
  proof cases
    case request
    then have "v \<noteq> JvNull" by auto
    then have "zx_request e s v (b, m) = (b', m')"
      using H Some request by (simp add: handleFrame_def Let_def)
    from zx_request_facts [OF inv o this] show ?thesis using Some request by (simp add: zx_asked_def)
  next
    case other
    have dead: "zx_inv (b\<lparr>zb_dead := True\<rparr>, m) \<and> zx_owed (b\<lparr>zb_dead := True\<rparr>) = zx_owed b"
      using inv by (simp add: zx_inv_def zx_owed_def zx_waits_open_def)
    have pong: "zx_inv (sendFrame s x b, n) \<and> zx_owed (sendFrame s x b) = zx_owed b"
      if "zx_inv (b, n)" "jv_get x ''type'' \<noteq> JvStr ''response''" for x n
      using that by (simp add: zx_inv_def owed_send zx_waits_open_def)
    show ?thesis
      using H Some other dead inv
      by (auto simp: handleFrame_def zx_asked_def Let_def pong split: if_splits)
  qed
qed

lemma zx_settled_dead [simp]: "zb_dead (zx_settled e as outs b) = zb_dead b"
proof -
  have ev: "zb_dead (zx_onXfsEvent e ev b) = zb_dead b" for ev b
  proof -
    have "zb_dead (fold (\<lambda>(s, _). sendFrame s (zx_event e ev)) cs c) = zb_dead c" for cs :: "(nat \<times> byte list option) list" and c
      by (induction cs arbitrary: c) (simp_all add: split_def)
    then show ?thesis by (simp add: zx_onXfsEvent_def)
  qed
  have evs: "zb_dead (zx_events e outs b) = zb_dead b" for b
    unfolding zx_events_def by (induction outs arbitrary: b) (auto simp: ev split: dev_output.split)
  have "zb_dead (fold (zx_answer e) as b) = zb_dead b" for b
    by (induction as arbitrary: b) (auto simp: zx_answer_def split: option.split)
  then show ?thesis by (simp add: zx_settled_def evs)
qed

lemma zx_request_dead: "zb_dead (fst (zx_request e s v bm)) = zb_dead (fst bm)"
  by (simp add: zx_request_def zx_execute_def zx_refuse_def zx_thrown_def Let_def split_def
      split: option.split list.split)

text \<open>The frames that end the process: the value null, and a type that is neither known nor has a text.\<close>

definition zx_kills :: "zx_env \<Rightarrow> byte list \<Rightarrow> bool" where
  "zx_kills e body =
     (case ze_parse e body of
        None \<Rightarrow> False
      | Some v \<Rightarrow> v = JvNull \<or> jv_get v ''type'' \<notin> {JvStr ''ping'', JvStr ''request''} \<and> ze_string e (jv_get v ''type'') = None)"

lemma handleFrame_dead:
  "zb_dead (fst (handleFrame e s body bm)) \<longleftrightarrow> zb_dead (fst bm) \<or> zx_kills e body"
  by (auto simp: handleFrame_def zx_kills_def Let_def split_def zx_request_dead split: option.split)

lemma handleFrames_dead:
  "zb_dead (fst (fold (handleFrame e s) bodies bm)) \<longleftrightarrow> zb_dead (fst bm) \<or> (\<exists>body\<in>set bodies. zx_kills e body)"
  by (induction bodies arbitrary: bm) (auto simp: handleFrame_dead)

text \<open>What reaches the bridge: the frames of a chunk, and everything else that reaches the manager. A process
  that has ended does nothing more.\<close>

datatype zx_op = Zx_Frames zx_env nat "byte list list" | Zx_Manager zx_env xm_op

fun zx_step :: "zx_op \<Rightarrow> zx_bridge \<times> xfs_manager \<Rightarrow> zx_bridge \<times> xfs_manager" where
  "zx_step (Zx_Frames e s bodies) bm = (if zb_dead (fst bm) then bm else fold (handleFrame e s) bodies bm)"
| "zx_step (Zx_Manager e oper) bm =
     (if zb_dead (fst bm) then bm
      else (let (as, m', outs) = xm_step (ze_xfs e) oper (snd bm) in (zx_settled e as outs (fst bm), m')))"

fun zx_asks :: "zx_op \<Rightarrow> (nat \<times> js_value) list" where
  "zx_asks (Zx_Frames e s bodies) = concat (map (zx_asked e s) bodies)"
| "zx_asks (Zx_Manager e oper) = []"

fun zx_socket_open :: "zx_bridge \<Rightarrow> zx_op \<Rightarrow> bool" where
  "zx_socket_open b (Zx_Frames e s bodies) = zx_open s b"
| "zx_socket_open b (Zx_Manager e oper) = True"

fun zx_fatal :: "zx_op \<Rightarrow> bool" where
  "zx_fatal (Zx_Frames e s bodies) = (\<exists>body\<in>set bodies. zx_kills e body)"
| "zx_fatal (Zx_Manager e oper) = False"

lemma handleFrames_facts:
  assumes "zx_inv (b, m)" "zx_open s b" "fold (handleFrame e s) bodies (b, m) = (b', m')"
  shows "zx_inv (b', m') \<and> zb_clients b' = zb_clients b \<and> zx_owed b' = zx_owed b + mset (concat (map (zx_asked e s) bodies))"
  using assms
proof (induction bodies arbitrary: b m)
  case Nil
  then show ?case by simp
next
  case (Cons body bodies)
  obtain b1 m1 where H: "handleFrame e s body (b, m) = (b1, m1)" by fastforce
  note F = handleFrame_facts [OF Cons.prems(1,2) H]
  then have "zx_open s b1" using Cons.prems(2) by (simp add: zx_open_def)
  from Cons.IH [OF conjunct1 [OF F] this] Cons.prems(3) H F show ?case by (simp add: ac_simps)
qed

lemma zx_step_facts:
  assumes inv: "zx_inv (b, m)" and o: "zx_socket_open b st" and alive: "\<not> zb_dead b" and S: "zx_step st (b, m) = (b', m')"
  shows "zx_inv (b', m') \<and> zb_clients b' = zb_clients b \<and> zx_owed b' = zx_owed b + mset (zx_asks st)
    \<and> (zb_dead b' \<longleftrightarrow> zx_fatal st)"
proof (cases st)
  case (Zx_Frames e s bodies)
  then have F: "fold (handleFrame e s) bodies (b, m) = (b', m')" using S alive by simp
  moreover have "zx_open s b" using o Zx_Frames by simp
  ultimately show ?thesis
    using handleFrames_facts [OF inv] handleFrames_dead [of e s bodies "(b, m)"] alive Zx_Frames by simp
next
  case (Zx_Manager e oper)
  obtain as m1 outs where X: "xm_step (ze_xfs e) oper m = (as, m1, outs)" by (metis prod_cases3)
  have i: "xm_inv m" "zx_waits_open b" "mset (map fst (zb_waiting b)) \<subseteq># mset (map snd (xm_pending m))"
    using inv by (simp_all add: zx_inv_def)
  note A = xm_step_accounts [OF i(1) X, unfolded xm_accounts_def]
  note F = zx_settled_facts [OF i(2), of e as outs]
  have "mset (map fst (zb_waiting b)) - mset (map fst as) \<subseteq># mset (map snd (xm_pending m1))"
    using subset_balance [OF i(3)] A by blast
  then show ?thesis using S X A F Zx_Manager alive by (auto simp: zx_inv_def)
qed

lemma zx_step_dead: "zb_dead (fst bm) \<Longrightarrow> fold zx_step steps bm = bm"
proof (induction steps)
  case (Cons st steps)
  then have "zx_step st bm = bm" by (cases st) simp_all
  with Cons show ?case by simp
qed simp

lemma zx_run_facts:
  assumes "zx_inv (b, m)" "\<forall>st\<in>set steps. zx_socket_open b st" "\<not> zb_dead b" "fold zx_step steps (b, m) = (b', m')"
  shows "zx_inv (b', m') \<and> zx_owed b' \<subseteq># zx_owed b + mset (concat (map zx_asks steps))
    \<and> (zb_dead b' \<longleftrightarrow> (\<exists>st\<in>set steps. zx_fatal st))
    \<and> (\<not> zb_dead b' \<longrightarrow> zx_owed b' = zx_owed b + mset (concat (map zx_asks steps)))"
  using assms
proof (induction steps arbitrary: b m)
  case Nil
  then show ?case by simp
next
  case (Cons st steps)
  obtain b1 m1 where S: "zx_step st (b, m) = (b1, m1)" by fastforce
  have "zx_socket_open b st" using Cons.prems(2) by simp
  note F = zx_step_facts [OF Cons.prems(1) this Cons.prems(3) S]
  show ?case
  proof (cases "zb_dead b1")
    case True
    then have "(b', m') = (b1, m1)" using Cons.prems(4) S zx_step_dead [of "(b1, m1)" steps] by simp
    then show ?thesis using F True by simp
  next
    case False
    have "zx_socket_open b1 x = zx_socket_open b x" for x
      using F by (cases x) (simp_all add: zx_open_def)
    then have "zx_inv (b', m') \<and> zx_owed b' \<subseteq># zx_owed b1 + mset (concat (map zx_asks steps))
        \<and> (zb_dead b' \<longleftrightarrow> (\<exists>st\<in>set steps. zx_fatal st))
        \<and> (\<not> zb_dead b' \<longrightarrow> zx_owed b' = zx_owed b1 + mset (concat (map zx_asks steps)))"
      using Cons.IH [of b1 m1] Cons.prems F S False by simp
    then show ?thesis using F False by (simp add: ac_simps)
  qed
qed

text \<open>C32: in any run of chunks of frames on open sockets, mixed with anything else that reaches the manager,
  the process ends exactly when a frame is fatal (the text null, or a type without a text). As long as it
  lives every request has exactly one response under its id on its socket, except one that waits for the
  open PIN entry; and in any run no request has two responses and nothing is answered that was not
  asked. The bridge waits only for what the manager has still open.\<close>

theorem zxfs_answers_every_request:
  assumes "zb_waiting b = []" and "zb_sent b = []" and "\<not> zb_dead b" and "\<forall>st\<in>set steps. zx_socket_open b st"
    and "fold zx_step steps (b, xm_boot) = (b', m')"
  shows "(zb_dead b' \<longleftrightarrow> (\<exists>st\<in>set steps. zx_fatal st))
    \<and> (\<not> zb_dead b' \<longrightarrow> mset (concat (map zx_asks steps)) = mset (zx_responses (zb_sent b')) + mset (map snd (zb_waiting b')))
    \<and> mset (zx_responses (zb_sent b')) + mset (map snd (zb_waiting b')) \<subseteq># mset (concat (map zx_asks steps))
    \<and> mset (map fst (zb_waiting b')) \<subseteq># mset (map snd (xm_pending m')) \<and> length (zb_waiting b') \<le> 1"
proof -
  have "zx_inv (b, xm_boot)" by (simp add: zx_inv_def assms(1) xm_boot_inv zx_waits_open_def)
  note F = zx_run_facts [OF this assms(4,3,5)]
  have "zx_owed b = {#}" using assms(1,2) by (simp add: zx_owed_def zx_responses_def)
  note F = F [unfolded this]
  have "map fst (xm_pending m') = pin_open (dv_pin (xm_devices m'))" using F by (simp add: zx_inv_def xm_inv_def)
  then have "length (map fst (xm_pending m')) \<le> 1" by (simp only:) (simp add: pin_open_def split: option.split)
  moreover have "length (zb_waiting b') \<le> length (xm_pending m')"
    using F size_mset_mono [of "mset (map fst (zb_waiting b'))" "mset (map snd (xm_pending m'))"] by (simp add: zx_inv_def)
  ultimately show ?thesis using F by (simp add: zx_inv_def zx_owed_def)
qed

section \<open>The frame that ends the process\<close>

lemma zx_data_dead: "zb_dead (fst bm) \<Longrightarrow> zx_data e s chunk bm = bm"
  by (simp add: zx_data_def split: option.split)

lemma zx_chunks_dead: "zb_dead (fst bm) \<Longrightarrow> fold (zx_data e s) chunks bm = bm"
  by (induction chunks) (simp_all add: zx_data_dead)

lemma zx_first_frame_kills:
  assumes "map_of (zb_clients (fst bm)) s = Some (Some buf)" "zx_frames buf = ([], Some buf)"
    and "fst (zx_frames (buf @ concat chunks)) = body # rest" "ze_parse e body = Some JvNull"
  shows "zb_dead (fst (fold (zx_data e s) chunks bm))"
  using assms(1-3)
proof (induction chunks arbitrary: bm buf)
  case Nil
  then show ?case by simp
next
  case (Cons c cs)
  show ?case
  proof (cases "zb_dead (fst bm)")
    case True
    then show ?thesis by (simp only: zx_chunks_dead)
  next
    case False
    obtain bodies r where Z: "zx_frames (buf @ c) = (bodies, r)" by fastforce
    have all: "body # rest = bodies @ fst (zx_onData (concat cs) r)"
      using Cons.prems(3) zx_frames_append [of "buf @ c" "concat cs"] Z by simp
    define bm1 where "bm1 = fold (handleFrame e s) bodies bm"
    have D: "zx_data e s c bm = ((fst bm1)\<lparr>zb_clients := AList.update s r (zb_clients (fst bm1))\<rparr>, snd bm1)"
      using False Cons.prems(1) Z by (simp add: zx_data_def zx_onData_def bm1_def Let_def split_def)
    show ?thesis
    proof (cases bodies)
      case Nil
      then obtain b where r: "r = Some b" using all by (cases r) (auto simp: zx_onData_def)
      have "zx_frames b = ([], Some b)" using zx_frames_rest [of "buf @ c" b] Z r by simp
      moreover have "fst (zx_frames (b @ concat cs)) = body # rest" using all Nil r by (simp add: zx_onData_def)
      moreover have "map_of (zb_clients (fst (zx_data e s c bm))) s = Some (Some b)"
        by (simp add: D r update_conv')
      ultimately show ?thesis using Cons.IH [of "zx_data e s c bm" b] by simp
    next
      case (Cons x xs)
      then have "x = body" using all by simp
      have "zx_kills e body" using assms(4) by (simp add: zx_kills_def)
      then have "zb_dead (fst bm1)" using Cons \<open>x = body\<close> by (simp add: bm1_def handleFrames_dead handleFrame_dead)
      then have "zb_dead (fst (zx_data e s c bm))" by (simp add: D)
      then show ?thesis by (simp add: zx_chunks_dead)
    qed
  qed
qed

definition null_text :: "byte list" where
  "null_text = ascii_encode ''null''"

text \<open>The frame whose text is null ends the process: its type is read outside of the try, so the handler
  rejects and nobody handles the rejection. Whoever may connect can send it, and from then on no
  client is served.\<close>

theorem zxfs_null_frame_kills:
  assumes "ze_parse e null_text = Some JvNull" and "map_of (zb_clients b) s = Some (Some [])"
    and "concat chunks = zx_frame null_text @ tail" and "fold (zx_data e s) chunks (b, m) = (b', m')"
  shows "zb_dead b' \<and> (\<forall>e' t chunk. zx_data e' t chunk (b', m') = (b', m'))"
proof -
  have "zx_frames [] = ([], Some [])" by (simp add: zx_frames_short)
  moreover have "fst (zx_frames (concat chunks)) = null_text # fst (zx_frames tail)"
    by (simp add: assms(3) zx_frames_frame null_text_def ascii_encode_def)
  ultimately have "zb_dead (fst (fold (zx_data e s) chunks (b, m)))"
    using zx_first_frame_kills [of "(b, m)" s "[]" chunks null_text] assms(1,2) by simp
  then show ?thesis using assms(4) by (simp add: zx_data_dead)
qed

section \<open>Witnesses\<close>

definition zs_request :: js_value where
  "zs_request = JvObj [(''type'', JvStr ''request''), (''id'', JvStr ''Q1''), (''op'', JvStr ''WFPOpen''), (''service'', JvStr ''IDC'')]"

definition zs_env :: zx_env where
  "zs_env = \<lparr>ze_parse = (\<lambda>b. if b = null_text then Some JvNull else if b = [1] then Some zs_request else None),
     ze_text = (\<lambda>_. []), ze_string = (\<lambda>v. jv_str v), ze_typeError = [], ze_numText = (\<lambda>_. []),
     ze_payload = (\<lambda>_. xfs_no_payload), ze_reply = (\<lambda>_. JvNull), ze_eventPayload = (\<lambda>_. JvNull), ze_ts = [],
     ze_evtId = [], ze_xfs = xe_sample\<rparr>"

definition zs_bridge :: zx_bridge where
  "zs_bridge = zx_connect 7 zx_new"

lemma zs_open: "zx_open 7 zs_bridge"
  by (simp add: zx_open_def zs_bridge_def zx_connect_def zx_new_def)

lemma zxfs_frames_roundtrip_witness:
  "chunk_stream zx_onData [[2, 0], [0, 0, 65], [66, 1, 0, 0, 0, 67]] (Some []) = ([[65, 66], [67]], Some [])"
proof -
  have "concat [[2, 0], [0, 0, 65], [66, 1, 0, 0, 0, 67]] = concat (map zx_frame [[65, 66], [67 :: byte]])"
    by (simp add: zx_frame_def writeUInt32LE_def)
  moreover have "\<forall>b\<in>set [[65, 66], [67 :: byte]]. length b \<le> 1000000" by simp
  ultimately show ?thesis using zxfs_frames_roundtrip by blast
qed

lemma zxfs_answers_every_request_witness:
  "(\<exists>b' m'. fold zx_step [Zx_Frames zs_env 7 [[1], [1]]] (zs_bridge, xm_boot) = (b', m')
     \<and> {#(7, JvStr ''Q1''), (7, JvStr ''Q1'')#} = mset (zx_responses (zb_sent b')) + mset (map snd (zb_waiting b')))
   \<and> (\<exists>b' m'. fold zx_step [Zx_Frames zs_env 7 [[1], null_text], Zx_Frames zs_env 7 [[1]]] (zs_bridge, xm_boot) = (b', m')
     \<and> zb_dead b')"
proof -
  have asks: "zx_asked zs_env 7 [1] = [(7, JvStr ''Q1'')]"
    by (simp add: zx_asked_def zs_env_def null_text_def ascii_encode_def zs_request_def)
  have kills: "\<not> zx_kills zs_env [1]" "zx_kills zs_env null_text"
    by (simp_all add: zx_kills_def zs_env_def null_text_def ascii_encode_def zs_request_def)
  have start: "zb_waiting zs_bridge = []" "zb_sent zs_bridge = []" "\<not> zb_dead zs_bridge"
    by (simp_all add: zs_bridge_def zx_connect_def zx_new_def)
  note run = zxfs_answers_every_request [OF start]
  show ?thesis
  proof
    obtain b' m' where R: "fold zx_step [Zx_Frames zs_env 7 [[1], [1]]] (zs_bridge, xm_boot) = (b', m')" by fastforce
    have "\<forall>st\<in>set [Zx_Frames zs_env 7 [[1], [1]]]. zx_socket_open zs_bridge st" using zs_open by simp
    from run [OF this R] show "\<exists>b' m'. fold zx_step [Zx_Frames zs_env 7 [[1], [1]]] (zs_bridge, xm_boot) = (b', m')
       \<and> {#(7, JvStr ''Q1''), (7, JvStr ''Q1'')#} = mset (zx_responses (zb_sent b')) + mset (map snd (zb_waiting b'))"
      using R asks kills by simp
    let ?steps = "[Zx_Frames zs_env 7 [[1], null_text], Zx_Frames zs_env 7 [[1]]]"
    obtain b2 m2 where R2: "fold zx_step ?steps (zs_bridge, xm_boot) = (b2, m2)" by fastforce
    have "\<forall>st\<in>set ?steps. zx_socket_open zs_bridge st" using zs_open by simp
    from run [OF this R2] show "\<exists>b' m'. fold zx_step ?steps (zs_bridge, xm_boot) = (b', m') \<and> zb_dead b'"
      using R2 kills by simp
  qed
qed

lemma zxfs_null_frame_kills_witness:
  "\<exists>b' m'. fold (zx_data zs_env 7) [[4, 0, 0, 0], null_text] (zs_bridge, xm_boot) = (b', m') \<and> zb_dead b'"
proof -
  obtain b' m' where R: "fold (zx_data zs_env 7) [[4, 0, 0, 0], null_text] (zs_bridge, xm_boot) = (b', m')" by fastforce
  have "concat [[4, 0, 0, 0], null_text] = zx_frame null_text @ []"
    by (simp add: zx_frame_def writeUInt32LE_def null_text_def ascii_encode_def)
  moreover have "ze_parse zs_env null_text = Some JvNull" by (simp add: zs_env_def)
  moreover have "map_of (zb_clients zs_bridge) 7 = Some (Some [])"
    by (simp add: zs_bridge_def zx_connect_def zx_new_def)
  ultimately show ?thesis using zxfs_null_frame_kills R by blast
qed

end
