(* ===== verification/Rest_Endpoints.thy ===== *)
theory Rest_Endpoints
  imports Request_Bodies Macro_Runner
begin

text \<open>
  The controllers of sessions, cards, cassettes and themes
  (\<^verbatim>\<open>apps/xfs-server/src/sessions/sessions.controller.ts\<close>, \<^verbatim>\<open>cards/cards.controller.ts\<close>,
  \<^verbatim>\<open>cassettes/cassettes.controller.ts\<close>, \<^verbatim>\<open>themes/themes.controller.ts\<close>). A request is refused with its
  failure, or starts the handler of the component behind it; an error that the component throws is a
  \<^const>\<open>Server_Error\<close>.
\<close>

section \<open>Sessions\<close>

definition sessions_current :: "'db world \<Rightarrow> AtmSession option" where
  "sessions_current w = atm_cur w"

definition sessions_insertCard :: "'db bank_ops \<Rightarrow> atm_env \<Rightarrow> string \<Rightarrow> 'db world
    \<Rightarrow> http_failure + 'db world \<times> progress" where
  "sessions_insertCard ops env pan w =
     (if \<not> InsertCardDto pan then Inl Bad_Body
      else (case db_findCard ops pan (h_db (w_host w)) of
              Inl e \<Rightarrow> Inl Server_Error
            | Inr None \<Rightarrow> Inl (Not_Found pan)
            | Inr (Some (c, _)) \<Rightarrow> Inr (atm_start env (In_InsertCard pan (card_of_row c)) w)))"

text \<open>The key reaches the PIN pad, then the action is announced. The answers are those of the commands the
  key completes.\<close>

definition sessions_pressKey :: "atm_env \<Rightarrow> string \<Rightarrow> 'db world \<Rightarrow> answer list \<times> 'db world" where
  "sessions_pressKey env key w =
     (let (as, w') = mx_press (ae_xfs env) [key] w
      in (as, atm_emitUserAction env (UA_KEY_PRESS key) (atm_cur_id w') w'))"

definition sessions_beginPin :: "atm_env \<Rightarrow> 'db world \<Rightarrow> 'db world \<times> progress" where
  "sessions_beginPin env w = atm_start env In_BeginPin w"

definition sessions_selectTransaction :: "atm_env \<Rightarrow> string \<Rightarrow> 'db world \<Rightarrow> http_failure + 'db world \<times> progress" where
  "sessions_selectTransaction env t w =
     (if \<not> SelectTransactionDto t then Inl Bad_Body else Inr (atm_start env (In_Select (txn_of t)) w))"

definition sessions_submitAmount :: "atm_env \<Rightarrow> jsnum \<Rightarrow> 'db world \<Rightarrow> http_failure + 'db world \<times> progress" where
  "sessions_submitAmount env amount w =
     (if \<not> SubmitAmountDto amount then Inl Bad_Body else Inr (atm_start env (In_Amount amount) w))"

definition sessions_confirm :: "atm_env \<Rightarrow> 'db world \<Rightarrow> 'db world \<times> progress" where
  "sessions_confirm env w = atm_start env In_Confirm w"

definition sessions_cancel :: "atm_env \<Rightarrow> string option \<Rightarrow> 'db world \<Rightarrow> 'db world \<times> progress" where
  "sessions_cancel env reason w = atm_start env (In_Cancel reason) w"

section \<open>Cards\<close>

text \<open>The table of cards has the PAN as its key and a foreign key to the accounts; the salt of the hash is a
  parameter.\<close>

definition card_track1 :: "CreateCardDto \<Rightarrow> string" where
  "card_track1 b = ''%B'' @ cc_pan b @ ''^'' @ cc_cardholderName b @ ''^'' @ cc_expiryDate b @ ''101100000000000000?''"

definition card_track2 :: "CreateCardDto \<Rightarrow> string" where
  "card_track2 b = '';'' @ cc_pan b @ ''='' @ cc_expiryDate b @ ''1011000000000?''"

definition cards_create :: "digest \<Rightarrow> nat list \<Rightarrow> CreateCardDto \<Rightarrow> bank \<Rightarrow> (http_failure + CardRow) \<times> bank" where
  "cards_create sha salt b db =
     (if \<not> CreateCardDto_valid b then (Inl Bad_Body, db)
      else if bk_cards db (cc_pan b) \<noteq> None \<or> bk_accounts db (cc_accountId b) = None then (Inl Server_Error, db)
      else (let c = \<lparr>cd_pan = cc_pan b, cd_cardholderName = cc_cardholderName b, cd_expiryDate = cc_expiryDate b,
                     cd_pin = hashPin sha salt (cc_pin b), cd_track1 = card_track1 b, cd_track2 = card_track2 b,
                     cd_issuer = ''ZEGEN'', cd_status = ''ACTIVE'', cd_failedPinCount = 0,
                     cd_accountId = cc_accountId b\<rparr>
            in (Inr c, put_card c db)))"

definition cards_remove :: "string \<Rightarrow> bank \<Rightarrow> (http_failure + string) \<times> bank" where
  "cards_remove pan db =
     (if bk_cards db pan = None then (Inl Server_Error, db)
      else (Inr pan, db\<lparr>bk_cards := (bk_cards db)(pan := None)\<rparr>))"

text \<open>The public view of a card, as it is listed.\<close>

definition card_listed :: "CardRow \<Rightarrow> string \<times> string \<times> string \<times> string \<times> string \<times> int" where
  "card_listed c = (cd_pan c, cd_cardholderName c, cd_expiryDate c, cd_status c, cd_issuer c, cd_failedPinCount c)"

section \<open>Cassettes\<close>

definition on_cdm :: "cdm_dev \<Rightarrow> 'db world \<Rightarrow> 'db world" where
  "on_cdm d w = w\<lparr>w_xfs := (w_xfs w)\<lparr>xm_devices := (xm_devices (w_xfs w))\<lparr>dv_cdm := d\<rparr>\<rparr>\<rparr>"

definition world_cdm :: "'db world \<Rightarrow> cdm_dev" where
  "world_cdm w = dv_cdm (xm_devices (w_xfs w))"

definition cassettes_list :: "'db world \<Rightarrow> CashUnit list" where
  "cassettes_list w = cdm_getUnits (world_cdm w)"

definition cassettes_replenish :: "string \<Rightarrow> jsnum \<Rightarrow> 'db world \<Rightarrow> (http_failure + CashUnit) \<times> 'db world" where
  "cassettes_replenish unitId cnt w =
     (case (if ReplenishDto cnt then js_to_int cnt else None) of
        None \<Rightarrow> (Inl Bad_Body, w)
      | Some n \<Rightarrow>
          (case cdm_replenishCassette unitId n (world_cdm w) of
             (Inl e, d) \<Rightarrow> (Inl Server_Error, on_cdm d w)
           | (Inr u, d) \<Rightarrow> (Inr u, on_cdm d w)))"

definition cassettes_jam :: "string \<Rightarrow> 'db world \<Rightarrow> (http_failure + unit) \<times> 'db world" where
  "cassettes_jam unitId w =
     (let (r, d, outs) = cdm_simulateJam unitId (world_cdm w); w' = on_cdm d w
      in (case r of Inl e \<Rightarrow> Inl Server_Error | Inr _ \<Rightarrow> Inr (), w'\<lparr>w_bus := w_bus w' @ atm_bus_outputs outs\<rparr>))"

definition cassettes_clearJam :: "string \<Rightarrow> 'db world \<Rightarrow> (http_failure + unit) \<times> 'db world" where
  "cassettes_clearJam unitId w =
     (let (r, d) = cdm_clearJam unitId (world_cdm w)
      in (case r of Inl e \<Rightarrow> Inl Server_Error | Inr _ \<Rightarrow> Inr (), on_cdm d w))"

section \<open>Themes\<close>

record BankTheme =
  bt_code :: string
  bt_name :: string
  bt_isDefault :: bool

definition themes_active :: "BankTheme list \<Rightarrow> http_failure + BankTheme" where
  "themes_active ts =
     (case find bt_isDefault ts of
        Some t \<Rightarrow> Inr t
      | None \<Rightarrow> (case ts of [] \<Rightarrow> Inl (Not_Found []) | t # _ \<Rightarrow> Inr t))"

text \<open>\<open>setActive\<close>: the theme that is announced and returned, and the table after the transaction.\<close>

definition themes_setActive :: "string \<Rightarrow> BankTheme list \<Rightarrow> (http_failure + BankTheme) \<times> BankTheme list" where
  "themes_setActive code ts =
     (if \<not> SetActiveDto code then (Inl Bad_Body, ts)
      else (case find (\<lambda>t. bt_code t = code) ts of
              None \<Rightarrow> (Inl (Not_Found code), ts)
            | Some t \<Rightarrow>
                (Inr (t\<lparr>bt_isDefault := True\<rparr>),
                 map (\<lambda>x. if bt_code x = code then x\<lparr>bt_isDefault := True\<rparr> else x)
                   (map (\<lambda>x. x\<lparr>bt_isDefault := False\<rparr>) ts))))"

definition themes_one :: "string \<Rightarrow> BankTheme list \<Rightarrow> http_failure + BankTheme" where
  "themes_one code ts =
     (case find (\<lambda>t. bt_code t = code) ts of None \<Rightarrow> Inl (Not_Found code) | Some t \<Rightarrow> Inr t)"

section \<open>Macros\<close>

text \<open>The body of a macro request. The steps are stored as they come; \<open>cast\<close> is what the runner reads from a
  stored step and \<open>vars\<close> from the variables.\<close>

record MacroBody =
  mb_name :: js_value
  mb_folder :: js_value
  mb_description :: js_value
  mb_tags :: js_value
  mb_steps :: js_value
  mb_variables :: js_value

record macro_cast =
  cast_step :: "js_value \<Rightarrow> MacroStep"
  cast_vars :: "js_value \<Rightarrow> (string \<times> param_value) list"

definition macros_create :: "macro_cast \<Rightarrow> string \<Rightarrow> MacroBody \<Rightarrow> Macro list \<Rightarrow> (http_failure + Macro) \<times> Macro list" where
  "macros_create cast newId b ms =
     (let r = sum_bind (requireString (mb_name b) ''name'' 200) (\<lambda>name.
              sum_bind (optionalString (mb_folder b) ''folder'' 1000) (\<lambda>folder.
              sum_bind (optionalString (mb_description b) ''description'' 1000) (\<lambda>description.
              sum_bind (optionalStringArray (mb_tags b) ''tags'') (\<lambda>tags.
              sum_bind (optionalStepArray (mb_steps b) ''steps'') (\<lambda>steps.
                Inr \<lparr>mc_id = newId, mc_name = name, mc_folder = folder, mc_description = description,
                     mc_tags = js_default tags [], mc_steps = map (cast_step cast) (js_default steps []),
                     mc_variables = (if jv_truthy (mb_variables b) \<and> jv_is_object (mb_variables b)
                       then cast_vars cast (mb_variables b) else [])\<rparr>)))))
      in case r of Inl e \<Rightarrow> (Inl e, ms) | Inr m \<Rightarrow> (Inr m, ms @ [m]))"

text \<open>One field of an update: absent, or checked and then set; a checked value that is \<^const>\<open>None\<close> is
  \<open>undefined\<close>, which the database client takes as no change.\<close>

definition edit_field :: "js_value \<Rightarrow> http_failure + 'a option \<Rightarrow> ('a \<Rightarrow> 'r \<Rightarrow> 'r) \<Rightarrow> http_failure + ('r \<Rightarrow> 'r)" where
  "edit_field v checked upd =
     (if v = JvUndefined then Inr id
      else sum_bind checked (\<lambda>x. Inr (case x of None \<Rightarrow> id | Some y \<Rightarrow> upd y)))"

definition check_variables :: "js_value \<Rightarrow> http_failure + js_value option" where
  "check_variables v =
     (if \<not> jv_truthy v \<or> \<not> jv_is_object v \<or> (case v of JvArr vs \<Rightarrow> True | _ \<Rightarrow> False) then Inl (Bad_Request ''variables'' AnObject)
      else Inr (Some v))"

definition macros_update :: "macro_cast \<Rightarrow> string \<Rightarrow> MacroBody \<Rightarrow> Macro list \<Rightarrow> (http_failure + Macro) \<times> Macro list" where
  "macros_update cast i b ms =
     (case find_macro i ms of
        None \<Rightarrow> (Inl (Not_Found i), ms)
      | Some m \<Rightarrow>
          (let r = sum_bind (edit_field (mb_name b) (sum_bind (requireString (mb_name b) ''name'' 200) (\<lambda>s. Inr (Some s)))
                       (\<lambda>s m. m\<lparr>mc_name := s\<rparr>)) (\<lambda>f1.
                   sum_bind (edit_field (mb_folder b) (optionalString (mb_folder b) ''folder'' 1000)
                       (\<lambda>s m. m\<lparr>mc_folder := Some s\<rparr>)) (\<lambda>f2.
                   sum_bind (edit_field (mb_description b) (optionalString (mb_description b) ''description'' 1000)
                       (\<lambda>s m. m\<lparr>mc_description := Some s\<rparr>)) (\<lambda>f3.
                   sum_bind (edit_field (mb_tags b) (optionalStringArray (mb_tags b) ''tags'') (\<lambda>s m. m\<lparr>mc_tags := s\<rparr>)) (\<lambda>f4.
                   sum_bind (edit_field (mb_steps b) (optionalStepArray (mb_steps b) ''steps'')
                       (\<lambda>s m. m\<lparr>mc_steps := map (cast_step cast) s\<rparr>)) (\<lambda>f5.
                   sum_bind (edit_field (mb_variables b) (check_variables (mb_variables b))
                       (\<lambda>v m. m\<lparr>mc_variables := cast_vars cast v\<rparr>)) (\<lambda>f6.
                     Inr (f6 (f5 (f4 (f3 (f2 (f1 m)))))))))))) 
           in case r of
                Inl e \<Rightarrow> (Inl e, ms)
              | Inr m' \<Rightarrow> (Inr m', map (\<lambda>x. if mc_id x = i then m' else x) ms)))"

text \<open>The runs of a deleted macro are deleted with it.\<close>

definition macros_remove :: "string \<Rightarrow> Macro list \<times> MacroRun list \<Rightarrow> (http_failure + string) \<times> Macro list \<times> MacroRun list" where
  "macros_remove i st =
     (if find_macro i (fst st) = None then (Inl Server_Error, st)
      else (Inr i, filter (\<lambda>m. mc_id m \<noteq> i) (fst st), filter (\<lambda>r. run_macroId r \<noteq> i) (snd st)))"

definition macros_runs :: "string \<Rightarrow> MacroRun list \<Rightarrow> MacroRun list" where
  "macros_runs i rs = take 30 (sort_key (\<lambda>r. - run_startedAt r) (filter (\<lambda>r. run_macroId r = i) rs))"

section \<open>Properties\<close>

text \<open>After a theme is activated it is the only default one, whatever the table was.\<close>

lemma themes_setActive_result:
  assumes "themes_setActive code ts = (Inr t, ts')"
  obtains t0 where "find (\<lambda>t. bt_code t = code) ts = Some t0" "t = t0\<lparr>bt_isDefault := True\<rparr>"
    and "ts' = map (\<lambda>x. x\<lparr>bt_isDefault := bt_code x = code\<rparr>) ts"
proof -
  obtain t0 where f: "find (\<lambda>t. bt_code t = code) ts = Some t0"
    using assms by (cases "find (\<lambda>t. bt_code t = code) ts") (simp_all add: themes_setActive_def split: if_splits)
  have "map (\<lambda>x. if bt_code x = code then x\<lparr>bt_isDefault := True\<rparr> else x) (map (\<lambda>x. x\<lparr>bt_isDefault := False\<rparr>) ts)
      = map (\<lambda>x. x\<lparr>bt_isDefault := bt_code x = code\<rparr>) ts"
    by simp
  then show ?thesis using that [OF f] assms f by (simp add: themes_setActive_def del: map_map split: if_splits)
qed

lemma themes_setActive_unique:
  assumes "themes_setActive code ts = (Inr t, ts')"
  shows "(\<forall>x\<in>set ts'. bt_isDefault x \<longleftrightarrow> bt_code x = code) \<and> themes_active ts' = Inr t"
proof -
  obtain t0 where t0: "find (\<lambda>t. bt_code t = code) ts = Some t0" "t = t0\<lparr>bt_isDefault := True\<rparr>"
    and ts': "ts' = map (\<lambda>x. x\<lparr>bt_isDefault := bt_code x = code\<rparr>) ts"
    by (rule themes_setActive_result [OF assms])
  have "find bt_isDefault ts' = map_option (\<lambda>x. x\<lparr>bt_isDefault := bt_code x = code\<rparr>) (find (\<lambda>t. bt_code t = code) ts)"
    unfolding ts' by (induction ts) simp_all
  moreover have "bt_code t0 = code" using t0(1) by (simp add: find_Some_iff) blast
  ultimately show ?thesis using t0 by (simp add: themes_active_def ts')
qed

text \<open>A folder, once set, cannot be cleared: null is answered with success and changes nothing.\<close>

lemma edit_field_keeps:
  assumes "edit_field v chk upd = Inr f" "\<And>y m. field (upd y m) = field m"
  shows "field (f m) = field m"
  using assms by (auto simp: edit_field_def sum_bind_Inr split: if_splits option.splits)

lemma macros_folder_not_cleared:
  assumes null: "mb_folder b = JvNull" and upd: "macros_update cast i b ms = (Inr m', ms')" and m: "find_macro i ms = Some m"
  shows "mc_folder m' = mc_folder m"
proof -
  have folder: "edit_field JvNull (optionalString JvNull ''folder'' 1000) (\<lambda>s m. m\<lparr>mc_folder := Some s\<rparr>) = Inr id"
    by (simp add: edit_field_def optionalString_def)
  obtain f1 f3 f4 f5 f6 where "m' = f6 (f5 (f4 (f3 (id (f1 m)))))"
    and "edit_field (mb_name b) (sum_bind (requireString (mb_name b) ''name'' 200) (\<lambda>s. Inr (Some s))) (\<lambda>s m. m\<lparr>mc_name := s\<rparr>) = Inr f1"
    and "edit_field (mb_description b) (optionalString (mb_description b) ''description'' 1000) (\<lambda>s m. m\<lparr>mc_description := Some s\<rparr>) = Inr f3"
    and "edit_field (mb_tags b) (optionalStringArray (mb_tags b) ''tags'') (\<lambda>s m. m\<lparr>mc_tags := s\<rparr>) = Inr f4"
    and "edit_field (mb_steps b) (optionalStepArray (mb_steps b) ''steps'') (\<lambda>s m. m\<lparr>mc_steps := map (cast_step cast) s\<rparr>) = Inr f5"
    and "edit_field (mb_variables b) (check_variables (mb_variables b)) (\<lambda>v m. m\<lparr>mc_variables := cast_vars cast v\<rparr>) = Inr f6"
    using upd unfolding macros_update_def m null folder
    by (simp add: Let_def split: sum.splits) (auto simp: sum_bind_Inr)
  then show ?thesis by (simp add: edit_field_keeps [where field = mc_folder])
qed

end
