(* ===== verification/Rest_Props.thy ===== *)
theory Rest_Props
  imports Rest_Endpoints Host_Theorems
begin

text \<open>
  What the endpoints of cards promise together with the host: a card that was created is opened by its
  PIN, and by no PIN of another digest.
\<close>

lemma cards_create_row:
  assumes "cards_create sha salt b db = (Inr c, db')"
  shows "bk_cards db' (cc_pan b) = Some c \<and> cd_pin c = hashPin sha salt (cc_pin b) \<and> cd_failedPinCount c = 0
    \<and> CreateCardDto_valid b"
  using assms by (auto simp: cards_create_def put_card_def Let_def split: if_splits)

text \<open>The first PIN tried on a card that was created through the endpoint succeeds exactly when it has the
  salted digest of the PIN of the request; otherwise the attempt is counted.\<close>

theorem card_created_opens_with_pin:
  assumes "\<And>x. he_sha256 env x \<noteq> [] \<and> (\<forall>y\<in>set (he_sha256 env x). y < 256)"
    and "salt \<noteq> []" and "\<forall>y\<in>set salt. y < 256"
    and "cards_create (he_sha256 env) salt b db = (Inr c, db')"
    and "bank_db_up ops view" and "view (h_db h) = db'"
  shows "\<exists>r h'. host_verifyPin ops env (cc_pan b) q h = Inr (r, h')
    \<and> (au_success r \<longleftrightarrow> he_sha256 env (salt @ js_utf8 q) = he_sha256 env (salt @ js_utf8 (cc_pin b)))
    \<and> au_responseCode r = (if au_success r then ''00'' else ''55'')
    \<and> map_option cd_failedPinCount (bk_cards (view (h_db h')) (cc_pan b)) = Some (if au_success r then 0 else 1)"
proof -
  note C = cards_create_row [OF assms(4)]
  note V = verifyPin_hashPin [of "he_sha256 env" salt q "cc_pin b", OF assms(1-3)]
  have db: "bank_db ops view" using assms(5) by (rule bank_db_up.axioms(1))
  obtain r h' where R: "host_verifyPin ops env (cc_pan b) q h = Inr (r, h')"
    using bank_db_up.verifyPin_up [OF assms(5)] by blast
  have pan: "cd_pan c = cc_pan b" using assms(4) by (auto simp: cards_create_def Let_def split: if_splits)
  show ?thesis
    using bank_db.verifyPin_cases [OF db R] C V R pan
    by (auto simp: assms(6) Let_def put_card_def)
qed

definition rs_body :: CreateCardDto where
  "rs_body = \<lparr>cc_pan = ''5221840000000017'', cc_cardholderName = ''A'', cc_expiryDate = ''2812'', cc_pin = ''1234'',
     cc_accountId = ''A1''\<rparr>"

lemma card_created_opens_with_pin_witness:
  "\<exists>c db' r h'. cards_create (he_sha256 hs_env) [7] rs_body hs_bank = (Inr c, db')
     \<and> host_verifyPin mem_ops hs_env ''5221840000000017'' ''1234'' (hs_host\<lparr>h_db := db'\<rparr>) = Inr (r, h') \<and> au_success r"
proof -
  have "\<exists>c db'. cards_create (he_sha256 hs_env) [7] rs_body hs_bank = (Inr c, db')"
    by (simp add: cards_create_def CreateCardDto_valid_def digits_between_def rs_body_def is_digit_def hs_bank_def Let_def)
  then obtain c db' where C: "cards_create (he_sha256 hs_env) [7] rs_body hs_bank = (Inr c, db')" by blast
  have "he_sha256 hs_env x \<noteq> [] \<and> (\<forall>y\<in>set (he_sha256 hs_env x). y < 256)" for x
    by (simp add: hs_env_def hs_sha_def)
  from card_created_opens_with_pin [OF this _ _ C mem_bank_db_up, of "hs_host\<lparr>h_db := db'\<rparr>" "''1234''"] C
  show ?thesis by (auto simp: rs_body_def)
qed

end
