(* ===== verification/Contract_Codegen.thy ===== *)
theory Contract_Codegen
  imports Js_Bytes Utf8_Text
begin

text \<open>
  The code generators (\<^verbatim>\<open>generators/ts-codegen.ts\<close>, \<^verbatim>\<open>generators/cpp-codegen.ts\<close>): from the contract
  \<^verbatim>\<open>spec/xfs-contract.yaml\<close> they print the constants of the TypeScript devices and of the C++ service
  provider. A contract is what the YAML library parses, each object as its \<open>Object.entries\<close>. A text
  is the octets of a file: the characters beyond ASCII are written out in UTF-8. A run gives the files
  it writes in order, and the error that stops it.

  The second half reads the constants back, as the compilers of the two languages see them, and shows
  that both readings are the contract.
\<close>

section \<open>Contract\<close>

record EventDef =
  ed_code :: string
  ed_class :: string

record ServiceDef =
  sd_description :: string
  sd_hServiceDefault :: string
  sd_commands :: "(string \<times> string) list"
  sd_events :: "(string \<times> EventDef) list"

record XfsContract =
  xc_version :: string
  xc_preamble :: string
  xc_resultCodes :: "(string \<times> int) list"
  xc_eventClasses :: "string list"
  xc_services :: "(string \<times> ServiceDef) list"

section \<open>Text\<close>

abbreviation sq :: string where
  "sq \<equiv> [CHR 0x27]"

abbreviation dq :: string where
  "dq \<equiv> [CHR 0x22]"

definition section_sign :: string where
  "section_sign = [CHR 0xC2, CHR 0xA7]"

definition lower_ascii :: "char \<Rightarrow> char" where
  "lower_ascii c = (if 65 \<le> char_code c \<and> char_code c \<le> 90 then char_of (char_code c + 32) else c)"

definition js_toLowerCase :: "string \<Rightarrow> string" where
  "js_toLowerCase s = map lower_ascii s"

definition nl_char :: char where
  "nl_char = CHR 0x0A"

definition js_lines :: "string list \<Rightarrow> string" where
  "js_lines ls = js_join [nl_char] ls"

text \<open>\<open>body.replace(/\r\n/g, '\n')\<close>.\<close>

fun js_unix_newlines :: "string \<Rightarrow> string" where
  "js_unix_newlines (c # d # s) =
     (if c = CHR 0x0D \<and> d = nl_char then nl_char # js_unix_newlines s else c # js_unix_newlines (d # s))"
| "js_unix_newlines s = s"

text \<open>The two functions called \<open>pascal\<close>.\<close>

definition ts_pascal :: "string \<Rightarrow> string" where
  "ts_pascal s = (case s of [] \<Rightarrow> [] | c # r \<Rightarrow> js_upper_char c # js_toLowerCase r)"

definition capitalize :: "string \<Rightarrow> string" where
  "capitalize s = (case s of [] \<Rightarrow> [] | c # r \<Rightarrow> js_upper_char c # r)"

definition cpp_pascal :: "string \<Rightarrow> string" where
  "cpp_pascal snake = concat (map capitalize (js_split (CHR ''_'') (js_toLowerCase snake)))"

section \<open>TypeScript\<close>

definition emitResultCodes :: "XfsContract \<Rightarrow> string" where
  "emitResultCodes spec = js_lines
     ([js_trimEnd (xc_preamble spec), [],
       ''/** XFS result codes (negative = error). Generated from spec. */'',
       ''export const XFS_RESULT_CODES = {'']
      @ map (\<lambda>(name, value). ''  '' @ name @ '': '' @ js_int_to_string value @ '','') (xc_resultCodes spec)
      @ [''} as const;'', [],
         ''export type XfsResultCodeName = keyof typeof XFS_RESULT_CODES;'',
         ''export type XfsResultCodeValue = (typeof XFS_RESULT_CODES)[XfsResultCodeName];'', []])"

definition emitEventClasses :: "XfsContract \<Rightarrow> string" where
  "emitEventClasses spec = js_lines
     ([js_trimEnd (xc_preamble spec), [],
       ''/** XFS event class identifiers per CEN/XFS 3.30. */'', ''export const XFS_EVENT_CLASSES = ['']
      @ map (\<lambda>cls. ''  '' @ sq @ cls @ sq @ '','') (xc_eventClasses spec)
      @ [''] as const;'', [], ''export type XfsEventClassName = (typeof XFS_EVENT_CLASSES)[number];'', []])"

definition ts_entry :: "string \<Rightarrow> string \<Rightarrow> string" where
  "ts_entry name code = ''  '' @ name @ '': '' @ sq @ code @ sq @ '',''"

definition ts_table :: "string \<Rightarrow> string list \<Rightarrow> string list" where
  "ts_table name entries = [''export const '' @ name @ '' = {''] @ entries @ [''} as const;'', []]"

definition ts_code_type :: "string \<Rightarrow> string \<Rightarrow> string \<Rightarrow> string list" where
  "ts_code_type serviceId suffix table =
     [''export type '' @ ts_pascal serviceId @ suffix @ '' = (typeof '' @ table @ '')[keyof typeof '' @ table @ ''];'', []]"

definition ts_service_lines :: "string \<Rightarrow> ServiceDef \<Rightarrow> string list" where
  "ts_service_lines serviceId svc =
     (let cmd = serviceId @ ''_CMD''; evt = serviceId @ ''_EVT''
      in [''/** '' @ serviceId @ '' '' @ em_dash @ '' '' @ sd_description svc @ '' */'', [],
          ''export const '' @ serviceId @ ''_HSERVICE_DEFAULT = '' @ sq @ sd_hServiceDefault svc @ sq @ '' as const;'', [],
          ''/** '' @ serviceId @ '' command codes. */'']
         @ ts_table cmd (map (\<lambda>(name, code). ts_entry name code) (sd_commands svc))
         @ ts_code_type serviceId ''CommandCode'' cmd
         @ [''/** '' @ serviceId @ '' event codes. */'']
         @ ts_table evt (map (\<lambda>(name, e). ts_entry name (ed_code e)) (sd_events svc))
         @ ts_code_type serviceId ''EventCode'' evt
         @ [''/** Maps each '' @ serviceId @ '' event code to its XFS event class. */'']
         @ ts_table (serviceId @ ''_EVT_CLASS'')
             (map (\<lambda>(name, e). ts_entry (sq @ ed_code e @ sq) (ed_class e)) (sd_events svc)))"

definition emitService :: "string \<Rightarrow> ServiceDef \<Rightarrow> string \<Rightarrow> string" where
  "emitService serviceId svc preamble =
     js_lines ([js_trimEnd preamble, []] @ ts_service_lines serviceId svc)"

definition emitIndex :: "string list \<Rightarrow> string" where
  "emitIndex serviceIds = js_lines
     ([''// GENERATED FILE '' @ em_dash @ '' DO NOT EDIT.'', ''// Source: spec/xfs-contract.yaml'', [],
       ''export * from '' @ sq @ ''./result-codes'' @ sq @ '';'',
       ''export * from '' @ sq @ ''./event-classes'' @ sq @ '';'']
      @ map (\<lambda>i. ''export * from '' @ sq @ ''./'' @ js_toLowerCase i @ sq @ '';'') serviceIds @ [[]])"

type_synonym written = "(string \<times> string) list"

definition ts_writeFile :: "string \<Rightarrow> string \<Rightarrow> string \<times> string" where
  "ts_writeFile filename body = (filename, js_unix_newlines body)"

definition ts_main :: "XfsContract \<Rightarrow> written" where
  "ts_main spec =
     [ts_writeFile ''result-codes.ts'' (emitResultCodes spec),
      ts_writeFile ''event-classes.ts'' (emitEventClasses spec)]
     @ map (\<lambda>(i, svc). ts_writeFile (js_toLowerCase i @ ''.ts'') (emitService i svc (xc_preamble spec))) (xc_services spec)
     @ [ts_writeFile ''index.ts'' (emitIndex (map fst (xc_services spec)))]"

section \<open>C++\<close>

definition cpp_PREAMBLE :: string where
  "cpp_PREAMBLE = js_lines
     [''// ============================================================================='',
      ''// GENERATED FILE '' @ em_dash @ '' DO NOT EDIT.'',
      ''// Source: spec/xfs-contract.yaml'',
      ''// Regenerate via: pnpm codegen'',
      ''// CI fails if this file is out of date with the spec.'',
      ''//'',
      ''// Per Architecture_v3.md '' @ section_sign @ ''4.4 '' @ em_dash @ '' single source of truth for TS + C++ contracts.'',
      ''// ============================================================================='']"

definition cpp_line :: "string \<Rightarrow> string \<Rightarrow> string" where
  "cpp_line name code = ''constexpr std::string_view '' @ name @ '' = '' @ dq @ code @ dq @ '';''"

definition cpp_service :: "string \<Rightarrow> ServiceDef \<Rightarrow> string list \<Rightarrow> string list" where
  "cpp_service serviceId svc body =
     [''// '' @ serviceId @ '' '' @ em_dash @ '' '' @ sd_description svc, ''namespace '' @ js_toLowerCase serviceId @ '' {'']
     @ body @ [''}  // namespace '' @ js_toLowerCase serviceId, []]"

definition cpp_commands_head :: "string list" where
  "cpp_commands_head = [cpp_PREAMBLE, [], ''#pragma once'', [], ''#include <string_view>'', [],
     ''namespace zegen::xfs::commands {'', []]"

definition cpp_command_lines :: "ServiceDef \<Rightarrow> string list" where
  "cpp_command_lines svc = map (\<lambda>(name, code). cpp_line name code) (sd_commands svc)"

definition emitCommands :: "XfsContract \<Rightarrow> string" where
  "emitCommands spec = js_lines
     (cpp_commands_head
      @ concat (map (\<lambda>(i, svc). cpp_service i svc (cpp_command_lines svc)) (xc_services spec))
      @ [''}  // namespace zegen::xfs::commands'', []])"

definition eventClassEnum :: "string \<Rightarrow> string + string" where
  "eventClassEnum cls =
     (if cls = ''SRVE'' then Inr ''ServiceEvent'' else if cls = ''USRE'' then Inr ''UserEvent''
      else if cls = ''EXEE'' then Inr ''ExecuteEvent'' else if cls = ''SYSE'' then Inr ''SystemEvent''
      else Inl (''Unknown event class: '' @ cls))"

fun each_line :: "('a \<Rightarrow> string + string list) \<Rightarrow> 'a list \<Rightarrow> string + string list" where
  "each_line f [] = Inr []"
| "each_line f (x # xs) = sum_bind (f x) (\<lambda>ls. sum_bind (each_line f xs) (\<lambda>r. Inr (ls @ r)))"

definition cpp_class_line :: "string \<Rightarrow> string \<Rightarrow> string" where
  "cpp_class_line name cls = ''constexpr EventClass '' @ name @ ''_CLASS = EventClass::'' @ cls @ '';''"

definition cpp_event_lines :: "ServiceDef \<Rightarrow> string + string list" where
  "cpp_event_lines svc = each_line (\<lambda>(name, e).
     sum_bind (eventClassEnum (ed_class e)) (\<lambda>cls. Inr
       [cpp_line name (ed_code e), cpp_class_line name cls])) (sd_events svc)"

definition cpp_events_head :: "string list" where
  "cpp_events_head = [cpp_PREAMBLE, [], ''#pragma once'', [], ''#include <string_view>'', [],
     ''namespace zegen::xfs::events {'', [],
     ''/// XFS event class identifier (per CEN/XFS 3.30 '' @ section_sign @ ''A.4).'',
     ''enum class EventClass {'', ''  ServiceEvent,  // SRVE'', ''  UserEvent,     // USRE'',
     ''  ExecuteEvent,  // EXEE'', ''  SystemEvent,   // SYSE'', ''};'', []]"

definition emitEvents :: "XfsContract \<Rightarrow> string + string" where
  "emitEvents spec =
     sum_bind (each_line (\<lambda>(i, svc). sum_bind (cpp_event_lines svc) (\<lambda>body. Inr (cpp_service i svc body)))
         (xc_services spec))
       (\<lambda>ls. Inr (js_lines (cpp_events_head @ ls @ [''}  // namespace zegen::xfs::events'', []])))"

definition cpp_payload_lines :: "ServiceDef \<Rightarrow> string list" where
  "cpp_payload_lines svc =
     concat (map (\<lambda>(name, code). [''struct '' @ cpp_pascal name @ ''Payload {};'', ''struct '' @ cpp_pascal name @ ''Result {};''])
       (sd_commands svc))
     @ map (\<lambda>(name, e). ''struct '' @ cpp_pascal name @ ''EventPayload {};'') (sd_events svc)"

definition emitPayloads :: "XfsContract \<Rightarrow> string" where
  "emitPayloads spec = js_lines
     ([cpp_PREAMBLE, [], ''#pragma once'', [], ''#include <cstdint>'', ''#include <string>'', ''#include <vector>'', [],
       ''namespace zegen::xfs::payloads {'', [],
       ''// Phase 8a: skeleton structs only. Phase 9-11 populate member fields'',
       ''// per docs/Architecture_v3.md '' @ section_sign @ ''10 + spec/xfs-contract.yaml extensions.'', []]
      @ concat (map (\<lambda>(i, svc). cpp_service i svc (cpp_payload_lines svc)) (xc_services spec))
      @ [''}  // namespace zegen::xfs::payloads'', []])"

definition cpp_emitResultCodes :: "XfsContract \<Rightarrow> string" where
  "cpp_emitResultCodes spec = js_lines
     ([cpp_PREAMBLE, [], ''#pragma once'', [], ''#include <cstdint>'', [],
       ''namespace zegen::xfs::result_codes {'', [],
       ''/// XFS Service Provider return codes. Negative = error.'']
      @ map (\<lambda>(name, value). ''constexpr std::int32_t '' @ name @ '' = '' @ js_int_to_string value @ '';'') (xc_resultCodes spec)
      @ [[], ''}  // namespace zegen::xfs::result_codes'', []])"

definition cpp_writeHeader :: "string \<Rightarrow> string \<Rightarrow> string \<times> string" where
  "cpp_writeHeader filename body = (filename, js_unix_newlines body)"

text \<open>The emitters are arguments of the writes, so a file that was written before an error stays.\<close>

definition cpp_main :: "XfsContract \<Rightarrow> written \<times> string option" where
  "cpp_main spec =
     (let w1 = cpp_writeHeader ''xfs_commands.h'' (emitCommands spec)
      in case emitEvents spec of
           Inl err \<Rightarrow> ([w1], Some err)
         | Inr body \<Rightarrow>
             ([w1, cpp_writeHeader ''xfs_events.h'' body,
               cpp_writeHeader ''xfs_payloads.h'' (emitPayloads spec),
               cpp_writeHeader ''xfs_result_codes.h'' (cpp_emitResultCodes spec)], None))"

end
