(* ===== verification/Contract_Files.thy ===== *)
theory Contract_Files
  imports Contract_Codegen
begin

text \<open>
  The contract of the repository (\<^verbatim>\<open>spec/xfs-contract.yaml\<close>) as a value, and the files of
  \<^verbatim>\<open>packages/xfs-core/src/generated/\<close>, which the repository holds as generated from it, line by line.
\<close>

section \<open>The contract\<close>

definition spec_idc :: ServiceDef where
  "spec_idc = \<lparr>
     sd_description = ''Identification Card (card reader). Motor / DIP / contactless.'',
     sd_hServiceDefault = ''IDC30'',
     sd_commands =
      [(''READ_RAW_DATA'', ''WFS_CMD_IDC_READ_RAW_DATA''),
       (''READ_TRACK'', ''WFS_CMD_IDC_READ_TRACK''),
       (''WRITE_TRACK'', ''WFS_CMD_IDC_WRITE_TRACK''),
       (''EJECT_CARD'', ''WFS_CMD_IDC_EJECT_CARD''),
       (''RETAIN_CARD'', ''WFS_CMD_IDC_RETAIN_CARD''),
       (''RESET_COUNT'', ''WFS_CMD_IDC_RESET_COUNT''),
       (''RESET'', ''WFS_CMD_IDC_RESET''),
       (''CHIP_IO'', ''WFS_CMD_IDC_CHIP_IO''),
       (''CHIP_POWER'', ''WFS_CMD_IDC_CHIP_POWER'')],
     sd_events =
      [(''MEDIA_INSERTED'', \<lparr>ed_code = ''WFS_SRVE_IDC_MEDIAINSERTED'', ed_class = ''SRVE''\<rparr>),
       (''MEDIA_REMOVED'', \<lparr>ed_code = ''WFS_SRVE_IDC_MEDIAREMOVED'', ed_class = ''SRVE''\<rparr>),
       (''MEDIA_RETAINED'', \<lparr>ed_code = ''WFS_SRVE_IDC_MEDIARETAINED'', ed_class = ''SRVE''\<rparr>),
       (''INVALID_TRACK_DATA'', \<lparr>ed_code = ''WFS_EXEE_IDC_INVALIDTRACKDATA'', ed_class = ''EXEE''\<rparr>),
       (''INVALID_MEDIA'', \<lparr>ed_code = ''WFS_EXEE_IDC_INVALIDMEDIA'', ed_class = ''EXEE''\<rparr>)]\<rparr>"

definition spec_pin :: ServiceDef where
  "spec_pin = \<lparr>
     sd_description = ''PIN Pad / Encrypting PIN Pad (EPP). Captures PINs, derives PIN blocks.'',
     sd_hServiceDefault = ''PIN30'',
     sd_commands =
      [(''GET_PIN'', ''WFS_CMD_PIN_GET_PIN''),
       (''GET_PINBLOCK'', ''WFS_CMD_PIN_GET_PINBLOCK''),
       (''GET_DATA'', ''WFS_CMD_PIN_GET_DATA''),
       (''RESET'', ''WFS_CMD_PIN_RESET''),
       (''IMPORT_KEY'', ''WFS_CMD_PIN_IMPORT_KEY''),
       (''GET_KEY_DETAIL'', ''WFS_CMD_PIN_GET_KEY_DETAIL'')],
     sd_events =
      [(''KEY'', \<lparr>ed_code = ''WFS_EXEE_PIN_KEY'', ed_class = ''EXEE''\<rparr>),
       (''ENTER_DATA'', \<lparr>ed_code = ''WFS_EXEE_PIN_ENTERDATA'', ed_class = ''EXEE''\<rparr>),
       (''DATA_READY'', \<lparr>ed_code = ''WFS_EXEE_PIN_DATAREADY'', ed_class = ''EXEE''\<rparr>)]\<rparr>"

definition spec_cdm :: ServiceDef where
  "spec_cdm = \<lparr>
     sd_description = ''Cash Dispenser Module. Cassettes, denomination mix, present/retract.'',
     sd_hServiceDefault = ''CDM30'',
     sd_commands =
      [(''DISPENSE'', ''WFS_CMD_CDM_DISPENSE''),
       (''PRESENT'', ''WFS_CMD_CDM_PRESENT''),
       (''REJECT'', ''WFS_CMD_CDM_REJECT''),
       (''RETRACT'', ''WFS_CMD_CDM_RETRACT''),
       (''COUNT'', ''WFS_CMD_CDM_COUNT''),
       (''CASH_UNIT_INFO'', ''WFS_CMD_CDM_CASH_UNIT_INFO''),
       (''START_EXCHANGE'', ''WFS_CMD_CDM_START_EXCHANGE''),
       (''END_EXCHANGE'', ''WFS_CMD_CDM_END_EXCHANGE''),
       (''RESET'', ''WFS_CMD_CDM_RESET'')],
     sd_events =
      [(''CASH_UNIT_THRESHOLD'', \<lparr>ed_code = ''WFS_SRVE_CDM_CASHUNITTHRESHOLD'', ed_class = ''SRVE''\<rparr>),
       (''SAFE_DOOR_OPEN'', \<lparr>ed_code = ''WFS_SRVE_CDM_SAFEDOOROPEN'', ed_class = ''SRVE''\<rparr>),
       (''SAFE_DOOR_CLOSED'', \<lparr>ed_code = ''WFS_SRVE_CDM_SAFEDOORCLOSED'', ed_class = ''SRVE''\<rparr>),
       (''NOTES_PRESENTED'', \<lparr>ed_code = ''WFS_EXEE_CDM_NOTESPRESENTED'', ed_class = ''EXEE''\<rparr>),
       (''NOTES_TAKEN'', \<lparr>ed_code = ''WFS_SRVE_CDM_ITEMSTAKEN'', ed_class = ''SRVE''\<rparr>),
       (''JAM'', \<lparr>ed_code = ''WFS_SRVE_CDM_MEDIADETECTED'', ed_class = ''SRVE''\<rparr>),
       (''EXCHANGE_STATE_CHANGED'', \<lparr>ed_code = ''WFS_SRVE_CDM_EXCHANGESTATECHANGED'', ed_class = ''SRVE''\<rparr>)]\<rparr>"

definition spec_ptr :: ServiceDef where
  "spec_ptr = \<lparr>
     sd_description = ''Printer (receipt + journal). Thermal / inkjet / impact.'',
     sd_hServiceDefault = ''PTR30'',
     sd_commands =
      [(''PRINT_FORM'', ''WFS_CMD_PTR_PRINT_FORM''),
       (''RAW_DATA'', ''WFS_CMD_PTR_RAW_DATA''),
       (''CUT_PAPER'', ''WFS_CMD_PTR_CUT_PAPER''),
       (''RESET'', ''WFS_CMD_PTR_RESET'')],
     sd_events =
      [(''PAPER_THRESHOLD'', \<lparr>ed_code = ''WFS_SRVE_PTR_PAPERTHRESHOLD'', ed_class = ''SRVE''\<rparr>),
       (''MEDIA_PRESENTED'', \<lparr>ed_code = ''WFS_SRVE_PTR_MEDIAPRESENTED'', ed_class = ''SRVE''\<rparr>),
       (''MEDIA_TAKEN'', \<lparr>ed_code = ''WFS_SRVE_PTR_MEDIATAKEN'', ed_class = ''SRVE''\<rparr>)]\<rparr>"

definition spec_siu :: ServiceDef where
  "spec_siu = \<lparr>
     sd_description = ''Sensors & Indicators Unit. Cabinet/safe doors, tamper, LEDs, supervisor key.'',
     sd_hServiceDefault = ''SIU30'',
     sd_commands =
      [(''ENABLE_EVENTS'', ''WFS_CMD_SIU_ENABLE_EVENTS''),
       (''DISABLE_EVENTS'', ''WFS_CMD_SIU_DISABLE_EVENTS''),
       (''SET_INDICATOR'', ''WFS_CMD_SIU_SET_INDICATOR''),
       (''GET_SENSOR_STATUS'', ''WFS_CMD_SIU_GET_SENSOR_STATUS''),
       (''RESET'', ''WFS_CMD_SIU_RESET'')],
     sd_events =
      [(''PORT_STATUS'', \<lparr>ed_code = ''WFS_SRVE_SIU_PORT_STATUS'', ed_class = ''SRVE''\<rparr>),
       (''CABINET_STATUS'', \<lparr>ed_code = ''WFS_USRE_SIU_CABINET_STATUS'', ed_class = ''USRE''\<rparr>),
       (''SAFE_DOOR'', \<lparr>ed_code = ''WFS_USRE_SIU_SAFE_DOOR'', ed_class = ''USRE''\<rparr>),
       (''TAMPER_SENSOR'', \<lparr>ed_code = ''WFS_USRE_SIU_TAMPER_SENSOR'', ed_class = ''USRE''\<rparr>),
       (''OPERATOR_SWITCH'', \<lparr>ed_code = ''WFS_USRE_SIU_OPERATOR_SWITCH'', ed_class = ''USRE''\<rparr>)]\<rparr>"

definition spec_preamble :: "string list" where
  "spec_preamble = [''// GENERATED FILE '' @ em_dash @ '' DO NOT EDIT.'',
     ''// Source: spec/xfs-contract.yaml'',
     ''// Regenerate via: pnpm codegen'',
     ''// CI fails if this file is out of date with the spec.'']"

definition xfs_contract :: XfsContract where
  "xfs_contract = \<lparr>
     xc_version = ''3.30'',
     xc_preamble = js_lines (spec_preamble @ [[]]),
     xc_resultCodes =
      [(''SUCCESS'', 0),
       (''ERR_CANCEL'', - 1),
       (''ERR_DEV_NOT_READY'', - 2),
       (''ERR_HARDWARE_ERROR'', - 3),
       (''ERR_INVALID_HSERVICE'', - 4),
       (''ERR_INTERNAL_ERROR'', - 5),
       (''ERR_TIMEOUT'', - 6),
       (''ERR_USER_ERROR'', - 7),
       (''ERR_UNSUPP_COMMAND'', - 8),
       (''ERR_SERVICE_NOT_FOUND'', - 9),
       (''ERR_LOCKED'', - 10),
       (''ERR_NOT_STARTED'', - 11)],
     xc_eventClasses = [''SRVE'', ''USRE'', ''EXEE'', ''SYSE''],
     xc_services = [(''IDC'', spec_idc), (''PIN'', spec_pin), (''CDM'', spec_cdm), (''PTR'', spec_ptr), (''SIU'', spec_siu)]\<rparr>"

section \<open>The files\<close>

definition file_result_codes_ts :: "string list" where
  "file_result_codes_ts =
    [''// GENERATED FILE '' @ em_dash @ '' DO NOT EDIT.'',
     ''// Source: spec/xfs-contract.yaml'',
     ''// Regenerate via: pnpm codegen'',
     ''// CI fails if this file is out of date with the spec.'',
     [],
     ''/** XFS result codes (negative = error). Generated from spec. */'',
     ''export const XFS_RESULT_CODES = {'',
     ''  SUCCESS: 0,'',
     ''  ERR_CANCEL: -1,'',
     ''  ERR_DEV_NOT_READY: -2,'',
     ''  ERR_HARDWARE_ERROR: -3,'',
     ''  ERR_INVALID_HSERVICE: -4,'',
     ''  ERR_INTERNAL_ERROR: -5,'',
     ''  ERR_TIMEOUT: -6,'',
     ''  ERR_USER_ERROR: -7,'',
     ''  ERR_UNSUPP_COMMAND: -8,'',
     ''  ERR_SERVICE_NOT_FOUND: -9,'',
     ''  ERR_LOCKED: -10,'',
     ''  ERR_NOT_STARTED: -11,'',
     ''} as const;'',
     [],
     ''export type XfsResultCodeName = keyof typeof XFS_RESULT_CODES;'',
     ''export type XfsResultCodeValue = (typeof XFS_RESULT_CODES)[XfsResultCodeName];'',
     []]"

definition file_event_classes_ts :: "string list" where
  "file_event_classes_ts =
    [''// GENERATED FILE '' @ em_dash @ '' DO NOT EDIT.'',
     ''// Source: spec/xfs-contract.yaml'',
     ''// Regenerate via: pnpm codegen'',
     ''// CI fails if this file is out of date with the spec.'',
     [],
     ''/** XFS event class identifiers per CEN/XFS 3.30. */'',
     ''export const XFS_EVENT_CLASSES = ['',
     ''  'SRVE','',
     ''  'USRE','',
     ''  'EXEE','',
     ''  'SYSE','',
     ''] as const;'',
     [],
     ''export type XfsEventClassName = (typeof XFS_EVENT_CLASSES)[number];'',
     []]"

definition file_idc_ts :: "string list" where
  "file_idc_ts =
    [''// GENERATED FILE '' @ em_dash @ '' DO NOT EDIT.'',
     ''// Source: spec/xfs-contract.yaml'',
     ''// Regenerate via: pnpm codegen'',
     ''// CI fails if this file is out of date with the spec.'',
     [],
     ''/** IDC '' @ em_dash @ '' Identification Card (card reader). Motor / DIP / contactless. */'',
     [],
     ''export const IDC_HSERVICE_DEFAULT = 'IDC30' as const;'',
     [],
     ''/** IDC command codes. */'',
     ''export const IDC_CMD = {'',
     ''  READ_RAW_DATA: 'WFS_CMD_IDC_READ_RAW_DATA','',
     ''  READ_TRACK: 'WFS_CMD_IDC_READ_TRACK','',
     ''  WRITE_TRACK: 'WFS_CMD_IDC_WRITE_TRACK','',
     ''  EJECT_CARD: 'WFS_CMD_IDC_EJECT_CARD','',
     ''  RETAIN_CARD: 'WFS_CMD_IDC_RETAIN_CARD','',
     ''  RESET_COUNT: 'WFS_CMD_IDC_RESET_COUNT','',
     ''  RESET: 'WFS_CMD_IDC_RESET','',
     ''  CHIP_IO: 'WFS_CMD_IDC_CHIP_IO','',
     ''  CHIP_POWER: 'WFS_CMD_IDC_CHIP_POWER','',
     ''} as const;'',
     [],
     ''export type IdcCommandCode = (typeof IDC_CMD)[keyof typeof IDC_CMD];'',
     [],
     ''/** IDC event codes. */'',
     ''export const IDC_EVT = {'',
     ''  MEDIA_INSERTED: 'WFS_SRVE_IDC_MEDIAINSERTED','',
     ''  MEDIA_REMOVED: 'WFS_SRVE_IDC_MEDIAREMOVED','',
     ''  MEDIA_RETAINED: 'WFS_SRVE_IDC_MEDIARETAINED','',
     ''  INVALID_TRACK_DATA: 'WFS_EXEE_IDC_INVALIDTRACKDATA','',
     ''  INVALID_MEDIA: 'WFS_EXEE_IDC_INVALIDMEDIA','',
     ''} as const;'',
     [],
     ''export type IdcEventCode = (typeof IDC_EVT)[keyof typeof IDC_EVT];'',
     [],
     ''/** Maps each IDC event code to its XFS event class. */'',
     ''export const IDC_EVT_CLASS = {'',
     ''  'WFS_SRVE_IDC_MEDIAINSERTED': 'SRVE','',
     ''  'WFS_SRVE_IDC_MEDIAREMOVED': 'SRVE','',
     ''  'WFS_SRVE_IDC_MEDIARETAINED': 'SRVE','',
     ''  'WFS_EXEE_IDC_INVALIDTRACKDATA': 'EXEE','',
     ''  'WFS_EXEE_IDC_INVALIDMEDIA': 'EXEE','',
     ''} as const;'',
     []]"

definition file_pin_ts :: "string list" where
  "file_pin_ts =
    [''// GENERATED FILE '' @ em_dash @ '' DO NOT EDIT.'',
     ''// Source: spec/xfs-contract.yaml'',
     ''// Regenerate via: pnpm codegen'',
     ''// CI fails if this file is out of date with the spec.'',
     [],
     ''/** PIN '' @ em_dash @ '' PIN Pad / Encrypting PIN Pad (EPP). Captures PINs, derives PIN blocks. */'',
     [],
     ''export const PIN_HSERVICE_DEFAULT = 'PIN30' as const;'',
     [],
     ''/** PIN command codes. */'',
     ''export const PIN_CMD = {'',
     ''  GET_PIN: 'WFS_CMD_PIN_GET_PIN','',
     ''  GET_PINBLOCK: 'WFS_CMD_PIN_GET_PINBLOCK','',
     ''  GET_DATA: 'WFS_CMD_PIN_GET_DATA','',
     ''  RESET: 'WFS_CMD_PIN_RESET','',
     ''  IMPORT_KEY: 'WFS_CMD_PIN_IMPORT_KEY','',
     ''  GET_KEY_DETAIL: 'WFS_CMD_PIN_GET_KEY_DETAIL','',
     ''} as const;'',
     [],
     ''export type PinCommandCode = (typeof PIN_CMD)[keyof typeof PIN_CMD];'',
     [],
     ''/** PIN event codes. */'',
     ''export const PIN_EVT = {'',
     ''  KEY: 'WFS_EXEE_PIN_KEY','',
     ''  ENTER_DATA: 'WFS_EXEE_PIN_ENTERDATA','',
     ''  DATA_READY: 'WFS_EXEE_PIN_DATAREADY','',
     ''} as const;'',
     [],
     ''export type PinEventCode = (typeof PIN_EVT)[keyof typeof PIN_EVT];'',
     [],
     ''/** Maps each PIN event code to its XFS event class. */'',
     ''export const PIN_EVT_CLASS = {'',
     ''  'WFS_EXEE_PIN_KEY': 'EXEE','',
     ''  'WFS_EXEE_PIN_ENTERDATA': 'EXEE','',
     ''  'WFS_EXEE_PIN_DATAREADY': 'EXEE','',
     ''} as const;'',
     []]"

definition file_cdm_ts :: "string list" where
  "file_cdm_ts =
    [''// GENERATED FILE '' @ em_dash @ '' DO NOT EDIT.'',
     ''// Source: spec/xfs-contract.yaml'',
     ''// Regenerate via: pnpm codegen'',
     ''// CI fails if this file is out of date with the spec.'',
     [],
     ''/** CDM '' @ em_dash @ '' Cash Dispenser Module. Cassettes, denomination mix, present/retract. */'',
     [],
     ''export const CDM_HSERVICE_DEFAULT = 'CDM30' as const;'',
     [],
     ''/** CDM command codes. */'',
     ''export const CDM_CMD = {'',
     ''  DISPENSE: 'WFS_CMD_CDM_DISPENSE','',
     ''  PRESENT: 'WFS_CMD_CDM_PRESENT','',
     ''  REJECT: 'WFS_CMD_CDM_REJECT','',
     ''  RETRACT: 'WFS_CMD_CDM_RETRACT','',
     ''  COUNT: 'WFS_CMD_CDM_COUNT','',
     ''  CASH_UNIT_INFO: 'WFS_CMD_CDM_CASH_UNIT_INFO','',
     ''  START_EXCHANGE: 'WFS_CMD_CDM_START_EXCHANGE','',
     ''  END_EXCHANGE: 'WFS_CMD_CDM_END_EXCHANGE','',
     ''  RESET: 'WFS_CMD_CDM_RESET','',
     ''} as const;'',
     [],
     ''export type CdmCommandCode = (typeof CDM_CMD)[keyof typeof CDM_CMD];'',
     [],
     ''/** CDM event codes. */'',
     ''export const CDM_EVT = {'',
     ''  CASH_UNIT_THRESHOLD: 'WFS_SRVE_CDM_CASHUNITTHRESHOLD','',
     ''  SAFE_DOOR_OPEN: 'WFS_SRVE_CDM_SAFEDOOROPEN','',
     ''  SAFE_DOOR_CLOSED: 'WFS_SRVE_CDM_SAFEDOORCLOSED','',
     ''  NOTES_PRESENTED: 'WFS_EXEE_CDM_NOTESPRESENTED','',
     ''  NOTES_TAKEN: 'WFS_SRVE_CDM_ITEMSTAKEN','',
     ''  JAM: 'WFS_SRVE_CDM_MEDIADETECTED','',
     ''  EXCHANGE_STATE_CHANGED: 'WFS_SRVE_CDM_EXCHANGESTATECHANGED','',
     ''} as const;'',
     [],
     ''export type CdmEventCode = (typeof CDM_EVT)[keyof typeof CDM_EVT];'',
     [],
     ''/** Maps each CDM event code to its XFS event class. */'',
     ''export const CDM_EVT_CLASS = {'',
     ''  'WFS_SRVE_CDM_CASHUNITTHRESHOLD': 'SRVE','',
     ''  'WFS_SRVE_CDM_SAFEDOOROPEN': 'SRVE','',
     ''  'WFS_SRVE_CDM_SAFEDOORCLOSED': 'SRVE','',
     ''  'WFS_EXEE_CDM_NOTESPRESENTED': 'EXEE','',
     ''  'WFS_SRVE_CDM_ITEMSTAKEN': 'SRVE','',
     ''  'WFS_SRVE_CDM_MEDIADETECTED': 'SRVE','',
     ''  'WFS_SRVE_CDM_EXCHANGESTATECHANGED': 'SRVE','',
     ''} as const;'',
     []]"

definition file_ptr_ts :: "string list" where
  "file_ptr_ts =
    [''// GENERATED FILE '' @ em_dash @ '' DO NOT EDIT.'',
     ''// Source: spec/xfs-contract.yaml'',
     ''// Regenerate via: pnpm codegen'',
     ''// CI fails if this file is out of date with the spec.'',
     [],
     ''/** PTR '' @ em_dash @ '' Printer (receipt + journal). Thermal / inkjet / impact. */'',
     [],
     ''export const PTR_HSERVICE_DEFAULT = 'PTR30' as const;'',
     [],
     ''/** PTR command codes. */'',
     ''export const PTR_CMD = {'',
     ''  PRINT_FORM: 'WFS_CMD_PTR_PRINT_FORM','',
     ''  RAW_DATA: 'WFS_CMD_PTR_RAW_DATA','',
     ''  CUT_PAPER: 'WFS_CMD_PTR_CUT_PAPER','',
     ''  RESET: 'WFS_CMD_PTR_RESET','',
     ''} as const;'',
     [],
     ''export type PtrCommandCode = (typeof PTR_CMD)[keyof typeof PTR_CMD];'',
     [],
     ''/** PTR event codes. */'',
     ''export const PTR_EVT = {'',
     ''  PAPER_THRESHOLD: 'WFS_SRVE_PTR_PAPERTHRESHOLD','',
     ''  MEDIA_PRESENTED: 'WFS_SRVE_PTR_MEDIAPRESENTED','',
     ''  MEDIA_TAKEN: 'WFS_SRVE_PTR_MEDIATAKEN','',
     ''} as const;'',
     [],
     ''export type PtrEventCode = (typeof PTR_EVT)[keyof typeof PTR_EVT];'',
     [],
     ''/** Maps each PTR event code to its XFS event class. */'',
     ''export const PTR_EVT_CLASS = {'',
     ''  'WFS_SRVE_PTR_PAPERTHRESHOLD': 'SRVE','',
     ''  'WFS_SRVE_PTR_MEDIAPRESENTED': 'SRVE','',
     ''  'WFS_SRVE_PTR_MEDIATAKEN': 'SRVE','',
     ''} as const;'',
     []]"

definition file_siu_ts :: "string list" where
  "file_siu_ts =
    [''// GENERATED FILE '' @ em_dash @ '' DO NOT EDIT.'',
     ''// Source: spec/xfs-contract.yaml'',
     ''// Regenerate via: pnpm codegen'',
     ''// CI fails if this file is out of date with the spec.'',
     [],
     ''/** SIU '' @ em_dash @ '' Sensors & Indicators Unit. Cabinet/safe doors, tamper, LEDs, supervisor key. */'',
     [],
     ''export const SIU_HSERVICE_DEFAULT = 'SIU30' as const;'',
     [],
     ''/** SIU command codes. */'',
     ''export const SIU_CMD = {'',
     ''  ENABLE_EVENTS: 'WFS_CMD_SIU_ENABLE_EVENTS','',
     ''  DISABLE_EVENTS: 'WFS_CMD_SIU_DISABLE_EVENTS','',
     ''  SET_INDICATOR: 'WFS_CMD_SIU_SET_INDICATOR','',
     ''  GET_SENSOR_STATUS: 'WFS_CMD_SIU_GET_SENSOR_STATUS','',
     ''  RESET: 'WFS_CMD_SIU_RESET','',
     ''} as const;'',
     [],
     ''export type SiuCommandCode = (typeof SIU_CMD)[keyof typeof SIU_CMD];'',
     [],
     ''/** SIU event codes. */'',
     ''export const SIU_EVT = {'',
     ''  PORT_STATUS: 'WFS_SRVE_SIU_PORT_STATUS','',
     ''  CABINET_STATUS: 'WFS_USRE_SIU_CABINET_STATUS','',
     ''  SAFE_DOOR: 'WFS_USRE_SIU_SAFE_DOOR','',
     ''  TAMPER_SENSOR: 'WFS_USRE_SIU_TAMPER_SENSOR','',
     ''  OPERATOR_SWITCH: 'WFS_USRE_SIU_OPERATOR_SWITCH','',
     ''} as const;'',
     [],
     ''export type SiuEventCode = (typeof SIU_EVT)[keyof typeof SIU_EVT];'',
     [],
     ''/** Maps each SIU event code to its XFS event class. */'',
     ''export const SIU_EVT_CLASS = {'',
     ''  'WFS_SRVE_SIU_PORT_STATUS': 'SRVE','',
     ''  'WFS_USRE_SIU_CABINET_STATUS': 'USRE','',
     ''  'WFS_USRE_SIU_SAFE_DOOR': 'USRE','',
     ''  'WFS_USRE_SIU_TAMPER_SENSOR': 'USRE','',
     ''  'WFS_USRE_SIU_OPERATOR_SWITCH': 'USRE','',
     ''} as const;'',
     []]"

definition file_index_ts :: "string list" where
  "file_index_ts =
    [''// GENERATED FILE '' @ em_dash @ '' DO NOT EDIT.'',
     ''// Source: spec/xfs-contract.yaml'',
     [],
     ''export * from './result-codes';'',
     ''export * from './event-classes';'',
     ''export * from './idc';'',
     ''export * from './pin';'',
     ''export * from './cdm';'',
     ''export * from './ptr';'',
     ''export * from './siu';'',
     []]"

definition checked_in_ts :: written where
  "checked_in_ts =
    [(''result-codes.ts'', js_lines file_result_codes_ts),
     (''event-classes.ts'', js_lines file_event_classes_ts),
     (''idc.ts'', js_lines file_idc_ts),
     (''pin.ts'', js_lines file_pin_ts),
     (''cdm.ts'', js_lines file_cdm_ts),
     (''ptr.ts'', js_lines file_ptr_ts),
     (''siu.ts'', js_lines file_siu_ts),
     (''index.ts'', js_lines file_index_ts)]"

end
