(* ===== verification/Codegen_Props.thy ===== *)
theory Codegen_Props
  imports Contract_Files Xfs_Core
begin

text \<open>
  What the generated files say: a table of constants read back from a TypeScript module and from a C++
  namespace, line by line, gives the codes of the contract; so the two languages agree. For the
  contract of the repository the codes are the ones the devices of this development use, and the
  generated files are the ones the repository holds.
\<close>

section \<open>Lines\<close>

lemma js_split_at: "js_split c (s @ c # r) = js_split c s @ js_split c r"
  by (induction s) (auto split: list.splits simp: Cons_eq_append_conv)

lemma js_split_lines:
  "ls \<noteq> [] \<Longrightarrow> js_split nl_char (js_lines ls) = concat (map (js_split nl_char) ls)"
  by (induction ls rule: induct_list012) (simp_all add: js_lines_def js_split_at)

definition one_line :: "string \<Rightarrow> bool" where
  "one_line s \<longleftrightarrow> nl_char \<notin> set s \<and> CHR 0x0D \<notin> set s"

lemma unix_newlines_id: "CHR 0x0D \<notin> set s \<Longrightarrow> js_unix_newlines s = s"
  by (induction s rule: js_unix_newlines.induct) auto

lemma set_js_lines: "set (js_lines ls) \<subseteq> insert nl_char (\<Union> (set ` set ls))"
  by (induction ls rule: induct_list012) (auto simp: js_lines_def)

lemma lines_of_file:
  assumes "ls \<noteq> []" "\<forall>l \<in> set ls. CHR 0x0D \<notin> set l"
  shows "js_split nl_char (js_unix_newlines (js_lines ls)) = concat (map (js_split nl_char) ls)"
proof -
  have "CHR 0x0D \<notin> set (js_lines ls)" using set_js_lines [of ls] assms(2) by (auto simp: nl_char_def)
  then show ?thesis using assms(1) by (simp add: unix_newlines_id js_split_lines)
qed

lemma one_line_split: "one_line l \<Longrightarrow> js_split nl_char l = [l]"
  by (simp add: one_line_def js_split_plain)

lemma one_lines_split: "list_all one_line ls \<Longrightarrow> concat (map (js_split nl_char) ls) = ls"
  by (induction ls) (simp_all add: one_line_split)

section \<open>Reading the constants\<close>

definition table_block :: "string \<Rightarrow> string \<Rightarrow> string list \<Rightarrow> string list option" where
  "table_block first final ls =
     (case dropWhile (\<lambda>l. l \<noteq> first) ls of [] \<Rightarrow> None | x # r \<Rightarrow> Some (takeWhile (\<lambda>l. l \<noteq> final) r))"

lemma table_block_at:
  assumes "\<forall>l \<in> set pre. l \<noteq> first" "\<forall>l \<in> set body. l \<noteq> final"
  shows "table_block first final (pre @ first # body @ final # rest) = Some body"
  using assms by (simp add: table_block_def dropWhile_append3 takeWhile_append)

text \<open>The value between the first two quotes \<open>q\<close> of a text.\<close>

definition quoted_by :: "char \<Rightarrow> string \<Rightarrow> string" where
  "quoted_by q s = takeWhile (\<lambda>c. c \<noteq> q) (tl (dropWhile (\<lambda>c. c \<noteq> q) s))"

definition ts_read :: "string \<Rightarrow> string \<Rightarrow> (string \<times> string) list option" where
  "ts_read table txt =
     map_option (map (\<lambda>l. (takeWhile (\<lambda>c. c \<noteq> CHR '':'') (drop 2 l), quoted_by (CHR 0x27) (dropWhile (\<lambda>c. c \<noteq> CHR '':'') l))))
       (table_block (''export const '' @ table @ '' = {'') ''} as const;'' (js_split nl_char txt))"

definition cpp_decl :: string where
  "cpp_decl = ''constexpr std::string_view ''"

definition cpp_read :: "string \<Rightarrow> string \<Rightarrow> (string \<times> string) list option" where
  "cpp_read ns txt =
     map_option (\<lambda>ls. map (\<lambda>l. (takeWhile (\<lambda>c. c \<noteq> CHR '' '') (drop (length cpp_decl) l), quoted_by (CHR 0x22) l))
         (filter (\<lambda>l. js_startsWith l cpp_decl) ls))
       (table_block (''namespace '' @ ns @ '' {'') (''}  // namespace '' @ ns) (js_split nl_char txt))"

section \<open>Contracts that can be printed\<close>

definition word_char :: "char \<Rightarrow> bool" where
  "word_char c \<longleftrightarrow> is_digit c \<or> 65 \<le> char_code c \<and> char_code c \<le> 90 \<or> 97 \<le> char_code c \<and> char_code c \<le> 122 \<or> c = CHR ''_''"

definition service_ok :: "ServiceDef \<Rightarrow> bool" where
  "service_ok svc \<longleftrightarrow> one_line (sd_description svc) \<and> one_line (sd_hServiceDefault svc)
     \<and> list_all (\<lambda>(n, c). list_all word_char n \<and> list_all word_char c) (sd_commands svc)
     \<and> list_all (\<lambda>(n, e). list_all word_char n \<and> list_all word_char (ed_code e)
          \<and> ed_class e \<in> {''SRVE'', ''USRE'', ''EXEE'', ''SYSE''}) (sd_events svc)"

definition comment_line :: "string \<Rightarrow> bool" where
  "comment_line l \<longleftrightarrow> js_startsWith l ''//''"

definition contract_ok :: "XfsContract \<Rightarrow> bool" where
  "contract_ok spec \<longleftrightarrow> CHR 0x0D \<notin> set (xc_preamble spec)
     \<and> list_all comment_line (js_split nl_char (js_trimEnd (xc_preamble spec)))
     \<and> list_all (\<lambda>(i, svc). list_all word_char i \<and> js_toLowerCase i \<noteq> ''index'' \<and> service_ok svc) (xc_services spec)
     \<and> distinct (map (\<lambda>(i, svc). js_toLowerCase i) (xc_services spec))"

text \<open>What a run leaves in a file: its last write.\<close>

definition file_after :: "written \<Rightarrow> string \<Rightarrow> string option" where
  "file_after ws f = map_of (rev ws) f"

lemma word_char_not: "word_char c \<Longrightarrow> c \<notin> {nl_char, CHR 0x0D, CHR '':'', CHR 0x27, CHR 0x22, CHR '' ''}"
  by (auto simp: word_char_def is_digit_def nl_char_def)

lemma word_not:
  "list_all word_char s \<Longrightarrow> x \<in> {nl_char, CHR 0x0D, CHR '':'', CHR 0x27, CHR 0x22, CHR '' ''} \<Longrightarrow> x \<notin> set s"
  using word_char_not by (fastforce simp: list_all_iff)

lemma one_line_simps [simp]:
  "one_line []" "one_line (a @ b) \<longleftrightarrow> one_line a \<and> one_line b"
  "one_line (c # a) \<longleftrightarrow> c \<noteq> CHR 0x0A \<and> c \<noteq> CHR 0x0D \<and> one_line a" "one_line em_dash"
  by (auto simp: one_line_def nl_char_def em_dash_def)

lemma word_one_line: "list_all word_char s \<Longrightarrow> one_line s"
  using word_not [of s] by (auto simp: one_line_def)

lemma lower_word: "word_char c \<Longrightarrow> word_char (lower_ascii c)"
  by (auto simp: word_char_def lower_ascii_def is_digit_def)

lemma upper_word: "word_char c \<Longrightarrow> word_char (js_upper_char c)"
  by (auto simp: word_char_def js_upper_char_def is_digit_def)

lemma word_lower: "list_all word_char s \<Longrightarrow> list_all word_char (js_toLowerCase s)"
  by (auto simp: js_toLowerCase_def list_all_iff intro: lower_word)

lemma word_ts_pascal: "list_all word_char s \<Longrightarrow> list_all word_char (ts_pascal s)"
  by (cases s) (auto simp: ts_pascal_def list_all_iff js_toLowerCase_def intro: lower_word upper_word)

lemma takeWhile_stop: "x \<notin> set s \<Longrightarrow> takeWhile (\<lambda>c. c \<noteq> x) (s @ x # r) = s"
  by (induction s) auto

lemma dropWhile_stop: "x \<notin> set s \<Longrightarrow> dropWhile (\<lambda>c. c \<noteq> x) (s @ x # r) = x # r"
  by (induction s) auto

lemma read_ts_entry:
  assumes "list_all word_char n" "list_all word_char c"
  shows "takeWhile (\<lambda>c. c \<noteq> CHR '':'') (drop 2 (ts_entry n c)) = n"
    "quoted_by (CHR 0x27) (dropWhile (\<lambda>c. c \<noteq> CHR '':'') (ts_entry n c)) = c"
  using assms [THEN word_not]
  by (simp_all add: ts_entry_def takeWhile_stop dropWhile_stop quoted_by_def)

lemma read_cpp_line:
  assumes "list_all word_char n" "list_all word_char c"
  shows "js_startsWith (cpp_line n c) cpp_decl"
    "takeWhile (\<lambda>c. c \<noteq> CHR '' '') (drop (length cpp_decl) (cpp_line n c)) = n"
    "quoted_by (CHR 0x22) (cpp_line n c) = c"
proof -
  have eq: "cpp_line n c = cpp_decl @ n @ CHR '' '' # ''= '' @ CHR 0x22 # c @ CHR 0x22 # '';''"
    by (simp add: cpp_line_def cpp_decl_def)
  show "js_startsWith (cpp_line n c) cpp_decl" unfolding eq by (rule js_startsWith_append)
  show "takeWhile (\<lambda>c. c \<noteq> CHR '' '') (drop (length cpp_decl) (cpp_line n c)) = n"
    unfolding eq using word_not [OF assms(1)] by (simp add: takeWhile_stop)
  have "CHR 0x22 \<notin> set (cpp_decl @ n @ CHR '' '' # ''= '')"
    using word_not [OF assms(1)] by (simp add: cpp_decl_def)
  from dropWhile_stop [OF this] show "quoted_by (CHR 0x22) (cpp_line n c) = c"
    unfolding eq quoted_by_def using word_not [OF assms(2)] by (simp add: takeWhile_stop)
qed

lemma service_words:
  assumes "service_ok svc"
  shows "(n, c) \<in> set (sd_commands svc) \<Longrightarrow> list_all word_char n \<and> list_all word_char c"
    "(n, e) \<in> set (sd_events svc) \<Longrightarrow> list_all word_char n \<and> list_all word_char (ed_code e)"
    "(n, e) \<in> set (sd_events svc) \<Longrightarrow> ed_class e \<in> {''SRVE'', ''USRE'', ''EXEE'', ''SYSE''}"
  using assms by (auto simp: service_ok_def list_all_iff)

section \<open>TypeScript modules\<close>

lemma ts_lines_one_line:
  assumes "list_all word_char i" "service_ok svc"
  shows "list_all one_line (ts_service_lines i svc)"
proof -
  have "one_line i" "one_line (ts_pascal i)" using assms(1) by (simp_all add: word_one_line word_ts_pascal)
  moreover have "one_line (sd_description svc)" "one_line (sd_hServiceDefault svc)"
    using assms(2) by (simp_all add: service_ok_def)
  moreover have "list_all one_line (map (\<lambda>(n, c). ts_entry n c) (sd_commands svc))"
    using service_words(1) [OF assms(2)] by (fastforce simp: list_all_iff [of one_line] ts_entry_def word_one_line)
  moreover have "list_all one_line (map (\<lambda>(n, e). ts_entry n (ed_code e)) (sd_events svc))"
    using service_words(2) [OF assms(2)] by (fastforce simp: list_all_iff [of one_line] ts_entry_def word_one_line)
  moreover have "list_all one_line (map (\<lambda>(n, e). ts_entry (sq @ ed_code e @ sq) (ed_class e)) (sd_events svc))"
    using service_words(2,3) [OF assms(2)] by (fastforce simp: list_all_iff [of one_line] ts_entry_def word_one_line)
  ultimately show ?thesis
    by (simp add: ts_service_lines_def Let_def ts_table_def ts_code_type_def)
qed

lemma ts_file_lines:
  assumes "contract_ok spec" "(i, svc) \<in> set (xc_services spec)"
  shows "js_split nl_char (js_unix_newlines (emitService i svc (xc_preamble spec)))
    = js_split nl_char (js_trimEnd (xc_preamble spec)) @ [] # ts_service_lines i svc"
proof -
  have w: "list_all word_char i" "service_ok svc" using assms by (auto simp: contract_ok_def list_all_iff)
  have one: "list_all one_line (ts_service_lines i svc)" using ts_lines_one_line [OF w] .
  have "set (js_trimEnd (xc_preamble spec)) \<subseteq> set (xc_preamble spec)"
    by (auto simp: js_trimEnd_def dest: set_dropWhileD)
  then have "CHR 0x0D \<notin> set (js_trimEnd (xc_preamble spec))" using assms(1) by (auto simp: contract_ok_def)
  then show ?thesis
    using one unfolding emitService_def
    by (subst lines_of_file) (auto simp: list_all_iff one_line_def one_lines_split)
qed
lemma comment_ne: "comment_line l \<Longrightarrow> l \<noteq> ''export const '' @ x"
  by (cases l) (auto simp: comment_line_def js_startsWith_def)

lemma ts_entry_ne [simp]: "ts_entry n c \<noteq> ''} as const;''" "ts_entry n c \<noteq> ''export const '' @ y"
  by (simp_all add: ts_entry_def)

lemmas ts_entry_ne' [simp] = ts_entry_ne [symmetric]

lemma ends_ne: "l = [] \<or> last l \<noteq> CHR ''{'' \<Longrightarrow> l \<noteq> ''export const '' @ t @ '' = {''"
  by auto

lemma ts_tables:
  assumes "contract_ok spec" "(i, svc) \<in> set (xc_services spec)"
  defines "txt \<equiv> js_unix_newlines (emitService i svc (xc_preamble spec))"
  shows "ts_read (i @ ''_CMD'') txt = Some (sd_commands svc)"
    "ts_read (i @ ''_EVT'') txt = Some (map (\<lambda>(n, e). (n, ed_code e)) (sd_events svc))"
proof -
  let ?pre = "js_split nl_char (js_trimEnd (xc_preamble spec))"
  have ok: "service_ok svc" using assms(1,2) by (auto simp: contract_ok_def list_all_iff)
  have pre: "\<forall>l \<in> set ?pre. l \<noteq> ''export const '' @ x" for x
    using assms(1) comment_ne by (auto simp: contract_ok_def list_all_iff)
  let ?cmds = "map (\<lambda>(n, c). ts_entry n c) (sd_commands svc)"
  let ?evts = "map (\<lambda>(n, e). ts_entry n (ed_code e)) (sd_events svc)"
  let ?head = "[[], ''/** '' @ i @ '' '' @ em_dash @ '' '' @ sd_description svc @ '' */'', [],
    ''export const '' @ i @ ''_HSERVICE_DEFAULT = '' @ sq @ sd_hServiceDefault svc @ sq @ '' as const;'', [],
    ''/** '' @ i @ '' command codes. */'']"
  let ?mid = "''export const '' @ i @ ''_CMD'' @ '' = {''"
  let ?mid2 = "[''} as const;'', []] @ ts_code_type i ''CommandCode'' (i @ ''_CMD'') @ [''/** '' @ i @ '' event codes. */'']"
  let ?rest2 = "[] # ts_code_type i ''EventCode'' (i @ ''_EVT'')
    @ [''/** Maps each '' @ i @ '' event code to its XFS event class. */'']
    @ ts_table (i @ ''_EVT_CLASS'') (map (\<lambda>(n, e). ts_entry (sq @ ed_code e @ sq) (ed_class e)) (sd_events svc))"
  let ?rest1 = "tl ?mid2 @ (''export const '' @ (i @ ''_EVT'') @ '' = {'') # ?evts @ ''} as const;'' # ?rest2"
  have lines: "js_split nl_char txt = ?pre @ ?head @ ?mid # ?cmds @ ''} as const;'' # ?rest1"
    unfolding txt_def ts_file_lines [OF assms(1,2)] ts_service_lines_def Let_def ts_table_def
    by (simp only: append.simps append_assoc list.sel)
  then have L: "js_split nl_char txt = (?pre @ ?head) @ ?mid # ?cmds @ ''} as const;'' # ?rest1"
    "js_split nl_char txt = (?pre @ ?head @ [?mid] @ ?cmds @ ?mid2) @ (''export const '' @ (i @ ''_EVT'') @ '' = {'') # ?evts @ ''} as const;'' # ?rest2"
    by (simp_all only: append.simps append_assoc list.sel)
  have head: "\<forall>l \<in> set ?head. l \<noteq> ''export const '' @ t @ '' = {''" for t
    by (intro ballI ends_ne) auto
  have mid2: "\<forall>l \<in> set ?mid2. l \<noteq> ''export const '' @ t @ '' = {''" for t
    by (intro ballI ends_ne) (auto simp: ts_code_type_def)
  have "table_block (''export const '' @ (i @ ''_CMD'') @ '' = {'') ''} as const;'' (js_split nl_char txt) = Some ?cmds"
    unfolding L(1) append_assoc [of i, symmetric] using pre head by (intro table_block_at) (auto simp del: append.simps)
  then show "ts_read (i @ ''_CMD'') txt = Some (sd_commands svc)"
    using service_words(1) [OF ok] unfolding ts_read_def
    by (auto simp: read_ts_entry intro!: map_idI)
  have "table_block (''export const '' @ (i @ ''_EVT'') @ '' = {'') ''} as const;'' (js_split nl_char txt) = Some ?evts"
    unfolding L(2) using pre head mid2 [of "i @ ''_EVT''"]
    by (intro table_block_at) (auto simp del: append.simps)
  then show "ts_read (i @ ''_EVT'') txt = Some (map (\<lambda>(n, e). (n, ed_code e)) (sd_events svc))"
    using service_words(2) [OF ok] unfolding ts_read_def
    by (auto simp: read_ts_entry)
qed
section \<open>C++ headers\<close>

lemma each_line_ok:
  "\<forall>x \<in> set xs. f x = Inr (g x) \<Longrightarrow> each_line f xs = Inr (concat (map g xs))"
  by (induction xs) simp_all

definition class_enum :: "string \<Rightarrow> string" where
  "class_enum cls = (case eventClassEnum cls of Inr c \<Rightarrow> c | Inl _ \<Rightarrow> [])"

definition cpp_event_body :: "ServiceDef \<Rightarrow> string list" where
  "cpp_event_body svc = concat (map (\<lambda>(name, e). [cpp_line name (ed_code e),
     cpp_class_line name (class_enum (ed_class e))]) (sd_events svc))"

lemma event_lines_ok: "service_ok svc \<Longrightarrow> cpp_event_lines svc = Inr (cpp_event_body svc)"
  unfolding cpp_event_lines_def cpp_event_body_def
  by (rule each_line_ok) (auto simp: class_enum_def eventClassEnum_def dest!: service_words(3))

definition cpp_blocks :: "(ServiceDef \<Rightarrow> string list) \<Rightarrow> (string \<times> ServiceDef) list \<Rightarrow> string list" where
  "cpp_blocks f svcs = concat (map (\<lambda>(i, svc). cpp_service i svc (f svc)) svcs)"

lemma emitEvents_ok:
  assumes "contract_ok spec"
  shows "emitEvents spec = Inr (js_lines (cpp_events_head @ cpp_blocks cpp_event_body (xc_services spec)
    @ [''}  // namespace zegen::xfs::events'', []]))"
proof -
  have "each_line (\<lambda>(i, svc). sum_bind (cpp_event_lines svc) (\<lambda>body. Inr (cpp_service i svc body))) (xc_services spec)
      = Inr (cpp_blocks cpp_event_body (xc_services spec))"
    unfolding cpp_blocks_def using assms
    by (intro each_line_ok) (auto simp: contract_ok_def list_all_iff event_lines_ok)
  then show ?thesis by (simp add: emitEvents_def)
qed

text \<open>Lines of a header that cannot open the namespace of a service.\<close>

definition no_namespace :: "string \<Rightarrow> bool" where
  "no_namespace l \<longleftrightarrow> l = [] \<or> hd l \<noteq> CHR ''n'' \<or> CHR '':'' \<in> set l"

lemma no_namespace_ne: "no_namespace l \<Longrightarrow> list_all word_char x \<Longrightarrow> l \<noteq> ''namespace '' @ x @ '' {''"
  using word_not [of x "CHR '':''"] by (auto simp: no_namespace_def)

definition body_line :: "string \<Rightarrow> bool" where
  "body_line l \<longleftrightarrow> one_line l \<and> js_startsWith l ''constexpr ''"

lemma body_line_hd: "body_line l \<Longrightarrow> hd l = CHR ''c''"
  by (cases l) (auto simp: body_line_def js_startsWith_def)

lemma block_one_line:
  assumes "list_all word_char i" "one_line (sd_description svc)" "list_all body_line body"
  shows "list_all one_line (cpp_service i svc body)"
  using assms(2,3) word_one_line [OF assms(1)] word_one_line [OF word_lower [OF assms(1)]]
  by (auto simp: cpp_service_def body_line_def list_all_iff)

lemma cpp_block_read:
  assumes "list_all (\<lambda>(i, svc). list_all word_char i \<and> one_line (sd_description svc) \<and> list_all body_line (f svc)) svcs"
    and "distinct (map (\<lambda>(i, svc). js_toLowerCase i) svcs)" "(i, svc) \<in> set svcs"
    and "list_all no_namespace (concat (map (js_split nl_char) head))" "list_all one_line rest"
  shows "table_block (''namespace '' @ js_toLowerCase i @ '' {'') (''}  // namespace '' @ js_toLowerCase i)
      (concat (map (js_split nl_char) (head @ cpp_blocks f svcs @ rest))) = Some (f svc)"
proof -
  let ?i = "js_toLowerCase i" and ?H = "concat (map (js_split nl_char) head)"
  obtain xs ys where svcs: "svcs = xs @ (i, svc) # ys" using split_list [OF assms(3)] by blast
  have "list_all one_line (cpp_blocks f svcs)"
    using assms(1) block_one_line by (fastforce simp: cpp_blocks_def list_all_iff [of _ svcs] list_all_iff [of one_line])
  then have lines: "concat (map (js_split nl_char) (head @ cpp_blocks f svcs @ rest)) = ?H @ cpp_blocks f svcs @ rest"
    using assms(5) by (simp add: one_lines_split)
  have eq: "?H @ cpp_blocks f svcs @ rest
      = (?H @ cpp_blocks f xs @ [''// '' @ i @ '' '' @ em_dash @ '' '' @ sd_description svc])
        @ (''namespace '' @ ?i @ '' {'') # f svc @ (''}  // namespace '' @ ?i) # [] # cpp_blocks f ys @ rest"
    by (simp add: svcs cpp_blocks_def cpp_service_def)
  have w: "list_all word_char ?i" using assms(1,3) word_lower by (auto simp: list_all_iff [of _ svcs])
  have "\<forall>l \<in> set ?H. l \<noteq> ''namespace '' @ ?i @ '' {''"
    using assms(4) no_namespace_ne [OF _ w] by (auto simp: list_all_iff)
  moreover have "\<forall>l \<in> set (cpp_blocks f xs). l \<noteq> ''namespace '' @ ?i @ '' {''"
  proof
    fix l assume "l \<in> set (cpp_blocks f xs)"
    then obtain j s where j: "(j, s) \<in> set xs" "l \<in> set (cpp_service j s (f s))" by (auto simp: cpp_blocks_def)
    have "js_toLowerCase j \<noteq> ?i" using assms(2) j(1) by (force simp: svcs)
    moreover have "\<forall>l \<in> set (f s). hd l = CHR ''c''"
      using assms(1) j(1) body_line_hd by (force simp: svcs list_all_iff)
    ultimately show "l \<noteq> ''namespace '' @ ?i @ '' {''" using j(2) by (auto simp: cpp_service_def)
  qed
  moreover have "\<forall>l \<in> set (f svc). l \<noteq> ''}  // namespace '' @ ?i"
  proof
    fix l assume "l \<in> set (f svc)"
    then have "hd l = CHR ''c''" using assms(1,3) body_line_hd by (auto simp: list_all_iff)
    then show "l \<noteq> ''}  // namespace '' @ ?i" by auto
  qed
  ultimately show ?thesis unfolding lines eq by (intro table_block_at) auto
qed
lemma file_text_lines:
  assumes "ls \<noteq> []" "\<forall>l \<in> set (concat (map (js_split nl_char) ls)). CHR 0x0D \<notin> set l"
  shows "js_split nl_char (js_unix_newlines (js_lines ls)) = concat (map (js_split nl_char) ls)"
proof (rule lines_of_file [OF assms(1)])
  have "x \<in> set l \<Longrightarrow> x = nl_char \<or> (\<exists>k \<in> set (js_split nl_char l). x \<in> set k)" for x l
    by (induction l) (auto split: list.splits if_splits)
  then show "\<forall>l \<in> set ls. CHR 0x0D \<notin> set l" using assms(2) by (fastforce simp: nl_char_def)
qed

lemma cpp_body_lines:
  assumes "service_ok svc"
  shows "list_all body_line (cpp_command_lines svc)" "list_all body_line (cpp_event_body svc)"
proof -
  have cpp: "body_line (cpp_line n c)" if "list_all word_char n" "list_all word_char c" for n c
    using that by (simp add: body_line_def cpp_line_def js_startsWith_def word_one_line)
  have cls: "body_line (cpp_class_line n (class_enum (ed_class e)))"
    if "(n, e) \<in> set (sd_events svc)" for n e
    using service_words(2,3) [OF assms that]
    by (auto simp: body_line_def cpp_class_line_def js_startsWith_def word_one_line class_enum_def eventClassEnum_def)
  show "list_all body_line (cpp_command_lines svc)"
    using service_words(1) [OF assms] cpp by (auto simp: cpp_command_lines_def list_all_iff [of body_line])
  show "list_all body_line (cpp_event_body svc)"
    using service_words(2) [OF assms] cpp cls by (auto simp: cpp_event_body_def list_all_iff [of body_line])
qed

lemma cpp_heads:
  "list_all (\<lambda>l. no_namespace l \<and> CHR 0x0D \<notin> set l) (concat (map (js_split nl_char) cpp_commands_head))"
  "list_all (\<lambda>l. no_namespace l \<and> CHR 0x0D \<notin> set l) (concat (map (js_split nl_char) cpp_events_head))"
  by code_simp+

definition decl_pairs :: "string list \<Rightarrow> (string \<times> string) list" where
  "decl_pairs ls = map (\<lambda>l. (takeWhile (\<lambda>c. c \<noteq> CHR '' '') (drop (length cpp_decl) l), quoted_by (CHR 0x22) l))
         (filter (\<lambda>l. js_startsWith l cpp_decl) ls)"

lemma decl_pairs_simps [simp]:
  "decl_pairs [] = []" "decl_pairs (xs @ ys) = decl_pairs xs @ decl_pairs ys"
  "list_all word_char n \<Longrightarrow> list_all word_char c \<Longrightarrow> decl_pairs (cpp_line n c # ls) = (n, c) # decl_pairs ls"
  "decl_pairs (cpp_class_line n c # ls) = decl_pairs ls"
  by (simp_all add: decl_pairs_def read_cpp_line) (simp add: cpp_class_line_def cpp_decl_def js_startsWith_def)

lemma decl_commands:
  "\<forall>(n, c) \<in> set cmds. list_all word_char n \<and> list_all word_char c
    \<Longrightarrow> decl_pairs (map (\<lambda>(n, c). cpp_line n c) cmds) = cmds"
  by (induction cmds) auto

lemma decl_events:
  "\<forall>(n, e) \<in> set evts. list_all word_char n \<and> list_all word_char (ed_code e)
    \<Longrightarrow> decl_pairs (concat (map (\<lambda>(n, e). [cpp_line n (ed_code e), cpp_class_line n (g e)]) evts))
      = map (\<lambda>(n, e). (n, ed_code e)) evts"
  by (induction evts) auto

lemma cpp_tables:
  assumes "contract_ok spec" "(i, svc) \<in> set (xc_services spec)"
  shows "cpp_read (js_toLowerCase i) (js_unix_newlines (emitCommands spec)) = Some (sd_commands svc)"
    "\<exists>txt. emitEvents spec = Inr txt \<and> cpp_read (js_toLowerCase i) (js_unix_newlines txt)
      = Some (map (\<lambda>(n, e). (n, ed_code e)) (sd_events svc))"
proof -
  have ok: "service_ok svc" using assms by (auto simp: contract_ok_def list_all_iff)
  have read: "cpp_read (js_toLowerCase i) (js_unix_newlines (js_lines (head @ cpp_blocks f (xc_services spec) @ rest)))
      = Some (decl_pairs (f svc))"
    if f: "\<And>s. service_ok s \<Longrightarrow> list_all body_line (f s)" and rest: "list_all one_line rest"
      and head: "head \<noteq> []" "list_all (\<lambda>l. no_namespace l \<and> CHR 0x0D \<notin> set l) (concat (map (js_split nl_char) head))"
    for head f rest
  proof -
    have svcs: "list_all (\<lambda>(i, svc). list_all word_char i \<and> one_line (sd_description svc) \<and> list_all body_line (f svc))
        (xc_services spec)"
      using assms(1) f by (auto simp: contract_ok_def list_all_iff [of _ "xc_services spec"] service_ok_def)
    have "list_all one_line (cpp_blocks f (xc_services spec))"
      using svcs block_one_line
      by (fastforce simp: cpp_blocks_def list_all_iff [of _ "xc_services spec"] list_all_iff [of one_line])
    then have "js_split nl_char (js_unix_newlines (js_lines (head @ cpp_blocks f (xc_services spec) @ rest)))
        = concat (map (js_split nl_char) (head @ cpp_blocks f (xc_services spec) @ rest))"
      using head rest one_lines_split
      by (intro file_text_lines) (auto simp: list_all_iff one_line_def)
    then show ?thesis
      using cpp_block_read [OF svcs _ assms(2) _ rest, of head] head assms(1)
      by (simp add: cpp_read_def decl_pairs_def contract_ok_def list_all_iff)
  qed
  have "emitCommands spec = js_lines (cpp_commands_head @ cpp_blocks cpp_command_lines (xc_services spec)
      @ [''}  // namespace zegen::xfs::commands'', []])"
    by (simp add: emitCommands_def cpp_blocks_def)
  moreover have "decl_pairs (cpp_command_lines svc) = sd_commands svc"
    unfolding cpp_command_lines_def by (rule decl_commands) (use service_words(1) [OF ok] in blast)
  moreover have "cpp_commands_head \<noteq> []" "cpp_events_head \<noteq> []"
    by (simp_all add: cpp_commands_head_def cpp_events_head_def)
  ultimately show "cpp_read (js_toLowerCase i) (js_unix_newlines (emitCommands spec)) = Some (sd_commands svc)"
    using read [OF cpp_body_lines(1) _ _ cpp_heads(1)] by simp
  have "decl_pairs (cpp_event_body svc) = map (\<lambda>(n, e). (n, ed_code e)) (sd_events svc)"
    unfolding cpp_event_body_def by (rule decl_events) (use service_words(2) [OF ok] in blast)
  then show "\<exists>txt. emitEvents spec = Inr txt \<and> cpp_read (js_toLowerCase i) (js_unix_newlines txt)
      = Some (map (\<lambda>(n, e). (n, ed_code e)) (sd_events svc))"
    using read [OF cpp_body_lines(2) _ _ cpp_heads(2)] emitEvents_ok [OF assms(1)] \<open>cpp_events_head \<noteq> []\<close> by simp
qed
section \<open>Both languages\<close>

lemma map_of_rev: "distinct (map fst xs) \<Longrightarrow> (k, v) \<in> set xs \<Longrightarrow> map_of (rev xs) k = Some v"
  by (simp add: rev_map [symmetric])

lemma ts_file:
  assumes "contract_ok spec" "(i, svc) \<in> set (xc_services spec)"
  shows "file_after (ts_main spec) (js_toLowerCase i @ ''.ts'')
    = Some (js_unix_newlines (emitService i svc (xc_preamble spec)))"
proof -
  let ?files = "map (\<lambda>(i, svc). ts_writeFile (js_toLowerCase i @ ''.ts'') (emitService i svc (xc_preamble spec))) (xc_services spec)"
  have keys: "map fst ?files = map (\<lambda>k. k @ ''.ts'') (map (\<lambda>(i, svc). js_toLowerCase i) (xc_services spec))"
    by (auto simp: ts_writeFile_def)
  have "inj_on (\<lambda>k. k @ ''.ts'') A" for A by (simp add: inj_on_def)
  then have "distinct (map fst ?files)"
    using assms(1) unfolding keys contract_ok_def by (simp only: distinct_map)
  moreover have "(js_toLowerCase i @ ''.ts'', js_unix_newlines (emitService i svc (xc_preamble spec))) \<in> set ?files"
    using assms(2) by (force simp: ts_writeFile_def)
  moreover have "js_toLowerCase i \<noteq> ''index''" using assms by (auto simp: contract_ok_def list_all_iff)
  then have "js_toLowerCase i @ ''.ts'' \<noteq> ''index'' @ ''.ts''" by blast
  ultimately show ?thesis
    by (simp add: file_after_def ts_main_def ts_writeFile_def map_of_rev)
qed

text \<open>C19: for every contract whose identifiers are words, each table of constants that the TypeScript
  compiler reads from a generated module is the table of the contract, and the C++ compiler reads the
  same table from the generated headers, for the commands and for the events of every service, whatever
  the other services are.\<close>

theorem codegen_lockstep:
  assumes "contract_ok spec" "(i, svc) \<in> set (xc_services spec)"
  defines "events \<equiv> map (\<lambda>(n, e). (n, ed_code e)) (sd_events svc)"
    and "cpp_file \<equiv> (\<lambda>f. file_after (fst (cpp_main spec)) f)"
  shows "snd (cpp_main spec) = None
    \<and> (\<exists>ts h ev. file_after (ts_main spec) (js_toLowerCase i @ ''.ts'') = Some ts
      \<and> cpp_file ''xfs_commands.h'' = Some h \<and> cpp_file ''xfs_events.h'' = Some ev
      \<and> ts_read (i @ ''_CMD'') ts = Some (sd_commands svc) \<and> cpp_read (js_toLowerCase i) h = Some (sd_commands svc)
      \<and> ts_read (i @ ''_EVT'') ts = Some events \<and> cpp_read (js_toLowerCase i) ev = Some events)"
proof -
  obtain b where E: "emitEvents spec = Inr b"
    "cpp_read (js_toLowerCase i) (js_unix_newlines b) = Some events"
    using cpp_tables(2) [OF assms(1,2)] by (auto simp: events_def)
  then have "snd (cpp_main spec) = None" "cpp_file ''xfs_commands.h'' = Some (js_unix_newlines (emitCommands spec))"
    "cpp_file ''xfs_events.h'' = Some (js_unix_newlines b)"
    by (simp_all add: cpp_main_def cpp_writeHeader_def cpp_file_def file_after_def)
  then show ?thesis
    using E(2) cpp_tables(1) [OF assms(1,2)] ts_tables [OF assms(1,2)] ts_file [OF assms(1,2)]
    by (auto simp: events_def)
qed

section \<open>The contract of the repository\<close>

fun class_name_of :: "XfsEventClass \<Rightarrow> string" where
  "class_name_of SRVE = ''SRVE''"
| "class_name_of USRE = ''USRE''"
| "class_name_of EXEE = ''EXEE''"
| "class_name_of SYSE = ''SYSE''"

lemma word_char_eval:
  "word_char (CHR ''A'')" "word_char (CHR ''B'')" "word_char (CHR ''C'')" "word_char (CHR ''D'')" "word_char (CHR ''E'')"
  "word_char (CHR ''F'')" "word_char (CHR ''G'')" "word_char (CHR ''H'')" "word_char (CHR ''I'')" "word_char (CHR ''J'')"
  "word_char (CHR ''K'')" "word_char (CHR ''L'')" "word_char (CHR ''M'')" "word_char (CHR ''N'')" "word_char (CHR ''O'')"
  "word_char (CHR ''P'')" "word_char (CHR ''Q'')" "word_char (CHR ''R'')" "word_char (CHR ''S'')" "word_char (CHR ''T'')"
  "word_char (CHR ''U'')" "word_char (CHR ''V'')" "word_char (CHR ''W'')" "word_char (CHR ''X'')" "word_char (CHR ''Y'')"
  "word_char (CHR ''Z'')" "word_char (CHR ''0'')" "word_char (CHR ''1'')" "word_char (CHR ''2'')" "word_char (CHR ''3'')"
  "word_char (CHR ''4'')" "word_char (CHR ''5'')" "word_char (CHR ''6'')" "word_char (CHR ''7'')" "word_char (CHR ''8'')"
  "word_char (CHR ''9'')" "word_char (CHR ''_'')"
  by (simp_all add: word_char_def is_digit_def)

lemma preamble_xfs: "js_trimEnd (xc_preamble xfs_contract) = js_lines spec_preamble"
  by code_simp

lemma services_ok_xfs:
  "service_ok spec_idc" "service_ok spec_pin" "service_ok spec_cdm" "service_ok spec_ptr" "service_ok spec_siu"
  by (simp_all add: service_ok_def spec_idc_def spec_pin_def spec_cdm_def spec_ptr_def spec_siu_def word_char_eval)

lemma lower_services:
  "js_toLowerCase ''IDC'' = ''idc''" "js_toLowerCase ''PIN'' = ''pin''" "js_toLowerCase ''CDM'' = ''cdm''"
  "js_toLowerCase ''PTR'' = ''ptr''" "js_toLowerCase ''SIU'' = ''siu''"
  by code_simp+

lemma preamble_ok_xfs:
  "CHR 0x0D \<notin> set (xc_preamble xfs_contract)" "list_all comment_line (js_split nl_char (js_lines spec_preamble))"
  by code_simp+

lemma contract_ok_xfs: "contract_ok xfs_contract"
  unfolding contract_ok_def preamble_xfs using preamble_ok_xfs
  by (simp add: xfs_contract_def services_ok_xfs lower_services word_char_eval)

lemma codegen_lockstep_witness:
  "contract_ok xfs_contract \<and> (''CDM'', spec_cdm) \<in> set (xc_services xfs_contract)
    \<and> snd (cpp_main xfs_contract) = None
    \<and> (\<exists>h. file_after (fst (cpp_main xfs_contract)) ''xfs_commands.h'' = Some h
        \<and> cpp_read ''cdm'' h = Some (sd_commands spec_cdm))"
proof -
  have m: "(''CDM'', spec_cdm) \<in> set (xc_services xfs_contract)" by (simp add: xfs_contract_def)
  show ?thesis using codegen_lockstep [OF contract_ok_xfs m] m contract_ok_xfs by (auto simp: lower_services)
qed

lemma pascal_services:
  "ts_pascal ''IDC'' = ''Idc''" "ts_pascal ''PIN'' = ''Pin''" "ts_pascal ''CDM'' = ''Cdm''"
  "ts_pascal ''PTR'' = ''Ptr''" "ts_pascal ''SIU'' = ''Siu''"
  by code_simp+

lemmas printed = ts_service_lines_def ts_table_def ts_entry_def ts_code_type_def pascal_services

lemma services_as_generated:
  "ts_service_lines ''IDC'' spec_idc = drop 5 file_idc_ts" "ts_service_lines ''PIN'' spec_pin = drop 5 file_pin_ts"
  "ts_service_lines ''CDM'' spec_cdm = drop 5 file_cdm_ts" "ts_service_lines ''PTR'' spec_ptr = drop 5 file_ptr_ts"
  "ts_service_lines ''SIU'' spec_siu = drop 5 file_siu_ts"
  by (simp_all add: printed spec_idc_def spec_pin_def spec_cdm_def spec_ptr_def spec_siu_def file_idc_ts_def
      file_pin_ts_def file_cdm_ts_def file_ptr_ts_def file_siu_ts_def Let_def)
lemma js_lines_head: "a \<noteq> [] \<Longrightarrow> b \<noteq> [] \<Longrightarrow> js_lines (js_lines a # b) = js_lines (a @ b)"
proof -
  have "a \<noteq> [] \<Longrightarrow> b \<noteq> [] \<Longrightarrow> js_join sep (a @ b) = js_join sep a @ sep @ js_join sep b" for sep
    by (induction a rule: induct_list012) (auto simp: neq_Nil_conv)
  then show "a \<noteq> [] \<Longrightarrow> b \<noteq> [] \<Longrightarrow> js_lines (js_lines a # b) = js_lines (a @ b)"
    by (cases b) (simp_all add: js_lines_def)
qed

lemma no_CR_file:
  assumes "list_all (\<lambda>l. CHR 0x0D \<notin> set l) ls"
  shows "js_unix_newlines (js_lines ls) = js_lines ls"
  using set_js_lines [of ls] assms by (intro unix_newlines_id) (auto simp: list_all_iff nl_char_def)

lemmas generated_files = file_idc_ts_def file_pin_ts_def file_cdm_ts_def file_ptr_ts_def file_siu_ts_def
  file_result_codes_ts_def file_event_classes_ts_def file_index_ts_def

lemma generated_no_CR:
  "list_all (list_all (\<lambda>l. CHR 0x0D \<notin> set l)) [file_idc_ts, file_pin_ts, file_cdm_ts, file_ptr_ts, file_siu_ts,
     file_result_codes_ts, file_event_classes_ts, file_index_ts]"
  by (simp add: generated_files em_dash_def)

lemma generated_heads:
  "file_idc_ts = spec_preamble @ [] # drop 5 file_idc_ts" "file_pin_ts = spec_preamble @ [] # drop 5 file_pin_ts"
  "file_cdm_ts = spec_preamble @ [] # drop 5 file_cdm_ts" "file_ptr_ts = spec_preamble @ [] # drop 5 file_ptr_ts"
  "file_siu_ts = spec_preamble @ [] # drop 5 file_siu_ts"
  by (simp_all add: generated_files spec_preamble_def)

lemma emitService_generated:
  assumes "ts_service_lines i svc = drop 5 f" "f = spec_preamble @ [] # drop 5 f"
  shows "emitService i svc (xc_preamble xfs_contract) = js_lines f"
proof -
  have "js_lines (js_lines spec_preamble # [] # drop 5 f) = js_lines (spec_preamble @ [] # drop 5 f)"
    by (rule js_lines_head) (simp_all add: spec_preamble_def)
  then show ?thesis using assms by (simp add: emitService_def preamble_xfs)
qed

lemmas services_emitted =
  emitService_generated [OF services_as_generated(1) generated_heads(1)]
  emitService_generated [OF services_as_generated(2) generated_heads(2)]
  emitService_generated [OF services_as_generated(3) generated_heads(3)]
  emitService_generated [OF services_as_generated(4) generated_heads(4)]
  emitService_generated [OF services_as_generated(5) generated_heads(5)]

lemma result_codes_emitted: "emitResultCodes xfs_contract = js_lines file_result_codes_ts"
proof -
  have "js_int_to_string 0 = ''0''" "js_int_to_string (- 1) = ''-1''" "js_int_to_string (- 2) = ''-2''"
    "js_int_to_string (- 3) = ''-3''" "js_int_to_string (- 4) = ''-4''" "js_int_to_string (- 5) = ''-5''"
    "js_int_to_string (- 6) = ''-6''" "js_int_to_string (- 7) = ''-7''" "js_int_to_string (- 8) = ''-8''"
    "js_int_to_string (- 9) = ''-9''" "js_int_to_string (- 10) = ''-10''" "js_int_to_string (- 11) = ''-11''"
    by code_simp+
  then show ?thesis
    unfolding emitResultCodes_def preamble_xfs append.simps
    by (subst js_lines_head) (simp_all add: spec_preamble_def xfs_contract_def file_result_codes_ts_def)
qed

lemma event_classes_emitted: "emitEventClasses xfs_contract = js_lines file_event_classes_ts"
  unfolding emitEventClasses_def preamble_xfs append.simps
  by (subst js_lines_head) (simp_all add: spec_preamble_def xfs_contract_def file_event_classes_ts_def)

lemma index_emitted: "emitIndex (map fst (xc_services xfs_contract)) = js_lines file_index_ts"
  by (simp add: emitIndex_def xfs_contract_def file_index_ts_def lower_services)

text \<open>Regenerating from the contract of the repository gives exactly the TypeScript files the
  repository holds, byte by byte, and their codes and event classes are the ones the devices of this
  development answer to and send, service by service, with the result codes in the order of the enum.\<close>

theorem contract_is_implemented:
  "ts_main xfs_contract = checked_in_ts
   \<and> map (\<lambda>(i, svc). (i, map snd (sd_commands svc), map (\<lambda>(n, e). (ed_code e, ed_class e)) (sd_events svc)))
       (xc_services xfs_contract) =
     [(''IDC'', map idc_cmd_code [IDC_READ_RAW_DATA, IDC_READ_TRACK, IDC_WRITE_TRACK, IDC_EJECT_CARD, IDC_RETAIN_CARD,
          IDC_RESET_COUNT, IDC_RESET, IDC_CHIP_IO, IDC_CHIP_POWER],
        map (\<lambda>e. (idc_evt_code e, class_name_of (idc_evt_class e)))
          [IDC_MEDIA_INSERTED, IDC_MEDIA_REMOVED, IDC_MEDIA_RETAINED, IDC_INVALID_TRACK_DATA, IDC_INVALID_MEDIA]),
      (''PIN'', map pin_cmd_code [PIN_GET_PIN, PIN_GET_PINBLOCK, PIN_GET_DATA, PIN_RESET, PIN_IMPORT_KEY, PIN_GET_KEY_DETAIL],
        map (\<lambda>e. (pin_evt_code e, class_name_of (pin_evt_class e))) [PIN_KEY, PIN_ENTER_DATA, PIN_DATA_READY]),
      (''CDM'', map cdm_cmd_code [CDM_DISPENSE, CDM_PRESENT, CDM_REJECT, CDM_RETRACT, CDM_COUNT, CDM_CASH_UNIT_INFO,
          CDM_START_EXCHANGE, CDM_END_EXCHANGE, CDM_RESET],
        map (\<lambda>e. (cdm_evt_code e, class_name_of (cdm_evt_class e)))
          [CDM_CASH_UNIT_THRESHOLD, CDM_SAFE_DOOR_OPEN, CDM_SAFE_DOOR_CLOSED, CDM_NOTES_PRESENTED, CDM_NOTES_TAKEN,
           CDM_JAM, CDM_EXCHANGE_STATE_CHANGED]),
      (''PTR'', map ptr_cmd_code [PTR_PRINT_FORM, PTR_RAW_DATA, PTR_CUT_PAPER, PTR_RESET],
        map (\<lambda>e. (ptr_evt_code e, class_name_of (ptr_evt_class e))) [PTR_PAPER_THRESHOLD, PTR_MEDIA_PRESENTED, PTR_MEDIA_TAKEN]),
      (''SIU'', map siu_cmd_code [SIU_ENABLE_EVENTS, SIU_DISABLE_EVENTS, SIU_SET_INDICATOR, SIU_GET_SENSOR_STATUS, SIU_RESET],
        map (\<lambda>e. (siu_evt_code e, class_name_of (siu_evt_class e)))
          [SIU_PORT_STATUS, SIU_CABINET_STATUS, SIU_SAFE_DOOR, SIU_TAMPER_SENSOR, SIU_OPERATOR_SWITCH])]
   \<and> map snd (xc_resultCodes xfs_contract) = map xfs_result_code
       [SUCCESS, ERR_CANCEL, ERR_DEV_NOT_READY, ERR_HARDWARE_ERROR, ERR_INVALID_HSERVICE, ERR_INTERNAL_ERROR,
        ERR_TIMEOUT, ERR_USER_ERROR, ERR_UNSUPP_COMMAND, ERR_SERVICE_NOT_FOUND, ERR_LOCKED, ERR_NOT_STARTED]"
proof (intro conjI)
  have S: "xc_services xfs_contract = [(''IDC'', spec_idc), (''PIN'', spec_pin), (''CDM'', spec_cdm), (''PTR'', spec_ptr), (''SIU'', spec_siu)]"
    by (simp add: xfs_contract_def)
  show "ts_main xfs_contract = checked_in_ts"
    using generated_no_CR unfolding ts_main_def ts_writeFile_def result_codes_emitted event_classes_emitted index_emitted
    by (simp add: S services_emitted lower_services checked_in_ts_def no_CR_file)
qed (simp_all add: xfs_contract_def spec_idc_def spec_pin_def spec_cdm_def spec_ptr_def spec_siu_def)
end
