(* ===== verification/Front_Atm.thy ===== *)
theory Front_Atm
  imports Rest_Endpoints
begin

text \<open>
  The customer's screen (\<^verbatim>\<open>apps/atm-frontend\<close>: \<^verbatim>\<open>components/atm/AtmScreen.tsx\<close>, \<^verbatim>\<open>KeypadPanel.tsx\<close>,
  \<^verbatim>\<open>FdkColumn.tsx\<close>, \<^verbatim>\<open>hooks/useAtmSocket.ts\<close>) as a state machine. Its state is the values of the hooks;
  its events are the frames of the socket, what the customer does, and the replies of the server. A
  handler that awaits a request is cut there: what it does with the reply is a continuation, kept with
  the request in \<open>fe_pending\<close>. After each event React renders and runs the effects whose dependencies
  changed. A control that is not shown or is disabled does nothing. Styling is left out, and the time
  of a request is the time of its reply.
\<close>

section \<open>Keys\<close>

datatype fdk_slot = FDK_A | FDK_B | FDK_C | FDK_D | FDK_E | FDK_F | FDK_G | FDK_H

record FdkOption =
  fo_slot :: fdk_slot
  fo_label :: string
  fo_value :: "int option"
  fo_enabled :: bool

definition fdk_amount :: "fdk_slot \<Rightarrow> string \<Rightarrow> int \<Rightarrow> FdkOption" where
  "fdk_amount sl label amount = \<lparr>fo_slot = sl, fo_label = label, fo_value = Some amount, fo_enabled = True\<rparr>"

definition fdk_text :: "fdk_slot \<Rightarrow> string \<Rightarrow> FdkOption" where
  "fdk_text sl label = \<lparr>fo_slot = sl, fo_label = label, fo_value = None, fo_enabled = True\<rparr>"

definition fdk_blank :: "fdk_slot \<Rightarrow> FdkOption" where
  "fdk_blank sl = \<lparr>fo_slot = sl, fo_label = [], fo_value = None, fo_enabled = False\<rparr>"

definition WITHDRAW_FDKS :: "FdkOption list" where
  "WITHDRAW_FDKS =
     [fdk_amount FDK_A ''300.000'' 300000, fdk_amount FDK_B ''500.000'' 500000, fdk_text FDK_C ''UANG ELEKTRONIK'',
      fdk_blank FDK_D, fdk_amount FDK_E ''1.000.000'' 1000000, fdk_amount FDK_F ''2.000.000'' 2000000,
      fdk_text FDK_G (''PENARIKAN'' @ js_newline @ ''JUMLAH LAIN''), fdk_text FDK_H ''MENU LAINNYA'']"

definition SUB_MENU_FDKS :: "FdkOption list" where
  "SUB_MENU_FDKS =
     [fdk_text FDK_A ''CEK SALDO'', fdk_text FDK_B ''TRANSFER'', fdk_text FDK_C ''SETOR TUNAI'', fdk_blank FDK_D,
      fdk_text FDK_E ''PEMBAYARAN'', fdk_blank FDK_F, fdk_blank FDK_G, fdk_text FDK_H ''KEMBALI'']"

text \<open>The keyboard handler of the keypad, with the tag of the element that has the focus.\<close>

definition keyboard_key :: "string \<Rightarrow> string \<Rightarrow> string option" where
  "keyboard_key tag key =
     (if tag = ''INPUT'' \<or> tag = ''TEXTAREA'' then None
      else if single_digit key then Some key
      else if key = ''Enter'' then Some ''ENTER''
      else if key = ''Backspace'' then Some ''CLEAR''
      else if key = ''Escape'' then Some ''CANCEL''
      else None)"

section \<open>State\<close>

datatype api_request =
    Get_Cards
  | Get_Theme
  | Post_Insert string
  | Post_BeginPin
  | Post_Key string
  | Post_Select string
  | Post_Amount int
  | Post_Confirm
  | Post_Cancel

text \<open>What is left to do with the reply of a request.\<close>

datatype cont =
    K_Cards
  | K_Theme
  | K_Wrap
  | K_QuickAmount int
  | K_Custom
  | K_BeginPin
  | K_Key string

datatype menu_view = MAIN_VIEW | SUB_VIEW

record VirtualCardSummary =
  vc_pan :: string
  vc_cardholderName :: string
  vc_expiryDate :: string
  vc_status :: string

record fe =
  fe_connected :: bool
  fe_session :: "AtmSession option"
  fe_events :: "xfs_event list"
  fe_theme :: "BankTheme option"
  fe_cards :: "VirtualCardSummary list"
  fe_selectedPan :: "string option"
  fe_error :: "string option"
  fe_busy :: bool
  fe_customAmount :: string
  fe_pinDigits :: nat
  fe_pinBusy :: bool
  fe_menuView :: menu_view
  fe_overlayMsg :: "string option"
  fe_autoPin :: "string option"
  fe_pending :: "(nat \<times> cont) list"
  fe_ticket :: nat

definition fe_init :: fe where
  "fe_init = \<lparr>fe_connected = False, fe_session = None, fe_events = [], fe_theme = None, fe_cards = [],
     fe_selectedPan = None, fe_error = None, fe_busy = False, fe_customAmount = [], fe_pinDigits = 0,
     fe_pinBusy = False, fe_menuView = MAIN_VIEW, fe_overlayMsg = None, fe_autoPin = None, fe_pending = [],
     fe_ticket = 0\<rparr>"

definition fe_state :: "fe \<Rightarrow> AtmState" where
  "fe_state s = (case fe_session s of None \<Rightarrow> IDLE | Some x \<Rightarrow> ss_state x)"

definition fe_cardInserted :: "fe \<Rightarrow> bool" where
  "fe_cardInserted s \<longleftrightarrow> fe_state s \<noteq> IDLE \<and> fe_state s \<noteq> ENDED"

definition fe_sid :: "fe \<Rightarrow> string option" where
  "fe_sid s = map_option ss_id (fe_session s)"

definition fe_fdks :: "fe \<Rightarrow> FdkOption list" where
  "fe_fdks s =
     (if fe_state s = MAIN_MENU then (if fe_menuView s = SUB_VIEW then SUB_MENU_FDKS else WITHDRAW_FDKS)
      else map fdk_blank [FDK_A, FDK_B, FDK_C, FDK_D, FDK_E, FDK_F, FDK_G, FDK_H])"

section \<open>Requests\<close>

type_synonym fe_result = "fe \<times> (nat \<times> api_request) list"

definition fe_send :: "api_request \<Rightarrow> cont \<Rightarrow> fe \<Rightarrow> fe_result" where
  "fe_send r k s =
     (s\<lparr>fe_pending := fe_pending s @ [(fe_ticket s, k)], fe_ticket := Suc (fe_ticket s)\<rparr>, [(fe_ticket s, r)])"

text \<open>\<open>wrap\<close> up to its request.\<close>

definition fe_wrap :: "api_request \<Rightarrow> cont \<Rightarrow> fe \<Rightarrow> fe_result" where
  "fe_wrap r k s = fe_send r k (s\<lparr>fe_error := None, fe_busy := True\<rparr>)"

datatype api_reply =
    Reply_Cards "VirtualCardSummary list"
  | Reply_Theme BankTheme
  | Reply_Pin bool "string option"
  | Reply_Ok
  | Reply_Error string

definition reply_error :: "api_reply \<Rightarrow> string option" where
  "reply_error r = (case r of Reply_Error e \<Rightarrow> Some e | _ \<Rightarrow> None)"

definition wrap_end :: "api_reply \<Rightarrow> fe \<Rightarrow> fe" where
  "wrap_end r s = s\<lparr>fe_error := (case reply_error r of Some e \<Rightarrow> Some e | None \<Rightarrow> fe_error s), fe_busy := False\<rparr>"

definition cards_loaded :: "VirtualCardSummary list \<Rightarrow> fe \<Rightarrow> fe" where
  "cards_loaded cs s =
     (let s1 = s\<lparr>fe_cards := cs\<rparr>
      in case find (\<lambda>c. vc_status c = ''ACTIVE'') cs of
           None \<Rightarrow> s1
         | Some c \<Rightarrow> s1\<lparr>fe_selectedPan := Some (vc_pan c)\<rparr>)"

text \<open>The reply to \<open>begin-pin\<close>.\<close>

definition pin_done :: "api_reply \<Rightarrow> fe \<Rightarrow> fe" where
  "pin_done r s =
     (let s1 = (case r of
                  Reply_Error e \<Rightarrow> s\<lparr>fe_error := Some e\<rparr>
                | Reply_Pin verified (Some reason) \<Rightarrow>
                    if \<not> verified \<and> reason \<noteq> [] then s\<lparr>fe_error := Some reason\<rparr> else s
                | _ \<Rightarrow> s)
      in s1\<lparr>fe_pinBusy := False\<rparr>)"

text \<open>The reply to a key.\<close>

definition key_done :: "string \<Rightarrow> api_reply \<Rightarrow> fe \<Rightarrow> fe" where
  "key_done key r s =
     (case reply_error r of
        Some e \<Rightarrow> s\<lparr>fe_error := Some e\<rparr>
      | None \<Rightarrow>
          if key = ''CLEAR'' then s\<lparr>fe_pinDigits := 0\<rparr>
          else if key = ''CANCEL'' then s\<lparr>fe_pinDigits := 0, fe_pinBusy := False\<rparr>
          else if key = ''ENTER'' then s\<lparr>fe_pinDigits := 0\<rparr>
          else if single_digit key then s\<lparr>fe_pinDigits := min (fe_pinDigits s + 1) 12\<rparr>
          else s)"

definition fe_resume :: "cont \<Rightarrow> api_reply \<Rightarrow> fe \<Rightarrow> fe_result" where
  "fe_resume k r s =
     (case k of
        K_Cards \<Rightarrow>
          ((case r of Reply_Cards cs \<Rightarrow> cards_loaded cs s | Reply_Error e \<Rightarrow> s\<lparr>fe_error := Some e\<rparr> | _ \<Rightarrow> s), [])
      | K_Theme \<Rightarrow> ((case r of Reply_Theme t \<Rightarrow> s\<lparr>fe_theme := Some t\<rparr> | _ \<Rightarrow> s), [])
      | K_Wrap \<Rightarrow> (wrap_end r s, [])
      | K_QuickAmount v \<Rightarrow>
          (case reply_error r of Some e \<Rightarrow> (wrap_end r s, []) | None \<Rightarrow> fe_send (Post_Amount v) K_Wrap s)
      | K_Custom \<Rightarrow> ((wrap_end r s)\<lparr>fe_customAmount := []\<rparr>, [])
      | K_BeginPin \<Rightarrow> (pin_done r s, [])
      | K_Key key \<Rightarrow> (key_done key r s, []))"

section \<open>Actions\<close>

definition fe_insertCard :: "fe \<Rightarrow> fe_result" where
  "fe_insertCard s =
     (case fe_selectedPan s of
        None \<Rightarrow> (s\<lparr>fe_error := Some ''select a card first''\<rparr>, [])
      | Some p \<Rightarrow> if p = [] then (s\<lparr>fe_error := Some ''select a card first''\<rparr>, [])
                  else fe_wrap (Post_Insert p) K_Wrap s)"

definition fe_pressKey :: "string \<Rightarrow> fe \<Rightarrow> fe_result" where
  "fe_pressKey key s =
     (if \<not> fe_pinBusy s \<and> key \<notin> set [''CANCEL'']
      then (if key = ''CANCEL'' then fe_wrap Post_Cancel K_Wrap s else (s, []))
      else fe_send (Post_Key key) (K_Key key) s)"

definition coming_soon :: "string \<Rightarrow> string option" where
  "coming_soon label =
     (if label = ''TRANSFER'' then Some (''TRANSFER'' @ js_newline @ js_newline
          @ ''Fitur ini sedang dalam pengembangan.'' @ js_newline @ ''Silakan gunakan layanan online banking Anda.'')
      else if label = ''PEMBAYARAN'' then Some (''PEMBAYARAN'' @ js_newline @ js_newline
          @ ''Fitur ini sedang dalam pengembangan.'' @ js_newline @ ''Dijadwalkan rilis dalam pembaruan berikutnya.'')
      else if label = ''SETOR TUNAI'' then Some (''SETOR TUNAI'' @ js_newline @ js_newline
          @ ''Fitur ini sedang dalam pengembangan.'' @ js_newline @ ''Silakan gunakan ATM Setor Tarik (CRM) terdekat.'')
      else None)"

definition emoney_msg :: string where
  "emoney_msg = ''UANG ELEKTRONIK'' @ js_newline @ js_newline @ ''Silakan tempelkan kartu uang elektronik Anda''
     @ js_newline @ ''(Mandiri e-Money / Flazz / Brizzi / TapCash)'' @ js_newline @ js_newline
     @ ''Maaf, fitur ini belum tersedia di simulator.''"

definition fdk_sub :: "FdkOption \<Rightarrow> fe \<Rightarrow> fe_result" where
  "fdk_sub fdk s =
     (if fo_label fdk = ''CEK SALDO'' then fe_wrap (Post_Select ''BALANCE'') K_Wrap (s\<lparr>fe_menuView := MAIN_VIEW\<rparr>)
      else if fo_label fdk = ''KEMBALI'' then (s\<lparr>fe_menuView := MAIN_VIEW\<rparr>, [])
      else (case coming_soon (fo_label fdk) of
              Some msg \<Rightarrow> (s\<lparr>fe_overlayMsg := Some msg\<rparr>, [])
            | None \<Rightarrow> (s, [])))"

fun js_includes :: "string \<Rightarrow> string \<Rightarrow> bool" where
  "js_includes p [] \<longleftrightarrow> p = []"
| "js_includes p (c # s) \<longleftrightarrow> js_startsWith (c # s) p \<or> js_includes p s"

definition fdk_main :: "FdkOption \<Rightarrow> fe \<Rightarrow> fe_result" where
  "fdk_main fdk s =
     (if fo_label fdk = ''UANG ELEKTRONIK'' then (s\<lparr>fe_overlayMsg := Some emoney_msg\<rparr>, [])
      else if fo_label fdk = ''MENU LAINNYA'' then (s\<lparr>fe_menuView := SUB_VIEW\<rparr>, [])
      else (case fo_value fdk of
              Some v \<Rightarrow> fe_wrap (Post_Select ''WITHDRAWAL'') (K_QuickAmount v) s
            | None \<Rightarrow>
                if js_includes ''JUMLAH LAIN'' (fo_label fdk) then fe_wrap (Post_Select ''WITHDRAWAL'') K_Wrap s
                else (s, [])))"

definition fe_selectFdk :: "FdkOption \<Rightarrow> fe \<Rightarrow> fe_result" where
  "fe_selectFdk fdk s =
     (if \<not> fo_enabled fdk then (s, [])
      else if fe_state s \<noteq> MAIN_MENU then (s, [])
      else if fe_menuView s = SUB_VIEW then fdk_sub fdk s
      else fdk_main fdk s)"

definition fe_submitCustom :: "fe \<Rightarrow> fe_result" where
  "fe_submitCustom s =
     (case js_parseInt 10 (fe_customAmount s) of
        None \<Rightarrow> (s, [])
      | Some v \<Rightarrow> fe_wrap (Post_Amount v) K_Custom s)"

section \<open>Events\<close>

datatype fe_event =
    Ev_Connect
  | Ev_Disconnect
  | Ev_StateChanged AtmSession
  | Ev_SessionEnded
  | Ev_ThemeChanged "BankTheme option"
  | Ev_Xfs xfs_event
  | Ev_Reply nat api_reply
  | Ev_PickCard string
  | Ev_Insert
  | Ev_Key string
  | Ev_Keyboard string string
  | Ev_Fdk fdk_slot
  | Ev_TypeAmount string
  | Ev_SubmitAmount
  | Ev_Confirm
  | Ev_Cancel
  | Ev_Balance
  | Ev_Dismiss

definition fe_shown :: "bool \<Rightarrow> fe \<Rightarrow> fe_result \<Rightarrow> fe_result" where
  "fe_shown c s r = (if c then r else (s, []))"

definition fe_handle :: "fe_event \<Rightarrow> fe \<Rightarrow> fe_result" where
  "fe_handle ev s =
     (case ev of
        Ev_Connect \<Rightarrow> (s\<lparr>fe_connected := True\<rparr>, [])
      | Ev_Disconnect \<Rightarrow> (s\<lparr>fe_connected := False\<rparr>, [])
      | Ev_StateChanged x \<Rightarrow> (s\<lparr>fe_session := Some x\<rparr>, [])
      | Ev_SessionEnded \<Rightarrow> (s\<lparr>fe_session := None\<rparr>, [])
      | Ev_ThemeChanged (Some t) \<Rightarrow> (s\<lparr>fe_theme := Some t\<rparr>, [])
      | Ev_ThemeChanged None \<Rightarrow> fe_send Get_Theme K_Theme s
      | Ev_Xfs e \<Rightarrow> (s\<lparr>fe_events := take 100 (e # fe_events s)\<rparr>, [])
      | Ev_Reply t r \<Rightarrow>
          (case map_of (fe_pending s) t of
             None \<Rightarrow> (s, [])
           | Some k \<Rightarrow> fe_resume k r (s\<lparr>fe_pending := filter (\<lambda>p. fst p \<noteq> t) (fe_pending s)\<rparr>))
      | Ev_PickCard p \<Rightarrow> fe_shown (fe_state s = IDLE) s (s\<lparr>fe_selectedPan := Some p\<rparr>, [])
      | Ev_Insert \<Rightarrow> fe_shown (fe_state s = IDLE \<and> fe_selectedPan s \<notin> {None, Some []} \<and> \<not> fe_busy s) s (fe_insertCard s)
      | Ev_Key k \<Rightarrow> fe_pressKey k s
      | Ev_Keyboard tag k \<Rightarrow> (case keyboard_key tag k of None \<Rightarrow> (s, []) | Some key \<Rightarrow> fe_pressKey key s)
      | Ev_Fdk sl \<Rightarrow>
          (case find (\<lambda>f. fo_slot f = sl) (fe_fdks s) of None \<Rightarrow> (s, []) | Some f \<Rightarrow> fe_selectFdk f s)
      | Ev_TypeAmount t \<Rightarrow> fe_shown (fe_state s = AMOUNT_ENTRY) s (s\<lparr>fe_customAmount := t\<rparr>, [])
      | Ev_SubmitAmount \<Rightarrow> fe_shown (fe_state s = AMOUNT_ENTRY \<and> fe_customAmount s \<noteq> []) s (fe_submitCustom s)
      | Ev_Confirm \<Rightarrow> fe_shown (fe_state s = CONFIRM) s (fe_wrap Post_Confirm K_Wrap s)
      | Ev_Cancel \<Rightarrow> fe_shown (fe_state s \<in> {PIN_ENTRY, MAIN_MENU, AMOUNT_ENTRY, CONFIRM}) s (fe_wrap Post_Cancel K_Wrap s)
      | Ev_Balance \<Rightarrow> fe_shown (fe_state s = MAIN_MENU) s (fe_wrap (Post_Select ''BALANCE'') K_Wrap s)
      | Ev_Dismiss \<Rightarrow> (s\<lparr>fe_overlayMsg := None\<rparr>, []))"

section \<open>Effects\<close>

text \<open>The PIN entry starts by itself, once for a session.\<close>

definition fe_autoStart :: "fe \<Rightarrow> fe_result" where
  "fe_autoStart s =
     (case fe_session s of
        None \<Rightarrow> (s, [])
      | Some x \<Rightarrow>
          if ss_state x \<noteq> PIN_ENTRY \<or> ss_id x = [] \<or> fe_autoPin s = Some (ss_id x) then (s, [])
          else fe_send Post_BeginPin K_BeginPin
                 (s\<lparr>fe_autoPin := Some (ss_id x), fe_pinBusy := True, fe_pinDigits := 0\<rparr>))"

definition fe_gateReset :: "fe \<Rightarrow> fe" where
  "fe_gateReset s = (if fe_session s = None then s\<lparr>fe_autoPin := None\<rparr> else s)"

definition fe_menuReset :: "fe \<Rightarrow> fe" where
  "fe_menuReset s =
     (if fe_state s = IDLE \<or> fe_state s = ENDED then s\<lparr>fe_menuView := MAIN_VIEW, fe_overlayMsg := None\<rparr> else s)"

text \<open>After a render, in the order of the component; \<open>old\<close> is the state before the event.\<close>

definition fe_effects :: "fe \<Rightarrow> fe \<Rightarrow> fe_result" where
  "fe_effects old s =
     (let (s1, out) = (if fe_state s \<noteq> fe_state old \<or> fe_sid s \<noteq> fe_sid old then fe_autoStart s else (s, []));
          s2 = (if fe_session s1 \<noteq> fe_session old then fe_gateReset s1 else s1);
          s3 = (if fe_state s2 \<noteq> fe_state old then fe_menuReset s2 else s2)
      in (s3, out))"

definition fe_step :: "fe_event \<Rightarrow> fe \<Rightarrow> fe_result" where
  "fe_step ev s =
     (let (s1, out1) = fe_handle ev s; (s2, out2) = fe_effects s s1 in (s2, out1 @ out2))"

fun fe_run :: "fe_event list \<Rightarrow> fe \<Rightarrow> fe_result" where
  "fe_run [] s = (s, [])"
| "fe_run (ev # evs) s =
     (let (s1, out1) = fe_step ev s; (s2, out2) = fe_run evs s1 in (s2, out1 @ out2))"

text \<open>The first render: the theme and the cards are asked for.\<close>

definition fe_mount :: fe_result where
  "fe_mount =
     (let (s1, out1) = fe_send Get_Theme K_Theme fe_init; (s2, out2) = fe_send Get_Cards K_Cards s1
      in (s2, out1 @ out2))"

section \<open>What the server does\<close>

text \<open>The endpoint behind each request of the session, with the state after the request began; a refusal
  is \<^const>\<open>None\<close>.\<close>

definition fe_serve :: "'db bank_ops \<Rightarrow> atm_env \<Rightarrow> api_request \<Rightarrow> 'db world \<Rightarrow> ('db world \<times> progress) option" where
  "fe_serve ops env r w =
     (case r of
        Post_Insert pan \<Rightarrow> (case sessions_insertCard ops env pan w of Inl _ \<Rightarrow> None | Inr p \<Rightarrow> Some p)
      | Post_BeginPin \<Rightarrow> Some (sessions_beginPin env w)
      | Post_Key k \<Rightarrow> Some (snd (sessions_pressKey env k w), Return Rp_Unit)
      | Post_Select t \<Rightarrow> (case sessions_selectTransaction env t w of Inl _ \<Rightarrow> None | Inr p \<Rightarrow> Some p)
      | Post_Amount v \<Rightarrow> (case sessions_submitAmount env (js_int v) w of Inl _ \<Rightarrow> None | Inr p \<Rightarrow> Some p)
      | Post_Confirm \<Rightarrow> Some (sessions_confirm env w)
      | Post_Cancel \<Rightarrow> Some (sessions_cancel env None w)
      | _ \<Rightarrow> None)"

end
