(* ===== verification/Front_Atm_Props.thy ===== *)
theory Front_Atm_Props
  imports Front_Atm Atm_Props
begin

text \<open>
  The screen together with the server: a session has one PIN entry on the screen, so a wrong PIN
  strands the customer; the key that cancels reaches the PIN pad only; a quick amount leads the ATM to
  the confirmation.
\<close>

section \<open>One PIN entry\<close>

definition fe_gated :: "string \<Rightarrow> fe \<Rightarrow> bool" where
  "fe_gated sid s \<longleftrightarrow> fe_sid s = Some sid \<and> fe_autoPin s = Some sid"

definition same_session :: "string \<Rightarrow> fe_event \<Rightarrow> bool" where
  "same_session sid ev \<longleftrightarrow> ev \<noteq> Ev_SessionEnded \<and> (\<forall>x. ev = Ev_StateChanged x \<longrightarrow> ss_id x = sid)"

text \<open>The fields that only a session frame or an effect changes, and the requests that no handler makes.\<close>

definition quiet :: "fe \<Rightarrow> fe_result \<Rightarrow> bool" where
  "quiet s r \<longleftrightarrow> fe_session (fst r) = fe_session s \<and> fe_autoPin (fst r) = fe_autoPin s
     \<and> (fe_pinBusy (fst r) \<longrightarrow> fe_pinBusy s)
     \<and> (\<forall>p \<in> set (snd r). snd p \<noteq> Post_BeginPin)
     \<and> (\<not> fe_pinBusy s \<longrightarrow> (\<forall>n k. (n, Post_Key k) \<in> set (snd r) \<longrightarrow> k = ''CANCEL''))"

lemma quiet_simps [simp]:
  "r \<noteq> Post_BeginPin \<Longrightarrow> (\<And>k. r \<noteq> Post_Key k) \<Longrightarrow> quiet s (fe_send r c s)"
  "r \<noteq> Post_BeginPin \<Longrightarrow> (\<And>k. r \<noteq> Post_Key k) \<Longrightarrow> quiet s (fe_wrap r c s)"
  "quiet s (s, [])"
  by (auto simp: quiet_def fe_send_def fe_wrap_def)

lemma quiet_pressKey: "quiet s (fe_pressKey k s)"
  by (auto simp: quiet_def fe_pressKey_def fe_send_def fe_wrap_def)

lemma quiet_resume: "quiet s (fe_resume k r s)"
  by (auto simp: quiet_def fe_resume_def fe_send_def wrap_end_def cards_loaded_def pin_done_def key_done_def Let_def
      split: cont.split api_reply.split option.split)

lemma quiet_fdk: "quiet s (fe_selectFdk f s)"
  by (auto simp: quiet_def fe_selectFdk_def fdk_sub_def fdk_main_def fe_wrap_def fe_send_def split: option.split)

lemma quiet_custom: "quiet s (fe_submitCustom s)" "quiet s (fe_insertCard s)"
  by (auto simp: fe_submitCustom_def fe_insertCard_def quiet_def fe_wrap_def fe_send_def split: option.split)

lemma quiet_reply: "quiet s (fe_resume k r (s\<lparr>fe_pending := ps\<rparr>))"
  using quiet_resume [of "s\<lparr>fe_pending := ps\<rparr>" k r] by (simp add: quiet_def)

lemma quiet_handle:
  "ev \<noteq> Ev_SessionEnded \<Longrightarrow> (\<And>x. ev \<noteq> Ev_StateChanged x) \<Longrightarrow> quiet s (fe_handle ev s)"
  by (cases ev)
    (auto simp: fe_handle_def fe_shown_def quiet_pressKey quiet_fdk quiet_custom quiet_reply split: option.split,
     simp_all add: quiet_def)

lemma gated_start: "fe_gated sid s \<Longrightarrow> fe_autoStart s = (s, [])"
  by (auto simp: fe_gated_def fe_autoStart_def fe_sid_def)

lemma reset_simps [simp]:
  "fe_session (fe_menuReset s) = fe_session s" "fe_autoPin (fe_menuReset s) = fe_autoPin s"
  "fe_pinBusy (fe_menuReset s) = fe_pinBusy s" "fe_session s \<noteq> None \<Longrightarrow> fe_gateReset s = s"
  by (auto simp: fe_menuReset_def fe_gateReset_def)

lemma gated_effects:
  assumes "fe_gated sid s"
  shows "fe_gated sid (fst (fe_effects old s))" "snd (fe_effects old s) = []"
    "fe_pinBusy (fst (fe_effects old s)) = fe_pinBusy s"
proof -
  have e: "fe_effects old s = (if fe_state s \<noteq> fe_state old then fe_menuReset s else s, [])"
    using assms gated_start [OF assms] by (auto simp: fe_effects_def fe_gated_def fe_sid_def)
  show "fe_gated sid (fst (fe_effects old s))" "snd (fe_effects old s) = []"
    "fe_pinBusy (fst (fe_effects old s)) = fe_pinBusy s"
    using assms by (simp_all add: e fe_gated_def fe_sid_def)
qed

lemma gated_step:
  assumes "fe_gated sid s" "same_session sid ev"
  shows "fe_gated sid (fst (fe_step ev s))" "\<forall>p \<in> set (snd (fe_step ev s)). snd p \<noteq> Post_BeginPin"
    "\<not> fe_pinBusy s \<Longrightarrow> \<not> fe_pinBusy (fst (fe_step ev s))
       \<and> (\<forall>n k. (n, Post_Key k) \<in> set (snd (fe_step ev s)) \<longrightarrow> k = ''CANCEL'')"
proof -
  obtain s1 out1 where h: "fe_handle ev s = (s1, out1)" by fastforce
  have "fe_gated sid s1 \<and> (\<forall>p \<in> set out1. snd p \<noteq> Post_BeginPin) \<and> (\<not> fe_pinBusy s \<longrightarrow>
      \<not> fe_pinBusy s1 \<and> (\<forall>n k. (n, Post_Key k) \<in> set out1 \<longrightarrow> k = ''CANCEL''))"
  proof (cases "\<exists>x. ev = Ev_StateChanged x")
    case True
    then obtain x where x: "ev = Ev_StateChanged x" "ss_id x = sid" using assms(2) by (auto simp: same_session_def)
    then have "s1 = s\<lparr>fe_session := Some x\<rparr>" "out1 = []" using h by (simp_all add: fe_handle_def)
    then show ?thesis using assms(1) x(2) by (simp add: fe_gated_def fe_sid_def)
  next
    case False
    then have "quiet s (fe_handle ev s)" using assms(2) by (intro quiet_handle) (simp_all add: same_session_def)
    then show ?thesis using assms(1) by (auto simp: h quiet_def fe_gated_def fe_sid_def)
  qed
  moreover have "fe_step ev s = (fst (fe_effects s s1), out1 @ snd (fe_effects s s1))"
    by (simp add: fe_step_def h split: prod.split)
  ultimately show "fe_gated sid (fst (fe_step ev s))" "\<forall>p \<in> set (snd (fe_step ev s)). snd p \<noteq> Post_BeginPin"
    "\<not> fe_pinBusy s \<Longrightarrow> \<not> fe_pinBusy (fst (fe_step ev s))
       \<and> (\<forall>n k. (n, Post_Key k) \<in> set (snd (fe_step ev s)) \<longrightarrow> k = ''CANCEL'')"
    using gated_effects [of sid s1 s] by auto
qed

lemma fe_run_Cons:
  "fe_run (ev # evs) s = (fst (fe_run evs (fst (fe_step ev s))), snd (fe_step ev s) @ snd (fe_run evs (fst (fe_step ev s))))"
  by (simp add: split_def Let_def)

lemma gated_run:
  "fe_gated sid s \<Longrightarrow> list_all (same_session sid) evs \<Longrightarrow> \<forall>p \<in> set (snd (fe_run evs s)). snd p \<noteq> Post_BeginPin"
  "fe_gated sid s \<Longrightarrow> \<not> fe_pinBusy s \<Longrightarrow> list_all (same_session sid) evs
     \<Longrightarrow> (n, Post_Key k) \<in> set (snd (fe_run evs s)) \<Longrightarrow> k = ''CANCEL''"
proof (induction evs arbitrary: s)
  case (Cons ev evs)
  {
    case 1
    then show ?case using gated_step(1,2) [of sid s ev] Cons.IH(1) [of "fst (fe_step ev s)"]
      by (auto simp: fe_run_Cons simp del: fe_run.simps)
  next
    case 2
    then show ?case using gated_step(1,3) [of sid s ev] Cons.IH(2) [of "fst (fe_step ev s)"]
      by (auto simp: fe_run_Cons simp del: fe_run.simps)
  }
qed simp_all

text \<open>C5: after a wrong PIN with attempts left the customer is stranded. The host refuses the PIN, with
  another code than the one that asks to retain the card, and this is not the last attempt: the session
  stays in PIN entry and waits for the next try. But on the screen the PIN entry of this session has been
  started before, and whatever the customer does and whatever frames of this session and replies arrive
  afterwards, the screen never asks for another PIN entry and sends no key but CANCEL.\<close>

theorem screen_wrong_pin_strands:
  fixes env :: atm_env
  assumes "w_ok w" "atm_cur w = Some x" "ss_state x = PIN_ENTRY"
    and "\<not> au_success au" "Suc (ss_failedPinAttempts x) < MAX_PIN_ATTEMPTS" "au_responseCode au \<noteq> ''38''"
    and "fe_sid s = Some (ss_id x)" "fe_autoPin s = Some (ss_id x)" "map_of (fe_pending s) t = Some K_BeginPin"
    and "list_all (same_session (ss_id x)) evs"
  shows "(\<exists>w' x'. atm_pin_segment env au w = (w', Return (Rp_Pin False (au_reason au)))
      \<and> atm_cur w' = Some x' \<and> ss_id x' = ss_id x \<and> ss_state x' = PIN_ENTRY \<and> w_bus w' = w_bus w)
    \<and> (\<forall>(n, r) \<in> set (snd (fe_run (Ev_Reply t (Reply_Pin False (au_reason au)) # evs) s)).
        r \<noteq> Post_BeginPin \<and> (\<forall>k. r = Post_Key k \<longrightarrow> k = ''CANCEL''))"
proof -
  let ?ev = "Ev_Reply t (Reply_Pin False (au_reason au))"
  define s1 where "s1 = fst (fe_handle ?ev s)"
  have h: "fe_handle ?ev s = (s1, [])" "fe_gated (ss_id x) s1" "\<not> fe_pinBusy s1"
    using assms(7-9)
    by (simp_all add: s1_def fe_handle_def fe_resume_def pin_done_def Let_def fe_gated_def fe_sid_def split: option.split)
  let ?s2 = "fst (fe_effects s s1)"
  have step: "fe_step ?ev s = (?s2, [])"
    using gated_effects(2) [OF h(2)] by (simp add: fe_step_def h(1) split_def Let_def)
  have "fe_gated (ss_id x) ?s2" "\<not> fe_pinBusy ?s2" using gated_effects [OF h(2)] h(3) by simp_all
  then have "\<forall>(n, r) \<in> set (snd (fe_run evs ?s2)). r \<noteq> Post_BeginPin \<and> (\<forall>k. r = Post_Key k \<longrightarrow> k = ''CANCEL'')"
    using gated_run(1) [OF _ assms(10)] gated_run(2) [OF _ _ assms(10)] by fastforce
  then show ?thesis using assms(1-6)
    by (simp add: fe_run_Cons step atm_pin_segment_def Let_def del: fe_run.simps)
qed
section \<open>The CANCEL key\<close>

lemma effects_same:
  assumes "fe_session s' = fe_session s"
  shows "fe_effects s s' = (s', [])"
  using assms by (simp add: fe_effects_def fe_state_def fe_sid_def)

text \<open>Outside a PIN entry the CANCEL key of the keypad, and the escape key, do not cancel the session,
  in any state of the screen: they are sent to the PIN pad, which ignores them without an entry, so the
  ATM is as it was but for the recorded key press. Only the button asks for the cancellation.\<close>

theorem screen_cancel_key_ignored:
  fixes w :: "'db world" and env :: atm_env
  assumes "\<not> fe_pinBusy s" "pin_active (dv_pin (xm_devices (w_xfs w))) = None"
    and "ev = Ev_Key ''CANCEL'' \<or> ev = Ev_Keyboard ''BODY'' ''Escape''"
  shows "snd (fe_step ev s) = [(fe_ticket s, Post_Key ''CANCEL'')]
    \<and> fe_serve ops env (Post_Key ''CANCEL'') w
      = Some (atm_emitUserAction env (UA_KEY_PRESS ''CANCEL'') (atm_cur_id w) w, Return Rp_Unit)
    \<and> (fe_state s \<in> {PIN_ENTRY, MAIN_MENU, AMOUNT_ENTRY, CONFIRM} \<longrightarrow>
        snd (fe_step Ev_Cancel s) = [(fe_ticket s, Post_Cancel)])"
proof -
  have h: "fe_handle ev s = fe_send (Post_Key ''CANCEL'') (K_Key ''CANCEL'') s"
    using assms(3) by (auto simp: fe_handle_def fe_pressKey_def keyboard_key_def single_digit_def)
  have c: "fe_state s \<in> {PIN_ENTRY, MAIN_MENU, AMOUNT_ENTRY, CONFIRM} \<Longrightarrow>
      fe_handle Ev_Cancel s = fe_wrap Post_Cancel K_Wrap s"
    by (simp add: fe_handle_def fe_shown_def)
  have "xm_step (ae_xfs env) (XmPressKey ''CANCEL'') (w_xfs w) = ([], w_xfs w, [])"
    using assms(2) by (simp add: pin_pressKey_def)
  then have "sessions_pressKey env ''CANCEL'' w
      = ([], atm_emitUserAction env (UA_KEY_PRESS ''CANCEL'') (atm_cur_id w) w)"
    by (simp add: sessions_pressKey_def atm_bus_outputs_def del: xm_step.simps)
  then show ?thesis
    by (auto simp: fe_step_def h c fe_send_def fe_wrap_def effects_same fe_serve_def)
qed

section \<open>Quick amounts\<close>

definition fe_fresh :: "fe \<Rightarrow> bool" where
  "fe_fresh s \<longleftrightarrow> (\<forall>p \<in> set (fe_pending s). fst p < fe_ticket s)"

lemma fresh_ticket: "fe_fresh s \<Longrightarrow> map_of (fe_pending s @ [(fe_ticket s, k)]) (fe_ticket s) = Some k"
  by (auto simp: fe_fresh_def map_add_def split: option.split dest!: map_of_SomeD)

lemma fresh_send [simp]: "fe_fresh s \<Longrightarrow> fe_fresh (fst (fe_send r k s))" "fe_fresh s \<Longrightarrow> fe_fresh (fst (fe_wrap r k s))"
  by (auto simp: fe_fresh_def fe_send_def fe_wrap_def)

lemma fresh_cong: "fe_pending s' = fe_pending s \<Longrightarrow> fe_ticket s' = fe_ticket s \<Longrightarrow> fe_fresh s' = fe_fresh s"
  by (simp add: fe_fresh_def)

lemma fresh_updates [simp]:
  "fe_fresh (wrap_end r s) = fe_fresh s" "fe_fresh (cards_loaded cs s) = fe_fresh s"
  "fe_fresh (pin_done r s) = fe_fresh s" "fe_fresh (key_done key r s) = fe_fresh s"
  "fe_fresh (s\<lparr>fe_error := e\<rparr>) = fe_fresh s" "fe_fresh (s\<lparr>fe_theme := t\<rparr>) = fe_fresh s"
  "fe_fresh (s\<lparr>fe_customAmount := c\<rparr>) = fe_fresh s" "fe_fresh (s\<lparr>fe_menuView := v\<rparr>) = fe_fresh s"
  "fe_fresh (s\<lparr>fe_overlayMsg := m\<rparr>) = fe_fresh s"
  by (simp_all add: fe_fresh_def wrap_end_def cards_loaded_def pin_done_def key_done_def Let_def
      split: option.split api_reply.split)

lemma fresh_resume: "fe_fresh s \<Longrightarrow> fe_fresh (fst (fe_resume k r s))"
  by (cases k; cases r) (simp_all add: fe_resume_def reply_error_def)

lemma fresh_actions:
  assumes "fe_fresh s"
  shows "fe_fresh (fst (fe_pressKey k s))" "fe_fresh (fst (fe_selectFdk f s))"
    "fe_fresh (fst (fe_submitCustom s))" "fe_fresh (fst (fe_insertCard s))"
proof -
  have "fe_fresh (fst (fdk_sub f s))" "fe_fresh (fst (fdk_main f s))"
    using assms by (simp_all add: fdk_sub_def fdk_main_def split: option.split)
  then show "fe_fresh (fst (fe_selectFdk f s))" using assms by (simp add: fe_selectFdk_def)
qed (use assms in \<open>simp_all add: fe_pressKey_def fe_submitCustom_def fe_insertCard_def split: option.split\<close>)

lemma fresh_filter: "fe_fresh s \<Longrightarrow> fe_fresh (s\<lparr>fe_pending := filter P (fe_pending s)\<rparr>)"
  by (simp add: fe_fresh_def)

lemma fresh_handle: "fe_fresh s \<Longrightarrow> fe_fresh (fst (fe_handle ev s))"
  by (cases ev) (auto simp: fe_handle_def fe_shown_def fresh_actions fresh_resume fresh_filter split: option.split,
    simp_all add: fe_fresh_def)

lemma fresh_effects: "fe_fresh s \<Longrightarrow> fe_fresh (fst (fe_effects old s))"
proof -
  assume f: "fe_fresh s"
  then have "fe_fresh (fst (fe_autoStart s))"
    by (auto simp: fe_autoStart_def fe_fresh_def fe_send_def split: option.split)
  moreover have "fe_fresh (fe_gateReset x) = fe_fresh x" "fe_fresh (fe_menuReset x) = fe_fresh x" for x
    by (auto simp: fe_gateReset_def fe_menuReset_def fe_fresh_def)
  ultimately show ?thesis using f by (simp add: fe_effects_def split_def Let_def)
qed

lemma fresh_run: "fe_fresh s \<Longrightarrow> fe_fresh (fst (fe_run evs s))"
  by (induction evs arbitrary: s)
    (auto simp: fe_run_Cons fe_step_def split_def Let_def fresh_effects fresh_handle simp del: fe_run.simps(2))

lemma fresh_mount: "fe_fresh (fst fe_mount)"
  by (simp add: fe_mount_def fe_send_def fe_init_def fe_fresh_def)

lemma quick_digits: "js_itoa 300000 = ''300000''" "js_itoa 500000 = ''500000''"
    "js_itoa 1000000 = ''1000000''" "js_itoa 2000000 = ''2000000''"
  by (simp_all add: js_itoa.simps digit_char_def char_of_def bit_0)

lemma quick_labels: "js_locale_id 300000 = ''300.000''" "js_locale_id 500000 = ''500.000''"
    "js_locale_id 1000000 = ''1.000.000''" "js_locale_id 2000000 = ''2.000.000''"
  by (simp_all add: js_locale_id_def quick_digits group_digits.simps)

lemma quick_fdks:
  assumes "fdk \<in> set WITHDRAW_FDKS" "fo_value fdk = Some v"
  shows "20000 \<le> v \<and> v \<le> 10000000 \<and> v mod 20000 = 0" "fo_enabled fdk"
    "fo_label fdk \<noteq> ''UANG ELEKTRONIK''" "fo_label fdk \<noteq> ''MENU LAINNYA''"
    "find (\<lambda>f. fo_slot f = fo_slot fdk) WITHDRAW_FDKS = Some fdk" "fo_label fdk = js_locale_id v"
proof -
  have "fdk = fdk_amount FDK_A ''300.000'' 300000 \<or> fdk = fdk_amount FDK_B ''500.000'' 500000
      \<or> fdk = fdk_amount FDK_E ''1.000.000'' 1000000 \<or> fdk = fdk_amount FDK_F ''2.000.000'' 2000000"
    using assms by (simp add: WITHDRAW_FDKS_def) (elim disjE; simp add: fdk_text_def fdk_blank_def)
  then show "20000 \<le> v \<and> v \<le> 10000000 \<and> v mod 20000 = 0" "fo_enabled fdk"
    "fo_label fdk \<noteq> ''UANG ELEKTRONIK''" "fo_label fdk \<noteq> ''MENU LAINNYA''"
    "find (\<lambda>f. fo_slot f = fo_slot fdk) WITHDRAW_FDKS = Some fdk" "fo_label fdk = js_locale_id v"
    using assms(2) by (elim disjE; simp add: fdk_amount_def fdk_text_def fdk_blank_def WITHDRAW_FDKS_def quick_labels)+
qed

text \<open>C21: each quick amount of the menu is the withdrawal its label says, and one that the ATM takes: the
  label is the amount as the program formats it; in the main menu the key asks for the withdrawal, and
  when that is answered, whatever happened to the screen in between, it sends that amount; served in this
  order the two requests take the ATM from its menu to the confirmation of exactly this amount, within
  the bounds of the endpoint and in multiples of 20000.\<close>

theorem screen_quick_withdrawal:
  fixes w :: "'db world" and env :: atm_env
  assumes "fe_fresh s" "fe_state s = MAIN_MENU" "fe_menuView s = MAIN_VIEW"
    and "fdk \<in> set WITHDRAW_FDKS" "fo_value fdk = Some v"
    and "w_ok w" "atm_cur w = Some x" "ss_state x = MAIN_MENU"
  shows "fo_label fdk = js_locale_id v
    \<and> snd (fe_step (Ev_Fdk (fo_slot fdk)) s) = [(fe_ticket s, Post_Select ''WITHDRAWAL'')]
    \<and> map_of (fe_pending (fst (fe_step (Ev_Fdk (fo_slot fdk)) s))) (fe_ticket s) = Some (K_QuickAmount v)
    \<and> (\<forall>s'. map_of (fe_pending s') (fe_ticket s) = Some (K_QuickAmount v)
        \<longrightarrow> snd (fe_step (Ev_Reply (fe_ticket s) Reply_Ok) s') = [(fe_ticket s', Post_Amount v)])
    \<and> (\<exists>w1 w2 x'. fe_serve ops env (Post_Select ''WITHDRAWAL'') w = Some (w1, Return Rp_Unit)
        \<and> fe_serve ops env (Post_Amount v) w1 = Some (w2, Return Rp_Unit)
        \<and> atm_cur w2 = Some x' \<and> ss_id x' = ss_id x \<and> ss_state x' = CONFIRM
        \<and> ss_selectedTxn x' = Some WITHDRAWAL \<and> ss_amount x' = Some (js_int v))"
proof (intro conjI)
  note v = quick_fdks [OF assms(4,5)]
  show "fo_label fdk = js_locale_id v" by (rule v(6))
  have h: "fe_handle (Ev_Fdk (fo_slot fdk)) s = fe_wrap (Post_Select ''WITHDRAWAL'') (K_QuickAmount v) s"
    using assms(2,3,5) v by (simp add: fe_handle_def fe_fdks_def fe_selectFdk_def fdk_main_def)
  then have step: "fe_step (Ev_Fdk (fo_slot fdk)) s
      = (fst (fe_wrap (Post_Select ''WITHDRAWAL'') (K_QuickAmount v) s), [(fe_ticket s, Post_Select ''WITHDRAWAL'')])"
    by (simp add: fe_step_def fe_wrap_def fe_send_def effects_same)
  show "snd (fe_step (Ev_Fdk (fo_slot fdk)) s) = [(fe_ticket s, Post_Select ''WITHDRAWAL'')]" by (simp add: step)
  show "map_of (fe_pending (fst (fe_step (Ev_Fdk (fo_slot fdk)) s))) (fe_ticket s) = Some (K_QuickAmount v)"
    using fresh_ticket [OF assms(1)] by (simp add: step fe_wrap_def fe_send_def)
  show "\<forall>s'. map_of (fe_pending s') (fe_ticket s) = Some (K_QuickAmount v)
        \<longrightarrow> snd (fe_step (Ev_Reply (fe_ticket s) Reply_Ok) s') = [(fe_ticket s', Post_Amount v)]"
    by (auto simp: fe_step_def fe_handle_def fe_resume_def reply_error_def fe_send_def effects_same)
  let ?a = "\<lambda>w. atm_emitUserAction env (UA_SELECT_TRANSACTION WITHDRAWAL) (Some (ss_id x)) w"
  let ?w1 = "atm_transitionTo env AMOUNT_ENTRY (atm_upd_cur (\<lambda>s. s\<lparr>ss_selectedTxn := Some WITHDRAWAL\<rparr>) (?a w))"
  have s1: "fe_serve ops env (Post_Select ''WITHDRAWAL'') w = Some (?w1, Return Rp_Unit)"
    using assms(7,8) by (simp add: fe_serve_def sessions_selectTransaction_def SelectTransactionDto_def txn_of_def
        atm_selectTransaction_def Let_def)
  have c1: "w_ok ?w1" "atm_cur ?w1 = Some (x\<lparr>ss_selectedTxn := Some WITHDRAWAL, ss_state := AMOUNT_ENTRY, ss_updatedAt := ae_now env\<rparr>)"
    using assms(6,7) by simp_all
  obtain w1 where w1: "fe_serve ops env (Post_Select ''WITHDRAWAL'') w = Some (w1, Return Rp_Unit)" "w_ok w1"
      "atm_cur w1 = Some (x\<lparr>ss_selectedTxn := Some WITHDRAWAL, ss_state := AMOUNT_ENTRY, ss_updatedAt := ae_now env\<rparr>)"
    using s1 c1 by blast
  let ?w2 = "atm_transitionTo env CONFIRM (atm_upd_cur (\<lambda>s. s\<lparr>ss_amount := Some (js_int v)\<rparr>)
    (atm_emitUserAction env (UA_SUBMIT_AMOUNT (js_int v)) (Some (ss_id x)) w1))"
  have "fe_serve ops env (Post_Amount v) w1 = Some (?w2, Return Rp_Unit)"
    using w1(3) v(1) by (simp add: fe_serve_def sessions_submitAmount_def SubmitAmountDto_def atm_submitAmount_def)
  moreover have "atm_cur ?w2 = Some (x\<lparr>ss_selectedTxn := Some WITHDRAWAL, ss_state := CONFIRM, ss_updatedAt := ae_now env,
      ss_amount := Some (js_int v)\<rparr>)"
    using w1(2,3) by simp
  ultimately show "\<exists>w1 w2 x'. fe_serve ops env (Post_Select ''WITHDRAWAL'') w = Some (w1, Return Rp_Unit)
        \<and> fe_serve ops env (Post_Amount v) w1 = Some (w2, Return Rp_Unit)
        \<and> atm_cur w2 = Some x' \<and> ss_id x' = ss_id x \<and> ss_state x' = CONFIRM
        \<and> ss_selectedTxn x' = Some WITHDRAWAL \<and> ss_amount x' = Some (js_int v)"
    using w1(1) by fastforce
qed
section \<open>Witnesses\<close>

definition fs_screen :: "AtmState \<Rightarrow> fe" where
  "fs_screen st = fe_init\<lparr>fe_session := Some (as_session st), fe_autoPin := Some (ss_id (as_session st)),
     fe_pending := [(0, K_BeginPin)], fe_pinBusy := True, fe_ticket := 1\<rparr>"

definition fs_refused :: AuthResult where
  "fs_refused = \<lparr>au_success = False, au_accountId = None, au_responseCode = ''55'', au_reason = Some ''Incorrect PIN''\<rparr>"

lemma fs_world: "w_ok (as_world st)" "ss_state (as_session st) = st" "ss_failedPinAttempts (as_session st) = 0"
  by (simp_all add: w_ok_def as_session_def)

lemma screen_wrong_pin_strands_witness:
  "(\<exists>w' x'. atm_pin_segment as_env fs_refused (as_world PIN_ENTRY) = (w', Return (Rp_Pin False (Some ''Incorrect PIN'')))
      \<and> atm_cur w' = Some x' \<and> ss_state x' = PIN_ENTRY)
    \<and> {Post_BeginPin, Post_Key ''1'', Post_Key ''ENTER''} \<inter> snd ` set (snd (fe_run
        [Ev_Reply 0 (Reply_Pin False (Some ''Incorrect PIN'')), Ev_Key ''1'', Ev_Key ''ENTER''] (fs_screen PIN_ENTRY))) = {}"
proof -
  have "(\<exists>w' x'. atm_pin_segment as_env fs_refused (as_world PIN_ENTRY) = (w', Return (Rp_Pin False (Some ''Incorrect PIN'')))
        \<and> atm_cur w' = Some x' \<and> ss_id x' = ss_id (as_session PIN_ENTRY) \<and> ss_state x' = PIN_ENTRY
        \<and> w_bus w' = w_bus (as_world PIN_ENTRY))
      \<and> (\<forall>(n, r) \<in> set (snd (fe_run [Ev_Reply 0 (Reply_Pin False (Some ''Incorrect PIN'')), Ev_Key ''1'', Ev_Key ''ENTER'']
          (fs_screen PIN_ENTRY))). r \<noteq> Post_BeginPin \<and> (\<forall>k. r = Post_Key k \<longrightarrow> k = ''CANCEL''))"
    using screen_wrong_pin_strands [of "as_world PIN_ENTRY" "as_session PIN_ENTRY" fs_refused "fs_screen PIN_ENTRY" 0
        "[Ev_Key ''1'', Ev_Key ''ENTER'']" as_env]
    by (simp add: fs_world fs_refused_def fs_screen_def fe_sid_def MAX_PIN_ATTEMPTS_def same_session_def del: fe_run.simps)
  then show ?thesis by fastforce
qed

lemma screen_cancel_key_ignored_witness:
  "snd (fe_step (Ev_Key ''CANCEL'') ((fs_screen MAIN_MENU)\<lparr>fe_pinBusy := False\<rparr>)) = [(1, Post_Key ''CANCEL'')]
    \<and> atm_cur (fst (the (fe_serve mem_ops as_env (Post_Key ''CANCEL'') (as_world MAIN_MENU)))) = Some (as_session MAIN_MENU)"
proof -
  have "pin_active (dv_pin (xm_devices (w_xfs (as_world MAIN_MENU)))) = None"
    by (simp add: xm_boot_def xm_onModuleInit_def xm_registerService_def xm_new_def devices_init_def pin_init_def
        vd_defs vd_init_def vdev.defs)
  from screen_cancel_key_ignored [OF _ this, of "(fs_screen MAIN_MENU)\<lparr>fe_pinBusy := False\<rparr>" "Ev_Key ''CANCEL''"
      mem_ops as_env]
  show ?thesis by (simp add: fs_screen_def)
qed

lemma screen_quick_withdrawal_witness:
  "\<exists>w1 w2 x'. fe_serve mem_ops as_env (Post_Select ''WITHDRAWAL'') (as_world MAIN_MENU) = Some (w1, Return Rp_Unit)
    \<and> fe_serve mem_ops as_env (Post_Amount 2000000) w1 = Some (w2, Return Rp_Unit)
    \<and> atm_cur w2 = Some x' \<and> ss_state x' = CONFIRM \<and> ss_amount x' = Some (js_int 2000000)"
  using screen_quick_withdrawal [of "fs_screen MAIN_MENU" "fdk_amount FDK_F ''2.000.000'' 2000000" 2000000
      "as_world MAIN_MENU" "as_session MAIN_MENU" mem_ops as_env]
  by (simp add: fs_world fe_fresh_def fs_screen_def fe_state_def fe_init_def WITHDRAW_FDKS_def fdk_amount_def)
    blast
end
