(* ===== verification/Front_Screen.thy ===== *)
theory Front_Screen
  imports Front_Atm_Props Utf8_Text
begin

text \<open>
  What the customer sees (\<^verbatim>\<open>components/atm/BankScreen.tsx\<close> and the panels of \<^verbatim>\<open>AtmScreen.tsx\<close>): the lines of the
  blue screen, the controls beside it, and how they relate to the keys. Colours and layout are left out;
  the arrows beside the menu lines too.
\<close>

section \<open>The blue screen\<close>

record bank_view =
  bv_logo :: string
  bv_lines :: "string list"
  bv_dots :: "bool list"
  bv_overlay :: "string option"

definition with_ellipsis :: "string \<Rightarrow> string" where
  "with_ellipsis s = s @ ellipsis"

definition fe_bankName :: "fe \<Rightarrow> string" where
  "fe_bankName s = (case fe_theme s of None \<Rightarrow> ''Bank Zegen'' | Some t \<Rightarrow> bt_name t)"

definition main_menu_lines :: "string list" where
  "main_menu_lines = [''300.000'', ''500.000'', ''UANG ELEKTRONIK'', ''1.000.000'', ''2.000.000'',
     ''PENARIKAN JUMLAH LAIN'', ''MENU LAINNYA'']"

definition sub_menu_lines :: "string list" where
  "sub_menu_lines = [''CEK SALDO'', ''TRANSFER'', ''SETOR TUNAI'', ''PEMBAYARAN'', ''KEMBALI'']"

definition amount_text :: "(jsnum \<Rightarrow> string) \<Rightarrow> jsnum \<Rightarrow> string" where
  "amount_text nt n = ''Rp '' @ (case js_to_int n of Some i \<Rightarrow> js_locale_id i | None \<Rightarrow> nt n)"

definition bank_lines :: "(jsnum \<Rightarrow> string) \<Rightarrow> fe \<Rightarrow> string list" where
  "bank_lines nt s =
     (case fe_state s of
        IDLE \<Rightarrow> [''SELAMAT DATANG'', ''Silakan masukkan kartu Anda'',
          CHR ''('' # fe_bankName s @ '' '' @ middle_dot @ '' simulator)'']
      | CARD_INSERTED \<Rightarrow> [with_ellipsis ''MEMBACA KARTU'']
      | PIN_ENTRY \<Rightarrow> [''MASUKKAN PIN ANDA'', ''Tekan ENTER setelah selesai'']
      | MAIN_MENU \<Rightarrow>
          (case fe_menuView s of
             MAIN_VIEW \<Rightarrow> [''MENU UTAMA'', ''PILIH \"PENARIKAN JUMLAH LAIN\" JIKA INGIN CETAK RESI'',
               ''TEKAN CANCEL UNTUK KELUAR''] @ main_menu_lines
           | SUB_VIEW \<Rightarrow> [''MENU LAINNYA'', ''PILIH LAYANAN ATAU TEKAN KEMBALI''] @ sub_menu_lines)
      | AMOUNT_ENTRY \<Rightarrow> [''MASUKKAN JUMLAH PENARIKAN'', ''Kelipatan Rp 20.000'', ''Gunakan panel di kanan'']
      | CONFIRM \<Rightarrow>
          (case Option.bind (fe_session s) ss_amount of
             None \<Rightarrow> []
           | Some n \<Rightarrow> [''ANDA AKAN MENARIK'', amount_text nt n, ''TEKAN ENTER UNTUK KONFIRMASI''])
      | PROCESSING \<Rightarrow> [with_ellipsis ''SEDANG MEMPROSES'', ''Mohon tunggu'']
      | DISPENSING \<Rightarrow> [''SILAKAN AMBIL UANG ANDA'']
      | PRINTING \<Rightarrow> [with_ellipsis ''MENCETAK STRUK'']
      | EJECTING \<Rightarrow> [''SILAKAN AMBIL KARTU ANDA'']
      | ATM_ERROR \<Rightarrow> [''TRANSAKSI GAGAL'', js_default (Option.bind (fe_session s) ss_errorMessage) ''Silakan coba lagi'']
      | ENDED \<Rightarrow> [''TERIMA KASIH'', ''Selamat jalan'']
      | PIN_VERIFIED \<Rightarrow> [])"

definition bank_dots :: "fe \<Rightarrow> bool list" where
  "bank_dots s = (if fe_state s = PIN_ENTRY then map (\<lambda>i. i < fe_pinDigits s) [0..<6] else [])"

definition bank_overlay :: "fe \<Rightarrow> string option" where
  "bank_overlay s = (case fe_overlayMsg s of Some m \<Rightarrow> if m = [] then None else Some m | None \<Rightarrow> None)"

definition BankScreen :: "(jsnum \<Rightarrow> string) \<Rightarrow> fe \<Rightarrow> bank_view" where
  "BankScreen nt s = \<lparr>bv_logo = fe_bankName s, bv_lines = bank_lines nt s, bv_dots = bank_dots s, bv_overlay = bank_overlay s\<rparr>"

section \<open>The panels beside it\<close>

text \<open>The controls of the action panel, a button with whether it is enabled.\<close>

datatype control =
    Ctl_CardList "string list"
  | Ctl_Insert bool
  | Ctl_PinHint
  | Ctl_Balance
  | Ctl_AmountField
  | Ctl_SubmitAmount bool
  | Ctl_Amount string
  | Ctl_Confirm
  | Ctl_Spinner AtmState
  | Ctl_Cancel
  | Ctl_Error string

definition card_option :: "VirtualCardSummary \<Rightarrow> string" where
  "card_option c = vc_pan c @ CHR '' '' # em_dash @ CHR '' '' # vc_cardholderName c @ '' ('' @ vc_status c @ '')''"

definition fe_controls :: "(jsnum \<Rightarrow> string) \<Rightarrow> fe \<Rightarrow> control list" where
  "fe_controls nt s =
     (if fe_state s = IDLE
      then [Ctl_CardList (if fe_cards s = [] then [with_ellipsis ''loading''] else map card_option (fe_cards s)),
            Ctl_Insert (fe_selectedPan s \<notin> {None, Some []} \<and> \<not> fe_busy s)] else [])
     @ (if fe_state s = PIN_ENTRY then [Ctl_PinHint] else [])
     @ (if fe_state s = MAIN_MENU then [Ctl_Balance] else [])
     @ (if fe_state s = AMOUNT_ENTRY then [Ctl_AmountField, Ctl_SubmitAmount (fe_customAmount s \<noteq> [])] else [])
     @ (if fe_state s = CONFIRM
        then [Ctl_Amount (case Option.bind (fe_session s) ss_amount of None \<Rightarrow> ''Rp '' | Some n \<Rightarrow> amount_text nt n), Ctl_Confirm]
        else [])
     @ (if fe_state s \<in> {PROCESSING, DISPENSING, PRINTING, EJECTING} then [Ctl_Spinner (fe_state s)] else [])
     @ (if fe_state s \<in> {PIN_ENTRY, MAIN_MENU, AMOUNT_ENTRY, CONFIRM} then [Ctl_Cancel] else [])
     @ (case fe_error s of None \<Rightarrow> [] | Some e \<Rightarrow> if e = [] then [] else [Ctl_Error e])"

text \<open>The session panel and the last events.\<close>

definition fe_sessionPanel :: "(jsnum \<Rightarrow> string) \<Rightarrow> fe \<Rightarrow> (string \<times> string) list" where
  "fe_sessionPanel nt s =
     (''state'', state_name (fe_state s))
     # (case fe_session s of
          None \<Rightarrow> []
        | Some x \<Rightarrow>
            (if ss_id x = [] then [] else [(''id'', ss_id x)])
            @ (case ss_amount x of
                 None \<Rightarrow> []
               | Some n \<Rightarrow> if n = js_int 0 \<or> n = JNaN then [] else [(''amount'', amount_text nt n)])
            @ (case ss_errorMessage x of None \<Rightarrow> [] | Some m \<Rightarrow> if m = [] then [] else [([], m)]))"

definition fe_liveEvents :: "fe \<Rightarrow> string list" where
  "fe_liveEvents s =
     (if fe_events s = [] then [''no events yet'']
      else map (\<lambda>e. event_code_string (ev_eventCode e)) (take 20 (fe_events s)))"

text \<open>The light of the card slot and of the cash tray.\<close>

definition fe_slots :: "fe \<Rightarrow> bool \<times> bool" where
  "fe_slots s = (fe_cardInserted s, fe_state s = DISPENSING \<or> fe_state s = EJECTING)"

section \<open>The log of events\<close>

text \<open>\<open>LogStream.tsx\<close>; the filter \<^const>\<open>None\<close> is both \<open>ALL\<close> and \<open>EVENTS\<close>.\<close>

definition log_filtered :: "XfsEventClass option \<Rightarrow> xfs_event list \<Rightarrow> xfs_event list" where
  "log_filtered f es = filter (\<lambda>e. case f of None \<Rightarrow> True | Some c \<Rightarrow> ev_eventClass e = c) es"

section \<open>What is shown is what can be done\<close>

text \<open>The menu lines are the labels of the enabled keys, from top left to bottom right.\<close>

definition label_line :: "string \<Rightarrow> string" where
  "label_line s = map (\<lambda>c. if c = CHR 0x0A then CHR '' '' else c) s"

lemma newline_char: "js_newline = [CHR 0x0A]"
  by code_simp

lemma menu_lines_are_keys:
  "main_menu_lines = map (label_line \<circ> fo_label) (filter fo_enabled WITHDRAW_FDKS)"
  "sub_menu_lines = map (label_line \<circ> fo_label) (filter fo_enabled SUB_MENU_FDKS)"
  by (simp_all add: main_menu_lines_def sub_menu_lines_def WITHDRAW_FDKS_def SUB_MENU_FDKS_def fdk_amount_def fdk_text_def
      fdk_blank_def label_line_def newline_char)

text \<open>A control that is not shown, or is disabled, does nothing.\<close>

lemma hidden_controls:
  "Ctl_Insert True \<notin> set (fe_controls nt s) \<Longrightarrow> fe_handle Ev_Insert s = (s, [])"
  "Ctl_SubmitAmount True \<notin> set (fe_controls nt s) \<Longrightarrow> fe_handle Ev_SubmitAmount s = (s, [])"
  "Ctl_Confirm \<notin> set (fe_controls nt s) \<Longrightarrow> fe_handle Ev_Confirm s = (s, [])"
  "Ctl_Cancel \<notin> set (fe_controls nt s) \<Longrightarrow> fe_handle Ev_Cancel s = (s, [])"
  "Ctl_Balance \<notin> set (fe_controls nt s) \<Longrightarrow> fe_handle Ev_Balance s = (s, [])"
  by (auto simp: fe_controls_def fe_handle_def fe_shown_def)

text \<open>On the confirmation page the screen asks for ENTER, but that key does nothing, neither on the keypad
  nor on the keyboard: only the button beside the screen confirms.\<close>

theorem screen_confirm_prompt_dead:
  assumes "fe_state s = CONFIRM" "Option.bind (fe_session s) ss_amount = Some n" "\<not> fe_pinBusy s"
  shows "''TEKAN ENTER UNTUK KONFIRMASI'' \<in> set (bv_lines (BankScreen nt s))
    \<and> fe_step (Ev_Key ''ENTER'') s = (s, []) \<and> fe_step (Ev_Keyboard ''BODY'' ''Enter'') s = (s, [])
    \<and> snd (fe_step Ev_Confirm s) = [(fe_ticket s, Post_Confirm)]"
proof -
  have k: "keyboard_key ''BODY'' ''Enter'' = Some ''ENTER''"
    by (simp add: keyboard_key_def single_digit_def)
  have e: "fe_effects s s = (s, [])" by (simp add: fe_effects_def)
  have p: "fe_pressKey ''ENTER'' s = (s, [])" using assms(3) by (simp add: fe_pressKey_def)
  have "fe_handle Ev_Confirm s = fe_wrap Post_Confirm K_Wrap s"
    using assms(1) by (simp add: fe_handle_def fe_shown_def)
  moreover have "snd (fe_effects s (fst (fe_wrap Post_Confirm K_Wrap s))) = []"
    by (simp add: fe_effects_def fe_wrap_def fe_send_def fe_state_def fe_sid_def)
  ultimately show ?thesis
    using assms(1,2) k e p
    by (simp add: BankScreen_def bank_lines_def fe_step_def fe_handle_def Let_def split_def)
      (simp add: fe_wrap_def fe_send_def)
qed

lemma screen_confirm_prompt_dead_witness:
  "''TEKAN ENTER UNTUK KONFIRMASI'' \<in> set (bv_lines (BankScreen (\<lambda>_. []) ((fs_screen CONFIRM)\<lparr>fe_pinBusy := False\<rparr>)))
   \<and> snd (fe_step (Ev_Key ''ENTER'') ((fs_screen CONFIRM)\<lparr>fe_pinBusy := False\<rparr>)) = []"
  using screen_confirm_prompt_dead [of "(fs_screen CONFIRM)\<lparr>fe_pinBusy := False\<rparr>" "js_int 100000" "\<lambda>_. []"]
  by (simp add: fs_screen_def fe_state_def as_session_def)

end
