(* ===== verification/Front_Macros.thy ===== *)
theory Front_Macros
  imports Rest_Endpoints
begin

text \<open>
  The step editor of the operator's console (\<^verbatim>\<open>components/operator/MacroStepEditor.tsx\<close>) and how the studio
  saves its result (\<open>saveSteps\<close> of \<^verbatim>\<open>MacroStudio.tsx\<close>). An edit takes the steps to the list that is
  handed to \<open>onChange\<close>, sorted and numbered again; the studio shows it at once and sends it to the server
  as JSON.
\<close>

section \<open>Edits\<close>

text \<open>\<open>withReorder\<close>.\<close>

definition renumber :: "MacroStep list \<Rightarrow> MacroStep list" where
  "renumber xs = map (\<lambda>(i, s). s\<lparr>st_order := int i + 1\<rparr>) (enumerate 0 xs)"

definition withReorder :: "(MacroStep list \<Rightarrow> MacroStep list) \<Rightarrow> MacroStep list \<Rightarrow> MacroStep list" where
  "withReorder updater steps = renumber (updater (sort_steps steps))"

definition on_step :: "string \<Rightarrow> (MacroStep \<Rightarrow> MacroStep) \<Rightarrow> MacroStep list \<Rightarrow> MacroStep list" where
  "on_step i f xs = map (\<lambda>s. if st_id s = i then f s else s) xs"

text \<open>\<open>findIndex\<close> by the identifier.\<close>

fun step_index :: "string \<Rightarrow> MacroStep list \<Rightarrow> nat option" where
  "step_index i [] = None"
| "step_index i (s # ss) = (if st_id s = i then Some 0 else map_option Suc (step_index i ss))"

definition swap_at :: "nat \<Rightarrow> nat \<Rightarrow> 'a list \<Rightarrow> 'a list" where
  "swap_at a b xs = xs[a := xs ! b, b := xs ! a]"

definition ed_toggleEnabled :: "string \<Rightarrow> MacroStep list \<Rightarrow> MacroStep list" where
  "ed_toggleEnabled i = withReorder (on_step i (\<lambda>s. s\<lparr>st_enabled := \<not> st_enabled s\<rparr>))"

definition ed_moveUp :: "string \<Rightarrow> MacroStep list \<Rightarrow> MacroStep list" where
  "ed_moveUp i = withReorder (\<lambda>xs.
     case step_index i xs of
       None \<Rightarrow> xs
     | Some k \<Rightarrow> if k = 0 then xs else swap_at (k - 1) k xs)"

definition ed_moveDown :: "string \<Rightarrow> MacroStep list \<Rightarrow> MacroStep list" where
  "ed_moveDown i = withReorder (\<lambda>xs.
     case step_index i xs of
       None \<Rightarrow> xs
     | Some k \<Rightarrow> if length xs \<le> Suc k then xs else swap_at (Suc k) k xs)"

definition ed_remove :: "string \<Rightarrow> MacroStep list \<Rightarrow> MacroStep list" where
  "ed_remove i = withReorder (filter (\<lambda>s. st_id s \<noteq> i))"

definition ed_updateParams :: "string \<Rightarrow> MacroParameter list \<Rightarrow> MacroStep list \<Rightarrow> MacroStep list" where
  "ed_updateParams i ps = withReorder (on_step i (\<lambda>s. s\<lparr>st_parameters := ps\<rparr>))"

section \<open>Parameters\<close>

text \<open>One parameter row: a change of the type keeps the value; a text field hands over its content when it
  is left or Enter is pressed, a check box at once. \<^const>\<open>None\<close> means that nothing is handed over and the
  field shows the old value again.\<close>

definition row_text :: "(jsnum \<Rightarrow> string) \<Rightarrow> MacroParameter \<Rightarrow> string" where
  "row_text nt p = js_String nt (mp_value p)"

fun js_finite :: "jsnum \<Rightarrow> bool" where
  "js_finite (JNum r) = True"
| "js_finite _ = False"

definition row_commit :: "string \<Rightarrow> MacroParameter \<Rightarrow> MacroParameter option" where
  "row_commit localValue p =
     (if mp_type p = Ty_number
      then (let n = js_Number localValue in if \<not> js_finite n then None else Some (p\<lparr>mp_value := Pv_num n\<rparr>))
      else Some (p\<lparr>mp_value := Pv_str localValue\<rparr>))"

definition row_check :: "bool \<Rightarrow> MacroParameter \<Rightarrow> MacroParameter" where
  "row_check checked p = p\<lparr>mp_value := Pv_bool checked\<rparr>"

definition row_type :: "param_type \<Rightarrow> MacroParameter \<Rightarrow> MacroParameter" where
  "row_type ty p = p\<lparr>mp_type := ty\<rparr>"

definition row_checked :: "MacroParameter \<Rightarrow> bool" where
  "row_checked p \<longleftrightarrow> mp_value p = Pv_bool True \<or> mp_value p = Pv_str ''true''"

definition params_update :: "nat \<Rightarrow> MacroParameter \<Rightarrow> MacroParameter list \<Rightarrow> MacroParameter list" where
  "params_update idx p ps = map (\<lambda>(i, q). if i = idx then p else q) (enumerate 0 ps)"

datatype edit =
    Toggle string
  | Move_Up string
  | Move_Down string
  | Remove string
  | Set_Params string "MacroParameter list"

fun ed_apply :: "edit \<Rightarrow> MacroStep list \<Rightarrow> MacroStep list" where
  "ed_apply (Toggle i) = ed_toggleEnabled i"
| "ed_apply (Move_Up i) = ed_moveUp i"
| "ed_apply (Move_Down i) = ed_moveDown i"
| "ed_apply (Remove i) = ed_remove i"
| "ed_apply (Set_Params i ps) = ed_updateParams i ps"

section \<open>Saving\<close>

text \<open>A step as the JSON of the request carries it. An optional field that is absent stays absent.\<close>

fun type_name :: "param_type \<Rightarrow> string" where
  "type_name Ty_string = ''string''"
| "type_name Ty_number = ''number''"
| "type_name Ty_boolean = ''boolean''"
| "type_name Ty_variable = ''variable''"

fun value_json :: "param_value \<Rightarrow> js_value" where
  "value_json (Pv_str s) = JvStr s"
| "value_json (Pv_num n) = (if js_finite n then JvNum n else JvNull)"
| "value_json (Pv_bool b) = JvBool b"

definition opt_json :: "string \<Rightarrow> js_value option \<Rightarrow> (string \<times> js_value) list" where
  "opt_json name v = (case v of None \<Rightarrow> [] | Some x \<Rightarrow> [(name, x)])"

definition param_json :: "MacroParameter \<Rightarrow> js_value" where
  "param_json p = JvObj ([(''name'', JvStr (mp_name p)), (''type'', JvStr (type_name (mp_type p))),
     (''value'', value_json (mp_value p))] @ opt_json ''displayLabel'' (map_option JvStr (mp_displayLabel p)))"

definition step_json :: "MacroStep \<Rightarrow> js_value" where
  "step_json s = JvObj ([(''id'', JvStr (st_id s)), (''order'', jv_int (st_order s)), (''kind'', JvStr (kind_name (st_kind s))),
     (''device'', JvStr (device_name (st_device s))), (''operation'', JvStr (st_operation s)),
     (''parameters'', JvArr (map param_json (st_parameters s))), (''enabled'', JvBool (st_enabled s))]
     @ opt_json ''notes'' (map_option JvStr (st_notes s)) @ opt_json ''timeoutMs'' (map_option jv_int (st_timeoutMs s)))"

text \<open>\<open>saveSteps\<close>: the macros as the studio shows them, and the body of the request.\<close>

definition saveSteps_shown :: "string \<Rightarrow> MacroStep list \<Rightarrow> Macro list \<Rightarrow> Macro list" where
  "saveSteps_shown i steps ms = map (\<lambda>m. if mc_id m = i then m\<lparr>mc_steps := steps\<rparr> else m) ms"

definition saveSteps_body :: "MacroStep list \<Rightarrow> MacroBody" where
  "saveSteps_body steps =
     \<lparr>mb_name = JvUndefined, mb_folder = JvUndefined, mb_description = JvUndefined, mb_tags = JvUndefined,
      mb_steps = JvArr (map step_json steps), mb_variables = JvUndefined\<rparr>"

end
