(* ===== verification/Front_Macros_Props.thy ===== *)
theory Front_Macros_Props
  imports Front_Macros Macro_Props
begin

text \<open>
  An edit of the step editor, saved through the endpoint, is what the runner executes: the enabled steps
  from top to bottom as they are shown. Moving a step up and down again changes nothing.
\<close>

section \<open>Numbering\<close>

lemma length_renumber [simp]: "length (renumber xs) = length xs"
  by (simp add: renumber_def)

lemma nth_renumber [simp]: "k < length xs \<Longrightarrow> renumber xs ! k = (xs ! k)\<lparr>st_order := int k + 1\<rparr>"
  by (simp add: renumber_def nth_enumerate_eq)

lemma renumber_orders: "map st_order (renumber xs) = map int [1..<Suc (length xs)]"
  by (rule nth_equalityI) (simp_all del: upt_Suc)

lemma renumber_map: "(\<And>s n. f (s\<lparr>st_order := n\<rparr>) = f s) \<Longrightarrow> map f (renumber xs) = map f xs"
  by (rule nth_equalityI) simp_all

lemma renumber_idem [simp]: "renumber (renumber xs) = renumber xs"
  by (rule nth_equalityI) simp_all

lemma renumber_sorted: "sorted (map st_order (renumber xs))"
  by (auto simp: renumber_orders sorted_iff_nth_mono simp del: upt_Suc)

lemma sort_renumber [simp]: "sort_steps (renumber xs) = renumber xs"
  unfolding sort_steps_def by (rule sort_key_id_if_sorted [OF renumber_sorted])

text \<open>A step without its number.\<close>

definition plain :: "MacroStep \<Rightarrow> MacroStep" where
  "plain s = s\<lparr>st_order := 0\<rparr>"

lemma plain_renumber [simp]: "map plain (renumber xs) = map plain xs"
  by (rule renumber_map) (simp add: plain_def)

lemma id_renumber [simp]: "map st_id (renumber xs) = map st_id xs"
  by (rule renumber_map) simp

section \<open>Edits\<close>

lemma ed_apply_renumber: "\<exists>xs. ed_apply e steps = renumber xs"
  by (cases e) (auto simp: ed_toggleEnabled_def ed_moveUp_def ed_moveDown_def ed_remove_def ed_updateParams_def
      withReorder_def)

lemma step_index_bound: "step_index i xs = Some k \<Longrightarrow> k < length xs \<and> st_id (xs ! k) = i"
  by (induction xs arbitrary: k) (auto split: if_splits)

lemma step_index_distinct:
  "distinct (map st_id xs) \<Longrightarrow> k < length xs \<Longrightarrow> step_index (st_id (xs ! k)) xs = Some k"
proof (induction xs arbitrary: k)
  case (Cons x xs)
  then show ?case by (cases k) (auto simp: nth_mem [THEN image_eqI [of _ st_id, OF refl]])
qed simp

lemma mset_swap_at: "a < length xs \<Longrightarrow> b < length xs \<Longrightarrow> mset (swap_at a b xs) = mset xs"
  by (simp add: swap_at_def mset_swap)

lemma length_swap_at [simp]: "length (swap_at a b xs) = length xs"
  by (simp add: swap_at_def)

lemma swap_swap: "a < length xs \<Longrightarrow> b < length xs \<Longrightarrow> swap_at a b (swap_at a b xs) = xs"
  by (rule nth_equalityI) (auto simp: swap_at_def nth_list_update)

lemma swap_at_commute: "a \<noteq> b \<Longrightarrow> swap_at a b xs = swap_at b a xs"
  by (simp add: swap_at_def list_update_swap)

lemma map_swap_at: "a < length xs \<Longrightarrow> b < length xs \<Longrightarrow> map f (swap_at a b xs) = swap_at a b (map f xs)"
  by (simp add: swap_at_def map_update)

lemma mset_sort_steps [simp]: "mset (sort_steps xs) = mset xs"
  by (simp add: sort_steps_def)

definition is_move :: "edit \<Rightarrow> bool" where
  "is_move e \<longleftrightarrow> (\<exists>i. e = Move_Up i \<or> e = Move_Down i)"

lemma mset_map_eq: "mset xs = mset ys \<Longrightarrow> mset (map f xs) = mset (map f ys)"
  by simp

lemma mset_up:
  "mset (case step_index i xs of None \<Rightarrow> xs | Some k \<Rightarrow> if k = 0 then xs else swap_at (k - 1) k xs) = mset xs"
  by (auto split: option.split simp: mset_swap_at dest!: step_index_bound)

lemma mset_down:
  "mset (case step_index i xs of None \<Rightarrow> xs | Some k \<Rightarrow> if length xs \<le> Suc k then xs else swap_at (Suc k) k xs)
    = mset xs"
  by (auto split: option.split simp: mset_swap_at dest!: step_index_bound)

lemma move_content:
  assumes "is_move e"
  shows "mset (map plain (ed_apply e steps)) = mset (map plain steps)"
  using assms mset_up mset_down
  by (auto simp: is_move_def ed_moveUp_def ed_moveDown_def withReorder_def simp flip: mset_map)
    (simp_all add: mset_map)

lemma renumber_cong: "map plain xs = map plain ys \<Longrightarrow> renumber xs = renumber ys"
proof -
  assume p: "map plain xs = map plain ys"
  then have len: "length xs = length ys" using map_eq_imp_length_eq by blast
  show "renumber xs = renumber ys"
  proof (rule nth_equalityI)
    fix k assume k: "k < length (renumber xs)"
    have "map plain xs ! k = map plain ys ! k" using p by simp
    then have "plain (xs ! k) = plain (ys ! k)" using k len by simp
    then have "(plain (xs ! k))\<lparr>st_order := int k + 1\<rparr> = (plain (ys ! k))\<lparr>st_order := int k + 1\<rparr>" by simp
    then show "renumber xs ! k = renumber ys ! k" using k len by (simp add: plain_def)
  qed (simp add: len)
qed

text \<open>Moving a step up and down again gives the list as it was shown.\<close>

lemma move_up_down:
  assumes "distinct (map st_id steps)" "step_index i (sort_steps steps) = Some (Suc k)"
  shows "ed_moveDown i (ed_moveUp i steps) = renumber (sort_steps steps)"
proof -
  let ?xs = "sort_steps steps"
  let ?ys = "swap_at k (Suc k) ?xs"
  have k: "Suc k < length ?xs" "st_id (?xs ! Suc k) = i" using step_index_bound [OF assms(2)] by simp_all
  have up: "ed_moveUp i steps = renumber ?ys" using assms(2) by (simp add: ed_moveUp_def withReorder_def)
  have "mset (map st_id ?xs) = mset (map st_id steps)" by simp
  then have "distinct (map st_id ?xs)" using assms(1) mset_eq_imp_distinct_iff by blast
  moreover have "mset (map st_id (renumber ?ys)) = mset (map st_id ?xs)"
    unfolding id_renumber using k by (simp only: mset_map mset_swap_at Suc_lessD)
  ultimately have "distinct (map st_id (renumber ?ys))" using mset_eq_imp_distinct_iff by blast
  moreover have "st_id (renumber ?ys ! k) = i" using k by (simp add: swap_at_def nth_list_update)
  ultimately have "step_index i (renumber ?ys) = Some k"
    using step_index_distinct [of "renumber ?ys" k] k by simp
  then have "ed_moveDown i (renumber ?ys) = renumber (swap_at (Suc k) k (renumber ?ys))"
    using k by (simp add: ed_moveDown_def withReorder_def)
  also have "\<dots> = renumber ?xs"
  proof (rule renumber_cong)
    have "map plain (swap_at (Suc k) k (renumber ?ys)) = swap_at k (Suc k) (map plain ?ys)"
      using k by (simp add: map_swap_at swap_at_commute [of "Suc k" k])
    also have "\<dots> = map plain ?xs" using k by (simp add: map_swap_at swap_swap)
    finally show "map plain (swap_at (Suc k) k (renumber ?ys)) = map plain ?xs" .
  qed
  finally show ?thesis by (simp add: up)
qed

section \<open>From the editor to the runner\<close>

lemma step_shape_ok: "step_shape (step_json s) f = None"
  by (simp add: step_shape_def step_json_def)

text \<open>C20: whatever step is switched, moved, removed or changed, saving the result of the editor through the
  endpoint succeeds, the table then holds what the studio shows, and a run of the macro executes exactly
  the enabled steps in the order shown, numbered from one; a move changes the order of the steps and
  nothing else. The reader of the stored JSON is assumed to give back a step that was written.\<close>

theorem editor_saved_runs_as_shown:
  assumes "find_macro i ms = Some m" "distinct (map mc_id ms)"
    and "\<forall>st \<in> set (ed_apply e (mc_steps m)). cast_step cast (step_json st) = st"
  defines "shown \<equiv> ed_apply e (mc_steps m)"
  shows "\<exists>m'. macros_update cast i (saveSteps_body shown) ms = (Inr m', saveSteps_shown i shown ms)
    \<and> find_macro i (saveSteps_shown i shown ms) = Some m'
    \<and> macro_steps m' = filter st_enabled shown
    \<and> map st_order shown = map int [1..<Suc (length shown)]
    \<and> (is_move e \<longrightarrow> mset (map plain shown) = mset (map plain (mc_steps m)))"
proof -
  let ?m = "m\<lparr>mc_steps := shown\<rparr>"
  obtain xs where xs: "shown = renumber xs" using ed_apply_renumber unfolding shown_def by blast
  have id: "mc_id m = i" "m \<in> set ms" using assms(1) by (auto simp: find_macro_def find_Some_iff)
  have "map (cast_step cast) (map step_json shown) = shown"
    using assms(3) by (auto simp: shown_def intro: map_idI)
  moreover have "filter (\<lambda>r. r \<noteq> None) (map (\<lambda>s. step_shape s ''steps'') (map step_json shown)) = []"
    by (simp add: step_shape_ok filter_empty_conv)
  moreover have "x \<in> set ms \<Longrightarrow> mc_id x = i \<Longrightarrow> x = m" for x
    using assms(2) id by (auto simp: distinct_map dest: inj_onD)
  then have "map (\<lambda>x. if mc_id x = i then ?m else x) ms = saveSteps_shown i shown ms"
    by (auto simp: saveSteps_shown_def)
  ultimately have "macros_update cast i (saveSteps_body shown) ms = (Inr ?m, saveSteps_shown i shown ms)"
    using assms(1) by (simp add: macros_update_def saveSteps_body_def edit_field_def optionalStepArray_def Let_def o_def)
  moreover have "find_macro i (saveSteps_shown i shown ms) = Some ?m"
    using find_macro_map [OF assms(1), of "\<lambda>m. if mc_id m = i then m\<lparr>mc_steps := shown\<rparr> else m"] id(1)
    by (simp add: saveSteps_shown_def)
  moreover have "macro_steps ?m = filter st_enabled shown"
  proof -
    have "sorted (map st_order (filter st_enabled shown))"
      unfolding xs by (rule sorted_filter [OF renumber_sorted])
    then show ?thesis by (simp add: macro_steps_def sort_steps_def sort_key_id_if_sorted)
  qed
  ultimately show ?thesis
    using renumber_orders [of xs] move_content [of e "mc_steps m"] by (auto simp: xs shown_def [symmetric])
qed
section \<open>Witness\<close>

definition fm_steps :: "MacroStep list" where
  "fm_steps = [ms_wait, ms_wait\<lparr>st_id := ''X'', st_order := 5\<rparr>]"

definition fm_cast :: macro_cast where
  "fm_cast = \<lparr>cast_step = (\<lambda>v. if jv_get v ''id'' = JvStr ''X'' then ms_wait\<lparr>st_id := ''X'', st_order := 1\<rparr>
      else ms_wait\<lparr>st_order := 2\<rparr>), cast_vars = (\<lambda>v. [])\<rparr>"

lemma fm_moved: "ed_apply (Move_Up ''X'') fm_steps = [ms_wait\<lparr>st_id := ''X'', st_order := 1\<rparr>, ms_wait\<lparr>st_order := 2\<rparr>]"
proof -
  have "sort_steps fm_steps = fm_steps" by (simp add: sort_steps_def fm_steps_def ms_wait_def)
  then show ?thesis
    by (simp add: ed_moveUp_def withReorder_def swap_at_def renumber_def enumerate_eq_zip)
      (simp add: fm_steps_def ms_wait_def swap_at_def)
qed

lemma editor_saved_runs_as_shown_witness:
  "\<exists>m'. macros_update fm_cast ''M1'' (saveSteps_body (ed_apply (Move_Up ''X'') fm_steps)) [ms_macro fm_steps]
      = (Inr m', saveSteps_shown ''M1'' (ed_apply (Move_Up ''X'') fm_steps) [ms_macro fm_steps])
    \<and> map st_id (macro_steps m') = [''X'', ''W'']"
proof -
  have m: "find_macro ''M1'' [ms_macro fm_steps] = Some (ms_macro fm_steps)" "mc_steps (ms_macro fm_steps) = fm_steps"
    by (simp_all add: find_macro_def ms_macro_def)
  have "\<forall>st \<in> set (ed_apply (Move_Up ''X'') fm_steps). cast_step fm_cast (step_json st) = st"
    unfolding fm_moved by (simp add: fm_cast_def step_json_def ms_wait_def)
  then obtain m' where "macros_update fm_cast ''M1'' (saveSteps_body (ed_apply (Move_Up ''X'') fm_steps)) [ms_macro fm_steps]
      = (Inr m', saveSteps_shown ''M1'' (ed_apply (Move_Up ''X'') fm_steps) [ms_macro fm_steps])"
    "macro_steps m' = filter st_enabled (ed_apply (Move_Up ''X'') fm_steps)"
    using editor_saved_runs_as_shown [OF m(1), of "Move_Up ''X''" fm_cast] m(2) by auto
  moreover have "map st_id (filter st_enabled (ed_apply (Move_Up ''X'') fm_steps)) = [''X'', ''W'']"
    unfolding fm_moved by (simp add: ms_wait_def)
  ultimately show ?thesis by (simp del: ed_apply.simps)
qed
end
