(* ===== verification/Front_Panels.thy ===== *)
theory Front_Panels
  imports Report_Detail Front_Macros Suite_Endpoints
begin

text \<open>
  The panels of the operator's console that keep state of their own: the macro studio
  (\<^verbatim>\<open>components/operator/MacroStudio.tsx\<close>), the suites (\<^verbatim>\<open>SuitePanel.tsx\<close>), the reports (\<^verbatim>\<open>ReportsPanel.tsx\<close>) and the
  session history (\<^verbatim>\<open>SessionHistory.tsx\<close>). A panel has the values of its hooks and the requests it waits for;
  what it does with a reply is a continuation, which carries the values its closure captured. Replies
  arrive in any order. A control that is not shown or is disabled does nothing. Styling is left out.
\<close>

section \<open>Panels\<close>

record ('v, 'k) panel =
  pn_view :: 'v
  pn_pending :: "(nat \<times> 'k) list"
  pn_ticket :: nat

type_synonym ('v, 'r, 'k) segment = "'v \<Rightarrow> 'v \<times> ('r \<times> 'k) list"

text \<open>A segment runs to its requests; each gets the next ticket.\<close>

definition pn_do :: "('v, 'r, 'k) segment \<Rightarrow> ('v, 'k) panel \<Rightarrow> ('v, 'k) panel \<times> (nat \<times> 'r) list" where
  "pn_do f p =
     (let (v, rs) = f (pn_view p); ns = [pn_ticket p..<pn_ticket p + length rs]
      in (p\<lparr>pn_view := v, pn_pending := pn_pending p @ zip ns (map snd rs), pn_ticket := pn_ticket p + length rs\<rparr>,
          zip ns (map fst rs)))"

datatype ('e, 'a) panel_input = Do 'e | Reply nat 'a

definition pn_step ::
  "('e \<Rightarrow> ('v, 'r, 'k) segment) \<Rightarrow> ('k \<Rightarrow> 'a \<Rightarrow> ('v, 'r, 'k) segment) \<Rightarrow> ('e, 'a) panel_input \<Rightarrow> ('v, 'k) panel
   \<Rightarrow> ('v, 'k) panel \<times> (nat \<times> 'r) list" where
  "pn_step handle resume i p =
     (case i of
        Do e \<Rightarrow> pn_do (handle e) p
      | Reply n a \<Rightarrow>
          (case map_of (pn_pending p) n of
             None \<Rightarrow> (p, [])
           | Some k \<Rightarrow> pn_do (resume k a) (p\<lparr>pn_pending := filter (\<lambda>q. fst q \<noteq> n) (pn_pending p)\<rparr>)))"

fun pn_run ::
  "('e \<Rightarrow> ('v, 'r, 'k) segment) \<Rightarrow> ('k \<Rightarrow> 'a \<Rightarrow> ('v, 'r, 'k) segment) \<Rightarrow> ('e, 'a) panel_input list \<Rightarrow> ('v, 'k) panel
   \<Rightarrow> ('v, 'k) panel \<times> (nat \<times> 'r) list" where
  "pn_run handle resume [] p = (p, [])"
| "pn_run handle resume (i # is) p =
     (let (p1, o1) = pn_step handle resume i p; (p2, o2) = pn_run handle resume is p1 in (p2, o1 @ o2))"

definition pn_mount :: "('v, 'r, 'k) segment \<Rightarrow> 'v \<Rightarrow> ('v, 'k) panel \<times> (nat \<times> 'r) list" where
  "pn_mount f v = pn_do f \<lparr>pn_view = v, pn_pending = [], pn_ticket = 0\<rparr>"

section \<open>The macro studio\<close>

record studio =
  sd_macros :: "Macro list"
  sd_selectedId :: "string option"
  sd_run :: "MacroRun option"
  sd_running :: bool
  sd_error :: "string option"
  sd_recordingMacroId :: "string option"
  sd_stepCount :: int
  sd_creating :: bool

definition studio_init :: studio where
  "studio_init = \<lparr>sd_macros = [], sd_selectedId = None, sd_run = None, sd_running = False, sd_error = None,
     sd_recordingMacroId = None, sd_stepCount = 0, sd_creating = False\<rparr>"

text \<open>A string or null that is falsy.\<close>

definition falsy :: "string option \<Rightarrow> bool" where
  "falsy x \<longleftrightarrow> x = None \<or> x = Some []"

definition sd_selected :: "studio \<Rightarrow> Macro option" where
  "sd_selected v = (case sd_selectedId v of None \<Rightarrow> None | Some i \<Rightarrow> find_macro i (sd_macros v))"

definition sd_isRecording :: "studio \<Rightarrow> bool" where
  "sd_isRecording v \<longleftrightarrow> sd_recordingMacroId v \<noteq> None"

datatype studio_request =
    Sq_Macros
  | Sq_RecorderStatus
  | Sq_Run string
  | Sq_RecordStart string
  | Sq_RecordStop string
  | Sq_Create string
  | Sq_Save string MacroBody
  | Sq_Delete string

text \<open>\<open>load\<close> with its argument and the selection it captured; after it, the identifier to select.\<close>

datatype studio_cont =
    Sk_Load bool "string option" "string option"
  | Sk_Status
  | Sk_Run
  | Sk_Start string
  | Sk_Stop "string option"
  | Sk_Created "string option"
  | Sk_Saved "string option"
  | Sk_Deleted string "string option"

datatype studio_reply =
    Sr_Macros "Macro list"
  | Sr_Status bool "string option" "int option"
  | Sr_Run MacroRun
  | Sr_Macro Macro
  | Sr_Ok
  | Sr_Error string

definition sd_failed :: "string \<Rightarrow> studio \<Rightarrow> studio" where
  "sd_failed e v = v\<lparr>sd_error := Some e\<rparr>"

definition sd_loaded :: "bool \<Rightarrow> string option \<Rightarrow> studio_reply \<Rightarrow> studio \<Rightarrow> studio" where
  "sd_loaded preserve sel r v =
     (case r of
        Sr_Macros ms \<Rightarrow>
          (let v1 = v\<lparr>sd_macros := ms\<rparr>
           in if (\<not> preserve \<or> falsy sel) \<and> ms \<noteq> [] then v1\<lparr>sd_selectedId := Some (mc_id (hd ms))\<rparr> else v1)
      | Sr_Error e \<Rightarrow> sd_failed e v
      | _ \<Rightarrow> v)"

definition sd_resume :: "studio_cont \<Rightarrow> studio_reply \<Rightarrow> (studio, studio_request, studio_cont) segment" where
  "sd_resume k r v =
     (case k of
        Sk_Load preserve sel created \<Rightarrow>
          (let v1 = sd_loaded preserve sel r v
           in (case created of None \<Rightarrow> v1 | Some i \<Rightarrow> v1\<lparr>sd_selectedId := Some i, sd_creating := False\<rparr>, []))
      | Sk_Status \<Rightarrow>
          (case r of
             Sr_Status True m n \<Rightarrow>
               (if falsy m then v else v\<lparr>sd_recordingMacroId := m, sd_stepCount := js_default n 0\<rparr>, [])
           | _ \<Rightarrow> (v, []))
      | Sk_Run \<Rightarrow>
          ((case r of Sr_Run x \<Rightarrow> v\<lparr>sd_run := Some x\<rparr> | Sr_Error e \<Rightarrow> sd_failed e v | _ \<Rightarrow> v)\<lparr>sd_running := False\<rparr>, [])
      | Sk_Start i \<Rightarrow>
          (case r of
             Sr_Error e \<Rightarrow> (sd_failed e v, [])
           | _ \<Rightarrow> (v\<lparr>sd_recordingMacroId := Some i, sd_stepCount := 0\<rparr>, []))
      | Sk_Stop sel \<Rightarrow>
          (case r of
             Sr_Error e \<Rightarrow> (sd_failed e v, [])
           | _ \<Rightarrow> (v\<lparr>sd_recordingMacroId := None, sd_stepCount := 0\<rparr>, [(Sq_Macros, Sk_Load True sel None)]))
      | Sk_Created sel \<Rightarrow>
          (case r of
             Sr_Macro m \<Rightarrow> (v, [(Sq_Macros, Sk_Load False sel (Some (mc_id m)))])
           | Sr_Error e \<Rightarrow> ((sd_failed e v)\<lparr>sd_creating := False\<rparr>, [])
           | _ \<Rightarrow> (v, []))
      | Sk_Saved sel \<Rightarrow>
          (case r of
             Sr_Error e \<Rightarrow> (sd_failed e v, [(Sq_Macros, Sk_Load True sel None)])
           | _ \<Rightarrow> (v, []))
      | Sk_Deleted i sel \<Rightarrow>
          (case r of
             Sr_Error e \<Rightarrow> (sd_failed e v, [])
           | _ \<Rightarrow>
               (let v1 = v\<lparr>sd_macros := filter (\<lambda>m. mc_id m \<noteq> i) (sd_macros v)\<rparr>
                in (if sel = Some i then v1\<lparr>sd_selectedId := None\<rparr> else v1, []))))"

text \<open>The prompt for a name and the question before a deletion are answered by the event. The editor offers
  an edit unless it is read-only; the arrows, the deletion and the parameters of a step are hidden once
  the shown run has a result for it.\<close>

datatype studio_event =
    Se_Select string
  | Se_Run
  | Se_Record
  | Se_Stop
  | Se_New "string option"
  | Se_Delete bool
  | Se_Edit edit
  | Se_UserAction

definition sd_result_for :: "studio \<Rightarrow> string \<Rightarrow> MacroStepResult option" where
  "sd_result_for v i = (case sd_run v of None \<Rightarrow> None | Some r \<Rightarrow> find (\<lambda>x. sres_id x = i) (run_stepResults r))"

definition sd_offers :: "studio \<Rightarrow> MacroStep list \<Rightarrow> edit \<Rightarrow> bool" where
  "sd_offers v steps ed \<longleftrightarrow>
     \<not> sd_running v \<and> \<not> sd_isRecording v \<and>
     (case ed of
        Toggle i \<Rightarrow> True
      | Move_Up i \<Rightarrow> sd_result_for v i = None \<and> step_index i (sort_steps steps) \<noteq> Some 0
      | Move_Down i \<Rightarrow> sd_result_for v i = None \<and> map_option Suc (step_index i (sort_steps steps)) \<noteq> Some (length steps)
      | Remove i \<Rightarrow> sd_result_for v i = None
      | Set_Params i ps \<Rightarrow> sd_result_for v i = None)"

definition sd_saveSteps :: "string \<Rightarrow> MacroStep list \<Rightarrow> (studio, studio_request, studio_cont) segment" where
  "sd_saveSteps i steps v =
     (v\<lparr>sd_macros := saveSteps_shown i steps (sd_macros v)\<rparr>, [(Sq_Save i (saveSteps_body steps), Sk_Saved (sd_selectedId v))])"

definition sd_handle :: "studio_event \<Rightarrow> (studio, studio_request, studio_cont) segment" where
  "sd_handle ev v =
     (case ev of
        Se_Select i \<Rightarrow> (if i \<in> mc_id ` set (sd_macros v) then v\<lparr>sd_selectedId := Some i\<rparr> else v, [])
      | Se_Run \<Rightarrow>
          (case sd_selected v of
             Some m \<Rightarrow>
               if sd_running v \<or> sd_isRecording v then (v, [])
               else (v\<lparr>sd_running := True, sd_run := None, sd_error := None\<rparr>, [(Sq_Run (mc_id m), Sk_Run)])
           | None \<Rightarrow> (v, []))
      | Se_Record \<Rightarrow>
          (case sd_selected v of
             Some m \<Rightarrow>
               if sd_running v \<or> sd_isRecording v then (v, [])
               else (v\<lparr>sd_error := None\<rparr>, [(Sq_RecordStart (mc_id m), Sk_Start (mc_id m))])
           | None \<Rightarrow> (v, []))
      | Se_Stop \<Rightarrow>
          (case sd_recordingMacroId v of
             Some i \<Rightarrow>
               if i = [] then (v, []) else (v\<lparr>sd_error := None\<rparr>, [(Sq_RecordStop i, Sk_Stop (sd_selectedId v))])
           | None \<Rightarrow> (v, []))
      | Se_New name \<Rightarrow>
          if sd_creating v \<or> sd_isRecording v \<or> falsy name then (v, [])
          else (v\<lparr>sd_creating := True\<rparr>, [(Sq_Create (js_default name []), Sk_Created (sd_selectedId v))])
      | Se_Delete ok \<Rightarrow>
          (case sd_selected v of
             Some m \<Rightarrow>
               if sd_running v \<or> sd_isRecording v \<or> \<not> ok then (v, [])
               else (v, [(Sq_Delete (mc_id m), Sk_Deleted (mc_id m) (sd_selectedId v))])
           | None \<Rightarrow> (v, []))
      | Se_Edit ed \<Rightarrow>
          (case sd_selected v of
             Some m \<Rightarrow>
               if sd_offers v (mc_steps m) ed then sd_saveSteps (mc_id m) (ed_apply ed (mc_steps m)) v else (v, [])
           | None \<Rightarrow> (v, []))
      | Se_UserAction \<Rightarrow> (if falsy (sd_recordingMacroId v) then v else v\<lparr>sd_stepCount := sd_stepCount v + 1\<rparr>, []))"

definition sd_mount :: "(studio, studio_request, studio_cont) segment" where
  "sd_mount v = (v, [(Sq_Macros, Sk_Load False (sd_selectedId v) None), (Sq_RecorderStatus, Sk_Status)])"

section \<open>The suites\<close>

record suites_view =
  sv_suites :: "MacroSuite list"
  sv_macros :: "Macro list"
  sv_selectedId :: "string option"
  sv_runs :: "MacroSuiteRun list"
  sv_busy :: bool
  sv_error :: "string option"
  sv_effect :: nat

definition suites_view_init :: suites_view where
  "suites_view_init = \<lparr>sv_suites = [], sv_macros = [], sv_selectedId = None, sv_runs = [], sv_busy = False,
     sv_error = None, sv_effect = 0\<rparr>"

definition sv_selected :: "suites_view \<Rightarrow> MacroSuite option" where
  "sv_selected v = (case sv_selectedId v of None \<Rightarrow> None | Some i \<Rightarrow> find_suite i (sv_suites v))"

datatype suite_patch = Patch_Name string | Patch_Macros "string list" | Patch_Cron string | Patch_Enabled bool

definition empty_body :: SuiteBody where
  "empty_body = \<lparr>sb_name = JvUndefined, sb_macroIds = JvUndefined, sb_cron = JvUndefined, sb_enabled = JvUndefined\<rparr>"

fun patch_body :: "suite_patch \<Rightarrow> SuiteBody" where
  "patch_body (Patch_Name n) = empty_body\<lparr>sb_name := JvStr n\<rparr>"
| "patch_body (Patch_Macros is) = empty_body\<lparr>sb_macroIds := JvArr (map JvStr is)\<rparr>"
| "patch_body (Patch_Cron c) = empty_body\<lparr>sb_cron := JvStr c\<rparr>"
| "patch_body (Patch_Enabled b) = empty_body\<lparr>sb_enabled := JvBool b\<rparr>"

text \<open>\<open>Vq_Lists\<close> stands for the two requests that are awaited together.\<close>

datatype suites_request =
    Vq_Lists
  | Vq_Runs string
  | Vq_Create string
  | Vq_Patch string suite_patch
  | Vq_Delete string
  | Vq_Run string

datatype suites_cont =
    Vk_Load "string option" "string option"
  | Vk_Runs nat
  | Vk_Created "string option"
  | Vk_Patched
  | Vk_Deleted "string option"
  | Vk_Ran string
  | Vk_RunsAfter

datatype suites_reply =
    Vr_Lists "MacroSuite list" "Macro list"
  | Vr_Runs "MacroSuiteRun list"
  | Vr_Suite MacroSuite
  | Vr_Ok
  | Vr_Error string

definition sv_failed :: "string \<Rightarrow> suites_view \<Rightarrow> suites_view" where
  "sv_failed e v = v\<lparr>sv_error := Some e\<rparr>"

definition sv_loaded :: "string option \<Rightarrow> suites_reply \<Rightarrow> suites_view \<Rightarrow> suites_view" where
  "sv_loaded sel r v =
     (case r of
        Vr_Lists ss ms \<Rightarrow>
          (let v1 = v\<lparr>sv_suites := ss, sv_macros := ms\<rparr>
           in if falsy sel \<and> ss \<noteq> [] then v1\<lparr>sv_selectedId := Some (su_id (hd ss))\<rparr> else v1)
      | Vr_Error e \<Rightarrow> sv_failed e v
      | _ \<Rightarrow> v)"

definition sv_gotRuns :: "suites_reply \<Rightarrow> suites_view \<Rightarrow> suites_view" where
  "sv_gotRuns r v = (case r of Vr_Runs rs \<Rightarrow> v\<lparr>sv_runs := rs\<rparr> | Vr_Error e \<Rightarrow> sv_failed e v | _ \<Rightarrow> v)"

definition sv_resume :: "suites_cont \<Rightarrow> suites_reply \<Rightarrow> (suites_view, suites_request, suites_cont) segment" where
  "sv_resume k r v =
     (case k of
        Vk_Load sel created \<Rightarrow>
          (let v1 = sv_loaded sel r v
           in (case created of None \<Rightarrow> v1 | Some i \<Rightarrow> v1\<lparr>sv_selectedId := Some i, sv_busy := False\<rparr>, []))
      | Vk_Runs n \<Rightarrow> (if n = sv_effect v then sv_gotRuns r v else v, [])
      | Vk_Created sel \<Rightarrow>
          (case r of
             Vr_Suite s \<Rightarrow> (v, [(Vq_Lists, Vk_Load sel (Some (su_id s)))])
           | Vr_Error e \<Rightarrow> ((sv_failed e v)\<lparr>sv_busy := False\<rparr>, [])
           | _ \<Rightarrow> (v, []))
      | Vk_Patched \<Rightarrow>
          (case r of
             Vr_Suite s \<Rightarrow> (v\<lparr>sv_suites := map (\<lambda>x. if su_id x = su_id s then s else x) (sv_suites v)\<rparr>, [])
           | Vr_Error e \<Rightarrow> (sv_failed e v, [])
           | _ \<Rightarrow> (v, []))
      | Vk_Deleted sel \<Rightarrow>
          (case r of
             Vr_Error e \<Rightarrow> (sv_failed e v, [])
           | _ \<Rightarrow> (v\<lparr>sv_selectedId := None\<rparr>, [(Vq_Lists, Vk_Load sel None)]))
      | Vk_Ran i \<Rightarrow>
          (case r of
             Vr_Error e \<Rightarrow> ((sv_failed e v)\<lparr>sv_busy := False\<rparr>, [])
           | _ \<Rightarrow> (v, [(Vq_Runs i, Vk_RunsAfter)]))
      | Vk_RunsAfter \<Rightarrow> ((sv_gotRuns r v)\<lparr>sv_busy := False\<rparr>, []))"

datatype suites_event =
    Ve_Select string
  | Ve_New "string option"
  | Ve_TypeName string
  | Ve_LeaveName
  | Ve_Enabled bool
  | Ve_Run
  | Ve_Delete bool
  | Ve_LeaveCron string
  | Ve_Toggle string

definition sv_saveSuite :: "suite_patch \<Rightarrow> (suites_view, suites_request, suites_cont) segment" where
  "sv_saveSuite p v =
     (if falsy (sv_selectedId v) then (v, []) else (v, [(Vq_Patch (js_default (sv_selectedId v) []) p, Vk_Patched)]))"

definition toggled :: "string \<Rightarrow> string list \<Rightarrow> string list" where
  "toggled i xs = (if i \<in> set xs then filter (\<lambda>x. x \<noteq> i) xs else xs @ [i])"

definition sv_act :: "suites_event \<Rightarrow> (suites_view, suites_request, suites_cont) segment" where
  "sv_act ev v =
     (case (ev, sv_selected v) of
        (Ve_Select i, _) \<Rightarrow> (if i \<in> su_id ` set (sv_suites v) then v\<lparr>sv_selectedId := Some i\<rparr> else v, [])
      | (Ve_New name, _) \<Rightarrow>
          if sv_busy v \<or> falsy name then (v, [])
          else (v\<lparr>sv_busy := True\<rparr>, [(Vq_Create (js_default name []), Vk_Created (sv_selectedId v))])
      | (_, None) \<Rightarrow> (v, [])
      | (Ve_TypeName t, Some s) \<Rightarrow>
          (v\<lparr>sv_suites := map (\<lambda>x. if su_id x = su_id s then x\<lparr>su_name := t\<rparr> else x) (sv_suites v)\<rparr>, [])
      | (Ve_LeaveName, Some s) \<Rightarrow> sv_saveSuite (Patch_Name (su_name s)) v
      | (Ve_Enabled b, Some s) \<Rightarrow> sv_saveSuite (Patch_Enabled b) v
      | (Ve_Run, Some s) \<Rightarrow>
          if sv_busy v \<or> su_macroIds s = [] \<or> falsy (sv_selectedId v) then (v, [])
          else (v\<lparr>sv_busy := True, sv_error := None\<rparr>, [(Vq_Run (su_id s), Vk_Ran (su_id s))])
      | (Ve_Delete ok, Some s) \<Rightarrow>
          if falsy (sv_selectedId v) \<or> \<not> ok then (v, [])
          else (v, [(Vq_Delete (su_id s), Vk_Deleted (sv_selectedId v))])
      | (Ve_LeaveCron t, Some s) \<Rightarrow> sv_saveSuite (Patch_Cron (js_trim t)) v
      | (Ve_Toggle i, Some s) \<Rightarrow>
          if i \<in> mc_id ` set (sv_macros v) then sv_saveSuite (Patch_Macros (toggled i (su_macroIds s))) v else (v, []))"

text \<open>The effect of a changed selection: the runs are asked for, and a reply to the one before is dropped.\<close>

definition sv_effects :: "(suites_view, suites_request, suites_cont) segment \<Rightarrow> (suites_view, suites_request, suites_cont) segment" where
  "sv_effects f v =
     (let (v1, rs) = f v; v2 = v1\<lparr>sv_effect := Suc (sv_effect v1)\<rparr>
      in if sv_selectedId v1 = sv_selectedId v then (v1, rs)
         else if falsy (sv_selectedId v1) then (v2\<lparr>sv_runs := []\<rparr>, rs)
         else (v2, rs @ [(Vq_Runs (js_default (sv_selectedId v1) []), Vk_Runs (sv_effect v2))]))"

definition sv_handle :: "suites_event \<Rightarrow> (suites_view, suites_request, suites_cont) segment" where
  "sv_handle ev = sv_effects (sv_act ev)"

definition sv_reply :: "suites_cont \<Rightarrow> suites_reply \<Rightarrow> (suites_view, suites_request, suites_cont) segment" where
  "sv_reply k r = sv_effects (sv_resume k r)"

definition sv_mount :: "(suites_view, suites_request, suites_cont) segment" where
  "sv_mount v = (v\<lparr>sv_runs := []\<rparr>, [(Vq_Lists, Vk_Load (sv_selectedId v) None)])"

section \<open>The reports\<close>

record reports_view =
  rv_data :: "(runs_summary \<times> MacroRun list) option"
  rv_filter :: "run_status option"
  rv_error :: "string option"
  rv_openRunId :: "string option"
  rv_detail :: "run_detail option"
  rv_loading :: bool

definition reports_view_init :: reports_view where
  "reports_view_init = \<lparr>rv_data = None, rv_filter = None, rv_error = None, rv_openRunId = None, rv_detail = None,
     rv_loading = False\<rparr>"

datatype reports_request = Rq_List "run_status option" | Rq_Detail string

datatype reports_cont = Rk_List | Rk_Detail

datatype reports_reply = Rr_List runs_summary "MacroRun list" | Rr_Detail run_detail | Rr_Error string

text \<open>The interval and the button refresh; a row can be clicked while no drawer covers the table.\<close>

datatype reports_event = Re_Refresh | Re_Filter "run_status option" | Re_Open string | Re_Close

definition rv_refresh :: "(reports_view, reports_request, reports_cont) segment" where
  "rv_refresh v = (v, [(Rq_List (rv_filter v), Rk_List)])"

definition rv_rows :: "reports_view \<Rightarrow> MacroRun list" where
  "rv_rows v = (case rv_data v of None \<Rightarrow> [] | Some (_, rs) \<Rightarrow> rs)"

definition rv_handle :: "reports_event \<Rightarrow> (reports_view, reports_request, reports_cont) segment" where
  "rv_handle ev v =
     (case ev of
        Re_Refresh \<Rightarrow> rv_refresh v
      | Re_Filter f \<Rightarrow> if f = rv_filter v then (v, []) else rv_refresh (v\<lparr>rv_filter := f\<rparr>)
      | Re_Open i \<Rightarrow>
          if rv_openRunId v \<noteq> None \<or> i \<notin> run_id ` set (rv_rows v) then (v, [])
          else (v\<lparr>rv_openRunId := Some i, rv_loading := True\<rparr>, [(Rq_Detail i, Rk_Detail)])
      | Re_Close \<Rightarrow> if rv_openRunId v = None then (v, []) else (v\<lparr>rv_openRunId := None, rv_detail := None\<rparr>, []))"

definition rv_resume :: "reports_cont \<Rightarrow> reports_reply \<Rightarrow> (reports_view, reports_request, reports_cont) segment" where
  "rv_resume k r v =
     (case (k, r) of
        (Rk_List, Rr_List s rs) \<Rightarrow> (v\<lparr>rv_data := Some (s, rs), rv_error := None\<rparr>, [])
      | (Rk_List, Rr_Error e) \<Rightarrow> (v\<lparr>rv_error := Some e\<rparr>, [])
      | (Rk_Detail, Rr_Detail d) \<Rightarrow> (v\<lparr>rv_detail := Some d, rv_loading := False\<rparr>, [])
      | (Rk_Detail, Rr_Error e) \<Rightarrow> (v\<lparr>rv_error := Some e, rv_loading := False\<rparr>, [])
      | _ \<Rightarrow> (v, []))"

text \<open>What the drawer shows: the link to the document, and the lines of the steps. A step result carries its
  text in \<open>message\<close>; the drawer reads a field \<open>result\<close>, which no result has.\<close>

definition rv_pdfLink :: "reports_view \<Rightarrow> string option" where
  "rv_pdfLink v = map_option (\<lambda>i. ''/reports/macro-run/'' @ i @ ''/pdf'') (rv_openRunId v)"

definition drawer_step :: "Macro \<Rightarrow> MacroStepResult \<Rightarrow> int \<times> string \<times> step_status \<times> string" where
  "drawer_step mac r =
     (sres_order r,
      (case find (\<lambda>st. st_order st = sres_order r) (mc_steps mac) of
         Some st \<Rightarrow> device_name (st_device st) @ CHR '':'' # st_operation st
       | None \<Rightarrow> ''(step definition missing)''),
      sres_status r, js_default (sres_error r) em_dash)"

definition fmtDuration :: "(int \<Rightarrow> string) \<Rightarrow> int option \<Rightarrow> string" where
  "fmtDuration fixed2 ms =
     (case ms of
        None \<Rightarrow> em_dash
      | Some n \<Rightarrow> if n < 1000 then js_int_to_string n @ '' ms'' else fixed2 n @ '' s'')"

definition rv_mount :: "(reports_view, reports_request, reports_cont) segment" where
  "rv_mount = rv_refresh"

section \<open>The session history\<close>

type_synonym replay = "timed_session option \<times> logged_command list \<times> TransactionRow list"

record history_view =
  hv_sessions :: "timed_session list"
  hv_openId :: "string option"
  hv_replay :: "replay option"
  hv_loading :: bool

datatype history_request = Hq_Sessions | Hq_Replay string

datatype history_cont = Hk_Sessions | Hk_Replay

datatype history_reply = Hr_Sessions "timed_session list" | Hr_Replay replay | Hr_Error

datatype history_event = He_Tick | He_Open string | He_Close

definition hv_handle :: "history_event \<Rightarrow> (history_view, history_request, history_cont) segment" where
  "hv_handle ev v =
     (case ev of
        He_Tick \<Rightarrow> (v, [(Hq_Sessions, Hk_Sessions)])
      | He_Open i \<Rightarrow>
          if hv_openId v \<noteq> None \<or> i \<notin> sr_id ` set (hv_sessions v) then (v, [])
          else (v\<lparr>hv_openId := Some i, hv_replay := None, hv_loading := True\<rparr>, [(Hq_Replay i, Hk_Replay)])
      | He_Close \<Rightarrow> if hv_openId v = None then (v, []) else (v\<lparr>hv_openId := None, hv_replay := None\<rparr>, []))"

text \<open>A failed replay is not caught: the panel stops loading and the rejection is unhandled.\<close>

definition hv_resume :: "history_cont \<Rightarrow> history_reply \<Rightarrow> (history_view, history_request, history_cont) segment" where
  "hv_resume k r v =
     (case (k, r) of
        (Hk_Sessions, Hr_Sessions ss) \<Rightarrow> (v\<lparr>hv_sessions := ss\<rparr>, [])
      | (Hk_Replay, Hr_Replay x) \<Rightarrow> (v\<lparr>hv_replay := Some x, hv_loading := False\<rparr>, [])
      | (Hk_Replay, Hr_Error) \<Rightarrow> (v\<lparr>hv_loading := False\<rparr>, [])
      | _ \<Rightarrow> (v, []))"

end
