(* ===== verification/Front_Panels_Props.thy ===== *)
theory Front_Panels_Props
  imports Front_Panels Schedule_Props
begin

text \<open>
  What the panels of the console promise, and where replies that cross let a panel lie: the studio has one
  run at a time; the drawer of one run can stay with the details of another; of two quick changes of a
  suite one is lost.
\<close>

section \<open>Tickets\<close>

text \<open>The requests a panel waits for have different tickets, below the next one.\<close>

definition pn_ok :: "('v, 'k) panel \<Rightarrow> bool" where
  "pn_ok p \<longleftrightarrow> distinct (map fst (pn_pending p)) \<and> (\<forall>q \<in> set (pn_pending p). fst q < pn_ticket p)"

lemma map_fst_zip_upt: "length xs = n \<Longrightarrow> map fst (zip [k..<k + n] xs) = [k..<k + n]"
  by (simp add: map_fst_zip)

lemma pn_do_ok: "pn_ok p \<Longrightarrow> pn_ok (fst (pn_do f p))"
  by (auto simp: pn_ok_def pn_do_def Let_def split_def map_fst_zip_upt dest!: set_zip_leftD)

lemma pn_drop_ok: "pn_ok p \<Longrightarrow> pn_ok (p\<lparr>pn_pending := filter P (pn_pending p)\<rparr>)"
  by (auto simp: pn_ok_def intro: distinct_map_filter)

lemma pn_step_ok: "pn_ok p \<Longrightarrow> pn_ok (fst (pn_step handle resume i p))"
  by (auto simp: pn_step_def pn_do_ok pn_drop_ok split: panel_input.split option.split)

lemma pn_mount_ok: "pn_ok (fst (pn_mount f v))"
  unfolding pn_mount_def by (rule pn_do_ok) (simp add: pn_ok_def)

text \<open>An invariant of a panel: preserved by each segment that it runs.\<close>

lemma pn_run_induct:
  assumes "pn_ok p" "J p"
    and "\<And>e p. pn_ok p \<Longrightarrow> J p \<Longrightarrow> J (fst (pn_do (handle e) p))"
    and "\<And>n a k p. pn_ok p \<Longrightarrow> J p \<Longrightarrow> map_of (pn_pending p) n = Some k \<Longrightarrow>
      J (fst (pn_do (resume k a) (p\<lparr>pn_pending := filter (\<lambda>q. fst q \<noteq> n) (pn_pending p)\<rparr>)))"
  shows "pn_ok (fst (pn_run handle resume is p)) \<and> J (fst (pn_run handle resume is p))"
  using assms(1,2)
proof (induction "is" arbitrary: p)
  case Nil
  then show ?case by simp
next
  case (Cons i xs)
  let ?p = "fst (pn_step handle resume i p)"
  have "J ?p"
  proof (cases i)
    case (Do e)
    then show ?thesis using assms(3) Cons.prems by (simp add: pn_step_def)
  next
    case (Reply n a)
    then show ?thesis using assms(4) Cons.prems by (simp add: pn_step_def split: option.split)
  qed
  from Cons.IH [OF pn_step_ok [OF Cons.prems(1)] this] show ?case by (simp add: Let_def split_def)
qed

section \<open>One run at a time\<close>

definition waits_for :: "('k \<Rightarrow> bool) \<Rightarrow> ('v, 'k) panel \<Rightarrow> nat" where
  "waits_for P p = length (filter (\<lambda>q. P (snd q)) (pn_pending p))"

lemma filter_zip_upt:
  "length (filter (\<lambda>q. P (snd q)) (zip [k..<k + length xs] (map snd xs))) = length (filter (\<lambda>r. P (snd r)) xs)"
proof (induction xs arbitrary: k)
  case Nil
  then show ?case by simp
next
  case (Cons x xs)
  then show ?case using Cons [of "Suc k"] by (simp add: upt_conv_Cons del: upt_Suc)
qed

lemma waits_for_do:
  "waits_for P (fst (pn_do f p)) = waits_for P p + length (filter (\<lambda>r. P (snd r)) (snd (f (pn_view p))))"
  by (simp add: pn_do_def waits_for_def Let_def split_def filter_zip_upt)

lemma view_do [simp]: "pn_view (fst (pn_do f p)) = fst (f (pn_view p))"
  by (simp add: pn_do_def Let_def split_def)

lemma waits_for_taken:
  assumes "pn_ok p" "map_of (pn_pending p) n = Some k"
  shows "waits_for P p = waits_for P (p\<lparr>pn_pending := filter (\<lambda>q. fst q \<noteq> n) (pn_pending p)\<rparr>) + (if P k then 1 else 0)"
proof -
  have "distinct (map fst xs) \<Longrightarrow> map_of xs n = Some k \<Longrightarrow>
      length (filter (\<lambda>q. P (snd q)) xs) = length (filter (\<lambda>q. P (snd q)) (filter (\<lambda>q. fst q \<noteq> n) xs)) + (if P k then 1 else 0)" for xs
  proof (induction xs)
    case Nil
    then show ?case by simp
  next
    case (Cons x xs)
    show ?case
    proof (cases "fst x = n")
      case True
      then have "filter (\<lambda>q. fst q \<noteq> n) xs = xs" using Cons.prems(1) by (auto simp: filter_id_conv image_iff)
      then show ?thesis using True Cons.prems(2) by (cases x) auto
    next
      case False
      then show ?thesis using Cons by (cases x) auto
    qed
  qed
  then show ?thesis using assms by (simp add: waits_for_def pn_ok_def)
qed

definition one_run :: "(studio, studio_cont) panel \<Rightarrow> bool" where
  "one_run p \<longleftrightarrow> waits_for (\<lambda>k. k = Sk_Run) p = (if sd_running (pn_view p) then 1 else 0)"

lemma sd_simps [simp]:
  "sd_running (sd_failed e v) = sd_running v" "sd_running (sd_loaded b s r v) = sd_running v"
  by (simp_all add: sd_failed_def sd_loaded_def Let_def split: studio_reply.split)

lemma sd_handle_runs:
  "(if sd_running (fst (sd_handle ev v)) then 1 else 0)
     = (if sd_running v then 1 else 0) + length (filter (\<lambda>r. snd r = Sk_Run) (snd (sd_handle ev v)))"
  by (simp add: sd_handle_def sd_saveSteps_def split: studio_event.split option.split)

lemma sd_resume_runs:
  "k \<noteq> Sk_Run \<Longrightarrow> sd_running (fst (sd_resume k r v)) = sd_running v"
  "k = Sk_Run \<Longrightarrow> \<not> sd_running (fst (sd_resume k r v))"
  "filter (\<lambda>q. snd q = Sk_Run) (snd (sd_resume k r v)) = []"
  by (simp_all add: sd_resume_def Let_def split: studio_cont.split studio_reply.split option.split bool.split)

text \<open>C28: whatever the operator does and in whatever order the replies arrive, the studio waits for at most
  one run of a macro, and its button is blocked exactly while it does.\<close>

theorem studio_one_run:
  "waits_for (\<lambda>k. k = Sk_Run) (fst (pn_run sd_handle sd_resume is (fst (pn_mount sd_mount studio_init))))
     = (if sd_running (pn_view (fst (pn_run sd_handle sd_resume is (fst (pn_mount sd_mount studio_init))))) then 1 else 0)"
proof -
  let ?p0 = "fst (pn_mount sd_mount studio_init)"
  have start: "pn_ok ?p0" "one_run ?p0"
    by (rule pn_mount_ok) (simp add: one_run_def pn_mount_def waits_for_do sd_mount_def studio_init_def, simp add: waits_for_def)
  have "one_run (fst (pn_run sd_handle sd_resume is ?p0))"
  proof (rule pn_run_induct [where J = one_run, OF start, THEN conjunct2])
    show "one_run (fst (pn_do (sd_handle e) p))" if "pn_ok p" "one_run p" for e p
      using that(2) sd_handle_runs [of e "pn_view p"] by (simp add: one_run_def waits_for_do)
    show "one_run (fst (pn_do (sd_resume k a) (p\<lparr>pn_pending := filter (\<lambda>q. fst q \<noteq> n) (pn_pending p)\<rparr>)))"
      if "pn_ok p" "one_run p" "map_of (pn_pending p) n = Some k" for n a k p
      using that(2) waits_for_taken [OF that(1,3), of "\<lambda>k. k = Sk_Run"] sd_resume_runs [of k a "pn_view p"]
      by (cases "k = Sk_Run") (auto simp: one_run_def waits_for_do split: if_splits)
  qed
  then show ?thesis by (simp add: one_run_def)
qed

section \<open>The drawer of another run\<close>

definition drawer_stuck :: "string \<Rightarrow> run_detail \<Rightarrow> (reports_view, reports_cont) panel \<Rightarrow> bool" where
  "drawer_stuck b d p \<longleftrightarrow> pn_ok p \<and> waits_for (\<lambda>k. k = Rk_Detail) p = 0
     \<and> rv_openRunId (pn_view p) = Some b \<and> rv_detail (pn_view p) = Some d"

lemma drawer_stuck_step:
  assumes "drawer_stuck b d p" "i \<noteq> Do Re_Close"
  shows "drawer_stuck b d (fst (pn_step rv_handle rv_resume i p))"
proof -
  note ok = pn_step_ok [of p rv_handle rv_resume i]
  show ?thesis
  proof (cases i)
    case (Do e)
    then show ?thesis
      using assms ok by (cases e) (auto simp: drawer_stuck_def pn_step_def waits_for_do rv_handle_def rv_refresh_def)
  next
    case (Reply n a)
    show ?thesis
    proof (cases "map_of (pn_pending p) n")
      case None
      then show ?thesis using assms Reply by (simp add: pn_step_def)
    next
      case (Some k)
      have k: "k \<noteq> Rk_Detail" "waits_for (\<lambda>k. k = Rk_Detail) (p\<lparr>pn_pending := filter (\<lambda>q. fst q \<noteq> n) (pn_pending p)\<rparr>) = 0"
        using waits_for_taken [of p n k "\<lambda>k. k = Rk_Detail"] assms(1) Some by (auto simp: drawer_stuck_def)
      then have "k = Rk_List" by (cases k) auto
      then show ?thesis
        using assms(1) ok k(2) Reply Some
        by (cases a) (auto simp: drawer_stuck_def pn_step_def waits_for_do rv_resume_def)
    qed
  qed
qed

lemma drawer_stuck_run:
  "drawer_stuck b d p \<Longrightarrow> Do Re_Close \<notin> set is \<Longrightarrow> drawer_stuck b d (fst (pn_run rv_handle rv_resume is p))"
proof (induction "is" arbitrary: p)
  case (Cons i xs)
  then show ?case using drawer_stuck_step [of b d p i] by (auto simp: Let_def split_def)
qed simp

lemma pn_run_append:
  "fst (pn_run handle resume (is @ js) p) = fst (pn_run handle resume js (fst (pn_run handle resume is p)))"
  by (induction "is" arbitrary: p) (simp_all add: Let_def split_def)

lemma pn_ok_fresh: "pn_ok p \<Longrightarrow> pn_ticket p \<le> n \<Longrightarrow> map_of (pn_pending p) n = None"
  by (force simp: pn_ok_def map_of_eq_None_iff)

text \<open>The crossing: the first run is opened and closed again, the second is opened, and the details of the
  first come last.\<close>

definition crossing :: "nat \<Rightarrow> string \<Rightarrow> run_detail \<Rightarrow> string \<Rightarrow> run_detail \<Rightarrow> (reports_event, reports_reply) panel_input list" where
  "crossing t a da b db = [Do (Re_Open a), Do Re_Close, Do (Re_Open b), Reply (Suc t) (Rr_Detail db), Reply t (Rr_Detail da)]"

lemma crossing_stuck:
  assumes "pn_ok p" "waits_for (\<lambda>k. k = Rk_Detail) p = 0" "rv_openRunId (pn_view p) = None"
    and "{a, b} \<subseteq> run_id ` set (rv_rows (pn_view p))"
  shows "drawer_stuck b da (fst (pn_run rv_handle rv_resume (crossing (pn_ticket p) a da b db) p))"
    and "\<not> rv_loading (pn_view (fst (pn_run rv_handle rv_resume (crossing (pn_ticket p) a da b db) p)))"
proof -
  obtain v ps t where p: "p = \<lparr>pn_view = v, pn_pending = ps, pn_ticket = t\<rparr>" by (cases p) auto
  have fresh: "map_of ps t = None" "map_of ps (Suc t) = None"
    using pn_ok_fresh [OF assms(1)] by (simp_all add: p)
  have keep: "filter (\<lambda>q. fst q \<noteq> t) ps = ps" "filter (\<lambda>q. fst q \<noteq> Suc t) ps = ps"
    using assms(1) by (auto simp: filter_id_conv pn_ok_def p)
  define v1 where "v1 = v\<lparr>rv_openRunId := Some a, rv_loading := True\<rparr>"
  define v2 where "v2 = v1\<lparr>rv_openRunId := None, rv_detail := None\<rparr>"
  define v3 where "v3 = v2\<lparr>rv_openRunId := Some b, rv_loading := True\<rparr>"
  have rows: "rv_rows v2 = rv_rows v" by (simp add: rv_rows_def v2_def v1_def)
  have 1: "fst (pn_step rv_handle rv_resume (Do (Re_Open a)) p) = \<lparr>pn_view = v1, pn_pending = ps @ [(t, Rk_Detail)], pn_ticket = Suc t\<rparr>"
    using assms(3,4) by (simp add: pn_step_def pn_do_def rv_handle_def p v1_def)
  have 2: "fst (pn_step rv_handle rv_resume (Do Re_Close) \<lparr>pn_view = v1, pn_pending = ps @ [(t, Rk_Detail)], pn_ticket = Suc t\<rparr>)
      = \<lparr>pn_view = v2, pn_pending = ps @ [(t, Rk_Detail)], pn_ticket = Suc t\<rparr>"
    by (simp add: pn_step_def pn_do_def rv_handle_def v1_def v2_def)
  have 3: "fst (pn_step rv_handle rv_resume (Do (Re_Open b)) \<lparr>pn_view = v2, pn_pending = ps @ [(t, Rk_Detail)], pn_ticket = Suc t\<rparr>)
      = \<lparr>pn_view = v3, pn_pending = ps @ [(t, Rk_Detail), (Suc t, Rk_Detail)], pn_ticket = Suc (Suc t)\<rparr>"
    using assms(4) rows by (simp add: pn_step_def pn_do_def rv_handle_def v3_def p) (simp add: v2_def)
  have 4: "fst (pn_step rv_handle rv_resume (Reply (Suc t) (Rr_Detail db)) \<lparr>pn_view = v3, pn_pending = ps @ [(t, Rk_Detail), (Suc t, Rk_Detail)], pn_ticket = Suc (Suc t)\<rparr>)
      = \<lparr>pn_view = v3\<lparr>rv_detail := Some db, rv_loading := False\<rparr>, pn_pending = ps @ [(t, Rk_Detail)], pn_ticket = Suc (Suc t)\<rparr>"
    using fresh keep by (simp add: pn_step_def pn_do_def rv_resume_def map_add_def)
  have 5: "fst (pn_step rv_handle rv_resume (Reply t (Rr_Detail da)) \<lparr>pn_view = v3\<lparr>rv_detail := Some db, rv_loading := False\<rparr>, pn_pending = ps @ [(t, Rk_Detail)], pn_ticket = Suc (Suc t)\<rparr>)
      = \<lparr>pn_view = v3\<lparr>rv_detail := Some da, rv_loading := False\<rparr>, pn_pending = ps, pn_ticket = Suc (Suc t)\<rparr>"
    using fresh keep by (simp add: pn_step_def pn_do_def rv_resume_def map_add_def)
  have run: "fst (pn_run rv_handle rv_resume (crossing (pn_ticket p) a da b db) p)
      = \<lparr>pn_view = v3\<lparr>rv_detail := Some da, rv_loading := False\<rparr>, pn_pending = ps, pn_ticket = Suc (Suc t)\<rparr>"
    by (simp add: crossing_def Let_def split_def 1 2 3 4 5 p [THEN arg_cong [where f = pn_ticket]] del: One_nat_def)
  show "drawer_stuck b da (fst (pn_run rv_handle rv_resume (crossing (pn_ticket p) a da b db) p))"
    using assms(1,2) unfolding run by (auto simp: drawer_stuck_def pn_ok_def waits_for_def p v3_def)
  show "\<not> rv_loading (pn_view (fst (pn_run rv_handle rv_resume (crossing (pn_ticket p) a da b db) p)))"
    unfolding run by simp
qed

text \<open>C33: if the details of a run that was opened and closed again come after those of the run opened next, the
  drawer shows the first run under the name and the document of the second, until it is closed, whatever
  else happens.\<close>

theorem reports_wrong_run_shown:
  assumes "pn_ok p" "waits_for (\<lambda>k. k = Rk_Detail) p = 0" "rv_openRunId (pn_view p) = None"
    and "{a, b} \<subseteq> run_id ` set (rv_rows (pn_view p))" and "Do Re_Close \<notin> set is"
  shows "rv_detail (pn_view (fst (pn_run rv_handle rv_resume (crossing (pn_ticket p) a da b db @ is) p))) = Some da
    \<and> rv_openRunId (pn_view (fst (pn_run rv_handle rv_resume (crossing (pn_ticket p) a da b db @ is) p))) = Some b
    \<and> rv_pdfLink (pn_view (fst (pn_run rv_handle rv_resume (crossing (pn_ticket p) a da b db @ is) p)))
        = Some (''/reports/macro-run/'' @ b @ ''/pdf'')"
  using drawer_stuck_run [OF crossing_stuck(1) [OF assms(1-4)] assms(5)]
  by (simp add: pn_run_append drawer_stuck_def rv_pdfLink_def)

section \<open>A lost change of a suite\<close>

lemma find_suite_id: "find_suite i ss = Some s \<Longrightarrow> su_id s = i"
  by (auto simp: find_suite_def dest: find_Some_iff [THEN iffD1])

lemma toggle_request:
  assumes "sv_selectedId v = Some i" "i \<noteq> []" "find_suite i (sv_suites v) = Some s" "x \<in> mc_id ` set (sv_macros v)"
  shows "sv_handle (Ve_Toggle x) v = (v, [(Vq_Patch i (Patch_Macros (toggled x (su_macroIds s))), Vk_Patched)])"
  using assms by (simp add: sv_handle_def sv_effects_def sv_act_def sv_selected_def sv_saveSuite_def falsy_def)

lemma macros_patch:
  assumes "find_suite i (fst st) = Some s" "su_name s \<notin> set (map su_name (filter (\<lambda>x. su_id x \<noteq> i) (fst st)))"
  shows "fst (snd (suites_update qo i (patch_body (Patch_Macros is)) st))
      = map (\<lambda>x. if su_id x = i then s\<lparr>su_macroIds := is\<rparr> else x) (fst st)"
proof -
  have "those (map jv_string (map JvStr is)) = Some is" by (induction "is") simp_all
  then have "edited_suite (patch_body (Patch_Macros is)) s = Inr (s\<lparr>su_macroIds := is\<rparr>)"
    by (simp add: edited_suite_def empty_body_def optionalStringArray_def optionalBool_def)
  then show ?thesis using assms by (simp add: suites_update_def suites_sync_def Let_def split_def)
qed

lemma find_suite_patched:
  "find_suite i ss = Some s \<Longrightarrow> su_id s' = i \<Longrightarrow> find_suite i (map (\<lambda>x. if su_id x = i then s' else x) ss) = Some s'"
  unfolding find_suite_def by (induction ss) (auto split: if_splits)

lemma other_names_patched:
  "su_id s' = i \<Longrightarrow> map su_name (filter (\<lambda>x. su_id x \<noteq> i) (map (\<lambda>x. if su_id x = i then s' else x) ss))
     = map su_name (filter (\<lambda>x. su_id x \<noteq> i) ss)"
  by (induction ss) auto

text \<open>Two macros that are added to a suite before the first reply is back end up as one: both requests carry
  the list as it was with one addition, so the server keeps the addition of whichever it serves last.\<close>

theorem suite_toggle_lost:
  assumes "pn_view p = v" "sv_selectedId v = Some i" "i \<noteq> []" "find_suite i (sv_suites v) = Some s"
    and "{a, b} \<subseteq> mc_id ` set (sv_macros v)" "a \<notin> set (su_macroIds s)" "b \<notin> set (su_macroIds s)" "a \<noteq> b"
    and "find_suite i (fst st) = Some s" "su_name s \<notin> set (map su_name (filter (\<lambda>x. su_id x \<noteq> i) (fst st)))"
  shows "\<exists>pa pb. map snd (snd (pn_run sv_handle sv_reply [Do (Ve_Toggle a), Do (Ve_Toggle b)] p)) = [Vq_Patch i pa, Vq_Patch i pb]
    \<and> (\<forall>(pf, pl, lost) \<in> {(pa, pb, a), (pb, pa, b)}.
        \<exists>s'. find_suite i (fst (snd (suites_update qo i (patch_body pl) (snd (suites_update qo i (patch_body pf) st))))) = Some s'
          \<and> lost \<notin> set (su_macroIds s'))"
proof -
  let ?pa = "Patch_Macros (su_macroIds s @ [a])" and ?pb = "Patch_Macros (su_macroIds s @ [b])"
  have r: "sv_handle (Ve_Toggle a) v = (v, [(Vq_Patch i ?pa, Vk_Patched)])" "sv_handle (Ve_Toggle b) v = (v, [(Vq_Patch i ?pb, Vk_Patched)])"
    using toggle_request [OF assms(2-4)] assms(5-7) by (simp_all add: toggled_def)
  have R: "map snd (snd (pn_run sv_handle sv_reply [Do (Ve_Toggle a), Do (Ve_Toggle b)] p)) = [Vq_Patch i ?pa, Vq_Patch i ?pb]"
    using assms(1) r by (simp add: pn_step_def pn_do_def Let_def)
  have F: "find_suite i (fst (snd (suites_update qo i (patch_body (Patch_Macros zs))
      (snd (suites_update qo i (patch_body (Patch_Macros ys)) st))))) = Some (s\<lparr>su_macroIds := zs\<rparr>)" for ys zs
  proof -
    let ?st = "snd (suites_update qo i (patch_body (Patch_Macros ys)) st)" and ?s = "s\<lparr>su_macroIds := ys\<rparr>"
    have i: "su_id s = i" by (rule find_suite_id [OF assms(9)])
    have st: "fst ?st = map (\<lambda>x. if su_id x = i then ?s else x) (fst st)"
      by (rule macros_patch [OF assms(9,10)])
    have "find_suite i (fst ?st) = Some ?s"
      unfolding st by (rule find_suite_patched [OF assms(9)]) (simp add: i)
    moreover have "su_name ?s \<notin> set (map su_name (filter (\<lambda>x. su_id x \<noteq> i) (fst ?st)))"
      using assms(10) other_names_patched [of ?s i "fst st"] i unfolding st by simp
    ultimately have "fst (snd (suites_update qo i (patch_body (Patch_Macros zs)) ?st))
        = map (\<lambda>x. if su_id x = i then ?s\<lparr>su_macroIds := zs\<rparr> else x) (fst ?st)"
      by (rule macros_patch)
    then show ?thesis
      using find_suite_patched [OF \<open>find_suite i (fst ?st) = Some ?s\<close>, of "?s\<lparr>su_macroIds := zs\<rparr>"] i by simp
  qed
  show ?thesis
  proof (intro exI conjI)
    show "map snd (snd (pn_run sv_handle sv_reply [Do (Ve_Toggle a), Do (Ve_Toggle b)] p)) = [Vq_Patch i ?pa, Vq_Patch i ?pb]"
      by (rule R)
    show "\<forall>(pf, pl, lost) \<in> {(?pa, ?pb, a), (?pb, ?pa, b)}.
        \<exists>s'. find_suite i (fst (snd (suites_update qo i (patch_body pl) (snd (suites_update qo i (patch_body pf) st))))) = Some s'
          \<and> lost \<notin> set (su_macroIds s')"
      using assms(6-8) by (simp add: F del: patch_body.simps)
  qed
qed

section \<open>Witnesses\<close>

definition fp_run :: "string \<Rightarrow> MacroRun" where
  "fp_run i = \<lparr>run_id = i, run_macroId = ''M1'', run_status = R_PASSED, run_currentStep = None, run_stepResults = [],
     run_startedAt = 0, run_completedAt = Some 5, run_durationMs = Some 5, run_suiteRunId = None\<rparr>"

definition fp_macro :: Macro where
  "fp_macro = \<lparr>mc_id = ''M1'', mc_name = ''demo'', mc_folder = None, mc_description = None, mc_tags = [], mc_steps = [],
     mc_variables = []\<rparr>"

definition fp_detail :: "string \<Rightarrow> run_detail" where
  "fp_detail i = \<lparr>rd_run = fp_run i, rd_macro = fp_macro, rd_transactions = [], rd_commands = [], rd_sessions = []\<rparr>"

definition fp_reports :: "(reports_view, reports_cont) panel" where
  "fp_reports = \<lparr>pn_view = reports_view_init\<lparr>rv_data := Some (\<lparr>rsu_window = 0, rsu_total = 2, rsu_passed = 2, rsu_failed = 0,
     rsu_aborted = 0, rsu_running = 0\<rparr>, [fp_run ''R1'', fp_run ''R2''])\<rparr>, pn_pending = [(0, Rk_List)], pn_ticket = 1\<rparr>"

lemma reports_wrong_run_shown_witness:
  "rv_detail (pn_view (fst (pn_run rv_handle rv_resume
      (crossing 1 ''R1'' (fp_detail ''R1'') ''R2'' (fp_detail ''R2'') @ [Do Re_Refresh]) fp_reports))) = Some (fp_detail ''R1'')
   \<and> rv_openRunId (pn_view (fst (pn_run rv_handle rv_resume
      (crossing 1 ''R1'' (fp_detail ''R1'') ''R2'' (fp_detail ''R2'') @ [Do Re_Refresh]) fp_reports))) = Some ''R2''"
proof -
  have "pn_ok fp_reports" "waits_for (\<lambda>k. k = Rk_Detail) fp_reports = 0" "rv_openRunId (pn_view fp_reports) = None"
    "{''R1'', ''R2''} \<subseteq> run_id ` set (rv_rows (pn_view fp_reports))" "Do Re_Close \<notin> set [Do Re_Refresh]"
    by (simp_all add: pn_ok_def waits_for_def fp_reports_def reports_view_init_def rv_rows_def fp_run_def)
  from reports_wrong_run_shown [OF this, of "fp_detail ''R1''" "fp_detail ''R2''"] show ?thesis
    by (simp add: fp_reports_def del: pn_run.simps)
qed

definition fp_suite :: MacroSuite where
  "fp_suite = \<lparr>su_id = ''S1'', su_name = ''nightly'', su_macroIds = [], su_cron = None, su_enabled = True\<rparr>"

definition fp_suites :: suites_view where
  "fp_suites = suites_view_init\<lparr>sv_suites := [fp_suite], sv_macros := [fp_macro, fp_macro\<lparr>mc_id := ''M2''\<rparr>], sv_selectedId := Some ''S1''\<rparr>"

definition fp_schedule :: "repeatable list schedule" where
  "fp_schedule = ([fp_suite], None)"

lemma suite_toggle_lost_witness:
  "\<exists>pa pb. map snd (snd (pn_run sv_handle sv_reply [Do (Ve_Toggle ''M1''), Do (Ve_Toggle ''M2'')]
        \<lparr>pn_view = fp_suites, pn_pending = [], pn_ticket = 0\<rparr>)) = [Vq_Patch ''S1'' pa, Vq_Patch ''S1'' pb]
    \<and> (\<exists>s'. find_suite ''S1'' (fst (snd (suites_update list_queue ''S1'' (patch_body pb)
          (snd (suites_update list_queue ''S1'' (patch_body pa) fp_schedule))))) = Some s' \<and> ''M1'' \<notin> set (su_macroIds s'))"
proof -
  have v: "pn_view \<lparr>pn_view = fp_suites, pn_pending = [], pn_ticket = 0\<rparr> = fp_suites" "sv_selectedId fp_suites = Some ''S1''"
    "''S1'' \<noteq> []" "find_suite ''S1'' (sv_suites fp_suites) = Some fp_suite" "{''M1'', ''M2''} \<subseteq> mc_id ` set (sv_macros fp_suites)"
    "''M1'' \<notin> set (su_macroIds fp_suite)" "''M2'' \<notin> set (su_macroIds fp_suite)" "''M1'' \<noteq> ''M2''"
    "find_suite ''S1'' (fst fp_schedule) = Some fp_suite"
    "su_name fp_suite \<notin> set (map su_name (filter (\<lambda>x. su_id x \<noteq> ''S1'') (fst fp_schedule)))"
    by (simp_all add: fp_suites_def suites_view_init_def find_suite_def fp_suite_def fp_macro_def fp_schedule_def)
  obtain pa pb where
    1: "map snd (snd (pn_run sv_handle sv_reply [Do (Ve_Toggle ''M1''), Do (Ve_Toggle ''M2'')]
          \<lparr>pn_view = fp_suites, pn_pending = [], pn_ticket = 0\<rparr>)) = [Vq_Patch ''S1'' pa, Vq_Patch ''S1'' pb]"
    and 2: "\<forall>(pf, pl, lost) \<in> {(pa, pb, ''M1''), (pb, pa, ''M2'')}.
        \<exists>s'. find_suite ''S1'' (fst (snd (suites_update list_queue ''S1'' (patch_body pl)
            (snd (suites_update list_queue ''S1'' (patch_body pf) fp_schedule))))) = Some s' \<and> lost \<notin> set (su_macroIds s')"
    using suite_toggle_lost [where qo = list_queue, OF v] by (elim exE conjE) (rule that)
  have "\<exists>s'. find_suite ''S1'' (fst (snd (suites_update list_queue ''S1'' (patch_body pb)
      (snd (suites_update list_queue ''S1'' (patch_body pa) fp_schedule))))) = Some s' \<and> ''M1'' \<notin> set (su_macroIds s')"
    using bspec [OF 2, of "(pa, pb, ''M1'')"] by simp
  from conjI [OF 1 this] show ?thesis by (intro exI [where x = pa] exI [where x = pb])
qed

end
