(* ===== verification/Front_Lists.thy ===== *)
theory Front_Lists
  imports Front_Panels Front_Atm Transport_Manager
begin

text \<open>
  The panels of the console that show a list of the server and act on its entries: cassettes
  (\<^verbatim>\<open>CassetteManager.tsx\<close>), devices (\<^verbatim>\<open>DeviceStatus.tsx\<close>), host transports (\<^verbatim>\<open>HostTransportPanel.tsx\<close>), cards
  (\<^verbatim>\<open>CardManager.tsx\<close>), bank themes (\<^verbatim>\<open>ThemeSwitcher.tsx\<close>) and transactions (\<^verbatim>\<open>TransactionList.tsx\<close>), and the
  hook that keeps the dark or light mode (\<^verbatim>\<open>hooks/useThemeMode.ts\<close>).
\<close>

section \<open>Cassettes\<close>

record 'a listing =
  ls_items :: "'a list"
  ls_msg :: "string option"

datatype cassette_request = Cq_List | Cq_Replenish string int | Cq_Jam string | Cq_Clear string

datatype list_cont = Lk_List | Lk_Acted | Lk_Quiet

datatype 'a list_reply = Lr_Items "'a list" | Lr_Ok | Lr_Error string

datatype cassette_event = Ce_Tick | Ce_Refill string | Ce_Jam string | Ce_Clear string

definition ls_got :: "'a list_reply \<Rightarrow> 'a listing \<Rightarrow> 'a listing" where
  "ls_got r v = (case r of Lr_Items xs \<Rightarrow> v\<lparr>ls_items := xs\<rparr> | Lr_Error e \<Rightarrow> v\<lparr>ls_msg := Some e\<rparr> | Lr_Ok \<Rightarrow> v)"

definition cs_handle :: "cassette_event \<Rightarrow> (CashUnit listing, cassette_request, list_cont) segment" where
  "cs_handle ev v =
     (let unit = (\<lambda>i. if i = ''REJECT'' then None else find (\<lambda>u. cu_unitId u = i) (ls_items v))
      in case ev of
           Ce_Tick \<Rightarrow> (v, [(Cq_List, Lk_List)])
         | Ce_Refill i \<Rightarrow> (case unit i of None \<Rightarrow> (v, []) | Some u \<Rightarrow> (v, [(Cq_Replenish i (cu_maximum u), Lk_Acted)]))
         | Ce_Jam i \<Rightarrow>
             (case unit i of None \<Rightarrow> (v, []) | Some u \<Rightarrow> if cu_status u = CU_JAMMED then (v, []) else (v, [(Cq_Jam i, Lk_Acted)]))
         | Ce_Clear i \<Rightarrow>
             (case unit i of None \<Rightarrow> (v, []) | Some u \<Rightarrow> if cu_status u \<noteq> CU_JAMMED then (v, []) else (v, [(Cq_Clear i, Lk_Acted)])))"

definition cs_resume :: "list_cont \<Rightarrow> CashUnit list_reply \<Rightarrow> (CashUnit listing, cassette_request, list_cont) segment" where
  "cs_resume k r v =
     (case k of
        Lk_Acted \<Rightarrow> (case r of Lr_Error e \<Rightarrow> (v\<lparr>ls_msg := Some e\<rparr>, []) | _ \<Rightarrow> (v, [(Cq_List, Lk_List)]))
      | _ \<Rightarrow> (ls_got r v, []))"

section \<open>Cards\<close>

datatype card_request = Kq_List | Kq_Delete string

datatype card_event = Ke_Delete string bool

definition cl_handle :: "card_event \<Rightarrow> (VirtualCardSummary listing, card_request, list_cont) segment" where
  "cl_handle ev v =
     (case ev of
        Ke_Delete pan ok \<Rightarrow>
          if pan \<notin> vc_pan ` set (ls_items v) \<or> \<not> ok then (v, []) else (v, [(Kq_Delete pan, Lk_Acted)]))"

definition cl_resume :: "list_cont \<Rightarrow> VirtualCardSummary list_reply \<Rightarrow> (VirtualCardSummary listing, card_request, list_cont) segment" where
  "cl_resume k r v =
     (case k of
        Lk_Acted \<Rightarrow> (case r of Lr_Error e \<Rightarrow> (v\<lparr>ls_msg := Some e\<rparr>, []) | _ \<Rightarrow> (v, [(Kq_List, Lk_List)]))
      | _ \<Rightarrow> (ls_got r v, []))"

section \<open>Devices\<close>

definition ERROR_CODES :: "(int \<times> string) list" where
  "ERROR_CODES = [(- 1, ''CANCEL''), (- 2, ''DEV_NOT_READY''), (- 3, ''HARDWARE_ERROR''), (- 6, ''TIMEOUT''), (- 10, ''LOCKED'')]"

text \<open>The buttons carry the XFS result codes, and the endpoint accepts each.\<close>

lemma error_codes_valid:
  "map fst ERROR_CODES = map xfs_result_code [ERR_CANCEL, ERR_DEV_NOT_READY, ERR_HARDWARE_ERROR, ERR_TIMEOUT, ERR_LOCKED]"
  "(c, l) \<in> set ERROR_CODES \<Longrightarrow> admin_valid (AdmInjectError c)"
  by (auto simp: ERROR_CODES_def)

type_synonym service_info = "string \<times> XfsServiceClass \<times> XfsServiceState"

datatype device_request = Dq_List | Dq_Inject string int | Dq_Reset string

datatype device_cont = Dk_List | Dk_Injected string | Dk_ResetDone string

datatype device_event = De_Tick | De_Inject string "int \<times> string" | De_Reset string

definition dl_handle :: "device_event \<Rightarrow> (service_info listing, device_request, device_cont) segment" where
  "dl_handle ev v =
     (case ev of
        De_Tick \<Rightarrow> (v, [(Dq_List, Dk_List)])
      | De_Inject h (code, label) \<Rightarrow>
          if h \<notin> fst ` set (ls_items v) \<or> (code, label) \<notin> set ERROR_CODES then (v, [])
          else (v, [(Dq_Inject h code, Dk_Injected (label @ '' injected into '' @ h))])
      | De_Reset h \<Rightarrow> if h \<notin> fst ` set (ls_items v) then (v, []) else (v, [(Dq_Reset h, Dk_ResetDone (h @ '' reset''))]))"

definition dl_resume :: "device_cont \<Rightarrow> service_info list_reply \<Rightarrow> (service_info listing, device_request, device_cont) segment" where
  "dl_resume k r v =
     (case k of
        Dk_List \<Rightarrow> (ls_got r v, [])
      | Dk_Injected msg \<Rightarrow> (case r of Lr_Error e \<Rightarrow> (v\<lparr>ls_msg := Some e\<rparr>, []) | _ \<Rightarrow> (v\<lparr>ls_msg := Some msg\<rparr>, []))
      | Dk_ResetDone msg \<Rightarrow>
          (case r of Lr_Error e \<Rightarrow> (v\<lparr>ls_msg := Some e\<rparr>, []) | _ \<Rightarrow> (v\<lparr>ls_msg := Some msg\<rparr>, [(Dq_List, Dk_List)])))"

section \<open>Host transports\<close>

record transports_view =
  tv_transports :: "HostTransportConfigDto list"
  tv_busyId :: "string option"
  tv_error :: "string option"
  tv_loading :: bool

datatype transport_action = Act_Start | Act_Stop | Act_Activate

datatype transport_request = Tq_List | Tq_Act string transport_action

datatype transport_cont = Tk_List | Tk_Acted | Tk_ListThenFree

datatype transport_reply = Tr_List "HostTransportConfigDto list" | Tr_Ok | Tr_Error string

datatype transport_event = Te_Tick | Te_Act string transport_action

definition tv_offers :: "transports_view \<Rightarrow> string \<Rightarrow> transport_action \<Rightarrow> bool" where
  "tv_offers v i a \<longleftrightarrow> \<not> tv_loading v \<and> tv_busyId v \<noteq> Some i \<and>
     (\<exists>t \<in> set (tv_transports v). hr_id (dto_row t) = i \<and> (if a = Act_Stop then hr_enabled (dto_row t) else \<not> hr_enabled (dto_row t)))"

definition tv_handle :: "transport_event \<Rightarrow> (transports_view, transport_request, transport_cont) segment" where
  "tv_handle ev v =
     (case ev of
        Te_Tick \<Rightarrow> (v, [(Tq_List, Tk_List)])
      | Te_Act i a \<Rightarrow> if tv_offers v i a then (v\<lparr>tv_busyId := Some i\<rparr>, [(Tq_Act i a, Tk_Acted)]) else (v, []))"

definition tv_listed :: "transport_reply \<Rightarrow> transports_view \<Rightarrow> transports_view" where
  "tv_listed r v =
     (case r of
        Tr_List ts \<Rightarrow> v\<lparr>tv_transports := ts, tv_error := None\<rparr>
      | Tr_Error e \<Rightarrow> v\<lparr>tv_error := Some e\<rparr>
      | Tr_Ok \<Rightarrow> v)\<lparr>tv_loading := False\<rparr>"

definition tv_resume :: "transport_cont \<Rightarrow> transport_reply \<Rightarrow> (transports_view, transport_request, transport_cont) segment" where
  "tv_resume k r v =
     (case k of
        Tk_List \<Rightarrow> (tv_listed r v, [])
      | Tk_Acted \<Rightarrow>
          (case r of
             Tr_Error e \<Rightarrow> (v\<lparr>tv_error := Some e, tv_busyId := None\<rparr>, [])
           | _ \<Rightarrow> (v, [(Tq_List, Tk_ListThenFree)]))
      | Tk_ListThenFree \<Rightarrow> ((tv_listed r v)\<lparr>tv_busyId := None\<rparr>, []))"

definition KIND_LABEL :: "HostTransportKind \<Rightarrow> string" where
  "KIND_LABEL k =
     (case k of IN_PROCESS \<Rightarrow> ''In-process (default)'' | ISO8583_TCP \<Rightarrow> ''ISO 8583 over TCP''
      | ISO20022_HTTP \<Rightarrow> ''ISO 20022 XML over HTTP'')"

definition transport_lines :: "HostTransportConfigDto \<Rightarrow> string list" where
  "transport_lines t =
     (let live = dto_status t; dot = CHR '' '' # middle_dot @ '' ''
      in [hr_name (dto_row t) @ (if hr_isPrimary (dto_row t) then '' primary'' else []),
          KIND_LABEL (dto_kind t) @ dot
            @ (if dto_kind t = IN_PROCESS then em_dash else hr_bindAddress (dto_row t) @ CHR '':'' # js_itoa (hr_port (dto_row t)))
            @ dot @ ''switch='' @ switch_id_code (dto_switchProfile t)]
         @ (case hr_notes (dto_row t) of None \<Rightarrow> [] | Some n \<Rightarrow> if n = [] then [] else [n])
         @ [(if rs_listening live
             then ''listening'' @ dot @ js_int_to_string (rs_activeConnections live) @ '' active conn'' @ dot
               @ js_itoa (rs_totalRequests live) @ '' total reqs''
             else ''stopped'')
            @ (case rs_lastError live of None \<Rightarrow> [] | Some e \<Rightarrow> if e = [] then [] else ''last error: '' @ e)])"

section \<open>Bank themes\<close>

record themes_view =
  th_themes :: "BankTheme list"
  th_activeCode :: "string option"
  th_busy :: "string option"
  th_error :: "string option"

datatype theme_request = Xq_Themes | Xq_SetTheme string

datatype theme_reply = Xr_Themes "BankTheme list" BankTheme | Xr_Theme BankTheme | Xr_Error string

datatype theme_cont = Xk_Themes | Xk_Picked

definition th_pick :: "string \<Rightarrow> (themes_view, theme_request, theme_cont) segment" where
  "th_pick code v =
     (if code \<notin> bt_code ` set (th_themes v) \<or> th_busy v = Some code \<or> th_activeCode v = Some code then (v, [])
      else (v\<lparr>th_busy := Some code, th_error := None\<rparr>, [(Xq_SetTheme code, Xk_Picked)]))"

definition th_resume :: "theme_cont \<Rightarrow> theme_reply \<Rightarrow> (themes_view, theme_request, theme_cont) segment" where
  "th_resume k r v =
     (case (k, r) of
        (Xk_Themes, Xr_Themes ts a) \<Rightarrow> (v\<lparr>th_themes := ts, th_activeCode := Some (bt_code a)\<rparr>, [])
      | (Xk_Themes, Xr_Error e) \<Rightarrow> (v\<lparr>th_error := Some e\<rparr>, [])
      | (Xk_Picked, Xr_Theme t) \<Rightarrow> (v\<lparr>th_activeCode := Some (bt_code t), th_busy := None\<rparr>, [])
      | (Xk_Picked, Xr_Error e) \<Rightarrow> (v\<lparr>th_error := Some e, th_busy := None\<rparr>, [])
      | _ \<Rightarrow> (v, []))"

section \<open>Transactions\<close>

text \<open>A line of the list, without its time.\<close>

definition txn_line :: "TransactionRow \<Rightarrow> string list" where
  "txn_line t = [''****'' @ js_slice (tx_pan t) (- 4) (int (length (tx_pan t))), tx_txnType t,
     js_locale_id (tx_amount t) @ CHR '' '' # tx_currency t, tx_status t]"

section \<open>Dark and light\<close>

text \<open>The state of the hook and of the browser's storage; \<open>light\<close> is the preference of the system. An effect
  of the first render sets the mode from the storage, the other writes the mode of that render; a change
  of the mode is rendered afterwards and written again. In strict mode both effects run twice before.\<close>

datatype ThemeMode = Dark | Light

fun mode_name :: "ThemeMode \<Rightarrow> string" where
  "mode_name Dark = ''dark''"
| "mode_name Light = ''light''"

definition stored_mode :: "bool \<Rightarrow> string option \<Rightarrow> ThemeMode" where
  "stored_mode light stored =
     (if stored = Some ''dark'' then Dark else if stored = Some ''light'' then Light
      else if light then Light else Dark)"

definition mode_effects :: "bool \<Rightarrow> ThemeMode \<Rightarrow> ThemeMode \<times> string option \<Rightarrow> ThemeMode \<times> string option" where
  "mode_effects light shown ms = (stored_mode light (snd ms), Some (mode_name shown))"

definition mode_mount :: "bool \<Rightarrow> bool \<Rightarrow> string option \<Rightarrow> ThemeMode \<times> string option" where
  "mode_mount strict light stored =
     (let e = mode_effects light Dark; (m, st) = (if strict then e (e (Dark, stored)) else e (Dark, stored))
      in (m, if m \<noteq> Dark then Some (mode_name m) else st))"

definition mode_toggle :: "ThemeMode \<times> string option \<Rightarrow> ThemeMode \<times> string option" where
  "mode_toggle ms = (let m = (if fst ms = Dark then Light else Dark) in (m, Some (mode_name m)))"

text \<open>Out of strict mode the mode of the last visit comes back; in strict mode it is always dark.\<close>

lemma mode_kept: "mode_mount False light (Some (mode_name m)) = (m, Some (mode_name m))"
  by (cases m) (simp_all add: mode_mount_def mode_effects_def stored_mode_def)

lemma mode_lost_in_strict: "mode_mount True light stored = (Dark, Some ''dark'')"
  by (simp add: mode_mount_def mode_effects_def stored_mode_def)

section \<open>A refill\<close>

text \<open>The refill button of a listed cassette is never refused and fills it, and it also ends a jam.\<close>

lemma cassette_refill:
  assumes "u \<in> set (cassettes_list w)" "map_of (cdm_units (world_cdm w)) (cu_unitId u) = Some u" "0 < cu_maximum u"
    and "cu_minimum u < cu_maximum u"
  shows "fst (cassettes_replenish (cu_unitId u) (js_int (cu_maximum u)) w) = Inr (u\<lparr>cu_count := cu_maximum u, cu_status := CU_OK\<rparr>)"
  using assms(2-4)
  by (simp add: cassettes_replenish_def ReplenishDto_def cdm_replenishCassette_def cdm_level_status_def Let_def)

end
