(* ===== verification/Seed_Data.thy ===== *)
theory Seed_Data
  imports Suite_Runner Rest_Endpoints Utf8_Text
begin

text \<open>
  The seed script (\<^verbatim>\<open>prisma/seed.ts\<close>): it empties tables of the database and fills them with four accounts
  with a card each, the cash units, the themes, the hardware profiles and seven test macros. The
  identifiers the database generates and the salts of the PINs are functions of the number of the row.
  Of a row the columns that the modelled components read are kept. Characters beyond ASCII are written
  as the octets of their UTF-8 form.
\<close>

section \<open>Accounts and cards\<close>

record seed_env =
  sd_id :: "nat \<Rightarrow> string"
  sd_salt :: "nat \<Rightarrow> nat list"
  sd_sha :: digest

definition seed_account :: "string \<Rightarrow> int \<Rightarrow> int \<Rightarrow> AccountRow" where
  "seed_account i balance dailyLimit =
     \<lparr>ac_id = i, ac_balance = balance, ac_currency = ''IDR'', ac_dailyLimit = dailyLimit, ac_dailyWithdrawn = 0,
      ac_status = ''ACTIVE''\<rparr>"

definition happyAccount :: "string \<Rightarrow> AccountRow" where
  "happyAccount i = seed_account i 5750000 10000000"

definition lowAccount :: "string \<Rightarrow> AccountRow" where
  "lowAccount i = seed_account i 150000 5000000"

definition blockedAccount :: "string \<Rightarrow> AccountRow" where
  "blockedAccount i = seed_account i 2000000 5000000"

definition expiredAccount :: "string \<Rightarrow> AccountRow" where
  "expiredAccount i = seed_account i 3000000 5000000"

definition seed_card :: "seed_env \<Rightarrow> nat \<Rightarrow> string \<Rightarrow> string \<Rightarrow> string \<Rightarrow> string \<Rightarrow> string \<Rightarrow> string \<Rightarrow> CardRow" where
  "seed_card e n pan name expiry track1 track2 status =
     \<lparr>cd_pan = pan, cd_cardholderName = name, cd_expiryDate = expiry, cd_pin = hashPin (sd_sha e) (sd_salt e n) ''111111'',
      cd_track1 = track1, cd_track2 = track2, cd_issuer = ''ZEGEN'', cd_status = status, cd_failedPinCount = 0,
      cd_accountId = sd_id e n\<rparr>"

definition seed_cards :: "seed_env \<Rightarrow> CardRow list" where
  "seed_cards e =
     [seed_card e 0 ''4580123456787234'' ''BAJWA/TESTING'' ''2812''
        ''%B4580123456787234^BAJWA/TESTING^2812101100000000000000?'' '';4580123456787234=28121011000000000?'' ''ACTIVE'',
      seed_card e 1 ''4580111122223333'' ''TEST/LOW BAL'' ''2612''
        ''%B4580111122223333^TEST/LOW BAL^2612101100000000000000?'' '';4580111122223333=26121011000000000?'' ''ACTIVE'',
      seed_card e 2 ''4580555500001111'' ''BLOCKED/USER'' ''2712''
        ''%B4580555500001111^BLOCKED/USER^2712101100000000000000?'' '';4580555500001111=27121011000000000?'' ''BLOCKED'',
      seed_card e 3 ''4580444433332222'' ''EXPIRED/USER'' ''2001''
        ''%B4580444433332222^EXPIRED/USER^2001101100000000000000?'' '';4580444433332222=20011011000000000?'' ''EXPIRED'']"

definition seed_bank :: "seed_env \<Rightarrow> bank" where
  "seed_bank e =
     \<lparr>bk_cards = map_of (map (\<lambda>c. (cd_pan c, c)) (seed_cards e)),
      bk_accounts = [sd_id e 0 \<mapsto> happyAccount (sd_id e 0), sd_id e 1 \<mapsto> lowAccount (sd_id e 1),
        sd_id e 2 \<mapsto> blockedAccount (sd_id e 2), sd_id e 3 \<mapsto> expiredAccount (sd_id e 3)],
      bk_txns = []\<rparr>"

section \<open>Cash units and themes\<close>

definition seed_unit :: "string \<Rightarrow> int \<Rightarrow> int \<Rightarrow> int \<Rightarrow> int \<Rightarrow> CashUnit" where
  "seed_unit unitId denomination cnt maximum minimum =
     \<lparr>cu_unitId = unitId, cu_denomination = denomination, cu_currency = ''IDR'', cu_status = CU_OK, cu_count = cnt,
      cu_initialCount = cnt, cu_maximum = maximum, cu_minimum = minimum, cu_rejectCount = 0\<rparr>"

definition seed_units :: "CashUnit list" where
  "seed_units = [seed_unit ''CASS1'' 100000 500 2500 50, seed_unit ''CASS2'' 50000 1000 2500 100,
     seed_unit ''CASS3'' 20000 500 2500 50, seed_unit ''REJECT'' 0 0 300 0]"

definition seed_themes :: "BankTheme list" where
  "seed_themes =
     [\<lparr>bt_code = ''mandiri'', bt_name = ''Bank Mandiri'', bt_isDefault = True\<rparr>,
      \<lparr>bt_code = ''bsi'', bt_name = ''Bank Syariah Indonesia'', bt_isDefault = False\<rparr>,
      \<lparr>bt_code = ''btn'', bt_name = ''Bank BTN'', bt_isDefault = False\<rparr>,
      \<lparr>bt_code = ''bni'', bt_name = ''Bank BNI'', bt_isDefault = False\<rparr>,
      \<lparr>bt_code = ''bri'', bt_name = ''Bank BRI'', bt_isDefault = False\<rparr>,
      \<lparr>bt_code = ''bca'', bt_name = ''Bank BCA'', bt_isDefault = False\<rparr>,
      \<lparr>bt_code = ''zegen'', bt_name = ''Bank Zegen'', bt_isDefault = False\<rparr>]"

section \<open>Macros\<close>

definition seed_param :: "string \<Rightarrow> param_type \<Rightarrow> param_value \<Rightarrow> string option \<Rightarrow> MacroParameter" where
  "seed_param name ty v label = \<lparr>mp_name = name, mp_type = ty, mp_value = v, mp_displayLabel = label\<rparr>"

definition seed_step :: "string \<Rightarrow> int \<Rightarrow> MacroStepKind \<Rightarrow> MacroDevice \<Rightarrow> string \<Rightarrow> MacroParameter list \<Rightarrow> bool \<Rightarrow> MacroStep" where
  "seed_step i n kind dev oper ps en =
     \<lparr>st_id = i, st_order = n, st_kind = kind, st_device = dev, st_operation = oper, st_parameters = ps, st_enabled = en,
      st_notes = None, st_timeoutMs = None\<rparr>"

definition seed_withdrawal :: "string \<Rightarrow> Macro" where
  "seed_withdrawal i = \<lparr>mc_id = i, mc_name = ''Happy-path withdrawal (300,000)'',
     mc_folder = Some (''Withdrawals''),
     mc_description = Some (''Insert Mandiri card 4580'' @ ellipsis @ ''7234, enter PIN 111111, select WITHDRAWAL, withdraw Rp 300.000, confirm.''),
     mc_tags = [''smoke'', ''withdrawal'', ''demo''],
     mc_steps =
      [seed_step ''s1'' 1 ACTION Dev_Card ''Select'' [seed_param ''pan'' Ty_string (Pv_str ''4580123456787234'') (Some ''Mandiri Only Tracks'')] True,
       seed_step ''s2'' 2 CHECKPOINT Dev_Card ''Checkpoint(Insert)'' [] False,
       seed_step ''s3'' 3 ACTION Dev_Card ''Insert'' [] True,
       seed_step ''s4'' 4 CHECKPOINT Dev_Card ''Checkpoint(ReadTracks-1-2-3)'' [] True,
       seed_step ''s5'' 5 ACTION Dev_PinPad ''EnterPin'' [seed_param ''pin'' Ty_variable (Pv_str ''Card.pin'') (Some ''111111'')] True,
       seed_step ''s6'' 6 ACTION Dev_System ''SelectTransaction'' [seed_param ''txnType'' Ty_string (Pv_str ''WITHDRAWAL'') None] True,
       seed_step ''s7'' 7 ACTION Dev_System ''SubmitAmount'' [seed_param ''amount'' Ty_number (Pv_num (js_int 300000)) None] True,
       seed_step ''s8'' 8 ACTION Dev_System ''Confirm'' [] True,
       seed_step ''s9'' 9 CHECKPOINT Dev_Receipt ''Checkpoint(Printed)'' [] True],
     mc_variables = []\<rparr>"

definition seed_balance :: "string \<Rightarrow> Macro" where
  "seed_balance i = \<lparr>mc_id = i, mc_name = ''Cek Saldo (balance inquiry)'',
     mc_folder = Some (''Inquiries''),
     mc_description = Some (''Insert HAPPY card 4580'' @ ellipsis @ ''7234, enter PIN 111111, select BALANCE. Validates the no-dispense flow: PIN '' @ right_arrow @ '' host auth '' @ right_arrow @ '' balance shown '' @ right_arrow @ '' eject card.''),
     mc_tags = [''balance'', ''positive'', ''smoke''],
     mc_steps =
      [seed_step ''b1'' 1 ACTION Dev_Card ''Select'' [seed_param ''pan'' Ty_string (Pv_str ''4580123456787234'') None] True,
       seed_step ''b2'' 2 ACTION Dev_Card ''Insert'' [] True,
       seed_step ''b3'' 3 ACTION Dev_PinPad ''EnterPin'' [seed_param ''pin'' Ty_variable (Pv_str ''Card.pin'') None] True,
       seed_step ''b4'' 4 ACTION Dev_System ''SelectTransaction'' [seed_param ''txnType'' Ty_string (Pv_str ''BALANCE'') None] True],
     mc_variables = []\<rparr>"

definition seed_insufficient :: "string \<Rightarrow> Macro" where
  "seed_insufficient i = \<lparr>mc_id = i, mc_name = ''Insufficient funds (decline path)'',
     mc_folder = Some (''Negative scenarios''),
     mc_description = Some (''Insert LOW BAL card 4580'' @ ellipsis @ ''3333 (Rp 150k balance), attempt withdrawal of Rp 1.000.000. Validates decline path: host returns code 51, no debit, customer sees error screen.''),
     mc_tags = [''negative'', ''withdrawal'', ''insufficient-funds''],
     mc_steps =
      [seed_step ''i1'' 1 ACTION Dev_Card ''Select'' [seed_param ''pan'' Ty_string (Pv_str ''4580111122223333'') None] True,
       seed_step ''i2'' 2 ACTION Dev_Card ''Insert'' [] True,
       seed_step ''i3'' 3 ACTION Dev_PinPad ''EnterPin'' [seed_param ''pin'' Ty_variable (Pv_str ''Card.pin'') None] True,
       seed_step ''i4'' 4 ACTION Dev_System ''SelectTransaction'' [seed_param ''txnType'' Ty_string (Pv_str ''WITHDRAWAL'') None] True,
       seed_step ''i5'' 5 ACTION Dev_System ''SubmitAmount'' [seed_param ''amount'' Ty_number (Pv_num (js_int 1000000)) None] True,
       seed_step ''i6'' 6 ACTION Dev_System ''Confirm'' [] True,
       seed_step ''i7'' 7 WAIT Dev_System ''Wait'' [seed_param ''ms'' Ty_number (Pv_num (js_int 1000)) None] True,
       seed_step ''i8'' 8 CHECKPOINT Dev_System ''Checkpoint(SessionState)'' [seed_param ''expected'' Ty_string (Pv_str ''ENDED'') None] True],
     mc_variables = []\<rparr>"

definition seed_reversal :: "string \<Rightarrow> Macro" where
  "seed_reversal i = \<lparr>mc_id = i, mc_name = ''CDM dispense fault '' @ right_arrow @ '' host reversal'',
     mc_folder = Some (''Negative scenarios''),
     mc_description = Some (''Inject a one-shot CDM hardware error then drive a withdrawal. The host approves, the CDM throws on dispense, and the host emulator reverses. The transaction must end as REVERSED with the customer not debited. Critical Jalin acceptance test.''),
     mc_tags = [''negative'', ''cdm-error'', ''reversal'', ''critical''],
     mc_steps =
      [seed_step ''c1'' 1 ACTION Dev_Card ''Select'' [seed_param ''pan'' Ty_string (Pv_str ''4580123456787234'') None] True,
       seed_step ''c2'' 2 ACTION Dev_Card ''Insert'' [] True,
       seed_step ''c3'' 3 ACTION Dev_PinPad ''EnterPin'' [seed_param ''pin'' Ty_variable (Pv_str ''Card.pin'') None] True,
       seed_step ''c4'' 4 ACTION Dev_System ''SelectTransaction'' [seed_param ''txnType'' Ty_string (Pv_str ''WITHDRAWAL'') None] True,
       seed_step ''c5'' 5 ACTION Dev_System ''SubmitAmount'' [seed_param ''amount'' Ty_number (Pv_num (js_int 200000)) None] True,
       seed_step ''c6'' 6 ACTION Dev_System ''InjectError'' [seed_param ''device'' Ty_string (Pv_str ''CDM'') None, seed_param ''errorCode'' Ty_number (Pv_num (js_int (- 3))) None] True,
       seed_step ''c7'' 7 ACTION Dev_System ''Confirm'' [] True,
       seed_step ''c8'' 8 WAIT Dev_System ''Wait'' [seed_param ''ms'' Ty_number (Pv_num (js_int 1500)) None] True,
       seed_step ''c9'' 9 CHECKPOINT Dev_System ''Checkpoint(LastTransaction)'' [seed_param ''status'' Ty_string (Pv_str ''REVERSED'') None] True],
     mc_variables = []\<rparr>"

definition seed_blocked :: "string \<Rightarrow> Macro" where
  "seed_blocked i = \<lparr>mc_id = i, mc_name = ''Blocked card rejected'',
     mc_folder = Some (''Negative scenarios''),
     mc_description = Some (''Insert BLOCKED card 4580'' @ ellipsis @ ''1111. Authentication must fail with response code 62 (CARD_BLOCKED) before PIN is even prompted. Card is not retained '' @ em_dash @ '' just rejected.''),
     mc_tags = [''negative'', ''blocked-card'', ''auth''],
     mc_steps =
      [seed_step ''k1'' 1 ACTION Dev_Card ''Select'' [seed_param ''pan'' Ty_string (Pv_str ''4580555500001111'') None] True,
       seed_step ''k2'' 2 ACTION Dev_Card ''Insert'' [] True,
       seed_step ''k3'' 3 WAIT Dev_System ''Wait'' [seed_param ''ms'' Ty_number (Pv_num (js_int 800)) None] True],
     mc_variables = []\<rparr>"

definition seed_expired :: "string \<Rightarrow> Macro" where
  "seed_expired i = \<lparr>mc_id = i, mc_name = ''Expired card rejected'',
     mc_folder = Some (''Negative scenarios''),
     mc_description = Some (''Insert EXPIRED card 4580'' @ ellipsis @ ''2222 (expiry 2001). Authentication must fail with response code 54 (EXPIRED_CARD).''),
     mc_tags = [''negative'', ''expired-card'', ''auth''],
     mc_steps =
      [seed_step ''e1'' 1 ACTION Dev_Card ''Select'' [seed_param ''pan'' Ty_string (Pv_str ''4580444433332222'') None] True,
       seed_step ''e2'' 2 ACTION Dev_Card ''Insert'' [] True,
       seed_step ''e3'' 3 WAIT Dev_System ''Wait'' [seed_param ''ms'' Ty_number (Pv_num (js_int 800)) None] True],
     mc_variables = []\<rparr>"

definition seed_maximum :: "string \<Rightarrow> Macro" where
  "seed_maximum i = \<lparr>mc_id = i, mc_name = ''Maximum withdrawal (2,000,000)'',
     mc_folder = Some (''Withdrawals''),
     mc_description = Some (''Withdraw Rp 2.000.000 from HAPPY card. Verifies the largest preset amount works end-to-end (within Jalin per-transaction cap of Rp 5.000.000 and account balance).''),
     mc_tags = [''positive'', ''withdrawal'', ''limit''],
     mc_steps =
      [seed_step ''m1'' 1 ACTION Dev_Card ''Select'' [seed_param ''pan'' Ty_string (Pv_str ''4580123456787234'') None] True,
       seed_step ''m2'' 2 ACTION Dev_Card ''Insert'' [] True,
       seed_step ''m3'' 3 ACTION Dev_PinPad ''EnterPin'' [seed_param ''pin'' Ty_variable (Pv_str ''Card.pin'') None] True,
       seed_step ''m4'' 4 ACTION Dev_System ''SelectTransaction'' [seed_param ''txnType'' Ty_string (Pv_str ''WITHDRAWAL'') None] True,
       seed_step ''m5'' 5 ACTION Dev_System ''SubmitAmount'' [seed_param ''amount'' Ty_number (Pv_num (js_int 2000000)) None] True,
       seed_step ''m6'' 6 ACTION Dev_System ''Confirm'' [] True,
       seed_step ''m7'' 7 CHECKPOINT Dev_Receipt ''Checkpoint(Printed)'' [] True,
       seed_step ''m8'' 8 CHECKPOINT Dev_System ''Checkpoint(LastTransaction)'' [seed_param ''status'' Ty_string (Pv_str ''COMPLETED'') None] True],
     mc_variables = []\<rparr>"

definition seed_macros :: "seed_env \<Rightarrow> Macro list" where
  "seed_macros e =
     [seed_withdrawal (sd_id e 4), seed_balance (sd_id e 5), seed_insufficient (sd_id e 6), seed_reversal (sd_id e 7),
      seed_blocked (sd_id e 8), seed_expired (sd_id e 9), seed_maximum (sd_id e 10)]"

section \<open>The script\<close>

record tables =
  tb_bank :: bank
  tb_sessions :: "SessionRow list"
  tb_units :: "CashUnit list"
  tb_themes :: "BankTheme list"
  tb_macros :: "Macro list"
  tb_runs :: "MacroRun list"
  tb_suites :: "MacroSuite list"
  tb_suiteRuns :: "MacroSuiteRun list"

text \<open>The tables that the script does not name keep their rows.\<close>

definition seed_wipe :: "tables \<Rightarrow> tables" where
  "seed_wipe t = t\<lparr>tb_bank := \<lparr>bk_cards = Map.empty, bk_accounts = Map.empty, bk_txns = []\<rparr>, tb_sessions := [],
     tb_units := [], tb_themes := [], tb_macros := [], tb_runs := []\<rparr>"

definition seed_main :: "seed_env \<Rightarrow> tables \<Rightarrow> tables" where
  "seed_main e t = (seed_wipe t)\<lparr>tb_bank := seed_bank e, tb_units := seed_units, tb_themes := seed_themes,
     tb_macros := seed_macros e\<rparr>"

end
