(* ===== verification/Seed_Props.thy ===== *)
theory Seed_Props
  imports Seed_Data Suite_Props
begin

text \<open>
  What the seed script leaves behind: a re-seed takes the macros of the stored suites away, and the two
  seeded macros that are to show the rejection of a card pass whether or not the host rejects it.
\<close>

section \<open>The rows\<close>

text \<open>The seeded units are the ones the dispenser starts with, one theme is the default, and the steps of
  the macros are numbered in the order they are written in.\<close>

lemma seed_rows:
  "map cu_unitId seed_units = map cu_unitId cdm_default_units" "seed_units = cdm_default_units"
  "length (filter bt_isDefault seed_themes) = 1" "distinct (map bt_code seed_themes)"
  by (simp_all add: seed_units_def seed_unit_def cdm_default_units_def seed_themes_def)

lemmas seed_macro_defs =
  seed_withdrawal_def seed_balance_def seed_insufficient_def seed_reversal_def seed_blocked_def seed_expired_def
  seed_maximum_def

lemma seed_macro_ids [simp]:
  "map mc_id (seed_macros e) = map (sd_id e) [4, 5, 6, 7, 8, 9, 10]"
  by (simp add: seed_macros_def seed_macro_defs)

lemma seed_steps_ordered: "list_all (\<lambda>m. sorted (map st_order (mc_steps m))) (seed_macros e)"
  by (simp add: seed_macros_def seed_macro_defs seed_step_def)

lemma seed_pin_verifies:
  "c \<in> set (seed_cards e) \<Longrightarrow> \<exists>n. cd_pin c = hashPin (sd_sha e) (sd_salt e n) ''111111''"
  by (auto simp: seed_cards_def seed_card_def)

section \<open>Suites after a re-seed\<close>

lemma find_macro_None: "i \<notin> mc_id ` set ms \<Longrightarrow> find_macro i ms = None"
  by (auto simp: find_macro_def find_None_iff)

lemma suite_loop_missing:
  assumes "\<forall>i\<in>set mids. find_macro i (ru_macros q) = None" and "atm_sane (ru_world q)"
    and "\<forall>n w. atm_sane w \<longrightarrow> atm_sane (te_before (envs n) w)"
  shows "\<exists>w'. atm_sane w' \<and> suite_loop ops envs n sid mids overall entries q
    = (Suite_Done (if mids = [] then overall else R_FAILED) (entries @ map not_run mids), q\<lparr>ru_world := w'\<rparr>)"
  using assms(1,2)
proof (induction mids arbitrary: n overall entries q)
  case Nil
  then show ?case by (intro exI [of _ "ru_world q"]) simp
next
  case (Cons i mids)
  have "atm_sane (te_before (envs n) (ru_world q))" using assms(3) Cons.prems(2) by blast
  then obtain w1 where w1: "safeCancel ops (te_cancel (envs n)) (te_before (envs n) (ru_world q)) = Some w1" "atm_sane w1"
    using safeCancel_result [of "te_before (envs n) (ru_world q)" ops "te_cancel (envs n)"] by metis
  let ?q = "q\<lparr>ru_world := w1\<rparr>"
  have T: "suite_turn ops (envs n) sid i q = (Some (not_run i), ?q)"
    using Cons.prems(1) w1(1) by (simp add: suite_turn_def mx_run_def)
  obtain w' where "atm_sane w'" and L: "suite_loop ops envs (Suc n) sid mids R_FAILED (entries @ [not_run i]) ?q
      = (Suite_Done (if mids = [] then R_FAILED else R_FAILED) ((entries @ [not_run i]) @ map not_run mids), ?q\<lparr>ru_world := w'\<rparr>)"
    using Cons.IH [of ?q "Suc n" R_FAILED "entries @ [not_run i]"] Cons.prems(1) w1(2) by auto
  moreover have "smr_status (not_run i) = R_FAILED" by (simp add: not_run_def)
  ultimately show ?case using T by (intro exI [of _ w']) simp
qed

text \<open>The state of the suites over the tables.\<close>

definition suites_over :: "tables \<Rightarrow> 'db world \<Rightarrow> 'db suite_state" where
  "suites_over t w = \<lparr>ste_suites = tb_suites t, ste_runs = tb_suiteRuns t,
     ste_runner = \<lparr>ru_macros = tb_macros t, ru_runs = tb_runs t, ru_world = w\<rparr>\<rparr>"

text \<open>C35: after a re-seed every stored suite that names a macro fails without running a single step: the
  script deletes the macros and creates new ones under new identifiers, but keeps the suites, which name
  the old ones. Whatever happens to the ATM between the turns, as long as its services stay registered;
  a suite that names no macro passes.\<close>

theorem seed_strands_suites:
  assumes "find_suite i (tb_suites t) = Some suite"
    and "\<forall>j\<in>set (su_macroIds suite). j \<notin> range (sd_id e)"
    and "atm_sane w" and "\<forall>n w. atm_sane w \<longrightarrow> atm_sane (te_before (envs n) w)"
    and "sue_up0 se" and "sue_up1 se"
  shows "\<exists>x s'. suite_run ops se envs i trig (suites_over (seed_main e t) w) = (Suite_Returns x, s')
    \<and> sum_status x = (if su_macroIds suite = [] then R_PASSED else R_FAILED)
    \<and> sum_macroRuns x = map not_run (su_macroIds suite) \<and> ru_runs (ste_runner s') = []"
proof -
  let ?q = "ste_runner (suites_over (seed_main e t) w)"
  have kept: "tb_suites (seed_main e t) = tb_suites t" "tb_macros (seed_main e t) = seed_macros e" "tb_runs (seed_main e t) = []"
    by (simp_all add: seed_main_def seed_wipe_def)
  have "mc_id ` set (seed_macros e) \<subseteq> range (sd_id e)"
    by (simp only: set_map [symmetric] seed_macro_ids) auto
  then have "\<forall>j\<in>set (su_macroIds suite). find_macro j (ru_macros ?q) = None"
    using assms(2) kept(2) by (auto simp: suites_over_def intro!: find_macro_None)
  moreover have "atm_sane (ru_world ?q)" using assms(3) by (simp add: suites_over_def)
  ultimately obtain w' where w': "atm_sane w'" "suite_loop ops envs 0 (sue_id se) (su_macroIds suite) R_PASSED [] ?q
      = (Suite_Done (if su_macroIds suite = [] then R_PASSED else R_FAILED) (map not_run (su_macroIds suite)), ?q\<lparr>ru_world := w'\<rparr>)"
    using suite_loop_missing [of "su_macroIds suite" ?q envs ops 0 "sue_id se" R_PASSED "[]"] assms(4) by auto
  obtain w2 where "safeCancel ops (sue_cancel se) w' = Some w2"
    using safeCancel_result [OF w'(1), of ops "sue_cancel se"] by metis
  then show ?thesis
    using assms(1,5,6) kept w'(2) by (simp add: suite_run_def suites_over_def Let_def)
qed

section \<open>Inserting a card\<close>

text \<open>What a handler that is about to end a session still awaits, when the rows can be written: it comes
  back with the reply \<open>rp\<close>.\<close>

lemma drive_endSession_reply:
  assumes "w_ok w" "ae_rowsUp env" "session_stored w"
  shows "\<exists>w'. atm_drive ops env (Suc n) (atm_endSession env reason rp w) = (w', Some (Inr rp))"
proof (cases "w_session w")
  case None
  then show ?thesis by (simp add: atm_endSession_def)
next
  case (Some r)
  have "r < length (w_sessions w)" "ss_id (w_sessions w ! r) \<in> sr_id ` set (w_rows w)"
    using assms(1,3) Some by (simp_all add: w_ok_def session_stored_def atm_cur_def)
  then show ?thesis
    using Some assms(2) by (simp add: atm_endSession_def Let_def atm_upd_def session_row_def atm_ended_segment_def)
qed

lemma drive_safeEject_reply:
  assumes "w_ok w" "ae_rowsUp env" "session_stored w" "xm_registered (w_xfs w)"
  shows "\<exists>w'. atm_drive ops env (Suc (Suc n)) (atm_safeEject_end env reason rp w) = (w', Some (Inr rp))"
proof (cases "idc_hasCard (dv_idc (xm_devices (w_xfs w)))")
  case False
  then show ?thesis using drive_endSession_reply [OF assms(1-3)] by (simp add: atm_safeEject_end_def)
next
  case True
  let ?c = "atm_eject_command env (atm_cur_id w)"
  have h: "cmd_hService ?c = ''IDC30''" by (simp add: atm_eject_command_def atm_command_def)
  obtain rsp m outs where X: "xm_execute (ae_xfs env) ?c (w_xfs w) = ([(?c, rsp)], m, outs)"
    using xm_execute_quiet(1) [of "w_xfs w" ?c "ae_xfs env"] assms(4) h by (metis fst_conv prod_cases3)
  define w2 where "w2 = w\<lparr>w_xfs := m, w_bus := w_bus w @ atm_bus_outputs outs\<rparr>"
  have w2: "w_ok w2" "session_stored w2"
    using assms by (simp_all add: w2_def w_ok_def session_stored_def atm_cur_def)
  have "atm_drive ops env (Suc (Suc n)) (atm_safeEject_end env reason rp w)
      = atm_drive ops env (Suc n) (atm_endSession env reason rp w2)"
    using True X by (simp add: atm_safeEject_end_def w2_def)
  then show ?thesis using drive_endSession_reply [OF w2(1) assms(2) w2(2), of ops n] by simp
qed

lemma drive_markError_reply:
  assumes "w_ok w" "ae_rowsUp env" "session_stored w" "xm_registered (w_xfs w)"
  shows "\<exists>w'. atm_drive ops env (Suc (Suc n)) (atm_markError env msg rp w) = (w', Some (Inr rp))"
proof (cases "w_session w")
  case None
  then show ?thesis by (simp add: atm_markError_def)
next
  case (Some r)
  let ?w = "atm_transitionTo env ATM_ERROR (atm_upd r (\<lambda>s. s\<lparr>ss_errorMessage := Some msg\<rparr>) w)"
  have c: "atm_cur (atm_upd r f w) = map_option f (atm_cur w)" for f
    using Some assms(1) by (simp add: atm_cur_def atm_upd_def w_ok_def)
  have "w_ok ?w" "session_stored ?w" "xm_registered (w_xfs ?w)"
    using assms by (auto simp: session_stored_def c)
  from drive_safeEject_reply [OF this(1) assms(2) this(2,3)] show ?thesis
    by (simp add: atm_markError_def Some)
qed

text \<open>Bookkeeping shared by the segments of the insertion.\<close>

definition insert_ready :: "atm_env \<Rightarrow> 'db world \<Rightarrow> bool" where
  "insert_ready env w \<longleftrightarrow> w_ok w \<and> ae_rowsUp env \<and> session_stored w \<and> xm_registered (w_xfs w)"

lemma drive_auth_reply:
  assumes "insert_ready env w" "w_ok w"
  shows "\<exists>w'. atm_drive ops env (Suc (Suc n)) (atm_auth_segment env r au w) = (w', Some (Inr (Rp_Session r)))"
  using assms drive_markError_reply [of w env] by (simp add: atm_auth_segment_def insert_ready_def)

lemma drive_read_reply:
  assumes "insert_ready env w" "host_authenticate ops (ae_host env) pan (w_host w) = Inr au"
  shows "\<exists>w'. atm_drive ops env (Suc (Suc (Suc n))) (atm_read_segment env r pan rsp w) = (w', Some (Inr (Rp_Session r)))"
proof (cases "rsp_result rsp = xfs_result_code SUCCESS")
  case True
  then show ?thesis
    using assms drive_auth_reply [of env w ops n r au] by (simp add: atm_read_segment_def insert_ready_def)
next
  case False
  then show ?thesis
    using assms drive_markError_reply [of w env ops "Suc n"] by (simp add: atm_read_segment_def insert_ready_def)
qed

lemma drive_insert_reply:
  assumes "insert_ready env w" "host_authenticate ops (ae_host env) pan (w_host w) = Inr au"
  shows "\<exists>w'. atm_drive ops env (Suc (Suc (Suc (Suc n)))) (atm_insert_segment env r pan crd w) = (w', Some (Inr (Rp_Session r)))"
proof -
  let ?w1 = "atm_notifyState IDLE (atm_emitUserAction env (UA_CARD_INSERT pan) (Some (ss_id (w_sessions w ! r))) w)"
  obtain ok d outs where I: "idc_insertCard crd (dv_idc (xm_devices (w_xfs ?w1))) = (ok, d, outs)" by (metis prod_cases3)
  define w2 where "w2 = ?w1\<lparr>w_xfs := (w_xfs ?w1)\<lparr>xm_devices := (xm_devices (w_xfs ?w1))\<lparr>dv_idc := d\<rparr>\<rparr>,
    w_bus := w_bus ?w1 @ atm_bus_outputs outs\<rparr>"
  have "w_sessions w2 = w_sessions w" "w_session w2 = w_session w" "w_rows w2 = w_rows w" "w_host w2 = w_host w"
    "xm_services (w_xfs w2) = xm_services (w_xfs w)" by (simp_all add: w2_def)
  with assms(1) have w2: "insert_ready env w2" "w_host w2 = w_host w"
    by (simp_all add: insert_ready_def w_ok_def session_stored_def atm_cur_def xm_registered_def)
  have seg: "atm_insert_segment env r pan crd w
      = (if \<not> ok then atm_markError env ''insert rejected: card already in reader'' (Rp_Session r) w2
         else (w2, Await (C_Xfs (atm_command env ''IDC30'' IDC (idc_cmd_code IDC_READ_TRACK) 5000
                            xfs_no_payload (Some (ss_id (w_sessions w ! r))))) (K_InsertedRead r pan)))"
    by (simp only: atm_insert_segment_def Let_def I prod.case w2_def)
  show ?thesis
  proof (cases ok)
    case False
    then show ?thesis
      using drive_markError_reply [of w2 env ops "Suc (Suc n)"] w2(1) by (simp add: seg insert_ready_def)
  next
    case True
    let ?c = "atm_command env ''IDC30'' IDC (idc_cmd_code IDC_READ_TRACK) 5000 xfs_no_payload (Some (ss_id (w_sessions w ! r)))"
    have h: "cmd_hService ?c = ''IDC30''" by (simp add: atm_command_def)
    obtain rsp m outs' where X: "xm_execute (ae_xfs env) ?c (w_xfs w2) = ([(?c, rsp)], m, outs')"
      using xm_execute_quiet(1) [of "w_xfs w2" ?c "ae_xfs env"] w2(1) h
      by (auto simp: insert_ready_def) (metis fst_conv prod_cases3)
    have "xm_registered m" using X xm_execute_registered [of "ae_xfs env" ?c "w_xfs w2"] w2(1) by (simp add: insert_ready_def)
    then have "insert_ready env (w2\<lparr>w_xfs := m, w_bus := w_bus w2 @ atm_bus_outputs outs'\<rparr>)"
      using w2(1) by (simp add: insert_ready_def w_ok_def session_stored_def atm_cur_def)
    from drive_read_reply [OF this, of ops pan au n r rsp] assms(2) w2(2) show ?thesis
      using True X by (simp add: seg)
  qed
qed

text \<open>An insertion into an idle ATM comes back, whatever the host decides about the card.\<close>

lemma insertion_comes_back:
  assumes "w_session w = None" "ae_rowsUp env" "xm_registered (w_xfs w)"
    and "host_authenticate ops (ae_host env) pan (w_host w) = Inr au"
  shows "\<exists>w' rp. atm_drive ops env 7 (atm_start env (In_InsertCard pan crd) w) = (w', Some (Inr rp))"
proof -
  let ?s = "atm_new_session env pan" and ?r = "length (w_sessions w)"
  let ?row = "\<lparr>sr_id = ss_id ?s, sr_state = ss_state ?s, sr_pan = Some pan, sr_endedAt = None, sr_endReason = None,
    sr_accountId = None\<rparr>"
  define w1 where "w1 = w\<lparr>w_sessions := w_sessions w @ [?s], w_session := Some ?r, w_rows := w_rows w @ [?row]\<rparr>"
  have "insert_ready env w1"
    using assms(2,3) by (simp add: insert_ready_def w1_def w_ok_def session_stored_def atm_cur_def)
  moreover have "atm_drive ops env 7 (atm_start env (In_InsertCard pan crd) w)
      = atm_drive ops env 6 (atm_insert_segment env ?r pan crd w1)"
    using assms(1,2) by (simp add: atm_onCardInserted_def eval_nat_numeral w1_def Let_def)
  ultimately show ?thesis
    using drive_insert_reply [of env w1 ops pan au 2 ?r crd] assms(4) by (auto simp: w1_def eval_nat_numeral)
qed

lemma authenticate_found:
  "db_findCard ops pan (h_db h) = Inr r \<Longrightarrow> \<exists>au. host_authenticate ops env pan h = Inr au"
  by (simp add: host_authenticate_def)

section \<open>The seeded rejections\<close>

definition rejection_macro :: "Macro \<Rightarrow> string \<Rightarrow> bool" where
  "rejection_macro m pan \<longleftrightarrow> (\<exists>i. m = seed_blocked i \<and> pan = ''4580555500001111'' \<or> m = seed_expired i \<and> pan = ''4580444433332222'')"

text \<open>The steps of both macros: the card is selected and inserted, and some time passes.\<close>

lemma rejection_steps:
  assumes "rejection_macro m pan"
  obtains a b c where "macro_steps m = [a, b, c]"
    and "st_kind a = ACTION \<and> st_device a = Dev_Card \<and> st_operation a = ''Select''"
    and "paramMap (st_parameters a) = [(''pan'', Pv_str pan)]"
    and "st_kind b = ACTION \<and> st_device b = Dev_Card \<and> st_operation b = ''Insert''"
    and "st_kind c = WAIT \<and> st_device c = Dev_System \<and> st_operation c = ''Wait''"
  using assms
  by (auto simp: rejection_macro_def seed_blocked_def seed_expired_def seed_step_def seed_param_def macro_steps_def
      sort_steps_def paramMap_def)

lemma select_found:
  assumes "st_kind a = ACTION \<and> st_device a = Dev_Card \<and> st_operation a = ''Select''"
    and "paramMap (st_parameters a) = [(''pan'', Pv_str pan)]" and "pan \<noteq> []"
    and "db_findCard ops pan (h_db (w_host w)) = Inr (Some (c, acc))" and "cd_pan c = pan"
  shows "\<exists>ctx' msg. mx_executeStep ops e a (ctx, w) = (Step_Ok msg, ctx', w) \<and> cx_selectedPan ctx' = Some pan"
  using assms by (simp add: mx_executeStep_def mx_card_def mx_Select_def param_text_def)

lemma insert_found:
  assumes "st_kind b = ACTION \<and> st_device b = Dev_Card \<and> st_operation b = ''Insert''"
    and "cx_selectedPan ctx = Some pan" and "pan \<noteq> []"
    and "db_findCard ops pan (h_db (w_host w)) = Inr (Some (c, acc))" and "cd_pan c = pan"
    and "w_session w = None" "ae_rowsUp (se_atm e)" "xm_registered (w_xfs w)"
  shows "\<exists>msg w'. mx_executeStep ops e b (ctx, w) = (Step_Ok msg, ctx, w')"
proof -
  obtain au where "host_authenticate ops (ae_host (se_atm e)) pan (w_host w) = Inr au"
    using authenticate_found [OF assms(4)] by blast
  then obtain w' rp where "atm_drive ops (se_atm e) 7 (atm_start (se_atm e) (In_InsertCard pan (card_of_row c)) w) = (w', Some (Inr rp))"
    using insertion_comes_back [OF assms(6,7,8)] by blast
  then show ?thesis
    using assms by (simp add: mx_executeStep_def mx_card_def mx_Insert_def mx_handler_def mx_await_def
        del: atm_start.simps atm_drive.simps)
qed

text \<open>C34: the seeded macros "Blocked card rejected" and "Expired card rejected" pass on an idle ATM whatever
  the host decides about the card, also when it accepts it: they only check that the card exists and that
  the insertion comes back.\<close>

theorem seed_rejections_unchecked:
  assumes "find_macro i (ru_macros q) = Some m" and "rejection_macro m pan"
    and "db_findCard ops pan (h_db (w_host (ru_world q))) = Inr (Some (c, acc))" and "cd_pan c = pan"
    and "w_session (ru_world q) = None" and "xm_registered (w_xfs (ru_world q))"
    and "re_up0 re" and "re_up1 re"
    and "\<forall>n. se_runsUp (envs n) \<and> ae_rowsUp (se_atm (envs n)) \<and> se_before (envs n) = id"
  shows "\<exists>row q'. mx_run ops re envs i q = (Run_Returns row, q') \<and> run_status row = R_PASSED"
proof -
  obtain a b d where M: "macro_steps m = [a, b, d]"
    and a: "st_kind a = ACTION \<and> st_device a = Dev_Card \<and> st_operation a = ''Select''"
      "paramMap (st_parameters a) = [(''pan'', Pv_str pan)]"
    and b: "st_kind b = ACTION \<and> st_device b = Dev_Card \<and> st_operation b = ''Insert''"
    and d: "st_kind d = WAIT \<and> st_device d = Dev_System \<and> st_operation d = ''Wait''"
    using assms(2) by (rule rejection_steps)
  have pan: "pan \<noteq> []" using assms(2) by (auto simp: rejection_macro_def)
  let ?w = "ru_world q" and ?ctx = "\<lparr>cx_selectedPan = None, cx_selectedCardPin = None, cx_variables = mc_variables m\<rparr>"
  obtain ctx1 m1 where 1: "mx_executeStep ops (envs 0) a (?ctx, ?w) = (Step_Ok m1, ctx1, ?w)" "cx_selectedPan ctx1 = Some pan"
    using select_found [OF a pan assms(3,4)] by blast
  obtain m2 w2 where 2: "mx_executeStep ops (envs 1) b (ctx1, ?w) = (Step_Ok m2, ctx1, w2)"
    using insert_found [OF b 1(2) pan assms(3-5)] assms(6,9) by blast
  obtain m3 where 3: "mx_executeStep ops (envs 2) d (ctx1, w2) = (Step_Ok m3, ctx1, w2)"
    using d by (simp add: mx_executeStep_def mx_system_def Let_def)
  have L: "\<exists>res rs' w'. mx_loop ops envs 0 rid (macro_steps m) [] (rs, ?ctx, ?w) = (Loop_Done R_PASSED res, rs', w')" for rid rs
    using 1(1) 2 3 assms(9) by (simp add: M Let_def eval_nat_numeral)
  obtain res rs' w' where "mx_loop ops envs 0 (re_id re) (macro_steps m) [] (ru_runs q @ [\<lparr>run_id = re_id re, run_macroId = i,
      run_status = R_RUNNING, run_currentStep = None, run_stepResults = [], run_startedAt = re_start re, run_completedAt = None,
      run_durationMs = None, run_suiteRunId = None\<rparr>], ?ctx, ?w) = (Loop_Done R_PASSED res, rs', w')"
    using L by blast
  then show ?thesis
    using assms(1,7,8) by (simp add: mx_run_def Let_def)
qed

section \<open>Witnesses\<close>

definition sd_env :: seed_env where
  "sd_env = \<lparr>sd_id = (\<lambda>n. replicate (Suc n) (CHR ''c'')), sd_salt = (\<lambda>n. [n]), sd_sha = he_sha256 hs_env\<rparr>"

text \<open>A database that was seeded before and to which a suite was added.\<close>

definition sd_tables :: tables where
  "sd_tables = \<lparr>tb_bank = seed_bank sd_env, tb_sessions = [], tb_units = seed_units, tb_themes = seed_themes,
     tb_macros = [(seed_balance ''M9'')], tb_runs = [], tb_suites = [su_suite ''0 6 * * *''], tb_suiteRuns = []\<rparr>"

lemma seed_strands_suites_witness:
  "find_macro ''M9'' (tb_macros sd_tables) \<noteq> None \<and>
   (\<exists>x s'. suite_run mem_ops su_env (\<lambda>_. su_turn) ''S1'' ''CRON''
        (suites_over (seed_main sd_env sd_tables) (as_world MAIN_MENU)) = (Suite_Returns x, s')
      \<and> sum_status x = R_FAILED \<and> sum_macroRuns x = [not_run ''M9''])"
proof -
  have "find_suite ''S1'' (tb_suites sd_tables) = Some (su_suite ''0 6 * * *'')" "su_macroIds (su_suite ''0 6 * * *'') = [''M9'']"
    by (simp_all add: sd_tables_def find_suite_def su_suite_def)
  moreover have "''M9'' \<notin> range (sd_id sd_env)"
    by (auto simp: sd_env_def image_iff dest: arg_cong [where f = hd])
  moreover have "find_macro ''M9'' (tb_macros sd_tables) \<noteq> None"
    by (simp add: sd_tables_def find_macro_def seed_balance_def)
  moreover have "sue_up0 su_env" "sue_up1 su_env" by (simp_all add: su_env_def)
  moreover have "atm_sane (as_world MAIN_MENU)" by (simp add: atm_sane_def xm_registered_def)
  moreover have "\<forall>n w. atm_sane w \<longrightarrow> atm_sane (te_before su_turn w)" by (simp add: su_turn_def)
  ultimately show ?thesis
    using seed_strands_suites [of "''S1''" sd_tables "su_suite ''0 6 * * *''" sd_env "as_world MAIN_MENU"
        "\<lambda>_. su_turn" su_env mem_ops "''CRON''"]
    by auto
qed

text \<open>The blocked card of the seed, unblocked: the host accepts it, and the macro that is to show its
  rejection passes.\<close>

definition sd_unblocked :: CardRow where
  "sd_unblocked = (seed_card sd_env 2 ''4580555500001111'' ''BLOCKED/USER'' ''2712'' [] [] ''ACTIVE'')"

definition sd_runner :: "bank runner" where
  "sd_runner = \<lparr>ru_macros = [seed_blocked ''M1''], ru_runs = [],
     ru_world = (as_world IDLE)\<lparr>w_session := None,
       w_host := \<lparr>h_stanCounter = 1, h_db = \<lparr>bk_cards = [''4580555500001111'' \<mapsto> sd_unblocked],
         bk_accounts = [sd_id sd_env 2 \<mapsto> blockedAccount (sd_id sd_env 2)], bk_txns = []\<rparr>\<rparr>\<rparr>\<rparr>"

lemma sd_accepted:
  "host_authenticate mem_ops hs_env ''4580555500001111'' (w_host (ru_world sd_runner))
     = Inr \<lparr>au_success = True, au_accountId = Some (sd_id sd_env 2), au_responseCode = ''00'', au_reason = None\<rparr>"
proof -
  have "\<not> host_isExpired hs_env ''2712''" by code_simp
  then show ?thesis
    by (simp add: host_authenticate_def sd_runner_def mem_ops_def find_card_def sd_unblocked_def seed_card_def
        blockedAccount_def seed_account_def)
qed

lemma seed_rejections_unchecked_witness:
  "(\<exists>au. host_authenticate mem_ops hs_env ''4580555500001111'' (w_host (ru_world sd_runner)) = Inr au \<and> au_success au)
   \<and> (\<exists>row q'. mx_run mem_ops ms_run_env (\<lambda>_. ms_env) ''M1'' sd_runner = (Run_Returns row, q') \<and> run_status row = R_PASSED)"
proof
  show "\<exists>au. host_authenticate mem_ops hs_env ''4580555500001111'' (w_host (ru_world sd_runner)) = Inr au \<and> au_success au"
    using sd_accepted by simp
  have m: "find_macro ''M1'' (ru_macros sd_runner) = Some (seed_blocked ''M1'')" "rejection_macro (seed_blocked ''M1'') ''4580555500001111''"
    by (simp_all add: sd_runner_def find_macro_def seed_blocked_def rejection_macro_def) 
  have c: "db_findCard mem_ops ''4580555500001111'' (h_db (w_host (ru_world sd_runner)))
      = Inr (Some (sd_unblocked, Some (blockedAccount (sd_id sd_env 2))))" "cd_pan sd_unblocked = ''4580555500001111''"
    by (simp_all add: sd_runner_def mem_ops_def find_card_def sd_unblocked_def seed_card_def)
  have w: "w_session (ru_world sd_runner) = None" "xm_registered (w_xfs (ru_world sd_runner))"
    "re_up0 ms_run_env" "re_up1 ms_run_env" "\<forall>n. se_runsUp ms_env \<and> ae_rowsUp (se_atm ms_env) \<and> se_before ms_env = id"
    by (simp_all add: sd_runner_def xm_registered_def ms_run_env_def ms_env_def as_env_def)
  show "\<exists>row q'. mx_run mem_ops ms_run_env (\<lambda>_. ms_env) ''M1'' sd_runner = (Run_Returns row, q') \<and> run_status row = R_PASSED"
    by (rule seed_rejections_unchecked [OF m c w])
qed

end
