(* ===== verification/Server_Env.thy ===== *)
theory Server_Env
  imports Xfs_Manager
begin

text \<open>
  The environment of the server (\<^verbatim>\<open>packages/shared/src/env.ts\<close>): the schema that is checked at the start, as a
  function from the variables that are set to the values the server uses. \<^const>\<open>None\<close> means that the process
  exits. The schema library only drives the checks; they are written out here.
\<close>

record XfsServerEnv =
  xse_NODE_ENV :: string
  xse_DATABASE_URL :: string
  xse_REDIS_HOST :: string
  xse_REDIS_PORT :: int
  xse_REDIS_PASSWORD :: "string option"
  xse_PORT :: int
  xse_HOST :: string
  xse_LOG_LEVEL :: string
  xse_LOG_PRETTY :: bool
  xse_LOG_FILE :: "string option"
  xse_CORS_ORIGINS :: string
  xse_BANK_NAME :: string
  xse_TERMINAL_ID :: string

type_synonym variables = "string \<Rightarrow> string option"

text \<open>One of a list of words, a positive whole number after coercion, and text; a variable that is not set
  takes the default.\<close>

definition env_enum :: "string list \<Rightarrow> string \<Rightarrow> string option \<Rightarrow> string option" where
  "env_enum ws d v = (case v of None \<Rightarrow> Some d | Some s \<Rightarrow> if s \<in> set ws then Some s else None)"

definition env_positive :: "int \<Rightarrow> string option \<Rightarrow> int option" where
  "env_positive d v =
     (case v of
        None \<Rightarrow> Some d
      | Some s \<Rightarrow> (case js_to_int (js_Number s) of Some n \<Rightarrow> if 0 < n then Some n else None | None \<Rightarrow> None))"

definition env_url :: "string option \<Rightarrow> string option" where
  "env_url v =
     (case v of
        None \<Rightarrow> None
      | Some s \<Rightarrow> if s \<noteq> [] \<and> (js_startsWith s ''postgres://'' \<or> js_startsWith s ''postgresql://'') then Some s else None)"

definition env_flag :: "string option \<Rightarrow> bool option" where
  "env_flag v =
     (case v of
        None \<Rightarrow> Some False
      | Some s \<Rightarrow> if s = ''true'' then Some True else if s = ''false'' then Some False else None)"

definition loadXfsServerEnv :: "variables \<Rightarrow> XfsServerEnv option" where
  "loadXfsServerEnv env =
     Option.bind (env_enum [''development'', ''test'', ''production''] ''development'' (env ''NODE_ENV'')) (\<lambda>nodeEnv.
     Option.bind (env_url (env ''DATABASE_URL'')) (\<lambda>url.
     Option.bind (env_positive 6379 (env ''REDIS_PORT'')) (\<lambda>redisPort.
     Option.bind (env_positive 3001 (env ''XFS_SERVER_PORT'')) (\<lambda>port.
     Option.bind (env_enum [''trace'', ''debug'', ''info'', ''warn'', ''error'', ''fatal''] ''info'' (env ''LOG_LEVEL'')) (\<lambda>level.
     Option.bind (env_flag (env ''LOG_PRETTY'')) (\<lambda>pretty.
       Some \<lparr>xse_NODE_ENV = nodeEnv, xse_DATABASE_URL = url, xse_REDIS_HOST = js_default (env ''REDIS_HOST'') ''localhost'',
         xse_REDIS_PORT = redisPort, xse_REDIS_PASSWORD = env ''REDIS_PASSWORD'', xse_PORT = port,
         xse_HOST = js_default (env ''XFS_SERVER_HOST'') ''0.0.0.0'', xse_LOG_LEVEL = level, xse_LOG_PRETTY = pretty,
         xse_LOG_FILE = env ''LOG_FILE'', xse_CORS_ORIGINS = js_default (env ''CORS_ORIGINS'') ''http://localhost:3000'',
         xse_BANK_NAME = js_default (env ''ATM_BANK_NAME'') ''Bank Zegen'',
         xse_TERMINAL_ID = js_default (env ''ATM_TERMINAL_ID'') ''ZGN-001''\<rparr>))))))"

section \<open>What the checks give\<close>

lemma env_enum_member: "env_enum ws d v = Some s \<Longrightarrow> d \<in> set ws \<Longrightarrow> s \<in> set ws"
  by (auto simp: env_enum_def split: option.splits if_splits)

lemma env_positive_pos: "env_positive d v = Some n \<Longrightarrow> 0 < d \<Longrightarrow> 0 < n"
  by (auto simp: env_positive_def split: option.splits if_splits)

text \<open>The gateway reads the origins itself, before or after the schema: it gets the same list as the server.\<close>

lemma env_origins_agree:
  "loadXfsServerEnv env = Some e \<Longrightarrow> parseCorsOrigins (xse_CORS_ORIGINS e) = resolveWsOrigins (env ''CORS_ORIGINS'')"
  by (auto simp: loadXfsServerEnv_def bind_eq_Some_conv resolveWsOrigins_def parseCorsOrigins_def)

text \<open>A port of a loaded environment is positive, but may be above the largest port.\<close>

lemma env_ports: "loadXfsServerEnv env = Some e \<Longrightarrow> 0 < xse_PORT e \<and> 0 < xse_REDIS_PORT e"
  by (auto simp: loadXfsServerEnv_def bind_eq_Some_conv env_positive_pos)

lemma env_port_unbounded:
  assumes "0 < n"
  shows "\<exists>e. loadXfsServerEnv [''DATABASE_URL'' \<mapsto> ''postgres://db'', ''XFS_SERVER_PORT'' \<mapsto> js_int_to_string n] = Some e \<and> xse_PORT e = n"
proof -
  have "env_positive 3001 (Some (js_int_to_string n)) = Some n" "env_positive 6379 None = Some 6379"
    using assms by (simp_all add: env_positive_def)
  moreover have "env_url (Some ''postgres://db'') = Some ''postgres://db''" by code_simp
  ultimately show ?thesis by (simp add: loadXfsServerEnv_def env_enum_def env_flag_def)
qed

end
