(* ===== verification/Spec2Isabelle.thy ===== *)
theory Spec2Isabelle
  imports Cdm_Props Idc_Device Siu_Device Ptr_Device Pin_Props Iso8583_Props Iso_Switches
    Emv_Simulator Host_Theorems Xfs_Manager_Props Atm_Races
    Transport_Props Macro_Props Suite_Props Report_Props Report_Endpoints Zxfs_Props Rest_Props
    Codegen_Props Front_Atm_Props Front_Screen Front_Macros_Props Front_Panels_Props Front_Lists
    Seed_Props Server_Env
begin

text \<open>
  \<^bold>\<open>Verification development of the ATM XFS simulator.\<close>

  \<^bold>\<open>The program.\<close> The simulator is a TypeScript monorepo. Virtual devices
  (\<^verbatim>\<open>packages/xfs-devices\<close>: cash dispenser CDM, card reader IDC, PIN pad PIN, receipt printer PTR,
  sensors SIU) follow the contracts of \<^verbatim>\<open>packages/xfs-core\<close>. The server
  (\<^verbatim>\<open>apps/xfs-server\<close>) routes commands to them (\<open>XfsManagerService\<close>), runs the customer's session
  (\<open>AtmAppService\<close>) and plays the issuer (\<open>HostEmulatorService\<close>, over a database). Around these are the
  listeners through which other systems reach the host (TCP with ISO 8583 fields, HTTP with ISO 20022,
  in process), the bridge for a Windows DLL, the recorder and runner of test macros, suites of macros
  with a cron schedule, reports, and the REST and WebSocket endpoints. \<^verbatim>\<open>packages/iso8583\<close>,
  \<^verbatim>\<open>packages/emv\<close> and \<^verbatim>\<open>packages/shared\<close> hold the codecs, the chip simulator, the PIN hash and the
  environment schema. The front end (\<^verbatim>\<open>apps/atm-frontend\<close>) shows the customer's screen and the panels of the
  operator. \<^verbatim>\<open>generators\<close> turn the contract \<^verbatim>\<open>spec/xfs-contract.yaml\<close> into constants for TypeScript and C++,
  and \<^verbatim>\<open>prisma/seed.ts\<close> fills the database.

  \<^bold>\<open>How it is modelled.\<close> Every object is a record, every method a function from the state to a result
  and the state after it; what it emits (events on the bus, settled promises) is returned as a list.
  A thrown error is a value, its message is represented by a constructor or written out. JavaScript
  numbers are \<open>jsnum\<close> (NaN, the infinities, rationals: the amounts are integers far below the range
  where doubles lose precision), strings are lists of characters, \<open>Map\<close>s are association lists, because
  their order is visible. Octets are 8-bit words and the 32-bit shift of the TLV length is kept at its
  width.

  An \<open>async\<close> method is cut into segments at its \<open>await\<close>s. For the ATM application the segments are
  the steps of a transition system (\<^verbatim>\<open>Atm_System\<close>), with the idle timer, the key presses and every other
  user of the manager as further steps, so that its theorems hold for every interleaving. A host
  transaction is atomic, as the database makes it. A PIN verification is two queries and is taken as one
  step; \<open>host_verifyPin_interleaved\<close> shows that requests in between make no difference. A request to the
  recorder or a controller runs without interruption, and so does one to the transport manager, whose
  writes may fail; two lemmas show what a request does that comes in while a start is awaited. The steps
  of a macro are separated by arbitrary other activity (\<open>se_before\<close>), while the handler that a step
  awaits runs alone.

  A component of the front end is a record of its hooks and of the requests that are under way; an event
  (a key, a frame, the reply to one of its requests) gives the state after its handlers and effects and
  the requests sent, so that replies may come late and in any order. A control that is not shown cannot
  be used. \<open>fe_serve\<close> joins the requests of the customer's screen to the endpoints of the server.

  \<^bold>\<open>Parameters.\<close> What is not in the repository is a parameter: the queries of the database
  (\<open>bank_ops\<close>, with their documented behaviour in the locale \<open>bank_db\<close>, under which any query may fail; the
  locale \<open>bank_db_up\<close> adds the assumption that the database is available, for the theorems that say so;
  tables in memory are the instance of both), SHA-1, SHA-256 and the TDES cipher, the XML parser and builder, the job
  queue (\<open>queue_ops\<close>, locale \<open>job_queue\<close>), the operating system that binds a port, clocks, random
  numbers and the formatting of dates and of numbers that are not integers.

  \<^bold>\<open>Theories.\<close>
    \<^item> \<^verbatim>\<open>Js_Prelude\<close>, \<^verbatim>\<open>Js_Bytes\<close>, \<^verbatim>\<open>Js_Number\<close>, \<^verbatim>\<open>Js_Value\<close>: what the sources use of JavaScript, with the
      collections \<open>js_defs\<close> and \<open>js_facts\<close>; \<^verbatim>\<open>Chunked\<close>: data handlers of byte streams, as a locale that
      both TCP listeners interpret.
    \<^item> \<^verbatim>\<open>Xfs_Core\<close> (\<^verbatim>\<open>packages/xfs-core/src\<close>): codes, payloads, envelopes. \<^verbatim>\<open>Virtual_Device\<close>
      (\<^verbatim>\<open>virtual-device.base.ts\<close>) and one theory per device; \<^verbatim>\<open>Cdm_Props\<close> and \<^verbatim>\<open>Pin_Props\<close> show the machine
      invariant of the dispenser, that notes and value are conserved, and that every PIN entry is
      settled once and gives what was typed.
    \<^item> \<^verbatim>\<open>Iso8583\<close>, \<^verbatim>\<open>Iso_Switches\<close> (\<^verbatim>\<open>packages/iso8583/src\<close>) and \<^verbatim>\<open>Emv_Tlv\<close>, \<^verbatim>\<open>Emv_Simulator\<close>
      (\<^verbatim>\<open>packages/emv/src\<close>): codecs with their round trips, termination of the TLV decoder and the input on
      which it does not end, routing, and the chip.
    \<^item> \<^verbatim>\<open>Pin_Hash\<close>, \<^verbatim>\<open>Bank_Db\<close>, \<^verbatim>\<open>Host_Emulator\<close> (\<^verbatim>\<open>host-emulator.service.ts\<close>), with \<^verbatim>\<open>Host_Props\<close> and
      \<^verbatim>\<open>Host_Theorems\<close>: the exact effect of an authorisation, a decision table, refinement of an abstract
      bank, no overdraft, the ledger, reversal.
    \<^item> \<^verbatim>\<open>Tcp_Transport\<close>, \<^verbatim>\<open>Host_Transports\<close>, \<^verbatim>\<open>Transport_Manager\<close> (\<^verbatim>\<open>host-transport/\<close>), with \<^verbatim>\<open>Tcp_Props\<close> and
      \<^verbatim>\<open>Transport_Props\<close>: framing, dispatch into the host, the invariant that ties running listeners to
      rows of the table whatever writes fail (locale \<open>host_listener\<close> for the three kinds).
    \<^item> \<^verbatim>\<open>Xfs_Manager\<close> (\<^verbatim>\<open>xfs-manager.service.ts\<close> and the endpoints of \<^verbatim>\<open>xfs/\<close>), with \<^verbatim>\<open>Xfs_Manager_Props\<close>: every
      command is answered once.
    \<^item> \<^verbatim>\<open>Atm_Types\<close>, \<^verbatim>\<open>Atm_App\<close>, \<^verbatim>\<open>Atm_System\<close> (\<^verbatim>\<open>atm-app.service.ts\<close>): \<^verbatim>\<open>Atm_Invariants\<close> holds in every
      interleaving, \<^verbatim>\<open>Atm_Props\<close> is about a handler that runs alone (\<open>atm_drive\<close>), \<^verbatim>\<open>Atm_Races\<close> shows two
      interleavings that go wrong.
    \<^item> \<^verbatim>\<open>Macro_Recorder\<close>, \<^verbatim>\<open>Macro_Runner\<close> (\<^verbatim>\<open>macros/\<close>), with \<^verbatim>\<open>Macro_Props\<close>: recordings against what the
      runner makes of them. \<^verbatim>\<open>Suite_Runner\<close> (\<^verbatim>\<open>suites/\<close>), with \<^verbatim>\<open>Suite_Props\<close> for the runs and
      \<^verbatim>\<open>Schedule_Props\<close> for the schedule. \<^verbatim>\<open>Reports\<close>, \<^verbatim>\<open>Report_Detail\<close>,
      \<^verbatim>\<open>Report_Endpoints\<close> (\<^verbatim>\<open>reports/\<close>), with \<^verbatim>\<open>Report_Props\<close>.
    \<^item> \<^verbatim>\<open>Zxfs_Bridge\<close> (\<^verbatim>\<open>bridge/zxfs-bridge.service.ts\<close>), with \<^verbatim>\<open>Zxfs_Props\<close>: framing, one response per request,
      the frame that ends the process.
    \<^item> \<^verbatim>\<open>Request_Bodies\<close>, \<^verbatim>\<open>Rest_Endpoints\<close>, \<^verbatim>\<open>Suite_Endpoints\<close>: the controllers of sessions, cards,
      cassettes, themes, macros and suites; \<^verbatim>\<open>Rest_Props\<close>: a created card and its PIN. \<^verbatim>\<open>Server_Env\<close>
      (\<^verbatim>\<open>packages/shared/src/env.ts\<close>): the schema of the environment.
    \<^item> \<^verbatim>\<open>Contract_Codegen\<close> (\<^verbatim>\<open>generators/\<close>), \<^verbatim>\<open>Contract_Files\<close> (the contract and the generated files of the
      repository as values), with \<^verbatim>\<open>Codegen_Props\<close>: both languages get the tables of the contract, and the
      devices of the development use them. \<^verbatim>\<open>Utf8_Text\<close>: characters beyond ASCII.
    \<^item> \<^verbatim>\<open>Front_Atm\<close> (\<^verbatim>\<open>AtmScreen.tsx\<close>, \<^verbatim>\<open>useAtmSocket.ts\<close>) and \<^verbatim>\<open>Front_Screen\<close> (\<^verbatim>\<open>BankScreen.tsx\<close>), with
      \<^verbatim>\<open>Front_Atm_Props\<close>: what a key leads to at the ATM, and the PIN entry that is started once.
    \<^item> \<^verbatim>\<open>Front_Macros\<close> (\<^verbatim>\<open>MacroStepEditor.tsx\<close>), with \<^verbatim>\<open>Front_Macros_Props\<close>: what is saved is what runs.
      \<^verbatim>\<open>Front_Panels\<close> (\<^verbatim>\<open>MacroStudio.tsx\<close>, \<^verbatim>\<open>SuitePanel.tsx\<close>, \<^verbatim>\<open>ReportsPanel.tsx\<close>, \<^verbatim>\<open>SessionHistory.tsx\<close>), with
      \<^verbatim>\<open>Front_Panels_Props\<close>: requests in flight. \<^verbatim>\<open>Front_Lists\<close>: the other panels of the operator.
    \<^item> \<^verbatim>\<open>Seed_Data\<close> (\<^verbatim>\<open>prisma/seed.ts\<close>), with \<^verbatim>\<open>Seed_Props\<close>: what a re-seed leaves of the suites, and what the
      seeded rejection macros check.

  \<^bold>\<open>Bounds.\<close> \<open>atm_drive\<close> makes at most 7 calls, more than any handler of the ATM makes, so
  that a handler that runs alone and is not kept by the PIN pad returns; the theorems that it ends
  are stated as such. The decoders, the framing loops and the splitting of text are total functions with
  a measure; the TLV decoder, which need not end, is partial and its termination is proved on the inputs
  where it holds. The runner of macros needs no bound: a step that never returns is the outcome
  \<open>Step_Waits\<close>.

  \<^bold>\<open>Found.\<close> Where the code does not do what it means to, the behaviour is stated as a theorem: a
  cancelled withdrawal that stays debited, a PIN check that opens the menu of the next card, a session
  that never ends, a negative amount over TCP that credits, a recording that can never pass, a report that
  marks no step as passed, a cron expression after which the server does not start, a frame that ends the
  process, a screen that asks for a PIN only once, a drawer that shows the wrong run, suites without
  their macros after a re-seed, a withdrawal that stays debited when its reversal fails, a listener that runs
  under a row that is not enabled. The manifest lists them with their lines.

  \<^bold>\<open>Not modelled.\<close> Markup, styling and animation of the front end, its static components, and the libraries
  that hold the socket and send the requests; of the seed data the hardware profiles, colours and receipt
  templates, which no modelled component reads; the C++ DLL (another language); start-up, health, database
  connection and logging (configuration of the frameworks); fonts and layout of the PDF documents; the
  reading of YAML. Wall-clock time stamps and durations of commands are left out where nothing depends
  on them. The text of JSON on the bridge and the unchecked casts of its payloads are parameters.
\<close>

end
